(* ===== verification/Prelude.thy ===== *)
theory Prelude
  imports Main "HOL-Library.Char_ord" "HOL-Library.List_Lexorder" "HOL-Library.Product_Lexorder"
begin

text \<open>
  Shared vocabulary of the development: Python exceptions as values of a sum type, the
  sequencing combinators that every model uses for early exits, and generic facts on lists
  and association lists.
  \<^item> \<open>exn\<close> lists the exception classes the modelled code raises or catches; a subclass
    relation that a handler relies on is written out at the handler.
  \<^item> \<open>ebind\<close> runs the second computation only when the first returned; \<open>require\<close>
    is a guarded \<^verbatim>\<open>raise\<close>; \<open>traverse\<close> is a Python loop that stops at the first
    exception.
  The collection \<open>exn_simps\<close> carries the rules that reduce these combinators.
\<close>

named_theorems exn_simps

datatype exn =
    TypeError
  | ValueError
  | KeyError
  | AttributeError
  | OverflowError
  | RuntimeError
  | AgentPolicyError string
  | AgentToolError string bool
  | AgentReplayError string
  | OtherException

definition ebind :: "'e + 'a \<Rightarrow> ('a \<Rightarrow> 'e + 'b) \<Rightarrow> 'e + 'b" where
  "ebind m f = (case m of Inl e \<Rightarrow> Inl e | Inr x \<Rightarrow> f x)"

definition require :: "bool \<Rightarrow> 'e \<Rightarrow> 'e + unit" where
  "require b e = (if b then Inr () else Inl e)"

fun traverse :: "('a \<Rightarrow> 'e + 'b) \<Rightarrow> 'a list \<Rightarrow> 'e + 'b list" where
  "traverse f [] = Inr []"
| "traverse f (x # xs) = ebind (f x) (\<lambda>y. ebind (traverse f xs) (\<lambda>ys. Inr (y # ys)))"

text \<open>\<open>of_option e\<close> turns a failed lookup or a failed validation into the exception \<open>e\<close>.\<close>

definition of_option :: "'e \<Rightarrow> 'a option \<Rightarrow> 'e + 'a" where
  "of_option e x = (case x of None \<Rightarrow> Inl e | Some v \<Rightarrow> Inr v)"

lemma ebind_simps [simp, exn_simps]:
  "ebind (Inl e) f = Inl e"
  "ebind (Inr x) f = f x"
  by (simp_all add: ebind_def)

lemma ebind_Inr_iff [simp]:
  "ebind m f = Inr y \<longleftrightarrow> (\<exists>x. m = Inr x \<and> f x = Inr y)"
  by (cases m) simp_all

lemma ebind_Inl_iff:
  "ebind m f = Inl e \<longleftrightarrow> m = Inl e \<or> (\<exists>x. m = Inr x \<and> f x = Inl e)"
  by (cases m) simp_all

lemma require_simps [simp, exn_simps]:
  "require True e = Inr ()"
  "require False e = Inl e"
  by (simp_all add: require_def)

lemma require_Inr_iff [simp]: "require b e = Inr u \<longleftrightarrow> b"
  by (simp add: require_def)

lemma require_Inl_iff [simp]: "require b e = Inl e' \<longleftrightarrow> \<not> b \<and> e' = e"
  by (auto simp: require_def)

lemma of_option_simps [simp, exn_simps]:
  "of_option e None = Inl e"
  "of_option e (Some v) = Inr v"
  by (simp_all add: of_option_def)

lemma of_option_Inr_iff [simp]: "of_option e x = Inr v \<longleftrightarrow> x = Some v"
  by (cases x) simp_all

lemma of_option_Inl_iff [simp]: "of_option e x = Inl e' \<longleftrightarrow> x = None \<and> e' = e"
  by (cases x) auto

lemma singleton_case_Inr_iff [simp]:
  "(case xs of [y] \<Rightarrow> Inr y | _ \<Rightarrow> Inl e) = Inr z \<longleftrightarrow> xs = [z]"
  by (auto split: list.splits)

lemma traverse_Inr_iff:
  "traverse f xs = Inr ys \<longleftrightarrow> list_all2 (\<lambda>x y. f x = Inr y) xs ys"
  by (induction xs arbitrary: ys) (auto simp: list_all2_Cons1)

lemma traverse_in:
  "traverse f xs = Inr ys \<Longrightarrow> x \<in> set xs \<Longrightarrow> \<exists>y \<in> set ys. f x = Inr y"
  by (induction xs arbitrary: ys) auto

lemma traverse_out:
  "traverse f xs = Inr ys \<Longrightarrow> y \<in> set ys \<Longrightarrow> \<exists>x \<in> set xs. f x = Inr y"
  by (induction xs arbitrary: ys) auto

lemma traverse_length: "traverse f xs = Inr ys \<Longrightarrow> length ys = length xs"
  by (auto simp: traverse_Inr_iff dest: list_all2_lengthD)

lemma traverse_Inr_map: "(\<And>x. x \<in> set xs \<Longrightarrow> f x = Inr (g x)) \<Longrightarrow> traverse f xs = Inr (map g xs)"
  by (induction xs) auto

subsection \<open>Association lists with distinct keys: insertion-ordered dictionaries\<close>

text \<open>
  A Python dictionary keeps the position of a key that is assigned again; \<open>dict_set\<close>
  overwrites in place and appends a new key at the end.
\<close>

fun dict_set :: "'k \<Rightarrow> 'v \<Rightarrow> ('k \<times> 'v) list \<Rightarrow> ('k \<times> 'v) list" where
  "dict_set k v [] = [(k, v)]"
| "dict_set k v ((k', v') # m) = (if k' = k then (k, v) # m else (k', v') # dict_set k v m)"

lemma map_of_dict_set: "map_of (dict_set k v m) = (map_of m)(k \<mapsto> v)"
  by (induction m) auto

lemma keys_dict_set: "set (map fst (dict_set k v m)) = insert k (set (map fst m))"
  by (simp add: map_of_dict_set flip: dom_map_of_conv_image_fst)

lemma distinct_dict_set: "distinct (map fst m) \<Longrightarrow> distinct (map fst (dict_set k v m))"
proof (induction m)
  case (Cons p m)
  then show ?case
    by (cases p) (use keys_dict_set [of k v m] in auto)
qed simp

text \<open>\<open>nub\<close> is \<^verbatim>\<open>tuple(dict.fromkeys(xs))\<close>: first occurrences, in order.\<close>

fun nub :: "'a list \<Rightarrow> 'a list" where
  "nub [] = []"
| "nub (x # xs) = x # removeAll x (nub xs)"

lemma set_nub [simp]: "set (nub xs) = set xs"
  by (induction xs) auto

lemma distinct_nub [simp]: "distinct (nub xs)"
  by (induction xs) (auto simp: distinct_removeAll)

lemma nub_empty_iff [simp]: "nub xs = [] \<longleftrightarrow> xs = []"
  by (cases xs) simp_all

lemma nub_distinct: "distinct xs \<Longrightarrow> nub xs = xs"
  by (induction xs) simp_all

subsection \<open>Lists\<close>

text \<open>\<^verbatim>\<open>max(xs, key=f)\<close> on a non-empty list: the first element of maximal key.\<close>

fun max_first :: "('a \<Rightarrow> 'k::linorder) \<Rightarrow> 'a \<Rightarrow> 'a list \<Rightarrow> 'a" where
  "max_first f best [] = best"
| "max_first f best (x # xs) = max_first f (if f best < f x then x else best) xs"

lemma max_first_in: "max_first f b xs \<in> set (b # xs)"
proof (induction xs arbitrary: b)
  case (Cons x xs)
  show ?case using Cons [of x] Cons [of b] by auto
qed simp

lemma max_first_ge: "y \<in> set (b # xs) \<Longrightarrow> f y \<le> f (max_first f b xs)"
proof (induction xs arbitrary: b y)
  case (Cons x xs)
  show ?case
  proof (cases "f b < f x")
    case True
    then show ?thesis
      using Cons.prems Cons.IH [of y x] Cons.IH [of x x] by auto
  next
    case False
    then show ?thesis
      using Cons.prems Cons.IH [of y b] Cons.IH [of b b] by auto
  qed
qed simp

end
