(* ===== verification/PyValue.thy ===== *)
theory PyValue
  imports Prelude "HOL-Library.Log_Nat" Complex_Main
begin

text \<open>
  The part of Python's value world that the agent code inspects at run time.

  A \<^verbatim>\<open>float\<close> is a finite double, held as the rational number it denotes, or one of the three
  non-finite values. The agent code only compares, negates and takes absolute values of floats,
  which are exact on doubles, so nothing is idealised here (the two zeros are identified).
  A \<^verbatim>\<open>dict[str, Any]\<close> is an association list with distinct keys; Python's \<^verbatim>\<open>==\<close> on such
  values is \<open>py_eq\<close>: numbers (booleans included) by value, dictionaries by key.
  Strings are their UTF-8 bytes.
\<close>

subsection \<open>Numbers\<close>

datatype pyfloat = Fin rat | PosInf | NegInf | NaN

fun isfinite :: "pyfloat \<Rightarrow> bool" where
  "isfinite (Fin _) = True"
| "isfinite _ = False"

fun flt_less :: "pyfloat \<Rightarrow> pyfloat \<Rightarrow> bool" where
  "flt_less NaN _ = False"
| "flt_less _ NaN = False"
| "flt_less (Fin a) (Fin b) = (a < b)"
| "flt_less PosInf _ = False"
| "flt_less _ NegInf = False"
| "flt_less _ _ = True"

text \<open>
  \<^verbatim>\<open>float(n)\<close> of an \<^verbatim>\<open>int\<close>: exact up to 53 bits, otherwise rounded to the nearest multiple of
  the unit in the last place, ties to the even one, and \<^verbatim>\<open>OverflowError\<close> beyond the doubles.
\<close>

definition round_half_even :: "nat \<Rightarrow> nat \<Rightarrow> nat" where
  "round_half_even n d =
     (let q = n div d; r = n mod d
      in if 2 * r < d then q else if d < 2 * r then Suc q else if even q then q else Suc q)"

definition float_magnitude :: "nat \<Rightarrow> nat" where
  "float_magnitude n =
     (let bits = floorlog 2 n
      in if bits \<le> 53 then n else round_half_even n (2 ^ (bits - 53)) * 2 ^ (bits - 53))"

definition float_of_int :: "int \<Rightarrow> exn + pyfloat" where
  "float_of_int i =
     (let m = float_magnitude (nat \<bar>i\<bar>)
      in if 2 ^ 1024 \<le> m then Inl OverflowError
         else Inr (Fin (if i < 0 then - of_nat m else of_nat m)))"

subsection \<open>JSON-shaped values\<close>

datatype json =
    JNull
  | JBool bool
  | JInt int
  | JFloat pyfloat
  | JStr string
  | JList "json list"
  | JObj "(string \<times> json) list"

type_synonym dict = "(string \<times> json) list"

text \<open>\<^verbatim>\<open>d.get(key)\<close>: a missing key and a stored \<^verbatim>\<open>None\<close> give the same answer.\<close>

definition dget :: "dict \<Rightarrow> string \<Rightarrow> json" where
  "dget d k = (case map_of d k of None \<Rightarrow> JNull | Some v \<Rightarrow> v)"

text \<open>\<^verbatim>\<open>v.get(key) if isinstance(v, dict) else None\<close>\<close>

definition jget :: "json \<Rightarrow> string \<Rightarrow> json" where
  "jget j k = (case j of JObj d \<Rightarrow> dget d k | _ \<Rightarrow> JNull)"

fun is_dict :: "json \<Rightarrow> bool" where
  "is_dict (JObj _) = True"
| "is_dict _ = False"

definition dict_keys :: "dict \<Rightarrow> string list" where
  "dict_keys d = map fst d"

text \<open>A type test that raises on every other kind of value.\<close>

lemma case_json_Inr_iff [simp]:
  "(case j of JObj d \<Rightarrow> f d | _ \<Rightarrow> Inl e) = Inr y \<longleftrightarrow> (\<exists>d. j = JObj d \<and> f d = Inr y)"
  "(case j of JList xs \<Rightarrow> g xs | _ \<Rightarrow> Inl e) = Inr y \<longleftrightarrow> (\<exists>xs. j = JList xs \<and> g xs = Inr y)"
  "(case j of JInt i \<Rightarrow> h i | _ \<Rightarrow> Inl e) = Inr y \<longleftrightarrow> (\<exists>i. j = JInt i \<and> h i = Inr y)"
  by (cases j; simp)+

text \<open>Lists and dictionaries have no hash: looking one up in a set raises \<^verbatim>\<open>TypeError\<close>.\<close>

fun hashable :: "json \<Rightarrow> bool" where
  "hashable (JList _) = False"
| "hashable (JObj _) = False"
| "hashable _ = True"

text \<open>\<^verbatim>\<open>v in {s1, s2, ...}\<close> for a set of strings.\<close>

definition in_str_set :: "json \<Rightarrow> string list \<Rightarrow> exn + bool" where
  "in_str_set v S = (if hashable v then Inr (\<exists>s \<in> set S. v = JStr s) else Inl TypeError)"

text \<open>
  \<^verbatim>\<open>isinstance(v, bool) or not isinstance(v, Real)\<close> is rejected; what is left is converted by
  \<^verbatim>\<open>float(v)\<close>. The first component of the error tells which of the two failed.
\<close>

fun real_number :: "json \<Rightarrow> bool" where
  "real_number (JInt _) = True"
| "real_number (JFloat _) = True"
| "real_number _ = False"

fun to_float :: "json \<Rightarrow> exn + pyfloat" where
  "to_float (JInt i) = float_of_int i"
| "to_float (JFloat f) = Inr f"
| "to_float _ = Inl TypeError"

fun strict_int :: "json \<Rightarrow> int option" where
  "strict_int (JInt i) = Some i"
| "strict_int _ = None"

subsection \<open>Equality and JSON-serialisability\<close>

text \<open>
  Python's \<^verbatim>\<open>==\<close> identifies numbers of equal value whatever their type and ignores the order
  of dictionary keys. \<open>canon\<close> maps a value to the representative of its class. The values
  compared in the modelled code hold no \<^verbatim>\<open>nan\<close> (they passed \<^verbatim>\<open>ensure_json_value\<close>).
\<close>

fun canon :: "json \<Rightarrow> json" where
  "canon JNull = JNull"
| "canon (JBool b) = JFloat (Fin (if b then 1 else 0))"
| "canon (JInt i) = JFloat (Fin (of_int i))"
| "canon (JFloat f) = JFloat f"
| "canon (JStr s) = JStr s"
| "canon (JList xs) = JList (map canon xs)"
| "canon (JObj d) = JObj (sort_key fst (map (\<lambda>p. (fst p, canon (snd p))) d))"

definition py_eq :: "json \<Rightarrow> json \<Rightarrow> bool" where
  "py_eq a b = (canon a = canon b)"

lemma py_eq_refl [simp]: "py_eq a a"
  by (simp add: py_eq_def)

lemma py_eq_sym: "py_eq a b \<Longrightarrow> py_eq b a"
  by (simp add: py_eq_def)

lemma py_eq_trans: "py_eq a b \<Longrightarrow> py_eq b c \<Longrightarrow> py_eq a c"
  by (simp add: py_eq_def)

lemma py_eq_JStr_iff [simp]: "py_eq (JStr s) j \<longleftrightarrow> j = JStr s"
  by (cases j) (auto simp: py_eq_def)

text \<open>\<^verbatim>\<open>json.dumps(value, allow_nan=False)\<close> raises on a non-finite float anywhere inside.\<close>

fun json_ok :: "json \<Rightarrow> bool" where
  "json_ok (JFloat f) = isfinite f"
| "json_ok (JList xs) = list_all json_ok xs"
| "json_ok (JObj d) = list_all (\<lambda>p. json_ok (snd p)) d"
| "json_ok _ = True"

definition ensure_json_value :: "json \<Rightarrow> exn + unit" where
  "ensure_json_value v = require (json_ok v) ValueError"

subsection \<open>Field decoding of strict models\<close>

text \<open>
  A pydantic model with \<^verbatim>\<open>extra="forbid"\<close> accepts a dictionary whose keys all are fields;
  \<open>model_fields\<close> checks that, \<open>field\<close> decodes a required field and \<open>field_default\<close> a field
  with a default. \<open>None\<close> stands for the \<^verbatim>\<open>ValidationError\<close> (a \<^verbatim>\<open>ValueError\<close>).
\<close>

definition model_fields :: "string list \<Rightarrow> json \<Rightarrow> dict option" where
  "model_fields names j =
     (case j of
        JObj d \<Rightarrow> if \<forall>k \<in> set (map fst d). k \<in> set names then Some d else None
      | _ \<Rightarrow> None)"

definition field :: "dict \<Rightarrow> string \<Rightarrow> (json \<Rightarrow> 'a option) \<Rightarrow> 'a option" where
  "field d k dec = Option.bind (map_of d k) dec"

definition field_default :: "dict \<Rightarrow> string \<Rightarrow> 'a \<Rightarrow> (json \<Rightarrow> 'a option) \<Rightarrow> 'a option" where
  "field_default d k dflt dec = (case map_of d k of None \<Rightarrow> Some dflt | Some v \<Rightarrow> dec v)"

fun dec_str :: "json \<Rightarrow> string option" where
  "dec_str (JStr s) = Some s"
| "dec_str _ = None"

definition dec_pattern :: "(string \<Rightarrow> bool) \<Rightarrow> json \<Rightarrow> string option" where
  "dec_pattern p j = (case j of JStr s \<Rightarrow> if p s then Some s else None | _ \<Rightarrow> None)"

definition dec_literal :: "string list \<Rightarrow> json \<Rightarrow> string option" where
  "dec_literal alts = dec_pattern (\<lambda>s. s \<in> set alts)"

fun dec_bool :: "json \<Rightarrow> bool option" where
  "dec_bool (JBool b) = Some b"
| "dec_bool _ = None"

definition dec_int :: "(int \<Rightarrow> bool) \<Rightarrow> json \<Rightarrow> int option" where
  "dec_int p j = (case j of JInt i \<Rightarrow> if p i then Some i else None | _ \<Rightarrow> None)"

text \<open>A strict float field takes a float or an \<^verbatim>\<open>int\<close>, never a \<^verbatim>\<open>bool\<close>; here it must be finite.\<close>

definition dec_finite :: "(rat \<Rightarrow> bool) \<Rightarrow> json \<Rightarrow> rat option" where
  "dec_finite p j =
     (case to_float j of
        Inr (Fin r) \<Rightarrow> if p r then Some r else None
      | _ \<Rightarrow> None)"

definition dec_optional :: "(json \<Rightarrow> 'a option) \<Rightarrow> json \<Rightarrow> 'a option option" where
  "dec_optional dec j = (case j of JNull \<Rightarrow> Some None | _ \<Rightarrow> map_option Some (dec j))"

fun seq_options :: "'a option list \<Rightarrow> 'a list option" where
  "seq_options [] = Some []"
| "seq_options (x # xs) =
     (case x of None \<Rightarrow> None | Some v \<Rightarrow> map_option (\<lambda>vs. v # vs) (seq_options xs))"

definition dec_list :: "(json \<Rightarrow> 'a option) \<Rightarrow> json \<Rightarrow> 'a list option" where
  "dec_list dec j = (case j of JList xs \<Rightarrow> seq_options (map dec xs) | _ \<Rightarrow> None)"

definition dec_dict :: "json \<Rightarrow> dict option" where
  "dec_dict j = (case j of JObj d \<Rightarrow> Some d | _ \<Rightarrow> None)"

fun num_value :: "json \<Rightarrow> pyfloat option" where
  "num_value (JBool b) = Some (Fin (if b then 1 else 0))"
| "num_value (JInt i) = Some (Fin (of_int i))"
| "num_value (JFloat f) = Some f"
| "num_value _ = None"

text \<open>The lax \<^verbatim>\<open>bool\<close> field of a model that is not validated in strict mode.\<close>

definition dec_lax_bool :: "json \<Rightarrow> bool option" where
  "dec_lax_bool j =
     (case num_value j of
        Some (Fin r) \<Rightarrow> if r = 0 then Some False else if r = 1 then Some True else None
      | Some _ \<Rightarrow> None
      | None \<Rightarrow>
          (case j of
             JStr s \<Rightarrow>
               (let t = map (\<lambda>c. if CHR ''A'' \<le> c \<and> c \<le> CHR ''Z''
                                 then char_of (of_char c + 32 :: nat) else c) s
                in if t \<in> {''0'', ''off'', ''f'', ''false'', ''n'', ''no''} then Some False
                   else if t \<in> {''1'', ''on'', ''t'', ''true'', ''y'', ''yes''} then Some True
                   else None)
           | _ \<Rightarrow> None))"

lemmas decoder_defs =
  model_fields_def field_def field_default_def dec_pattern_def dec_literal_def dec_int_def
  dec_finite_def dec_optional_def dec_list_def dec_dict_def

lemma seq_options_map_Some [simp]: "seq_options (map (\<lambda>x. Some (f x)) xs) = Some (map f xs)"
  by (induction xs) simp_all

lemma dec_list_map_JStr [simp]: "dec_list dec_str (JList (map JStr xs)) = Some xs"
  by (simp add: dec_list_def comp_def)

lemma seq_options_SomeD:
  "seq_options (map dec xs) = Some ys \<Longrightarrow> list_all2 (\<lambda>x y. dec x = Some y) xs ys"
  by (induction xs arbitrary: ys) (auto split: option.splits)

lemma dec_lax_bool_JBool [simp]: "dec_lax_bool (JBool b) = Some b"
  by (simp add: dec_lax_bool_def)

subsection \<open>Character classes of the identifier patterns\<close>

definition lower :: "char \<Rightarrow> bool" where
  "lower c = (c \<in> set ''abcdefghijklmnopqrstuvwxyz'')"

definition upper :: "char \<Rightarrow> bool" where
  "upper c = (c \<in> set ''ABCDEFGHIJKLMNOPQRSTUVWXYZ'')"

definition digit :: "char \<Rightarrow> bool" where
  "digit c = (c \<in> set ''0123456789'')"

definition hex :: "char \<Rightarrow> bool" where
  "hex c = (c \<in> set ''0123456789abcdef'')"

text \<open>\<open>head_tail h t n s\<close>: a character of class \<open>h\<close>, then at most \<open>n\<close> of class \<open>t\<close>.\<close>

definition head_tail :: "(char \<Rightarrow> bool) \<Rightarrow> (char \<Rightarrow> bool) \<Rightarrow> nat \<Rightarrow> string \<Rightarrow> bool" where
  "head_tail h t n s =
     (case s of [] \<Rightarrow> False | c # cs \<Rightarrow> h c \<and> list_all t cs \<and> length cs \<le> n)"

definition hex_exact :: "nat \<Rightarrow> string \<Rightarrow> bool" where
  "hex_exact n s = (length s = n \<and> list_all hex s)"

text \<open>A fixed prefix followed by exactly \<open>n\<close> hexadecimal digits.\<close>

definition prefixed_hex :: "string \<Rightarrow> nat \<Rightarrow> string \<Rightarrow> bool" where
  "prefixed_hex p n s = (take (length p) s = p \<and> hex_exact n (drop (length p) s))"

lemmas pattern_defs = lower_def upper_def digit_def hex_def head_tail_def hex_exact_def prefixed_hex_def

end
