(* ===== verification/AgentContracts.thy ===== *)
theory AgentContracts
  imports PyValue
begin

text \<open>
  \<^verbatim>\<open>src/search_quality/agent/contracts.py\<close>: the strict, provider-independent contracts of the
  Agent runtime. Every model class is a record or a datatype; its field constraints and model
  validators are one bool-valued predicate; \<^verbatim>\<open>model_dump(mode="json")\<close> is a \<open>dump_*\<close> function
  and \<^verbatim>\<open>model_validate\<close> a \<open>decode_*\<close> function into \<open>option\<close>. Keys of a dump are listed in the
  sorted order that every serialisation of the code uses.
  The lemmas show that decoding a dump gives the value back.
\<close>

subsection \<open>Identifier patterns\<close>

definition SAFE_ID_PATTERN :: "string \<Rightarrow> bool" where
  "SAFE_ID_PATTERN = head_tail lower (\<lambda>c. lower c \<or> digit c \<or> c = CHR ''_'' \<or> c = CHR ''-'') 63"

definition REASON_CODE_PATTERN :: "string \<Rightarrow> bool" where
  "REASON_CODE_PATTERN = head_tail lower (\<lambda>c. lower c \<or> digit c \<or> c = CHR ''_'') 63"

text \<open>The last 13 characters are a dash and 12 hexadecimal digits, the rest a short slug.\<close>

definition RUN_ID_PATTERN :: "string \<Rightarrow> bool" where
  "RUN_ID_PATTERN s =
     (let n = length s - 13
      in 13 < length s \<and> head_tail lower (\<lambda>c. lower c \<or> digit c \<or> c = CHR ''-'') 31 (take n s)
         \<and> prefixed_hex ''-'' 12 (drop n s))"

definition evidence_char :: "char \<Rightarrow> bool" where
  "evidence_char c = (lower c \<or> upper c \<or> digit c \<or> c \<in> set '':._-'')"

definition EVIDENCE_REF_PATTERN :: "string \<Rightarrow> bool" where
  "EVIDENCE_REF_PATTERN s =
     (\<exists>p \<in> set [''run:'', ''comparison:'', ''query:''].
        take (length p) s = p \<and>
        head_tail (\<lambda>c. lower c \<or> upper c \<or> digit c) evidence_char 191 (drop (length p) s))"

definition MODEL_ID_PATTERN :: "string \<Rightarrow> bool" where
  "MODEL_ID_PATTERN = head_tail (\<lambda>c. lower c \<or> upper c \<or> digit c) evidence_char 127"

subsection \<open>States, outcomes and tasks\<close>

datatype agent_state = PLANNING | ACTING | OBSERVING | DECIDING | COMPLETED | FAILED

fun state_value :: "agent_state \<Rightarrow> string" where
  "state_value PLANNING = ''planning''"
| "state_value ACTING = ''acting''"
| "state_value OBSERVING = ''observing''"
| "state_value DECIDING = ''deciding''"
| "state_value COMPLETED = ''completed''"
| "state_value FAILED = ''failed''"

datatype terminal_outcome = ACCEPT | REJECT | INCONCLUSIVE | PROPOSAL_READY | NO_SAFE_IMPROVEMENT

fun outcome_value :: "terminal_outcome \<Rightarrow> string" where
  "outcome_value ACCEPT = ''accept''"
| "outcome_value REJECT = ''reject''"
| "outcome_value INCONCLUSIVE = ''inconclusive''"
| "outcome_value PROPOSAL_READY = ''proposal_ready''"
| "outcome_value NO_SAFE_IMPROVEMENT = ''no_safe_improvement''"

definition all_outcomes :: "terminal_outcome list" where
  "all_outcomes = [ACCEPT, REJECT, INCONCLUSIVE, PROPOSAL_READY, NO_SAFE_IMPROVEMENT]"

definition outcome_of_value :: "string \<Rightarrow> terminal_outcome option" where
  "outcome_of_value s = find (\<lambda>oc. outcome_value oc = s) all_outcomes"

lemma outcome_of_value_value [simp]: "outcome_of_value (outcome_value oc) = Some oc"
  by (cases oc) (simp_all add: outcome_of_value_def all_outcomes_def)

record agent_task =
  at_task_id :: string
  at_baseline_run_id :: string
  at_candidate_run_id :: string
  at_primary_metric :: string
  at_max_regressions_to_inspect :: int

definition agent_task_ok :: "agent_task \<Rightarrow> bool" where
  "agent_task_ok t =
     (SAFE_ID_PATTERN (at_task_id t) \<and> RUN_ID_PATTERN (at_baseline_run_id t) \<and>
      RUN_ID_PATTERN (at_candidate_run_id t) \<and> at_primary_metric t = ''ndcg@10'' \<and>
      0 \<le> at_max_regressions_to_inspect t \<and> at_max_regressions_to_inspect t \<le> 3 \<and>
      at_baseline_run_id t \<noteq> at_candidate_run_id t)"

abbreviation UNIFORM_VARIANT :: string where
  "UNIFORM_VARIANT \<equiv> ''title-exact-multifield-v1''"

abbreviation CONSERVATIVE_VARIANT :: string where
  "CONSERVATIVE_VARIANT \<equiv> ''title-exact-multifield-weighted-v1''"

abbreviation AGGRESSIVE_VARIANT :: string where
  "AGGRESSIVE_VARIANT \<equiv> ''title-exact-multifield-weighted-aggressive-v1''"

definition RETRIEVAL_PIPELINE_VARIANTS :: "string list" where
  "RETRIEVAL_PIPELINE_VARIANTS = [UNIFORM_VARIANT, CONSERVATIVE_VARIANT, AGGRESSIVE_VARIANT]"

datatype decision_policy = Fixed_sequence_v1 | Adaptive_llm_v1

fun decision_policy_value :: "decision_policy \<Rightarrow> string" where
  "decision_policy_value Fixed_sequence_v1 = ''fixed_sequence_v1''"
| "decision_policy_value Adaptive_llm_v1 = ''adaptive_llm_v1''"

record retrieval_task =
  rt_task_id :: string
  rt_profile :: string
  rt_decision_policy :: decision_policy
  rt_candidate_variants :: "string list"

definition retrieval_task_ok :: "retrieval_task \<Rightarrow> bool" where
  "retrieval_task_ok t =
     (SAFE_ID_PATTERN (rt_task_id t) \<and> rt_profile t = ''smoke'' \<and>
      rt_candidate_variants t = RETRIEVAL_PIPELINE_VARIANTS)"

datatype runtime_task = CompareTask agent_task | RetrievalTask retrieval_task

fun runtime_task_ok :: "runtime_task \<Rightarrow> bool" where
  "runtime_task_ok (CompareTask t) = agent_task_ok t"
| "runtime_task_ok (RetrievalTask t) = retrieval_task_ok t"

fun dump_task :: "runtime_task \<Rightarrow> json" where
  "dump_task (CompareTask t) = JObj
     [(''baseline_run_id'', JStr (at_baseline_run_id t)),
      (''candidate_run_id'', JStr (at_candidate_run_id t)),
      (''max_regressions_to_inspect'', JInt (at_max_regressions_to_inspect t)),
      (''primary_metric'', JStr (at_primary_metric t)),
      (''task_id'', JStr (at_task_id t)),
      (''task_type'', JStr ''compare_runs'')]"
| "dump_task (RetrievalTask t) = JObj
     [(''candidate_variants'', JList (map JStr (rt_candidate_variants t))),
      (''decision_policy'', JStr (decision_policy_value (rt_decision_policy t))),
      (''objective'', JStr ''expand_recall_without_downstream_regression''),
      (''profile'', JStr (rt_profile t)),
      (''task_id'', JStr (rt_task_id t)),
      (''task_type'', JStr ''optimize_retrieval_stages'')]"

subsection \<open>Decisions\<close>

record tool_action =
  ta_tool_name :: string
  ta_arguments :: dict
  ta_reason_code :: string

record finish_decision =
  fd_outcome :: terminal_outcome
  fd_evidence_refs :: "string list"
  fd_reason_code :: string

datatype agent_decision = Tool tool_action | Finish finish_decision

definition tool_action_ok :: "tool_action \<Rightarrow> bool" where
  "tool_action_ok a = (SAFE_ID_PATTERN (ta_tool_name a) \<and> REASON_CODE_PATTERN (ta_reason_code a))"

definition finish_decision_ok :: "finish_decision \<Rightarrow> bool" where
  "finish_decision_ok d = (length (fd_evidence_refs d) \<le> 16 \<and> REASON_CODE_PATTERN (fd_reason_code d))"

fun decision_ok :: "agent_decision \<Rightarrow> bool" where
  "decision_ok (Tool a) = tool_action_ok a"
| "decision_ok (Finish d) = finish_decision_ok d"

fun dump_decision :: "agent_decision \<Rightarrow> json" where
  "dump_decision (Tool a) = JObj
     [(''arguments'', JObj (ta_arguments a)), (''kind'', JStr ''tool''),
      (''reason_code'', JStr (ta_reason_code a)), (''tool_name'', JStr (ta_tool_name a))]"
| "dump_decision (Finish d) = JObj
     [(''evidence_refs'', JList (map JStr (fd_evidence_refs d))), (''kind'', JStr ''finish''),
      (''outcome'', JStr (outcome_value (fd_outcome d))),
      (''reason_code'', JStr (fd_reason_code d))]"

definition decode_tool_action :: "json \<Rightarrow> tool_action option" where
  "decode_tool_action j =
     Option.bind (model_fields [''arguments'', ''kind'', ''reason_code'', ''tool_name''] j) (\<lambda>d.
     Option.bind (field_default d ''kind'' ''tool'' (dec_literal [''tool''])) (\<lambda>_.
     Option.bind (field d ''tool_name'' (dec_pattern SAFE_ID_PATTERN)) (\<lambda>name.
     Option.bind (field d ''arguments'' dec_dict) (\<lambda>args.
     Option.bind (field d ''reason_code'' (dec_pattern REASON_CODE_PATTERN)) (\<lambda>reason.
     Some \<lparr>ta_tool_name = name, ta_arguments = args, ta_reason_code = reason\<rparr>)))))"

definition decode_finish_decision :: "json \<Rightarrow> finish_decision option" where
  "decode_finish_decision j =
     Option.bind (model_fields [''evidence_refs'', ''kind'', ''outcome'', ''reason_code''] j) (\<lambda>d.
     Option.bind (field_default d ''kind'' ''finish'' (dec_literal [''finish''])) (\<lambda>_.
     Option.bind (field d ''outcome'' (\<lambda>v. Option.bind (dec_str v) outcome_of_value)) (\<lambda>oc.
     Option.bind (field d ''evidence_refs'' (dec_list dec_str)) (\<lambda>refs.
     Option.bind (field d ''reason_code'' (dec_pattern REASON_CODE_PATTERN)) (\<lambda>reason.
     if length refs \<le> 16
     then Some \<lparr>fd_outcome = oc, fd_evidence_refs = refs, fd_reason_code = reason\<rparr>
     else None)))))"

text \<open>Equality of decisions compares the arguments as Python dictionaries.\<close>

fun decision_eq :: "agent_decision \<Rightarrow> agent_decision \<Rightarrow> bool" where
  "decision_eq (Tool a) (Tool b) =
     (ta_tool_name a = ta_tool_name b \<and> ta_reason_code a = ta_reason_code b \<and>
      py_eq (JObj (ta_arguments a)) (JObj (ta_arguments b)))"
| "decision_eq (Finish d) (Finish e) = (d = e)"
| "decision_eq _ _ = False"

lemma decision_eq_refl [simp]: "decision_eq d d"
  by (cases d) simp_all

lemma decision_eq_kind:
  "decision_eq d (Tool a) \<Longrightarrow> \<exists>b. d = Tool b"
  "decision_eq d (Finish f) \<longleftrightarrow> d = Finish f"
  by (cases d; simp)+

lemma decode_tool_action_dump [simp]:
  "tool_action_ok a \<Longrightarrow> decode_tool_action (dump_decision (Tool a)) = Some a"
  by (simp add: decode_tool_action_def decoder_defs tool_action_ok_def)

lemma decode_finish_decision_dump [simp]:
  "finish_decision_ok d \<Longrightarrow> decode_finish_decision (dump_decision (Finish d)) = Some d"
  by (simp add: decode_finish_decision_def decoder_defs finish_decision_ok_def comp_def)

subsection \<open>Planner audit\<close>

record planner_audit =
  pa_provider_id :: string
  pa_model_id :: string
  pa_planner_config_sha256 :: string
  pa_response_id_sha256 :: string
  pa_selected_option_id :: string
  pa_option_count :: int
  pa_input_tokens :: int
  pa_output_tokens :: int
  pa_total_tokens :: int
  pa_duration_ms :: rat

definition planner_audit_ok :: "planner_audit \<Rightarrow> bool" where
  "planner_audit_ok a =
     (pa_provider_id a \<in> {''openai'', ''volcengine_agent_plan''} \<and>
      MODEL_ID_PATTERN (pa_model_id a) \<and> hex_exact 64 (pa_planner_config_sha256 a) \<and>
      hex_exact 64 (pa_response_id_sha256 a) \<and> SAFE_ID_PATTERN (pa_selected_option_id a) \<and>
      1 \<le> pa_option_count a \<and> pa_option_count a \<le> 8 \<and> 0 \<le> pa_input_tokens a \<and>
      0 \<le> pa_output_tokens a \<and> 0 \<le> pa_total_tokens a \<and> 0 \<le> pa_duration_ms a \<and>
      pa_total_tokens a = pa_input_tokens a + pa_output_tokens a)"

definition dump_audit :: "planner_audit \<Rightarrow> json" where
  "dump_audit a = JObj
     [(''attempt_count'', JInt 1), (''data_policy'', JStr ''aggregate_only_v1''),
      (''decision_schema_version'', JStr ''retrieval-choice-schema-v1''),
      (''duration_ms'', JFloat (Fin (pa_duration_ms a))),
      (''input_tokens'', JInt (pa_input_tokens a)), (''model_id'', JStr (pa_model_id a)),
      (''option_count'', JInt (pa_option_count a)),
      (''output_tokens'', JInt (pa_output_tokens a)),
      (''planner_config_sha256'', JStr (pa_planner_config_sha256 a)),
      (''prompt_version'', JStr ''retrieval-choice-prompt-v1''),
      (''provider_id'', JStr (pa_provider_id a)),
      (''response_id_sha256'', JStr (pa_response_id_sha256 a)),
      (''schema_version'', JStr ''planner-decision-audit-v1''),
      (''selected_option_id'', JStr (pa_selected_option_id a)), (''source'', JStr ''llm''),
      (''total_tokens'', JInt (pa_total_tokens a))]"

definition AUDIT_FIELDS :: "string list" where
  "AUDIT_FIELDS =
     [''attempt_count'', ''data_policy'', ''decision_schema_version'', ''duration_ms'',
      ''input_tokens'', ''model_id'', ''option_count'', ''output_tokens'',
      ''planner_config_sha256'', ''prompt_version'', ''provider_id'', ''response_id_sha256'',
      ''schema_version'', ''selected_option_id'', ''source'', ''total_tokens'']"

definition decode_audit :: "json \<Rightarrow> planner_audit option" where
  "decode_audit j =
     Option.bind (model_fields AUDIT_FIELDS j) (\<lambda>d.
     Option.bind (field_default d ''schema_version'' ''planner-decision-audit-v1''
                    (dec_literal [''planner-decision-audit-v1''])) (\<lambda>_.
     Option.bind (field_default d ''source'' ''llm'' (dec_literal [''llm''])) (\<lambda>_.
     Option.bind (field_default d ''provider_id'' ''openai''
                    (dec_literal [''openai'', ''volcengine_agent_plan''])) (\<lambda>provider.
     Option.bind (field d ''model_id'' (dec_pattern MODEL_ID_PATTERN)) (\<lambda>model.
     Option.bind (field_default d ''prompt_version'' ''retrieval-choice-prompt-v1''
                    (dec_literal [''retrieval-choice-prompt-v1''])) (\<lambda>_.
     Option.bind (field_default d ''decision_schema_version'' ''retrieval-choice-schema-v1''
                    (dec_literal [''retrieval-choice-schema-v1''])) (\<lambda>_.
     Option.bind (field_default d ''data_policy'' ''aggregate_only_v1''
                    (dec_literal [''aggregate_only_v1''])) (\<lambda>_.
     Option.bind (field d ''planner_config_sha256'' (dec_pattern (hex_exact 64))) (\<lambda>config.
     Option.bind (field d ''response_id_sha256'' (dec_pattern (hex_exact 64))) (\<lambda>response.
     Option.bind (field d ''selected_option_id'' (dec_pattern SAFE_ID_PATTERN)) (\<lambda>option_id.
     Option.bind (field d ''option_count'' (dec_int (\<lambda>i. 1 \<le> i \<and> i \<le> 8))) (\<lambda>count.
     Option.bind (field_default d ''attempt_count'' 1 (dec_int (\<lambda>i. i = 1))) (\<lambda>_.
     Option.bind (field d ''input_tokens'' (dec_int (\<lambda>i. 0 \<le> i))) (\<lambda>inp.
     Option.bind (field d ''output_tokens'' (dec_int (\<lambda>i. 0 \<le> i))) (\<lambda>outp.
     Option.bind (field d ''total_tokens'' (dec_int (\<lambda>i. 0 \<le> i))) (\<lambda>total.
     Option.bind (field d ''duration_ms'' (dec_finite (\<lambda>r. 0 \<le> r))) (\<lambda>dur.
     if total = inp + outp
     then Some \<lparr>pa_provider_id = provider, pa_model_id = model,
                pa_planner_config_sha256 = config, pa_response_id_sha256 = response,
                pa_selected_option_id = option_id, pa_option_count = count,
                pa_input_tokens = inp, pa_output_tokens = outp, pa_total_tokens = total,
                pa_duration_ms = dur\<rparr>
     else None)))))))))))))))))"

lemma decode_audit_dump [simp]: "planner_audit_ok a \<Longrightarrow> decode_audit (dump_audit a) = Some a"
  by (simp add: decode_audit_def decoder_defs dump_audit_def planner_audit_ok_def AUDIT_FIELDS_def)

subsection \<open>Observations and terminal results\<close>

datatype ob_status = Succeeded | Failed

fun status_value :: "ob_status \<Rightarrow> string" where
  "status_value Succeeded = ''succeeded''"
| "status_value Failed = ''failed''"

record tool_observation =
  ob_tool_name :: string
  ob_status :: ob_status
  ob_evidence_ref :: "string option"
  ob_payload :: dict
  ob_error_code :: "string option"
  ob_retryable :: bool
  ob_sha256 :: string

fun opt_str :: "string option \<Rightarrow> json" where
  "opt_str None = JNull"
| "opt_str (Some s) = JStr s"

definition observation_ok :: "tool_observation \<Rightarrow> bool" where
  "observation_ok x =
     (SAFE_ID_PATTERN (ob_tool_name x) \<and>
      (case ob_error_code x of None \<Rightarrow> True | Some e \<Rightarrow> REASON_CODE_PATTERN e) \<and>
      hex_exact 64 (ob_sha256 x))"

text \<open>\<^verbatim>\<open>canonical_payload\<close> serialises every field but the digest.\<close>

definition observation_base :: "tool_observation \<Rightarrow> dict" where
  "observation_base x =
     [(''error_code'', opt_str (ob_error_code x)), (''evidence_ref'', opt_str (ob_evidence_ref x)),
      (''payload'', JObj (ob_payload x)), (''retryable'', JBool (ob_retryable x)),
      (''status'', JStr (status_value (ob_status x))), (''tool_name'', JStr (ob_tool_name x))]"

definition dump_observation :: "tool_observation \<Rightarrow> json" where
  "dump_observation x = JObj
     [(''error_code'', opt_str (ob_error_code x)), (''evidence_ref'', opt_str (ob_evidence_ref x)),
      (''payload'', JObj (ob_payload x)), (''retryable'', JBool (ob_retryable x)),
      (''sha256'', JStr (ob_sha256 x)),
      (''status'', JStr (status_value (ob_status x))), (''tool_name'', JStr (ob_tool_name x))]"

definition OBSERVATION_FIELDS :: "string list" where
  "OBSERVATION_FIELDS = [''error_code'', ''evidence_ref'', ''payload'', ''retryable'', ''sha256'',
     ''status'', ''tool_name'']"

definition decode_observation :: "json \<Rightarrow> tool_observation option" where
  "decode_observation j =
     Option.bind (model_fields OBSERVATION_FIELDS j) (\<lambda>d.
     Option.bind (field d ''tool_name'' (dec_pattern SAFE_ID_PATTERN)) (\<lambda>name.
     Option.bind (field d ''status'' (dec_literal [''succeeded'', ''failed''])) (\<lambda>status.
     Option.bind (field_default d ''evidence_ref'' None (dec_optional dec_str)) (\<lambda>ref.
     Option.bind (field_default d ''payload'' [] dec_dict) (\<lambda>payload.
     Option.bind (field_default d ''error_code'' None
                    (dec_optional (dec_pattern REASON_CODE_PATTERN))) (\<lambda>err.
     Option.bind (field_default d ''retryable'' False dec_lax_bool) (\<lambda>retry.
     Option.bind (field d ''sha256'' (dec_pattern (hex_exact 64))) (\<lambda>digest.
     Some \<lparr>ob_tool_name = name,
           ob_status = (if status = ''succeeded'' then Succeeded else Failed),
           ob_evidence_ref = ref, ob_payload = payload, ob_error_code = err,
           ob_retryable = retry, ob_sha256 = digest\<rparr>))))))))"

lemma dec_optional_opt_str [simp]:
  "dec_optional dec_str (opt_str x) = Some x"
  by (cases x) (simp_all add: dec_optional_def)

lemma decode_observation_dump [simp]:
  assumes "observation_ok x"
  shows "decode_observation (dump_observation x) = Some x"
proof -
  have err: "dec_optional (dec_pattern REASON_CODE_PATTERN) (opt_str (ob_error_code x))
               = Some (ob_error_code x)"
    using assms
    by (cases "ob_error_code x") (simp_all add: observation_ok_def dec_optional_def dec_pattern_def)
  have status: "status_value (ob_status x) \<in> set [''succeeded'', ''failed'']"
      "(if status_value (ob_status x) = ''succeeded'' then Succeeded else Failed) = ob_status x"
    by (cases "ob_status x"; simp)+
  show ?thesis
    using assms err status
    by (simp add: decode_observation_def dump_observation_def OBSERVATION_FIELDS_def
        model_fields_def field_def field_default_def dec_pattern_def dec_literal_def
        dec_dict_def observation_ok_def)
qed

record terminal_result =
  tr_trace_id :: string
  tr_state :: agent_state
  tr_outcome :: terminal_outcome
  tr_evidence_refs :: "string list"
  tr_reason_code :: string
  tr_report :: json
  tr_steps_used :: nat
  tr_tool_calls_used :: nat

definition terminal_result_ok :: "terminal_result \<Rightarrow> bool" where
  "terminal_result_ok r =
     (hex_exact 32 (tr_trace_id r) \<and> tr_state r \<in> {COMPLETED, FAILED} \<and>
      REASON_CODE_PATTERN (tr_reason_code r) \<and> is_dict (tr_report r))"

definition dump_terminal :: "terminal_result \<Rightarrow> json" where
  "dump_terminal r = JObj
     [(''evidence_refs'', JList (map JStr (tr_evidence_refs r))),
      (''outcome'', JStr (outcome_value (tr_outcome r))),
      (''reason_code'', JStr (tr_reason_code r)), (''report'', tr_report r),
      (''state'', JStr (state_value (tr_state r))),
      (''steps_used'', JInt (int (tr_steps_used r))),
      (''tool_calls_used'', JInt (int (tr_tool_calls_used r))),
      (''trace_id'', JStr (tr_trace_id r))]"

definition validate_evidence_ref :: "json \<Rightarrow> exn + string" where
  "validate_evidence_ref v =
     (case v of
        JStr s \<Rightarrow> if EVIDENCE_REF_PATTERN s then Inr s else Inl ValueError
      | _ \<Rightarrow> Inl TypeError)"

lemma validate_evidence_ref_JStr [simp]:
  "validate_evidence_ref (JStr s) = (if EVIDENCE_REF_PATTERN s then Inr s else Inl ValueError)"
  by (simp add: validate_evidence_ref_def)

text \<open>The evidence references of the succeeded observations, in order.\<close>

definition successful_evidence :: "tool_observation list \<Rightarrow> string list" where
  "successful_evidence obs =
     List.map_filter (\<lambda>x. if ob_status x = Succeeded then ob_evidence_ref x else None) obs"

lemma successful_evidence_simps [simp]:
  "successful_evidence [] = []"
  "successful_evidence (x # xs) =
     (case (ob_status x, ob_evidence_ref x) of
        (Succeeded, Some r) \<Rightarrow> r # successful_evidence xs
      | _ \<Rightarrow> successful_evidence xs)"
  by (auto simp: successful_evidence_def List.map_filter_def split: option.splits ob_status.splits)

lemma set_successful_evidence:
  "r \<in> set (successful_evidence obs) \<longleftrightarrow>
     (\<exists>x \<in> set obs. ob_status x = Succeeded \<and> ob_evidence_ref x = Some r)"
  by (induction obs) (auto split: option.splits ob_status.splits)

end
