(* ===== verification/RetrievalEvidence.thy ===== *)
theory RetrievalEvidence
  imports AgentContracts
begin

text \<open>
  \<^verbatim>\<open>src/search_quality/agent/retrieval_tools.py\<close>, the evidence models: what the two retrieval
  tools may report to the Agent. A \<open>decode_*\<close> function is the strict \<^verbatim>\<open>model_validate\<close> of the
  class, its last step the \<^verbatim>\<open>model_validator\<close>. Float constants are the exact values of the
  doubles the source's decimals denote. \<^verbatim>\<open>math.isclose\<close> takes its difference exactly.
  The lemmas show what a decoded candidate guarantees: the gate verdict is the conjunction of
  the twelve trusted checks and agrees with the recommendation.
\<close>

abbreviation DIAGNOSE_BASELINE_TOOL :: string where
  "DIAGNOSE_BASELINE_TOOL \<equiv> ''diagnose_baseline_retrieval''"

abbreviation RUN_CANDIDATE_TOOL :: string where
  "RUN_CANDIDATE_TOOL \<equiv> ''run_retrieval_candidate''"

definition RETRIEVAL_TOOL_CAPABILITIES :: "string list" where
  "RETRIEVAL_TOOL_CAPABILITIES = [''diagnose_smoke_retrieval'', ''experiment_smoke_retrieval'']"

subsection \<open>The trusted gate policy\<close>

definition float_0_1 :: rat where "float_0_1 = 3602879701896397 / 36028797018963968"
definition float_m0_02 :: rat where "float_m0_02 = - (5764607523034235 / 288230376151711744)"
definition float_1e_12 :: rat where "float_1e_12 = 4951760157141521 / 4951760157141521099596496896"

definition GATE_POLICY :: "(string \<times> string \<times> rat) list" where
  "GATE_POLICY =
     [(''unique_relevant_contribution'', ''>'', 0),
      (''union_coverage_improvement'', ''>'', 0),
      (''fusion_recall_at_10_floor'', ''>='', 0),
      (''fusion_ndcg_at_10_floor'', ''>='', 0),
      (''fusion_mrr_at_10_floor'', ''>='', 0),
      (''coarse_recall_at_10_floor'', ''>='', 0),
      (''coarse_ndcg_at_10_floor'', ''>='', 0),
      (''coarse_mrr_at_10_floor'', ''>='', 0),
      (''worst_query_coarse_ndcg_delta_floor'', ''>='', float_m0_02),
      (''regressed_query_rate_ceiling'', ''<='', float_0_1),
      (''worst_query_fusion_ndcg_delta_floor'', ''>='', float_m0_02),
      (''fusion_regressed_query_rate_ceiling'', ''<='', float_0_1)]"

definition GATE_NAMES :: "string list" where
  "GATE_NAMES = map fst GATE_POLICY"

definition isclose_abs :: "rat \<Rightarrow> rat \<Rightarrow> rat \<Rightarrow> bool" where
  "isclose_abs tol a b = (\<bar>a - b\<bar> \<le> tol)"

definition dec_unit :: "json \<Rightarrow> rat option" where
  "dec_unit = dec_finite (\<lambda>r. 0 \<le> r \<and> r \<le> 1)"

definition dec_delta :: "json \<Rightarrow> rat option" where
  "dec_delta = dec_finite (\<lambda>r. - 1 \<le> r \<and> r \<le> 1)"

definition dec_id :: "string \<Rightarrow> json \<Rightarrow> string option" where
  "dec_id prefix = dec_pattern (prefixed_hex prefix 12)"

abbreviation slug :: "string \<Rightarrow> bool" where
  "slug \<equiv> REASON_CODE_PATTERN"

definition STAGE_CATEGORIES :: "string list" where
  "STAGE_CATEGORIES =
     [''recall'', ''fusion'', ''coarse_rank'', ''post_retrieval_ranking'', ''data_or_labels'']"

definition DIAGNOSIS_STATUSES :: "string list" where
  "DIAGNOSIS_STATUSES =
     [''diagnosable'', ''no_failure'', ''insufficient_evidence'', ''requires_engineering'']"

subsection \<open>Artifacts and aggregate summaries\<close>

record artifact_refs =
  ar_retrieval_run_id :: string
  ar_diagnosis_id :: string
  ar_comparison_id :: "string option"

definition decode_artifact_refs :: "json \<Rightarrow> artifact_refs option" where
  "decode_artifact_refs j =
     Option.bind (model_fields [''retrieval_run_id'', ''diagnosis_id'', ''comparison_id''] j) (\<lambda>d.
     Option.bind (field d ''retrieval_run_id'' (dec_id ''retrieval-'')) (\<lambda>r.
     Option.bind (field d ''diagnosis_id'' (dec_id ''stage-diagnosis-'')) (\<lambda>g.
     Option.bind (field_default d ''comparison_id'' None
                    (dec_optional (dec_id ''retrieval-comparison-''))) (\<lambda>c.
     Some \<lparr>ar_retrieval_run_id = r, ar_diagnosis_id = g, ar_comparison_id = c\<rparr>))))"

record stage_metrics =
  sm_judged_recall_at_10 :: rat
  sm_mrr_at_10 :: rat
  sm_ndcg_at_10 :: rat

definition decode_stage_metrics :: "(json \<Rightarrow> rat option) \<Rightarrow> json \<Rightarrow> stage_metrics option" where
  "decode_stage_metrics dec j =
     Option.bind (model_fields [''judged_recall_at_10'', ''mrr_at_10'', ''ndcg_at_10''] j) (\<lambda>d.
     Option.bind (field d ''judged_recall_at_10'' dec) (\<lambda>r.
     Option.bind (field d ''mrr_at_10'' dec) (\<lambda>m.
     Option.bind (field d ''ndcg_at_10'' dec) (\<lambda>n.
     Some \<lparr>sm_judged_recall_at_10 = r, sm_mrr_at_10 = m, sm_ndcg_at_10 = n\<rparr>))))"

definition decode_first_loss :: "json \<Rightarrow> (int \<times> int \<times> int \<times> int) option" where
  "decode_first_loss j =
     Option.bind (model_fields [''recall'', ''fusion'', ''coarse_rank'', ''retained''] j) (\<lambda>d.
     Option.bind (field d ''recall'' (dec_int (\<lambda>i. 0 \<le> i))) (\<lambda>r.
     Option.bind (field d ''fusion'' (dec_int (\<lambda>i. 0 \<le> i))) (\<lambda>f.
     Option.bind (field d ''coarse_rank'' (dec_int (\<lambda>i. 0 \<le> i))) (\<lambda>c.
     Option.bind (field d ''retained'' (dec_int (\<lambda>i. 0 \<le> i))) (\<lambda>t.
     Some (r, f, c, t))))))"

definition decode_baseline_aggregate ::
    "json \<Rightarrow> (rat \<times> stage_metrics \<times> stage_metrics \<times> int \<times> int \<times> int \<times> int) option" where
  "decode_baseline_aggregate j =
     Option.bind (model_fields [''recall_union_coverage'', ''fusion'', ''coarse_rank'',
                                ''first_loss_counts''] j) (\<lambda>d.
     Option.bind (field d ''recall_union_coverage'' dec_unit) (\<lambda>u.
     Option.bind (field d ''fusion'' (decode_stage_metrics dec_unit)) (\<lambda>f.
     Option.bind (field d ''coarse_rank'' (decode_stage_metrics dec_unit)) (\<lambda>c.
     Option.bind (field d ''first_loss_counts'' decode_first_loss) (\<lambda>l.
     Some (u, f, c, l))))))"

definition decode_finding :: "json \<Rightarrow> (string \<times> string \<times> string \<times> string \<times> rat) option" where
  "decode_finding j =
     Option.bind (model_fields [''finding_id'', ''category'', ''subtype'', ''verdict'', ''impact''] j) (\<lambda>d.
     Option.bind (field d ''finding_id'' (dec_id ''finding-'')) (\<lambda>i.
     Option.bind (field d ''category'' (dec_literal STAGE_CATEGORIES)) (\<lambda>c.
     Option.bind (field d ''subtype'' (dec_pattern slug)) (\<lambda>s.
     Option.bind (field d ''verdict'' (dec_literal [''confirmed'', ''suspected'', ''blocked''])) (\<lambda>v.
     Option.bind (field d ''impact'' dec_unit) (\<lambda>m.
     Some (i, c, s, v, m)))))))"

subsection \<open>The baseline diagnosis\<close>

record baseline_payload =
  bp_profile :: string
  bp_query_count :: int
  bp_judged_pair_count :: int
  bp_run_id :: string
  bp_diagnosis_id :: string
  bp_pipeline_id :: string
  bp_diagnosis_status :: string
  bp_primary_category :: "string option"
  bp_recommended_next_action :: string
  bp_findings :: "(string \<times> string \<times> string \<times> string \<times> rat) list"
  bp_aggregate :: "rat \<times> stage_metrics \<times> stage_metrics \<times> int \<times> int \<times> int \<times> int"
  bp_artifacts :: artifact_refs

definition baseline_artifacts_ok :: "baseline_payload \<Rightarrow> bool" where
  "baseline_artifacts_ok p =
     (ar_retrieval_run_id (bp_artifacts p) = bp_run_id p \<and>
      ar_diagnosis_id (bp_artifacts p) = bp_diagnosis_id p \<and>
      ar_comparison_id (bp_artifacts p) = None)"

definition decode_baseline_payload :: "json \<Rightarrow> baseline_payload option" where
  "decode_baseline_payload j =
     Option.bind (model_fields [''schema_version'', ''profile'', ''query_count'', ''judged_pair_count'',
        ''run_id'', ''diagnosis_id'', ''pipeline_id'', ''pipeline_variant'', ''diagnosis_status'',
        ''primary_category'', ''recommended_next_action'', ''findings'', ''aggregate'',
        ''artifacts''] j) (\<lambda>d.
     Option.bind (field_default d ''schema_version'' ''stage-retrieval-baseline-summary-v1''
                    (dec_literal [''stage-retrieval-baseline-summary-v1''])) (\<lambda>_.
     Option.bind (field d ''profile'' (dec_literal [''smoke''])) (\<lambda>profile.
     Option.bind (field d ''query_count'' (dec_int (\<lambda>i. 1 \<le> i \<and> i \<le> 100))) (\<lambda>queries.
     Option.bind (field d ''judged_pair_count'' (dec_int (\<lambda>i. 1 \<le> i \<and> i \<le> 10000))) (\<lambda>pairs.
     Option.bind (field d ''run_id'' (dec_id ''retrieval-'')) (\<lambda>run.
     Option.bind (field d ''diagnosis_id'' (dec_id ''stage-diagnosis-'')) (\<lambda>diag.
     Option.bind (field d ''pipeline_id'' (dec_id ''pipeline-'')) (\<lambda>pipe.
     Option.bind (field d ''pipeline_variant'' (dec_literal [''title-exact-v1''])) (\<lambda>_.
     Option.bind (field d ''diagnosis_status'' (dec_literal DIAGNOSIS_STATUSES)) (\<lambda>status.
     Option.bind (field d ''primary_category'' (dec_optional (dec_literal STAGE_CATEGORIES))) (\<lambda>cat.
     Option.bind (field d ''recommended_next_action'' (dec_pattern slug)) (\<lambda>nxt.
     Option.bind (field d ''findings'' (dec_list decode_finding)) (\<lambda>findings.
     Option.bind (field d ''aggregate'' decode_baseline_aggregate) (\<lambda>agg.
     Option.bind (field d ''artifacts'' decode_artifact_refs) (\<lambda>arts.
     let p = \<lparr>bp_profile = profile, bp_query_count = queries, bp_judged_pair_count = pairs,
              bp_run_id = run, bp_diagnosis_id = diag, bp_pipeline_id = pipe,
              bp_diagnosis_status = status, bp_primary_category = cat,
              bp_recommended_next_action = nxt, bp_findings = findings, bp_aggregate = agg,
              bp_artifacts = arts\<rparr>
     in if length findings \<le> 8 \<and> baseline_artifacts_ok p then Some p else None)))))))))))))))"

text \<open>The envelope checks that the evidence reference names the Run of the payload.\<close>

definition decode_baseline_output :: "string option \<Rightarrow> dict \<Rightarrow> baseline_payload option" where
  "decode_baseline_output ref payload =
     Option.bind ref (\<lambda>r.
     if prefixed_hex ''run:retrieval-'' 12 r then
       Option.bind (decode_baseline_payload (JObj payload)) (\<lambda>p.
       if r = ''run:'' @ bp_run_id p then Some p else None)
     else None)"

subsection \<open>The candidate experiment\<close>

record gate_check =
  gc_name :: string
  gc_comparator :: string
  gc_threshold :: rat
  gc_observed :: rat
  gc_passed :: bool

definition compare_by :: "string \<Rightarrow> rat \<Rightarrow> rat \<Rightarrow> bool" where
  "compare_by c x t = (if c = ''>'' then t < x else if c = ''>='' then t \<le> x else x \<le> t)"

definition gate_check_ok :: "gate_check \<Rightarrow> bool" where
  "gate_check_ok c =
     (map_of GATE_POLICY (gc_name c) = Some (gc_comparator c, gc_threshold c) \<and>
      gc_passed c = compare_by (gc_comparator c) (gc_observed c) (gc_threshold c))"

definition decode_gate_check :: "json \<Rightarrow> gate_check option" where
  "decode_gate_check j =
     Option.bind (model_fields [''name'', ''comparator'', ''threshold'', ''observed'', ''passed''] j) (\<lambda>d.
     Option.bind (field d ''name'' (dec_literal GATE_NAMES)) (\<lambda>n.
     Option.bind (field d ''comparator'' (dec_literal [''>'', ''>='', ''<=''])) (\<lambda>c.
     Option.bind (field d ''threshold'' (dec_finite (\<lambda>_. True))) (\<lambda>t.
     Option.bind (field d ''observed'' (dec_finite (\<lambda>_. True))) (\<lambda>x.
     Option.bind (field d ''passed'' dec_bool) (\<lambda>p.
     let chk = \<lparr>gc_name = n, gc_comparator = c, gc_threshold = t, gc_observed = x, gc_passed = p\<rparr>
     in if gate_check_ok chk then Some chk else None))))))"

record gate_summary =
  gs_passed :: bool
  gs_checks :: "gate_check list"
  gs_failed_gates :: "string list"

definition gate_summary_ok :: "gate_summary \<Rightarrow> bool" where
  "gate_summary_ok g =
     (length (gs_checks g) = 12 \<and> map gc_name (gs_checks g) = GATE_NAMES \<and>
      gs_failed_gates g = map gc_name (filter (\<lambda>c. \<not> gc_passed c) (gs_checks g)) \<and>
      gs_passed g = list_all gc_passed (gs_checks g))"

definition decode_gate_summary :: "json \<Rightarrow> gate_summary option" where
  "decode_gate_summary j =
     Option.bind (model_fields [''policy_version'', ''passed'', ''checks'', ''failed_gates''] j) (\<lambda>d.
     Option.bind (field_default d ''policy_version'' ''closed-retrieval-experiment-gates-v1''
                    (dec_literal [''closed-retrieval-experiment-gates-v1''])) (\<lambda>_.
     Option.bind (field d ''passed'' dec_bool) (\<lambda>p.
     Option.bind (field d ''checks'' (dec_list decode_gate_check)) (\<lambda>cs.
     Option.bind (field d ''failed_gates'' (dec_list (dec_literal GATE_NAMES))) (\<lambda>fs.
     let g = \<lparr>gs_passed = p, gs_checks = cs, gs_failed_gates = fs\<rparr>
     in if gate_summary_ok g then Some g else None)))))"

record candidate_risk =
  cr_unique_relevant_contribution :: int
  cr_worst_coarse_query_ndcg_at_10_delta :: rat
  cr_coarse_regressed_query_rate :: rat
  cr_worst_fusion_query_ndcg_at_10_delta :: rat
  cr_fusion_regressed_query_rate :: rat

definition decode_candidate_risk :: "json \<Rightarrow> candidate_risk option" where
  "decode_candidate_risk j =
     Option.bind (model_fields [''unique_relevant_contribution'',
        ''worst_coarse_query_ndcg_at_10_delta'', ''coarse_regressed_query_rate'',
        ''worst_fusion_query_ndcg_at_10_delta'', ''fusion_regressed_query_rate''] j) (\<lambda>d.
     Option.bind (field d ''unique_relevant_contribution'' (dec_int (\<lambda>i. 0 \<le> i \<and> i \<le> 10000))) (\<lambda>u.
     Option.bind (field d ''worst_coarse_query_ndcg_at_10_delta'' dec_delta) (\<lambda>wc.
     Option.bind (field d ''coarse_regressed_query_rate'' dec_unit) (\<lambda>rc.
     Option.bind (field d ''worst_fusion_query_ndcg_at_10_delta'' dec_delta) (\<lambda>wf.
     Option.bind (field d ''fusion_regressed_query_rate'' dec_unit) (\<lambda>rf.
     Some \<lparr>cr_unique_relevant_contribution = u, cr_worst_coarse_query_ndcg_at_10_delta = wc,
           cr_coarse_regressed_query_rate = rc, cr_worst_fusion_query_ndcg_at_10_delta = wf,
           cr_fusion_regressed_query_rate = rf\<rparr>))))))"

record candidate_deltas =
  cd_recall_union_coverage :: rat
  cd_fusion :: stage_metrics
  cd_coarse_rank :: stage_metrics

definition decode_candidate_deltas :: "json \<Rightarrow> candidate_deltas option" where
  "decode_candidate_deltas j =
     Option.bind (model_fields [''recall_union_coverage'', ''fusion'', ''coarse_rank''] j) (\<lambda>d.
     Option.bind (field d ''recall_union_coverage'' dec_delta) (\<lambda>u.
     Option.bind (field d ''fusion'' (decode_stage_metrics dec_delta)) (\<lambda>f.
     Option.bind (field d ''coarse_rank'' (decode_stage_metrics dec_delta)) (\<lambda>c.
     Some \<lparr>cd_recall_union_coverage = u, cd_fusion = f, cd_coarse_rank = c\<rparr>))))"

record candidate_payload =
  cp_profile :: string
  cp_baseline_run_id :: string
  cp_candidate_run_id :: string
  cp_diagnosis_id :: string
  cp_comparison_id :: string
  cp_pipeline_id :: string
  cp_pipeline_variant :: string
  cp_diagnosis_status :: string
  cp_aggregate_deltas :: candidate_deltas
  cp_risk :: candidate_risk
  cp_gate :: gate_summary
  cp_recommendation :: string
  cp_next_action :: string
  cp_artifacts :: artifact_refs

text \<open>What the summary itself says each gate observed.\<close>

definition gate_observations :: "candidate_payload \<Rightarrow> (string \<times> rat) list" where
  "gate_observations p =
     (let r = cp_risk p; a = cp_aggregate_deltas p
      in [(''unique_relevant_contribution'', of_int (cr_unique_relevant_contribution r)),
          (''union_coverage_improvement'', cd_recall_union_coverage a),
          (''fusion_recall_at_10_floor'', sm_judged_recall_at_10 (cd_fusion a)),
          (''fusion_ndcg_at_10_floor'', sm_ndcg_at_10 (cd_fusion a)),
          (''fusion_mrr_at_10_floor'', sm_mrr_at_10 (cd_fusion a)),
          (''coarse_recall_at_10_floor'', sm_judged_recall_at_10 (cd_coarse_rank a)),
          (''coarse_ndcg_at_10_floor'', sm_ndcg_at_10 (cd_coarse_rank a)),
          (''coarse_mrr_at_10_floor'', sm_mrr_at_10 (cd_coarse_rank a)),
          (''worst_query_coarse_ndcg_delta_floor'', cr_worst_coarse_query_ndcg_at_10_delta r),
          (''regressed_query_rate_ceiling'', cr_coarse_regressed_query_rate r),
          (''worst_query_fusion_ndcg_delta_floor'', cr_worst_fusion_query_ndcg_at_10_delta r),
          (''fusion_regressed_query_rate_ceiling'', cr_fusion_regressed_query_rate r)])"

definition cross_field_evidence_ok :: "candidate_payload \<Rightarrow> bool" where
  "cross_field_evidence_ok p =
     (cp_baseline_run_id p \<noteq> cp_candidate_run_id p \<and>
      ar_retrieval_run_id (cp_artifacts p) = cp_candidate_run_id p \<and>
      ar_diagnosis_id (cp_artifacts p) = cp_diagnosis_id p \<and>
      ar_comparison_id (cp_artifacts p) = Some (cp_comparison_id p) \<and>
      list_all (\<lambda>c. case map_of (gate_observations p) (gc_name c) of
                      None \<Rightarrow> False
                    | Some x \<Rightarrow> isclose_abs float_1e_12 (gc_observed c) x)
        (gs_checks (cp_gate p)) \<and>
      cp_recommendation p =
        (if gs_passed (cp_gate p) then ''review_candidate'' else ''reject_candidate'') \<and>
      (gs_passed (cp_gate p) \<longrightarrow> cp_next_action p = ''request_owner_review'') \<and>
      (\<not> gs_passed (cp_gate p) \<longrightarrow> cp_next_action p \<noteq> ''request_owner_review''))"

definition decode_candidate_payload :: "json \<Rightarrow> candidate_payload option" where
  "decode_candidate_payload j =
     Option.bind (model_fields [''schema_version'', ''profile'', ''baseline_run_id'',
        ''candidate_run_id'', ''diagnosis_id'', ''comparison_id'', ''pipeline_id'',
        ''pipeline_variant'', ''diagnosis_status'', ''aggregate_deltas'', ''risk'', ''gate'',
        ''recommendation'', ''next_action'', ''artifacts''] j) (\<lambda>d.
     Option.bind (field_default d ''schema_version'' ''stage-retrieval-candidate-summary-v1''
                    (dec_literal [''stage-retrieval-candidate-summary-v1''])) (\<lambda>_.
     Option.bind (field d ''profile'' (dec_literal [''smoke''])) (\<lambda>profile.
     Option.bind (field d ''baseline_run_id'' (dec_id ''retrieval-'')) (\<lambda>base.
     Option.bind (field d ''candidate_run_id'' (dec_id ''retrieval-'')) (\<lambda>cand.
     Option.bind (field d ''diagnosis_id'' (dec_id ''stage-diagnosis-'')) (\<lambda>diag.
     Option.bind (field d ''comparison_id'' (dec_id ''retrieval-comparison-'')) (\<lambda>cmp.
     Option.bind (field d ''pipeline_id'' (dec_id ''pipeline-'')) (\<lambda>pipe.
     Option.bind (field d ''pipeline_variant'' (dec_literal RETRIEVAL_PIPELINE_VARIANTS)) (\<lambda>var.
     Option.bind (field d ''diagnosis_status'' (dec_literal DIAGNOSIS_STATUSES)) (\<lambda>status.
     Option.bind (field d ''aggregate_deltas'' decode_candidate_deltas) (\<lambda>deltas.
     Option.bind (field d ''risk'' decode_candidate_risk) (\<lambda>risk.
     Option.bind (field d ''gate'' decode_gate_summary) (\<lambda>gate.
     Option.bind (field d ''recommendation''
                    (dec_literal [''review_candidate'', ''reject_candidate''])) (\<lambda>rec.
     Option.bind (field d ''next_action''
                    (dec_literal [''request_owner_review'', ''run_recall_channel_and_rrf_ablation'',
                                  ''replace_recall_candidate''])) (\<lambda>nxt.
     Option.bind (field d ''artifacts'' decode_artifact_refs) (\<lambda>arts.
     let p = \<lparr>cp_profile = profile, cp_baseline_run_id = base, cp_candidate_run_id = cand,
              cp_diagnosis_id = diag, cp_comparison_id = cmp, cp_pipeline_id = pipe,
              cp_pipeline_variant = var, cp_diagnosis_status = status,
              cp_aggregate_deltas = deltas, cp_risk = risk, cp_gate = gate,
              cp_recommendation = rec, cp_next_action = nxt, cp_artifacts = arts\<rparr>
     in if cross_field_evidence_ok p then Some p else None))))))))))))))))"

definition decode_candidate_output :: "string option \<Rightarrow> dict \<Rightarrow> candidate_payload option" where
  "decode_candidate_output ref payload =
     Option.bind ref (\<lambda>r.
     if prefixed_hex ''comparison:retrieval-comparison-'' 12 r then
       Option.bind (decode_candidate_payload (JObj payload)) (\<lambda>p.
       if r = ''comparison:'' @ cp_comparison_id p then Some p else None)
     else None)"

definition selection_key :: "candidate_payload \<Rightarrow> rat \<times> rat \<times> string" where
  "selection_key p =
     (cr_worst_fusion_query_ndcg_at_10_delta (cp_risk p),
      sm_ndcg_at_10 (cd_coarse_rank (cp_aggregate_deltas p)), cp_pipeline_variant p)"

subsection \<open>What a decoded candidate guarantees\<close>

lemma decode_candidate_payload_ok:
  "decode_candidate_payload j = Some p \<Longrightarrow> cross_field_evidence_ok p"
  by (auto simp: decode_candidate_payload_def Let_def Option.bind_eq_Some_conv split: if_splits)

lemma decode_candidate_output_payload:
  "decode_candidate_output ref payload = Some p \<Longrightarrow>
     decode_candidate_payload (JObj payload) = Some p \<and> ref = Some (''comparison:'' @ cp_comparison_id p)"
  by (auto simp: decode_candidate_output_def Option.bind_eq_Some_conv split: if_splits)

lemma decode_gate_check_ok: "decode_gate_check j = Some c \<Longrightarrow> gate_check_ok c"
  by (auto simp: decode_gate_check_def Let_def Option.bind_eq_Some_conv split: if_splits)

lemma seq_options_in: "seq_options (map dec xs) = Some ys \<Longrightarrow> y \<in> set ys \<Longrightarrow> \<exists>x. dec x = Some y"
  by (induction xs arbitrary: ys) (auto split: option.splits)

lemma decode_gate_summary_ok:
  assumes "decode_gate_summary j = Some g"
  shows "gate_summary_ok g" and "c \<in> set (gs_checks g) \<Longrightarrow> gate_check_ok c"
  using assms
  by (auto simp: decode_gate_summary_def Let_def Option.bind_eq_Some_conv field_def dec_list_def
      split: if_splits json.splits dest!: seq_options_in decode_gate_check_ok)

lemma decode_candidate_payload_gate:
  "decode_candidate_payload j = Some p \<Longrightarrow> \<exists>g. decode_gate_summary g = Some (cp_gate p)"
  by (auto simp: decode_candidate_payload_def Let_def Option.bind_eq_Some_conv field_def split: if_splits)

text \<open>A passed gate: the summary's own value satisfies the trusted bound up to the tolerance.\<close>

lemma passed_gate:
  assumes dec: "decode_candidate_output ref payload = Some p" and passed: "gs_passed (cp_gate p)"
    and gate: "map_of GATE_POLICY n = Some (cmp, t)" and val: "map_of (gate_observations p) n = Some x"
  shows "\<exists>y. compare_by cmp y t \<and> \<bar>y - x\<bar> \<le> float_1e_12"
proof -
  from dec have p: "decode_candidate_payload (JObj payload) = Some p"
    using decode_candidate_output_payload by blast
  obtain g where g: "decode_gate_summary g = Some (cp_gate p)"
    using decode_candidate_payload_gate [OF p] by blast
  note ok = decode_gate_summary_ok [OF g]
  have "n \<in> set GATE_NAMES" using map_of_SomeD [OF gate] by (force simp: GATE_NAMES_def image_iff)
  with ok(1) have "n \<in> set (map gc_name (gs_checks (cp_gate p)))" by (simp add: gate_summary_ok_def)
  then obtain c where c: "c \<in> set (gs_checks (cp_gate p))" "gc_name c = n" by auto
  from ok(1) passed c(1) have "gc_passed c" by (auto simp: gate_summary_ok_def list_all_iff)
  with ok(2) [OF c(1)] gate c(2) have "compare_by cmp (gc_observed c) t"
    by (simp add: gate_check_ok_def)
  moreover have "\<bar>gc_observed c - x\<bar> \<le> float_1e_12"
    using decode_candidate_payload_ok [OF p] c val
    by (fastforce simp: cross_field_evidence_ok_def list_all_iff isclose_abs_def)
  ultimately show ?thesis by blast
qed

end
