(* ===== verification/RetrievalPlanner.thy ===== *)
theory RetrievalPlanner
  imports RetrievalEvidence
begin

text \<open>
  \<^verbatim>\<open>src/search_quality/agent/retrieval_planner.py\<close>: the observation-driven planner that recomputes
  the one valid next decision from the ordered observations. The loop of
  \<^verbatim>\<open>_analyze_history\<close> is \<open>analyze_from\<close>, its body \<open>observe\<close>; its local variables are the record \<open>history\<close>, and
  \<open>h_seen\<close> is the prefix of observations already read (the \<^verbatim>\<open>stop\<close> argument of
  \<^verbatim>\<open>_successful_evidence\<close>). Every \<^verbatim>\<open>raise\<close> is an \<open>Inl\<close>.
  The lemmas bound the number of observations a valid history can have and show what a
  terminal decision implies about the experiments.
\<close>

definition validate_success_observation :: "tool_observation \<Rightarrow> exn + unit" where
  "validate_success_observation x =
     require (\<not> (ob_evidence_ref x = None \<or> ob_error_code x \<noteq> None \<or> ob_retryable x)) ValueError"

definition validate_failed_observation :: "tool_observation \<Rightarrow> exn + unit" where
  "validate_failed_observation x =
     require (\<not> (ob_evidence_ref x \<noteq> None \<or> ob_payload x \<noteq> [] \<or> ob_error_code x = None)) ValueError"

definition experiment_reason :: "string \<Rightarrow> exn + string" where
  "experiment_reason v =
     (if v = UNIFORM_VARIANT then Inr ''test_uniform_multifield_fusion''
      else if v = CONSERVATIVE_VARIANT then Inr ''test_conservative_multifield_fusion''
      else if v = AGGRESSIVE_VARIANT then Inr ''probe_aggressive_multifield_fusion''
      else Inl KeyError)"

definition selected_reason :: "string \<Rightarrow> string option" where
  "selected_reason v =
     map_of [(CONSERVATIVE_VARIANT, ''conservative_candidate_selected''),
             (AGGRESSIVE_VARIANT, ''aggressive_candidate_selected'')] v"

definition proposal_ready :: "tool_observation list \<Rightarrow> string \<Rightarrow> finish_decision" where
  "proposal_ready obs reason =
     \<lparr>fd_outcome = PROPOSAL_READY, fd_evidence_refs = successful_evidence obs,
      fd_reason_code = reason\<rparr>"

record history =
  h_tool :: string
  h_variant :: "string option"
  h_baseline_run_id :: "string option"
  h_experiments :: "candidate_payload list"
  h_retry_consumed :: bool
  h_seen :: "tool_observation list"

definition initial_history :: history where
  "initial_history =
     \<lparr>h_tool = DIAGNOSE_BASELINE_TOOL, h_variant = None, h_baseline_run_id = None,
      h_experiments = [], h_retry_consumed = False, h_seen = []\<rparr>"

text \<open>The decision when every observation has been read.\<close>

definition next_tool_action :: "retrieval_task \<Rightarrow> history \<Rightarrow> exn + agent_decision" where
  "next_tool_action task h =
     (if h_tool h = DIAGNOSE_BASELINE_TOOL then
        Inr (Tool \<lparr>ta_tool_name = DIAGNOSE_BASELINE_TOOL,
                   ta_arguments = [(''profile'', JStr (rt_profile task))],
                   ta_reason_code = ''diagnose_retrieval_baseline''\<rparr>)
      else
        (case (h_baseline_run_id h, h_variant h) of
           (Some base, Some v) \<Rightarrow>
             ebind (experiment_reason v) (\<lambda>reason.
             Inr (Tool \<lparr>ta_tool_name = RUN_CANDIDATE_TOOL,
                        ta_arguments = [(''baseline_run_id'', JStr base),
                                        (''pipeline_variant'', JStr v)],
                        ta_reason_code = reason\<rparr>))
         | _ \<Rightarrow> Inl ValueError))"

text \<open>A failed observation: one retryable failure is forgiven, any other one ends the plan.\<close>

definition failed_decision :: "history \<Rightarrow> tool_observation \<Rightarrow> finish_decision" where
  "failed_decision h x =
     \<lparr>fd_outcome = INCONCLUSIVE, fd_evidence_refs = successful_evidence (h_seen h),
      fd_reason_code =
        (if ob_retryable x \<and> h_retry_consumed h then ''retrieval_tool_retry_exhausted''
         else ''retrieval_tool_failed'')\<rparr>"

text \<open>The checks on a candidate experiment before it is recorded.\<close>

definition check_experiment ::
    "retrieval_task \<Rightarrow> string \<Rightarrow> string \<Rightarrow> candidate_payload list \<Rightarrow> candidate_payload \<Rightarrow> exn + unit" where
  "check_experiment task base v exps e =
     ebind (require (cp_profile e = rt_profile task) ValueError) (\<lambda>_.
     ebind (require (cp_baseline_run_id e = base) ValueError) (\<lambda>_.
     ebind (require (cp_pipeline_variant e = v) ValueError) (\<lambda>_.
     ebind (require (\<not> (\<exists>i \<in> set exps. cp_pipeline_variant i = cp_pipeline_variant e)) ValueError) (\<lambda>_.
     require (\<not> (\<exists>i \<in> set exps. cp_candidate_run_id i = cp_candidate_run_id e \<or>
                   cp_diagnosis_id i = cp_diagnosis_id e \<or> cp_comparison_id i = cp_comparison_id e))
       ValueError))))"

text \<open>The decision after the aggressive probe, from all experiments.\<close>

definition final_decision ::
    "tool_observation list \<Rightarrow> candidate_payload list \<Rightarrow> exn + finish_decision" where
  "final_decision obs exps =
     (case filter (\<lambda>e. gs_passed (cp_gate e)) exps of
        [] \<Rightarrow> Inr \<lparr>fd_outcome = NO_SAFE_IMPROVEMENT, fd_evidence_refs = successful_evidence obs,
                   fd_reason_code = ''no_safe_candidate''\<rparr>
      | e # es \<Rightarrow>
          (case selected_reason (cp_pipeline_variant (max_first selection_key e es)) of
             None \<Rightarrow> Inl ValueError
           | Some reason \<Rightarrow> Inr (proposal_ready obs reason)))"

text \<open>One turn of the loop: the observation is recorded and the loop goes on, or it is terminal.\<close>

datatype verdict = Continue history | Terminal finish_decision

definition observe_failed :: "history \<Rightarrow> tool_observation \<Rightarrow> exn + verdict" where
  "observe_failed h x =
     ebind (validate_failed_observation x) (\<lambda>_.
     if ob_retryable x \<and> \<not> h_retry_consumed h
     then Inr (Continue (h\<lparr>h_retry_consumed := True, h_seen := h_seen h @ [x]\<rparr>))
     else Inr (Terminal (failed_decision h x)))"

definition observe_baseline :: "retrieval_task \<Rightarrow> history \<Rightarrow> tool_observation \<Rightarrow> exn + verdict" where
  "observe_baseline task h x =
     ebind (of_option ValueError (decode_baseline_output (ob_evidence_ref x) (ob_payload x))) (\<lambda>p.
     ebind (require (bp_profile p = rt_profile task) ValueError) (\<lambda>_.
     Inr (Continue (h\<lparr>h_baseline_run_id := Some (bp_run_id p), h_tool := RUN_CANDIDATE_TOOL,
                       h_variant := Some UNIFORM_VARIANT, h_seen := h_seen h @ [x]\<rparr>))))"

definition after_experiment ::
    "history \<Rightarrow> tool_observation \<Rightarrow> tool_observation list \<Rightarrow> string \<Rightarrow> candidate_payload \<Rightarrow> exn + verdict" where
  "after_experiment h x obs v e =
     (let exps = h_experiments h @ [e] in
      if v = UNIFORM_VARIANT then
        (if gs_passed (cp_gate e)
         then Inr (Terminal (proposal_ready obs ''uniform_candidate_passed''))
         else Inr (Continue (h\<lparr>h_experiments := exps, h_variant := Some CONSERVATIVE_VARIANT,
                               h_seen := h_seen h @ [x]\<rparr>)))
      else if v = CONSERVATIVE_VARIANT then
        Inr (Continue (h\<lparr>h_experiments := exps, h_variant := Some AGGRESSIVE_VARIANT,
                         h_seen := h_seen h @ [x]\<rparr>))
      else ebind (final_decision obs exps) (\<lambda>d. Inr (Terminal d)))"

definition observe_candidate ::
    "retrieval_task \<Rightarrow> history \<Rightarrow> tool_observation \<Rightarrow> tool_observation list \<Rightarrow> exn + verdict" where
  "observe_candidate task h x obs =
     (case (h_baseline_run_id h, h_variant h) of
        (Some base, Some v) \<Rightarrow>
          ebind (of_option ValueError (decode_candidate_output (ob_evidence_ref x) (ob_payload x))) (\<lambda>e.
          ebind (check_experiment task base v (h_experiments h) e) (\<lambda>_.
          after_experiment h x obs v e))
      | _ \<Rightarrow> Inl ValueError)"

definition observe ::
    "retrieval_task \<Rightarrow> history \<Rightarrow> tool_observation \<Rightarrow> tool_observation list \<Rightarrow> exn + verdict" where
  "observe task h x obs =
     ebind (require (ob_tool_name x = h_tool h) ValueError) (\<lambda>_.
     if ob_status x = Failed then observe_failed h x
     else ebind (validate_success_observation x) (\<lambda>_.
          if h_tool h = DIAGNOSE_BASELINE_TOOL then observe_baseline task h x
          else observe_candidate task h x obs))"

text \<open>An observation after a terminal one is rejected.\<close>

fun analyze_from :: "retrieval_task \<Rightarrow> history \<Rightarrow> tool_observation list \<Rightarrow> exn + agent_decision" where
  "analyze_from task h [] = next_tool_action task h"
| "analyze_from task h (x # xs) =
     ebind (observe task h x (h_seen h @ x # xs)) (\<lambda>v.
     case v of
       Continue h' \<Rightarrow> analyze_from task h' xs
     | Terminal d \<Rightarrow> ebind (require (xs = []) ValueError) (\<lambda>_. Inr (Finish d)))"

definition analyze_history :: "retrieval_task \<Rightarrow> tool_observation list \<Rightarrow> exn + agent_decision" where
  "analyze_history task obs = analyze_from task initial_history obs"

definition expected_retrieval_decision ::
    "retrieval_task \<Rightarrow> tool_observation list \<Rightarrow> exn + agent_decision" where
  "expected_retrieval_decision task obs =
     ebind (require (rt_candidate_variants task = RETRIEVAL_PIPELINE_VARIANTS) ValueError) (\<lambda>_.
     analyze_history task obs)"

definition validate_retrieval_plan_semantics ::
    "retrieval_task \<Rightarrow> tool_observation list \<Rightarrow> finish_decision \<Rightarrow> exn + unit" where
  "validate_retrieval_plan_semantics task obs terminal =
     ebind (expected_retrieval_decision task obs) (\<lambda>d.
     case d of
       Tool _ \<Rightarrow> Inl ValueError
     | Finish f \<Rightarrow> require (terminal = f) ValueError)"

text \<open>\<^verbatim>\<open>ObservationDrivenRetrievalPlanner.decide\<close>\<close>

definition retrieval_planner_decide ::
    "runtime_task \<Rightarrow> tool_observation list \<Rightarrow> exn + agent_decision" where
  "retrieval_planner_decide task obs =
     (case task of
        CompareTask _ \<Rightarrow> Inl TypeError
      | RetrievalTask t \<Rightarrow> expected_retrieval_decision t obs)"

subsection \<open>The shape of valid histories\<close>

text \<open>
  \<open>decoded_experiments\<close> reads the candidate experiments off the observations; the invariant ties
  the loop variables to what was observed and to the position in the candidate sequence.
\<close>

definition decoded_experiments :: "tool_observation list \<Rightarrow> candidate_payload list" where
  "decoded_experiments obs =
     List.map_filter (\<lambda>x. if ob_status x = Succeeded \<and> ob_tool_name x = RUN_CANDIDATE_TOOL
                           then decode_candidate_output (ob_evidence_ref x) (ob_payload x)
                           else None) obs"

lemma decoded_experiments_snoc:
  "decoded_experiments (obs @ [x]) = decoded_experiments obs @
     (if ob_status x = Succeeded \<and> ob_tool_name x = RUN_CANDIDATE_TOOL
      then (case decode_candidate_output (ob_evidence_ref x) (ob_payload x) of
              None \<Rightarrow> [] | Some e \<Rightarrow> [e])
      else [])"
  by (auto simp: decoded_experiments_def List.map_filter_def split: option.splits)

lemma decoded_experiments_Nil [simp]: "decoded_experiments [] = []"
  by (simp add: decoded_experiments_def List.map_filter_def)

fun variant_invariant :: "string option \<Rightarrow> candidate_payload list \<Rightarrow> bool" where
  "variant_invariant None exps = False"
| "variant_invariant (Some v) exps =
     (if v = UNIFORM_VARIANT then exps = []
      else if v = CONSERVATIVE_VARIANT then
        map cp_pipeline_variant exps = [UNIFORM_VARIANT] \<and> \<not> gs_passed (cp_gate (hd exps))
      else v = AGGRESSIVE_VARIANT \<and>
        map cp_pipeline_variant exps = [UNIFORM_VARIANT, CONSERVATIVE_VARIANT] \<and>
        \<not> gs_passed (cp_gate (hd exps)))"

definition history_invariant :: "history \<Rightarrow> bool" where
  "history_invariant h =
     (h_experiments h = decoded_experiments (h_seen h) \<and>
      (if h_tool h = DIAGNOSE_BASELINE_TOOL then h_experiments h = []
       else h_tool h = RUN_CANDIDATE_TOOL \<and> h_baseline_run_id h \<noteq> None \<and>
            variant_invariant (h_variant h) (h_experiments h)))"

text \<open>How many more observations a history can take.\<close>

definition budget :: "history \<Rightarrow> nat" where
  "budget h =
     (if h_tool h = DIAGNOSE_BASELINE_TOOL then 4
      else if h_variant h = Some UNIFORM_VARIANT then 3
      else if h_variant h = Some CONSERVATIVE_VARIANT then 2 else 1)
     + (if h_retry_consumed h then 0 else 1)"

lemma history_invariant_initial [simp]: "history_invariant initial_history"
  by (simp add: history_invariant_def initial_history_def)

lemma observe_elims:
  assumes "observe task h x obs = Inr v"
  obtains (failed) "ob_status x = Failed" "ob_tool_name x = h_tool h" "observe_failed h x = Inr v"
  | (baseline) "ob_status x = Succeeded" "ob_tool_name x = DIAGNOSE_BASELINE_TOOL"
      "h_tool h = DIAGNOSE_BASELINE_TOOL" "observe_baseline task h x = Inr v"
  | (candidate) base w e where "ob_status x = Succeeded" "ob_tool_name x = h_tool h"
      "h_tool h \<noteq> DIAGNOSE_BASELINE_TOOL" "h_baseline_run_id h = Some base" "h_variant h = Some w"
      "decode_candidate_output (ob_evidence_ref x) (ob_payload x) = Some e"
      "check_experiment task base w (h_experiments h) e = Inr ()"
      "after_experiment h x obs w e = Inr v"
proof (cases "ob_status x")
  case Failed
  then show ?thesis using assms failed by (simp add: observe_def)
next
  case Succeeded
  show ?thesis
  proof (cases "h_tool h = DIAGNOSE_BASELINE_TOOL")
    case True
    then show ?thesis using assms Succeeded baseline by (simp add: observe_def)
  next
    case False
    then have "observe_candidate task h x obs = Inr v" "ob_tool_name x = h_tool h"
      using assms Succeeded by (simp_all add: observe_def)
    then show ?thesis
      using Succeeded False candidate
      by (auto simp: observe_candidate_def split: option.splits prod.splits)
  qed
qed

lemma check_experiment_variant:
  "check_experiment task base v exps e = Inr u \<Longrightarrow> cp_pipeline_variant e = v"
  by (simp add: check_experiment_def)

lemma observe_Continue:
  assumes "history_invariant h" and "observe task h x obs = Inr (Continue h')"
  shows "history_invariant h' \<and> budget h = Suc (budget h') \<and> h_seen h' = h_seen h @ [x]"
  using assms(2)
proof (cases rule: observe_elims)
  case failed
  then show ?thesis
    using assms(1)
    by (auto simp: observe_failed_def history_invariant_def budget_def decoded_experiments_snoc
        split: if_splits)
next
  case baseline
  then show ?thesis
    using assms(1)
    by (auto simp: observe_baseline_def history_invariant_def budget_def decoded_experiments_snoc)
next
  case (candidate base w e)
  note check_experiment_variant [OF candidate(7)]
  then show ?thesis
    using assms(1) candidate
    by (auto simp: after_experiment_def history_invariant_def budget_def decoded_experiments_snoc
        Let_def final_decision_def split: if_splits list.splits option.splits)
qed

lemma budget_pos: "0 < budget h"
  by (simp add: budget_def)

lemma analyze_from_bound:
  assumes "history_invariant h" and "analyze_from task h xs = Inr d"
  shows "length xs \<le> budget h \<and> (\<forall>a. d = Tool a \<longrightarrow> length xs < budget h)"
  using assms
proof (induction xs arbitrary: h)
  case Nil
  then show ?case using budget_pos by simp
next
  case (Cons x xs)
  from Cons.prems(2) obtain v where v: "observe task h x (h_seen h @ x # xs) = Inr v"
    by auto
  show ?case
  proof (cases v)
    case (Continue h')
    with observe_Continue [OF Cons.prems(1)] v
    have "history_invariant h'" "budget h = Suc (budget h')" by auto
    with Cons.IH [of h'] Cons.prems(2) v Continue show ?thesis by auto
  next
    case (Terminal f)
    with Cons.prems(2) v budget_pos [of h] show ?thesis by auto
  qed
qed

subsection \<open>What a terminal decision implies\<close>

definition fixed_finish_reason :: "string \<Rightarrow> string" where
  "fixed_finish_reason v =
     (if v = UNIFORM_VARIANT then ''uniform_candidate_passed''
      else if v = CONSERVATIVE_VARIANT then ''conservative_candidate_selected''
      else ''aggressive_candidate_selected'')"

text \<open>The best of the experiments that passed their gates.\<close>

definition best_passing :: "candidate_payload list \<Rightarrow> candidate_payload \<Rightarrow> bool" where
  "best_passing es e =
     (e \<in> set es \<and> gs_passed (cp_gate e) \<and>
      (\<forall>e' \<in> set es. gs_passed (cp_gate e') \<longrightarrow> selection_key e' \<le> selection_key e))"

definition grounded_terminal :: "tool_observation list \<Rightarrow> finish_decision \<Rightarrow> bool" where
  "grounded_terminal obs f =
     (let es = decoded_experiments obs in
      case fd_outcome f of
        PROPOSAL_READY \<Rightarrow> fd_evidence_refs f = successful_evidence obs \<and>
          (\<exists>e. best_passing es e \<and> fd_reason_code f = fixed_finish_reason (cp_pipeline_variant e))
      | NO_SAFE_IMPROVEMENT \<Rightarrow> fd_evidence_refs f = successful_evidence obs \<and>
          map cp_pipeline_variant es = RETRIEVAL_PIPELINE_VARIANTS \<and>
          (\<forall>e \<in> set es. \<not> gs_passed (cp_gate e))
      | INCONCLUSIVE \<Rightarrow> obs \<noteq> [] \<and> ob_status (last obs) = Failed
      | _ \<Rightarrow> False)"

lemma max_first_best_passing:
  assumes "filter (\<lambda>e. gs_passed (cp_gate e)) es = e # rest"
  shows "best_passing es (max_first selection_key e rest)"
proof -
  have set: "set (e # rest) = {x \<in> set es. gs_passed (cp_gate x)}"
    using assms by (metis set_filter)
  then show ?thesis
    using max_first_in [of selection_key e rest] max_first_ge [of _ e rest selection_key]
    unfolding best_passing_def by blast
qed

lemma final_decision_grounded:
  assumes "final_decision obs es = Inr f" and "decoded_experiments obs = es"
    and "map cp_pipeline_variant es = RETRIEVAL_PIPELINE_VARIANTS"
  shows "grounded_terminal obs f"
proof (cases "filter (\<lambda>e. gs_passed (cp_gate e)) es")
  case Nil
  then show ?thesis
    using assms by (auto simp: final_decision_def grounded_terminal_def filter_empty_conv)
next
  case (Cons e rest)
  let ?b = "max_first selection_key e rest"
  from max_first_best_passing [OF Cons] have best: "best_passing es ?b" .
  from assms(1) Cons have "selected_reason (cp_pipeline_variant ?b) = Some (fd_reason_code f)"
    and f: "fd_outcome f = PROPOSAL_READY" "fd_evidence_refs f = successful_evidence obs"
    by (auto simp: final_decision_def proposal_ready_def split: option.splits)
  then have "fd_reason_code f = fixed_finish_reason (cp_pipeline_variant ?b)"
    by (auto simp: selected_reason_def fixed_finish_reason_def split: if_splits)
  with best f assms(2) show ?thesis by (auto simp: grounded_terminal_def)
qed

lemma observe_Terminal:
  assumes inv: "history_invariant h"
    and obs: "observe task h x (h_seen h @ [x]) = Inr (Terminal f)"
  shows "grounded_terminal (h_seen h @ [x]) f"
  using obs
proof (cases rule: observe_elims)
  case failed
  then show ?thesis
    by (auto simp: observe_failed_def failed_decision_def grounded_terminal_def split: if_splits)
next
  case baseline
  then show ?thesis by (auto simp: observe_baseline_def)
next
  case (candidate base w e)
  let ?obs = "h_seen h @ [x]"
  let ?es = "h_experiments h @ [e]"
  from inv candidate(3) have "h_tool h = RUN_CANDIDATE_TOOL"
    and "variant_invariant (h_variant h) (h_experiments h)"
    by (auto simp: history_invariant_def simp del: variant_invariant.simps split: if_splits)
  then have tool: "ob_tool_name x = RUN_CANDIDATE_TOOL"
    and var: "variant_invariant (Some w) (h_experiments h)"
    using candidate(2,5) by simp_all
  with inv candidate(1,6) have es: "decoded_experiments ?obs = ?es"
    by (simp add: decoded_experiments_snoc history_invariant_def)
  have we: "cp_pipeline_variant e = w"
    using candidate(7) by (rule check_experiment_variant)
  show ?thesis
  proof (cases "w = UNIFORM_VARIANT")
    case True
    with candidate(8) var es we show ?thesis
      by (auto simp: after_experiment_def grounded_terminal_def proposal_ready_def Let_def
          best_passing_def fixed_finish_reason_def split: if_splits)
  next
    case False
    with candidate(8) var we have "final_decision ?obs ?es = Inr f"
      and "map cp_pipeline_variant ?es = RETRIEVAL_PIPELINE_VARIANTS"
      by (auto simp: after_experiment_def Let_def RETRIEVAL_PIPELINE_VARIANTS_def split: if_splits)
    with es show ?thesis by (intro final_decision_grounded)
  qed
qed

lemma next_tool_action_not_Finish: "next_tool_action task h \<noteq> Inr (Finish f)"
  by (auto simp: next_tool_action_def split: option.splits)

lemma analyze_from_Finish:
  assumes "history_invariant h" and "analyze_from task h xs = Inr (Finish f)"
  shows "grounded_terminal (h_seen h @ xs) f"
  using assms
proof (induction xs arbitrary: h)
  case Nil
  then show ?case using next_tool_action_not_Finish by auto
next
  case (Cons x xs)
  from Cons.prems(2) obtain v where v: "observe task h x (h_seen h @ x # xs) = Inr v"
    by auto
  show ?case
  proof (cases v)
    case (Continue h')
    with observe_Continue [OF Cons.prems(1)] v have "history_invariant h'"
      and "h_seen h' = h_seen h @ [x]" by auto
    with Cons.IH [of h'] Cons.prems(2) v Continue show ?thesis by auto
  next
    case (Terminal g)
    with Cons.prems(2) v have "xs = []" "g = f" by auto
    with observe_Terminal [OF Cons.prems(1)] v Terminal show ?thesis by auto
  qed
qed

lemma expected_decision_cases:
  assumes "expected_retrieval_decision task obs = Inr d"
  shows "length obs \<le> 5" and "d = Tool a \<Longrightarrow> length obs \<le> 4"
    and "d = Finish f \<Longrightarrow> grounded_terminal obs f"
  using assms analyze_from_bound [OF history_invariant_initial, of task obs d]
    analyze_from_Finish [OF history_invariant_initial, of task obs f]
  by (auto simp: expected_retrieval_decision_def analyze_history_def initial_history_def budget_def)

text \<open>A history that is not a valid one is refused with \<^verbatim>\<open>ValueError\<close>, never with another exception.\<close>

lemma observe_ValueError: "observe task h x obs = Inl e \<Longrightarrow> e = ValueError"
  by (auto simp: observe_def observe_failed_def observe_baseline_def observe_candidate_def check_experiment_def
      after_experiment_def final_decision_def ebind_Inl_iff validate_failed_observation_def
      validate_success_observation_def Let_def split: if_splits option.splits list.splits prod.splits)

lemma next_tool_action_ValueError:
  assumes "history_invariant h" "next_tool_action task h = Inl e"
  shows "e = ValueError"
  using assms
  by (auto simp: next_tool_action_def history_invariant_def experiment_reason_def ebind_Inl_iff
      split: if_splits option.splits)

lemma analyze_from_ValueError:
  "history_invariant h \<Longrightarrow> analyze_from task h xs = Inl e \<Longrightarrow> e = ValueError"
proof (induction xs arbitrary: h)
  case Nil
  then show ?case by (simp add: next_tool_action_ValueError)
next
  case (Cons x xs)
  show ?case
  proof (cases "observe task h x (h_seen h @ x # xs)")
    case (Inl e')
    with Cons.prems(2) observe_ValueError [OF Inl] show ?thesis by simp
  next
    case (Inr v)
    with Cons.prems Cons.IH show ?thesis
      by (cases v) (auto simp: ebind_Inl_iff dest: observe_Continue)
  qed
qed

lemma expected_decision_ValueError: "expected_retrieval_decision task obs = Inl e \<Longrightarrow> e = ValueError"
  by (auto simp: expected_retrieval_decision_def analyze_history_def ebind_Inl_iff
      dest: analyze_from_ValueError [OF history_invariant_initial])

lemma decoded_experiments_Cons:
  "decoded_experiments (x # xs) =
     (if ob_status x = Succeeded \<and> ob_tool_name x = RUN_CANDIDATE_TOOL
      then (case decode_candidate_output (ob_evidence_ref x) (ob_payload x) of None \<Rightarrow> [] | Some e \<Rightarrow> [e])
      else []) @ decoded_experiments xs"
  by (auto simp: decoded_experiments_def List.map_filter_def split: option.splits)

end
