(* ===== verification/RetrievalPolicy.thy ===== *)
theory RetrievalPolicy
  imports RetrievalPlanner
begin

text \<open>
  \<^verbatim>\<open>src/search_quality/agent/retrieval_policy.py\<close>: the finite option set from which an LLM planner
  chooses. \<open>analyze_adaptive_retrieval_history\<close> validates the observed evidence without assuming
  an order of the candidates; \<open>derive_adaptive_retrieval_options\<close> lists the server-generated
  options of the current turn; \<open>option_for_adaptive_decision\<close> resolves a decision back to its
  option. The lemmas show that the option set is small, unambiguous and never offers a
  finish that the evidence does not support.
\<close>

record decision_option =
  do_option_id :: string
  do_decision :: agent_decision
  do_description_code :: string

record adaptive_history =
  ah_baseline :: "baseline_payload option"
  ah_experiments :: "candidate_payload list"
  ah_failed :: bool

definition OPTION_BY_VARIANT :: "(string \<times> string) list" where
  "OPTION_BY_VARIANT =
     [(UNIFORM_VARIANT, ''run_uniform_candidate''),
      (CONSERVATIVE_VARIANT, ''run_conservative_candidate''),
      (AGGRESSIVE_VARIANT, ''run_aggressive_candidate'')]"

definition RUN_REASON_BY_VARIANT :: "(string \<times> string) list" where
  "RUN_REASON_BY_VARIANT =
     [(UNIFORM_VARIANT, ''llm_test_uniform_candidate''),
      (CONSERVATIVE_VARIANT, ''llm_test_conservative_candidate''),
      (AGGRESSIVE_VARIANT, ''llm_test_aggressive_candidate'')]"

definition FINISH_REASON_BY_VARIANT :: "(string \<times> string) list" where
  "FINISH_REASON_BY_VARIANT =
     [(UNIFORM_VARIANT, ''llm_uniform_candidate_selected''),
      (CONSERVATIVE_VARIANT, ''llm_conservative_candidate_selected''),
      (AGGRESSIVE_VARIANT, ''llm_aggressive_candidate_selected'')]"

subsection \<open>Validating the observed history\<close>

definition adaptive_baseline ::
    "retrieval_task \<Rightarrow> adaptive_history \<Rightarrow> tool_observation \<Rightarrow> exn + adaptive_history" where
  "adaptive_baseline task h x =
     ebind (require (ah_baseline h = None \<and> ah_experiments h = []) ValueError) (\<lambda>_.
     ebind (of_option ValueError (decode_baseline_output (ob_evidence_ref x) (ob_payload x))) (\<lambda>p.
     ebind (require (bp_profile p = rt_profile task) ValueError) (\<lambda>_.
     Inr (h\<lparr>ah_baseline := Some p\<rparr>))))"

definition adaptive_candidate ::
    "retrieval_task \<Rightarrow> adaptive_history \<Rightarrow> tool_observation \<Rightarrow> exn + adaptive_history" where
  "adaptive_candidate task h x =
     (case ah_baseline h of
        None \<Rightarrow> Inl ValueError
      | Some b \<Rightarrow>
          ebind (require (ob_tool_name x = RUN_CANDIDATE_TOOL) ValueError) (\<lambda>_.
          ebind (of_option ValueError (decode_candidate_output (ob_evidence_ref x) (ob_payload x))) (\<lambda>e.
          ebind (require (cp_profile e = rt_profile task) ValueError) (\<lambda>_.
          ebind (require (cp_baseline_run_id e = bp_run_id b) ValueError) (\<lambda>_.
          ebind (require (cp_pipeline_variant e \<in> set (rt_candidate_variants task)) ValueError) (\<lambda>_.
          ebind (require (\<not> (\<exists>i \<in> set (ah_experiments h).
                   cp_pipeline_variant i = cp_pipeline_variant e)) ValueError) (\<lambda>_.
          ebind (require (\<not> (\<exists>i \<in> set (ah_experiments h).
                   cp_candidate_run_id i = cp_candidate_run_id e \<or>
                   cp_diagnosis_id i = cp_diagnosis_id e \<or>
                   cp_comparison_id i = cp_comparison_id e)) ValueError) (\<lambda>_.
          Inr (h\<lparr>ah_experiments := ah_experiments h @ [e]\<rparr>)))))))))"

fun adaptive_from ::
    "retrieval_task \<Rightarrow> adaptive_history \<Rightarrow> tool_observation list \<Rightarrow> exn + adaptive_history" where
  "adaptive_from task h [] = Inr h"
| "adaptive_from task h (x # xs) =
     ebind (require (\<not> ah_failed h) ValueError) (\<lambda>_.
     if ob_status x = Failed then
       ebind (validate_failed_observation x) (\<lambda>_.
       ebind (require (xs = []) ValueError) (\<lambda>_.
       adaptive_from task (h\<lparr>ah_failed := True\<rparr>) xs))
     else
       ebind (validate_success_observation x) (\<lambda>_.
       ebind (if ob_tool_name x = DIAGNOSE_BASELINE_TOOL then adaptive_baseline task h x
              else adaptive_candidate task h x) (\<lambda>h'.
       adaptive_from task h' xs)))"

definition analyze_adaptive_retrieval_history ::
    "retrieval_task \<Rightarrow> tool_observation list \<Rightarrow> exn + adaptive_history" where
  "analyze_adaptive_retrieval_history task obs =
     adaptive_from task \<lparr>ah_baseline = None, ah_experiments = [], ah_failed = False\<rparr> obs"

subsection \<open>The option set\<close>

definition diagnose_option :: "retrieval_task \<Rightarrow> decision_option" where
  "diagnose_option task =
     \<lparr>do_option_id = ''diagnose_baseline'',
      do_decision = Tool \<lparr>ta_tool_name = DIAGNOSE_BASELINE_TOOL,
                          ta_arguments = [(''profile'', JStr (rt_profile task))],
                          ta_reason_code = ''llm_diagnose_retrieval_baseline''\<rparr>,
      do_description_code = ''establish_stage_baseline''\<rparr>"

definition run_option :: "string \<Rightarrow> string \<Rightarrow> exn + decision_option" where
  "run_option base v =
     ebind (of_option KeyError (map_of OPTION_BY_VARIANT v)) (\<lambda>i.
     ebind (of_option KeyError (map_of RUN_REASON_BY_VARIANT v)) (\<lambda>reason.
     Inr \<lparr>do_option_id = i,
          do_decision = Tool \<lparr>ta_tool_name = RUN_CANDIDATE_TOOL,
                              ta_arguments = [(''baseline_run_id'', JStr base),
                                              (''pipeline_variant'', JStr v)],
                              ta_reason_code = reason\<rparr>,
          do_description_code = ''test_unobserved_retrieval_candidate''\<rparr>))"

definition finish_best_option ::
    "tool_observation list \<Rightarrow> candidate_payload \<Rightarrow> exn + decision_option" where
  "finish_best_option obs selected =
     ebind (of_option KeyError (map_of FINISH_REASON_BY_VARIANT (cp_pipeline_variant selected))) (\<lambda>reason.
     Inr \<lparr>do_option_id = ''finish_best_passing_candidate'',
          do_decision = Finish \<lparr>fd_outcome = PROPOSAL_READY,
                                fd_evidence_refs = successful_evidence obs,
                                fd_reason_code = reason\<rparr>,
          do_description_code = ''finish_with_best_gate_passing_candidate''\<rparr>)"

definition finish_no_safe_option :: "tool_observation list \<Rightarrow> decision_option" where
  "finish_no_safe_option obs =
     \<lparr>do_option_id = ''finish_no_safe_improvement'',
      do_decision = Finish \<lparr>fd_outcome = NO_SAFE_IMPROVEMENT,
                            fd_evidence_refs = successful_evidence obs,
                            fd_reason_code = ''llm_no_safe_candidate''\<rparr>,
      do_description_code = ''finish_after_all_candidates_failed_gates''\<rparr>"

definition finish_options ::
    "retrieval_task \<Rightarrow> tool_observation list \<Rightarrow> candidate_payload list \<Rightarrow> exn + decision_option list" where
  "finish_options task obs exps =
     (case filter (\<lambda>e. gs_passed (cp_gate e)) exps of
        e # es \<Rightarrow> ebind (finish_best_option obs (max_first selection_key e es)) (\<lambda>opt. Inr [opt])
      | [] \<Rightarrow> if length exps = length (rt_candidate_variants task)
              then Inr [finish_no_safe_option obs] else Inr [])"

definition derive_adaptive_retrieval_options ::
    "retrieval_task \<Rightarrow> tool_observation list \<Rightarrow> exn + decision_option list" where
  "derive_adaptive_retrieval_options task obs =
     ebind (require (rt_decision_policy task = Adaptive_llm_v1) ValueError) (\<lambda>_.
     ebind (require (rt_candidate_variants task = RETRIEVAL_PIPELINE_VARIANTS) ValueError) (\<lambda>_.
     ebind (analyze_adaptive_retrieval_history task obs) (\<lambda>h.
     if ah_failed h then Inr []
     else (case ah_baseline h of
             None \<Rightarrow> Inr [diagnose_option task]
           | Some b \<Rightarrow>
               (let tested = map cp_pipeline_variant (ah_experiments h) in
                ebind (traverse (run_option (bp_run_id b))
                         (filter (\<lambda>v. v \<notin> set tested) (rt_candidate_variants task))) (\<lambda>runs.
                ebind (finish_options task obs (ah_experiments h)) (\<lambda>fin.
                ebind (require (runs @ fin \<noteq> []) ValueError) (\<lambda>_.
                Inr (runs @ fin)))))))))"

definition option_for_adaptive_decision ::
    "retrieval_task \<Rightarrow> tool_observation list \<Rightarrow> agent_decision \<Rightarrow> exn + decision_option" where
  "option_for_adaptive_decision task obs d =
     ebind (derive_adaptive_retrieval_options task obs) (\<lambda>opts.
     case filter (\<lambda>opt. decision_eq (do_decision opt) d) opts of
       [opt] \<Rightarrow> Inr opt
     | _ \<Rightarrow> Inl ValueError)"

subsection \<open>The shape of the option set\<close>

definition adaptive_invariant :: "retrieval_task \<Rightarrow> adaptive_history \<Rightarrow> bool" where
  "adaptive_invariant task h =
     (distinct (map cp_pipeline_variant (ah_experiments h)) \<and>
      set (map cp_pipeline_variant (ah_experiments h)) \<subseteq> set (rt_candidate_variants task))"

lemma adaptive_from_invariant:
  "adaptive_from task h xs = Inr h' \<Longrightarrow> adaptive_invariant task h \<Longrightarrow> adaptive_invariant task h'"
proof (induction xs arbitrary: h)
  case (Cons x xs)
  show ?case
  proof (cases "ob_status x = Failed")
    case True
    then show ?thesis
      using Cons.prems Cons.IH [of "h\<lparr>ah_failed := True\<rparr>"]
      by (auto simp: adaptive_invariant_def image_subset_iff)
  next
    case False
    with Cons.prems obtain g where
      g: "(if ob_tool_name x = DIAGNOSE_BASELINE_TOOL then adaptive_baseline task h x
           else adaptive_candidate task h x) = Inr g" and rest: "adaptive_from task g xs = Inr h'"
      by auto
    have "adaptive_invariant task g"
      using g Cons.prems(2)
      by (auto simp: adaptive_baseline_def adaptive_candidate_def adaptive_invariant_def
          image_subset_iff split: if_splits option.splits) (metis imageE)
    with rest show ?thesis by (rule Cons.IH)
  qed
qed simp

lemma analyze_adaptive_invariant:
  "analyze_adaptive_retrieval_history task obs = Inr h \<Longrightarrow> adaptive_invariant task h"
  unfolding analyze_adaptive_retrieval_history_def
  by (erule adaptive_from_invariant) (simp add: adaptive_invariant_def)

text \<open>On the trusted variants no table lookup fails.\<close>

definition run_option_of :: "string \<Rightarrow> string \<Rightarrow> decision_option" where
  "run_option_of base v = projr (run_option base v)"

lemma run_option_trusted:
  "v \<in> set RETRIEVAL_PIPELINE_VARIANTS \<Longrightarrow> run_option base v = Inr (run_option_of base v)"
  by (auto simp: RETRIEVAL_PIPELINE_VARIANTS_def run_option_of_def run_option_def
      OPTION_BY_VARIANT_def RUN_REASON_BY_VARIANT_def)

lemma traverse_run_option:
  "set vs \<subseteq> set RETRIEVAL_PIPELINE_VARIANTS \<Longrightarrow>
     traverse (run_option base) vs = Inr (map (run_option_of base) vs)"
  by (rule traverse_Inr_map) (auto intro: run_option_trusted)

lemma finish_options_cases:
  assumes "finish_options task obs exps = Inr fin"
  shows "length fin \<le> 1"
    and "opt \<in> set fin \<Longrightarrow> do_option_id opt \<in> {''finish_best_passing_candidate'', ''finish_no_safe_improvement''}
           \<and> (\<exists>f. do_decision opt = Finish f \<and> fd_evidence_refs f = successful_evidence obs)"
  using assms
  by (auto simp: finish_options_def finish_best_option_def finish_no_safe_option_def
      split: list.splits if_splits)

text \<open>Options are told apart by their id and by the reason code of their decision.\<close>

definition decision_reason :: "agent_decision \<Rightarrow> string" where
  "decision_reason d = (case d of Tool a \<Rightarrow> ta_reason_code a | Finish f \<Rightarrow> fd_reason_code f)"

lemma decision_eq_reason: "decision_eq d e \<Longrightarrow> decision_reason d = decision_reason e"
  by (cases d; cases e) (auto simp: decision_reason_def)

lemma run_option_inj:
  assumes "v \<in> set RETRIEVAL_PIPELINE_VARIANTS" and "w \<in> set RETRIEVAL_PIPELINE_VARIANTS"
  shows "do_option_id (run_option_of base v) = do_option_id (run_option_of base w) \<longleftrightarrow> v = w"
    and "decision_reason (do_decision (run_option_of base v)) =
         decision_reason (do_decision (run_option_of base w)) \<longleftrightarrow> v = w"
  using assms
  by (auto simp: RETRIEVAL_PIPELINE_VARIANTS_def run_option_of_def run_option_def
      OPTION_BY_VARIANT_def RUN_REASON_BY_VARIANT_def decision_reason_def)

lemma run_option_tool:
  assumes "v \<in> set RETRIEVAL_PIPELINE_VARIANTS"
  shows "do_decision (run_option_of base v) =
           Tool \<lparr>ta_tool_name = RUN_CANDIDATE_TOOL,
                 ta_arguments = [(''baseline_run_id'', JStr base), (''pipeline_variant'', JStr v)],
                 ta_reason_code = ta_reason_code (case do_decision (run_option_of base v) of Tool a \<Rightarrow> a)\<rparr>"
    and "do_option_id (run_option_of base v) \<notin> {''finish_best_passing_candidate'', ''finish_no_safe_improvement''}"
  using assms
  by (auto simp: RETRIEVAL_PIPELINE_VARIANTS_def run_option_of_def run_option_def
      OPTION_BY_VARIANT_def RUN_REASON_BY_VARIANT_def)

text \<open>The three shapes of an option set.\<close>

lemma derive_options_cases:
  assumes "derive_adaptive_retrieval_options task obs = Inr opts"
  obtains (failed) h where "analyze_adaptive_retrieval_history task obs = Inr h" "ah_failed h" "opts = []"
  | (first) h where "analyze_adaptive_retrieval_history task obs = Inr h" "ah_baseline h = None"
      "opts = [diagnose_option task]"
  | (running) h b vs fin where "analyze_adaptive_retrieval_history task obs = Inr h"
      "ah_baseline h = Some b" "\<not> ah_failed h"
      "vs = filter (\<lambda>v. v \<notin> set (map cp_pipeline_variant (ah_experiments h))) RETRIEVAL_PIPELINE_VARIANTS"
      "finish_options task obs (ah_experiments h) = Inr fin"
      "opts = map (run_option_of (bp_run_id b)) vs @ fin" "opts \<noteq> []"
proof -
  from assms have var: "rt_candidate_variants task = RETRIEVAL_PIPELINE_VARIANTS"
    by (simp add: derive_adaptive_retrieval_options_def)
  from assms obtain h where h: "analyze_adaptive_retrieval_history task obs = Inr h"
    by (auto simp: derive_adaptive_retrieval_options_def)
  let ?vs = "filter (\<lambda>v. v \<notin> set (map cp_pipeline_variant (ah_experiments h))) RETRIEVAL_PIPELINE_VARIANTS"
  show ?thesis
  proof (cases "ah_failed h")
    case True
    then show ?thesis using assms h failed by (simp add: derive_adaptive_retrieval_options_def)
  next
    case False
    show ?thesis
    proof (cases "ah_baseline h")
      case None
      then show ?thesis using assms h False first by (simp add: derive_adaptive_retrieval_options_def)
    next
      case (Some b)
      have "traverse (run_option (bp_run_id b)) ?vs = Inr (map (run_option_of (bp_run_id b)) ?vs)"
        by (rule traverse_run_option) auto
      with Some False assms h var show ?thesis
        using running [OF h Some False refl]
        by (auto simp: derive_adaptive_retrieval_options_def Let_def)
    qed
  qed
qed

lemma derive_options_unambiguous:
  assumes "derive_adaptive_retrieval_options task obs = Inr opts"
  shows "length opts \<le> 4" and "distinct (map do_option_id opts)"
    and "\<And>o1 o2. o1 \<in> set opts \<Longrightarrow> o2 \<in> set opts \<Longrightarrow>
           decision_eq (do_decision o1) (do_decision o2) \<Longrightarrow> o1 = o2"
proof -
  have "length opts \<le> 4 \<and> distinct (map do_option_id opts) \<and>
    (\<forall>o1 \<in> set opts. \<forall>o2 \<in> set opts. decision_eq (do_decision o1) (do_decision o2) \<longrightarrow> o1 = o2)"
    using assms
  proof (cases rule: derive_options_cases)
    case (running h b vs fin)
    let ?run = "run_option_of (bp_run_id b)"
    have sub: "set vs \<subseteq> set RETRIEVAL_PIPELINE_VARIANTS" and dist: "distinct vs" and len: "length vs \<le> 3"
      unfolding running(4)
      by (auto simp: RETRIEVAL_PIPELINE_VARIANTS_def)
    note fin = finish_options_cases [OF running(5)]
    have one: "fin = [] \<or> (\<exists>g. fin = [g])" using fin(1) by (cases fin) auto
    have runs: "distinct (map (\<lambda>v. do_option_id (?run v)) vs)"
      using sub dist run_option_inj(1) by (auto simp: distinct_map inj_on_def subset_eq)
    have tool: "\<exists>a. do_decision (?run v) = Tool a"
      and ids: "do_option_id (?run v) \<notin> {''finish_best_passing_candidate'', ''finish_no_safe_improvement''}"
      if "v \<in> set vs" for v
      using run_option_tool [of v "bp_run_id b"] that sub by blast+
    have "distinct (map do_option_id opts)"
      using runs one fin(2) ids unfolding running(6) by (fastforce simp: comp_def)
    moreover have "o1 = o2"
      if mem: "o1 \<in> set opts" "o2 \<in> set opts" and eq: "decision_eq (do_decision o1) (do_decision o2)" for o1 o2
    proof -
      have kinds: "x \<in> ?run ` set vs \<or> fin = [x]" if "x \<in> set opts" for x
        using that one unfolding running(6) by auto
      show ?thesis
        using kinds [OF mem(1)] kinds [OF mem(2)]
      proof (elim disjE)
        assume "o1 \<in> ?run ` set vs" "o2 \<in> ?run ` set vs"
        then show ?thesis
          using decision_eq_reason [OF eq] run_option_inj(2) sub by blast
      next
        assume "o1 \<in> ?run ` set vs" "fin = [o2]"
        then show ?thesis using eq tool fin(2) by fastforce
      next
        assume "fin = [o1]" "o2 \<in> ?run ` set vs"
        then show ?thesis using eq tool fin(2) by fastforce
      next
        assume "fin = [o1]" "fin = [o2]"
        then show ?thesis by simp
      qed
    qed
    ultimately show ?thesis using len fin(1) unfolding running(6) by auto
  qed auto
  then show "length opts \<le> 4" "distinct (map do_option_id opts)"
    "\<And>o1 o2. o1 \<in> set opts \<Longrightarrow> o2 \<in> set opts \<Longrightarrow>
       decision_eq (do_decision o1) (do_decision o2) \<Longrightarrow> o1 = o2" by blast+
qed

lemma option_for_own_decision:
  assumes derive: "derive_adaptive_retrieval_options task obs = Inr opts" and opt: "opt \<in> set opts"
  shows "option_for_adaptive_decision task obs (do_decision opt) = Inr opt"
proof -
  note un = derive_options_unambiguous [OF derive]
  have "distinct opts" using un(2) by (simp add: distinct_map)
  moreover have "decision_eq (do_decision x) (do_decision opt) \<longleftrightarrow> x = opt" if "x \<in> set opts" for x
    using un(3) [OF that opt] by auto
  ultimately have "filter (\<lambda>x. decision_eq (do_decision x) (do_decision opt)) opts = [opt]"
    using opt by (induction opts) (auto simp: filter_empty_conv)
  with derive show ?thesis by (simp add: option_for_adaptive_decision_def)
qed

text \<open>Whatever decision is accepted equals, as a Python value, the decision of a listed option.\<close>

lemma option_for_adaptive_decision_sound:
  assumes "option_for_adaptive_decision task obs d = Inr opt"
  shows "\<exists>opts. derive_adaptive_retrieval_options task obs = Inr opts \<and> opt \<in> set opts \<and>
           decision_eq (do_decision opt) d"
proof -
  from assms obtain opts where opts: "derive_adaptive_retrieval_options task obs = Inr opts"
    and "filter (\<lambda>x. decision_eq (do_decision x) d) opts = [opt]"
    by (auto simp: option_for_adaptive_decision_def)
  then have "opt \<in> set (filter (\<lambda>x. decision_eq (do_decision x) d) opts)" by simp
  with opts show ?thesis by auto
qed

subsection \<open>What an offered finish implies\<close>

lemma adaptive_from_experiments:
  "adaptive_from task h xs = Inr h' \<Longrightarrow> ah_experiments h' = ah_experiments h @ decoded_experiments xs"
proof (induction xs arbitrary: h)
  case (Cons x xs)
  show ?case
  proof (cases "ob_status x = Failed")
    case True
    with Cons.prems Cons.IH [of "h\<lparr>ah_failed := True\<rparr>"] show ?thesis
      by (auto simp: decoded_experiments_Cons)
  next
    case False
    then have ok: "ob_status x = Succeeded" by (cases "ob_status x") auto
    from Cons.prems False obtain g where
      g: "(if ob_tool_name x = DIAGNOSE_BASELINE_TOOL then adaptive_baseline task h x
           else adaptive_candidate task h x) = Inr g" and rest: "adaptive_from task g xs = Inr h'"
      by auto
    have "ah_experiments g = ah_experiments h @
        (if ob_tool_name x = RUN_CANDIDATE_TOOL
         then (case decode_candidate_output (ob_evidence_ref x) (ob_payload x) of None \<Rightarrow> [] | Some e \<Rightarrow> [e]) else [])"
      using g by (auto simp: adaptive_baseline_def adaptive_candidate_def split: if_splits option.splits)
    with Cons.IH [OF rest] ok show ?thesis by (simp add: decoded_experiments_Cons)
  qed
qed simp

lemma analyze_adaptive_experiments:
  "analyze_adaptive_retrieval_history task obs = Inr h \<Longrightarrow> ah_experiments h = decoded_experiments obs"
  unfolding analyze_adaptive_retrieval_history_def by (drule adaptive_from_experiments) simp

definition adaptive_finish_reason :: "string \<Rightarrow> string" where
  "adaptive_finish_reason v =
     (if v = UNIFORM_VARIANT then ''llm_uniform_candidate_selected''
      else if v = CONSERVATIVE_VARIANT then ''llm_conservative_candidate_selected''
      else ''llm_aggressive_candidate_selected'')"

text \<open>What the experiments must look like for a finish to be offered.\<close>

definition grounded_option :: "tool_observation list \<Rightarrow> finish_decision \<Rightarrow> bool" where
  "grounded_option obs f =
     (let es = decoded_experiments obs in
      fd_evidence_refs f = successful_evidence obs \<and>
      (case fd_outcome f of
         PROPOSAL_READY \<Rightarrow>
           (\<exists>e. best_passing es e \<and> fd_reason_code f = adaptive_finish_reason (cp_pipeline_variant e))
       | NO_SAFE_IMPROVEMENT \<Rightarrow>
           set (map cp_pipeline_variant es) = set RETRIEVAL_PIPELINE_VARIANTS \<and>
           (\<forall>e \<in> set es. \<not> gs_passed (cp_gate e))
       | _ \<Rightarrow> False))"

lemma finish_best_option_reason:
  assumes "finish_best_option obs e = Inr opt"
  shows "do_decision opt = Finish \<lparr>fd_outcome = PROPOSAL_READY, fd_evidence_refs = successful_evidence obs,
           fd_reason_code = adaptive_finish_reason (cp_pipeline_variant e)\<rparr>"
  using assms
  by (auto simp: finish_best_option_def FINISH_REASON_BY_VARIANT_def adaptive_finish_reason_def split: if_splits)

lemma adaptive_finish_grounded:
  assumes opts: "derive_adaptive_retrieval_options task obs = Inr opts" and opt: "opt \<in> set opts"
    and fin: "do_decision opt = Finish f"
  shows "grounded_option obs f"
  using opts
proof (cases rule: derive_options_cases)
  case (running h b vs fins)
  have es: "ah_experiments h = decoded_experiments obs"
    using running(1) by (rule analyze_adaptive_experiments)
  have variants: "rt_candidate_variants task = RETRIEVAL_PIPELINE_VARIANTS"
    using opts by (simp add: derive_adaptive_retrieval_options_def)
  from running(4) have "set vs \<subseteq> set RETRIEVAL_PIPELINE_VARIANTS" by auto
  then have "do_decision (run_option_of (bp_run_id b) v) \<noteq> Finish f" if "v \<in> set vs" for v
    using run_option_tool(1) [of v "bp_run_id b"] that by auto
  then have "opt \<in> set fins"
    using opt fin running(6) by auto
  then show ?thesis
  proof (cases "filter (\<lambda>e. gs_passed (cp_gate e)) (ah_experiments h)")
    case Nil
    with running(5) \<open>opt \<in> set fins\<close> have len: "length (ah_experiments h) = 3"
      and o: "opt = finish_no_safe_option obs"
      by (auto simp: finish_options_def variants RETRIEVAL_PIPELINE_VARIANTS_def split: if_splits)
    have inv: "adaptive_invariant task h" by (rule analyze_adaptive_invariant [OF running(1)])
    let ?vs = "map cp_pipeline_variant (ah_experiments h)"
    have "card (set ?vs) = 3"
      using inv len distinct_card [of ?vs] unfolding adaptive_invariant_def by (simp only: length_map)
    moreover have "set ?vs \<subseteq> set RETRIEVAL_PIPELINE_VARIANTS" "card (set RETRIEVAL_PIPELINE_VARIANTS) \<le> 3"
      using inv variants by (auto simp: adaptive_invariant_def RETRIEVAL_PIPELINE_VARIANTS_def card_insert_if)
    ultimately have "set ?vs = set RETRIEVAL_PIPELINE_VARIANTS"
      by (intro card_seteq) auto
    with Nil o fin es show ?thesis
      by (auto simp: grounded_option_def finish_no_safe_option_def filter_empty_conv)
  next
    case (Cons e rest)
    with running(5) \<open>opt \<in> set fins\<close> have "finish_best_option obs (max_first selection_key e rest) = Inr opt"
      by (auto simp: finish_options_def)
    with fin finish_best_option_reason max_first_best_passing [OF Cons] es show ?thesis
      by (fastforce simp: grounded_option_def)
  qed
qed (use opt fin in \<open>auto simp: diagnose_option_def\<close>)

end
