(* ===== verification/Grounding.thy ===== *)
theory Grounding
  imports RetrievalPolicy
begin

text \<open>
  \<^verbatim>\<open>src/search_quality/agent/grounding.py\<close>: the pure task-scope and evidence-grounding rules that
  the Runtime applies before a tool runs and before a finish is accepted, and that Replay
  applies again. \<open>recast\<close> is a handler for \<^verbatim>\<open>(TypeError, ValueError)\<close>; \<open>all_e\<close> is Python's
  lazy \<^verbatim>\<open>all\<close> over checks that may raise. A comparison payload is untyped JSON, so every
  lookup and type test of the code is kept.
  The lemmas state what an accepted or rejected comparison proves about the cited evidence.
\<close>

definition recast :: "exn \<Rightarrow> exn + 'a \<Rightarrow> exn + 'a" where
  "recast e m =
     (case m of Inl TypeError \<Rightarrow> Inl e | Inl ValueError \<Rightarrow> Inl e | _ \<Rightarrow> m)"

fun all_e :: "('a \<Rightarrow> exn + bool) \<Rightarrow> 'a list \<Rightarrow> exn + bool" where
  "all_e f [] = Inr True"
| "all_e f (x # xs) = ebind (f x) (\<lambda>b. if b then all_e f xs else Inr False)"

lemma recast_Inr_iff [simp]: "recast e m = Inr x \<longleftrightarrow> m = Inr x"
  by (auto simp: recast_def split: sum.splits exn.splits)

lemma recast_Inr [simp]: "recast e (Inr x) = Inr x"
  by simp

lemma all_e_True_iff: "all_e f xs = Inr True \<longleftrightarrow> (\<forall>x \<in> set xs. f x = Inr True)"
  by (induction xs) auto

definition METRIC_NAMES :: "string list" where
  "METRIC_NAMES = [''ndcg@5'', ''ndcg@10'', ''mrr@10'', ''success@1'', ''success@5'']"

abbreviation policy_error :: "string \<Rightarrow> exn + 'a" where
  "policy_error code \<equiv> Inl (AgentPolicyError code)"

subsection \<open>Action scope\<close>

definition compare_action_scope :: "agent_task \<Rightarrow> tool_action \<Rightarrow> exn + unit" where
  "compare_action_scope t a =
     (let args = ta_arguments a in
      if ta_tool_name a = ''compare_runs'' then
        (if dget args ''baseline_run_id'' \<noteq> JStr (at_baseline_run_id t) \<or>
            dget args ''candidate_run_id'' \<noteq> JStr (at_candidate_run_id t)
         then policy_error ''comparison_outside_task_scope'' else Inr ())
      else if ta_tool_name a \<in> {''evaluate_run'', ''inspect_query''} then
        ebind (in_str_set (dget args ''run_id'') [at_baseline_run_id t, at_candidate_run_id t]) (\<lambda>inside.
        if inside then Inr () else policy_error ''run_outside_task_scope'')
      else Inr ())"

definition validate_action_scope ::
    "runtime_task \<Rightarrow> tool_action \<Rightarrow> tool_observation list \<Rightarrow> exn + unit" where
  "validate_action_scope task a obs =
     (case task of
        RetrievalTask t \<Rightarrow>
          (case rt_decision_policy t of
             Adaptive_llm_v1 \<Rightarrow>
               ebind (recast (AgentPolicyError ''retrieval_action_outside_task_scope'')
                        (option_for_adaptive_decision t obs (Tool a))) (\<lambda>opt.
               case do_decision opt of
                 Tool _ \<Rightarrow> Inr ()
               | Finish _ \<Rightarrow> policy_error ''retrieval_action_outside_task_scope'')
           | Fixed_sequence_v1 \<Rightarrow>
               ebind (recast (AgentPolicyError ''retrieval_history_invalid'')
                        (expected_retrieval_decision t obs)) (\<lambda>expected.
               if decision_eq (Tool a) expected then Inr ()
               else policy_error ''retrieval_action_outside_task_scope''))
      | CompareTask t \<Rightarrow> compare_action_scope t a)"

subsection \<open>Reading a comparison payload\<close>

text \<open>A number that is not a \<^verbatim>\<open>bool\<close>, converted to a finite float; \<^verbatim>\<open>float\<close> itself may overflow.\<close>

definition finite_number :: "string \<Rightarrow> json \<Rightarrow> exn + rat" where
  "finite_number code v =
     (if real_number v then
        ebind (to_float v) (\<lambda>f. case f of Fin r \<Rightarrow> Inr r | _ \<Rightarrow> policy_error code)
      else policy_error code)"

definition metric_delta :: "dict \<Rightarrow> string \<Rightarrow> json" where
  "metric_delta payload name = jget (jget (dget payload ''aggregate_metrics'') name) ''delta''"

definition primary_delta :: "agent_task \<Rightarrow> dict \<Rightarrow> exn + rat" where
  "primary_delta t payload =
     finite_number ''comparison_primary_metric_invalid'' (metric_delta payload (at_primary_metric t))"

definition comparison_epsilon :: "dict \<Rightarrow> exn + rat" where
  "comparison_epsilon payload =
     ebind (finite_number ''comparison_epsilon_invalid'' (dget payload ''comparison_epsilon'')) (\<lambda>r.
     if r \<noteq> float_1e_12 then policy_error ''comparison_epsilon_invalid'' else Inr r)"

text \<open>One metric of \<^verbatim>\<open>_supports_accept\<close>: a malformed value is a plain \<^verbatim>\<open>False\<close>.\<close>

definition not_regressed :: "dict \<Rightarrow> rat \<Rightarrow> string \<Rightarrow> exn + bool" where
  "not_regressed payload eps name =
     (let v = metric_delta payload name in
      if \<not> real_number v then Inr False
      else ebind (to_float v) (\<lambda>f.
           case f of Fin r \<Rightarrow> Inr (\<not> r < - eps) | _ \<Rightarrow> Inr False))"

definition supports_accept :: "agent_task \<Rightarrow> dict \<Rightarrow> exn + bool" where
  "supports_accept t payload =
     ebind (comparison_epsilon payload) (\<lambda>eps.
     ebind (primary_delta t payload) (\<lambda>delta.
     if delta \<le> eps then Inr False
     else if dget payload ''regressions'' \<noteq> JList [] then Inr False
     else if \<not> is_dict (dget payload ''aggregate_metrics'') then Inr False
     else all_e (not_regressed payload eps) METRIC_NAMES))"

definition count_ok :: "json \<Rightarrow> bool" where
  "count_ok j = (case j of JInt i \<Rightarrow> 0 \<le> i | _ \<Rightarrow> False)"

lemma count_ok_iff: "count_ok j \<longleftrightarrow> (\<exists>i \<ge> 0. j = JInt i)"
  by (cases j) (auto simp: count_ok_def)

definition outcome_count :: "dict \<Rightarrow> string \<Rightarrow> string \<Rightarrow> json" where
  "outcome_count payload name kind = jget (jget (dget payload ''outcome_counts'') name) kind"

definition metric_consistency :: "dict \<Rightarrow> rat \<Rightarrow> string \<Rightarrow> exn + unit" where
  "metric_consistency payload eps name =
     (let improved = outcome_count payload name ''improved'';
          regressed = outcome_count payload name ''regressed'' in
      ebind (finite_number ''comparison_summary_invalid'' (metric_delta payload name)) (\<lambda>delta.
      if \<not> count_ok improved \<or> \<not> count_ok regressed then policy_error ''comparison_summary_invalid''
      else if eps < delta \<and> improved = JInt 0 then policy_error ''comparison_summary_inconsistent''
      else if delta < - eps \<and> regressed = JInt 0 then policy_error ''comparison_summary_inconsistent''
      else if improved = JInt 0 \<and> regressed = JInt 0 \<and> eps < \<bar>delta\<bar>
        then policy_error ''comparison_summary_inconsistent''
      else Inr ()))"

definition validate_comparison_consistency :: "dict \<Rightarrow> exn + unit" where
  "validate_comparison_consistency payload =
     ebind (comparison_epsilon payload) (\<lambda>eps.
     if \<not> is_dict (dget payload ''aggregate_metrics'') \<or> \<not> is_dict (dget payload ''outcome_counts'')
     then policy_error ''comparison_summary_invalid''
     else ebind (traverse (metric_consistency payload eps) METRIC_NAMES) (\<lambda>_. Inr ()))"

subsection \<open>Finish grounding\<close>

text \<open>\<^verbatim>\<open>successful_by_ref[ref]\<close>: a later observation replaces an earlier one with the same reference.\<close>

definition successful_by_ref :: "tool_observation list \<Rightarrow> string \<Rightarrow> tool_observation option" where
  "successful_by_ref obs r =
     find (\<lambda>x. ob_status x = Succeeded \<and> ob_evidence_ref x = Some r) (rev obs)"

definition cite :: "tool_observation list \<Rightarrow> string \<Rightarrow> exn + tool_observation" where
  "cite obs r =
     ebind (validate_evidence_ref (JStr r)) (\<lambda>_.
     of_option (AgentPolicyError ''unknown_evidence_reference'') (successful_by_ref obs r))"

definition validate_observation_scope :: "agent_task \<Rightarrow> tool_observation \<Rightarrow> exn + unit" where
  "validate_observation_scope t x =
     (let payload = ob_payload x in
      if ob_tool_name x = ''compare_runs'' then
        (if dget payload ''baseline_run_id'' \<noteq> JStr (at_baseline_run_id t) \<or>
            dget payload ''candidate_run_id'' \<noteq> JStr (at_candidate_run_id t)
         then policy_error ''comparison_evidence_outside_task_scope''
         else validate_comparison_consistency payload)
      else if ob_tool_name x \<in> {''run_ranker'', ''evaluate_run'', ''inspect_query''} then
        ebind (in_str_set (dget payload ''run_id'') [at_baseline_run_id t, at_candidate_run_id t]) (\<lambda>inside.
        if inside then Inr () else policy_error ''run_evidence_outside_task_scope'')
      else Inr ())"

definition delta_and_epsilon :: "agent_task \<Rightarrow> tool_observation \<Rightarrow> exn + rat \<times> rat" where
  "delta_and_epsilon t x =
     ebind (primary_delta t (ob_payload x)) (\<lambda>delta.
     ebind (comparison_epsilon (ob_payload x)) (\<lambda>eps. Inr (delta, eps)))"

definition validate_direction ::
    "agent_task \<Rightarrow> terminal_outcome \<Rightarrow> tool_observation list \<Rightarrow> exn + unit" where
  "validate_direction t oc comparisons =
     (if oc \<in> {ACCEPT, REJECT} then
        ebind (require (comparisons \<noteq> []) (AgentPolicyError ''decision_requires_comparison_evidence'')) (\<lambda>_.
        ebind (traverse (delta_and_epsilon t) comparisons) (\<lambda>deltas.
        if oc = ACCEPT then
          ebind (require (\<forall>p \<in> set deltas. snd p < fst p)
                   (AgentPolicyError ''accept_requires_positive_primary_delta'')) (\<lambda>_.
          ebind (all_e (\<lambda>x. supports_accept t (ob_payload x)) comparisons) (\<lambda>ok.
          require ok (AgentPolicyError ''accept_requires_unmixed_evidence'')))
        else require (\<forall>p \<in> set deltas. fst p < - snd p)
               (AgentPolicyError ''reject_requires_negative_primary_delta'')))
      else Inr ())"

definition retrieval_finish_grounding ::
    "retrieval_task \<Rightarrow> finish_decision \<Rightarrow> tool_observation list \<Rightarrow> exn + unit" where
  "retrieval_finish_grounding t d obs =
     (case rt_decision_policy t of
        Adaptive_llm_v1 \<Rightarrow>
          ebind (recast (AgentPolicyError ''retrieval_finish_not_grounded'')
                   (option_for_adaptive_decision t obs (Finish d))) (\<lambda>opt.
          case do_decision opt of
            Finish _ \<Rightarrow> Inr ()
          | Tool _ \<Rightarrow> policy_error ''retrieval_finish_not_grounded'')
      | Fixed_sequence_v1 \<Rightarrow>
          recast (AgentPolicyError ''retrieval_finish_not_grounded'')
            (validate_retrieval_plan_semantics t obs d))"

definition validate_finish_grounding ::
    "runtime_task \<Rightarrow> finish_decision \<Rightarrow> tool_observation list \<Rightarrow> exn + unit" where
  "validate_finish_grounding task d obs =
     ebind (require (distinct (fd_evidence_refs d)) (AgentPolicyError ''duplicate_evidence_reference'')) (\<lambda>_.
     ebind (traverse (cite obs) (fd_evidence_refs d)) (\<lambda>cited.
     case task of
       RetrievalTask t \<Rightarrow> retrieval_finish_grounding t d obs
     | CompareTask t \<Rightarrow>
         ebind (traverse (validate_observation_scope t) cited) (\<lambda>_.
         validate_direction t (fd_outcome d) (filter (\<lambda>x. ob_tool_name x = ''compare_runs'') cited))))"

subsection \<open>What grounding guarantees\<close>

lemma successful_by_ref_Some:
  "successful_by_ref obs r = Some x \<Longrightarrow>
     x \<in> set obs \<and> ob_status x = Succeeded \<and> ob_evidence_ref x = Some r"
  by (auto simp: successful_by_ref_def find_Some_iff) (metis nth_mem set_rev length_rev)

lemma cite_Inr:
  "cite obs r = Inr x \<Longrightarrow>
     x \<in> set obs \<and> ob_status x = Succeeded \<and> ob_evidence_ref x = Some r \<and> EVIDENCE_REF_PATTERN r"
  by (auto simp: cite_def split: if_splits dest: successful_by_ref_Some)

lemma grounded_refs:
  assumes "validate_finish_grounding task d obs = Inr ()"
  shows "distinct (fd_evidence_refs d)" and "set (fd_evidence_refs d) \<subseteq> set (successful_evidence obs)"
proof -
  from assms obtain cited where "traverse (cite obs) (fd_evidence_refs d) = Inr cited"
    by (auto simp: validate_finish_grounding_def)
  then show "set (fd_evidence_refs d) \<subseteq> set (successful_evidence obs)"
    unfolding subset_iff set_successful_evidence by (blast dest: traverse_in cite_Inr)
  show "distinct (fd_evidence_refs d)"
    using assms by (simp add: validate_finish_grounding_def)
qed

text \<open>
  \<open>comparison_supports t x\<close>: \<open>x\<close> is an observed comparison of exactly the task's two Runs whose
  own counts are consistent with its deltas.
\<close>

definition comparison_observed :: "agent_task \<Rightarrow> tool_observation list \<Rightarrow> tool_observation \<Rightarrow> bool" where
  "comparison_observed t obs x =
     (x \<in> set obs \<and> ob_status x = Succeeded \<and> ob_tool_name x = ''compare_runs'' \<and>
      dget (ob_payload x) ''baseline_run_id'' = JStr (at_baseline_run_id t) \<and>
      dget (ob_payload x) ''candidate_run_id'' = JStr (at_candidate_run_id t))"

lemma comparison_epsilon_value: "comparison_epsilon p = Inr eps \<Longrightarrow> eps = float_1e_12"
  by (auto simp: comparison_epsilon_def split: if_splits)

lemma metric_consistency_positive:
  assumes "metric_consistency p eps name = Inr ()"
    and "finite_number code (metric_delta p name) = Inr delta"
  shows "(eps < delta \<longrightarrow> (\<exists>i > 0. outcome_count p name ''improved'' = JInt i)) \<and>
         (delta < - eps \<longrightarrow> (\<exists>i > 0. outcome_count p name ''regressed'' = JInt i))"
proof -
  have same: "finite_number ''comparison_summary_invalid'' (metric_delta p name) = Inr delta"
    using assms(2) by (auto simp: finite_number_def split: if_splits pyfloat.splits)
  from assms(1) same show ?thesis
    by (auto simp: metric_consistency_def Let_def count_ok_iff order_le_less split: if_splits)
qed

lemma grounded_comparisons:
  assumes "validate_finish_grounding (CompareTask t) d obs = Inr ()"
    and "fd_outcome d \<in> {ACCEPT, REJECT}"
  obtains x delta where "comparison_observed t obs x"
    and "the (ob_evidence_ref x) \<in> set (fd_evidence_refs d)"
    and "validate_comparison_consistency (ob_payload x) = Inr ()"
    and "primary_delta t (ob_payload x) = Inr delta"
    and "fd_outcome d = ACCEPT \<Longrightarrow> float_1e_12 < delta \<and> supports_accept t (ob_payload x) = Inr True"
    and "fd_outcome d = REJECT \<Longrightarrow> delta < - float_1e_12"
proof -
  from assms(1) obtain cited us where cited: "traverse (cite obs) (fd_evidence_refs d) = Inr cited"
    and scope: "traverse (validate_observation_scope t) cited = Inr us"
    and dir: "validate_direction t (fd_outcome d)
                (filter (\<lambda>x. ob_tool_name x = ''compare_runs'') cited) = Inr ()"
    by (auto simp: validate_finish_grounding_def)
  from dir assms(2) obtain x where x: "x \<in> set cited" "ob_tool_name x = ''compare_runs''"
    by (auto simp: validate_direction_def filter_empty_conv)
  from dir assms(2) obtain deltas where deltas:
    "traverse (delta_and_epsilon t) (filter (\<lambda>x. ob_tool_name x = ''compare_runs'') cited) = Inr deltas"
    by (auto simp: validate_direction_def)
  with x obtain delta eps where de: "delta_and_epsilon t x = Inr (delta, eps)" "(delta, eps) \<in> set deltas"
    using traverse_in [OF deltas, of x] by auto
  from traverse_out [OF cited x(1)] obtain r where r: "r \<in> set (fd_evidence_refs d)" "cite obs r = Inr x"
    by blast
  from traverse_in [OF scope x(1)] have "validate_observation_scope t x = Inr ()"
    by auto
  with x(2) cite_Inr [OF r(2)] have obs: "comparison_observed t obs x"
    and cons: "validate_comparison_consistency (ob_payload x) = Inr ()"
    by (auto simp: validate_observation_scope_def comparison_observed_def Let_def split: if_splits)
  from de(1) have prim: "primary_delta t (ob_payload x) = Inr delta" and eps: "eps = float_1e_12"
    by (auto simp: delta_and_epsilon_def dest: comparison_epsilon_value)
  have ref: "the (ob_evidence_ref x) \<in> set (fd_evidence_refs d)"
    using cite_Inr [OF r(2)] r(1) by simp
  show ?thesis
  proof (rule that [OF obs ref cons prim])
    assume "fd_outcome d = ACCEPT"
    then show "float_1e_12 < delta \<and> supports_accept t (ob_payload x) = Inr True"
      using dir deltas de(2) x eps by (auto simp: validate_direction_def all_e_True_iff)
  next
    assume "fd_outcome d = REJECT"
    then show "delta < - float_1e_12"
      using dir deltas de(2) eps by (auto simp: validate_direction_def)
  qed
qed

text \<open>What a comparison says about the task, independently of how the code checks it.\<close>

definition improves :: "agent_task \<Rightarrow> tool_observation \<Rightarrow> bool" where
  "improves t x =
     ((\<exists>delta. primary_delta t (ob_payload x) = Inr delta \<and> float_1e_12 < delta) \<and>
      dget (ob_payload x) ''regressions'' = JList [] \<and>
      (\<forall>name \<in> set METRIC_NAMES. \<exists>d. finite_number ''m'' (metric_delta (ob_payload x) name) = Inr d \<and> - float_1e_12 \<le> d))"

definition regresses :: "agent_task \<Rightarrow> tool_observation \<Rightarrow> bool" where
  "regresses t x = (\<exists>delta. primary_delta t (ob_payload x) = Inr delta \<and> delta < - float_1e_12)"

lemma not_regressed_value:
  assumes "not_regressed payload eps name = Inr True"
  shows "\<exists>d. finite_number code (metric_delta payload name) = Inr d \<and> - eps \<le> d"
proof -
  from assms obtain f where f: "real_number (metric_delta payload name)" "to_float (metric_delta payload name) = Inr f"
    and "(case f of Fin r \<Rightarrow> Inr (\<not> r < - eps) | _ \<Rightarrow> Inr False) = (Inr True :: exn + bool)"
    by (auto simp: not_regressed_def Let_def split: if_splits)
  then show ?thesis by (cases f) (auto simp: finite_number_def)
qed

lemma supports_accept_improves:
  assumes "supports_accept t (ob_payload x) = Inr True"
  shows "improves t x"
proof -
  from assms obtain eps delta where "comparison_epsilon (ob_payload x) = Inr eps" "primary_delta t (ob_payload x) = Inr delta"
    "eps < delta" "dget (ob_payload x) ''regressions'' = JList []"
    "all_e (not_regressed (ob_payload x) eps) METRIC_NAMES = Inr True"
    by (auto simp: supports_accept_def split: if_splits)
  then show ?thesis
    by (auto simp: improves_def all_e_True_iff dest!: comparison_epsilon_value intro: not_regressed_value)
qed

end
