(* ===== verification/BranchingPlanner.thy ===== *)
theory BranchingPlanner
  imports Grounding
begin

text \<open>
  \<^verbatim>\<open>src/search_quality/agent/planner.py\<close>: the deterministic branching planner. Its static helpers
  read the comparison payload with their own checks, stricter than those of grounding;
  \<^verbatim>\<open>(KeyError, TypeError, ValueError)\<close> turn into an inconclusive finish, everything else
  escapes. The lemmas show that a terminal accept or reject of this planner is always grounded.
\<close>

definition dindex :: "dict \<Rightarrow> string \<Rightarrow> exn + json" where
  "dindex d k = of_option KeyError (map_of d k)"

text \<open>\<^verbatim>\<open>_latest\<close> and \<^verbatim>\<open>_evidence\<close> of the source; the second is \<open>successful_evidence\<close>.\<close>

definition latest :: "tool_observation list \<Rightarrow> string \<Rightarrow> tool_observation option" where
  "latest obs name = find (\<lambda>x. ob_tool_name x = name) (rev obs)"

text \<open>A real number that is not a \<^verbatim>\<open>bool\<close>: \<^verbatim>\<open>TypeError\<close> otherwise, \<^verbatim>\<open>ValueError\<close> when not finite.\<close>

definition finite_real :: "json \<Rightarrow> exn + rat" where
  "finite_real v =
     (if real_number v then
        ebind (to_float v) (\<lambda>f. case f of Fin r \<Rightarrow> Inr r | _ \<Rightarrow> Inl ValueError)
      else Inl TypeError)"

definition required_delta :: "dict \<Rightarrow> string \<Rightarrow> exn + rat" where
  "required_delta metrics name =
     ebind (dindex metrics name) (\<lambda>values.
     case values of
       JObj d \<Rightarrow>
         if set (map fst d) = {''baseline'', ''candidate'', ''delta''}
         then ebind (dindex d ''delta'') finite_real
         else Inl ValueError
     | _ \<Rightarrow> Inl ValueError)"

definition planner_metric_check :: "dict \<Rightarrow> json \<Rightarrow> rat \<Rightarrow> string \<Rightarrow> exn + unit" where
  "planner_metric_check metrics counts_obj eps name =
     ebind (required_delta metrics name) (\<lambda>delta.
     let counts = jget counts_obj name;
         improved = jget counts ''improved'';
         regressed = jget counts ''regressed'' in
     ebind (require (is_dict counts) TypeError) (\<lambda>_.
     if \<not> count_ok improved \<or> \<not> count_ok regressed then Inl ValueError
     else if eps < delta \<and> improved = JInt 0 then Inl ValueError
     else if delta < - eps \<and> regressed = JInt 0 then Inl ValueError
     else if improved = JInt 0 \<and> regressed = JInt 0 \<and> eps < \<bar>delta\<bar> then Inl ValueError
     else Inr ()))"

text \<open>The regression list: distinct positive Query IDs, each with a finite negative delta.\<close>

definition regression_query_id :: "json \<Rightarrow> json" where
  "regression_query_id item = jget item ''query_id''"

fun check_regressions :: "int list \<Rightarrow> json list \<Rightarrow> exn + unit" where
  "check_regressions seen [] = Inr ()"
| "check_regressions seen (item # items) =
     ebind (require (is_dict item) TypeError) (\<lambda>_.
     case regression_query_id item of
       JInt q \<Rightarrow>
         if q < 1 \<or> q \<in> set seen then Inl ValueError
         else
           (let delta = jget item ''ndcg@10_delta'' in
            ebind (require (real_number delta) TypeError) (\<lambda>_.
            ebind (to_float delta) (\<lambda>f.
            ebind (require (isfinite f \<and> flt_less f (Fin 0)) ValueError) (\<lambda>_.
            check_regressions (q # seen) items))))
     | _ \<Rightarrow> Inl ValueError)"

definition regressed_count_ok :: "json \<Rightarrow> nat \<Rightarrow> bool" where
  "regressed_count_ok j n =
     (case j of JInt i \<Rightarrow> 0 \<le> i \<and> int n = min i 5 | _ \<Rightarrow> False)"

definition validated_comparison ::
    "dict \<Rightarrow> string \<Rightarrow> string \<Rightarrow> exn + dict \<times> json list \<times> rat" where
  "validated_comparison payload baseline candidate =
     ebind (dindex payload ''baseline_run_id'') (\<lambda>b.
     ebind (if b \<noteq> JStr baseline then Inl ValueError else dindex payload ''candidate_run_id'') (\<lambda>c.
     ebind (require (c = JStr candidate) ValueError) (\<lambda>_.
     ebind (dindex payload ''aggregate_metrics'') (\<lambda>metrics_obj.
     case metrics_obj of
       JObj metrics \<Rightarrow>
         ebind (dindex payload ''comparison_epsilon'') (\<lambda>raw_eps.
         ebind (finite_real raw_eps) (\<lambda>eps.
         ebind (require (eps = float_1e_12) ValueError) (\<lambda>_.
         ebind (dindex payload ''regressions'') (\<lambda>raw.
         case raw of
           JList regressions \<Rightarrow>
             ebind (dindex payload ''outcome_counts'') (\<lambda>counts.
             ebind (require (regressed_count_ok (jget (jget counts ''ndcg@10'') ''regressed'')
                              (length regressions)) ValueError) (\<lambda>_.
             ebind (traverse (planner_metric_check metrics counts eps) METRIC_NAMES) (\<lambda>_.
             ebind (check_regressions [] regressions) (\<lambda>_.
             Inr (metrics, regressions, eps)))))
         | _ \<Rightarrow> Inl TypeError))))
     | _ \<Rightarrow> Inl TypeError))))"

definition finish_with :: "tool_observation list \<Rightarrow> terminal_outcome \<Rightarrow> string \<Rightarrow> agent_decision" where
  "finish_with obs oc reason =
     Finish \<lparr>fd_outcome = oc, fd_evidence_refs = successful_evidence obs, fd_reason_code = reason\<rparr>"

text \<open>The evidence the planner decides on: metrics, regressions, epsilon and all deltas.\<close>

definition comparison_evidence ::
    "agent_task \<Rightarrow> dict \<Rightarrow> exn + json list \<times> rat \<times> rat \<times> rat list" where
  "comparison_evidence t payload =
     ebind (validated_comparison payload (at_baseline_run_id t) (at_candidate_run_id t)) (\<lambda>v.
     case v of (metrics, regressions, eps) \<Rightarrow>
     ebind (required_delta metrics (at_primary_metric t)) (\<lambda>primary.
     ebind (traverse (required_delta metrics) METRIC_NAMES) (\<lambda>deltas.
     Inr (regressions, eps, primary, deltas))))"

definition decide_from_evidence ::
    "agent_task \<Rightarrow> tool_observation list \<Rightarrow> json list \<Rightarrow> rat \<Rightarrow> rat \<Rightarrow> rat list \<Rightarrow> exn + agent_decision" where
  "decide_from_evidence t obs regressions eps primary deltas =
     (let attempts = filter (\<lambda>x. ob_tool_name x = ''inspect_query'') obs;
          n = length attempts in
      if int n < min (at_max_regressions_to_inspect t) (int (length regressions)) then
        (case regression_query_id (regressions ! n) of
           q \<Rightarrow> Inr (Tool \<lparr>ta_tool_name = ''inspect_query'',
                          ta_arguments = [(''run_id'', JStr (at_candidate_run_id t)), (''query_id'', q)],
                          ta_reason_code = ''inspect_largest_regression''\<rparr>))
      else if primary < - eps then Inr (finish_with obs REJECT ''primary_metric_regressed'')
      else if regressions \<noteq> [] \<or> (\<exists>d \<in> set deltas. d < - eps) then
        Inr (finish_with obs INCONCLUSIVE
               (if \<exists>x \<in> set attempts. ob_status x = Failed then ''regression_diagnosis_incomplete''
                else ''mixed_metric_or_query_evidence''))
      else if primary \<le> eps then Inr (finish_with obs INCONCLUSIVE ''primary_metric_tied'')
      else Inr (finish_with obs ACCEPT ''metrics_improved_without_observed_regression''))"

definition branching_planner_decide ::
    "runtime_task \<Rightarrow> tool_observation list \<Rightarrow> exn + agent_decision" where
  "branching_planner_decide task obs =
     (case latest obs ''compare_runs'' of
        None \<Rightarrow>
          (case task of
             RetrievalTask _ \<Rightarrow> Inl AttributeError
           | CompareTask t \<Rightarrow>
               Inr (Tool \<lparr>ta_tool_name = ''compare_runs'',
                          ta_arguments = [(''baseline_run_id'', JStr (at_baseline_run_id t)),
                                          (''candidate_run_id'', JStr (at_candidate_run_id t))],
                          ta_reason_code = ''compare_requested_runs''\<rparr>))
      | Some c \<Rightarrow>
          if ob_status c = Failed then Inr (finish_with obs INCONCLUSIVE ''comparison_failed'')
          else
            (case task of
               RetrievalTask _ \<Rightarrow> Inl AttributeError
             | CompareTask t \<Rightarrow>
                 (case comparison_evidence t (ob_payload c) of
                    Inr (regressions, eps, primary, deltas) \<Rightarrow>
                      decide_from_evidence t obs regressions eps primary deltas
                  | Inl e \<Rightarrow>
                      if e \<in> {KeyError, TypeError, ValueError}
                      then Inr (finish_with obs INCONCLUSIVE ''comparison_evidence_invalid'')
                      else Inl e)))"

subsection \<open>The planner's evidence check is at least as strict as grounding\<close>

lemma dindex_dget: "dindex d k = Inr v \<Longrightarrow> dget d k = v"
  by (auto simp: dindex_def dget_def)

lemma finite_real_number: "finite_real v = Inr r \<Longrightarrow> finite_number code v = Inr r"
  by (auto simp: finite_real_def finite_number_def split: if_splits pyfloat.splits)

lemma required_delta_number:
  assumes "required_delta metrics name = Inr r" and "dget payload ''aggregate_metrics'' = JObj metrics"
  shows "finite_number code (metric_delta payload name) = Inr r"
proof -
  from assms(1) obtain d where "dindex metrics name = Inr (JObj d)" "ebind (dindex d ''delta'') finite_real = Inr r"
    by (auto simp: required_delta_def split: json.splits if_splits)
  then show ?thesis
    using assms(2) by (auto simp: metric_delta_def jget_def dest!: dindex_dget intro: finite_real_number)
qed

lemma planner_metric_check_consistent:
  assumes "planner_metric_check metrics counts eps name = Inr ()"
    and "dget payload ''aggregate_metrics'' = JObj metrics" and "dget payload ''outcome_counts'' = counts"
  shows "metric_consistency payload eps name = Inr ()"
proof -
  from assms(1) obtain delta where delta: "required_delta metrics name = Inr delta"
    by (auto simp: planner_metric_check_def)
  note required_delta_number [OF delta assms(2), of "''comparison_summary_invalid''"]
  with assms(1,3) delta show ?thesis
    by (auto simp: planner_metric_check_def metric_consistency_def Let_def outcome_count_def
        split: if_splits)
qed

lemma validated_comparison_elims:
  assumes "validated_comparison payload b c = Inr (metrics, regressions, eps)"
  shows "dget payload ''baseline_run_id'' = JStr b" and "dget payload ''candidate_run_id'' = JStr c"
    and "dget payload ''aggregate_metrics'' = JObj metrics"
    and "comparison_epsilon payload = Inr eps" and "eps = float_1e_12"
    and "dget payload ''regressions'' = JList regressions"
    and "traverse (planner_metric_check metrics (dget payload ''outcome_counts'') eps) METRIC_NAMES
           = Inr (replicate 5 ())"
proof -
  from assms have "dindex payload ''baseline_run_id'' = Inr (JStr b)"
    "dindex payload ''candidate_run_id'' = Inr (JStr c)"
    "dindex payload ''aggregate_metrics'' = Inr (JObj metrics)"
    "dindex payload ''regressions'' = Inr (JList regressions)"
    and eps: "\<exists>raw. dindex payload ''comparison_epsilon'' = Inr raw \<and> finite_real raw = Inr eps" "eps = float_1e_12"
    and "\<exists>counts us. dindex payload ''outcome_counts'' = Inr counts \<and>
           traverse (planner_metric_check metrics counts eps) METRIC_NAMES = Inr us"
    by (auto simp: validated_comparison_def split: if_splits json.splits)
  then show "dget payload ''baseline_run_id'' = JStr b" "dget payload ''candidate_run_id'' = JStr c"
    "dget payload ''aggregate_metrics'' = JObj metrics" "dget payload ''regressions'' = JList regressions"
    "eps = float_1e_12"
    "traverse (planner_metric_check metrics (dget payload ''outcome_counts'') eps) METRIC_NAMES
       = Inr (replicate 5 ())"
    by (auto simp: METRIC_NAMES_def numeral_eq_Suc dest!: dindex_dget)
  show "comparison_epsilon payload = Inr eps"
    using eps by (auto simp: comparison_epsilon_def dest!: dindex_dget
        finite_real_number [where code = "''comparison_epsilon_invalid''"])
qed

lemma validated_comparison_consistent:
  assumes "validated_comparison payload b c = Inr (metrics, regressions, eps)"
  shows "validate_comparison_consistency payload = Inr ()"
proof -
  note v = validated_comparison_elims [OF assms]
  have chk: "planner_metric_check metrics (dget payload ''outcome_counts'') eps name = Inr ()"
    if "name \<in> set METRIC_NAMES" for name
    using traverse_in [OF v(7) that] by auto
  have "traverse (metric_consistency payload eps) METRIC_NAMES = Inr (map (\<lambda>_. ()) METRIC_NAMES)"
    by (rule traverse_Inr_map) (blast intro: planner_metric_check_consistent [OF chk v(3) refl])
  moreover have "is_dict (dget payload ''outcome_counts'')"
  proof -
    have "''ndcg@5'' \<in> set METRIC_NAMES" by (simp add: METRIC_NAMES_def)
    from chk [OF this] have "is_dict (jget (dget payload ''outcome_counts'') ''ndcg@5'')"
      by (auto simp: planner_metric_check_def Let_def)
    then show ?thesis by (cases "dget payload ''outcome_counts''") (auto simp: jget_def)
  qed
  ultimately show ?thesis using v(3,4) by (simp add: validate_comparison_consistency_def)
qed

text \<open>The evidence the planner accepts on, as grounding reads it.\<close>

lemma comparison_evidence_grounding:
  assumes "comparison_evidence t payload = Inr (regressions, eps, primary, deltas)"
  shows "validate_comparison_consistency payload = Inr ()"
    and "primary_delta t payload = Inr primary" and "comparison_epsilon payload = Inr eps"
    and "eps = float_1e_12"
    and "dget payload ''baseline_run_id'' = JStr (at_baseline_run_id t)"
    and "dget payload ''candidate_run_id'' = JStr (at_candidate_run_id t)"
    and "regressions = [] \<Longrightarrow> eps < primary \<Longrightarrow> \<forall>d \<in> set deltas. \<not> d < - eps \<Longrightarrow>
           supports_accept t payload = Inr True"
proof -
  from assms obtain metrics where
    v: "validated_comparison payload (at_baseline_run_id t) (at_candidate_run_id t) = Inr (metrics, regressions, eps)"
    and p: "required_delta metrics (at_primary_metric t) = Inr primary"
    and ds: "traverse (required_delta metrics) METRIC_NAMES = Inr deltas"
    by (auto simp: comparison_evidence_def)
  note e = validated_comparison_elims [OF v]
  show "validate_comparison_consistency payload = Inr ()"
    by (rule validated_comparison_consistent [OF v])
  show prim: "primary_delta t payload = Inr primary"
    unfolding primary_delta_def by (rule required_delta_number [OF p e(3)])
  show "comparison_epsilon payload = Inr eps" "eps = float_1e_12"
    "dget payload ''baseline_run_id'' = JStr (at_baseline_run_id t)"
    "dget payload ''candidate_run_id'' = JStr (at_candidate_run_id t)"
    using e by blast+
  assume none: "regressions = []" and pos: "eps < primary" and ok: "\<forall>d \<in> set deltas. \<not> d < - eps"
  have "not_regressed payload eps name = Inr True" if "name \<in> set METRIC_NAMES" for name
  proof -
    from traverse_in [OF ds that] obtain d where d: "d \<in> set deltas" "required_delta metrics name = Inr d"
      by blast
    from required_delta_number [OF d(2) e(3), of "''x''"] ok d(1) show ?thesis
      by (auto simp: not_regressed_def finite_number_def Let_def split: if_splits pyfloat.splits)
  qed
  then show "supports_accept t payload = Inr True"
    using e prim none pos by (simp add: supports_accept_def all_e_True_iff)
qed

lemma branching_planner_run_ids:
  assumes "branching_planner_decide task obs = Inr (Tool a)"
  shows "hashable (dget (ta_arguments a) ''run_id'')"
  using assms
  by (auto simp: branching_planner_decide_def decide_from_evidence_def dget_def Let_def finish_with_def
      split: option.splits if_splits sum.splits runtime_task.splits prod.splits)

end
