(* ===== verification/ToolRegistry.thy ===== *)
theory ToolRegistry
  imports AgentContracts
begin

text \<open>
  \<^verbatim>\<open>src/search_quality/agent/registry.py\<close>: the static tool registry. A tool's input model, output
  model and handler are supplied by the tool; here they are the fields of \<open>tool_spec\<close>, the
  handler acting on a world \<open>'w\<close>. \<open>execute\<close> runs the handler only for a registered tool whose
  capability is allowed and whose arguments validate.
\<close>

record 'w tool_spec =
  ts_name :: string
  ts_capability :: string
  ts_input :: "dict \<Rightarrow> json option"
  ts_output :: "json \<Rightarrow> json option"
  ts_handler :: "json \<Rightarrow> 'w \<Rightarrow> (exn + json) \<times> 'w"

definition registry_init :: "'w tool_spec list \<Rightarrow> exn + 'w tool_spec list" where
  "registry_init specs =
     (if specs = [] \<or> \<not> distinct (map ts_name specs) then Inl ValueError else Inr specs)"

definition registry_names :: "'w tool_spec list \<Rightarrow> string list" where
  "registry_names specs = map ts_name specs"

definition registry_get :: "'w tool_spec list \<Rightarrow> string \<Rightarrow> 'w tool_spec option" where
  "registry_get specs name = find (\<lambda>t. ts_name t = name) specs"

definition execute ::
    "'w tool_spec list \<Rightarrow> string list \<Rightarrow> string \<Rightarrow> dict \<Rightarrow> 'w \<Rightarrow> (exn + json) \<times> 'w" where
  "execute specs allowed name args w =
     (case registry_get specs name of
        None \<Rightarrow> (Inl (AgentPolicyError ''tool_not_allowed''), w)
      | Some t \<Rightarrow>
          if ts_capability t \<notin> set allowed then (Inl (AgentPolicyError ''capability_not_allowed''), w)
          else
            (case ts_input t args of
               None \<Rightarrow> (Inl (AgentToolError ''invalid_argument'' False), w)
             | Some validated \<Rightarrow>
                 (case ts_handler t validated w of
                    (Inl e, w') \<Rightarrow> (Inl e, w')
                  | (Inr result, w') \<Rightarrow>
                      (of_option (AgentToolError ''invalid_tool_result'' False) (ts_output t result), w'))))"

lemma registry_get_None: "registry_get specs name = None \<longleftrightarrow> name \<notin> set (registry_names specs)"
  by (auto simp: registry_get_def registry_names_def find_None_iff)

lemma execute_unregistered:
  "name \<notin> set (registry_names specs) \<Longrightarrow>
     execute specs allowed name args w = (Inl (AgentPolicyError ''tool_not_allowed''), w)"
  by (simp add: execute_def flip: registry_get_None)

text \<open>Without an allowed, registered tool and valid arguments the world is untouched.\<close>

lemma execute_world_unchanged:
  assumes "\<not> (\<exists>t v. registry_get specs name = Some t \<and> ts_capability t \<in> set allowed \<and> ts_input t args = Some v)"
  shows "snd (execute specs allowed name args w) = w"
  using assms by (auto simp: execute_def split: option.splits)

end
