(* ===== verification/Codec.thy ===== *)
theory Codec
  imports PyValue
begin

text \<open>
  Canonical JSON and SHA-256. \<open>codec\<close> holds the two standard-library functions the code relies
  on: the JSON text of a value whose dictionary keys are already sorted (\<^verbatim>\<open>json.dumps\<close> encoded
  as UTF-8) and the hexadecimal SHA-256 digest. \<open>sort_keys\<close> is the \<^verbatim>\<open>sort_keys=True\<close> of the call,
  \<open>json_ok\<close> its \<^verbatim>\<open>allow_nan=False\<close>.
\<close>

record codec =
  cd_ser :: "json \<Rightarrow> string"
  cd_sha :: "string \<Rightarrow> string"

fun sort_keys :: "json \<Rightarrow> json" where
  "sort_keys (JList xs) = JList (map sort_keys xs)"
| "sort_keys (JObj d) = JObj (sort_key fst (map (\<lambda>p. (fst p, sort_keys (snd p))) d))"
| "sort_keys j = j"

definition canonical_json_bytes :: "codec \<Rightarrow> json \<Rightarrow> exn + string" where
  "canonical_json_bytes c v = ebind (ensure_json_value v) (\<lambda>_. Inr (cd_ser c (sort_keys v)))"

end
