(* ===== verification/TraceLog.thy ===== *)
theory TraceLog
  imports AgentContracts Codec
begin

text \<open>
  \<^verbatim>\<open>src/search_quality/agent/trace.py\<close>: hash-chained Trace events and the Trace store.

  The clock reading and the timestamp are arguments of \<open>append\<close>.
  The store maps a Trace ID to the Trace written under it; symbolic-link checks of the file
  system are outside the model.
\<close>

definition compute_event_hash :: "codec \<Rightarrow> json \<Rightarrow> exn + string" where
  "compute_event_hash c payload =
     ebind (canonical_json_bytes c payload) (\<lambda>b. Inr (cd_sha c b))"

definition compute_terminal_hash :: "codec \<Rightarrow> terminal_result \<Rightarrow> exn + string" where
  "compute_terminal_hash c r = compute_event_hash c (dump_terminal r)"

definition compute_trace_context_hash ::
    "codec \<Rightarrow> string \<Rightarrow> string \<Rightarrow> runtime_task \<Rightarrow> dict \<Rightarrow> string list \<Rightarrow> exn + string" where
  "compute_trace_context_hash c trace_id planner_id task policy tool_names =
     compute_event_hash c (JObj
       [(''planner_id'', JStr planner_id), (''policy'', JObj policy),
        (''runtime_id'', JStr ''search-agent-runtime-v1''),
        (''schema_version'', JStr ''search-evaluation-agent-trace-v1''),
        (''task'', dump_task task), (''tool_names'', JList (map JStr tool_names)),
        (''trace_id'', JStr trace_id)])"

definition ZERO_HASH :: string where
  "ZERO_HASH = replicate 64 CHR ''0''"

subsection \<open>Events\<close>

datatype event_type = Action_selected | Tool_observed | Observation_processed | Run_completed | Run_failed

fun event_type_value :: "event_type \<Rightarrow> string" where
  "event_type_value Action_selected = ''action_selected''"
| "event_type_value Tool_observed = ''tool_observed''"
| "event_type_value Observation_processed = ''observation_processed''"
| "event_type_value Run_completed = ''run_completed''"
| "event_type_value Run_failed = ''run_failed''"

definition terminal_event_type :: "event_type \<Rightarrow> bool" where
  "terminal_event_type t = (t \<in> {Run_completed, Run_failed})"

record trace_event =
  te_sequence :: nat
  te_timestamp_utc :: string
  te_state_before :: agent_state
  te_event_type :: event_type
  te_state_after :: agent_state
  te_decision :: "json option"
  te_planner_audit :: "json option"
  te_observation :: "json option"
  te_duration_ms :: rat
  te_context_sha256 :: "string option"
  te_terminal_sha256 :: "string option"
  te_previous_hash :: string
  te_event_hash :: string

definition opt_sha_ok :: "string option \<Rightarrow> bool" where
  "opt_sha_ok x = (case x of None \<Rightarrow> True | Some s \<Rightarrow> hex_exact 64 s)"

definition trace_event_ok :: "trace_event \<Rightarrow> bool" where
  "trace_event_ok e =
     (1 \<le> te_sequence e \<and> 0 \<le> te_duration_ms e \<and> opt_sha_ok (te_context_sha256 e) \<and>
      opt_sha_ok (te_terminal_sha256 e) \<and> hex_exact 64 (te_previous_hash e) \<and>
      hex_exact 64 (te_event_hash e))"

fun opt_json :: "json option \<Rightarrow> json" where
  "opt_json None = JNull"
| "opt_json (Some j) = j"

text \<open>\<^verbatim>\<open>event.model_dump(exclude={"event_hash"})\<close>, and the same without an absent audit.\<close>

definition event_payload :: "trace_event \<Rightarrow> dict" where
  "event_payload e =
     [(''context_sha256'', opt_str (te_context_sha256 e)), (''decision'', opt_json (te_decision e)),
      (''duration_ms'', JFloat (Fin (te_duration_ms e))),
      (''event_type'', JStr (event_type_value (te_event_type e))),
      (''observation'', opt_json (te_observation e)),
      (''planner_audit'', opt_json (te_planner_audit e)),
      (''previous_hash'', JStr (te_previous_hash e)), (''sequence'', JInt (int (te_sequence e))),
      (''state_after'', JStr (state_value (te_state_after e))),
      (''state_before'', JStr (state_value (te_state_before e))),
      (''terminal_sha256'', opt_str (te_terminal_sha256 e)),
      (''timestamp_utc'', JStr (te_timestamp_utc e))]"

definition drop_audit :: "dict \<Rightarrow> dict" where
  "drop_audit d = filter (\<lambda>p. fst p \<noteq> ''planner_audit'') d"

definition hashed_payload :: "trace_event \<Rightarrow> json" where
  "hashed_payload e =
     JObj (if te_planner_audit e = None then drop_audit (event_payload e) else event_payload e)"

subsection \<open>The recorder\<close>

record trace_recorder =
  rc_trace_id :: string
  rc_context_sha256 :: string
  rc_events :: "trace_event list"

definition recorder_init :: "string \<Rightarrow> string \<Rightarrow> exn + trace_recorder" where
  "recorder_init trace_id context =
     (if hex_exact 64 context
      then Inr \<lparr>rc_trace_id = trace_id, rc_context_sha256 = context, rc_events = []\<rparr>
      else Inl ValueError)"

definition previous_hash :: "trace_event list \<Rightarrow> string" where
  "previous_hash es = (if es = [] then ZERO_HASH else te_event_hash (last es))"

definition append_event ::
    "codec \<Rightarrow> trace_recorder \<Rightarrow> string \<Rightarrow> agent_state \<Rightarrow> event_type \<Rightarrow> agent_state \<Rightarrow>
     agent_decision option \<Rightarrow> planner_audit option \<Rightarrow> tool_observation option \<Rightarrow>
     terminal_result option \<Rightarrow> rat \<Rightarrow> exn + trace_recorder" where
  "append_event c rc now before_state kind after decision audit observation terminal duration =
     ebind (require (terminal_event_type kind = (terminal \<noteq> None)) ValueError) (\<lambda>_.
     ebind (case terminal of
              None \<Rightarrow> Inr None
            | Some r \<Rightarrow> ebind (compute_terminal_hash c r) (\<lambda>h. Inr (Some h))) (\<lambda>terminal_sha.
     let e = \<lparr>te_sequence = length (rc_events rc) + 1, te_timestamp_utc = now,
              te_state_before = before_state, te_event_type = kind, te_state_after = after,
              te_decision = map_option dump_decision decision,
              te_planner_audit = map_option dump_audit audit,
              te_observation = map_option dump_observation observation,
              te_duration_ms = duration,
              te_context_sha256 = (if terminal_event_type kind then Some (rc_context_sha256 rc) else None),
              te_terminal_sha256 = terminal_sha,
              te_previous_hash = previous_hash (rc_events rc), te_event_hash = []\<rparr> in
     ebind (compute_event_hash c (hashed_payload e)) (\<lambda>h.
     let e' = e\<lparr>te_event_hash := h\<rparr> in
     ebind (require (trace_event_ok e') ValueError) (\<lambda>_.
     Inr (rc\<lparr>rc_events := rc_events rc @ [e']\<rparr>)))))"

lemma hashed_payload_hash_irrelevant [simp]: "hashed_payload (e\<lparr>te_event_hash := h\<rparr>) = hashed_payload e"
  by (simp add: hashed_payload_def event_payload_def)

subsection \<open>Traces and the store\<close>

record agent_trace =
  tc_trace_id :: string
  tc_planner_id :: string
  tc_task :: runtime_task
  tc_policy :: dict
  tc_tool_names :: "string list"
  tc_events :: "trace_event list"
  tc_terminal :: terminal_result

definition agent_trace_ok :: "agent_trace \<Rightarrow> bool" where
  "agent_trace_ok t = (hex_exact 32 (tc_trace_id t) \<and> tc_events t \<noteq> [])"

definition dump_event :: "trace_event \<Rightarrow> json" where
  "dump_event e = JObj ((''event_hash'', JStr (te_event_hash e)) # event_payload e)"

definition dump_trace :: "agent_trace \<Rightarrow> json" where
  "dump_trace t = JObj
     [(''events'', JList (map dump_event (tc_events t))), (''planner_id'', JStr (tc_planner_id t)),
      (''policy'', JObj (tc_policy t)), (''runtime_id'', JStr ''search-agent-runtime-v1''),
      (''schema_version'', JStr ''search-evaluation-agent-trace-v1''),
      (''task'', dump_task (tc_task t)), (''terminal'', dump_terminal (tc_terminal t)),
      (''tool_names'', JList (map JStr (tc_tool_names t))), (''trace_id'', JStr (tc_trace_id t))]"

definition MAX_TRACE_BYTES :: nat where
  "MAX_TRACE_BYTES = 8 * 1024 * 1024"

type_synonym trace_store = "string \<Rightarrow> agent_trace option"

text \<open>Publishing is immutable: an identical Trace is accepted again, a different one is refused.\<close>

definition store_trace :: "codec \<Rightarrow> trace_store \<Rightarrow> agent_trace \<Rightarrow> exn + trace_store" where
  "store_trace c st t =
     ebind (canonical_json_bytes c (dump_trace t)) (\<lambda>b.
     ebind (require (length b + 1 \<le> MAX_TRACE_BYTES) ValueError) (\<lambda>_.
     case st (tc_trace_id t) of
       None \<Rightarrow> Inr (st(tc_trace_id t \<mapsto> t))
     | Some t' \<Rightarrow> if t' = t then Inr st else Inl RuntimeError))"

definition load_trace :: "trace_store \<Rightarrow> string \<Rightarrow> exn + agent_trace" where
  "load_trace st trace_id =
     ebind (require (hex_exact 32 trace_id) ValueError) (\<lambda>_.
     ebind (of_option ValueError (st trace_id)) (\<lambda>t.
     ebind (require (agent_trace_ok t \<and> tc_trace_id t = trace_id) ValueError) (\<lambda>_. Inr t)))"

lemma store_then_load:
  assumes "store_trace c st t = Inr st'" and "agent_trace_ok t"
  shows "load_trace st' (tc_trace_id t) = Inr t"
  using assms
  by (auto simp: store_trace_def load_trace_def agent_trace_ok_def split: option.splits if_splits)

lemma store_keeps_others:
  "store_trace c st t = Inr st' \<Longrightarrow> st i = Some u \<Longrightarrow> st' i = Some u"
  by (auto simp: store_trace_def split: option.splits if_splits)

end
