(* ===== verification/Reporting.thy ===== *)
theory Reporting
  imports RetrievalEvidence
begin

text \<open>
  \<^verbatim>\<open>src/search_quality/agent/reporting.py\<close>: the deterministic terminal report, built only from the
  task, the decision and the observations. An untyped \<^verbatim>\<open>gate\<close> that is not an object raises
  \<^verbatim>\<open>AttributeError\<close>, as the chained \<^verbatim>\<open>.get\<close> does.
\<close>

definition report_decision :: "terminal_outcome \<Rightarrow> string \<Rightarrow> dict" where
  "report_decision oc reason =
     [(''outcome'', JStr (outcome_value oc)), (''reason_code'', JStr reason)]"

definition failed_tools :: "tool_observation list \<Rightarrow> json" where
  "failed_tools obs =
     JList (map (\<lambda>x. JObj [(''error_code'', opt_str (ob_error_code x)), (''tool_name'', JStr (ob_tool_name x))])
              (filter (\<lambda>x. ob_status x = Failed) obs))"

definition succeeded_named :: "string \<Rightarrow> tool_observation list \<Rightarrow> tool_observation list" where
  "succeeded_named name obs = filter (\<lambda>x. ob_tool_name x = name \<and> ob_status x = Succeeded) obs"

definition compare_report ::
    "agent_task \<Rightarrow> terminal_outcome \<Rightarrow> string \<Rightarrow> tool_observation list \<Rightarrow> string list \<Rightarrow> json" where
  "compare_report t oc reason obs refs =
     (let comparison = (case rev (succeeded_named ''compare_runs'' obs) of
                          [] \<Rightarrow> JNull | x # _ \<Rightarrow> JObj (ob_payload x));
          inspected = map (\<lambda>x. JObj [(''evidence_ref'', opt_str (ob_evidence_ref x)),
                                     (''query_id'', dget (ob_payload x) ''query_id''),
                                     (''run_id'', dget (ob_payload x) ''run_id'')])
                        (succeeded_named ''inspect_query'' obs)
      in JObj
           [(''boundary'', JObj [(''full_catalog_recall_claimed'', JBool False), (''profile'', JStr ''smoke''),
                                 (''task'', JStr ''judged-candidate-reranking'')]),
            (''comparison'', comparison), (''decision'', JObj (report_decision oc reason)),
            (''evidence_refs'', JList (map JStr refs)), (''failed_tools'', failed_tools obs),
            (''inspected_queries'', JList inspected), (''task'', dump_task (CompareTask t))])"

definition gate_of :: "dict \<Rightarrow> exn + dict" where
  "gate_of payload =
     (case map_of payload ''gate'' of
        None \<Rightarrow> Inr []
      | Some j \<Rightarrow> (case j of JObj d \<Rightarrow> Inr d | _ \<Rightarrow> Inl AttributeError))"

definition report_experiment :: "tool_observation \<Rightarrow> exn + dict" where
  "report_experiment x =
     (let p = ob_payload x in
      ebind (gate_of p) (\<lambda>gate.
      Inr [(''candidate_run_id'', dget p ''candidate_run_id''),
           (''comparison_id'', dget p ''comparison_id''),
           (''failed_gates'', case map_of gate ''failed_gates'' of None \<Rightarrow> JList [] | Some v \<Rightarrow> v),
           (''gate_passed'', dget gate ''passed''),
           (''pipeline_id'', dget p ''pipeline_id''),
           (''pipeline_variant'', dget p ''pipeline_variant'')]))"

definition selected_by_reason :: "string list \<Rightarrow> string \<Rightarrow> exn + string option" where
  "selected_by_reason variants reason =
     (case variants of
        u # c # a # _ \<Rightarrow>
          Inr (map_of [(''uniform_candidate_passed'', u), (''conservative_candidate_selected'', c),
                       (''aggressive_candidate_selected'', a), (''llm_uniform_candidate_selected'', u),
                       (''llm_conservative_candidate_selected'', c),
                       (''llm_aggressive_candidate_selected'', a)] reason)
      | _ \<Rightarrow> Inl OtherException)"

definition retrieval_report ::
    "retrieval_task \<Rightarrow> terminal_outcome \<Rightarrow> string \<Rightarrow> tool_observation list \<Rightarrow> string list \<Rightarrow> exn + json" where
  "retrieval_report t oc reason obs refs =
     ebind (traverse report_experiment (succeeded_named RUN_CANDIDATE_TOOL obs)) (\<lambda>experiments.
     ebind (selected_by_reason (rt_candidate_variants t) reason) (\<lambda>selected_variant.
     let selected = find (\<lambda>d. dget d ''pipeline_variant'' = opt_str selected_variant) experiments;
         baseline = (case succeeded_named DIAGNOSE_BASELINE_TOOL obs of
                       [] \<Rightarrow> JNull
                     | x # _ \<Rightarrow>
                         JObj (map (\<lambda>k. (k, dget (ob_payload x) k))
                                 [''diagnosis_id'', ''primary_category'', ''recommended_next_action'', ''run_id'']))
     in Inr (JObj
          [(''boundary'', JObj [(''denominator_complete'', JBool True),
                                (''full_catalog_recall_claimed'', JBool False),
                                (''profile'', JStr (rt_profile t)),
                                (''task'', JStr ''query-scoped-judged-pool-candidate-retention''),
                                (''unjudged_products_are_irrelevant'', JBool False)]),
           (''decision'', JObj (report_decision oc reason @
                                [(''selected_comparison_id'',
                                    case selected of None \<Rightarrow> JNull | Some d \<Rightarrow> dget d ''comparison_id''),
                                 (''selected_pipeline_variant'', opt_str selected_variant)])),
           (''diagnosis'', baseline), (''evidence_refs'', JList (map JStr refs)),
           (''experiments'', JList (map JObj experiments)), (''failed_tools'', failed_tools obs),
           (''task'', dump_task (RetrievalTask t))])))"

definition build_terminal_report ::
    "runtime_task \<Rightarrow> terminal_outcome \<Rightarrow> string \<Rightarrow> tool_observation list \<Rightarrow> string list \<Rightarrow> exn + json" where
  "build_terminal_report task oc reason obs refs =
     (case task of
        CompareTask t \<Rightarrow> Inr (compare_report t oc reason obs refs)
      | RetrievalTask t \<Rightarrow> retrieval_report t oc reason obs refs)"

lemma build_terminal_report_is_dict:
  "build_terminal_report task oc reason obs refs = Inr j \<Longrightarrow> is_dict j"
  by (auto simp: build_terminal_report_def compare_report_def retrieval_report_def Let_def
      split: runtime_task.splits)

end
