(* ===== verification/AgentRuntime.thy ===== *)
theory AgentRuntime
  imports Grounding ToolRegistry TraceLog Reporting
begin

text \<open>
  \<^verbatim>\<open>src/search_quality/agent/runtime.py\<close>: the finite, policy-controlled Agent loop.

  The Planner, the tools, the monotonic clock and the wall clock act on one world \<open>'w\<close>, so that
  the order of their effects is the order of the calls in the source. The local variables of
  \<^verbatim>\<open>AgentRuntime.run\<close> are the record \<open>run_state\<close>; one iteration of the loop is \<open>run_turn\<close>, which
  either ends the run or hands the next state on; \<open>run_loop\<close> iterates it and terminates because
  a continuing turn uses one step. An \<open>Inl\<close> is an exception that leaves \<^verbatim>\<open>run\<close>. Logging is
  not modelled.
\<close>

subsection \<open>Policy\<close>

record runtime_policy =
  rp_max_steps :: int
  rp_max_tool_calls :: int
  rp_max_run_creations :: int
  rp_max_failures :: int
  rp_max_same_action_attempts :: int
  rp_max_elapsed_ms :: int
  rp_max_decision_bytes :: int
  rp_max_observation_bytes :: int
  rp_allowed_capabilities :: "string list"

definition default_policy :: runtime_policy where
  "default_policy =
     \<lparr>rp_max_steps = 8, rp_max_tool_calls = 6, rp_max_run_creations = 3, rp_max_failures = 2,
      rp_max_same_action_attempts = 2, rp_max_elapsed_ms = 30000,
      rp_max_decision_bytes = 64 * 1024, rp_max_observation_bytes = 1024 * 1024,
      rp_allowed_capabilities =
        [''read_smoke_run'', ''create_smoke_run'', ''compare_smoke_runs'', ''read_smoke_query_evidence'']\<rparr>"

definition runtime_policy_ok :: "runtime_policy \<Rightarrow> bool" where
  "runtime_policy_ok p =
     (list_all (\<lambda>v. 1 \<le> v)
        [rp_max_steps p, rp_max_tool_calls p, rp_max_run_creations p, rp_max_failures p,
         rp_max_same_action_attempts p, rp_max_elapsed_ms p, rp_max_decision_bytes p,
         rp_max_observation_bytes p] \<and>
      rp_allowed_capabilities p \<noteq> [] \<and> list_all SAFE_ID_PATTERN (rp_allowed_capabilities p))"

text \<open>A set of strings serialised as the sorted list of its members.\<close>

definition sorted_names :: "string list \<Rightarrow> string list" where
  "sorted_names xs = sort (remdups xs)"

definition policy_to_dict :: "runtime_policy \<Rightarrow> dict" where
  "policy_to_dict p =
     [(''allowed_capabilities'', JList (map JStr (sorted_names (rp_allowed_capabilities p)))),
      (''max_decision_bytes'', JInt (rp_max_decision_bytes p)),
      (''max_elapsed_ms'', JInt (rp_max_elapsed_ms p)),
      (''max_failures'', JInt (rp_max_failures p)),
      (''max_observation_bytes'', JInt (rp_max_observation_bytes p)),
      (''max_run_creations'', JInt (rp_max_run_creations p)),
      (''max_same_action_attempts'', JInt (rp_max_same_action_attempts p)),
      (''max_steps'', JInt (rp_max_steps p)),
      (''max_tool_calls'', JInt (rp_max_tool_calls p))]"

definition RUN_CREATING_TOOLS :: "string list" where
  "RUN_CREATING_TOOLS = [''run_ranker'', DIAGNOSE_BASELINE_TOOL, RUN_CANDIDATE_TOOL]"

subsection \<open>Environment and state\<close>

record planner_view =
  pv_task :: runtime_task
  pv_state :: agent_state
  pv_observations :: "tool_observation list"
  pv_steps_used :: nat
  pv_tool_calls_used :: nat
  pv_remaining_ms :: int

text \<open>What a Planner may return: a decision, or any other Python value.\<close>

datatype raw_decision = RawDecision agent_decision | RawOther

record 'w runtime_env =
  re_codec :: codec
  re_planner_id :: string
  re_requires_audit :: bool
  re_decide :: "planner_view \<Rightarrow> 'w \<Rightarrow> (exn + raw_decision) \<times> 'w"
  re_take_audit :: "('w \<Rightarrow> (exn + json option) \<times> 'w) option"
  re_tools :: "'w tool_spec list"
  re_policy :: runtime_policy
  re_elapsed :: "'w \<Rightarrow> rat \<times> 'w"
  re_now :: "'w \<Rightarrow> string \<times> 'w"
  re_store :: trace_store

record 'w run_state =
  rs_world :: 'w
  rs_recorder :: trace_recorder
  rs_observations :: "tool_observation list"
  rs_state :: agent_state
  rs_steps_used :: nat
  rs_tool_calls_used :: nat
  rs_run_creations :: nat
  rs_failures :: nat
  rs_attempts :: "(string \<times> nat) list"

record 'w run_out =
  ro_result :: terminal_result
  ro_trace :: agent_trace
  ro_store :: trace_store
  ro_world :: 'w

datatype 'w turn = Next "'w run_state" | Done "'w run_out"

definition runtime_init_ok :: "'w runtime_env \<Rightarrow> bool" where
  "runtime_init_ok env =
     (SAFE_ID_PATTERN (re_planner_id env) \<and> runtime_policy_ok (re_policy env) \<and>
      re_tools env \<noteq> [] \<and> distinct (registry_names (re_tools env)))"

text \<open>\<^verbatim>\<open>recorder.append\<close> with the timestamp of the moment.\<close>

definition record_event ::
    "'w runtime_env \<Rightarrow> 'w run_state \<Rightarrow> event_type \<Rightarrow> agent_state \<Rightarrow> agent_decision option \<Rightarrow>
     planner_audit option \<Rightarrow> tool_observation option \<Rightarrow> terminal_result option \<Rightarrow> rat \<Rightarrow>
     exn + 'w run_state" where
  "record_event env s kind after decision audit observation terminal duration =
     (case re_now env (rs_world s) of
        (now, w) \<Rightarrow>
          ebind (append_event (re_codec env) (rs_recorder s) now (rs_state s) kind after
                   decision audit observation terminal duration) (\<lambda>rc.
          Inr (s\<lparr>rs_world := w, rs_recorder := rc, rs_state := after\<rparr>)))"

subsection \<open>Ending a run\<close>

definition make_trace ::
    "'w runtime_env \<Rightarrow> runtime_task \<Rightarrow> 'w run_state \<Rightarrow> terminal_result \<Rightarrow> agent_trace" where
  "make_trace env task s result =
     \<lparr>tc_trace_id = rc_trace_id (rs_recorder s), tc_planner_id = re_planner_id env, tc_task = task,
      tc_policy = policy_to_dict (re_policy env),
      tc_tool_names = sorted_names (registry_names (re_tools env)),
      tc_events = rc_events (rs_recorder s), tc_terminal = result\<rparr>"

definition store_and_return ::
    "'w runtime_env \<Rightarrow> runtime_task \<Rightarrow> 'w run_state \<Rightarrow> terminal_result \<Rightarrow> exn + 'w turn" where
  "store_and_return env task s result =
     (let t = make_trace env task s result in
      ebind (require (agent_trace_ok t) ValueError) (\<lambda>_.
      ebind (store_trace (re_codec env) (re_store env) t) (\<lambda>st.
      Inr (Done \<lparr>ro_result = result, ro_trace = t, ro_store = st, ro_world = rs_world s\<rparr>))))"

definition terminal_of ::
    "'w run_state \<Rightarrow> agent_state \<Rightarrow> terminal_outcome \<Rightarrow> string list \<Rightarrow> string \<Rightarrow> json \<Rightarrow> terminal_result" where
  "terminal_of s state oc refs reason report =
     \<lparr>tr_trace_id = rc_trace_id (rs_recorder s), tr_state = state, tr_outcome = oc,
      tr_evidence_refs = refs, tr_reason_code = reason, tr_report = report,
      tr_steps_used = rs_steps_used s, tr_tool_calls_used = rs_tool_calls_used s\<rparr>"

definition run_fail :: "'w runtime_env \<Rightarrow> runtime_task \<Rightarrow> 'w run_state \<Rightarrow> string \<Rightarrow> exn + 'w turn" where
  "run_fail env task s reason =
     (let obs = rs_observations s; refs = successful_evidence obs in
      ebind (build_terminal_report task INCONCLUSIVE reason obs refs) (\<lambda>report.
      let result = terminal_of s FAILED INCONCLUSIVE refs reason report in
      ebind (require (terminal_result_ok result) ValueError) (\<lambda>_.
      ebind (record_event env s Run_failed FAILED None None None (Some result) 0) (\<lambda>s'.
      store_and_return env task s' result))))"

definition run_complete ::
    "'w runtime_env \<Rightarrow> runtime_task \<Rightarrow> 'w run_state \<Rightarrow> finish_decision \<Rightarrow> planner_audit option \<Rightarrow>
     exn + 'w turn" where
  "run_complete env task s d audit =
     ebind (build_terminal_report task (fd_outcome d) (fd_reason_code d) (rs_observations s)
              (fd_evidence_refs d)) (\<lambda>report.
     let result = terminal_of s COMPLETED (fd_outcome d) (fd_evidence_refs d) (fd_reason_code d) report in
     ebind (require (terminal_result_ok result) ValueError) (\<lambda>_.
     ebind (record_event env s Run_completed COMPLETED (Some (Finish d)) audit None (Some result) 0) (\<lambda>s'.
     store_and_return env task s' result)))"

subsection \<open>Consulting the Planner\<close>

definition type_or_value_error :: "exn \<Rightarrow> bool" where
  "type_or_value_error e = (e \<in> {TypeError, ValueError})"

definition take_planner_audit :: "'w runtime_env \<Rightarrow> 'w \<Rightarrow> (exn + planner_audit option) \<times> 'w" where
  "take_planner_audit env w =
     (let absent = (if re_requires_audit env then Inl ValueError else Inr None) in
      case re_take_audit env of
        None \<Rightarrow> (absent, w)
      | Some reader \<Rightarrow>
          (case reader w of
             (Inl e, w') \<Rightarrow> (Inl e, w')
           | (Inr None, w') \<Rightarrow> (absent, w')
           | (Inr (Some raw), w') \<Rightarrow>
               (ebind (of_option ValueError (decode_audit raw)) (\<lambda>a. Inr (Some a)), w')))"

definition validate_planner_audit_binding ::
    "runtime_task \<Rightarrow> tool_observation list \<Rightarrow> agent_decision \<Rightarrow> planner_audit option \<Rightarrow> exn + unit" where
  "validate_planner_audit_binding task obs d audit =
     (case task of
        CompareTask _ \<Rightarrow> require (audit = None) ValueError
      | RetrievalTask t \<Rightarrow>
          if rt_decision_policy t \<noteq> Adaptive_llm_v1 then require (audit = None) ValueError
          else
            (case audit of
               None \<Rightarrow> Inl ValueError
             | Some a \<Rightarrow>
                 ebind (option_for_adaptive_decision t obs d) (\<lambda>opt.
                 require (do_option_id opt = pa_selected_option_id a) ValueError)))"

definition validate_decision ::
    "'w runtime_env \<Rightarrow> runtime_task \<Rightarrow> tool_observation list \<Rightarrow> planner_audit option \<Rightarrow> raw_decision \<Rightarrow>
     exn + agent_decision" where
  "validate_decision env task obs audit raw =
     (case raw of
        RawOther \<Rightarrow> Inl ValueError
      | RawDecision d \<Rightarrow>
          ebind (require (decision_ok d) ValueError) (\<lambda>_.
          ebind (canonical_json_bytes (re_codec env) (dump_decision d)) (\<lambda>b.
          ebind (require (int (length b) \<le> rp_max_decision_bytes (re_policy env)) ValueError) (\<lambda>_.
          ebind (validate_planner_audit_binding task obs d audit) (\<lambda>_. Inr d)))))"

definition planner_view_of ::
    "'w runtime_env \<Rightarrow> runtime_task \<Rightarrow> 'w run_state \<Rightarrow> rat \<Rightarrow> planner_view" where
  "planner_view_of env task s elapsed =
     (let left = of_int (rp_max_elapsed_ms (re_policy env)) - elapsed;
          truncated = (if 0 \<le> left then \<lfloor>left\<rfloor> else \<lceil>left\<rceil>) in
      \<lparr>pv_task = task, pv_state = rs_state s, pv_observations = rs_observations s,
       pv_steps_used = rs_steps_used s, pv_tool_calls_used = rs_tool_calls_used s,
       pv_remaining_ms = max 1 truncated\<rparr>)"

text \<open>
  The Planner part of a turn: an outcome is a failure reason or a validated decision with its
  audit. An exception outside the \<^verbatim>\<open>except\<close> clauses escapes.
\<close>

datatype planned = Refused string | Planned agent_decision "planner_audit option"

definition consult_planner ::
    "'w runtime_env \<Rightarrow> runtime_task \<Rightarrow> 'w run_state \<Rightarrow> (exn + planned) \<times> 'w" where
  "consult_planner env task s =
     (case re_elapsed env (rs_world s) of
        (elapsed, w1) \<Rightarrow>
          (case re_decide env (planner_view_of env task s elapsed) w1 of
             (Inl _, w2) \<Rightarrow> (Inr (Refused ''planner_failed''), w2)
           | (Inr raw, w2) \<Rightarrow>
               (case take_planner_audit env w2 of
                  (Inl e, w3) \<Rightarrow>
                    (if type_or_value_error e then Inr (Refused ''planner_invalid_audit'') else Inl e, w3)
                | (Inr audit, w3) \<Rightarrow>
                    (case validate_decision env task (rs_observations s) audit raw of
                       Inl e \<Rightarrow>
                         (if type_or_value_error e then Inr (Refused ''planner_invalid_output'') else Inl e, w3)
                     | Inr d \<Rightarrow> (Inr (Planned d audit), w3)))))"

subsection \<open>Executing a tool\<close>

definition tool_result_fields :: "runtime_policy \<Rightarrow> codec \<Rightarrow> json \<Rightarrow> exn + string \<times> dict" where
  "tool_result_fields p c result =
     (case result of
        JObj d \<Rightarrow>
          if set (map fst d) = {''evidence_ref'', ''payload''} then
            ebind (recast (AgentToolError ''invalid_tool_result'' False)
                     (ebind (validate_evidence_ref (dget d ''evidence_ref'')) (\<lambda>ref.
                      ebind (of_option ValueError (dec_dict (dget d ''payload''))) (\<lambda>payload.
                      ebind (canonical_json_bytes c (JObj payload)) (\<lambda>b.
                      Inr (ref, payload, length b)))))) (\<lambda>r.
            case r of (ref, payload, n) \<Rightarrow>
            if rp_max_observation_bytes p < int n
            then Inl (AgentToolError ''observation_too_large'' False)
            else Inr (ref, payload))
          else Inl (AgentToolError ''invalid_tool_result'' False)
      | _ \<Rightarrow> Inl (AgentToolError ''invalid_tool_result'' False))"

definition run_tool ::
    "'w runtime_env \<Rightarrow> runtime_task \<Rightarrow> tool_action \<Rightarrow> tool_observation list \<Rightarrow> 'w \<Rightarrow>
     (exn + string \<times> dict) \<times> 'w" where
  "run_tool env task a obs w =
     (case validate_action_scope task a obs of
        Inl e \<Rightarrow> (Inl e, w)
      | Inr _ \<Rightarrow>
          (case execute (re_tools env) (rp_allowed_capabilities (re_policy env))
                  (ta_tool_name a) (ta_arguments a) w of
             (Inl e, w') \<Rightarrow> (Inl e, w')
           | (Inr result, w') \<Rightarrow> (tool_result_fields (re_policy env) (re_codec env) result, w')))"

text \<open>The observation without its digest, and whether the failure is a policy violation.\<close>

definition observation_of_result ::
    "string \<Rightarrow> exn + string \<times> dict \<Rightarrow> tool_observation \<times> bool" where
  "observation_of_result name r =
     (case r of
        Inr (ref, payload) \<Rightarrow>
          (\<lparr>ob_tool_name = name, ob_status = Succeeded, ob_evidence_ref = Some ref, ob_payload = payload,
            ob_error_code = None, ob_retryable = False, ob_sha256 = []\<rparr>, False)
      | Inl e \<Rightarrow>
          (let (code, retryable, violation) =
             (case e of AgentPolicyError c \<Rightarrow> (c, False, True) | AgentToolError c r \<Rightarrow> (c, r, False)
              | _ \<Rightarrow> (''internal_error'', False, False))
           in (\<lparr>ob_tool_name = name, ob_status = Failed, ob_evidence_ref = None, ob_payload = [],
                ob_error_code = Some code, ob_retryable = retryable, ob_sha256 = []\<rparr>, violation)))"

definition seal_observation :: "codec \<Rightarrow> tool_observation \<Rightarrow> exn + tool_observation" where
  "seal_observation c x =
     ebind (compute_event_hash c (JObj (observation_base x))) (\<lambda>h.
     let x' = x\<lparr>ob_sha256 := h\<rparr> in
     ebind (require (observation_ok x') ValueError) (\<lambda>_. Inr x'))"

definition execute_tool ::
    "'w runtime_env \<Rightarrow> runtime_task \<Rightarrow> tool_action \<Rightarrow> tool_observation list \<Rightarrow> 'w \<Rightarrow>
     (exn + tool_observation \<times> bool) \<times> 'w" where
  "execute_tool env task a obs w =
     (case run_tool env task a obs w of
        (r, w') \<Rightarrow>
          (case observation_of_result (ta_tool_name a) r of
             (x, violation) \<Rightarrow>
               (ebind (seal_observation (re_codec env) x) (\<lambda>x'. Inr (x', violation)), w')))"

subsection \<open>The acting half of a turn\<close>

definition action_key :: "codec \<Rightarrow> tool_action \<Rightarrow> exn + string" where
  "action_key c a =
     compute_event_hash c (JObj [(''arguments'', JObj (ta_arguments a)), (''tool_name'', JStr (ta_tool_name a))])"

definition attempts_of :: "(string \<times> nat) list \<Rightarrow> string \<Rightarrow> nat" where
  "attempts_of m k = (case map_of m k of None \<Rightarrow> 0 | Some n \<Rightarrow> n)"

text \<open>After the action is admitted: record it, run the tool, record what was observed.\<close>

definition perform_action ::
    "'w runtime_env \<Rightarrow> runtime_task \<Rightarrow> 'w run_state \<Rightarrow> tool_action \<Rightarrow> planner_audit option \<Rightarrow>
     exn + 'w run_state \<times> tool_observation \<times> bool" where
  "perform_action env task s a audit =
     ebind (record_event env s Action_selected ACTING (Some (Tool a)) audit None None 0) (\<lambda>s1.
     case re_elapsed env (rs_world s1) of (t0, w0) \<Rightarrow>
     case execute_tool env task a (rs_observations s1) w0 of (r, w1) \<Rightarrow>
     ebind r (\<lambda>xv. case xv of (x, violation) \<Rightarrow>
     case re_elapsed env w1 of (t1, w2) \<Rightarrow>
     ebind (record_event env
              (s1\<lparr>rs_world := w2, rs_tool_calls_used := rs_tool_calls_used s1 + 1\<rparr>)
              Tool_observed OBSERVING None None (Some x) None (t1 - t0)) (\<lambda>s2.
     ebind (record_event env (s2\<lparr>rs_observations := rs_observations s2 @ [x]\<rparr>)
              Observation_processed DECIDING None None None None 0) (\<lambda>s3.
     Inr (s3\<lparr>rs_failures := rs_failures s3 + (if ob_status x = Failed then 1 else 0)\<rparr>, x, violation)))))"

definition act ::
    "'w runtime_env \<Rightarrow> runtime_task \<Rightarrow> 'w run_state \<Rightarrow> tool_action \<Rightarrow> planner_audit option \<Rightarrow> exn + 'w turn" where
  "act env task s a audit =
     (let p = re_policy env; creating = ta_tool_name a \<in> set RUN_CREATING_TOOLS in
      if rp_max_tool_calls p \<le> int (rs_tool_calls_used s)
      then run_fail env task s ''tool_call_budget_exhausted''
      else if creating \<and> rp_max_run_creations p \<le> int (rs_run_creations s)
      then run_fail env task s ''run_creation_budget_exhausted''
      else
        ebind (action_key (re_codec env) a) (\<lambda>key.
        let attempts = attempts_of (rs_attempts s) key + 1;
            s1 = s\<lparr>rs_run_creations := rs_run_creations s + (if creating then 1 else 0),
                   rs_attempts := dict_set key attempts (rs_attempts s)\<rparr> in
        if rp_max_same_action_attempts p < int attempts
        then run_fail env task s1 ''repeated_action_rejected''
        else
          ebind (perform_action env task s1 a audit) (\<lambda>res. case res of (s2, x, violation) \<Rightarrow>
          if violation then run_fail env task s2 ''policy_violation''
          else if rp_max_failures p \<le> int (rs_failures s2)
          then run_fail env task s2 ''failure_budget_exhausted''
          else Inr (Next s2))))"

subsection \<open>The loop\<close>

definition run_turn :: "'w runtime_env \<Rightarrow> runtime_task \<Rightarrow> 'w run_state \<Rightarrow> exn + 'w turn" where
  "run_turn env task s =
     (case re_elapsed env (rs_world s) of
        (elapsed, w) \<Rightarrow>
          (let s0 = s\<lparr>rs_world := w\<rparr> in
           if of_int (rp_max_elapsed_ms (re_policy env)) < elapsed
           then run_fail env task s0 ''elapsed_budget_exhausted''
           else
             (case consult_planner env task s0 of
                (Inl e, _) \<Rightarrow> Inl e
              | (Inr (Refused reason), w1) \<Rightarrow> run_fail env task (s0\<lparr>rs_world := w1\<rparr>) reason
              | (Inr (Planned d audit), w1) \<Rightarrow>
                  (let s1 = s0\<lparr>rs_world := w1, rs_steps_used := rs_steps_used s0 + 1\<rparr> in
                   case d of
                     Finish f \<Rightarrow>
                       (case validate_finish_grounding task f (rs_observations s1) of
                          Inr _ \<Rightarrow> run_complete env task s1 f audit
                        | Inl (AgentPolicyError _) \<Rightarrow> run_fail env task s1 ''ungrounded_finish_rejected''
                        | Inl e \<Rightarrow>
                            if type_or_value_error e
                            then run_fail env task s1 ''ungrounded_finish_rejected'' else Inl e)
                   | Tool a \<Rightarrow> act env task s1 a audit))))"

lemma record_event_counters:
  assumes "record_event env s kind after decision audit observation terminal duration = Inr s'"
  shows "rs_steps_used s' = rs_steps_used s" "rs_tool_calls_used s' = rs_tool_calls_used s"
    "rs_run_creations s' = rs_run_creations s" "rs_failures s' = rs_failures s"
    "rs_attempts s' = rs_attempts s" "rs_observations s' = rs_observations s" "rs_state s' = after"
  using assms by (auto simp: record_event_def split: prod.splits)

lemma perform_action_elims:
  assumes "perform_action env task s a audit = Inr (s', x, v)"
  obtains s1 t0 w0 w1 t1 w2 s2 s3 where
    "record_event env s Action_selected ACTING (Some (Tool a)) audit None None 0 = Inr s1"
    "re_elapsed env (rs_world s1) = (t0, w0)"
    "execute_tool env task a (rs_observations s1) w0 = (Inr (x, v), w1)"
    "re_elapsed env w1 = (t1, w2)"
    "record_event env (s1\<lparr>rs_world := w2, rs_tool_calls_used := rs_tool_calls_used s1 + 1\<rparr>)
       Tool_observed OBSERVING None None (Some x) None (t1 - t0) = Inr s2"
    "record_event env (s2\<lparr>rs_observations := rs_observations s2 @ [x]\<rparr>)
       Observation_processed DECIDING None None None None 0 = Inr s3"
    "s' = s3\<lparr>rs_failures := rs_failures s3 + (if ob_status x = Failed then 1 else 0)\<rparr>"
proof -
  from assms obtain s1 where s1: "record_event env s Action_selected ACTING (Some (Tool a)) audit None None 0 = Inr s1"
    by (auto simp: perform_action_def)
  obtain t0 w0 where t0: "re_elapsed env (rs_world s1) = (t0, w0)" by fastforce
  obtain r w1 where r: "execute_tool env task a (rs_observations s1) w0 = (r, w1)" by fastforce
  obtain t1 w2 where t1: "re_elapsed env w1 = (t1, w2)" by fastforce
  from assms s1 t0 r have "r = Inr (x, v)"
    by (auto simp: perform_action_def case_prod_beta)
  with assms s1 t0 r t1 that show ?thesis
    by (auto simp: perform_action_def)
qed

lemma perform_action_counters:
  assumes "perform_action env task s a audit = Inr (s', x, v)"
  shows "rs_steps_used s' = rs_steps_used s" "rs_tool_calls_used s' = rs_tool_calls_used s + 1"
    "rs_run_creations s' = rs_run_creations s" "rs_attempts s' = rs_attempts s"
    "rs_failures s' = rs_failures s + (if ob_status x = Failed then 1 else 0)"
    "rs_observations s' = rs_observations s @ [x]" "rs_state s' = DECIDING"
proof -
  from assms obtain s1 s2 s3 d w2 where
    r1: "record_event env s Action_selected ACTING (Some (Tool a)) audit None None 0 = Inr s1"
    and r2: "record_event env (s1\<lparr>rs_world := w2, rs_tool_calls_used := rs_tool_calls_used s1 + 1\<rparr>)
       Tool_observed OBSERVING None None (Some x) None d = Inr s2"
    and r3: "record_event env (s2\<lparr>rs_observations := rs_observations s2 @ [x]\<rparr>)
       Observation_processed DECIDING None None None None 0 = Inr s3"
    and s': "s' = s3\<lparr>rs_failures := rs_failures s3 + (if ob_status x = Failed then 1 else 0)\<rparr>"
    by (rule perform_action_elims)
  show "rs_steps_used s' = rs_steps_used s" "rs_tool_calls_used s' = rs_tool_calls_used s + 1"
    "rs_run_creations s' = rs_run_creations s" "rs_attempts s' = rs_attempts s"
    "rs_failures s' = rs_failures s + (if ob_status x = Failed then 1 else 0)"
    "rs_observations s' = rs_observations s @ [x]" "rs_state s' = DECIDING"
    using record_event_counters [OF r1] record_event_counters [OF r2] record_event_counters [OF r3] s'
    by simp_all
qed

lemma run_fail_not_Next [simp]: "run_fail env task s reason \<noteq> Inr (Next s')"
  by (auto simp: run_fail_def store_and_return_def Let_def)

lemma run_complete_not_Next [simp]: "run_complete env task s d audit \<noteq> Inr (Next s')"
  by (auto simp: run_complete_def store_and_return_def Let_def)

lemma act_Next_steps: "act env task s a audit = Inr (Next s') \<Longrightarrow> rs_steps_used s' = rs_steps_used s"
  by (auto simp: act_def Let_def split: if_splits dest!: perform_action_counters(1))

lemma run_turn_Next_steps:
  "run_turn env task s = Inr (Next s') \<Longrightarrow> rs_steps_used s' = Suc (rs_steps_used s)"
  by (auto simp: run_turn_def Let_def split: prod.splits if_splits sum.splits planned.splits
      agent_decision.splits exn.splits dest!: act_Next_steps)

function run_loop :: "'w runtime_env \<Rightarrow> runtime_task \<Rightarrow> 'w run_state \<Rightarrow> exn + 'w turn" where
  "run_loop env task s =
     (if int (rs_steps_used s) < rp_max_steps (re_policy env) then
        (case run_turn env task s of
           Inl e \<Rightarrow> Inl e
         | Inr (Done out) \<Rightarrow> Inr (Done out)
         | Inr (Next s') \<Rightarrow> run_loop env task s')
      else run_fail env task s ''step_budget_exhausted'')"
  by pat_completeness auto
termination
  by (relation "measure (\<lambda>(env, task, s). nat (rp_max_steps (re_policy env)) - rs_steps_used s)")
     (auto dest: run_turn_Next_steps)

declare run_loop.simps [simp del]

definition start_state :: "'w \<Rightarrow> trace_recorder \<Rightarrow> 'w run_state" where
  "start_state w rc =
     \<lparr>rs_world = w, rs_recorder = rc, rs_observations = [], rs_state = PLANNING, rs_steps_used = 0,
      rs_tool_calls_used = 0, rs_run_creations = 0, rs_failures = 0, rs_attempts = []\<rparr>"

text \<open>\<^verbatim>\<open>AgentRuntime.run\<close>, given the fresh Trace ID.\<close>

definition run :: "'w runtime_env \<Rightarrow> runtime_task \<Rightarrow> string \<Rightarrow> 'w \<Rightarrow> exn + 'w turn" where
  "run env task trace_id w =
     ebind (compute_trace_context_hash (re_codec env) trace_id (re_planner_id env) task
              (policy_to_dict (re_policy env)) (sorted_names (registry_names (re_tools env)))) (\<lambda>context.
     ebind (recorder_init trace_id context) (\<lambda>rc.
     run_loop env task (start_state w rc)))"

end
