(* ===== verification/TraceReplay.thy ===== *)
theory TraceReplay
  imports Grounding Reporting TraceLog
begin

text \<open>
  \<^verbatim>\<open>src/search_quality/agent/replay.py\<close>: the offline replay of a stored Trace. The local
  variables of \<^verbatim>\<open>replay_trace\<close> are the record \<open>replay_state\<close>; the loop over the events is
  \<open>replay_events\<close>, its body \<open>replay_event\<close>, with the checks in the order of the source; what
  follows the loop is \<open>replay_final\<close>. The replay reads a Trace and a codec only: no Planner and
  no tool is an argument of it. The lemmas give the effect of each kind of well-formed event,
  so that a recorder and a replayer can be run side by side.
\<close>

definition ALLOWED_TRANSITIONS :: "(agent_state \<times> event_type \<times> agent_state) set" where
  "ALLOWED_TRANSITIONS =
     {(PLANNING, Action_selected, ACTING), (DECIDING, Action_selected, ACTING),
      (ACTING, Tool_observed, OBSERVING), (OBSERVING, Observation_processed, DECIDING),
      (PLANNING, Run_completed, COMPLETED), (DECIDING, Run_completed, COMPLETED),
      (PLANNING, Run_failed, FAILED), (ACTING, Run_failed, FAILED),
      (OBSERVING, Run_failed, FAILED), (DECIDING, Run_failed, FAILED)}"

definition LLM_PLANNER_ID :: string where
  "LLM_PLANNER_ID = ''llm-retrieval-planner-v1''"

record replay_state =
  ry_expected :: nat
  ry_observations :: "tool_observation list"
  ry_state :: agent_state
  ry_previous_hash :: string
  ry_terminal :: "trace_event option"
  ry_pending_tool :: "string option"
  ry_scope_error :: "string option"
  ry_registry_error :: "string option"
  ry_binding :: "string list option"
  ry_actions :: nat

definition replay_start :: replay_state where
  "replay_start =
     \<lparr>ry_expected = 1, ry_observations = [], ry_state = PLANNING, ry_previous_hash = ZERO_HASH,
      ry_terminal = None, ry_pending_tool = None, ry_scope_error = None, ry_registry_error = None,
      ry_binding = None, ry_actions = 0\<rparr>"

subsection \<open>One event\<close>

definition hash_mismatch :: exn where
  "hash_mismatch = AgentReplayError ''trace_hash_mismatch''"

text \<open>The digest over the whole event, or, without an audit, over the event without that field.\<close>

definition event_hash_valid :: "codec \<Rightarrow> trace_event \<Rightarrow> exn + bool" where
  "event_hash_valid c e =
     ebind (compute_event_hash c (JObj (event_payload e))) (\<lambda>h1.
     if te_planner_audit e = None then
       ebind (compute_event_hash c (JObj (drop_audit (event_payload e)))) (\<lambda>h2.
       Inr (te_event_hash e \<in> {h1, h2}))
     else Inr (te_event_hash e = h1))"

definition check_link :: "codec \<Rightarrow> replay_state \<Rightarrow> trace_event \<Rightarrow> exn + unit" where
  "check_link c s e =
     ebind (require (te_sequence e = ry_expected s) ValueError) (\<lambda>_.
     ebind (require (te_previous_hash e = ry_previous_hash s) hash_mismatch) (\<lambda>_.
     ebind (event_hash_valid c e) (\<lambda>valid.
     ebind (require valid hash_mismatch) (\<lambda>_.
     ebind (require (te_state_before e = ry_state s) ValueError) (\<lambda>_.
     require ((te_state_before e, te_event_type e, te_state_after e) \<in> ALLOWED_TRANSITIONS) ValueError)))))"

definition decision_event :: "event_type \<Rightarrow> bool" where
  "decision_event t = (t \<in> {Action_selected, Run_completed})"

definition read_audit :: "agent_trace \<Rightarrow> trace_event \<Rightarrow> exn + planner_audit option" where
  "read_audit t e =
     ebind (case te_planner_audit e of
              None \<Rightarrow> Inr None
            | Some j \<Rightarrow>
                ebind (require (decision_event (te_event_type e)) ValueError) (\<lambda>_.
                ebind (of_option ValueError (decode_audit j)) (\<lambda>a. Inr (Some a)))) (\<lambda>audit.
     ebind (require (\<not> (tc_planner_id t = LLM_PLANNER_ID \<and> decision_event (te_event_type e) \<and>
                        audit = None)) ValueError) (\<lambda>_.
     Inr audit))"

definition check_terminal :: "agent_trace \<Rightarrow> replay_state \<Rightarrow> trace_event \<Rightarrow> exn + replay_state" where
  "check_terminal t s e =
     (if terminal_event_type (te_event_type e) then
        ebind (require (ry_expected s = length (tc_events t)) ValueError) (\<lambda>_.
        ebind (require (te_terminal_sha256 e \<noteq> None) ValueError) (\<lambda>_.
        ebind (require (te_context_sha256 e \<noteq> None) ValueError) (\<lambda>_.
        ebind (require (ry_pending_tool s = None) ValueError) (\<lambda>_.
        Inr (s\<lparr>ry_terminal := Some e\<rparr>)))))
      else
        ebind (require (te_terminal_sha256 e = None \<and> te_context_sha256 e = None) ValueError) (\<lambda>_.
        Inr s))"

definition planner_binding :: "planner_audit \<Rightarrow> string list" where
  "planner_binding a =
     [''planner-decision-audit-v1'', ''llm'', pa_provider_id a, pa_model_id a,
      ''retrieval-choice-prompt-v1'', ''retrieval-choice-schema-v1'', ''aggregate_only_v1'',
      pa_planner_config_sha256 a]"

definition validate_llm_option_binding ::
    "agent_trace \<Rightarrow> tool_observation list \<Rightarrow> agent_decision \<Rightarrow> planner_audit option \<Rightarrow>
     string list option \<Rightarrow> exn + string list option" where
  "validate_llm_option_binding t obs d audit expected =
     (if tc_planner_id t \<noteq> LLM_PLANNER_ID then
        ebind (require (audit = None) ValueError) (\<lambda>_. Inr None)
      else
        (case (audit, tc_task t) of
           (Some a, RetrievalTask task) \<Rightarrow>
             ebind (derive_adaptive_retrieval_options task obs) (\<lambda>opts.
             ebind (require (pa_option_count a = int (length opts)) ValueError) (\<lambda>_.
             case filter (\<lambda>opt. decision_eq (do_decision opt) d) opts of
               [opt] \<Rightarrow>
                 ebind (require (do_option_id opt = pa_selected_option_id a) ValueError) (\<lambda>_.
                 ebind (require (expected = None \<or> expected = Some (planner_binding a)) ValueError) (\<lambda>_.
                 Inr (Some (planner_binding a))))
             | _ \<Rightarrow> Inl ValueError))
         | _ \<Rightarrow> Inl ValueError))"

text \<open>Only a policy violation is caught; any other exception of the scope check ends the replay.\<close>

definition scope_error_of :: "exn + unit \<Rightarrow> string option \<Rightarrow> exn + string option" where
  "scope_error_of r pending =
     (case r of Inr _ \<Rightarrow> Inr pending | Inl (AgentPolicyError code) \<Rightarrow> Inr (Some code) | Inl e \<Rightarrow> Inl e)"

definition replay_action ::
    "agent_trace \<Rightarrow> replay_state \<Rightarrow> trace_event \<Rightarrow> planner_audit option \<Rightarrow> exn + replay_state" where
  "replay_action t s e audit =
     ebind (require (jget (opt_json (te_decision e)) ''kind'' = JStr ''tool'') ValueError) (\<lambda>_.
     ebind (require (ry_pending_tool s = None) ValueError) (\<lambda>_.
     ebind (of_option ValueError (decode_tool_action (opt_json (te_decision e)))) (\<lambda>a.
     ebind (validate_llm_option_binding t (ry_observations s) (Tool a) audit (ry_binding s)) (\<lambda>binding.
     ebind (scope_error_of (validate_action_scope (tc_task t) a (ry_observations s)) (ry_scope_error s)) (\<lambda>err.
     Inr (s\<lparr>ry_binding := binding, ry_pending_tool := Some (ta_tool_name a),
            ry_registry_error := (if ta_tool_name a \<in> set (tc_tool_names t) then ry_registry_error s
                                  else Some ''tool_not_allowed''),
            ry_scope_error := err, ry_actions := ry_actions s + 1\<rparr>))))))"

text \<open>\<^verbatim>\<open>pending_scope_error or pending_registry_error\<close>\<close>

definition expected_policy_error :: "replay_state \<Rightarrow> string option" where
  "expected_policy_error s =
     (case ry_scope_error s of
        Some c \<Rightarrow> if c = [] then ry_registry_error s else Some c
      | None \<Rightarrow> ry_registry_error s)"

definition replay_observation :: "codec \<Rightarrow> replay_state \<Rightarrow> trace_event \<Rightarrow> exn + replay_state" where
  "replay_observation c s e =
     ebind (of_option ValueError (te_observation e)) (\<lambda>j.
     ebind (of_option ValueError (decode_observation j)) (\<lambda>x.
     ebind (require (ry_pending_tool s = Some (ob_tool_name x)) ValueError) (\<lambda>_.
     ebind (require (expected_policy_error s = None \<or>
              (ob_status x = Failed \<and> ob_error_code x = expected_policy_error s)) ValueError) (\<lambda>_.
     ebind (compute_event_hash c (JObj (observation_base x))) (\<lambda>h.
     ebind (require (h = ob_sha256 x) hash_mismatch) (\<lambda>_.
     Inr (s\<lparr>ry_observations := ry_observations s @ [x], ry_pending_tool := None,
            ry_scope_error := None, ry_registry_error := None\<rparr>)))))))"

definition replay_completion :: "replay_state \<Rightarrow> trace_event \<Rightarrow> exn + replay_state" where
  "replay_completion s e =
     ebind (require (jget (opt_json (te_decision e)) ''kind'' = JStr ''finish'') ValueError) (\<lambda>_. Inr s)"

definition replay_kind ::
    "codec \<Rightarrow> agent_trace \<Rightarrow> replay_state \<Rightarrow> trace_event \<Rightarrow> planner_audit option \<Rightarrow> exn + replay_state" where
  "replay_kind c t s e audit =
     (case te_event_type e of
        Action_selected \<Rightarrow> replay_action t s e audit
      | Tool_observed \<Rightarrow> replay_observation c s e
      | Run_completed \<Rightarrow> replay_completion s e
      | _ \<Rightarrow> Inr s)"

definition replay_event :: "codec \<Rightarrow> agent_trace \<Rightarrow> replay_state \<Rightarrow> trace_event \<Rightarrow> exn + replay_state" where
  "replay_event c t s e =
     ebind (check_link c s e) (\<lambda>_.
     ebind (read_audit t e) (\<lambda>audit.
     ebind (check_terminal t s e) (\<lambda>s1.
     ebind (replay_kind c t s1 e audit) (\<lambda>s2.
     Inr (s2\<lparr>ry_expected := ry_expected s2 + 1, ry_state := te_state_after e,
             ry_previous_hash := te_event_hash e\<rparr>)))))"

fun replay_events ::
    "codec \<Rightarrow> agent_trace \<Rightarrow> replay_state \<Rightarrow> trace_event list \<Rightarrow> exn + replay_state" where
  "replay_events c t s [] = Inr s"
| "replay_events c t s (e # es) = ebind (replay_event c t s e) (\<lambda>s'. replay_events c t s' es)"

subsection \<open>The checks on the terminal result\<close>

definition replay_terminal_binding :: "codec \<Rightarrow> agent_trace \<Rightarrow> replay_state \<Rightarrow> trace_event \<Rightarrow> exn + unit" where
  "replay_terminal_binding c t s e =
     (let r = tc_terminal t in
      ebind (require (tr_trace_id r = tc_trace_id t) ValueError) (\<lambda>_.
      ebind (compute_trace_context_hash c (tc_trace_id t) (tc_planner_id t) (tc_task t) (tc_policy t)
               (tc_tool_names t)) (\<lambda>context.
      ebind (require (Some context = te_context_sha256 e) ValueError) (\<lambda>_.
      ebind (compute_terminal_hash c r) (\<lambda>h.
      ebind (require (Some h = te_terminal_sha256 e) ValueError) (\<lambda>_.
      require (ry_state s = tr_state r \<and> ry_state s \<in> {COMPLETED, FAILED}) ValueError))))))"

definition replay_completed :: "agent_trace \<Rightarrow> replay_state \<Rightarrow> trace_event \<Rightarrow> exn + unit" where
  "replay_completed t s e =
     (let r = tc_terminal t in
      ebind (require (tr_state r = COMPLETED) ValueError) (\<lambda>_.
      ebind (of_option ValueError (decode_finish_decision (opt_json (te_decision e)))) (\<lambda>d.
      ebind (case te_planner_audit e of
               None \<Rightarrow> Inr None
             | Some j \<Rightarrow> ebind (of_option ValueError (decode_audit j)) (\<lambda>a. Inr (Some a))) (\<lambda>audit.
      ebind (validate_llm_option_binding t (ry_observations s) (Finish d) audit (ry_binding s)) (\<lambda>_.
      ebind (require (fd_outcome d = tr_outcome r \<and> fd_reason_code d = tr_reason_code r \<and>
                      fd_evidence_refs d = tr_evidence_refs r) ValueError) (\<lambda>_.
      case validate_finish_grounding (tc_task t) d (ry_observations s) of
        Inl (AgentPolicyError _) \<Rightarrow> Inl ValueError
      | g \<Rightarrow> g))))))"

definition replay_failed :: "agent_trace \<Rightarrow> trace_event \<Rightarrow> exn + unit" where
  "replay_failed t e =
     ebind (require (te_decision e = None) ValueError) (\<lambda>_.
     require (tr_state (tc_terminal t) = FAILED \<and> tr_outcome (tc_terminal t) = INCONCLUSIVE) ValueError)"

definition unrecorded_decision_failures :: "string list" where
  "unrecorded_decision_failures =
     [''repeated_action_rejected'', ''run_creation_budget_exhausted'',
      ''tool_call_budget_exhausted'', ''ungrounded_finish_rejected'']"

text \<open>An \<^verbatim>\<open>int\<close> that is not a \<^verbatim>\<open>bool\<close> and at least 1.\<close>

definition policy_limit :: "dict \<Rightarrow> string \<Rightarrow> exn + int" where
  "policy_limit p name =
     (case dget p name of
        JInt i \<Rightarrow> ebind (require (1 \<le> i) ValueError) (\<lambda>_. Inr i)
      | _ \<Rightarrow> Inl ValueError)"

definition creates_run :: "trace_event \<Rightarrow> bool" where
  "creates_run e =
     (te_event_type e = Action_selected \<and>
      jget (opt_json (te_decision e)) ''tool_name'' \<in>
        {JStr ''run_ranker'', JStr DIAGNOSE_BASELINE_TOOL, JStr RUN_CANDIDATE_TOOL})"

definition run_creation_count :: "trace_event list \<Rightarrow> nat" where
  "run_creation_count es = length (filter creates_run es)"

definition replay_counts :: "agent_trace \<Rightarrow> replay_state \<Rightarrow> trace_event \<Rightarrow> exn + unit" where
  "replay_counts t s e =
     (let r = tc_terminal t in
      ebind (require (tr_tool_calls_used r = ry_actions s) ValueError) (\<lambda>_.
      ebind (require (tr_steps_used r = ry_actions s +
               (if te_event_type e = Run_completed \<or> tr_reason_code r \<in> set unrecorded_decision_failures
                then 1 else 0)) ValueError) (\<lambda>_.
      ebind (policy_limit (tc_policy t) ''max_steps'') (\<lambda>max_steps.
      ebind (policy_limit (tc_policy t) ''max_tool_calls'') (\<lambda>max_tool_calls.
      ebind (policy_limit (tc_policy t) ''max_run_creations'') (\<lambda>max_run_creations.
      ebind (require (int (tr_steps_used r) \<le> max_steps \<and> int (tr_tool_calls_used r) \<le> max_tool_calls)
               ValueError) (\<lambda>_.
      require (int (run_creation_count (tc_events t)) \<le> max_run_creations) ValueError)))))))"

definition sorted_set :: "string list \<Rightarrow> string list" where
  "sorted_set xs = sort (remdups xs)"

definition replay_minimal :: "agent_trace \<Rightarrow> exn + unit" where
  "replay_minimal t =
     (case tc_task t of
        CompareTask _ \<Rightarrow> Inr ()
      | RetrievalTask _ \<Rightarrow>
          ebind (require (tc_tool_names t = sorted_set [DIAGNOSE_BASELINE_TOOL, RUN_CANDIDATE_TOOL])
                   ValueError) (\<lambda>_.
          require (dget (tc_policy t) ''allowed_capabilities'' =
                   JList (map JStr (sorted_set RETRIEVAL_TOOL_CAPABILITIES))) ValueError))"

definition replay_report :: "agent_trace \<Rightarrow> replay_state \<Rightarrow> exn + unit" where
  "replay_report t s =
     (let r = tc_terminal t in
      ebind (require (set (tr_evidence_refs r) \<subseteq> set (successful_evidence (ry_observations s))) ValueError) (\<lambda>_.
      ebind (build_terminal_report (tc_task t) (tr_outcome r) (tr_reason_code r) (ry_observations s)
               (tr_evidence_refs r)) (\<lambda>report.
      require (py_eq report (tr_report r)) ValueError)))"

definition replay_final :: "codec \<Rightarrow> agent_trace \<Rightarrow> replay_state \<Rightarrow> exn + unit" where
  "replay_final c t s =
     ebind (of_option ValueError (ry_terminal s)) (\<lambda>e.
     ebind (replay_terminal_binding c t s e) (\<lambda>_.
     ebind (if te_event_type e = Run_completed then replay_completed t s e else replay_failed t e) (\<lambda>_.
     ebind (replay_counts t s e) (\<lambda>_.
     ebind (replay_minimal t) (\<lambda>_.
     replay_report t s)))))"

definition replay_trace :: "codec \<Rightarrow> trace_store \<Rightarrow> string \<Rightarrow> exn + agent_trace" where
  "replay_trace c st trace_id =
     ebind (require (hex_exact 32 trace_id) ValueError) (\<lambda>_.
     ebind (load_trace st trace_id) (\<lambda>t.
     ebind (replay_events c t replay_start (tc_events t)) (\<lambda>s.
     ebind (replay_final c t s) (\<lambda>_. Inr t))))"

definition replay :: "codec \<Rightarrow> trace_store \<Rightarrow> string \<Rightarrow> exn + terminal_result" where
  "replay c st trace_id = ebind (replay_trace c st trace_id) (\<lambda>t. Inr (tc_terminal t))"

lemma replay_events_append:
  "replay_events c t s (xs @ ys) = ebind (replay_events c t s xs) (\<lambda>s'. replay_events c t s' ys)"
proof (induction xs arbitrary: s)
  case (Cons e xs)
  show ?case by (cases "replay_event c t s e") (simp_all add: Cons.IH)
qed simp

end
