(* ===== verification/TraceChain.thy ===== *)
theory TraceChain
  imports TraceReplay
begin

text \<open>
  The hash chain of \<^verbatim>\<open>agent/trace.py\<close> as an interface. The locale \<open>hash_chain\<close> states what a
  reader of the chain relies on: an entry carries its position, the digest of its predecessor
  and its own digest, two entries of equal digest have equal content or are themselves a collision
  of the digest function, and the content holds the position and the previous digest. It proves that the last
  digest determines the whole chain. The interpretation discharges the laws for the Trace events
  of the model; the Replay only accepts chains.
\<close>

locale hash_chain =
  fixes position :: "'e \<Rightarrow> nat" and previous :: "'e \<Rightarrow> 'h" and own :: "'e \<Rightarrow> 'h"
    and content :: "'e \<Rightarrow> 'c" and valid :: "'e \<Rightarrow> bool" and collision :: "'e \<Rightarrow> 'e \<Rightarrow> bool"
  assumes own_content: "valid a \<Longrightarrow> valid b \<Longrightarrow> own a = own b \<Longrightarrow> content a = content b \<or> collision a b"
    and content_previous: "content a = content b \<Longrightarrow> previous a = previous b"
    and content_position: "content a = content b \<Longrightarrow> position a = position b"
begin

fun chain :: "nat \<Rightarrow> 'h \<Rightarrow> 'e list \<Rightarrow> bool" where
  "chain n h [] = True"
| "chain n h (e # es) =
     (position e = n \<and> previous e = h \<and> valid e \<and> chain (Suc n) (own e) es)"

fun head :: "'h \<Rightarrow> 'e list \<Rightarrow> 'h" where
  "head h [] = h"
| "head h (e # es) = head (own e) es"

lemma head_append: "head h (xs @ ys) = head (head h xs) ys"
  by (induction xs arbitrary: h) simp_all

lemma head_last: "es \<noteq> [] \<Longrightarrow> head h es = own (last es)"
  by (induction es arbitrary: h) auto

lemma chain_append: "chain n h (xs @ ys) \<longleftrightarrow> chain n h xs \<and> chain (n + length xs) (head h xs) ys"
  by (induction xs arbitrary: n h) auto

lemma chain_snoc:
  "chain n h (xs @ [e]) \<longleftrightarrow>
     chain n h xs \<and> position e = n + length xs \<and> previous e = head h xs \<and> valid e"
  by (auto simp: chain_append)

lemma chain_nth:
  "chain n h es \<Longrightarrow> i < length es \<Longrightarrow> position (es ! i) = n + i \<and> valid (es ! i)"
  by (induction es arbitrary: n h i) (auto simp: nth_Cons split: nat.splits)

lemma chain_previous:
  "chain n h es \<Longrightarrow> Suc i < length es \<Longrightarrow> previous (es ! Suc i) = own (es ! i)"
proof (induction es arbitrary: n h i)
  case (Cons e es)
  then show ?case by (cases i) (cases es; auto)+
qed simp

text \<open>Chains of equal head digest agree entry by entry, or the digest function collides.\<close>

lemma chain_determined_same_length:
  assumes "chain n h xs" "chain n h ys" "length xs = length ys" "head h xs = head h ys"
  shows "map content xs = map content ys \<or> (\<exists>x \<in> set xs. \<exists>y \<in> set ys. collision x y)"
  using assms
proof (induction xs arbitrary: ys rule: rev_induct)
  case (snoc x xs)
  then obtain y ys' where ys: "ys = ys' @ [y]" by (cases ys rule: rev_cases) auto
  from snoc.prems ys have "valid x" "valid y" "own x = own y"
    by (simp_all add: chain_snoc head_append)
  then consider (same) "content x = content y" | (broken) "collision x y" using own_content by blast
  then show ?case
  proof cases
    case same
    from snoc.prems ys have px: "previous x = head h xs" and py: "previous y = head h ys'"
      and c: "chain n h xs" "chain n h ys'"
      by (simp_all add: chain_snoc)
    from same have "previous x = previous y" by (rule content_previous)
    with px py have "head h xs = head h ys'" by simp
    with snoc.IH [of ys'] snoc.prems(3) c ys have "map content xs = map content ys' \<or> (\<exists>x \<in> set xs. \<exists>y \<in> set ys'. collision x y)"
      by simp
    with same ys show ?thesis by auto
  next
    case broken
    with ys show ?thesis by auto
  qed
qed simp

lemma chain_determined:
  assumes "chain n h xs" "chain n h ys" "xs \<noteq> []" "ys \<noteq> []" "own (last xs) = own (last ys)"
  shows "map content xs = map content ys \<or> (\<exists>x \<in> set xs. \<exists>y \<in> set ys. collision x y)"
proof -
  obtain x xs' where xs: "xs = xs' @ [x]" using assms(3) by (cases xs rule: rev_cases) auto
  obtain y ys' where ys: "ys = ys' @ [y]" using assms(4) by (cases ys rule: rev_cases) auto
  from assms xs ys have "valid x" "valid y" "own x = own y" by (simp_all add: chain_snoc)
  with own_content consider (same) "content x = content y" | (broken) "collision x y" by blast
  then show ?thesis
  proof cases
    case same
    then have "position x = position y" by (rule content_position)
    with assms xs ys have "length xs = length ys" by (simp add: chain_snoc)
    moreover have "head h xs = head h ys" using assms by (simp add: head_last)
    ultimately show ?thesis using assms chain_determined_same_length by blast
  next
    case broken
    with xs ys show ?thesis by auto
  qed
qed

end

subsection \<open>The Trace events form such a chain\<close>

text \<open>
  Two payloads that serialise differently and have the same digest. A collision of some pair of
  payloads always exists; what a reader of two Traces cares about is one between their own payloads.
\<close>

definition collides :: "codec \<Rightarrow> json \<Rightarrow> json \<Rightarrow> bool" where
  "collides c p q =
     (sort_keys p \<noteq> sort_keys q \<and>
      (case (compute_event_hash c p, compute_event_hash c q) of (Inr h1, Inr h2) \<Rightarrow> h1 = h2 | _ \<Rightarrow> False))"

definition payload_variants :: "trace_event \<Rightarrow> json list" where
  "payload_variants e = [JObj (event_payload e), JObj (drop_audit (event_payload e))]"

definition event_collision :: "codec \<Rightarrow> trace_event \<Rightarrow> trace_event \<Rightarrow> bool" where
  "event_collision c a b = (\<exists>p \<in> set (payload_variants a). \<exists>q \<in> set (payload_variants b). collides c p q)"

lemma same_digest:
  "compute_event_hash c p = Inr h \<Longrightarrow> compute_event_hash c q = Inr h \<Longrightarrow> sort_keys p = sort_keys q \<or> collides c p q"
  by (auto simp: collides_def)

definition canonical_content :: "trace_event \<Rightarrow> json" where
  "canonical_content e = sort_keys (JObj (event_payload e))"

definition event_valid :: "codec \<Rightarrow> trace_event \<Rightarrow> bool" where
  "event_valid c e = (event_hash_valid c e = Inr True)"

lemma event_payload_keys:
  "map fst (event_payload e) =
     [''context_sha256'', ''decision'', ''duration_ms'', ''event_type'', ''observation'', ''planner_audit'',
      ''previous_hash'', ''sequence'', ''state_after'', ''state_before'', ''terminal_sha256'', ''timestamp_utc'']"
  by (simp add: event_payload_def)

lemma canonical_content_fields:
  "canonical_content e = JObj (map (\<lambda>p. (fst p, sort_keys (snd p))) (event_payload e))"
proof -
  have "sorted (map fst (map (\<lambda>p. (fst p, sort_keys (snd p))) (event_payload e)))"
    by (simp add: event_payload_def)
  then show ?thesis by (simp add: canonical_content_def sort_key_id_if_sorted)
qed

lemma canonical_dropped:
  "sort_keys (JObj (drop_audit (event_payload e))) =
     JObj (map (\<lambda>p. (fst p, sort_keys (snd p))) (drop_audit (event_payload e)))"
proof -
  have "sorted (map fst (map (\<lambda>p. (fst p, sort_keys (snd p))) (drop_audit (event_payload e))))"
    by (simp add: event_payload_def drop_audit_def)
  then show ?thesis by (simp add: sort_key_id_if_sorted)
qed

text \<open>What a valid event hash was computed over.\<close>

lemma event_valid_preimage:
  assumes "event_valid c e"
  obtains (full) "compute_event_hash c (JObj (event_payload e)) = Inr (te_event_hash e)"
  | (dropped) "te_planner_audit e = None"
      "compute_event_hash c (JObj (drop_audit (event_payload e))) = Inr (te_event_hash e)"
  using assms by (auto simp: event_valid_def event_hash_valid_def split: if_splits)

lemma dropped_content:
  assumes "te_planner_audit a = None" "te_planner_audit b = None"
    and "sort_keys (JObj (drop_audit (event_payload a))) = sort_keys (JObj (drop_audit (event_payload b)))"
  shows "canonical_content a = canonical_content b"
  using assms
  by (simp add: canonical_dropped canonical_content_fields drop_audit_def event_payload_def)

lemma full_not_dropped:
  "sort_keys (JObj (event_payload a)) \<noteq> sort_keys (JObj (drop_audit (event_payload b)))"
proof
  assume "sort_keys (JObj (event_payload a)) = sort_keys (JObj (drop_audit (event_payload b)))"
  then have "canonical_content a = sort_keys (JObj (drop_audit (event_payload b)))"
    by (simp add: canonical_content_def)
  then have "map (\<lambda>p. (fst p, sort_keys (snd p))) (event_payload a) =
      map (\<lambda>p. (fst p, sort_keys (snd p))) (drop_audit (event_payload b))"
    unfolding canonical_content_fields canonical_dropped by (rule json.inject(6) [THEN iffD1])
  then have "length (event_payload a) = length (drop_audit (event_payload b))"
    by (rule map_eq_imp_length_eq)
  then show False by (simp add: event_payload_def drop_audit_def)
qed

lemma event_hash_content:
  assumes "event_valid c a" "event_valid c b" "te_event_hash a = te_event_hash b"
  shows "canonical_content a = canonical_content b \<or> event_collision c a b"
proof (rule disjCI)
  assume no: "\<not> event_collision c a b"
  have same: "sort_keys p = sort_keys q"
    if "p \<in> set (payload_variants a)" "q \<in> set (payload_variants b)"
      "compute_event_hash c p = Inr (te_event_hash a)" "compute_event_hash c q = Inr (te_event_hash b)" for p q
    using that no assms(3) same_digest [of c p "te_event_hash a" q] by (auto simp: event_collision_def)
  have vs: "JObj (event_payload e) \<in> set (payload_variants e)" "JObj (drop_audit (event_payload e)) \<in> set (payload_variants e)" for e
    by (simp_all add: payload_variants_def)
  from assms(1) show "canonical_content a = canonical_content b"
  proof (cases rule: event_valid_preimage)
    case fa: full
    from assms(2) show ?thesis
    proof (cases rule: event_valid_preimage)
      case full
      with same [OF vs(1) vs(1) fa] show ?thesis by (simp add: canonical_content_def)
    next
      case dropped
      with same [OF vs(1) vs(2) fa] full_not_dropped show ?thesis by blast
    qed
  next
    case da: dropped
    from assms(2) show ?thesis
    proof (cases rule: event_valid_preimage)
      case full
      with same [OF vs(2) vs(1) da(2)] full_not_dropped [of b a] show ?thesis by metis
    next
      case dropped
      with same [OF vs(2) vs(2) da(2)] da(1) dropped_content show ?thesis by blast
    qed
  qed
qed

lemma content_fields:
  assumes "canonical_content a = canonical_content b"
  shows "te_sequence a = te_sequence b" "te_previous_hash a = te_previous_hash b"
    "opt_str (te_terminal_sha256 a) = opt_str (te_terminal_sha256 b)"
    "opt_str (te_context_sha256 a) = opt_str (te_context_sha256 b)"
  using assms
  by (cases "te_terminal_sha256 a"; cases "te_terminal_sha256 b"; cases "te_context_sha256 a";
      cases "te_context_sha256 b"; simp add: canonical_content_fields event_payload_def)+

interpretation trace_chain: hash_chain te_sequence te_previous_hash te_event_hash canonical_content
  "event_valid c" "event_collision c" for c
  by unfold_locales (auto intro: content_fields dest: event_hash_content)

subsection \<open>Replay accepts chains only\<close>

lemma replay_event_link:
  assumes "replay_event c t s e = Inr s'"
  shows "te_sequence e = ry_expected s" "te_previous_hash e = ry_previous_hash s" "event_valid c e"
    "te_state_before e = ry_state s"
    "(te_state_before e, te_event_type e, te_state_after e) \<in> ALLOWED_TRANSITIONS"
  using assms by (auto simp: replay_event_def check_link_def event_valid_def)

lemma replay_kind_frame:
  assumes "replay_kind c t s e a = Inr s'"
  shows "ry_expected s' = ry_expected s" "ry_terminal s' = ry_terminal s"
  using assms
  by (auto simp: replay_kind_def replay_action_def replay_observation_def replay_completion_def
      split: event_type.splits)

lemma replay_event_next:
  assumes "replay_event c t s e = Inr s'"
  shows "ry_expected s' = Suc (ry_expected s)" "ry_previous_hash s' = te_event_hash e"
    "ry_state s' = te_state_after e"
    "ry_terminal s' = (if terminal_event_type (te_event_type e) then Some e else ry_terminal s)"
    "terminal_event_type (te_event_type e) \<Longrightarrow> ry_expected s = length (tc_events t)"
proof -
  from assms obtain s1 s2 audit where s1: "check_terminal t s e = Inr s1"
    and s2: "replay_kind c t s1 e audit = Inr s2"
    and s': "s' = s2\<lparr>ry_expected := ry_expected s2 + 1, ry_state := te_state_after e, ry_previous_hash := te_event_hash e\<rparr>"
    by (auto simp: replay_event_def)
  show "ry_expected s' = Suc (ry_expected s)" "ry_previous_hash s' = te_event_hash e"
    "ry_state s' = te_state_after e"
    "ry_terminal s' = (if terminal_event_type (te_event_type e) then Some e else ry_terminal s)"
    "terminal_event_type (te_event_type e) \<Longrightarrow> ry_expected s = length (tc_events t)"
    using s1 replay_kind_frame [OF s2] s' by (auto simp: check_terminal_def split: if_splits)
qed

lemma replay_events_chain:
  "replay_events c t s es = Inr s' \<Longrightarrow> trace_chain.chain c (ry_expected s) (ry_previous_hash s) es"
proof (induction es arbitrary: s)
  case (Cons e es)
  then obtain s1 where s1: "replay_event c t s e = Inr s1" and rest: "replay_events c t s1 es = Inr s'"
    by auto
  show ?case
    using replay_event_link [OF s1] replay_event_next(1,2) [OF s1] Cons.IH [OF rest] by simp
qed simp

lemma replay_events_expected:
  "replay_events c t s es = Inr s' \<Longrightarrow> ry_expected s' = ry_expected s + length es"
  by (induction es arbitrary: s) (auto simp: replay_event_next(1))

text \<open>The terminal event that the replay remembers is the last event of the Trace.\<close>

lemma replay_events_terminal:
  assumes "replay_events c t s es = Inr s'" and "length (tc_events t) = ry_expected s + length es - 1"
    and "1 \<le> ry_expected s" "ry_terminal s = None" "ry_terminal s' = Some e"
  shows "es \<noteq> [] \<and> e = last es"
  using assms
proof (induction es arbitrary: s)
  case (Cons x es)
  then obtain s1 where s1: "replay_event c t s x = Inr s1" and rest: "replay_events c t s1 es = Inr s'"
    by auto
  note n = replay_event_next [OF s1]
  show ?case
  proof (cases "terminal_event_type (te_event_type x)")
    case True
    with n(5) Cons.prems(2,3) have "es = []" by (cases es) auto
    with rest n(4) True Cons.prems(5) show ?thesis by simp
  next
    case False
    with n(4) Cons.prems(4) have "ry_terminal s1 = None" by simp
    with Cons.IH [OF rest] Cons.prems n(1) show ?thesis by auto
  qed
qed simp

subsection \<open>What an accepted Trace commits to\<close>

definition context_payload :: "agent_trace \<Rightarrow> json" where
  "context_payload t = JObj
     [(''planner_id'', JStr (tc_planner_id t)), (''policy'', JObj (tc_policy t)),
      (''runtime_id'', JStr ''search-agent-runtime-v1''), (''schema_version'', JStr ''search-evaluation-agent-trace-v1''),
      (''task'', dump_task (tc_task t)), (''tool_names'', JList (map JStr (tc_tool_names t))),
      (''trace_id'', JStr (tc_trace_id t))]"

definition trace_collision :: "codec \<Rightarrow> agent_trace \<Rightarrow> agent_trace \<Rightarrow> bool" where
  "trace_collision c t1 t2 =
     ((\<exists>a \<in> set (tc_events t1). \<exists>b \<in> set (tc_events t2). event_collision c a b) \<or>
      collides c (dump_terminal (tc_terminal t1)) (dump_terminal (tc_terminal t2)) \<or>
      collides c (context_payload t1) (context_payload t2))"

lemma replay_trace_facts:
  assumes "replay_trace c st i = Inr t"
  obtains e h k where "trace_chain.chain c 1 ZERO_HASH (tc_events t)" "tc_events t \<noteq> []" "last (tc_events t) = e"
    "te_terminal_sha256 e = Some h" "compute_event_hash c (dump_terminal (tc_terminal t)) = Inr h"
    "te_context_sha256 e = Some k" "compute_event_hash c (context_payload t) = Inr k"
proof -
  from assms obtain s where s: "replay_events c t replay_start (tc_events t) = Inr s"
    and fin: "replay_final c t s = Inr ()"
    by (auto simp: replay_trace_def)
  from fin obtain e where e: "ry_terminal s = Some e" and b: "replay_terminal_binding c t s e = Inr ()"
    by (auto simp: replay_final_def)
  have ch: "trace_chain.chain c 1 ZERO_HASH (tc_events t)"
    using replay_events_chain [OF s] by (simp add: replay_start_def)
  have l: "tc_events t \<noteq> [] \<and> e = last (tc_events t)"
    by (rule replay_events_terminal [OF s _ _ _ e]) (simp_all add: replay_start_def)
  from b obtain h k where h: "Some h = te_terminal_sha256 e" "compute_event_hash c (dump_terminal (tc_terminal t)) = Inr h"
    and k: "Some k = te_context_sha256 e" "compute_event_hash c (context_payload t) = Inr k"
    by (auto simp: replay_terminal_binding_def Let_def compute_terminal_hash_def compute_trace_context_hash_def
        context_payload_def)
  show ?thesis
    by (rule that [OF ch _ _ h(1) [symmetric] h(2) k(1) [symmetric] k(2)]) (use l in simp_all)
qed

end
