(* ===== verification/RunInvariants.thy ===== *)
theory RunInvariants
  imports AgentRuntime TraceChain
begin

text \<open>
  What every run of \<^verbatim>\<open>AgentRuntime.run\<close> guarantees, for any Planner, tools and task. \<open>appended\<close>
  says what \<^verbatim>\<open>TraceRecorder.append\<close> wrote; \<open>run_turn_cases\<close> and \<open>run_loop_invariant\<close> are the
  case analysis and the induction rule of the loop; \<open>run_inv\<close> is the invariant at the head of
  the loop, and \<open>outcome_of\<close> what is left of it in the returned result and Trace.
\<close>

subsection \<open>What the recorder wrote\<close>

definition appended ::
    "codec \<Rightarrow> trace_recorder \<Rightarrow> agent_state \<Rightarrow> event_type \<Rightarrow> agent_state \<Rightarrow> agent_decision option \<Rightarrow>
     planner_audit option \<Rightarrow> tool_observation option \<Rightarrow> terminal_result option \<Rightarrow> trace_event \<Rightarrow> bool" where
  "appended c rc before kind after d a x tm e =
     (te_sequence e = length (rc_events rc) + 1 \<and> te_state_before e = before \<and>
      te_event_type e = kind \<and> te_state_after e = after \<and>
      te_decision e = map_option dump_decision d \<and> te_planner_audit e = map_option dump_audit a \<and>
      te_observation e = map_option dump_observation x \<and>
      te_context_sha256 e = (if terminal_event_type kind then Some (rc_context_sha256 rc) else None) \<and>
      terminal_event_type kind = (tm \<noteq> None) \<and>
      (case tm of None \<Rightarrow> te_terminal_sha256 e = None
       | Some r \<Rightarrow> \<exists>h. compute_terminal_hash c r = Inr h \<and> te_terminal_sha256 e = Some h) \<and>
      te_previous_hash e = previous_hash (rc_events rc) \<and> event_hash_valid c e = Inr True \<and>
      trace_event_ok e)"

lemma compute_event_hash_Inr_iff [simp]:
  "compute_event_hash c j = Inr h \<longleftrightarrow> json_ok j \<and> h = cd_sha c (cd_ser c (sort_keys j))"
  by (auto simp: compute_event_hash_def canonical_json_bytes_def ensure_json_value_def)

lemma event_hash_valid_hashed:
  assumes "compute_event_hash c (hashed_payload e) = Inr (te_event_hash e)"
  shows "event_hash_valid c e = Inr True"
proof (cases "te_planner_audit e")
  case None
  then have "json_ok (JObj (event_payload e))" "json_ok (JObj (drop_audit (event_payload e)))"
    using assms by (auto simp: hashed_payload_def event_payload_def drop_audit_def)
  with None assms show ?thesis by (simp add: event_hash_valid_def hashed_payload_def)
next
  case (Some a)
  with assms show ?thesis by (simp add: event_hash_valid_def hashed_payload_def)
qed

lemma append_event_appended:
  assumes "append_event c rc now before kind after d a x tm dur = Inr rc'"
  obtains e where "appended c rc before kind after d a x tm e"
    and "rc' = rc\<lparr>rc_events := rc_events rc @ [e]\<rparr>"
proof -
  from assms obtain sha h e where kind: "terminal_event_type kind = (tm \<noteq> None)"
    and sha: "(case tm of None \<Rightarrow> Inr None | Some r \<Rightarrow> ebind (compute_terminal_hash c r) (\<lambda>h. Inr (Some h))) = Inr sha"
    and e: "e = \<lparr>te_sequence = length (rc_events rc) + 1, te_timestamp_utc = now,
              te_state_before = before, te_event_type = kind, te_state_after = after,
              te_decision = map_option dump_decision d, te_planner_audit = map_option dump_audit a,
              te_observation = map_option dump_observation x, te_duration_ms = dur,
              te_context_sha256 = (if terminal_event_type kind then Some (rc_context_sha256 rc) else None),
              te_terminal_sha256 = sha,
              te_previous_hash = previous_hash (rc_events rc), te_event_hash = []\<rparr>"
    and h: "compute_event_hash c (hashed_payload e) = Inr h" "trace_event_ok (e\<lparr>te_event_hash := h\<rparr>)"
    and rc': "rc' = rc\<lparr>rc_events := rc_events rc @ [e\<lparr>te_event_hash := h\<rparr>]\<rparr>"
    by (auto simp: append_event_def Let_def)
  have "event_hash_valid c (e\<lparr>te_event_hash := h\<rparr>) = Inr True"
    by (rule event_hash_valid_hashed) (use h(1) in simp)
  moreover have "case tm of None \<Rightarrow> sha = None | Some r \<Rightarrow> \<exists>h. compute_terminal_hash c r = Inr h \<and> sha = Some h"
    using sha by (auto split: option.splits)
  ultimately have "appended c rc before kind after d a x tm (e\<lparr>te_event_hash := h\<rparr>)"
    unfolding appended_def using kind h(2) e by (cases tm) simp_all
  with rc' that show ?thesis by blast
qed

lemma record_event_appended:
  assumes "record_event env s kind after d a x tm dur = Inr s'"
  obtains e w where "appended (re_codec env) (rs_recorder s) (rs_state s) kind after d a x tm e"
    and "s' = s\<lparr>rs_world := w, rs_recorder := (rs_recorder s)\<lparr>rc_events := rc_events (rs_recorder s) @ [e]\<rparr>,
              rs_state := after\<rparr>"
  using assms by (auto simp: record_event_def split: prod.splits elim!: append_event_appended)

lemma previous_hash_snoc [simp]: "previous_hash (es @ [e]) = te_event_hash e"
  by (simp add: previous_hash_def)

subsection \<open>Elimination rules\<close>

lemma observation_base_sha [simp]: "observation_base (x\<lparr>ob_sha256 := h\<rparr>) = observation_base x"
  by (simp add: observation_base_def)

lemma seal_observation_Inr:
  assumes "seal_observation c x = Inr y"
  shows "observation_ok y" "compute_event_hash c (JObj (observation_base y)) = Inr (ob_sha256 y)"
    "ob_tool_name y = ob_tool_name x" "ob_status y = ob_status x" "ob_error_code y = ob_error_code x"
    "ob_evidence_ref y = ob_evidence_ref x" "ob_payload y = ob_payload x"
  using assms by (auto simp: seal_observation_def Let_def)

lemma observation_of_result_name [simp]: "ob_tool_name (fst (observation_of_result n r)) = n"
  by (auto simp: observation_of_result_def Let_def case_prod_beta split: sum.splits)

lemma execute_tool_Inr:
  assumes "execute_tool env task a obs w = (Inr (x, v), w')"
  obtains r y where "run_tool env task a obs w = (r, w')"
    and "observation_of_result (ta_tool_name a) r = (y, v)" and "seal_observation (re_codec env) y = Inr x"
  using assms by (auto simp: execute_tool_def split: prod.splits)

lemma validate_decision_Inr:
  "validate_decision env task obs audit raw = Inr d \<longleftrightarrow>
     raw = RawDecision d \<and> decision_ok d \<and>
     canonical_json_bytes (re_codec env) (dump_decision d) \<in>
       Inr ` {b. int (length b) \<le> rp_max_decision_bytes (re_policy env)} \<and>
     validate_planner_audit_binding task obs d audit = Inr ()"
  by (auto simp: validate_decision_def split: raw_decision.splits)

lemma consult_planner_Planned:
  assumes "consult_planner env task s = (Inr (Planned d audit), w')"
  obtains view w w'' where "re_decide env view w = (Inr (RawDecision d), w'')"
    and "decision_ok d" and "validate_planner_audit_binding task (rs_observations s) d audit = Inr ()"
  using assms
  by (auto simp: consult_planner_def validate_decision_Inr split: prod.splits sum.splits if_splits)

lemma consult_planner_Refused:
  assumes "consult_planner env task s = (Inr (Refused reason), w')"
  shows "reason \<in> {''planner_failed'', ''planner_invalid_audit'', ''planner_invalid_output''}"
  using assms by (auto simp: consult_planner_def split: prod.splits sum.splits if_splits)

lemma run_turn_cases:
  assumes "run_turn env task s = Inr out"
  obtains (fail) w reason where "run_fail env task (s\<lparr>rs_world := w\<rparr>) reason = Inr out"
      "reason \<in> {''elapsed_budget_exhausted'', ''planner_failed'', ''planner_invalid_audit'', ''planner_invalid_output''}"
  | (ungrounded) w where "run_fail env task (s\<lparr>rs_world := w, rs_steps_used := rs_steps_used s + 1\<rparr>)
      ''ungrounded_finish_rejected'' = Inr out"
  | (complete) w1 f audit w where "consult_planner env task (s\<lparr>rs_world := w1\<rparr>) = (Inr (Planned (Finish f) audit), w)"
      "validate_finish_grounding task f (rs_observations s) = Inr ()"
      "run_complete env task (s\<lparr>rs_world := w, rs_steps_used := rs_steps_used s + 1\<rparr>) f audit = Inr out"
  | (act) w1 a audit w where "consult_planner env task (s\<lparr>rs_world := w1\<rparr>) = (Inr (Planned (Tool a) audit), w)"
      "act env task (s\<lparr>rs_world := w, rs_steps_used := rs_steps_used s + 1\<rparr>) a audit = Inr out"
proof -
  obtain elapsed w1 where el: "re_elapsed env (rs_world s) = (elapsed, w1)" by fastforce
  show ?thesis
  proof (cases "of_int (rp_max_elapsed_ms (re_policy env)) < elapsed")
    case True
    then show ?thesis using assms el fail [of w1] by (simp add: run_turn_def)
  next
    case False
    obtain r w where r: "consult_planner env task (s\<lparr>rs_world := w1\<rparr>) = (r, w)" by fastforce
    from assms el False r obtain p where p: "r = Inr p" by (cases r) (auto simp: run_turn_def)
    show ?thesis
    proof (cases p)
      case (Refused reason)
      then show ?thesis
        using assms el False r p fail [of w reason] consult_planner_Refused [of env task _ reason w]
        by (simp add: run_turn_def)
    next
      case (Planned d audit)
      show ?thesis
      proof (cases d)
        case (Tool a)
        then show ?thesis
          using assms el False r p Planned act by (simp add: run_turn_def Let_def)
      next
        case (Finish f)
        show ?thesis
        proof (cases "validate_finish_grounding task f (rs_observations s)")
          case (Inr u)
          then show ?thesis
            using assms el False r p Planned Finish complete by (simp add: run_turn_def Let_def)
        next
          case (Inl e)
          then have "run_fail env task (s\<lparr>rs_world := w, rs_steps_used := rs_steps_used s + 1\<rparr>)
              ''ungrounded_finish_rejected'' = Inr out"
            using assms el False r p Planned Finish
            by (cases e) (simp_all add: run_turn_def Let_def type_or_value_error_def)
          then show ?thesis by (rule ungrounded)
        qed
      qed
    qed
  qed
qed

lemma creates_run_appended:
  assumes "appended c rc before kind after d a x tm e"
  shows "creates_run e \<longleftrightarrow> kind = Action_selected \<and>
           (\<exists>act. d = Some (Tool act) \<and> ta_tool_name act \<in> set RUN_CREATING_TOOLS)"
proof (cases d)
  case None
  then show ?thesis using assms by (auto simp: appended_def creates_run_def jget_def)
next
  case (Some y)
  then show ?thesis
    using assms
    by (cases y) (auto simp: appended_def creates_run_def jget_def dget_def RUN_CREATING_TOOLS_def)
qed

text \<open>A performed action leaves three events and one observation.\<close>

lemma perform_action_log:
  assumes perf: "perform_action env task s a audit = Inr (s', x, v)"
  obtains e1 e2 e3 w0 w1 where
    "appended (re_codec env) (rs_recorder s) (rs_state s) Action_selected ACTING (Some (Tool a)) audit None None e1"
    "appended (re_codec env) ((rs_recorder s)\<lparr>rc_events := rc_events (rs_recorder s) @ [e1]\<rparr>)
       ACTING Tool_observed OBSERVING None None (Some x) None e2"
    "appended (re_codec env) ((rs_recorder s)\<lparr>rc_events := rc_events (rs_recorder s) @ [e1, e2]\<rparr>)
       OBSERVING Observation_processed DECIDING None None None None e3"
    "rs_recorder s' = (rs_recorder s)\<lparr>rc_events := rc_events (rs_recorder s) @ [e1, e2, e3]\<rparr>"
    "execute_tool env task a (rs_observations s) w0 = (Inr (x, v), w1)"
proof -
  from perf obtain s1 w0 w1 t0 t1 w2 s2 s3 where
    r1: "record_event env s Action_selected ACTING (Some (Tool a)) audit None None 0 = Inr s1"
    and ex: "execute_tool env task a (rs_observations s1) w0 = (Inr (x, v), w1)"
    and r2: "record_event env (s1\<lparr>rs_world := w2, rs_tool_calls_used := rs_tool_calls_used s1 + 1\<rparr>)
       Tool_observed OBSERVING None None (Some x) None (t1 - t0) = Inr s2"
    and r3: "record_event env (s2\<lparr>rs_observations := rs_observations s2 @ [x]\<rparr>)
       Observation_processed DECIDING None None None None 0 = Inr s3"
    and s': "s' = s3\<lparr>rs_failures := rs_failures s3 + (if ob_status x = Failed then 1 else 0)\<rparr>"
    by (rule perform_action_elims)
  from r1 obtain e1 u1 where a1: "appended (re_codec env) (rs_recorder s) (rs_state s) Action_selected ACTING
        (Some (Tool a)) audit None None e1"
    and s1: "s1 = s\<lparr>rs_world := u1, rs_recorder := (rs_recorder s)\<lparr>rc_events := rc_events (rs_recorder s) @ [e1]\<rparr>,
               rs_state := ACTING\<rparr>"
    by (rule record_event_appended)
  let ?rc1 = "(rs_recorder s)\<lparr>rc_events := rc_events (rs_recorder s) @ [e1]\<rparr>"
  from r2 obtain e2 u2 where a2: "appended (re_codec env) ?rc1 ACTING Tool_observed OBSERVING None None (Some x) None e2"
    and s2: "s2 = s1\<lparr>rs_tool_calls_used := rs_tool_calls_used s1 + 1, rs_world := u2,
               rs_recorder := ?rc1\<lparr>rc_events := rc_events ?rc1 @ [e2]\<rparr>, rs_state := OBSERVING\<rparr>"
    by (rule record_event_appended) (simp add: s1)
  let ?rc2 = "?rc1\<lparr>rc_events := rc_events ?rc1 @ [e2]\<rparr>"
  from r3 obtain e3 u3 where
    a3: "appended (re_codec env) ?rc2 OBSERVING Observation_processed DECIDING None None None None e3"
    and s3: "s3 = s2\<lparr>rs_observations := rs_observations s2 @ [x], rs_world := u3,
               rs_recorder := ?rc2\<lparr>rc_events := rc_events ?rc2 @ [e3]\<rparr>, rs_state := DECIDING\<rparr>"
    by (rule record_event_appended) (simp add: s1 s2)
  show ?thesis
    by (rule that [OF a1]) (use a2 a3 ex in \<open>simp_all add: s1 s2 s3 s'\<close>)
qed

subsection \<open>The invariant of the loop\<close>

lemma run_loop_invariant [consumes 2, case_names turn exhausted]:
  assumes "run_loop env task s = Inr out" and "I s"
    and turn: "\<And>s r. I s \<Longrightarrow> int (rs_steps_used s) < rp_max_steps (re_policy env) \<Longrightarrow>
        run_turn env task s = Inr r \<Longrightarrow> (case r of Next s' \<Rightarrow> I s' | Done o1 \<Rightarrow> Q o1)"
    and exhausted: "\<And>s r. I s \<Longrightarrow> run_fail env task s ''step_budget_exhausted'' = Inr r \<Longrightarrow>
        (case r of Next s' \<Rightarrow> True | Done o1 \<Rightarrow> Q o1)"
  shows "\<exists>o1. out = Done o1 \<and> Q o1"
  using assms(1,2)
proof (induction "nat (rp_max_steps (re_policy env)) - rs_steps_used s" arbitrary: s rule: less_induct)
  case less
  show ?case
  proof (cases "int (rs_steps_used s) < rp_max_steps (re_policy env)")
    case False
    then have "run_fail env task s ''step_budget_exhausted'' = Inr out"
      using less.prems(1) by (subst (asm) run_loop.simps) simp
    with exhausted [OF less.prems(2)] show ?thesis by (cases out) auto
  next
    case True
    then obtain r where r: "run_turn env task s = Inr r"
      using less.prems(1) by (subst (asm) run_loop.simps) (auto split: sum.splits)
    show ?thesis
    proof (cases r)
      case (Done o1)
      with turn [OF less.prems(2) True r] less.prems(1) r True show ?thesis
        by (subst (asm) run_loop.simps) auto
    next
      case (Next s')
      have "run_loop env task s' = Inr out"
        using less.prems(1) True r Next by (subst (asm) run_loop.simps) simp
      moreover have "nat (rp_max_steps (re_policy env)) - rs_steps_used s' <
          nat (rp_max_steps (re_policy env)) - rs_steps_used s"
        using run_turn_Next_steps [of env task s s'] r Next True by auto
      ultimately show ?thesis
        using less.hyps turn [OF less.prems(2) True r] Next by simp
    qed
  qed
qed

text \<open>What the events of a Trace say about the actions, the observations and the states.\<close>

definition action_of :: "trace_event \<Rightarrow> tool_action option" where
  "action_of e =
     (if te_event_type e = Action_selected then decode_tool_action (opt_json (te_decision e)) else None)"

definition actions_of :: "trace_event list \<Rightarrow> tool_action list" where
  "actions_of es = List.map_filter action_of es"

definition observations_of :: "trace_event list \<Rightarrow> tool_observation list" where
  "observations_of es = List.map_filter (\<lambda>e. Option.bind (te_observation e) decode_observation) es"

fun state_path :: "agent_state \<Rightarrow> trace_event list \<Rightarrow> agent_state option" where
  "state_path st [] = Some st"
| "state_path st (e # es) =
     (if te_state_before e = st \<and> (st, te_event_type e, te_state_after e) \<in> ALLOWED_TRANSITIONS
      then state_path (te_state_after e) es else None)"

lemma map_filter_append: "List.map_filter f (xs @ ys) = List.map_filter f xs @ List.map_filter f ys"
  by (simp add: List.map_filter_def)

lemma actions_of_append [simp]: "actions_of (xs @ ys) = actions_of xs @ actions_of ys"
  by (simp add: actions_of_def map_filter_append)

lemma observations_of_append [simp]: "observations_of (xs @ ys) = observations_of xs @ observations_of ys"
  by (simp add: observations_of_def map_filter_append)

lemma log_Nil [simp]: "actions_of [] = []" "observations_of [] = []"
  by (simp_all add: actions_of_def observations_of_def List.map_filter_def)

lemma log_Cons [simp]:
  "actions_of (e # es) = (case action_of e of None \<Rightarrow> [] | Some a \<Rightarrow> [a]) @ actions_of es"
  "observations_of (e # es) =
     (case Option.bind (te_observation e) decode_observation of None \<Rightarrow> [] | Some x \<Rightarrow> [x]) @ observations_of es"
  by (auto simp: actions_of_def observations_of_def List.map_filter_def split: option.splits)

lemma state_path_append:
  "state_path st (xs @ ys) = Option.bind (state_path st xs) (\<lambda>st'. state_path st' ys)"
  by (induction xs arbitrary: st) auto

lemma previous_hash_head: "trace_chain.head ZERO_HASH es = previous_hash es"
  by (cases "es = []") (simp_all add: previous_hash_def trace_chain.head_last)

lemma appended_log:
  assumes "appended c rc before kind after d a x tm e"
    and "trace_chain.chain c 1 ZERO_HASH (rc_events rc)"
    and "state_path PLANNING (rc_events rc) = Some before"
    and "(before, kind, after) \<in> ALLOWED_TRANSITIONS"
  shows "trace_chain.chain c 1 ZERO_HASH (rc_events rc @ [e])"
    and "state_path PLANNING (rc_events rc @ [e]) = Some after"
  using assms
  by (simp_all add: trace_chain.chain_snoc previous_hash_head appended_def event_valid_def state_path_append)

lemma appended_action:
  assumes "appended c rc before kind after d a x tm e"
  shows "kind \<noteq> Action_selected \<Longrightarrow> action_of e = None"
    and "kind = Action_selected \<Longrightarrow> d = Some (Tool b) \<Longrightarrow> tool_action_ok b \<Longrightarrow> action_of e = Some b"
  using assms by (auto simp: appended_def action_of_def simp del: dump_decision.simps)

lemma appended_observation:
  assumes "appended c rc before kind after d a x tm e" and "\<And>y. x = Some y \<Longrightarrow> observation_ok y"
  shows "Option.bind (te_observation e) decode_observation = x"
  using assms by (cases x) (auto simp: appended_def)

definition key_of :: "codec \<Rightarrow> tool_action \<Rightarrow> string" where
  "key_of c a = cd_sha c (cd_ser c (sort_keys
     (JObj [(''arguments'', JObj (ta_arguments a)), (''tool_name'', JStr (ta_tool_name a))])))"

lemma action_key_Inr: "action_key c a = Inr k \<Longrightarrow> k = key_of c a"
  by (simp add: action_key_def key_of_def)

lemma attempts_of_dict_set:
  "attempts_of (dict_set k n m) k' = (if k' = k then n else attempts_of m k')"
  by (simp add: attempts_of_def map_of_dict_set)

text \<open>The part of the invariant that speaks about the Trace, and the part about the budgets.\<close>

definition log_inv :: "'w runtime_env \<Rightarrow> runtime_task \<Rightarrow> 'w run_state \<Rightarrow> bool" where
  "log_inv env task s =
     (let es = rc_events (rs_recorder s) in
      trace_chain.chain (re_codec env) 1 ZERO_HASH es \<and>
      state_path PLANNING es = Some (rs_state s) \<and> rs_state s \<in> {PLANNING, DECIDING} \<and>
      (\<forall>e \<in> set es. \<not> terminal_event_type (te_event_type e)) \<and>
      observations_of es = rs_observations s \<and> (\<forall>x \<in> set (rs_observations s). observation_ok x) \<and>
      length (actions_of es) = rs_tool_calls_used s \<and>
      compute_trace_context_hash (re_codec env) (rc_trace_id (rs_recorder s)) (re_planner_id env) task
        (policy_to_dict (re_policy env)) (sorted_names (registry_names (re_tools env))) =
        Inr (rc_context_sha256 (rs_recorder s)))"

definition budget_inv :: "'w runtime_env \<Rightarrow> 'w run_state \<Rightarrow> bool" where
  "budget_inv env s =
     (let p = re_policy env; es = rc_events (rs_recorder s) in
      rs_steps_used s \<le> nat (rp_max_steps p) \<and> rs_tool_calls_used s \<le> nat (rp_max_tool_calls p) \<and>
      rs_tool_calls_used s \<le> rs_steps_used s \<and>
      run_creation_count es \<le> nat (rp_max_run_creations p) \<and>
      length (filter (\<lambda>x. ob_status x = Failed) (rs_observations s)) \<le> nat (rp_max_failures p) \<and>
      (\<forall>k. count_list (map (key_of (re_codec env)) (actions_of es)) k \<le> nat (rp_max_same_action_attempts p)))"

definition run_inv :: "'w runtime_env \<Rightarrow> runtime_task \<Rightarrow> 'w run_state \<Rightarrow> bool" where
  "run_inv env task s =
     (log_inv env task s \<and> budget_inv env s \<and>
      run_creation_count (rc_events (rs_recorder s)) \<le> rs_run_creations s \<and>
      length (filter (\<lambda>x. ob_status x = Failed) (rs_observations s)) = rs_failures s \<and>
      rs_failures s < nat (rp_max_failures (re_policy env)) \<and>
      (\<forall>k. count_list (map (key_of (re_codec env)) (actions_of (rc_events (rs_recorder s)))) k
             \<le> attempts_of (rs_attempts s) k))"

subsection \<open>The invariant is kept\<close>

lemma perform_action_log_inv:
  assumes perf: "perform_action env task s a audit = Inr (s', x, v)"
    and inv: "log_inv env task s" and ok: "tool_action_ok a"
  shows "log_inv env task s'"
    and "actions_of (rc_events (rs_recorder s')) = actions_of (rc_events (rs_recorder s)) @ [a]"
    and "run_creation_count (rc_events (rs_recorder s')) = run_creation_count (rc_events (rs_recorder s)) +
           (if ta_tool_name a \<in> set RUN_CREATING_TOOLS then 1 else 0)"
proof -
  let ?c = "re_codec env" let ?rc = "rs_recorder s" let ?obs = "rs_observations s"
  from perf obtain e1 e2 e3 w0 w1 where
    a1: "appended ?c ?rc (rs_state s) Action_selected ACTING (Some (Tool a)) audit None None e1"
    and a2: "appended ?c (?rc\<lparr>rc_events := rc_events ?rc @ [e1]\<rparr>)
       ACTING Tool_observed OBSERVING None None (Some x) None e2"
    and a3: "appended ?c (?rc\<lparr>rc_events := rc_events ?rc @ [e1, e2]\<rparr>)
       OBSERVING Observation_processed DECIDING None None None None e3"
    and rc: "rs_recorder s' = ?rc\<lparr>rc_events := rc_events ?rc @ [e1, e2, e3]\<rparr>"
    and ex: "execute_tool env task a ?obs w0 = (Inr (x, v), w1)"
    by (rule perform_action_log)
  note counters = perform_action_counters [OF perf]
  from ex have x: "observation_ok x"
    by (rule execute_tool_Inr) (rule seal_observation_Inr)
  have t: "(rs_state s, Action_selected, ACTING) \<in> ALLOWED_TRANSITIONS"
    "(ACTING, Tool_observed, OBSERVING) \<in> ALLOWED_TRANSITIONS"
    "(OBSERVING, Observation_processed, DECIDING) \<in> ALLOWED_TRANSITIONS"
    using inv by (auto simp: log_inv_def Let_def ALLOWED_TRANSITIONS_def)
  from inv have c0: "trace_chain.chain ?c 1 ZERO_HASH (rc_events ?rc)"
    and p0: "state_path PLANNING (rc_events ?rc) = Some (rs_state s)"
    by (simp_all add: log_inv_def Let_def)
  note l1 = appended_log [OF a1 c0 p0 t(1)]
  note l2 = appended_log [OF a2, simplified, OF l1 [simplified] t(2)]
  note l3 = appended_log [OF a3, simplified, OF l2 [simplified] t(3)]
  have act: "action_of e1 = Some a" "action_of e2 = None" "action_of e3 = None"
    using appended_action [OF a1] appended_action(1) [OF a2] appended_action(1) [OF a3] ok by simp_all
  have ob: "Option.bind (te_observation e1) decode_observation = None"
    "Option.bind (te_observation e2) decode_observation = Some x"
    "Option.bind (te_observation e3) decode_observation = None"
    using appended_observation [OF a1] appended_observation [OF a2] appended_observation [OF a3] x by simp_all
  have "te_event_type e1 = Action_selected" "te_event_type e2 = Tool_observed"
    "te_event_type e3 = Observation_processed"
    using a1 a2 a3 by (simp_all add: appended_def)
  then show "log_inv env task s'"
    using inv l3 act ob x counters by (auto simp: log_inv_def Let_def rc terminal_event_type_def)
  show "actions_of (rc_events (rs_recorder s')) = actions_of (rc_events ?rc) @ [a]"
    by (simp add: rc act)
  show "run_creation_count (rc_events (rs_recorder s')) = run_creation_count (rc_events ?rc) +
           (if ta_tool_name a \<in> set RUN_CREATING_TOOLS then 1 else 0)"
    using creates_run_appended [OF a1] creates_run_appended [OF a2] creates_run_appended [OF a3]
    by (auto simp: rc run_creation_count_def)
qed

text \<open>What remains when a run has ended in a state satisfying the invariant.\<close>

definition outcome_of :: "'w runtime_env \<Rightarrow> runtime_task \<Rightarrow> 'w run_out \<Rightarrow> bool" where
  "outcome_of env task out =
     (\<exists>s s' e kind d audit.
        log_inv env task s \<and> budget_inv env s \<and>
        appended (re_codec env) (rs_recorder s) (rs_state s) kind (tr_state (ro_result out)) d audit None
          (Some (ro_result out)) e \<and>
        rs_recorder s' = (rs_recorder s)\<lparr>rc_events := rc_events (rs_recorder s) @ [e]\<rparr> \<and>
        ro_trace out = make_trace env task s' (ro_result out) \<and>
        tr_trace_id (ro_result out) = rc_trace_id (rs_recorder s) \<and>
        tr_steps_used (ro_result out) = rs_steps_used s \<and>
        tr_tool_calls_used (ro_result out) = rs_tool_calls_used s \<and>
        (kind = Run_failed \<and> d = None \<and> audit = None \<and> tr_state (ro_result out) = FAILED \<and>
           tr_outcome (ro_result out) = INCONCLUSIVE \<and>
           tr_evidence_refs (ro_result out) = successful_evidence (rs_observations s) \<or>
         kind = Run_completed \<and> tr_state (ro_result out) = COMPLETED \<and>
           (\<exists>f. d = Some (Finish f) \<and> decision_ok (Finish f) \<and>
              validate_finish_grounding task f (rs_observations s) = Inr () \<and>
              tr_outcome (ro_result out) = fd_outcome f \<and> tr_reason_code (ro_result out) = fd_reason_code f \<and>
              tr_evidence_refs (ro_result out) = fd_evidence_refs f)) \<and>
        store_trace (re_codec env) (re_store env) (ro_trace out) = Inr (ro_store out) \<and>
        agent_trace_ok (ro_trace out))"

definition turn_outcome :: "'w runtime_env \<Rightarrow> runtime_task \<Rightarrow> 'w turn \<Rightarrow> bool" where
  "turn_outcome env task r = (case r of Next s' \<Rightarrow> run_inv env task s' | Done out \<Rightarrow> outcome_of env task out)"

lemma run_fail_outcome:
  assumes "run_fail env task s reason = Inr r" and "log_inv env task s" and "budget_inv env s"
  shows "turn_outcome env task r"
proof -
  from assms(1) obtain report s' t st where
    rec: "record_event env s Run_failed FAILED None None None
      (Some (terminal_of s FAILED INCONCLUSIVE (successful_evidence (rs_observations s)) reason report)) 0 = Inr s'"
    and st: "store_trace (re_codec env) (re_store env) t = Inr st" "agent_trace_ok t"
    and t: "t = make_trace env task s'
      (terminal_of s FAILED INCONCLUSIVE (successful_evidence (rs_observations s)) reason report)"
    and r: "r = Done \<lparr>ro_result = terminal_of s FAILED INCONCLUSIVE (successful_evidence (rs_observations s)) reason report,
                      ro_trace = t, ro_store = st, ro_world = rs_world s'\<rparr>"
    by (auto simp: run_fail_def store_and_return_def Let_def)
  from rec obtain e w where "appended (re_codec env) (rs_recorder s) (rs_state s) Run_failed FAILED None None None
      (Some (terminal_of s FAILED INCONCLUSIVE (successful_evidence (rs_observations s)) reason report)) e"
    and "s' = s\<lparr>rs_world := w, rs_recorder := (rs_recorder s)\<lparr>rc_events := rc_events (rs_recorder s) @ [e]\<rparr>,
              rs_state := FAILED\<rparr>"
    by (rule record_event_appended)
  with assms(2,3) st show ?thesis
    unfolding r turn_outcome_def outcome_of_def turn.case
    by (intro exI [of _ s] exI [of _ s'] exI [of _ e] exI [of _ Run_failed] exI [of _ None])
       (simp add: t terminal_of_def)
qed

lemma run_complete_outcome:
  assumes "run_complete env task s f audit = Inr r" and "log_inv env task s" and "budget_inv env s"
    and "validate_finish_grounding task f (rs_observations s) = Inr ()" and "decision_ok (Finish f)"
  shows "turn_outcome env task r"
proof -
  let ?res = "\<lambda>report. terminal_of s COMPLETED (fd_outcome f) (fd_evidence_refs f) (fd_reason_code f) report"
  from assms(1) obtain report s' t st where
    rec: "record_event env s Run_completed COMPLETED (Some (Finish f)) audit None (Some (?res report)) 0 = Inr s'"
    and st: "store_trace (re_codec env) (re_store env) t = Inr st" "agent_trace_ok t"
    and t: "t = make_trace env task s' (?res report)"
    and r: "r = Done \<lparr>ro_result = ?res report, ro_trace = t, ro_store = st, ro_world = rs_world s'\<rparr>"
    by (auto simp: run_complete_def store_and_return_def Let_def)
  from rec obtain e w where "appended (re_codec env) (rs_recorder s) (rs_state s) Run_completed COMPLETED
      (Some (Finish f)) audit None (Some (?res report)) e"
    and "s' = s\<lparr>rs_world := w, rs_recorder := (rs_recorder s)\<lparr>rc_events := rc_events (rs_recorder s) @ [e]\<rparr>,
              rs_state := COMPLETED\<rparr>"
    by (rule record_event_appended)
  with assms(2-5) st show ?thesis
    unfolding r turn_outcome_def outcome_of_def turn.case
    by (intro exI [of _ s] exI [of _ s'] exI [of _ e] exI [of _ Run_completed] exI [of _ "Some (Finish f)"]
          exI [of _ audit])
       (simp add: t terminal_of_def)
qed

lemma act_outcome:
  assumes act: "act env task s a audit = Inr r"
    and inv: "run_inv env task (s\<lparr>rs_steps_used := n\<rparr>)"
    and steps: "rs_steps_used s = n + 1" "int n < rp_max_steps (re_policy env)"
    and ok: "tool_action_ok a"
  shows "turn_outcome env task r"
proof -
  let ?p = "re_policy env" let ?creating = "ta_tool_name a \<in> set RUN_CREATING_TOOLS"
  have log: "log_inv env task s" and bud: "budget_inv env s"
    using inv steps by (auto simp: run_inv_def log_inv_def budget_inv_def Let_def)
  note fail = run_fail_outcome [where task = task]
  show ?thesis
  proof (cases "rp_max_tool_calls ?p \<le> int (rs_tool_calls_used s) \<or>
                (?creating \<and> rp_max_run_creations ?p \<le> int (rs_run_creations s))")
    case True
    then show ?thesis using act fail [OF _ log bud] by (auto simp: act_def Let_def split: if_splits)
  next
    case False
    with act obtain key where key: "action_key (re_codec env) a = Inr key"
      unfolding act_def Let_def by (auto split: if_splits)
    define s1 where "s1 = s\<lparr>rs_run_creations := rs_run_creations s + (if ?creating then 1 else 0),
        rs_attempts := dict_set key (attempts_of (rs_attempts s) key + 1) (rs_attempts s)\<rparr>"
    have log1: "log_inv env task s1" and bud1: "budget_inv env s1"
      using log bud by (simp_all add: log_inv_def budget_inv_def s1_def)
    show ?thesis
    proof (cases "rp_max_same_action_attempts ?p < int (attempts_of (rs_attempts s) key + 1)")
      case True
      with act False key show ?thesis
        by (intro fail [OF _ log1 bud1]) (auto simp: act_def s1_def Let_def split: if_splits)
    next
      case fresh: False
      from act False key fresh obtain s2 x v where
        perf: "perform_action env task s1 a audit = Inr (s2, x, v)"
        and rest: "(if v then run_fail env task s2 ''policy_violation''
          else if rp_max_failures ?p \<le> int (rs_failures s2) then run_fail env task s2 ''failure_budget_exhausted''
          else Inr (Next s2)) = Inr r"
        by (auto simp: act_def s1_def Let_def split: if_splits)
      note cnt = perform_action_counters [OF perf]
      note pl = perform_action_log_inv [OF perf log1 ok]
      have failures: "length (filter (\<lambda>y. ob_status y = Failed) (rs_observations s2)) = rs_failures s2"
        "rs_failures s2 \<le> nat (rp_max_failures ?p)"
        using inv cnt by (auto simp: run_inv_def s1_def)
      have creations: "run_creation_count (rc_events (rs_recorder s2)) \<le> rs_run_creations s2"
        "rs_run_creations s \<le> rs_run_creations s2"
        using inv pl(3) cnt(3) by (auto simp: run_inv_def s1_def)
      have cap: "run_creation_count (rc_events (rs_recorder s2)) \<le> nat (rp_max_run_creations ?p)"
        using inv pl(3) False by (auto simp: run_inv_def budget_inv_def Let_def s1_def)
      have keys: "count_list (map (key_of (re_codec env)) (actions_of (rc_events (rs_recorder s2)))) k
                    \<le> attempts_of (rs_attempts s2) k" for k
        using inv pl(2) cnt(4) action_key_Inr [OF key]
        by (simp add: run_inv_def s1_def attempts_of_dict_set le_SucI)
      have keycap: "count_list (map (key_of (re_codec env)) (actions_of (rc_events (rs_recorder s2)))) k
                    \<le> nat (rp_max_same_action_attempts ?p)" for k
      proof (cases "k = key")
        case True
        with keys [of key] cnt(4) fresh show ?thesis by (simp add: s1_def attempts_of_dict_set)
      next
        case False
        with bud pl(2) action_key_Inr [OF key] show ?thesis
          by (simp add: budget_inv_def Let_def s1_def)
      qed
      have below: "rs_tool_calls_used s \<le> n"
        using inv by (simp add: run_inv_def budget_inv_def Let_def)
      have "rs_tool_calls_used s2 \<le> nat (rp_max_tool_calls ?p)" "rs_steps_used s2 \<le> nat (rp_max_steps ?p)"
        "rs_tool_calls_used s2 \<le> rs_steps_used s2"
        using cnt(1,2) False steps below by (auto simp: s1_def)
      with failures cap keycap have bud2: "budget_inv env s2"
        by (simp add: budget_inv_def Let_def)
      show ?thesis
      proof (cases "v \<or> rp_max_failures ?p \<le> int (rs_failures s2)")
        case True
        with rest fail [OF _ pl(1) bud2] show ?thesis by (auto split: if_splits)
      next
        case False
        with rest pl(1) bud2 creations(1) failures keys show ?thesis
          by (auto simp: turn_outcome_def run_inv_def)
      qed
    qed
  qed
qed

lemma run_turn_outcome:
  assumes inv: "run_inv env task s" and room: "int (rs_steps_used s) < rp_max_steps (re_policy env)"
    and turn: "run_turn env task s = Inr r"
  shows "turn_outcome env task r"
proof -
  have log: "log_inv env task (s\<lparr>rs_world := w, rs_steps_used := n\<rparr>)"
    and logw: "log_inv env task (s\<lparr>rs_world := w\<rparr>)" and budw: "budget_inv env (s\<lparr>rs_world := w\<rparr>)"
    and bud: "budget_inv env (s\<lparr>rs_world := w, rs_steps_used := rs_steps_used s + 1\<rparr>)" for w n
    using inv room by (auto simp: run_inv_def log_inv_def budget_inv_def Let_def)
  show ?thesis
    using turn
  proof (cases rule: run_turn_cases)
    case (fail w reason)
    from run_fail_outcome [OF fail(1) logw budw] show ?thesis .
  next
    case (ungrounded w)
    from run_fail_outcome [OF ungrounded log bud] show ?thesis .
  next
    case (complete w1 f audit w)
    then have "decision_ok (Finish f)" by (auto elim: consult_planner_Planned)
    with run_complete_outcome [OF complete(3) log bud] complete(2) show ?thesis by simp
  next
    case (act w1 a audit w)
    then have ok: "tool_action_ok a" by (auto elim!: consult_planner_Planned)
    show ?thesis
      by (rule act_outcome [OF act(2), where n = "rs_steps_used s", OF _ _ room ok])
         (use inv in \<open>auto simp: run_inv_def log_inv_def budget_inv_def Let_def\<close>)
  qed
qed

lemma run_outcome:
  assumes "run env task trace_id w = Inr out" and "runtime_init_ok env"
  shows "\<exists>o1. out = Done o1 \<and> outcome_of env task o1"
proof -
  from assms(1) obtain ctx rc where
    c: "compute_trace_context_hash (re_codec env) trace_id (re_planner_id env) task
          (policy_to_dict (re_policy env)) (sorted_names (registry_names (re_tools env))) = Inr ctx"
    and rc: "recorder_init trace_id ctx = Inr rc"
    and loop: "run_loop env task (start_state w rc) = Inr out"
    unfolding run_def ebind_Inr_iff by blast
  have p: "runtime_policy_ok (re_policy env)" using assms(2) by (simp add: runtime_init_ok_def)
  have "run_inv env task (start_state w rc)"
    using c rc p
    by (auto simp: run_inv_def log_inv_def budget_inv_def start_state_def recorder_init_def Let_def
        run_creation_count_def runtime_policy_ok_def split: if_splits)
  with loop show ?thesis
  proof (induction rule: run_loop_invariant)
    case (turn s r)
    then show ?case using run_turn_outcome [of env task s r] by (simp add: turn_outcome_def split: turn.splits)
  next
    case (exhausted s r)
    then have "turn_outcome env task r" by (auto intro: run_fail_outcome simp: run_inv_def)
    then show ?case by (simp add: turn_outcome_def split: turn.splits)
  qed
qed

end
