(* ===== verification/ReplayFidelity.thy ===== *)
theory ReplayFidelity
  imports RunInvariants
begin

text \<open>
  The Runtime (\<^verbatim>\<open>runtime.py\<close>) and the Replay (\<^verbatim>\<open>replay.py\<close>) run side by side. \<open>appended\<close> says
  what \<^verbatim>\<open>TraceRecorder.append\<close> wrote; one lemma per kind of event gives the replay step over it;
  \<open>synced\<close> is the simulation relation between a run in progress and the replay of its Trace
  prefix. It is kept by every turn that continues, and a run that ends in it leaves a Trace
  which \<^verbatim>\<open>replay_trace\<close> accepts.
\<close>

subsection \<open>Replaying one recorded event\<close>

text \<open>The replay state that corresponds to a recorder between two turns.\<close>

definition replay_point ::
    "trace_recorder \<Rightarrow> agent_state \<Rightarrow> tool_observation list \<Rightarrow> nat \<Rightarrow> replay_state" where
  "replay_point rc st obs n =
     \<lparr>ry_expected = length (rc_events rc) + 1, ry_observations = obs, ry_state = st,
      ry_previous_hash = previous_hash (rc_events rc), ry_terminal = None, ry_pending_tool = None,
      ry_scope_error = None, ry_registry_error = None, ry_binding = None, ry_actions = n\<rparr>"

lemma check_link_appended:
  assumes "appended c rc before kind after d a x tm e"
    and "ry_expected s = length (rc_events rc) + 1" "ry_previous_hash s = previous_hash (rc_events rc)"
    and "ry_state s = before" "(before, kind, after) \<in> ALLOWED_TRANSITIONS"
  shows "check_link c s e = Inr ()"
  using assms by (simp add: check_link_def appended_def)

text \<open>An action of a non-LLM planner, admitted by the Runtime and with a typed scope verdict.\<close>

lemma replay_action_appended:
  assumes ap: "appended c rc before Action_selected ACTING (Some (Tool a)) None None None e"
    and before: "before \<in> {PLANNING, DECIDING}" and ok: "tool_action_ok a"
    and planner: "tc_planner_id t \<noteq> LLM_PLANNER_ID"
    and scope: "scope_error_of (validate_action_scope (tc_task t) a obs) None = Inr err"
  shows "replay_event c t (replay_point rc before obs n) e =
           Inr ((replay_point (rc\<lparr>rc_events := rc_events rc @ [e]\<rparr>) ACTING obs (n + 1))
                \<lparr>ry_pending_tool := Some (ta_tool_name a), ry_scope_error := err,
                 ry_registry_error := (if ta_tool_name a \<in> set (tc_tool_names t) then None
                                       else Some ''tool_not_allowed'')\<rparr>)"
proof -
  have link: "check_link c (replay_point rc before obs n) e = Inr ()"
    by (rule check_link_appended [OF ap])
       (use before in \<open>auto simp: replay_point_def ALLOWED_TRANSITIONS_def\<close>)
  have e: "te_event_type e = Action_selected" "te_state_after e = ACTING" "te_planner_audit e = None"
    "te_decision e = Some (dump_decision (Tool a))" "te_context_sha256 e = None"
    "te_terminal_sha256 e = None"
    using ap by (auto simp: appended_def terminal_event_type_def)
  have kind: "jget (dump_decision (Tool a)) ''kind'' = JStr ''tool''"
    by (simp add: jget_def dget_def)
  show ?thesis
    unfolding replay_event_def link
    using e planner scope kind ok
    by (simp add: read_audit_def check_terminal_def terminal_event_type_def replay_kind_def
        replay_action_def validate_llm_option_binding_def replay_point_def del: dump_decision.simps)
qed

lemma replay_observation_appended:
  assumes ap: "appended c rc ACTING Tool_observed OBSERVING None None (Some x) None e"
    and ok: "observation_ok x" and sha: "compute_event_hash c (JObj (observation_base x)) = Inr (ob_sha256 x)"
    and pend: "ry_pending_tool s = Some (ob_tool_name x)"
    and err: "expected_policy_error s = None \<or>
                (ob_status x = Failed \<and> ob_error_code x = expected_policy_error s)"
    and s: "s = (replay_point rc ACTING obs n)
              \<lparr>ry_pending_tool := p, ry_scope_error := q, ry_registry_error := r\<rparr>"
  shows "replay_event c t s e =
           Inr (replay_point (rc\<lparr>rc_events := rc_events rc @ [e]\<rparr>) OBSERVING (obs @ [x]) n)"
proof -
  have link: "check_link c s e = Inr ()"
    by (rule check_link_appended [OF ap]) (simp_all add: s replay_point_def ALLOWED_TRANSITIONS_def)
  have e: "te_event_type e = Tool_observed" "te_state_after e = OBSERVING" "te_planner_audit e = None"
    "te_observation e = Some (dump_observation x)" "te_context_sha256 e = None"
    "te_terminal_sha256 e = None"
    using ap by (auto simp: appended_def terminal_event_type_def)
  have kind: "replay_observation c s e = Inr (s\<lparr>ry_observations := obs @ [x], ry_pending_tool := None,
            ry_scope_error := None, ry_registry_error := None\<rparr>)"
    using e(4) ok sha pend err by (simp add: replay_observation_def s replay_point_def)
  show ?thesis
    unfolding replay_event_def link
    using e kind s
    by (simp add: read_audit_def decision_event_def check_terminal_def terminal_event_type_def
        replay_kind_def replay_point_def)
qed

lemma replay_processed_appended:
  assumes ap: "appended c rc OBSERVING Observation_processed DECIDING None None None None e"
  shows "replay_event c t (replay_point rc OBSERVING obs n) e =
           Inr (replay_point (rc\<lparr>rc_events := rc_events rc @ [e]\<rparr>) DECIDING obs n)"
proof -
  have link: "check_link c (replay_point rc OBSERVING obs n) e = Inr ()"
    by (rule check_link_appended [OF ap]) (simp_all add: replay_point_def ALLOWED_TRANSITIONS_def)
  have e: "te_event_type e = Observation_processed" "te_state_after e = DECIDING"
    "te_planner_audit e = None" "te_context_sha256 e = None" "te_terminal_sha256 e = None"
    using ap by (auto simp: appended_def terminal_event_type_def)
  then show ?thesis
    unfolding replay_event_def link
    by (simp add: read_audit_def decision_event_def check_terminal_def terminal_event_type_def
        replay_kind_def replay_point_def)
qed

lemma replay_terminal_appended:
  assumes ap: "appended c rc before kind after d None None (Some r) e"
    and kind: "kind = Run_completed \<and> (\<exists>f. d = Some (Finish f)) \<and> after = COMPLETED \<or>
               kind = Run_failed \<and> d = None \<and> after = FAILED"
    and before: "before \<in> {PLANNING, DECIDING}"
    and planner: "tc_planner_id t \<noteq> LLM_PLANNER_ID"
    and events: "length (tc_events t) = length (rc_events rc) + 1"
  shows "replay_event c t (replay_point rc before obs n) e =
           Inr ((replay_point (rc\<lparr>rc_events := rc_events rc @ [e]\<rparr>) after obs n)\<lparr>ry_terminal := Some e\<rparr>)"
proof -
  have link: "check_link c (replay_point rc before obs n) e = Inr ()"
    by (rule check_link_appended [OF ap])
       (use kind before in \<open>auto simp: replay_point_def ALLOWED_TRANSITIONS_def\<close>)
  have e: "te_event_type e = kind" "te_state_after e = after" "te_planner_audit e = None"
    "te_decision e = map_option dump_decision d" "te_context_sha256 e \<noteq> None" "te_terminal_sha256 e \<noteq> None"
    using ap kind by (auto simp: appended_def terminal_event_type_def)
  have audit: "read_audit t e = Inr None"
    using e(3) planner by (simp add: read_audit_def)
  have bound: "check_terminal t (replay_point rc before obs n) e =
      Inr ((replay_point rc before obs n)\<lparr>ry_terminal := Some e\<rparr>)"
    using e kind events by (auto simp: check_terminal_def terminal_event_type_def replay_point_def)
  have "replay_kind c t s e None = Inr s" for s
    using e(1,4) kind by (auto simp: replay_kind_def replay_completion_def jget_def dget_def)
  with audit bound e(2) show ?thesis
    unfolding replay_event_def link by (simp add: replay_point_def)
qed

subsection \<open>The tool step\<close>

definition scope_typed :: "runtime_task \<Rightarrow> tool_action \<Rightarrow> tool_observation list \<Rightarrow> bool" where
  "scope_typed task a obs =
     (case validate_action_scope task a obs of Inl (AgentPolicyError _) \<Rightarrow> True | Inl _ \<Rightarrow> False | Inr _ \<Rightarrow> True)"

lemma run_tool_policy_errors:
  assumes "run_tool env task a obs w = (r, w')"
  shows "validate_action_scope task a obs = Inl e \<Longrightarrow> r = Inl e"
    and "validate_action_scope task a obs = Inr u \<Longrightarrow> ta_tool_name a \<notin> set (registry_names (re_tools env)) \<Longrightarrow>
           r = Inl (AgentPolicyError ''tool_not_allowed'')"
  using assms by (auto simp: run_tool_def execute_unregistered split: prod.splits)

lemma execute_tool_expected:
  assumes ex: "execute_tool env task a obs w = (Inr (x, v), w')"
    and typed: "scope_typed task a obs"
  obtains err where "scope_error_of (validate_action_scope task a obs) None = Inr err"
    and "\<And>s. ry_scope_error s = err \<Longrightarrow>
           ry_registry_error s = (if ta_tool_name a \<in> set (registry_names (re_tools env)) then None
                                  else Some ''tool_not_allowed'') \<Longrightarrow>
           expected_policy_error s = None \<or>
             (ob_status x = Failed \<and> ob_error_code x = expected_policy_error s)"
    and "ob_tool_name x = ta_tool_name a" "observation_ok x"
    "compute_event_hash (re_codec env) (JObj (observation_base x)) = Inr (ob_sha256 x)"
proof -
  from ex obtain r y where run: "run_tool env task a obs w = (r, w')"
    and y: "observation_of_result (ta_tool_name a) r = (y, v)" and seal: "seal_observation (re_codec env) y = Inr x"
    by (rule execute_tool_Inr)
  note x = seal_observation_Inr [OF seal]
  note errs = run_tool_policy_errors [OF run]
  have name: "ob_tool_name x = ta_tool_name a"
    using x(3) y observation_of_result_name [of "ta_tool_name a" r] by simp
  have failed: "ob_status x = Failed \<and> ob_error_code x = Some code" if "r = Inl (AgentPolicyError code)" for code
    using x y that by (auto simp: observation_of_result_def)
  show ?thesis
  proof (cases "validate_action_scope task a obs")
    case (Inl e)
    with typed obtain code where e: "e = AgentPolicyError code"
      by (auto simp: scope_typed_def split: exn.splits)
    from failed errs(1) Inl e have f: "ob_status x = Failed \<and> ob_error_code x = Some code" by simp
    then have "code \<noteq> []"
      using x(1) by (auto simp: observation_ok_def REASON_CODE_PATTERN_def head_tail_def)
    show ?thesis
      by (rule that [where err = "Some code"])
         (use Inl e f \<open>code \<noteq> []\<close> name x(1,2) in \<open>auto simp: scope_error_of_def expected_policy_error_def\<close>)
  next
    case (Inr u)
    show ?thesis
      by (rule that [where err = None])
         (use Inr failed errs(2) name x(1,2) in
           \<open>auto simp: scope_error_of_def expected_policy_error_def split: if_splits\<close>)
  qed
qed

subsection \<open>The simulation relation\<close>

definition trace_of_run :: "'w runtime_env \<Rightarrow> runtime_task \<Rightarrow> agent_trace \<Rightarrow> bool" where
  "trace_of_run env task t =
     (tc_planner_id t = re_planner_id env \<and> tc_task t = task \<and>
      set (tc_tool_names t) = set (registry_names (re_tools env)))"

definition mirrored :: "'w runtime_env \<Rightarrow> runtime_task \<Rightarrow> 'w run_state \<Rightarrow> bool" where
  "mirrored env task s =
     ((\<forall>t. trace_of_run env task t \<longrightarrow>
        replay_events (re_codec env) t replay_start (rc_events (rs_recorder s)) =
          Inr (replay_point (rs_recorder s) (rs_state s) (rs_observations s) (rs_tool_calls_used s))) \<and>
      rs_state s \<in> {PLANNING, DECIDING} \<and>
      run_creation_count (rc_events (rs_recorder s)) \<le> rs_run_creations s \<and>
      int (rs_run_creations s) \<le> rp_max_run_creations (re_policy env) \<and>
      int (rs_tool_calls_used s) \<le> rp_max_tool_calls (re_policy env) \<and>
      int (rs_steps_used s) \<le> rp_max_steps (re_policy env) \<and>
      compute_trace_context_hash (re_codec env) (rc_trace_id (rs_recorder s)) (re_planner_id env) task
        (policy_to_dict (re_policy env)) (sorted_names (registry_names (re_tools env))) =
        Inr (rc_context_sha256 (rs_recorder s)))"

lemma perform_action_mirrored:
  assumes perf: "perform_action env task s a None = Inr (s', x, v)"
    and mir: "mirrored env task (s\<lparr>rs_run_creations := k\<rparr>)"
    and k: "k + (if ta_tool_name a \<in> set RUN_CREATING_TOOLS then 1 else 0) = rs_run_creations s"
    and runs: "int (rs_run_creations s) \<le> rp_max_run_creations (re_policy env)"
    and calls: "int (rs_tool_calls_used s) < rp_max_tool_calls (re_policy env)"
    and ok: "tool_action_ok a" and typed: "scope_typed task a (rs_observations s)"
    and planner: "re_planner_id env \<noteq> LLM_PLANNER_ID"
  shows "mirrored env task s'"
proof -
  let ?c = "re_codec env" let ?rc = "rs_recorder s" let ?obs = "rs_observations s"
  from perf obtain e1 e2 e3 w0 w1 where
    a1: "appended ?c ?rc (rs_state s) Action_selected ACTING (Some (Tool a)) None None None e1"
    and a2: "appended ?c (?rc\<lparr>rc_events := rc_events ?rc @ [e1]\<rparr>)
       ACTING Tool_observed OBSERVING None None (Some x) None e2"
    and a3: "appended ?c (?rc\<lparr>rc_events := rc_events ?rc @ [e1, e2]\<rparr>)
       OBSERVING Observation_processed DECIDING None None None None e3"
    and rc: "rs_recorder s' = ?rc\<lparr>rc_events := rc_events ?rc @ [e1, e2, e3]\<rparr>"
    and ex: "execute_tool env task a ?obs w0 = (Inr (x, v), w1)"
    by (rule perform_action_log)
  note counters = perform_action_counters [OF perf]
  have before: "rs_state s \<in> {PLANNING, DECIDING}" using mir by (simp add: mirrored_def)
  from execute_tool_expected [OF ex typed] obtain err where
    scope: "scope_error_of (validate_action_scope task a ?obs) None = Inr err"
    and exp: "\<And>q. ry_scope_error q = err \<Longrightarrow>
           ry_registry_error q = (if ta_tool_name a \<in> set (registry_names (re_tools env)) then None
                                  else Some ''tool_not_allowed'') \<Longrightarrow>
           expected_policy_error q = None \<or>
             (ob_status x = Failed \<and> ob_error_code x = expected_policy_error q)"
    and x: "ob_tool_name x = ta_tool_name a" "observation_ok x"
      "compute_event_hash ?c (JObj (observation_base x)) = Inr (ob_sha256 x)"
    by metis
  have sim: "replay_events ?c t replay_start (rc_events (rs_recorder s')) =
      Inr (replay_point (rs_recorder s') DECIDING (?obs @ [x]) (rs_tool_calls_used s + 1))"
    if t: "trace_of_run env task t" for t
  proof -
    have task: "tc_task t = task" and llm: "tc_planner_id t \<noteq> LLM_PLANNER_ID"
      and names: "set (tc_tool_names t) = set (registry_names (re_tools env))"
      using t planner by (simp_all add: trace_of_run_def)
    have "replay_events ?c t replay_start (rc_events ?rc) =
        Inr (replay_point ?rc (rs_state s) ?obs (rs_tool_calls_used s))"
      using mir t by (simp add: mirrored_def)
    moreover note replay_action_appended [OF a1 before ok llm, unfolded task, OF scope, of "rs_tool_calls_used s"]
    moreover note replay_observation_appended
      [OF a2 x(2,3) _ exp refl, where t = t and obs = ?obs and n = "rs_tool_calls_used s + 1"
          and p = "Some (ta_tool_name a)"]
    moreover note replay_processed_appended [OF a3, where t = t and obs = "?obs @ [x]" and n = "rs_tool_calls_used s + 1"]
    ultimately show ?thesis
      by (simp add: replay_events_append names x(1) rc replay_point_def previous_hash_def)
  qed
  have "run_creation_count (rc_events (rs_recorder s')) \<le> rs_run_creations s"
    using mir k creates_run_appended [OF a1] creates_run_appended [OF a2] creates_run_appended [OF a3]
    by (auto simp: mirrored_def run_creation_count_def rc)
  with sim runs calls mir counters show ?thesis
    by (simp add: mirrored_def rc)
qed

subsection \<open>Ending a run\<close>

text \<open>Replay additionally wants the minimal retrieval environment for a retrieval task.\<close>

definition minimal_env :: "'w runtime_env \<Rightarrow> runtime_task \<Rightarrow> bool" where
  "minimal_env env task =
     (case task of
        CompareTask _ \<Rightarrow> True
      | RetrievalTask _ \<Rightarrow>
          sorted_names (registry_names (re_tools env)) = sorted_set [DIAGNOSE_BASELINE_TOOL, RUN_CANDIDATE_TOOL] \<and>
          sorted_names (rp_allowed_capabilities (re_policy env)) = sorted_set RETRIEVAL_TOOL_CAPABILITIES)"

definition replayable :: "'w runtime_env \<Rightarrow> 'w turn \<Rightarrow> bool" where
  "replayable env r =
     (case r of
        Next _ \<Rightarrow> False
      | Done out \<Rightarrow>
          replay_trace (re_codec env) (ro_store out) (tr_trace_id (ro_result out)) = Inr (ro_trace out) \<and>
          tc_terminal (ro_trace out) = ro_result out)"

lemma policy_limits:
  assumes "runtime_policy_ok p"
  shows "policy_limit (policy_to_dict p) ''max_steps'' = Inr (rp_max_steps p)"
    "policy_limit (policy_to_dict p) ''max_tool_calls'' = Inr (rp_max_tool_calls p)"
    "policy_limit (policy_to_dict p) ''max_run_creations'' = Inr (rp_max_run_creations p)"
  using assms by (simp_all add: policy_limit_def dget_def policy_to_dict_def runtime_policy_ok_def)

lemma store_and_return_replayable:
  assumes store: "store_and_return env task s r = Inr out"
    and mir: "mirrored env task s0"
    and s: "rs_recorder s = (rs_recorder s0)\<lparr>rc_events := rc_events (rs_recorder s0) @ [e]\<rparr>"
      "rs_observations s = rs_observations s0"
    and ap: "appended (re_codec env) (rs_recorder s0) (rs_state s0) kind after d None None (Some r) e"
    and kind: "kind = Run_completed \<and> (\<exists>f. d = Some (Finish f)) \<and> after = COMPLETED \<or>
               kind = Run_failed \<and> d = None \<and> after = FAILED"
    and r: "r = terminal_of s0 after oc refs reason report"
    and report: "build_terminal_report task oc reason (rs_observations s0) refs = Inr report"
    and refs: "set refs \<subseteq> set (successful_evidence (rs_observations s0))"
    and steps: "rs_steps_used s0 = rs_tool_calls_used s0 +
               (if kind = Run_completed \<or> reason \<in> set unrecorded_decision_failures then 1 else 0)"
    and failed: "kind = Run_failed \<Longrightarrow> oc = INCONCLUSIVE"
    and completed: "\<And>t. kind = Run_completed \<Longrightarrow> trace_of_run env task t \<Longrightarrow> tc_terminal t = r \<Longrightarrow>
        replay_completed t (replay_point (rs_recorder s) after (rs_observations s0) (rs_tool_calls_used s0)
                              \<lparr>ry_terminal := Some e\<rparr>) e = Inr ()"
    and init: "runtime_init_ok env" and planner: "re_planner_id env \<noteq> LLM_PLANNER_ID"
    and minimal: "minimal_env env task"
  shows "replayable env out"
proof -
  let ?c = "re_codec env" let ?t = "make_trace env task s r"
  let ?rc = "rs_recorder s0" let ?n = "rs_tool_calls_used s0" let ?obs = "rs_observations s0"
  let ?final = "(replay_point (rs_recorder s) after ?obs ?n)\<lparr>ry_terminal := Some e\<rparr>"
  from store obtain st where ok: "agent_trace_ok ?t"
    and st: "store_trace ?c (re_store env) ?t = Inr st"
    and out: "out = Done \<lparr>ro_result = r, ro_trace = ?t, ro_store = st, ro_world = rs_world s\<rparr>"
    by (auto simp: store_and_return_def Let_def)
  have t: "trace_of_run env task ?t" "tc_terminal ?t = r" "tc_events ?t = rc_events ?rc @ [e]"
    by (simp_all add: trace_of_run_def make_trace_def sorted_names_def s)
  have tid: "tr_trace_id r = tc_trace_id ?t" "hex_exact 32 (tc_trace_id ?t)"
    using ok by (simp_all add: r terminal_of_def make_trace_def s agent_trace_ok_def)
  have before: "rs_state s0 \<in> {PLANNING, DECIDING}" using mir by (simp add: mirrored_def)
  have last: "replay_event ?c ?t (replay_point ?rc (rs_state s0) ?obs ?n) e = Inr ?final"
    using replay_terminal_appended [OF ap kind before, of ?t ?obs ?n] planner
    by (simp add: t(3) s(1)) (simp add: make_trace_def)
  have events: "replay_events ?c ?t replay_start (tc_events ?t) = Inr ?final"
    using mir t(1) last by (simp add: t(3) replay_events_append mirrored_def)
  have ids: "tc_trace_id ?t = rc_trace_id ?rc" "tc_planner_id ?t = re_planner_id env" "tc_task ?t = task"
    "tc_policy ?t = policy_to_dict (re_policy env)"
    "tc_tool_names ?t = sorted_names (registry_names (re_tools env))"
    by (simp_all add: make_trace_def s)
  have e: "te_event_type e = kind" "te_decision e = map_option dump_decision d"
    "te_context_sha256 e = Some (rc_context_sha256 ?rc)"
    "compute_terminal_hash ?c r = Inr (the (te_terminal_sha256 e))" "te_terminal_sha256 e \<noteq> None"
    using ap kind by (auto simp: appended_def terminal_event_type_def)
  have ctx: "compute_trace_context_hash ?c (tc_trace_id ?t) (tc_planner_id ?t) (tc_task ?t) (tc_policy ?t)
               (tc_tool_names ?t) = Inr (rc_context_sha256 ?rc)"
    using mir by (simp add: ids mirrored_def)
  have rf: "tr_state r = after" "tr_outcome r = oc" "tr_evidence_refs r = refs" "tr_reason_code r = reason"
    "tr_report r = report" "tr_steps_used r = rs_steps_used s0" "tr_tool_calls_used r = ?n"
    by (simp_all add: r terminal_of_def)
  have after: "after \<in> {COMPLETED, FAILED}" "tr_state r = after"
    using kind rf(1) by auto
  have bind: "replay_terminal_binding ?c ?t ?final e = Inr ()"
    unfolding replay_terminal_binding_def Let_def t(2) ctx e(4)
    using after tid(1) e(3,5) by (simp add: replay_point_def)
  have verdict: "(if te_event_type e = Run_completed then replay_completed ?t ?final e
                  else replay_failed ?t e) = Inr ()"
    using completed t kind failed e rf
    by (auto simp: replay_failed_def)
  have init': "runtime_policy_ok (re_policy env)" using init by (simp add: runtime_init_ok_def)
  have created: "run_creation_count (tc_events ?t) = run_creation_count (rc_events ?rc)"
    using creates_run_appended [OF ap] kind by (auto simp: t(3) run_creation_count_def)
  have counts: "replay_counts ?t ?final e = Inr ()"
    using mir steps policy_limits [OF init'] created
    by (simp add: replay_counts_def ids t(2) rf replay_point_def mirrored_def e(1) Let_def)
  have min: "replay_minimal ?t = Inr ()"
    using minimal unfolding replay_minimal_def ids
    by (cases task) (simp_all add: minimal_env_def dget_def policy_to_dict_def)
  have rep: "replay_report ?t ?final = Inr ()"
    using report refs by (simp add: replay_report_def ids t(2) rf replay_point_def Let_def)
  have "replay_final ?c ?t ?final = Inr ()"
    using bind verdict counts min rep by (simp add: replay_final_def)
  with events tid(2) store_then_load [OF st ok]
  have "replay_trace ?c st (tc_trace_id ?t) = Inr ?t"
    by (simp add: replay_trace_def)
  then show ?thesis by (simp add: replayable_def out t(2) tid(1))
qed

lemma run_fail_replayable:
  assumes run: "run_fail env task s reason = Inr out"
    and mir: "mirrored env task s"
    and steps: "rs_steps_used s = rs_tool_calls_used s +
                  (if reason \<in> set unrecorded_decision_failures then 1 else 0)"
    and env: "runtime_init_ok env" "re_planner_id env \<noteq> LLM_PLANNER_ID" "minimal_env env task"
  shows "replayable env out"
proof -
  from run obtain report s' where
    report: "build_terminal_report task INCONCLUSIVE reason (rs_observations s)
               (successful_evidence (rs_observations s)) = Inr report"
    and rec: "record_event env s Run_failed FAILED None None None
      (Some (terminal_of s FAILED INCONCLUSIVE (successful_evidence (rs_observations s)) reason report)) 0 = Inr s'"
    and store: "store_and_return env task s'
      (terminal_of s FAILED INCONCLUSIVE (successful_evidence (rs_observations s)) reason report) = Inr out"
    by (auto simp: run_fail_def Let_def)
  from rec obtain e w where ap: "appended (re_codec env) (rs_recorder s) (rs_state s) Run_failed FAILED None None None
      (Some (terminal_of s FAILED INCONCLUSIVE (successful_evidence (rs_observations s)) reason report)) e"
    and s': "s' = s\<lparr>rs_world := w, rs_recorder := (rs_recorder s)\<lparr>rc_events := rc_events (rs_recorder s) @ [e]\<rparr>,
              rs_state := FAILED\<rparr>"
    by (rule record_event_appended)
  show ?thesis
    by (rule store_and_return_replayable [OF store mir _ _ ap _ refl report _ _ _ _ env])
       (simp_all add: s' steps)
qed

lemma run_complete_replayable:
  assumes run: "run_complete env task s f None = Inr out"
    and mir: "mirrored env task s"
    and grounded: "validate_finish_grounding task f (rs_observations s) = Inr ()"
    and ok: "finish_decision_ok f"
    and steps: "rs_steps_used s = rs_tool_calls_used s + 1"
    and env: "runtime_init_ok env" "re_planner_id env \<noteq> LLM_PLANNER_ID" "minimal_env env task"
  shows "replayable env out"
proof -
  from run obtain report s' where
    report: "build_terminal_report task (fd_outcome f) (fd_reason_code f) (rs_observations s)
               (fd_evidence_refs f) = Inr report"
    and rec: "record_event env s Run_completed COMPLETED (Some (Finish f)) None None
      (Some (terminal_of s COMPLETED (fd_outcome f) (fd_evidence_refs f) (fd_reason_code f) report)) 0 = Inr s'"
    and store: "store_and_return env task s'
      (terminal_of s COMPLETED (fd_outcome f) (fd_evidence_refs f) (fd_reason_code f) report) = Inr out"
    by (auto simp: run_complete_def Let_def)
  from rec obtain e w where ap: "appended (re_codec env) (rs_recorder s) (rs_state s) Run_completed COMPLETED
      (Some (Finish f)) None None
      (Some (terminal_of s COMPLETED (fd_outcome f) (fd_evidence_refs f) (fd_reason_code f) report)) e"
    and s': "s' = s\<lparr>rs_world := w, rs_recorder := (rs_recorder s)\<lparr>rc_events := rc_events (rs_recorder s) @ [e]\<rparr>,
              rs_state := COMPLETED\<rparr>"
    by (rule record_event_appended)
  have e: "te_decision e = Some (dump_decision (Finish f))" "te_planner_audit e = None"
    using ap by (simp_all add: appended_def)
  show ?thesis
  proof (rule store_and_return_replayable [OF store mir _ _ ap _ refl report _ _ _ _ env])
    show "set (fd_evidence_refs f) \<subseteq> set (successful_evidence (rs_observations s))"
      using grounded by (rule grounded_refs)
    fix t assume t: "trace_of_run env task t"
      and r: "tc_terminal t = terminal_of s COMPLETED (fd_outcome f) (fd_evidence_refs f) (fd_reason_code f) report"
    have "tc_planner_id t \<noteq> LLM_PLANNER_ID" "tc_task t = task"
      using t env(2) by (simp_all add: trace_of_run_def)
    then show "replay_completed t (replay_point (rs_recorder s') COMPLETED (rs_observations s) (rs_tool_calls_used s)
                              \<lparr>ry_terminal := Some e\<rparr>) e = Inr ()"
      using ok grounded r e
      by (simp add: replay_completed_def validate_llm_option_binding_def replay_point_def terminal_of_def
          Let_def del: dump_decision.simps)
  qed (simp_all add: s' steps)
qed

subsection \<open>The loop\<close>

text \<open>
  The tasks whose Trace carries no Planner audit, and the Planners whose actions have a scope
  verdict that is a policy decision rather than a crash.
\<close>

definition auditless :: "runtime_task \<Rightarrow> bool" where
  "auditless task =
     (case task of CompareTask _ \<Rightarrow> True | RetrievalTask t \<Rightarrow> rt_decision_policy t = Fixed_sequence_v1)"

definition planner_scope_typed :: "'w runtime_env \<Rightarrow> runtime_task \<Rightarrow> bool" where
  "planner_scope_typed env task =
     (\<forall>view w a w' obs. re_decide env view w = (Inr (RawDecision (Tool a)), w') \<longrightarrow> scope_typed task a obs)"

definition replay_env :: "'w runtime_env \<Rightarrow> runtime_task \<Rightarrow> bool" where
  "replay_env env task =
     (runtime_init_ok env \<and> re_planner_id env \<noteq> LLM_PLANNER_ID \<and> minimal_env env task \<and>
      auditless task \<and> planner_scope_typed env task)"

lemma auditless_binding:
  assumes "validate_planner_audit_binding task obs d audit = Inr ()" and "auditless task"
  shows "audit = None"
  using assms
  by (auto simp: validate_planner_audit_binding_def auditless_def split: runtime_task.splits)

lemma mirrored_world [simp]: "mirrored env task (s\<lparr>rs_world := w\<rparr>) = mirrored env task s"
  by (simp add: mirrored_def)

lemma act_mirrored:
  assumes env: "replay_env env task" and act: "act env task s a None = Inr out"
    and mir: "mirrored env task s" and steps: "rs_steps_used s = rs_tool_calls_used s + 1"
    and ok: "tool_action_ok a" and typed: "scope_typed task a (rs_observations s)"
  shows "(case out of Next s' \<Rightarrow> mirrored env task s' \<and> rs_steps_used s' = rs_tool_calls_used s'
          | Done _ \<Rightarrow> replayable env out)"
proof -
  have init: "runtime_init_ok env" and planner: "re_planner_id env \<noteq> LLM_PLANNER_ID"
    and minimal: "minimal_env env task"
    using env by (simp_all add: replay_env_def)
  note fail = run_fail_replayable [OF _ _ _ init planner minimal]
  have done': "replayable env out \<Longrightarrow> ?thesis" by (cases out) (auto simp: replayable_def)
  let ?p = "re_policy env" let ?creating = "ta_tool_name a \<in> set RUN_CREATING_TOOLS"
  consider (calls) "rp_max_tool_calls ?p \<le> int (rs_tool_calls_used s)"
    | (runs) "int (rs_tool_calls_used s) < rp_max_tool_calls ?p" "?creating"
        "rp_max_run_creations ?p \<le> int (rs_run_creations s)"
    | (go) "int (rs_tool_calls_used s) < rp_max_tool_calls ?p"
        "?creating \<Longrightarrow> int (rs_run_creations s) < rp_max_run_creations ?p"
    by linarith
  then show ?thesis
  proof cases
    case calls
    then show ?thesis
      using act by (intro done' fail [OF _ mir]) (auto simp: act_def unrecorded_decision_failures_def steps)
  next
    case runs
    then show ?thesis
      using act by (intro done' fail [OF _ mir]) (auto simp: act_def unrecorded_decision_failures_def steps)
  next
    case go
    have open_budget: "\<not> rp_max_tool_calls ?p \<le> int (rs_tool_calls_used s)"
      "\<not> (?creating \<and> rp_max_run_creations ?p \<le> int (rs_run_creations s))"
      using go by auto
    with act obtain key where key: "action_key (re_codec env) a = Inr key"
      unfolding act_def Let_def by (simp only: if_False) auto
    define s1 where "s1 = s\<lparr>rs_run_creations := rs_run_creations s + (if ?creating then 1 else 0),
        rs_attempts := dict_set key (attempts_of (rs_attempts s) key + 1) (rs_attempts s)\<rparr>"
    have mir1: "mirrored env task s1"
      using mir go(2) by (auto simp: mirrored_def s1_def)
    have undone: "mirrored env task (s1\<lparr>rs_run_creations := rs_run_creations s\<rparr>)"
      using mir by (simp add: mirrored_def s1_def)
    have s1: "rs_tool_calls_used s1 = rs_tool_calls_used s" "rs_observations s1 = rs_observations s"
      "rs_steps_used s1 = rs_steps_used s"
      "rs_run_creations s + (if ?creating then 1 else 0) = rs_run_creations s1"
      by (simp_all add: s1_def)
    show ?thesis
    proof (cases "rp_max_same_action_attempts ?p < int (attempts_of (rs_attempts s) key + 1)")
      case True
      then show ?thesis
        using act open_budget key
        by (intro done' fail [OF _ mir1])
           (auto simp: act_def unrecorded_decision_failures_def steps s1_def Let_def)
    next
      case False
      from act open_budget key False obtain s2 x v where
        perf: "perform_action env task s1 a None = Inr (s2, x, v)"
        and rest: "(if v then run_fail env task s2 ''policy_violation''
          else if rp_max_failures ?p \<le> int (rs_failures s2) then run_fail env task s2 ''failure_budget_exhausted''
          else Inr (Next s2)) = Inr out"
        by (auto simp: act_def s1_def Let_def)
      have mir2: "mirrored env task s2"
        by (rule perform_action_mirrored [OF perf undone _ _ _ ok _ planner])
           (use go mir1 s1 typed in \<open>auto simp: mirrored_def\<close>)
      have st2: "rs_steps_used s2 = rs_tool_calls_used s2"
        using perform_action_counters [OF perf] steps s1 by simp
      show ?thesis
        using rest fail [OF _ mir2] st2 mir2
        by (cases v; cases "rp_max_failures ?p \<le> int (rs_failures s2)")
           (auto intro!: done' simp: unrecorded_decision_failures_def)
    qed
  qed
qed

definition turn_ok :: "'w runtime_env \<Rightarrow> runtime_task \<Rightarrow> 'w turn \<Rightarrow> bool" where
  "turn_ok env task out =
     (case out of
        Next s' \<Rightarrow> mirrored env task s' \<and> rs_steps_used s' = rs_tool_calls_used s'
      | Done _ \<Rightarrow> replayable env out)"

lemma turn_ok_replayable: "replayable env out \<Longrightarrow> turn_ok env task out"
  by (cases out) (auto simp: replayable_def turn_ok_def)

lemma run_turn_mirrored:
  assumes env: "replay_env env task" and turn: "run_turn env task s = Inr out"
    and mir: "mirrored env task s" and steps: "rs_steps_used s = rs_tool_calls_used s"
    and room: "int (rs_steps_used s) < rp_max_steps (re_policy env)"
  shows "turn_ok env task out"
proof -
  have e: "runtime_init_ok env" "re_planner_id env \<noteq> LLM_PLANNER_ID" "minimal_env env task"
    "auditless task" "planner_scope_typed env task"
    using env by (simp_all add: replay_env_def)
  have mir1: "mirrored env task (s\<lparr>rs_world := w, rs_steps_used := rs_steps_used s + 1\<rparr>)" for w
    using mir room by (simp add: mirrored_def)
  show ?thesis
    using turn
  proof (cases rule: run_turn_cases)
    case (fail w reason)
    show ?thesis
      by (rule turn_ok_replayable, rule run_fail_replayable [OF fail(1) _ _ e(1-3)])
         (use mir steps fail(2) in \<open>auto simp: unrecorded_decision_failures_def\<close>)
  next
    case (ungrounded w)
    show ?thesis
      by (rule turn_ok_replayable, rule run_fail_replayable [OF ungrounded mir1 _ e(1-3)])
         (simp add: unrecorded_decision_failures_def steps)
  next
    case (complete w1 f audit w)
    from complete(1) have ok: "decision_ok (Finish f)" and "audit = None"
      by (auto elim!: consult_planner_Planned dest: auditless_binding [OF _ e(4)])
    show ?thesis
      by (rule turn_ok_replayable,
          rule run_complete_replayable [OF complete(3) [unfolded \<open>audit = None\<close>] mir1 _ _ _ e(1-3)])
         (use ok complete(2) steps in simp_all)
  next
    case (act w1 a audit w)
    from act(1) have ok: "tool_action_ok a" and "audit = None" and typed: "scope_typed task a obs" for obs
      using e(5)
      by (auto elim!: consult_planner_Planned dest: auditless_binding [OF _ e(4)]
          simp: planner_scope_typed_def)
    show ?thesis
      unfolding turn_ok_def
      by (rule act_mirrored [OF env act(2) [unfolded \<open>audit = None\<close>] mir1 _ ok typed]) (simp add: steps)
  qed
qed

lemma run_loop_replayable:
  assumes "replay_env env task" and "run_loop env task s = Inr out"
    and "mirrored env task s" and "rs_steps_used s = rs_tool_calls_used s"
  shows "replayable env out"
  using assms
proof (induction env task s rule: run_loop.induct)
  case (1 env task s)
  show ?case
  proof (cases "int (rs_steps_used s) < rp_max_steps (re_policy env)")
    case False
    have "run_fail env task s ''step_budget_exhausted'' = Inr out"
      using 1(3) False by (subst (asm) run_loop.simps) simp
    then show ?thesis
      by (rule run_fail_replayable)
         (use 1 in \<open>auto simp: replay_env_def unrecorded_decision_failures_def\<close>)
  next
    case True
    with 1(3) obtain r where r: "run_turn env task s = Inr r"
      by (subst (asm) run_loop.simps) (auto split: sum.splits)
    have ok: "turn_ok env task r"
      by (rule run_turn_mirrored [OF 1(2) r 1(4,5) True])
    show ?thesis
    proof (cases r)
      case (Done o1)
      then show ?thesis
        using 1(3) True r ok by (subst (asm) run_loop.simps) (auto simp: turn_ok_def)
    next
      case (Next s')
      then have "run_loop env task s' = Inr out"
        using 1(3) True r by (subst (asm) run_loop.simps) simp
      with ok Next 1(1) [OF True r Next] 1(2) show ?thesis
        by (simp add: turn_ok_def)
    qed
  qed
qed

lemma run_replayable_lemma:
  assumes env: "replay_env env task" and run: "run env task trace_id w = Inr out"
  shows "replayable env out"
proof -
  from run obtain ctx rc where
    c: "compute_trace_context_hash (re_codec env) trace_id (re_planner_id env) task
          (policy_to_dict (re_policy env)) (sorted_names (registry_names (re_tools env))) = Inr ctx"
    and rc: "recorder_init trace_id ctx = Inr rc"
    and loop: "run_loop env task (start_state w rc) = Inr out"
    unfolding run_def ebind_Inr_iff by blast
  have "runtime_policy_ok (re_policy env)"
    using env by (simp add: replay_env_def runtime_init_ok_def)
  with c rc have "mirrored env task (start_state w rc)"
    by (auto simp: mirrored_def start_state_def recorder_init_def replay_point_def replay_start_def
        previous_hash_def run_creation_count_def runtime_policy_ok_def split: if_splits)
  with run_loop_replayable [OF env loop] show ?thesis by (simp add: start_state_def)
qed

subsection \<open>Which Planners are covered\<close>

text \<open>On a comparison task the Planner must not propose a list or an object as \<^verbatim>\<open>run_id\<close>.\<close>

definition planner_types_run_ids :: "'w runtime_env \<Rightarrow> runtime_task \<Rightarrow> bool" where
  "planner_types_run_ids env task =
     (case task of
        CompareTask _ \<Rightarrow> \<forall>view w a w'. re_decide env view w = (Inr (RawDecision (Tool a)), w') \<longrightarrow>
                           hashable (dget (ta_arguments a) ''run_id'')
      | RetrievalTask _ \<Rightarrow> True)"

lemma planner_scope_typedI:
  assumes "auditless task" "planner_types_run_ids env task"
  shows "planner_scope_typed env task"
proof (cases task)
  case (CompareTask t)
  with assms show ?thesis
    by (fastforce simp: planner_scope_typed_def scope_typed_def planner_types_run_ids_def validate_action_scope_def
        compare_action_scope_def in_str_set_def Let_def split: sum.splits exn.splits if_splits)
next
  case (RetrievalTask t)
  have "scope_typed task a obs" for a obs
  proof (cases "expected_retrieval_decision t obs")
    case (Inl e)
    with assms(1) RetrievalTask expected_decision_ValueError [OF Inl] show ?thesis
      by (simp add: scope_typed_def validate_action_scope_def auditless_def recast_def)
  next
    case (Inr d)
    with assms(1) RetrievalTask show ?thesis
      by (simp add: scope_typed_def validate_action_scope_def auditless_def recast_def)
  qed
  then show ?thesis by (simp add: planner_scope_typed_def)
qed

end
