(* ===== verification/Samples.thy ===== *)
theory Samples
  imports BranchingPlanner ReplayFidelity
begin

text \<open>
  Concrete inputs for the witnesses: a comparison task, a payload in which every metric moved by
  the same amount, a registry with one comparison tool, and environments around a given Planner.
  The sample codec serialises everything to one text and digests it to one digest, which the
  definitions only require to have the right shape. The lemmas evaluate two runs: the branching
  planner accepting an improvement, and a Planner that proposes a list as a \<^verbatim>\<open>run_id\<close>.
\<close>

subsection \<open>Inputs\<close>

definition hex_text :: "nat \<Rightarrow> char \<Rightarrow> string" where
  "hex_text n c = replicate n c"

definition sample_hash :: string where
  "sample_hash = hex_text 64 CHR ''a''"

definition sample_codec :: codec where
  "sample_codec = \<lparr>cd_ser = (\<lambda>_. ''{}''), cd_sha = (\<lambda>_. sample_hash)\<rparr>"

definition sample_base :: string where
  "sample_base = ''base-'' @ hex_text 12 CHR ''1''"

definition sample_cand :: string where
  "sample_cand = ''cand-'' @ hex_text 12 CHR ''2''"

definition sample_agent_task :: agent_task where
  "sample_agent_task =
     \<lparr>at_task_id = ''sample'', at_baseline_run_id = sample_base, at_candidate_run_id = sample_cand,
      at_primary_metric = ''ndcg@10'', at_max_regressions_to_inspect = 3\<rparr>"

definition sample_task :: runtime_task where
  "sample_task = CompareTask sample_agent_task"

definition sample_metric :: "rat \<Rightarrow> json" where
  "sample_metric d =
     JObj [(''baseline'', JFloat (Fin (1 / 2))), (''candidate'', JFloat (Fin (1 / 2 + d))),
           (''delta'', JFloat (Fin d))]"

definition sample_counts :: "rat \<Rightarrow> json" where
  "sample_counts d =
     JObj [(''improved'', JInt (if 0 < d then 1 else 0)), (''regressed'', JInt (if d < 0 then 1 else 0))]"

definition sample_regressions :: "rat \<Rightarrow> json" where
  "sample_regressions d =
     JList (if d < 0 then [JObj [(''query_id'', JInt 7), (''ndcg@10_delta'', JFloat (Fin d))]] else [])"

definition sample_payload :: "rat \<Rightarrow> dict" where
  "sample_payload d =
     [(''aggregate_metrics'', JObj (map (\<lambda>m. (m, sample_metric d)) METRIC_NAMES)),
      (''baseline_run_id'', JStr sample_base), (''candidate_run_id'', JStr sample_cand),
      (''comparison_epsilon'', JFloat (Fin float_1e_12)),
      (''outcome_counts'', JObj (map (\<lambda>m. (m, sample_counts d)) METRIC_NAMES)),
      (''regressions'', sample_regressions d)]"

definition sample_ref :: string where
  "sample_ref = ''comparison:'' @ sample_base @ ''.'' @ sample_cand"

definition compare_tool :: "rat \<Rightarrow> unit tool_spec" where
  "compare_tool d =
     \<lparr>ts_name = ''compare_runs'', ts_capability = ''compare_smoke_runs'',
      ts_input = (\<lambda>d. Some (JObj d)), ts_output = Some,
      ts_handler = (\<lambda>_ w. (Inr (JObj [(''evidence_ref'', JStr sample_ref),
                                      (''payload'', JObj (sample_payload d))]), w))\<rparr>"

definition env_with ::
    "(planner_view \<Rightarrow> exn + raw_decision) \<Rightarrow> unit tool_spec list \<Rightarrow> runtime_policy \<Rightarrow> unit runtime_env" where
  "env_with decide tools p =
     \<lparr>re_codec = sample_codec, re_planner_id = ''fake-branching-v1'', re_requires_audit = False,
      re_decide = (\<lambda>v w. (decide v, w)), re_take_audit = None, re_tools = tools, re_policy = p,
      re_elapsed = (\<lambda>w. (0, w)), re_now = (\<lambda>w. (''2024-01-01T00:00:00Z'', w)), re_store = (\<lambda>_. None)\<rparr>"

definition branching_decide :: "planner_view \<Rightarrow> exn + raw_decision" where
  "branching_decide v = ebind (branching_planner_decide (pv_task v) (pv_observations v)) (\<lambda>d. Inr (RawDecision d))"

definition sample_env :: "rat \<Rightarrow> unit runtime_env" where
  "sample_env d = env_with branching_decide [compare_tool d] default_policy"

definition listed_action :: tool_action where
  "listed_action =
     \<lparr>ta_tool_name = ''inspect_query'', ta_arguments = [(''run_id'', JList [])], ta_reason_code = ''inspect''\<rparr>"

definition strict_policy :: runtime_policy where
  "strict_policy = default_policy\<lparr>rp_max_failures := 1\<rparr>"

definition listed_env :: "unit runtime_env" where
  "listed_env = env_with (\<lambda>_. Inr (RawDecision (Tool listed_action))) [compare_tool 0] strict_policy"

definition sample_trace_id :: string where
  "sample_trace_id = hex_text 32 CHR ''c''"

definition sample_observation :: "rat \<Rightarrow> tool_observation" where
  "sample_observation d =
     \<lparr>ob_tool_name = ''compare_runs'', ob_status = Succeeded, ob_evidence_ref = Some sample_ref,
      ob_payload = sample_payload d, ob_error_code = None, ob_retryable = False, ob_sha256 = sample_hash\<rparr>"

definition listed_observation :: tool_observation where
  "listed_observation =
     \<lparr>ob_tool_name = ''inspect_query'', ob_status = Failed, ob_evidence_ref = None, ob_payload = [],
      ob_error_code = Some ''internal_error'', ob_retryable = False, ob_sha256 = sample_hash\<rparr>"

definition sample_action :: tool_action where
  "sample_action =
     \<lparr>ta_tool_name = ''compare_runs'',
      ta_arguments = [(''baseline_run_id'', JStr sample_base), (''candidate_run_id'', JStr sample_cand)],
      ta_reason_code = ''compare_requested_runs''\<rparr>"

definition sample_finish :: finish_decision where
  "sample_finish =
     \<lparr>fd_outcome = ACCEPT, fd_evidence_refs = [sample_ref],
      fd_reason_code = ''metrics_improved_without_observed_regression''\<rparr>"

subsection \<open>Shapes\<close>

lemma sample_hex [simp]:
  "hex_exact 64 sample_hash" "opt_sha_ok (Some sample_hash)" "opt_sha_ok None" "hex_exact 64 ZERO_HASH"
  "hex_exact 32 sample_trace_id"
  by (simp_all add: sample_hash_def hex_text_def hex_exact_def hex_def opt_sha_ok_def ZERO_HASH_def
      sample_trace_id_def list_all_iff)

lemma sample_canonical [simp]:
  "canonical_json_bytes sample_codec j = (if json_ok j then Inr ''{}'' else Inl ValueError)"
  by (simp add: canonical_json_bytes_def sample_codec_def ensure_json_value_def require_def)

lemma sample_event_hash [simp]:
  "compute_event_hash sample_codec j = (if json_ok j then Inr sample_hash else Inl ValueError)"
  by (simp add: compute_event_hash_def) (simp add: sample_codec_def)

lemma sample_payload_json [simp]: "list_all (json_ok \<circ> snd) (sample_payload d)"
  by (simp add: sample_payload_def sample_metric_def sample_counts_def sample_regressions_def METRIC_NAMES_def)

lemma json_ok_strings [simp]: "list_all json_ok (map JStr xs)"
  by (simp add: list_all_iff)

lemma sample_decisions_ok [simp]:
  "tool_action_ok sample_action" "json_ok (dump_decision (Tool sample_action))"
  "tool_action_ok listed_action" "json_ok (dump_decision (Tool listed_action))"
  "finish_decision_ok sample_finish" "json_ok (dump_decision (Finish sample_finish))"
  by (simp_all add: sample_action_def listed_action_def sample_finish_def tool_action_ok_def finish_decision_ok_def
      SAFE_ID_PATTERN_def REASON_CODE_PATTERN_def pattern_defs)

lemma sample_observations_json [simp]:
  "json_ok (dump_observation (sample_observation d))" "json_ok (dump_observation listed_observation)"
  using sample_payload_json [of d]
  by (simp_all add: dump_observation_def sample_observation_def listed_observation_def comp_def)

lemma sample_policies_json: "list_all (json_ok \<circ> snd) (policy_to_dict p)"
  by (simp add: policy_to_dict_def list_all_iff)

lemma env_with_fields [simp]:
  "re_codec (env_with f ts p) = sample_codec" "re_policy (env_with f ts p) = p"
  "re_elapsed (env_with f ts p) w = (0, w)" "re_now (env_with f ts p) w = (''2024-01-01T00:00:00Z'', w)"
  "re_store (env_with f ts p) = (\<lambda>_. None)" "re_planner_id (env_with f ts p) = ''fake-branching-v1''"
  "re_decide (env_with f ts p) v w = (f v, w)" "re_tools (env_with f ts p) = ts"
  "take_planner_audit (env_with f ts p) w = (Inr None, w)"
  by (simp_all add: env_with_def take_planner_audit_def)

lemma sample_policy_fields [simp]:
  "rp_max_steps default_policy = 8" "rp_max_tool_calls default_policy = 6" "rp_max_failures default_policy = 2"
  "rp_max_same_action_attempts default_policy = 2" "rp_max_elapsed_ms default_policy = 30000"
  "rp_max_steps strict_policy = 8" "rp_max_tool_calls strict_policy = 6" "rp_max_failures strict_policy = 1"
  "rp_max_same_action_attempts strict_policy = 2" "rp_max_elapsed_ms strict_policy = 30000"
  by (simp_all add: default_policy_def strict_policy_def)

lemma env_with_init_ok:
  assumes "p \<in> {default_policy, strict_policy}"
  shows "runtime_init_ok (env_with f [compare_tool d] p)"
  using assms
  by (auto simp: runtime_init_ok_def default_policy_def strict_policy_def runtime_policy_ok_def SAFE_ID_PATTERN_def
      pattern_defs registry_names_def)

subsection \<open>Steps of the sample runs\<close>

abbreviation sample_state ::
    "trace_event list \<Rightarrow> tool_observation list \<Rightarrow> agent_state \<Rightarrow> nat \<Rightarrow> nat \<Rightarrow> nat \<Rightarrow> (string \<times> nat) list \<Rightarrow>
     unit run_state" where
  "sample_state es obs st steps tools fails att \<equiv>
     \<lparr>rs_world = (), rs_recorder = \<lparr>rc_trace_id = sample_trace_id, rc_context_sha256 = sample_hash, rc_events = es\<rparr>,
      rs_observations = obs, rs_state = st, rs_steps_used = steps, rs_tool_calls_used = tools,
      rs_run_creations = 0, rs_failures = fails, rs_attempts = att\<rparr>"

text \<open>The events recorded so far: their serialisation and the digest of the last one are in order.\<close>

definition events_fine :: "trace_event list \<Rightarrow> bool" where
  "events_fine es = (list_all (json_ok \<circ> dump_event) es \<and> hex_exact 64 (previous_hash es))"

lemma events_fine_Nil [simp]: "events_fine []"
  by (simp add: events_fine_def previous_hash_def)

lemma sample_record:
  assumes "events_fine es" and "terminal_event_type kind = (tm \<noteq> None)"
    and "\<And>r. tm = Some r \<Longrightarrow> json_ok (dump_terminal r)"
    and "\<And>x. d = Some x \<Longrightarrow> json_ok (dump_decision x)"
    and "\<And>x. ob = Some x \<Longrightarrow> json_ok (dump_observation x)"
  shows "\<exists>e. record_event (env_with f ts p) (sample_state es obs st n m k att) kind after d None ob tm 0 =
               Inr (sample_state (es @ [e]) obs after n m k att) \<and> events_fine (es @ [e])"
proof -
  have o: "json_ok (opt_str x)" for x by (cases x) auto
  have j: "json_ok (opt_json (map_option dump_decision d))" "json_ok (opt_json (map_option dump_observation ob))"
    using assms(4,5) by (cases d; cases ob; simp)+
  show ?thesis
    using assms(1-3) o j
    by (cases tm) (simp_all add: record_event_def append_event_def hashed_payload_def event_payload_def drop_audit_def
        compute_terminal_hash_def trace_event_ok_def Let_def dump_event_def events_fine_def previous_hash_def)
qed

lemma sample_perform:
  assumes exec: "\<And>w. execute_tool (env_with f ts p) sample_task a obs w = (Inr (x, v), w)"
    and "json_ok (dump_decision (Tool a))" "json_ok (dump_observation x)" "events_fine es"
  shows "\<exists>es'. perform_action (env_with f ts p) sample_task (sample_state es obs st n m k att) a None =
    Inr (sample_state es' (obs @ [x]) DECIDING n (m + 1) (k + (if ob_status x = Failed then 1 else 0)) att, x, v) \<and>
    events_fine es'"
proof -
  obtain e1 where e1: "record_event (env_with f ts p) (sample_state es obs st n m k att) Action_selected ACTING
      (Some (Tool a)) None None None 0 = Inr (sample_state (es @ [e1]) obs ACTING n m k att)"
    and f1: "events_fine (es @ [e1])"
    using sample_record [OF assms(4), of Action_selected None "Some (Tool a)" None f ts p obs st n m k att ACTING] assms(2)
    by (auto simp: terminal_event_type_def)
  obtain e2 where e2: "record_event (env_with f ts p) (sample_state (es @ [e1]) obs ACTING n (m + 1) k att)
      Tool_observed OBSERVING None None (Some x) None 0 =
      Inr (sample_state ((es @ [e1]) @ [e2]) obs OBSERVING n (m + 1) k att)"
    and f2: "events_fine ((es @ [e1]) @ [e2])"
    using sample_record [OF f1, of Tool_observed None None "Some x" f ts p obs ACTING n "m + 1" k att OBSERVING] assms(3)
    by (auto simp: terminal_event_type_def)
  obtain e3 where e3: "record_event (env_with f ts p) (sample_state ((es @ [e1]) @ [e2]) (obs @ [x]) OBSERVING n (m + 1) k att)
      Observation_processed DECIDING None None None None 0 =
      Inr (sample_state (((es @ [e1]) @ [e2]) @ [e3]) (obs @ [x]) DECIDING n (m + 1) k att)"
    and f3: "events_fine (((es @ [e1]) @ [e2]) @ [e3])"
    using sample_record [OF f2, of Observation_processed None None None f ts p "obs @ [x]" OBSERVING n "m + 1" k att DECIDING]
    by (auto simp: terminal_event_type_def)
  show ?thesis
    using e1 e2 e3 f3 exec
    by (intro exI [of _ "((es @ [e1]) @ [e2]) @ [e3]"]) (simp add: perform_action_def)
qed

lemma sample_store:
  assumes "events_fine es" and "es \<noteq> []" and "json_ok (dump_terminal r)"
  shows "\<exists>out. store_and_return (env_with f ts p) sample_task (sample_state es obs st n m k att) r = Inr (Done out) \<and>
     ro_result out = r \<and> tc_events (ro_trace out) = es"
  using assms sample_policies_json [of p]
  by (simp add: store_and_return_def make_trace_def agent_trace_ok_def store_trace_def dump_trace_def Let_def
      MAX_TRACE_BYTES_def comp_def list_all_iff events_fine_def sample_task_def)

lemma sample_consult:
  assumes "f \<lparr>pv_task = sample_task, pv_state = st, pv_observations = obs, pv_steps_used = n, pv_tool_calls_used = m,
             pv_remaining_ms = 30000\<rparr> = Inr (RawDecision d)"
    and "decision_ok d" "json_ok (dump_decision d)" "p \<in> {default_policy, strict_policy}"
  shows "consult_planner (env_with f ts p) sample_task (sample_state es obs st n m k att) = (Inr (Planned d None), ())"
  using assms
  by (auto simp: consult_planner_def planner_view_of_def Let_def validate_decision_def validate_planner_audit_binding_def
      sample_task_def default_policy_def strict_policy_def)

subsection \<open>The branching planner accepts an improvement\<close>

lemma sample_first_decision: "branching_planner_decide sample_task [] = Inr (Tool sample_action)"
  by (simp add: branching_planner_decide_def sample_task_def sample_agent_task_def latest_def sample_action_def)

lemma sample_final_decision:
  "branching_planner_decide sample_task [sample_observation (1 / 10)] = Inr (Finish sample_finish)"
  by code_simp

lemma sample_finish_grounded:
  "validate_finish_grounding sample_task sample_finish [sample_observation (1 / 10)] = Inr ()"
  by code_simp

lemma sample_ref_ok: "EVIDENCE_REF_PATTERN sample_ref"
  by code_simp

lemma sample_tool_result:
  "execute_tool (env_with f [compare_tool d] default_policy) sample_task sample_action [] w =
     (Inr (sample_observation d, False), w)"
  using sample_ref_ok sample_payload_json [of d] sample_decisions_ok(1)
  by (simp add: execute_tool_def run_tool_def validate_action_scope_def sample_task_def compare_action_scope_def
      sample_agent_task_def dget_def sample_action_def execute_def registry_get_def compare_tool_def
      default_policy_def tool_result_fields_def dec_dict_def observation_of_result_def seal_observation_def
      observation_base_def comp_def sample_observation_def observation_ok_def insert_commute tool_action_ok_def)

lemma sample_start:
  "run (env_with f ts p) sample_task sample_trace_id () = run_loop (env_with f ts p) sample_task (sample_state [] [] PLANNING 0 0 0 [])"
  using sample_policies_json [of p]
  by (simp add: run_def compute_trace_context_hash_def recorder_init_def start_state_def sample_task_def list_all_iff comp_def)

lemma sample_report_json:
  "json_ok (compare_report sample_agent_task oc reason [sample_observation d] refs)"
  "json_ok (compare_report sample_agent_task oc reason [listed_observation] refs)"
  using sample_payload_json [of d]
  by (simp_all add: compare_report_def comp_def list_all_iff sample_observation_def listed_observation_def
      succeeded_named_def failed_tools_def report_decision_def)

lemma compare_report_dict: "is_dict (compare_report t oc reason obs refs)"
  by (simp add: compare_report_def)

lemma sample_terminal_ok:
  assumes "json_ok report" "is_dict report" "REASON_CODE_PATTERN reason" "state \<in> {COMPLETED, FAILED}"
  shows "terminal_result_ok (terminal_of (sample_state es obs st n m k att) state oc refs reason report)"
    and "json_ok (dump_terminal (terminal_of (sample_state es obs st n m k att) state oc refs reason report))"
  using assms
  by (auto simp: terminal_of_def terminal_result_ok_def dump_terminal_def list_all_iff)

lemma sample_complete:
  assumes "events_fine es"
  shows "\<exists>out. run_complete (env_with f ts p) sample_task (sample_state es [sample_observation d] DECIDING n m k att)
      sample_finish None = Inr (Done out) \<and> tr_outcome (ro_result out) = ACCEPT"
proof -
  let ?s = "sample_state es [sample_observation d] DECIDING n m k att"
  let ?report = "compare_report sample_agent_task ACCEPT (fd_reason_code sample_finish) [sample_observation d] (fd_evidence_refs sample_finish)"
  let ?r = "terminal_of ?s COMPLETED ACCEPT (fd_evidence_refs sample_finish) (fd_reason_code sample_finish) ?report"
  have reason: "REASON_CODE_PATTERN (fd_reason_code sample_finish)" "fd_outcome sample_finish = ACCEPT"
    using sample_decisions_ok(5) by (simp_all add: finish_decision_ok_def) (simp add: sample_finish_def)
  have ok: "terminal_result_ok ?r" "json_ok (dump_terminal ?r)"
    using sample_terminal_ok [OF sample_report_json(1) compare_report_dict reason(1)] by simp_all
  obtain e where e: "record_event (env_with f ts p) ?s Run_completed COMPLETED (Some (Finish sample_finish)) None None (Some ?r) 0
      = Inr (sample_state (es @ [e]) [sample_observation d] COMPLETED n m k att)" and fine: "events_fine (es @ [e])"
    using sample_record [OF assms, of Run_completed "Some ?r" "Some (Finish sample_finish)" None f ts p
        "[sample_observation d]" DECIDING n m k att COMPLETED] ok
    by (auto simp: terminal_event_type_def)
  obtain out where "store_and_return (env_with f ts p) sample_task
      (sample_state (es @ [e]) [sample_observation d] COMPLETED n m k att) ?r = Inr (Done out)" "ro_result out = ?r"
    using sample_store [OF fine _ ok(2), of f ts p "[sample_observation d]" COMPLETED n m k att] by blast
  with e ok reason show ?thesis
    by (simp add: run_complete_def build_terminal_report_def sample_task_def Let_def) (simp add: terminal_of_def)
qed

lemma sample_run:
  "\<exists>out. run (sample_env (1 / 10)) sample_task sample_trace_id () = Inr (Done out) \<and> tr_outcome (ro_result out) = ACCEPT"
proof -
  let ?env = "env_with branching_decide [compare_tool (1 / 10)] default_policy"
  let ?x = "sample_observation (1 / 10)"
  have status: "ob_status ?x = Succeeded" by (simp add: sample_observation_def)
  obtain es where es: "perform_action ?env sample_task (sample_state [] [] PLANNING 1 0 0 [(sample_hash, 1)]) sample_action None =
      Inr (sample_state es [?x] DECIDING 1 1 0 [(sample_hash, 1)], ?x, False)" and fine: "events_fine es"
    using sample_perform [OF sample_tool_result [of branching_decide "1 / 10"] sample_decisions_ok(2),
        where es = "[]" and st = PLANNING and n = 1 and m = 0 and k = 0 and att = "[(sample_hash, 1)]"] status
    by auto
  have "ta_tool_name sample_action \<notin> set RUN_CREATING_TOOLS" by (simp add: sample_action_def RUN_CREATING_TOOLS_def)
  moreover have "action_key sample_codec sample_action = Inr sample_hash"
    using sample_decisions_ok(2) by (simp add: action_key_def)
  ultimately have act: "act ?env sample_task (sample_state [] [] PLANNING 1 0 0 []) sample_action None =
      Inr (Next (sample_state es [?x] DECIDING 1 1 0 [(sample_hash, 1)]))"
    using es by (simp add: act_def Let_def attempts_of_def)
  have decide: "branching_decide \<lparr>pv_task = sample_task, pv_state = st, pv_observations = [], pv_steps_used = n,
      pv_tool_calls_used = m, pv_remaining_ms = 30000\<rparr> = Inr (RawDecision (Tool sample_action))"
    "branching_decide \<lparr>pv_task = sample_task, pv_state = st, pv_observations = [?x], pv_steps_used = n,
      pv_tool_calls_used = m, pv_remaining_ms = 30000\<rparr> = Inr (RawDecision (Finish sample_finish))" for st n m
    by (simp_all add: branching_decide_def sample_first_decision sample_final_decision)
  have consult:
    "consult_planner ?env sample_task (sample_state [] [] PLANNING 0 0 0 []) = (Inr (Planned (Tool sample_action) None), ())"
    "consult_planner ?env sample_task (sample_state es [?x] DECIDING 1 1 0 [(sample_hash, 1)]) =
       (Inr (Planned (Finish sample_finish) None), ())"
    by (rule sample_consult; simp add: decide del: dump_decision.simps)+
  have first: "run_turn ?env sample_task (sample_state [] [] PLANNING 0 0 0 []) =
      Inr (Next (sample_state es [?x] DECIDING 1 1 0 [(sample_hash, 1)]))"
    using act consult(1) by (simp add: run_turn_def Let_def)
  obtain out where out: "run_complete ?env sample_task (sample_state es [?x] DECIDING 2 1 0 [(sample_hash, 1)]) sample_finish None
      = Inr (Done out)" "tr_outcome (ro_result out) = ACCEPT"
    using sample_complete [OF fine] by blast
  have second: "run_turn ?env sample_task (sample_state es [?x] DECIDING 1 1 0 [(sample_hash, 1)]) = Inr (Done out)"
    using consult(2) sample_finish_grounded out(1) by (simp add: run_turn_def Let_def numeral_2_eq_2)
  have "run_loop ?env sample_task (sample_state [] [] PLANNING 0 0 0 []) = Inr (Done out)"
    using first second by (subst run_loop.simps) (simp, subst run_loop.simps, simp)
  with out(2) show ?thesis by (simp add: sample_env_def sample_start)
qed

subsection \<open>A proposed list as run_id\<close>

lemma internal_error_code: "REASON_CODE_PATTERN ''internal_error''"
  by (simp add: REASON_CODE_PATTERN_def pattern_defs)

lemma listed_tool_result:
  "execute_tool (env_with f [compare_tool d] strict_policy) sample_task listed_action [] w =
     (Inr (listed_observation, False), w)"
  using sample_decisions_ok(3) internal_error_code
  by (simp add: execute_tool_def run_tool_def validate_action_scope_def sample_task_def compare_action_scope_def
      dget_def listed_action_def in_str_set_def observation_of_result_def seal_observation_def tool_action_ok_def
      observation_base_def listed_observation_def observation_ok_def)

lemma listed_fail:
  assumes "events_fine es"
  shows "\<exists>out. run_fail (env_with f ts p) sample_task (sample_state es [listed_observation] DECIDING n m k att)
      ''failure_budget_exhausted'' = Inr (Done out) \<and> (\<exists>e. tc_events (ro_trace out) = es @ [e])"
proof -
  let ?s = "sample_state es [listed_observation] DECIDING n m k att"
  let ?reason = "''failure_budget_exhausted''"
  let ?r = "terminal_of ?s FAILED INCONCLUSIVE [] ?reason (compare_report sample_agent_task INCONCLUSIVE ?reason [listed_observation] [])"
  have refs: "successful_evidence [listed_observation] = []" by (simp add: listed_observation_def)
  have reason: "REASON_CODE_PATTERN ?reason" by (simp add: REASON_CODE_PATTERN_def pattern_defs)
  have ok: "terminal_result_ok ?r" "json_ok (dump_terminal ?r)"
    using sample_terminal_ok [OF sample_report_json(2) compare_report_dict reason] by simp_all
  obtain e where e: "record_event (env_with f ts p) ?s Run_failed FAILED None None None (Some ?r) 0
      = Inr (sample_state (es @ [e]) [listed_observation] FAILED n m k att)" and fine: "events_fine (es @ [e])"
    using sample_record [OF assms, of Run_failed "Some ?r" None None f ts p "[listed_observation]" DECIDING n m k att FAILED] ok
    by (auto simp: terminal_event_type_def)
  obtain out where "store_and_return (env_with f ts p) sample_task
      (sample_state (es @ [e]) [listed_observation] FAILED n m k att) ?r = Inr (Done out)"
      "tc_events (ro_trace out) = es @ [e]"
    using sample_store [OF fine _ ok(2), of f ts p "[listed_observation]" FAILED n m k att] by blast
  with e ok refs show ?thesis
    by (simp add: run_fail_def build_terminal_report_def sample_task_def Let_def)
qed

lemma listed_run:
  "\<exists>out. run listed_env sample_task sample_trace_id () = Inr (Done out) \<and>
     listed_action \<in> set (actions_of (tc_events (ro_trace out)))"
proof -
  let ?env = "env_with (\<lambda>_. Inr (RawDecision (Tool listed_action))) [compare_tool 0] strict_policy"
  have status: "ob_status listed_observation = Failed" by (simp add: listed_observation_def)
  obtain es where es: "perform_action ?env sample_task (sample_state [] [] PLANNING 1 0 0 [(sample_hash, 1)]) listed_action None =
      Inr (sample_state es [listed_observation] DECIDING 1 1 1 [(sample_hash, 1)], listed_observation, False)"
    and fine: "events_fine es"
    using sample_perform [OF listed_tool_result [of "\<lambda>_. Inr (RawDecision (Tool listed_action))" 0] sample_decisions_ok(4),
        where es = "[]" and st = PLANNING and n = 1 and m = 0 and k = 0 and att = "[(sample_hash, 1)]"] status
    by auto
  have logged: "listed_action \<in> set (actions_of es)"
    using es by (rule perform_action_log) (auto dest!: appended_action(2))
  obtain out e where out: "run_fail ?env sample_task (sample_state es [listed_observation] DECIDING 1 1 1 [(sample_hash, 1)])
      ''failure_budget_exhausted'' = Inr (Done out)" "tc_events (ro_trace out) = es @ [e]"
    using listed_fail [OF fine] by blast
  have "ta_tool_name listed_action \<notin> set RUN_CREATING_TOOLS" by (simp add: listed_action_def RUN_CREATING_TOOLS_def)
  moreover have "action_key sample_codec listed_action = Inr sample_hash"
    using sample_decisions_ok(4) by (simp add: action_key_def)
  ultimately have "act ?env sample_task (sample_state [] [] PLANNING 1 0 0 []) listed_action None = Inr (Done out)"
    using es out by (simp add: act_def Let_def attempts_of_def)
  moreover have consult: "consult_planner ?env sample_task (sample_state [] [] PLANNING 0 0 0 []) =
      (Inr (Planned (Tool listed_action) None), ())"
    by (rule sample_consult; simp del: dump_decision.simps)
  ultimately have "run_turn ?env sample_task (sample_state [] [] PLANNING 0 0 0 []) = Inr (Done out)"
    using consult by (simp add: run_turn_def Let_def)
  then have "run_loop ?env sample_task (sample_state [] [] PLANNING 0 0 0 []) = Inr (Done out)"
    by (subst run_loop.simps) simp
  with logged out(2) show ?thesis by (simp add: listed_env_def sample_start)
qed

end
