(* ===== verification/RunProperties.thy ===== *)
theory RunProperties
  imports Samples
begin

text \<open>
  The properties of whole runs: what the Runtime's loop guarantees for every Planner and every
  set of tools, and that the offline Replay accepts what the Runtime recorded.
\<close>

lemma run_outcome_of:
  assumes "run env task trace_id w = Inr (Done out)" and "runtime_init_ok env"
  shows "outcome_of env task out"
  using run_outcome [OF assms] by simp

lemma outcome_log:
  assumes "outcome_of env task out"
  obtains s e where "tc_events (ro_trace out) = rc_events (rs_recorder s) @ [e]"
    and "log_inv env task s" and "budget_inv env s"
    and "trace_chain.chain (re_codec env) 1 ZERO_HASH (tc_events (ro_trace out))"
    and "state_path PLANNING (tc_events (ro_trace out)) = Some (tr_state (ro_result out))"
    and "terminal_event_type (te_event_type e)" and "action_of e = None"
    and "Option.bind (te_observation e) decode_observation = None"
    and "tr_steps_used (ro_result out) = rs_steps_used s"
    and "tr_tool_calls_used (ro_result out) = rs_tool_calls_used s"
    and "tr_state (ro_result out) \<in> {COMPLETED, FAILED}"
    and "\<not> creates_run e"
proof -
  from assms obtain s s' e kind d audit where
    inv: "log_inv env task s" "budget_inv env s"
    and app: "appended (re_codec env) (rs_recorder s) (rs_state s) kind (tr_state (ro_result out)) d audit None
          (Some (ro_result out)) e"
    and rc: "rs_recorder s' = (rs_recorder s)\<lparr>rc_events := rc_events (rs_recorder s) @ [e]\<rparr>"
    and tr: "ro_trace out = make_trace env task s' (ro_result out)"
    and used: "tr_steps_used (ro_result out) = rs_steps_used s"
      "tr_tool_calls_used (ro_result out) = rs_tool_calls_used s"
    and kind: "kind = Run_failed \<and> tr_state (ro_result out) = FAILED \<or>
       kind = Run_completed \<and> tr_state (ro_result out) = COMPLETED"
    unfolding outcome_of_def by blast
  have es: "tc_events (ro_trace out) = rc_events (rs_recorder s) @ [e]"
    by (simp add: tr make_trace_def rc)
  have step: "(rs_state s, kind, tr_state (ro_result out)) \<in> ALLOWED_TRANSITIONS"
    using inv kind by (auto simp: log_inv_def Let_def ALLOWED_TRANSITIONS_def)
  have log: "trace_chain.chain (re_codec env) 1 ZERO_HASH (rc_events (rs_recorder s) @ [e])"
    "state_path PLANNING (rc_events (rs_recorder s) @ [e]) = Some (tr_state (ro_result out))"
    using appended_log [OF app _ _ step] inv by (auto simp: log_inv_def Let_def)
  have ty: "te_event_type e = kind" using app by (simp add: appended_def)
  show ?thesis
    by (rule that [OF es inv]) (use es log ty kind used appended_action(1) [OF app] appended_observation [OF app]
      in \<open>auto simp: terminal_event_type_def creates_run_def\<close>)
qed

lemma sample_init_ok: "runtime_init_ok (sample_env d)"
  by (simp add: sample_env_def env_with_init_ok)


lemma sample_types_run_ids: "planner_types_run_ids (sample_env d) sample_task"
  by (auto simp: planner_types_run_ids_def sample_task_def sample_env_def branching_decide_def
      branching_planner_run_ids)

lemma sample_codec_of [simp]: "re_codec (sample_env d) = sample_codec"
  by (simp add: sample_env_def)





text \<open>
  C2. Every Trace the Runtime returns is a complete, linked log: the events are numbered from 1, each
  carries the hash of its predecessor and its own valid hash, the states follow the allowed
  transitions from \<^verbatim>\<open>planning\<close> to the terminal state of the result, and exactly the last event is
  terminal.
\<close>

theorem run_trace_well_formed:
  assumes "run env task trace_id w = Inr (Done out)" and "runtime_init_ok env"
  shows "let es = tc_events (ro_trace out); n = length es in
    0 < n \<and>
    (\<forall>i < n. te_sequence (es ! i) = i + 1 \<and> event_valid (re_codec env) (es ! i) \<and>
        te_previous_hash (es ! i) = (if i = 0 then ZERO_HASH else te_event_hash (es ! (i - 1))) \<and>
        (terminal_event_type (te_event_type (es ! i)) \<longleftrightarrow> i = n - 1)) \<and>
    state_path PLANNING es = Some (tr_state (ro_result out)) \<and>
    tr_state (ro_result out) \<in> {COMPLETED, FAILED}"
proof -
  from run_outcome_of [OF assms] obtain s e where es: "tc_events (ro_trace out) = rc_events (rs_recorder s) @ [e]"
    and log: "log_inv env task s" and ch: "trace_chain.chain (re_codec env) 1 ZERO_HASH (tc_events (ro_trace out))"
    and st: "state_path PLANNING (tc_events (ro_trace out)) = Some (tr_state (ro_result out))"
      "tr_state (ro_result out) \<in> {COMPLETED, FAILED}"
    and te: "terminal_event_type (te_event_type e)"
    by (rule outcome_log) blast
  let ?es = "tc_events (ro_trace out)"
  have early: "\<not> terminal_event_type (te_event_type (?es ! i))" if "i < length ?es - 1" for i
    using that log es by (auto simp: log_inv_def Let_def nth_append)
  have prev: "te_previous_hash (?es ! i) = (if i = 0 then ZERO_HASH else te_event_hash (?es ! (i - 1)))"
    if "i < length ?es" for i
  proof (cases i)
    case 0
    have "trace_chain.chain c 1 h xs \<Longrightarrow> xs \<noteq> [] \<Longrightarrow> te_previous_hash (xs ! 0) = h" for c h xs
      by (cases xs) auto
    from this [OF ch] es 0 show ?thesis by simp
  next
    case (Suc j)
    with trace_chain.chain_previous [OF ch, of j] that show ?thesis by simp
  qed
  show ?thesis
    unfolding Let_def
    using trace_chain.chain_nth [OF ch] prev early te es st
    by (auto simp: nth_append less_Suc_eq)
qed

theorem run_trace_well_formed_witness:
  "\<exists>out. run (sample_env (1 / 10)) sample_task sample_trace_id () = Inr (Done out) \<and>
     state_path PLANNING (tc_events (ro_trace out)) = Some (tr_state (ro_result out))"
proof -
  obtain out where out: "run (sample_env (1 / 10)) sample_task sample_trace_id () = Inr (Done out)"
    using sample_run by blast
  from run_trace_well_formed [OF out sample_init_ok] out show ?thesis by (auto simp: Let_def)
qed

text \<open>
  C3. The budgets of the policy bound every run, whatever the Planner asks for: Planner steps, tool
  calls (as counted in the Trace), Run creations, failed observations, and the number of times one
  and the same action is attempted.
\<close>

theorem run_within_budgets:
  assumes "run env task trace_id w = Inr (Done out)" and "runtime_init_ok env"
  shows "let p = re_policy env; r = ro_result out; es = tc_events (ro_trace out) in
    int (tr_steps_used r) \<le> rp_max_steps p \<and>
    int (tr_tool_calls_used r) \<le> rp_max_tool_calls p \<and>
    tr_tool_calls_used r = length (actions_of es) \<and> tr_tool_calls_used r \<le> tr_steps_used r \<and>
    int (run_creation_count es) \<le> rp_max_run_creations p \<and>
    int (length (filter (\<lambda>x. ob_status x = Failed) (observations_of es))) \<le> rp_max_failures p \<and>
    (\<forall>k. int (count_list (map (key_of (re_codec env)) (actions_of es)) k) \<le> rp_max_same_action_attempts p)"
proof -
  from run_outcome_of [OF assms] obtain s e where es: "tc_events (ro_trace out) = rc_events (rs_recorder s) @ [e]"
    and inv: "log_inv env task s" "budget_inv env s"
    and e: "action_of e = None" "Option.bind (te_observation e) decode_observation = None" "\<not> creates_run e"
    and used: "tr_steps_used (ro_result out) = rs_steps_used s" "tr_tool_calls_used (ro_result out) = rs_tool_calls_used s"
    by (rule outcome_log) blast
  have p: "runtime_policy_ok (re_policy env)" using assms(2) by (simp add: runtime_init_ok_def)
  have logs: "actions_of (rc_events (rs_recorder s) @ [e]) = actions_of (rc_events (rs_recorder s))"
    "observations_of (rc_events (rs_recorder s) @ [e]) = rs_observations s"
    "run_creation_count (rc_events (rs_recorder s) @ [e]) = run_creation_count (rc_events (rs_recorder s))"
    using inv e by (simp_all add: log_inv_def Let_def run_creation_count_def)
  have same: "int (count_list (map (key_of (re_codec env)) (actions_of (rc_events (rs_recorder s)))) k)
      \<le> rp_max_same_action_attempts (re_policy env)" for k
  proof -
    have "count_list (map (key_of (re_codec env)) (actions_of (rc_events (rs_recorder s)))) k
        \<le> nat (rp_max_same_action_attempts (re_policy env))"
      using inv(2) by (simp add: budget_inv_def Let_def)
    with p show ?thesis by (simp add: runtime_policy_ok_def le_nat_iff)
  qed
  show ?thesis
    using inv p same unfolding Let_def es logs used
    by (auto simp: log_inv_def budget_inv_def Let_def runtime_policy_ok_def)
qed

theorem run_within_budgets_witness:
  "\<exists>out. run (sample_env (1 / 10)) sample_task sample_trace_id () = Inr (Done out) \<and>
     int (tr_steps_used (ro_result out)) \<le> rp_max_steps (re_policy (sample_env (1 / 10)))"
proof -
  obtain out where out: "run (sample_env (1 / 10)) sample_task sample_trace_id () = Inr (Done out)"
    using sample_run by blast
  from run_within_budgets [OF out sample_init_ok] out show ?thesis by (auto simp: Let_def)
qed

text \<open>
  C4. No verdict without proof. A comparison run that ends with ACCEPT holds, among the observations of
  its own Trace, a successful comparison of exactly the task's two Runs in which the primary metric
  rose, no query regressed and no metric fell; one that ends with REJECT holds such a comparison in
  which the primary metric fell. The result cites that comparison, and it cites nothing but evidence
  that a succeeded tool call of the run produced.
\<close>

theorem run_verdict_grounded:
  assumes "run env (CompareTask t) trace_id w = Inr (Done out)" and "runtime_init_ok env"
  shows "let obs = observations_of (tc_events (ro_trace out)); oc = tr_outcome (ro_result out) in
    set (tr_evidence_refs (ro_result out)) \<subseteq> set (successful_evidence obs) \<and>
    (oc = ACCEPT \<longrightarrow> (\<exists>x. comparison_observed t obs x \<and> improves t x \<and>
        the (ob_evidence_ref x) \<in> set (tr_evidence_refs (ro_result out)))) \<and>
    (oc = REJECT \<longrightarrow> (\<exists>x. comparison_observed t obs x \<and> regresses t x \<and>
        the (ob_evidence_ref x) \<in> set (tr_evidence_refs (ro_result out))))"
proof -
  from run_outcome_of [OF assms] obtain s s' e kind d audit where
    inv: "log_inv env (CompareTask t) s"
    and app: "appended (re_codec env) (rs_recorder s) (rs_state s) kind (tr_state (ro_result out)) d audit None
          (Some (ro_result out)) e"
    and rc: "rs_recorder s' = (rs_recorder s)\<lparr>rc_events := rc_events (rs_recorder s) @ [e]\<rparr>"
    and tr: "ro_trace out = make_trace env (CompareTask t) s' (ro_result out)"
    and cases: "tr_outcome (ro_result out) = INCONCLUSIVE \<and>
           tr_evidence_refs (ro_result out) = successful_evidence (rs_observations s) \<or>
         (\<exists>f. validate_finish_grounding (CompareTask t) f (rs_observations s) = Inr () \<and>
              tr_outcome (ro_result out) = fd_outcome f \<and> tr_evidence_refs (ro_result out) = fd_evidence_refs f)"
    unfolding outcome_of_def by blast
  have obs: "observations_of (tc_events (ro_trace out)) = rs_observations s"
    using inv appended_observation [OF app] by (simp add: tr make_trace_def rc log_inv_def Let_def)
  from cases show ?thesis
  proof (elim disjE exE conjE)
    fix f
    assume g: "validate_finish_grounding (CompareTask t) f (rs_observations s) = Inr ()"
      and eq: "tr_outcome (ro_result out) = fd_outcome f" "tr_evidence_refs (ro_result out) = fd_evidence_refs f"
    have "\<exists>x. comparison_observed t (rs_observations s) x \<and> the (ob_evidence_ref x) \<in> set (fd_evidence_refs f) \<and>
         (fd_outcome f = ACCEPT \<longrightarrow> improves t x) \<and> (fd_outcome f = REJECT \<longrightarrow> regresses t x)"
      if "fd_outcome f \<in> {ACCEPT, REJECT}"
      using grounded_comparisons [OF g that] supports_accept_improves unfolding regresses_def by metis
    with grounded_refs(2) [OF g] show ?thesis
      unfolding Let_def obs eq by auto
  qed (simp add: obs)
qed

theorem run_verdict_grounded_witness:
  "\<exists>out x. run (sample_env (1 / 10)) (CompareTask sample_agent_task) sample_trace_id () = Inr (Done out) \<and>
     improves sample_agent_task x \<and> x \<in> set (observations_of (tc_events (ro_trace out)))"
proof -
  obtain out where out: "run (sample_env (1 / 10)) (CompareTask sample_agent_task) sample_trace_id () = Inr (Done out)"
    and accept: "tr_outcome (ro_result out) = ACCEPT"
    using sample_run unfolding sample_task_def by blast
  from run_verdict_grounded [OF out sample_init_ok] accept out show ?thesis
    by (auto simp: Let_def comparison_observed_def)
qed

text \<open>
  C5. Tamper evidence. If the replay accepts two Traces whose last event hashes agree, then all their
  events, their terminal results and their contexts (Trace ID, planner, task, policy, tools) have
  the same canonical content, or two payloads of these very Traces collide under SHA-256.
\<close>

theorem replay_tamper_evident:
  assumes "replay_trace c st1 i = Inr t1" and "replay_trace c st2 j = Inr t2"
    and "te_event_hash (last (tc_events t1)) = te_event_hash (last (tc_events t2))"
  shows "trace_collision c t1 t2 \<or>
    (map canonical_content (tc_events t1) = map canonical_content (tc_events t2) \<and>
     sort_keys (dump_terminal (tc_terminal t1)) = sort_keys (dump_terminal (tc_terminal t2)) \<and>
     sort_keys (context_payload t1) = sort_keys (context_payload t2))"
proof (cases "trace_collision c t1 t2")
  case no: False
  from assms(1) obtain e1 h1 k1 where 1: "trace_chain.chain c 1 ZERO_HASH (tc_events t1)" "tc_events t1 \<noteq> []" "last (tc_events t1) = e1"
    "te_terminal_sha256 e1 = Some h1" "compute_event_hash c (dump_terminal (tc_terminal t1)) = Inr h1"
    "te_context_sha256 e1 = Some k1" "compute_event_hash c (context_payload t1) = Inr k1"
    by (rule replay_trace_facts)
  from assms(2) obtain e2 h2 k2 where 2: "trace_chain.chain c 1 ZERO_HASH (tc_events t2)" "tc_events t2 \<noteq> []" "last (tc_events t2) = e2"
    "te_terminal_sha256 e2 = Some h2" "compute_event_hash c (dump_terminal (tc_terminal t2)) = Inr h2"
    "te_context_sha256 e2 = Some k2" "compute_event_hash c (context_payload t2) = Inr k2"
    by (rule replay_trace_facts)
  have same: "map canonical_content (tc_events t1) = map canonical_content (tc_events t2)"
    using trace_chain.chain_determined [OF 1(1) 2(1) 1(2) 2(2)] assms(3) no by (auto simp: trace_collision_def)
  then have "canonical_content e1 = canonical_content e2"
    using 1(2,3) 2(2,3) by (metis last_map)
  from content_fields(3,4) [OF this] have "h1 = h2" "k1 = k2" using 1 2 by simp_all
  with 1 2 no same same_digest [of c "dump_terminal (tc_terminal t1)" h1] same_digest [of c "context_payload t1" k1]
  show ?thesis
    by (auto simp: trace_collision_def)
qed simp

theorem replay_tamper_evident_witness:
  "\<exists>out t. run (sample_env (1 / 10)) sample_task sample_trace_id () = Inr (Done out) \<and>
     replay_trace sample_codec (ro_store out) (tr_trace_id (ro_result out)) = Inr t \<and>
     (trace_collision sample_codec t t \<or> map canonical_content (tc_events t) = map canonical_content (tc_events t))"
proof -
  obtain out where out: "run (sample_env (1 / 10)) sample_task sample_trace_id () = Inr (Done out)"
    using sample_run by blast
  have "replay_env (sample_env (1 / 10)) sample_task"
    using sample_types_run_ids [of "1 / 10"] sample_init_ok
    by (simp add: replay_env_def planner_scope_typedI auditless_def minimal_env_def sample_task_def
        sample_env_def LLM_PLANNER_ID_def)
  from run_replayable_lemma [OF this out]
  have t: "replay_trace sample_codec (ro_store out) (tr_trace_id (ro_result out)) = Inr (ro_trace out)"
    by (simp add: replayable_def)
  from replay_tamper_evident [OF t t] out t show ?thesis by blast
qed



end
