(* ===== verification/RetrievalSamples.thy ===== *)
theory RetrievalSamples
  imports Samples
begin

text \<open>
  Concrete retrieval evidence for the witnesses: a baseline diagnosis and an experiment with the
  uniform candidate that improves recall and passes every gate. The lemmas decode them.
\<close>

definition sid :: "string \<Rightarrow> char \<Rightarrow> json" where
  "sid prefix c = JStr (prefix @ hex_text 12 c)"

definition sample_rat :: "rat \<Rightarrow> json" where
  "sample_rat r = JFloat (Fin r)"

definition sample_stage :: "rat \<Rightarrow> json" where
  "sample_stage r =
     JObj [(''judged_recall_at_10'', sample_rat r), (''mrr_at_10'', sample_rat r), (''ndcg_at_10'', sample_rat r)]"

definition baseline_dict :: dict where
  "baseline_dict =
     [(''profile'', JStr ''smoke''), (''query_count'', JInt 2), (''judged_pair_count'', JInt 8),
      (''run_id'', sid ''retrieval-'' CHR ''1''), (''diagnosis_id'', sid ''stage-diagnosis-'' CHR ''1''),
      (''pipeline_id'', sid ''pipeline-'' CHR ''1''), (''pipeline_variant'', JStr ''title-exact-v1''),
      (''diagnosis_status'', JStr ''diagnosable''), (''primary_category'', JNull),
      (''recommended_next_action'', JStr ''test_candidate''), (''findings'', JList []),
      (''aggregate'', JObj [(''recall_union_coverage'', sample_rat 0), (''fusion'', sample_stage 0),
         (''coarse_rank'', sample_stage 0),
         (''first_loss_counts'', JObj [(''recall'', JInt 0), (''fusion'', JInt 0), (''coarse_rank'', JInt 0),
                                       (''retained'', JInt 0)])]),
      (''artifacts'', JObj [(''retrieval_run_id'', sid ''retrieval-'' CHR ''1''),
                            (''diagnosis_id'', sid ''stage-diagnosis-'' CHR ''1'')])]"

definition gate_observed :: "string \<Rightarrow> rat" where
  "gate_observed name =
     (if name \<in> {''unique_relevant_contribution'', ''union_coverage_improvement''} then 1 else 0)"

definition gate_json :: "string \<times> string \<times> rat \<Rightarrow> json" where
  "gate_json g =
     (case g of (name, comparator, threshold) \<Rightarrow>
        JObj [(''name'', JStr name), (''comparator'', JStr comparator), (''threshold'', sample_rat threshold),
              (''observed'', sample_rat (gate_observed name)), (''passed'', JBool True)])"

definition candidate_dict :: dict where
  "candidate_dict =
     [(''profile'', JStr ''smoke''), (''baseline_run_id'', sid ''retrieval-'' CHR ''1''),
      (''candidate_run_id'', sid ''retrieval-'' CHR ''2''), (''diagnosis_id'', sid ''stage-diagnosis-'' CHR ''2''),
      (''comparison_id'', sid ''retrieval-comparison-'' CHR ''2''), (''pipeline_id'', sid ''pipeline-'' CHR ''2''),
      (''pipeline_variant'', JStr UNIFORM_VARIANT), (''diagnosis_status'', JStr ''diagnosable''),
      (''aggregate_deltas'', JObj [(''recall_union_coverage'', sample_rat 1), (''fusion'', sample_stage 0),
         (''coarse_rank'', sample_stage 0)]),
      (''risk'', JObj [(''unique_relevant_contribution'', JInt 1),
         (''worst_coarse_query_ndcg_at_10_delta'', sample_rat 0), (''coarse_regressed_query_rate'', sample_rat 0),
         (''worst_fusion_query_ndcg_at_10_delta'', sample_rat 0), (''fusion_regressed_query_rate'', sample_rat 0)]),
      (''gate'', JObj [(''passed'', JBool True), (''checks'', JList (map gate_json GATE_POLICY)),
                       (''failed_gates'', JList [])]),
      (''recommendation'', JStr ''review_candidate''), (''next_action'', JStr ''request_owner_review''),
      (''artifacts'', JObj [(''retrieval_run_id'', sid ''retrieval-'' CHR ''2''),
                            (''diagnosis_id'', sid ''stage-diagnosis-'' CHR ''2''),
                            (''comparison_id'', sid ''retrieval-comparison-'' CHR ''2'')])]"

definition baseline_ref :: string where
  "baseline_ref = ''run:retrieval-'' @ hex_text 12 CHR ''1''"

definition candidate_ref :: string where
  "candidate_ref = ''comparison:retrieval-comparison-'' @ hex_text 12 CHR ''2''"

definition retrieval_observation :: "string \<Rightarrow> string \<Rightarrow> dict \<Rightarrow> tool_observation" where
  "retrieval_observation name ref payload =
     \<lparr>ob_tool_name = name, ob_status = Succeeded, ob_evidence_ref = Some ref, ob_payload = payload,
      ob_error_code = None, ob_retryable = False, ob_sha256 = sample_hash\<rparr>"

definition baseline_observation :: tool_observation where
  "baseline_observation = retrieval_observation DIAGNOSE_BASELINE_TOOL baseline_ref baseline_dict"

definition candidate_observation :: tool_observation where
  "candidate_observation = retrieval_observation RUN_CANDIDATE_TOOL candidate_ref candidate_dict"

definition sample_retrieval_task :: "decision_policy \<Rightarrow> retrieval_task" where
  "sample_retrieval_task p =
     \<lparr>rt_task_id = ''sample'', rt_profile = ''smoke'', rt_decision_policy = p,
      rt_candidate_variants = RETRIEVAL_PIPELINE_VARIANTS\<rparr>"

subsection \<open>Evaluation\<close>

lemma sample_fixed_plan:
  "expected_retrieval_decision (sample_retrieval_task Fixed_sequence_v1) [baseline_observation, candidate_observation] =
     Inr (Finish \<lparr>fd_outcome = PROPOSAL_READY, fd_evidence_refs = [baseline_ref, candidate_ref],
                  fd_reason_code = ''uniform_candidate_passed''\<rparr>)"
  by code_simp

lemma sample_candidate_passes:
  "case decode_candidate_output (Some candidate_ref) candidate_dict of
     None \<Rightarrow> False | Some p \<Rightarrow> gs_passed (cp_gate p)"
  by code_simp

lemma sample_adaptive_options:
  "case derive_adaptive_retrieval_options (sample_retrieval_task Adaptive_llm_v1)
          [baseline_observation, candidate_observation] of
     Inl _ \<Rightarrow> False
   | Inr opts \<Rightarrow> map do_option_id opts =
       [''run_conservative_candidate'', ''run_aggressive_candidate'', ''finish_best_passing_candidate'']"
  by code_simp

end
