(* ===== verification/EvidenceProperties.thy ===== *)
theory EvidenceProperties
  imports RetrievalSamples
begin

text \<open>
  The properties of single decisions: what the grounding rules, the planners, the adaptive option
  set, the candidate gates, the guarded tool execution and the Trace store guarantee.
\<close>

subsection \<open>Citing all successful evidence\<close>

lemma successful_evidence_map:
  assumes "\<And>x. x \<in> set obs \<Longrightarrow> ob_status x = Succeeded \<Longrightarrow> ob_evidence_ref x \<noteq> None"
  shows "successful_evidence obs = map (\<lambda>x. the (ob_evidence_ref x)) (filter (\<lambda>x. ob_status x = Succeeded) obs)"
  using assms by (induction obs) (auto split: option.splits ob_status.splits)

lemma successful_by_ref_in:
  assumes "x \<in> set obs" "ob_status x = Succeeded" "ob_evidence_ref x = Some r"
  shows "\<exists>y. successful_by_ref obs r = Some y"
proof -
  have "find (\<lambda>x. ob_status x = Succeeded \<and> ob_evidence_ref x = Some r) (rev obs) \<noteq> None"
    unfolding find_None_iff using assms by auto
  then show ?thesis by (auto simp: successful_by_ref_def)
qed

lemma cite_all_successful:
  assumes refs: "\<And>x. x \<in> set obs \<Longrightarrow> ob_status x = Succeeded \<Longrightarrow> \<exists>r. ob_evidence_ref x = Some r \<and> EVIDENCE_REF_PATTERN r"
    and dist: "distinct (successful_evidence obs)"
  shows "traverse (cite obs) (successful_evidence obs) = Inr (filter (\<lambda>x. ob_status x = Succeeded) obs)"
proof -
  let ?ref = "\<lambda>x. the (ob_evidence_ref x)" let ?ok = "filter (\<lambda>x. ob_status x = Succeeded) obs"
  have refs': "\<And>x. x \<in> set obs \<Longrightarrow> ob_status x = Succeeded \<Longrightarrow> ob_evidence_ref x \<noteq> None"
    using refs by fastforce
  have map: "successful_evidence obs = map ?ref ?ok" by (rule successful_evidence_map) (rule refs')
  with dist have inj: "inj_on ?ref (set ?ok)" by (simp add: distinct_map)
  have "cite obs (?ref x) = Inr x" if x: "x \<in> set ?ok" for x
  proof -
    from x refs obtain r where r: "ob_evidence_ref x = Some r" "EVIDENCE_REF_PATTERN r" by auto
    from x r(1) obtain y where y: "successful_by_ref obs r = Some y"
      using successful_by_ref_in [of x obs r] by auto
    from successful_by_ref_Some [OF y] have "y \<in> set ?ok" "?ref y = ?ref x" using r(1) by auto
    with inj x have "y = x" by (auto dest: inj_onD)
    with r y show ?thesis by (simp add: cite_def)
  qed
  then have "list_all2 (\<lambda>r x. cite obs r = Inr x) (map ?ref ?ok) ?ok"
    unfolding list_all2_map1 by (intro list_all2_same [THEN iffD2]) blast
  with map show ?thesis by (simp add: traverse_Inr_iff)
qed

definition compare_history :: "agent_task \<Rightarrow> tool_observation list \<Rightarrow> bool" where
  "compare_history t obs =
     (case obs of
        [] \<Rightarrow> False
      | c # qs \<Rightarrow>
          ob_tool_name c = ''compare_runs'' \<and> (\<forall>q \<in> set qs. ob_tool_name q = ''inspect_query'') \<and>
          (\<forall>q \<in> set qs. ob_status q = Succeeded \<longrightarrow>
             dget (ob_payload q) ''run_id'' \<in> {JStr (at_baseline_run_id t), JStr (at_candidate_run_id t)}) \<and>
          (\<forall>x \<in> set obs. ob_status x = Succeeded \<longrightarrow>
             (\<exists>r. ob_evidence_ref x = Some r \<and> EVIDENCE_REF_PATTERN r)) \<and>
          distinct (successful_evidence obs))"

lemma find_append_None: "find P xs = None \<Longrightarrow> find P (xs @ ys) = find P ys"
  by (induction xs) (auto split: if_splits)

lemma latest_compare:
  assumes "compare_history t (c # qs)"
  shows "latest (c # qs) ''compare_runs'' = Some c"
proof -
  have "find (\<lambda>x. ob_tool_name x = ''compare_runs'') (rev qs) = None"
    using assms by (auto simp: compare_history_def find_None_iff)
  then show ?thesis using assms by (simp add: latest_def find_append_None compare_history_def)
qed

lemma decide_from_evidence_finish:
  assumes "decide_from_evidence t obs regressions eps primary deltas = Inr (Finish f)"
  shows "fd_evidence_refs f = successful_evidence obs"
    and "fd_outcome f = REJECT \<and> primary < - eps \<or>
         fd_outcome f = ACCEPT \<and> regressions = [] \<and> (\<forall>d \<in> set deltas. \<not> d < - eps) \<and> eps < primary \<or>
         fd_outcome f = INCONCLUSIVE"
  using assms
  by (auto simp: decide_from_evidence_def finish_with_def Let_def split: if_splits)

text \<open>
  C7. The branching planner and the grounding policy agree. On the observations of its own plan (one
  comparison, then inspected queries of the task's Runs, each with its own reference), every finish
  of the planner is accepted by \<^verbatim>\<open>validate_finish_grounding\<close>, save the one discussed next.
\<close>

theorem branching_finish_grounded:
  assumes hist: "compare_history t obs"
    and dec: "branching_planner_decide (CompareTask t) obs = Inr (Finish f)"
    and valid: "fd_reason_code f \<noteq> ''comparison_evidence_invalid''"
  shows "validate_finish_grounding (CompareTask t) f obs = Inr ()"
proof -
  from hist obtain c qs where obs: "obs = c # qs" by (auto simp: compare_history_def split: list.splits)
  note latest = latest_compare [OF hist [unfolded obs]]
  let ?ok = "filter (\<lambda>x. ob_status x = Succeeded) obs"
  have dist: "distinct (successful_evidence obs)" using hist by (simp add: compare_history_def obs)
  have cited: "traverse (cite obs) (successful_evidence obs) = Inr ?ok"
    by (rule cite_all_successful) (use hist dist in \<open>auto simp: compare_history_def obs\<close>)
  have scope_q: "validate_observation_scope t q = Inr ()" if "q \<in> set qs" "ob_status q = Succeeded" for q
    using that hist by (auto simp: compare_history_def obs validate_observation_scope_def in_str_set_def Let_def)
  show ?thesis
  proof (cases "ob_status c")
    case Failed
    with dec latest have f: "f = \<lparr>fd_outcome = INCONCLUSIVE, fd_evidence_refs = successful_evidence obs,
        fd_reason_code = ''comparison_failed''\<rparr>"
      by (simp add: branching_planner_decide_def obs finish_with_def)
    have "traverse (validate_observation_scope t) ?ok = Inr (map (\<lambda>_. ()) ?ok)"
      by (rule traverse_Inr_map) (use Failed scope_q in \<open>auto simp: obs\<close>)
    with cited dist show ?thesis by (simp add: validate_finish_grounding_def f validate_direction_def)
  next
    case Succeeded
    obtain regressions eps primary deltas where
      ev: "comparison_evidence t (ob_payload c) = Inr (regressions, eps, primary, deltas)"
      and d: "decide_from_evidence t obs regressions eps primary deltas = Inr (Finish f)"
    proof (cases "comparison_evidence t (ob_payload c)")
      case (Inl e)
      with dec latest Succeeded valid show ?thesis
        by (auto simp: branching_planner_decide_def obs finish_with_def split: if_splits)
    next
      case (Inr v)
      with dec latest Succeeded that show ?thesis
        by (cases v) (auto simp: branching_planner_decide_def obs)
    qed
    note g = comparison_evidence_grounding [OF ev]
    note fin = decide_from_evidence_finish [OF d]
    have name: "ob_tool_name c = ''compare_runs''" using hist by (simp add: compare_history_def obs)
    have scope: "traverse (validate_observation_scope t) ?ok = Inr (map (\<lambda>_. ()) ?ok)"
      by (rule traverse_Inr_map)
         (use Succeeded scope_q g name in \<open>auto simp: obs validate_observation_scope_def\<close>)
    have cmp: "filter (\<lambda>x. ob_tool_name x = ''compare_runs'') ?ok = [c]"
      using hist Succeeded by (auto simp: compare_history_def obs filter_empty_conv)
    have dir: "validate_direction t (fd_outcome f) [c] = Inr ()"
    proof -
      have de: "delta_and_epsilon t c = Inr (primary, eps)" using g(2,3) by (simp add: delta_and_epsilon_def)
      from fin(2) show ?thesis
      proof (elim disjE conjE)
        assume "fd_outcome f = ACCEPT" "regressions = []" "\<forall>d \<in> set deltas. \<not> d < - eps" "eps < primary"
        with g(7) de show ?thesis by (simp add: validate_direction_def)
      qed (simp_all add: validate_direction_def de)
    qed
    have "require (distinct (successful_evidence obs)) (AgentPolicyError ''duplicate_evidence_reference'') = Inr ()"
      using dist by simp
    then show ?thesis
      unfolding validate_finish_grounding_def fin(1) cited ebind_simps runtime_task.case
      by (simp only: ebind_simps cited scope cmp dir runtime_task.case)
  qed
qed

lemma sample_history: "compare_history sample_agent_task [sample_observation d]"
  using sample_ref_ok by (simp add: compare_history_def sample_observation_def)

theorem branching_finish_grounded_witness:
  "branching_planner_decide (CompareTask sample_agent_task) [sample_observation (1 / 10)] = Inr (Finish sample_finish) \<and>
   validate_finish_grounding (CompareTask sample_agent_task) sample_finish [sample_observation (1 / 10)] = Inr ()"
proof -
  have dec: "branching_planner_decide (CompareTask sample_agent_task) [sample_observation (1 / 10)] = Inr (Finish sample_finish)"
    using sample_final_decision by (simp add: sample_task_def)
  have "fd_reason_code sample_finish \<noteq> ''comparison_evidence_invalid''" by (simp add: sample_finish_def)
  from branching_finish_grounded [OF sample_history dec this] dec show ?thesis by blast
qed





text \<open>
  C10. Guarded execution. A tool can act on the world only when the action is inside the task's scope,
  the tool is registered, its capability is allowed by the policy and its arguments validate.
\<close>

theorem tool_effects_authorised:
  assumes "snd (run_tool env task a obs w) \<noteq> w"
  shows "validate_action_scope task a obs = Inr () \<and>
    (\<exists>spec v. registry_get (re_tools env) (ta_tool_name a) = Some spec \<and>
       ts_capability spec \<in> set (rp_allowed_capabilities (re_policy env)) \<and>
       ts_input spec (ta_arguments a) = Some v)"
proof -
  from assms obtain u where scope: "validate_action_scope task a obs = Inr u"
    and run: "snd (execute (re_tools env) (rp_allowed_capabilities (re_policy env)) (ta_tool_name a) (ta_arguments a) w) \<noteq> w"
    by (auto simp: run_tool_def split: sum.splits prod.splits)
  with execute_world_unchanged show ?thesis by (metis (full_types) old.unit.exhaust)
qed

definition counting_tool :: "nat tool_spec" where
  "counting_tool =
     \<lparr>ts_name = ''compare_runs'', ts_capability = ''compare_smoke_runs'', ts_input = (\<lambda>d. Some (JObj d)),
      ts_output = Some, ts_handler = (\<lambda>_ n. (Inl RuntimeError, n + 1))\<rparr>"

definition counting_env :: "nat runtime_env" where
  "counting_env =
     \<lparr>re_codec = sample_codec, re_planner_id = ''fake-branching-v1'', re_requires_audit = False,
      re_decide = (\<lambda>_ w. (Inr RawOther, w)), re_take_audit = None, re_tools = [counting_tool],
      re_policy = default_policy, re_elapsed = (\<lambda>w. (0, w)), re_now = (\<lambda>w. ([], w)), re_store = (\<lambda>_. None)\<rparr>"

theorem tool_effects_authorised_witness:
  "snd (run_tool counting_env sample_task sample_action [] 0) = 1 \<and>
   validate_action_scope sample_task sample_action [] = Inr ()"
proof -
  have eff: "snd (run_tool counting_env sample_task sample_action [] 0) = 1"
    by (simp add: run_tool_def validate_action_scope_def sample_task_def compare_action_scope_def sample_action_def
        sample_agent_task_def dget_def counting_env_def execute_def registry_get_def counting_tool_def default_policy_def)
  then have "snd (run_tool counting_env sample_task sample_action [] 0) \<noteq> 0" by simp
  from tool_effects_authorised [OF this] eff show ?thesis by blast
qed




text \<open>
  C12. The fixed plan only ends on proof. When the plan prescribes a finish, PROPOSAL_READY selects the best
  experiment that passed all gates, NO_SAFE_IMPROVEMENT comes after all three candidates were tested
  and failed, INCONCLUSIVE after a failed observation, and no other outcome exists.
\<close>

theorem fixed_plan_finish_sound:
  assumes "expected_retrieval_decision task obs = Inr (Finish f)"
  shows "let es = decoded_experiments obs in
    (fd_outcome f = PROPOSAL_READY \<and>
       (\<exists>e. best_passing es e \<and> fd_reason_code f = fixed_finish_reason (cp_pipeline_variant e)) \<or>
     fd_outcome f = NO_SAFE_IMPROVEMENT \<and> map cp_pipeline_variant es = RETRIEVAL_PIPELINE_VARIANTS \<and>
       (\<forall>e \<in> set es. \<not> gs_passed (cp_gate e)) \<or>
     fd_outcome f = INCONCLUSIVE \<and> ob_status (last obs) = Failed)"
  using expected_decision_cases(3) [OF assms refl]
  by (cases "fd_outcome f") (auto simp: grounded_terminal_def Let_def)

theorem fixed_plan_finish_sound_witness:
  "\<exists>e. best_passing (decoded_experiments [baseline_observation, candidate_observation]) e \<and>
     cp_pipeline_variant e = UNIFORM_VARIANT"
  using fixed_plan_finish_sound [OF sample_fixed_plan]
  by (auto simp: Let_def fixed_finish_reason_def split: if_splits)

text \<open>
  C13. The fixed plan terminates: a history it accepts has at most five observations, and at most four
  while it still asks for a tool. Anything longer is refused with \<^verbatim>\<open>ValueError\<close>.
\<close>

theorem fixed_plan_bounded:
  "case expected_retrieval_decision task obs of
     Inr (Tool a) \<Rightarrow> length obs \<le> 4
   | Inr (Finish f) \<Rightarrow> length obs \<le> 5
   | Inl e \<Rightarrow> e = ValueError"
  using expected_decision_cases(1,2) [of task obs] expected_decision_ValueError [of task obs]
  by (auto split: sum.splits agent_decision.splits)

text \<open>
  C14. The option set of the adaptive policy is safe to hand to an LLM: at most four options with distinct
  ids, no two with equal decisions, each resolved back to itself, and every finish among them
  follows from the observed experiments.
\<close>

theorem adaptive_options_sound:
  assumes "derive_adaptive_retrieval_options task obs = Inr opts"
  shows "length opts \<le> 4 \<and> distinct (map do_option_id opts) \<and>
    (\<forall>opt \<in> set opts. option_for_adaptive_decision task obs (do_decision opt) = Inr opt) \<and>
    (\<forall>opt \<in> set opts. \<forall>f. do_decision opt = Finish f \<longrightarrow> grounded_option obs f)"
  using derive_options_unambiguous(1,2) [OF assms] option_for_own_decision [OF assms]
    adaptive_finish_grounded [OF assms]
  by blast

theorem adaptive_options_sound_witness:
  "\<exists>opts. derive_adaptive_retrieval_options (sample_retrieval_task Adaptive_llm_v1)
       [baseline_observation, candidate_observation] = Inr opts \<and> length opts = 3 \<and> distinct (map do_option_id opts)"
proof -
  obtain opts where opts: "derive_adaptive_retrieval_options (sample_retrieval_task Adaptive_llm_v1)
       [baseline_observation, candidate_observation] = Inr opts"
    and ids: "map do_option_id opts =
      [''run_conservative_candidate'', ''run_aggressive_candidate'', ''finish_best_passing_candidate'']"
    using sample_adaptive_options by (auto split: sum.splits)
  from ids have "length opts = 3" by (metis length_map length_Cons list.size(3) numeral_3_eq_3)
  with adaptive_options_sound [OF opts] opts show ?thesis by blast
qed

text \<open>
  C15. An adaptive finish that grounding accepts is one of the offered ones, so it selects the best passing
  experiment or follows the failure of all three candidates.
\<close>

theorem adaptive_finish_sound:
  assumes "validate_finish_grounding (RetrievalTask task) f obs = Inr ()"
    and "rt_decision_policy task = Adaptive_llm_v1"
  shows "grounded_option obs f"
proof -
  from assms obtain opt where opt: "option_for_adaptive_decision task obs (Finish f) = Inr opt"
    by (auto simp: validate_finish_grounding_def retrieval_finish_grounding_def)
  from option_for_adaptive_decision_sound [OF opt] obtain opts where
    "derive_adaptive_retrieval_options task obs = Inr opts" "opt \<in> set opts" "decision_eq (do_decision opt) (Finish f)"
    by blast
  then show ?thesis by (intro adaptive_finish_grounded) (simp_all add: decision_eq_kind)
qed

lemma sample_adaptive_finish:
  "validate_finish_grounding (RetrievalTask (sample_retrieval_task Adaptive_llm_v1))
     \<lparr>fd_outcome = PROPOSAL_READY, fd_evidence_refs = [baseline_ref, candidate_ref],
      fd_reason_code = ''llm_uniform_candidate_selected''\<rparr> [baseline_observation, candidate_observation] = Inr ()"
  by code_simp

theorem adaptive_finish_sound_witness:
  "\<exists>e. best_passing (decoded_experiments [baseline_observation, candidate_observation]) e"
  using adaptive_finish_sound [OF sample_adaptive_finish]
  by (auto simp: grounded_option_def sample_retrieval_task_def Let_def)

text \<open>
  C16. A candidate summary that decodes and claims to have passed is safe: its own aggregate and risk
  figures satisfy every trusted bound, up to the tolerance of 1e-12 with which the gates are checked
  against the summary, and it recommends a review by the owner.
\<close>

theorem passed_candidate_is_safe:
  assumes "decode_candidate_output ref payload = Some p" and "gs_passed (cp_gate p)"
  shows "let d = cp_aggregate_deltas p; r = cp_risk p; tol = float_1e_12 in
    - tol < cd_recall_union_coverage d \<and> 0 \<le> cr_unique_relevant_contribution r \<and>
    (\<forall>s \<in> {cd_fusion d, cd_coarse_rank d}.
       - tol \<le> sm_judged_recall_at_10 s \<and> - tol \<le> sm_ndcg_at_10 s \<and> - tol \<le> sm_mrr_at_10 s) \<and>
    float_m0_02 - tol \<le> cr_worst_coarse_query_ndcg_at_10_delta r \<and>
    float_m0_02 - tol \<le> cr_worst_fusion_query_ndcg_at_10_delta r \<and>
    cr_coarse_regressed_query_rate r \<le> float_0_1 + tol \<and>
    cr_fusion_regressed_query_rate r \<le> float_0_1 + tol \<and>
    cp_recommendation p = ''review_candidate'' \<and> cp_next_action p = ''request_owner_review''"
proof -
  note gate = passed_gate [OF assms]
  have ok: "cross_field_evidence_ok p"
    using assms(1) decode_candidate_output_payload decode_candidate_payload_ok by blast
  have more: "0 - float_1e_12 < x" if "map_of (gate_observations p) n = Some x" "map_of GATE_POLICY n = Some (''>'', 0)" for n x
    using gate [OF that(2,1)] by (auto simp: compare_by_def)
  have least: "t - float_1e_12 \<le> x" if "map_of (gate_observations p) n = Some x" "map_of GATE_POLICY n = Some (''>='', t)" for n x t
    using gate [OF that(2,1)] by (auto simp: compare_by_def)
  have most: "x \<le> t + float_1e_12" if "map_of (gate_observations p) n = Some x" "map_of GATE_POLICY n = Some (''<='', t)" for n x t
    using gate [OF that(2,1)] by (auto simp: compare_by_def)
  note lookups = gate_observations_def GATE_POLICY_def Let_def
  have tol: "0 < float_1e_12" by (simp add: float_1e_12_def)
  have u: "0 - float_1e_12 < of_int (cr_unique_relevant_contribution (cp_risk p))"
    by (rule more [of "''unique_relevant_contribution''"]) (simp_all add: lookups)
  have "float_1e_12 < 1" by (simp add: float_1e_12_def)
  with u have "of_int (- 1) < (of_int (cr_unique_relevant_contribution (cp_risk p)) :: rat)" by simp
  then have unique: "0 \<le> cr_unique_relevant_contribution (cp_risk p)" unfolding of_int_less_iff by simp
  show ?thesis
    unfolding Let_def
    using unique more [of "''union_coverage_improvement''"] ok assms(2)
     least [of "''fusion_recall_at_10_floor''"] least [of "''fusion_ndcg_at_10_floor''"] least [of "''fusion_mrr_at_10_floor''"] 
     least [of "''coarse_recall_at_10_floor''"] least [of "''coarse_ndcg_at_10_floor''"] least [of "''coarse_mrr_at_10_floor''"]
     least [of "''worst_query_coarse_ndcg_delta_floor''"] least [of "''worst_query_fusion_ndcg_delta_floor''"]
     most [of "''regressed_query_rate_ceiling''"] most [of "''fusion_regressed_query_rate_ceiling''"]
    by (simp add: lookups cross_field_evidence_ok_def)
qed

theorem passed_candidate_is_safe_witness:
  "\<exists>p. decode_candidate_output (Some candidate_ref) candidate_dict = Some p \<and>
     - float_1e_12 < cd_recall_union_coverage (cp_aggregate_deltas p)"
proof -
  obtain p where p: "decode_candidate_output (Some candidate_ref) candidate_dict = Some p" "gs_passed (cp_gate p)"
    using sample_candidate_passes by (auto split: option.splits)
  from passed_candidate_is_safe [OF p] p show ?thesis by (auto simp: Let_def)
qed




end
