(* ===== verification/TextTokens.thy ===== *)
theory TextTokens
  imports Prelude
begin

text \<open>
  \<^verbatim>\<open>src/search_quality/text.py\<close> and the parts of \<^verbatim>\<open>str\<close> it rests on. A text is its list of
  Unicode code points. \<open>word_char\<close> is the character class \<^verbatim>\<open>[a-z0-9]\<close> under \<^verbatim>\<open>re.IGNORECASE\<close>: the
  62 ASCII characters and the four non-ASCII ones whose case folding is an ASCII letter. \<open>tokenize\<close>
  returns the maximal runs of such characters, lower-cased. The lemmas characterise the tokens
  and show that tokenising the joined tokens again changes nothing.
\<close>

type_synonym ustring = "nat list"

definition ascii_lower :: "nat \<Rightarrow> bool" where
  "ascii_lower c = (97 \<le> c \<and> c \<le> 122)"

definition ascii_upper :: "nat \<Rightarrow> bool" where
  "ascii_upper c = (65 \<le> c \<and> c \<le> 90)"

definition ascii_digit :: "nat \<Rightarrow> bool" where
  "ascii_digit c = (48 \<le> c \<and> c \<le> 57)"

definition word_char :: "nat \<Rightarrow> bool" where
  "word_char c =
     (ascii_lower c \<or> ascii_upper c \<or> ascii_digit c \<or>
      c = 0x130 \<or> c = 0x131 \<or> c = 0x17F \<or> c = 0x212A)"

text \<open>\<^verbatim>\<open>str.lower\<close> on the characters a token can hold; the dotted capital I becomes two characters.\<close>

definition lower_char :: "nat \<Rightarrow> ustring" where
  "lower_char c =
     (if ascii_upper c then [c + 32]
      else if c = 0x130 then [105, 0x307]
      else if c = 0x212A then [107]
      else [c])"

text \<open>The maximal runs of word characters.\<close>

fun runs :: "ustring \<Rightarrow> ustring \<Rightarrow> ustring list" where
  "runs acc [] = (if acc = [] then [] else [acc])"
| "runs acc (c # cs) =
     (if word_char c then runs (acc @ [c]) cs
      else if acc = [] then runs [] cs
      else acc # runs [] cs)"

definition tokenize :: "ustring \<Rightarrow> ustring list" where
  "tokenize t = map (\<lambda>m. concat (map lower_char m)) (runs [] t)"

text \<open>\<^verbatim>\<open>str.strip\<close>\<close>

definition whitespace :: "nat \<Rightarrow> bool" where
  "whitespace c =
     (9 \<le> c \<and> c \<le> 13 \<or> 28 \<le> c \<and> c \<le> 32 \<or> c = 0x85 \<or> c = 0xA0 \<or> c = 0x1680 \<or>
      0x2000 \<le> c \<and> c \<le> 0x200A \<or> c = 0x2028 \<or> c = 0x2029 \<or> c = 0x202F \<or> c = 0x205F \<or> c = 0x3000)"

definition strip :: "ustring \<Rightarrow> ustring" where
  "strip t = rev (dropWhile whitespace (rev (dropWhile whitespace t)))"

text \<open>\<^verbatim>\<open>" ".join(tokens)\<close>\<close>

fun join_space :: "ustring list \<Rightarrow> ustring" where
  "join_space [] = []"
| "join_space [t] = t"
| "join_space (t # ts) = t @ 32 # join_space ts"

text \<open>\<^verbatim>\<open>needle in haystack\<close> on strings.\<close>

fun substring :: "ustring \<Rightarrow> ustring \<Rightarrow> bool" where
  "substring p [] = (p = [])"
| "substring p (c # cs) = (take (length p) (c # cs) = p \<or> substring p cs)"

subsection \<open>Tokens\<close>

lemma runs_word: "list_all word_char acc \<Longrightarrow> m \<in> set (runs acc t) \<Longrightarrow> m \<noteq> [] \<and> list_all word_char m"
  by (induction acc t rule: runs.induct) (auto split: if_splits)

lemma tokenize_nonempty: "m \<in> set (tokenize t) \<Longrightarrow> m \<noteq> []"
proof -
  assume "m \<in> set (tokenize t)"
  then obtain r where r: "r \<in> set (runs [] t)" "m = concat (map lower_char r)"
    by (auto simp: tokenize_def)
  moreover have "r \<noteq> []" using runs_word [of "[]" r t] r by simp
  moreover have "lower_char c \<noteq> []" for c by (simp add: lower_char_def)
  ultimately show ?thesis by (cases r) auto
qed

text \<open>The characters of a token: lower-case ASCII, digits and three further code points.\<close>

definition token_char :: "nat \<Rightarrow> bool" where
  "token_char c = (ascii_lower c \<or> ascii_digit c \<or> c = 0x307 \<or> c = 0x131 \<or> c = 0x17F)"

lemma lower_char_token: "word_char c \<Longrightarrow> list_all token_char (lower_char c)"
  by (auto simp: word_char_def lower_char_def token_char_def ascii_lower_def ascii_upper_def ascii_digit_def)

lemma tokenize_chars: "m \<in> set (tokenize t) \<Longrightarrow> list_all token_char m"
  using lower_char_token runs_word [of "[]" _ t]
  by (fastforce simp: tokenize_def list_all_iff)

text \<open>Runs of a text whose prefix has no break, and runs across a break.\<close>

lemma runs_append_word: "list_all word_char m \<Longrightarrow> runs acc (m @ t) = runs (acc @ m) t"
  by (induction m arbitrary: acc) auto

lemma runs_break:
  "\<not> word_char c \<Longrightarrow> runs acc (c # t) = (if acc = [] then [] else [acc]) @ runs [] t"
  by simp

lemma runs_join:
  assumes "\<forall>m \<in> set ms. m \<noteq> [] \<and> list_all word_char m"
  shows "runs [] (join_space ms) = ms"
  using assms
proof (induction ms rule: join_space.induct)
  case (2 t)
  then show ?case using runs_append_word [of t "[]" "[]"] by simp
next
  case (3 t u us)
  have "\<not> word_char 32" by (simp add: word_char_def ascii_lower_def ascii_upper_def ascii_digit_def)
  with 3 runs_append_word [of t "[]" "32 # join_space (u # us)"] show ?case by simp
qed simp

lemma lower_char_fixed: "token_char c \<Longrightarrow> c \<noteq> 0x307 \<Longrightarrow> word_char c \<and> lower_char c = [c]"
  by (auto simp: word_char_def lower_char_def token_char_def ascii_lower_def ascii_upper_def ascii_digit_def)

lemma concat_lower_fixed:
  "list_all (\<lambda>c. lower_char c = [c]) m \<Longrightarrow> concat (map lower_char m) = m"
  by (induction m) auto

lemma tokenize_join:
  assumes "\<forall>m \<in> set ms. m \<noteq> [] \<and> list_all token_char m \<and> 0x307 \<notin> set m"
  shows "tokenize (join_space ms) = ms"
proof -
  have w: "\<forall>m \<in> set ms. m \<noteq> [] \<and> list_all word_char m" and l: "\<forall>m \<in> set ms. list_all (\<lambda>c. lower_char c = [c]) m"
    using assms lower_char_fixed by (auto simp: list_all_iff)
  have "tokenize (join_space ms) = map (\<lambda>m. concat (map lower_char m)) ms"
    using runs_join [OF w] by (simp add: tokenize_def)
  also have "\<dots> = ms" using l concat_lower_fixed by (simp add: map_idI)
  finally show ?thesis .
qed

lemma lower_char_dot: "0x307 \<in> set (lower_char c) \<Longrightarrow> word_char c \<Longrightarrow> c = 0x130"
  by (auto simp: lower_char_def word_char_def ascii_lower_def ascii_upper_def ascii_digit_def split: if_splits)

lemma runs_subset: "m \<in> set (runs acc t) \<Longrightarrow> set m \<subseteq> set acc \<union> set t"
  by (induction acc t rule: runs.induct) (fastforce split: if_splits)+

lemma tokenize_no_dot:
  assumes "0x130 \<notin> set t" and "m \<in> set (tokenize t)"
  shows "0x307 \<notin> set m"
proof
  assume dot: "0x307 \<in> set m"
  from assms(2) obtain r where r: "r \<in> set (runs [] t)" "m = concat (map lower_char r)"
    by (auto simp: tokenize_def)
  with dot obtain c where c: "c \<in> set r" "0x307 \<in> set (lower_char c)" by auto
  from r(1) runs_word [of "[]" r t] c(1) have "word_char c" by (auto simp: list_all_iff)
  with c(2) have "c = 0x130" by (intro lower_char_dot)
  moreover have "c \<in> set t" using runs_subset [OF r(1)] c(1) by auto
  ultimately show False using assms(1) by simp
qed

subsection \<open>Stripping\<close>

lemma dropWhile_idem: "dropWhile P (dropWhile P xs) = dropWhile P xs"
  by (induction xs) auto

lemma strip_empty_iff: "strip t = [] \<longleftrightarrow> list_all whitespace t"
  by (auto simp: strip_def dropWhile_eq_Nil_conv list_all_iff dest: set_dropWhileD)
     (metis dropWhile_eq_Nil_conv dropWhile_idem hd_dropWhile hd_in_set)

lemma strip_strip [simp]: "strip (strip t) = strip t"
proof -
  let ?u = "dropWhile whitespace t"
  have front: "dropWhile whitespace (rev (dropWhile whitespace (rev ?u))) = rev (dropWhile whitespace (rev ?u))"
  proof (cases "rev (dropWhile whitespace (rev ?u))")
    case (Cons a v)
    obtain w where "?u = rev (dropWhile whitespace (rev ?u)) @ w"
      by (metis rev_append rev_rev_ident takeWhile_dropWhile_id)
    with Cons have "?u = a # v @ w" by simp
    then have "\<not> whitespace a" by (metis dropWhile_eq_Cons_conv)
    with Cons show ?thesis by simp
  next
    case Nil
    show ?thesis unfolding Nil by simp
  qed
  show ?thesis unfolding strip_def front by (simp add: dropWhile_idem)
qed

end
