(* ===== verification/Ranking.thy ===== *)
theory Ranking
  imports TextTokens Codec "HOL-Library.Multiset"
begin

text \<open>
  \<^verbatim>\<open>src/search_quality/ranking/base.py\<close>, \<^verbatim>\<open>baselines.py\<close> and \<^verbatim>\<open>bm25.py\<close>: the candidate-set
  rankers. A ranker object is a record of what its constructor keeps; \<open>*_init\<close> is the constructor
  with its checks, \<open>*_rank\<close> the \<^verbatim>\<open>rank\<close> method. Scores are real numbers: the rounding of the
  source's double arithmetic is not modelled, its operations are.
  The locale \<open>candidate_ranker\<close> is the contract the Evaluation Harness relies on
  (\<^verbatim>\<open>CandidateRanker\<close>); it is interpreted on all four rankers.
\<close>

type_synonym product_key = "ustring \<times> ustring"

record candidate_product =
  pd_locale :: ustring
  pd_product_id :: ustring
  pd_title :: ustring

definition candidate_product_init :: "ustring \<Rightarrow> ustring \<Rightarrow> ustring \<Rightarrow> exn + candidate_product" where
  "candidate_product_init locale product_id title =
     ebind (require (strip locale \<noteq> []) ValueError) (\<lambda>_.
     ebind (require (strip product_id \<noteq> []) ValueError) (\<lambda>_.
     ebind (require (strip title \<noteq> []) ValueError) (\<lambda>_.
     Inr \<lparr>pd_locale = locale, pd_product_id = product_id, pd_title = title\<rparr>)))"

definition product_key_of :: "candidate_product \<Rightarrow> product_key" where
  "product_key_of p = (pd_locale p, pd_product_id p)"

record ranked_product =
  rk_locale :: ustring
  rk_product_id :: ustring
  rk_score :: real
  rk_rank :: nat

definition ranked_key :: "ranked_product \<Rightarrow> product_key" where
  "ranked_key p = (rk_locale p, rk_product_id p)"

definition validate_candidate_products :: "candidate_product list \<Rightarrow> exn + candidate_product list" where
  "validate_candidate_products ps =
     ebind (require (ps \<noteq> []) ValueError) (\<lambda>_.
     ebind (require (distinct (map product_key_of ps)) ValueError) (\<lambda>_. Inr ps))"

text \<open>\<^verbatim>\<open>scored.sort(key=lambda item: (-item[1], item[0]))\<close>\<close>

definition sort_scored :: "(product_key \<times> real) list \<Rightarrow> (product_key \<times> real) list" where
  "sort_scored scored = sort_key (\<lambda>item. (- snd item, fst item)) scored"

definition to_ranked_products :: "(product_key \<times> real) list \<Rightarrow> ranked_product list" where
  "to_ranked_products scored =
     map (\<lambda>(rank, key, score).
            \<lparr>rk_locale = fst key, rk_product_id = snd key, rk_score = score, rk_rank = rank\<rparr>)
       (enumerate 1 scored)"

subsection \<open>The keyword-overlap and random comparators\<close>

record overlap_ranker =
  or_title_terms :: "(product_key \<times> ustring set) list"

definition overlap_init :: "candidate_product list \<Rightarrow> exn + overlap_ranker" where
  "overlap_init products =
     ebind (validate_candidate_products products) (\<lambda>candidates.
     Inr \<lparr>or_title_terms = map (\<lambda>p. (product_key_of p, set (tokenize (pd_title p)))) candidates\<rparr>)"

definition overlap_score :: "overlap_ranker \<Rightarrow> ustring \<Rightarrow> ustring set \<Rightarrow> real" where
  "overlap_score r query title_terms = real (card (set (tokenize query) \<inter> title_terms))"

definition overlap_rank :: "overlap_ranker \<Rightarrow> ustring \<Rightarrow> exn + ranked_product list" where
  "overlap_rank r query =
     (if strip query = [] then Inl ValueError
      else Inr (to_ranked_products (sort_scored
             (map (\<lambda>(key, terms). (key, overlap_score r query terms)) (or_title_terms r)))))"

definition overlap_config :: dict where
  "overlap_config =
     [(''analyzer_id'', JStr ''ascii-alnum-lower-v1''), (''document_terms'', JStr ''deduplicated''),
      (''field'', JStr ''product_title''), (''query_terms'', JStr ''deduplicated''),
      (''ranker_id'', JStr ''candidate-title-keyword-overlap-v1''),
      (''score'', JStr ''unique_query_title_token_intersection_count''),
      (''tie_break'', JStr ''product_locale_product_id_ascending'')]"

text \<open>UTF-8; a lone surrogate has no encoding.\<close>

definition utf8_char :: "nat \<Rightarrow> exn + string" where
  "utf8_char c =
     (if 0xD800 \<le> c \<and> c \<le> 0xDFFF then Inl ValueError
      else if c < 0x80 then Inr [char_of c]
      else if c < 0x800 then Inr [char_of (0xC0 + c div 64), char_of (0x80 + c mod 64)]
      else if c < 0x10000 then
        Inr [char_of (0xE0 + c div 4096), char_of (0x80 + c div 64 mod 64), char_of (0x80 + c mod 64)]
      else Inr [char_of (0xF0 + c div 262144), char_of (0x80 + c div 4096 mod 64),
                char_of (0x80 + c div 64 mod 64), char_of (0x80 + c mod 64)])"

definition utf8 :: "ustring \<Rightarrow> exn + string" where
  "utf8 t = ebind (traverse utf8_char t) (\<lambda>bs. Inr (concat bs))"

definition hex_digit_value :: "char \<Rightarrow> nat" where
  "hex_digit_value c = (let n = of_char c :: nat in if n \<le> 57 then n - 48 else n - 87)"

text \<open>The first eight digest bytes as a big-endian number.\<close>

definition hex_value :: "string \<Rightarrow> nat" where
  "hex_value s = foldl (\<lambda>acc c. 16 * acc + hex_digit_value c) 0 s"

record random_ranker =
  rr_seed :: int
  rr_product_keys :: "product_key list"

definition random_init :: "candidate_product list \<Rightarrow> json \<Rightarrow> exn + random_ranker" where
  "random_init products seed =
     (case seed of
        JInt i \<Rightarrow>
          ebind (require (0 \<le> i) ValueError) (\<lambda>_.
          ebind (validate_candidate_products products) (\<lambda>candidates.
          Inr \<lparr>rr_seed = i, rr_product_keys = map product_key_of candidates\<rparr>))
      | _ \<Rightarrow> Inl TypeError)"

definition random_score :: "codec \<Rightarrow> random_ranker \<Rightarrow> ustring \<Rightarrow> product_key \<Rightarrow> exn + real" where
  "random_score c r query key =
     ebind (utf8 query) (\<lambda>q. ebind (utf8 (fst key)) (\<lambda>l. ebind (utf8 (snd key)) (\<lambda>p.
     let canonical = cd_ser c (JList [JStr ''sha256-canonical-json-first-53-bits-v1'', JInt (rr_seed r),
                                      JStr q, JStr l, JStr p]);
         mantissa = hex_value (take 16 (cd_sha c canonical)) div 2 ^ (64 - 53)
     in Inr (real mantissa / real (2 ^ 53 - 1)))))"

definition random_rank :: "codec \<Rightarrow> random_ranker \<Rightarrow> ustring \<Rightarrow> exn + ranked_product list" where
  "random_rank c r query =
     (let normalized = strip query in
      if normalized = [] then Inl ValueError
      else ebind (traverse (\<lambda>key. ebind (random_score c r normalized key) (\<lambda>s. Inr (key, s)))
                    (rr_product_keys r)) (\<lambda>scored.
           Inr (to_ranked_products (sort_scored scored))))"

definition random_config :: "random_ranker \<Rightarrow> dict" where
  "random_config r =
     [(''hash_algorithm'', JStr ''sha256-canonical-json-first-53-bits-v1''), (''hash_bits'', JInt 53),
      (''query_identity'', JStr ''stripped_query_text_utf8''), (''ranker_id'', JStr ''candidate-random-v1''),
      (''seed'', JInt (rr_seed r)), (''tie_break'', JStr ''product_locale_product_id_ascending'')]"

subsection \<open>BM25 over the titles of the candidates\<close>

record bm25_index =
  bm_k1 :: rat
  bm_b :: rat
  bm_tokens :: "(product_key \<times> ustring list) list"
  bm_corpus_size :: nat
  bm_average_length :: real

definition bm25_parameters :: "pyfloat \<Rightarrow> pyfloat \<Rightarrow> exn + rat \<times> rat" where
  "bm25_parameters k1 b =
     (case k1 of
        Fin r \<Rightarrow>
          ebind (require (0 < r) ValueError) (\<lambda>_.
          case b of
            Fin s \<Rightarrow> ebind (require (0 \<le> s \<and> s \<le> 1) ValueError) (\<lambda>_. Inr (r, s))
          | _ \<Rightarrow> Inl ValueError)
      | _ \<Rightarrow> Inl ValueError)"

definition average_length :: "nat list \<Rightarrow> real" where
  "average_length lengths = max (real (sum_list lengths) / real (length lengths)) 1"

definition bm25_index_of :: "rat \<Rightarrow> rat \<Rightarrow> (product_key \<times> ustring) list \<Rightarrow> bm25_index" where
  "bm25_index_of k1 b titles =
     (let token_lists = map (\<lambda>(key, title). (key, tokenize title)) titles in
      \<lparr>bm_k1 = k1, bm_b = b, bm_tokens = token_lists, bm_corpus_size = length titles,
       bm_average_length = average_length (map (\<lambda>p. length (snd p)) token_lists)\<rparr>)"

definition bm25_init :: "candidate_product list \<Rightarrow> pyfloat \<Rightarrow> pyfloat \<Rightarrow> exn + bm25_index" where
  "bm25_init products k1 b =
     ebind (bm25_parameters k1 b) (\<lambda>kb.
     ebind (validate_candidate_products products) (\<lambda>candidates.
     Inr (bm25_index_of (fst kb) (snd kb) (map (\<lambda>p. (product_key_of p, pd_title p)) candidates))))"

definition document_tokens :: "bm25_index \<Rightarrow> product_key \<Rightarrow> ustring list" where
  "document_tokens r key = (case map_of (bm_tokens r) key of None \<Rightarrow> [] | Some ts \<Rightarrow> ts)"

definition document_frequency :: "bm25_index \<Rightarrow> ustring \<Rightarrow> nat" where
  "document_frequency r t = length (filter (\<lambda>p. t \<in> set (snd p)) (bm_tokens r))"

definition inverse_document_frequency :: "nat \<Rightarrow> nat \<Rightarrow> real" where
  "inverse_document_frequency n df = ln (1 + (real n - real df + 1 / 2) / (real df + 1 / 2))"

definition bm25_term :: "bm25_index \<Rightarrow> ustring list \<Rightarrow> ustring \<Rightarrow> real" where
  "bm25_term r tokens t =
     (let frequency = real (count_list tokens t); k1 = of_rat (bm_k1 r); b = of_rat (bm_b r);
          normalization = 1 - b + b * real (length tokens) / bm_average_length r
      in inverse_document_frequency (bm_corpus_size r) (document_frequency r t) *
           (frequency * (k1 + 1) / (frequency + k1 * normalization)))"

definition bm25_score :: "bm25_index \<Rightarrow> ustring list \<Rightarrow> product_key \<Rightarrow> real" where
  "bm25_score r query_terms key =
     (let tokens = document_tokens r key in
      foldl (\<lambda>score t. if count_list tokens t = 0 then score else score + bm25_term r tokens t) 0 query_terms)"

definition rank_by ::
    "(ustring list \<Rightarrow> product_key \<Rightarrow> real) \<Rightarrow> product_key list \<Rightarrow> ustring \<Rightarrow> exn + ranked_product list" where
  "rank_by score keys query =
     (if strip query = [] then Inl ValueError
      else let query_terms = nub (tokenize query) in
           Inr (to_ranked_products (sort_scored (map (\<lambda>key. (key, score query_terms key)) keys))))"

definition bm25_rank :: "bm25_index \<Rightarrow> ustring \<Rightarrow> exn + ranked_product list" where
  "bm25_rank r = rank_by (bm25_score r) (map fst (bm_tokens r))"

definition bm25_config :: "bm25_index \<Rightarrow> dict" where
  "bm25_config r =
     [(''analyzer_id'', JStr ''ascii-alnum-lower-v1''), (''b'', JFloat (Fin (bm_b r))),
      (''field'', JStr ''product_title''), (''idf_scope'', JStr ''per_query_judged_candidates''),
      (''k1'', JFloat (Fin (bm_k1 r))), (''query_terms'', JStr ''deduplicated''),
      (''ranker_id'', JStr ''candidate-title-bm25-v1''),
      (''tie_break'', JStr ''product_locale_product_id_ascending'')]"

subsection \<open>BM25 with exact-match boosts\<close>

record boost_ranker =
  bo_index :: bm25_index
  bo_coverage :: rat
  bo_numeric :: rat
  bo_phrase :: rat

definition boost_parameter :: "pyfloat \<Rightarrow> exn + rat" where
  "boost_parameter v =
     (case v of Fin r \<Rightarrow> ebind (require (0 \<le> r) ValueError) (\<lambda>_. Inr r) | _ \<Rightarrow> Inl ValueError)"

definition boost_init ::
    "candidate_product list \<Rightarrow> pyfloat \<Rightarrow> pyfloat \<Rightarrow> pyfloat \<Rightarrow> pyfloat \<Rightarrow> pyfloat \<Rightarrow> exn + boost_ranker" where
  "boost_init products coverage numeric phrase k1 b =
     ebind (boost_parameter coverage) (\<lambda>cb.
     ebind (boost_parameter numeric) (\<lambda>nb.
     ebind (boost_parameter phrase) (\<lambda>pb.
     ebind (bm25_init products k1 b) (\<lambda>index.
     Inr \<lparr>bo_index = index, bo_coverage = cb, bo_numeric = nb, bo_phrase = pb\<rparr>))))"

definition has_digit :: "ustring \<Rightarrow> bool" where
  "has_digit t = list_ex ascii_digit t"

definition coverage_part :: "boost_ranker \<Rightarrow> ustring list \<Rightarrow> ustring list \<Rightarrow> real" where
  "coverage_part r query_terms tokens =
     (let query_set = set query_terms in
      if query_set = {} then 0
      else of_rat (bo_coverage r) * (real (card (query_set \<inter> set tokens)) / real (card query_set)))"

definition numeric_part :: "boost_ranker \<Rightarrow> ustring list \<Rightarrow> ustring list \<Rightarrow> real" where
  "numeric_part r query_terms tokens =
     (let numeric_terms = filter has_digit query_terms in
      if numeric_terms = [] then 0
      else of_rat (bo_numeric r) *
             (real (length (filter (\<lambda>t. t \<in> set tokens) numeric_terms)) / real (length numeric_terms)))"

definition phrase_part :: "boost_ranker \<Rightarrow> ustring list \<Rightarrow> ustring list \<Rightarrow> real" where
  "phrase_part r query_terms tokens =
     (if query_terms \<noteq> [] \<and> substring (join_space query_terms) (join_space tokens)
      then of_rat (bo_phrase r) else 0)"

definition boost_score :: "boost_ranker \<Rightarrow> ustring list \<Rightarrow> product_key \<Rightarrow> real" where
  "boost_score r query_terms key =
     (let tokens = document_tokens (bo_index r) key in
      bm25_score (bo_index r) query_terms key + coverage_part r query_terms tokens +
      numeric_part r query_terms tokens + phrase_part r query_terms tokens)"

definition boost_rank :: "boost_ranker \<Rightarrow> ustring \<Rightarrow> exn + ranked_product list" where
  "boost_rank r = rank_by (boost_score r) (map fst (bm_tokens (bo_index r)))"

definition boost_config :: "boost_ranker \<Rightarrow> dict" where
  "boost_config r =
     [(''analyzer_id'', JStr ''ascii-alnum-lower-v1''), (''b'', JFloat (Fin (bm_b (bo_index r)))),
      (''coverage_boost'', JFloat (Fin (bo_coverage r))), (''field'', JStr ''product_title''),
      (''idf_scope'', JStr ''per_query_judged_candidates''), (''k1'', JFloat (Fin (bm_k1 (bo_index r)))),
      (''numeric_boost'', JFloat (Fin (bo_numeric r))), (''phrase_boost'', JFloat (Fin (bo_phrase r))),
      (''query_terms'', JStr ''deduplicated''), (''ranker_id'', JStr ''candidate-title-bm25-exact-boost-v1''),
      (''score'', JStr ''title_bm25_plus_query_coverage_numeric_and_phrase_boosts''),
      (''tie_break'', JStr ''product_locale_product_id_ascending'')]"

subsection \<open>The ranker contract\<close>

lemma to_ranked_products_length [simp]: "length (to_ranked_products xs) = length xs"
  by (simp add: to_ranked_products_def)

lemma to_ranked_products_nth:
  "i < length xs \<Longrightarrow> to_ranked_products xs ! i =
     \<lparr>rk_locale = fst (fst (xs ! i)), rk_product_id = snd (fst (xs ! i)), rk_score = snd (xs ! i), rk_rank = i + 1\<rparr>"
  by (simp add: to_ranked_products_def nth_enumerate_eq case_prod_beta)

lemma to_ranked_products_keys [simp]: "map ranked_key (to_ranked_products xs) = map fst xs"
  by (rule nth_equalityI) (simp_all add: to_ranked_products_nth ranked_key_def)

lemma to_ranked_products_ranks: "map rk_rank (to_ranked_products xs) = [1..<Suc (length xs)]"
  by (rule nth_equalityI) (simp_all add: to_ranked_products_nth del: upt_Suc)

lemma mset_sort_scored [simp]: "mset (sort_scored xs) = mset xs"
  by (simp add: sort_scored_def)

lemma length_sort_scored [simp]: "length (sort_scored xs) = length xs"
  by (simp add: sort_scored_def)

lemma set_sort_scored [simp]: "set (sort_scored xs) = set xs"
  by (simp add: sort_scored_def)

lemma sort_scored_order:
  assumes "i < j" "j < length xs"
  shows "snd (sort_scored xs ! j) < snd (sort_scored xs ! i) \<or>
         snd (sort_scored xs ! j) = snd (sort_scored xs ! i) \<and>
           fst (sort_scored xs ! i) \<le> fst (sort_scored xs ! j)"
proof -
  let ?f = "\<lambda>item. (- snd item, fst item) :: real \<times> product_key"
  have "sorted (map ?f (sort_scored xs))" by (simp add: sort_scored_def)
  with assms have "?f (sort_scored xs ! i) \<le> ?f (sort_scored xs ! j)"
    by (simp add: sorted_iff_nth_mono)
  then show ?thesis by (auto simp: less_eq_prod_def)
qed

text \<open>The result does not depend on the order in which the candidates were supplied.\<close>

lemma sort_scored_perm:
  assumes "mset xs = mset ys" and "distinct (map fst xs)"
  shows "sort_scored xs = sort_scored ys"
  unfolding sort_scored_def
proof (rule properties_for_sort_key)
  let ?f = "\<lambda>item. (- snd item, fst item) :: real \<times> product_key"
  show "mset (sort_key ?f ys) = mset xs" using assms(1) by simp
  show "sorted (map ?f (sort_key ?f ys))" by simp
  fix k assume "k \<in> set (sort_key ?f ys)"
  then have k: "k \<in> set xs" using assms(1) by (auto dest: mset_eq_setD)
  have inj: "inj_on fst (set xs)" using assms(2) by (simp add: distinct_map)
  have same: "filter (\<lambda>x. ?f k = ?f x) zs = filter (\<lambda>x. k = x) zs" if "set zs = set xs" for zs
  proof (rule filter_cong [OF refl])
    fix x assume "x \<in> set zs"
    with inj k that have "fst k = fst x \<longrightarrow> k = x" by (auto dest: inj_onD)
    then show "(?f k = ?f x) = (k = x)" by auto
  qed
  have repl: "filter (\<lambda>x. k = x) zs = replicate (count (mset zs) k) k" for zs
    by (induction zs) auto
  have single: "filter (\<lambda>x. ?f k = ?f x) zs = replicate (count (mset xs) k) k"
    if "mset zs = mset xs" for zs
    unfolding same [OF mset_eq_setD [OF that]] repl that ..
  show "filter (\<lambda>x. ?f k = ?f x) (sort_key ?f ys) = filter (\<lambda>x. ?f k = ?f x) xs"
    unfolding single [of xs, OF refl]
    by (rule single) (simp only: mset_sort assms(1))
qed

locale candidate_ranker =
  fixes wf :: "'r \<Rightarrow> bool" and keys :: "'r \<Rightarrow> product_key list"
    and score :: "'r \<Rightarrow> ustring \<Rightarrow> product_key \<Rightarrow> real"
    and rank :: "'r \<Rightarrow> ustring \<Rightarrow> exn + ranked_product list"
  assumes keys_distinct: "wf r \<Longrightarrow> distinct (keys r)"
    and rank_blank: "strip q = [] \<Longrightarrow> rank r q = Inl ValueError"
    and rank_scored: "wf r \<Longrightarrow> rank r q = Inr out \<Longrightarrow>
           out = to_ranked_products (sort_scored (map (\<lambda>key. (key, score r q key)) (keys r)))"
begin

lemma rank_permutation:
  assumes "wf r" "rank r q = Inr out"
  shows "mset (map ranked_key out) = mset (keys r)"
  unfolding rank_scored [OF assms] by (simp add: image_mset.compositionality comp_def)

lemma rank_keys_distinct:
  assumes "wf r" "rank r q = Inr out"
  shows "distinct (map ranked_key out)"
  using rank_permutation [OF assms] keys_distinct [OF assms(1)] by (metis mset_eq_imp_distinct_iff)

lemma rank_positions:
  assumes "wf r" "rank r q = Inr out"
  shows "map rk_rank out = [1..<Suc (length (keys r))]"
  unfolding rank_scored [OF assms] by (simp add: to_ranked_products_ranks del: upt_Suc)

lemma rank_scores:
  assumes "wf r" "rank r q = Inr out" and "p \<in> set out"
  shows "rk_score p = score r q (ranked_key p)"
proof -
  let ?xs = "map (\<lambda>key. (key, score r q key)) (keys r)"
  from assms(3) obtain i where i: "i < length (sort_scored ?xs)" "p = to_ranked_products (sort_scored ?xs) ! i"
    unfolding rank_scored [OF assms(1,2)] by (auto simp: in_set_conv_nth)
  then have "sort_scored ?xs ! i \<in> set ?xs" by (metis nth_mem set_sort_scored)
  with i show ?thesis by (auto simp: to_ranked_products_nth ranked_key_def)
qed

text \<open>A product placed earlier has a higher score, or the same score and a smaller key.\<close>

lemma rank_order:
  assumes "wf r" "rank r q = Inr out" "i < j" "j < length out"
  shows "rk_score (out ! j) < rk_score (out ! i) \<or>
         rk_score (out ! j) = rk_score (out ! i) \<and> ranked_key (out ! i) < ranked_key (out ! j)"
proof -
  let ?xs = "map (\<lambda>key. (key, score r q key)) (keys r)"
  note out = rank_scored [OF assms(1,2)]
  have j: "j < length ?xs" using assms(4) out by simp
  have "ranked_key (out ! i) \<noteq> ranked_key (out ! j)"
    using rank_keys_distinct [OF assms(1,2)] assms(3,4) nth_eq_iff_index_eq [of "map ranked_key out" i j]
    by auto
  with sort_scored_order [OF assms(3) j] assms(3) j show ?thesis
    unfolding out by (auto simp: to_ranked_products_nth ranked_key_def)
qed

text \<open>Cutting the ranking at \<open>k\<close> never drops a product that beats a kept one.\<close>

lemma top_k_beats_rest:
  assumes "wf r" "rank r q = Inr out" "p \<in> set (take k out)" "p' \<in> set (drop k out)"
  shows "rk_score p' \<le> rk_score p"
proof -
  from assms(3) obtain i where i: "i < k" "i < length out" "p = out ! i"
    by (auto simp: in_set_conv_nth)
  from assms(4) obtain j where j: "k + j < length out" "p' = out ! (k + j)"
    unfolding in_set_conv_nth by force
  show ?thesis using rank_order [OF assms(1,2), of i "k + j"] i j by auto
qed

lemma rank_input_order_irrelevant:
  assumes "wf r" "wf r'" "mset (keys r) = mset (keys r')" "\<And>key. score r q key = score r' q key"
    and "rank r q = Inr out" "rank r' q = Inr out'"
  shows "out = out'"
proof -
  have "sort_scored (map (\<lambda>key. (key, score r q key)) (keys r)) =
        sort_scored (map (\<lambda>key. (key, score r' q key)) (keys r'))"
    by (rule sort_scored_perm)
       (use assms(3) keys_distinct [OF assms(1)] in \<open>simp_all add: assms(4) comp_def\<close>)
  then show ?thesis using rank_scored [OF assms(1,5)] rank_scored [OF assms(2,6)] by simp
qed

end

lemma rank_by_scored:
  "rank_by score keys q = Inr out \<Longrightarrow>
     out = to_ranked_products (sort_scored (map (\<lambda>key. (key, score (nub (tokenize q)) key)) keys))"
  by (simp add: rank_by_def Let_def split: if_splits)

lemma rank_by_total: "strip q \<noteq> [] \<Longrightarrow> \<exists>out. rank_by score keys q = Inr out"
  by (simp add: rank_by_def Let_def)

definition overlap_wf :: "overlap_ranker \<Rightarrow> bool" where
  "overlap_wf r = distinct (map fst (or_title_terms r))"

definition overlap_key_score :: "overlap_ranker \<Rightarrow> ustring \<Rightarrow> product_key \<Rightarrow> real" where
  "overlap_key_score r q key =
     (case map_of (or_title_terms r) key of None \<Rightarrow> 0 | Some terms \<Rightarrow> overlap_score r q terms)"

definition random_key_score :: "codec \<Rightarrow> random_ranker \<Rightarrow> ustring \<Rightarrow> product_key \<Rightarrow> real" where
  "random_key_score c r q key = projr (random_score c r (strip q) key)"

definition index_wf :: "bm25_index \<Rightarrow> bool" where
  "index_wf r =
     (distinct (map fst (bm_tokens r)) \<and> bm_corpus_size r = length (bm_tokens r) \<and>
      1 \<le> bm_average_length r \<and> 0 < bm_k1 r \<and> 0 \<le> bm_b r \<and> bm_b r \<le> 1)"

definition boost_wf :: "boost_ranker \<Rightarrow> bool" where
  "boost_wf r =
     (index_wf (bo_index r) \<and> 0 \<le> bo_coverage r \<and> 0 \<le> bo_numeric r \<and> 0 \<le> bo_phrase r)"

text \<open>Constructors establish the well-formedness.\<close>

lemma validate_candidate_products_Inr [simp]:
  "validate_candidate_products ps = Inr qs \<longleftrightarrow> qs = ps \<and> ps \<noteq> [] \<and> distinct (map product_key_of ps)"
  by (auto simp: validate_candidate_products_def)

lemma overlap_init_wf: "overlap_init ps = Inr r \<Longrightarrow> overlap_wf r"
  by (auto simp: overlap_init_def overlap_wf_def comp_def)

lemma random_init_wf: "random_init ps seed = Inr r \<Longrightarrow> distinct (rr_product_keys r)"
  by (auto simp: random_init_def)

lemma bm25_parameters_Inr [simp]:
  "bm25_parameters k1 b = Inr (r, s) \<longleftrightarrow> k1 = Fin r \<and> b = Fin s \<and> 0 < r \<and> 0 \<le> s \<and> s \<le> 1"
  by (auto simp: bm25_parameters_def split: pyfloat.splits)

lemma average_length_ge_1: "1 \<le> average_length ls"
  by (simp add: average_length_def)

lemma index_of_wf:
  "0 < k1 \<Longrightarrow> 0 \<le> b \<Longrightarrow> b \<le> 1 \<Longrightarrow> distinct (map fst titles) \<Longrightarrow> index_wf (bm25_index_of k1 b titles)"
  by (simp add: index_wf_def bm25_index_of_def average_length_ge_1 case_prod_beta comp_def)

lemma bm25_init_wf: "bm25_init ps k1 b = Inr r \<Longrightarrow> index_wf r"
  by (auto simp: bm25_init_def comp_def intro!: index_of_wf)

lemma boost_init_wf: "boost_init ps cb nb pb k1 b = Inr r \<Longrightarrow> boost_wf r"
  by (auto simp: boost_init_def boost_wf_def boost_parameter_def split: pyfloat.splits intro: bm25_init_wf)

text \<open>
  A key maps to one entry of the table only when keys are distinct, so the overlap ranker's
  \<open>rank\<close> is read through its well-formed tables.
\<close>

lemma overlap_entries:
  assumes "overlap_wf r"
  shows "map (\<lambda>(key, terms). (key, overlap_score r q terms)) (or_title_terms r) =
         map (\<lambda>key. (key, overlap_key_score r q key)) (map fst (or_title_terms r))"
proof -
  have "overlap_key_score r q (fst p) = overlap_score r q (snd p)" if "p \<in> set (or_title_terms r)" for p
  proof -
    have "map_of (or_title_terms r) (fst p) = Some (snd p)"
      using assms that by (simp add: overlap_wf_def)
    then show ?thesis by (simp add: overlap_key_score_def)
  qed
  then show ?thesis by (simp add: case_prod_beta)
qed

lemma traverse_scored:
  "traverse (\<lambda>key. ebind (f key) (\<lambda>s. Inr (key, s))) keys = Inr scored \<Longrightarrow>
     scored = map (\<lambda>key. (key, projr (f key))) keys"
  by (induction keys arbitrary: scored) auto

interpretation overlap: candidate_ranker overlap_wf "\<lambda>r. map fst (or_title_terms r)" overlap_key_score overlap_rank
  by unfold_locales
     (auto simp: overlap_wf_def [symmetric] overlap_rank_def overlap_entries simp del: map_map split: if_splits)

interpretation random: candidate_ranker "\<lambda>r. distinct (rr_product_keys r)" rr_product_keys "random_key_score c"
    "random_rank c" for c
  by unfold_locales
     (auto simp: random_rank_def random_key_score_def Let_def dest!: traverse_scored split: if_splits)

interpretation bm25: candidate_ranker index_wf "\<lambda>r. map fst (bm_tokens r)"
    "\<lambda>r q. bm25_score r (nub (tokenize q))" bm25_rank
  by unfold_locales (simp_all add: index_wf_def bm25_rank_def rank_by_def Let_def split: if_splits)

interpretation boost: candidate_ranker boost_wf "\<lambda>r. map fst (bm_tokens (bo_index r))"
    "\<lambda>r q. boost_score r (nub (tokenize q))" boost_rank
  by unfold_locales (simp_all add: boost_wf_def index_wf_def boost_rank_def rank_by_def Let_def split: if_splits)

subsection \<open>What a BM25 score means\<close>

text \<open>
  The per-term part is shared by the title rankers and the retrieval channels: its inverse
  document frequency is positive whatever the document frequency, so a term contributes exactly
  when it occurs.
\<close>

lemma idf_pos: "df \<le> n \<Longrightarrow> 0 < inverse_document_frequency n df"
  unfolding inverse_document_frequency_def by (intro ln_gt_zero) (simp add: field_simps)

lemma document_frequency_le: "document_frequency r t \<le> length (bm_tokens r)"
  by (simp add: document_frequency_def)

lemma saturation_bounds:
  fixes f k norm :: real
  assumes "0 < f" "0 < k" "0 \<le> norm"
  shows "0 < f * (k + 1) / (f + k * norm)" "f * (k + 1) / (f + k * norm) \<le> k + 1"
proof -
  have d: "0 < f + k * norm" using assms by (intro add_pos_nonneg) auto
  with assms show "0 < f * (k + 1) / (f + k * norm)" by simp
  have "f * (k + 1) \<le> (k + 1) * (f + k * norm)" using assms by (simp add: algebra_simps)
  with d show "f * (k + 1) / (f + k * norm) \<le> k + 1" by (simp add: pos_divide_le_eq)
qed

lemma length_normalization_nonneg:
  fixes b len avg :: real
  assumes "0 \<le> b" "b \<le> 1" "0 \<le> len" "0 < avg"
  shows "0 \<le> 1 - b + b * len / avg"
  using assms by (intro add_nonneg_nonneg divide_nonneg_pos mult_nonneg_nonneg) auto

lemma index_wf_reals:
  assumes "index_wf r"
  shows "0 < (of_rat (bm_k1 r) :: real)" "0 \<le> (of_rat (bm_b r) :: real)" "(of_rat (bm_b r) :: real) \<le> 1"
    "0 < bm_average_length r"
  using assms by (auto simp: index_wf_def)

lemma bm25_term_bounds:
  assumes wf: "index_wf r" and t: "t \<in> set tokens"
  shows "0 < bm25_term r tokens t"
    and "bm25_term r tokens t \<le>
           inverse_document_frequency (bm_corpus_size r) (document_frequency r t) * (of_rat (bm_k1 r) + 1)"
proof -
  note w = index_wf_reals [OF wf]
  have f: "0 < real (count_list tokens t)" using t count_list_0_iff [of tokens t] by (simp add: neq0_conv [symmetric] del: neq0_conv)
  note n = length_normalization_nonneg [OF w(2,3) of_nat_0_le_iff w(4), of "length tokens"]
  have idf: "0 < inverse_document_frequency (bm_corpus_size r) (document_frequency r t)"
    using wf document_frequency_le [of r t] by (intro idf_pos) (simp add: index_wf_def)
  show "0 < bm25_term r tokens t"
    unfolding bm25_term_def Let_def by (intro mult_pos_pos idf saturation_bounds(1) [OF f w(1) n])
  show "bm25_term r tokens t \<le>
           inverse_document_frequency (bm_corpus_size r) (document_frequency r t) * (of_rat (bm_k1 r) + 1)"
    unfolding bm25_term_def Let_def by (intro mult_left_mono saturation_bounds(2) [OF f w(1) n] less_imp_le [OF idf])
qed

lemma bm25_term_absent: "t \<notin> set tokens \<Longrightarrow> bm25_term r tokens t = 0"
  by (simp add: bm25_term_def Let_def)

lemma foldl_guarded_sum:
  "(\<And>x. P x \<Longrightarrow> f x = 0) \<Longrightarrow>
     foldl (\<lambda>s x. if P x then s else s + f x) a xs = a + sum_list (map f xs)" for f :: "'a \<Rightarrow> real"
  by (induction xs arbitrary: a) auto

lemma bm25_score_sum: "bm25_score r qs key = sum_list (map (bm25_term r (document_tokens r key)) qs)"
  unfolding bm25_score_def Let_def
  by (subst foldl_guarded_sum) (simp_all add: bm25_term_absent count_list_0_iff)

lemma sum_list_pos_iff:
  fixes f :: "'a \<Rightarrow> real"
  assumes "\<And>x. x \<in> set xs \<Longrightarrow> 0 \<le> f x"
  shows "0 < sum_list (map f xs) \<longleftrightarrow> (\<exists>x \<in> set xs. 0 < f x)"
  using assms
proof (induction xs)
  case (Cons x xs)
  have "0 \<le> sum_list (map f xs)" using Cons.prems by (intro sum_list_nonneg) auto
  moreover have "0 \<le> f x" using Cons.prems by simp
  ultimately have "0 < f x + sum_list (map f xs) \<longleftrightarrow> 0 < f x \<or> 0 < sum_list (map f xs)" by linarith
  with Cons show ?case by simp
qed simp

lemma bm25_term_nonneg: "index_wf r \<Longrightarrow> 0 \<le> bm25_term r tokens t"
  using bm25_term_bounds(1) bm25_term_absent by (cases "t \<in> set tokens") (auto intro: less_imp_le)

lemma bm25_score_nonneg: "index_wf r \<Longrightarrow> 0 \<le> bm25_score r qs key"
  unfolding bm25_score_sum by (intro sum_list_nonneg) (auto simp: bm25_term_nonneg)

lemma bm25_score_pos_iff:
  assumes "index_wf r"
  shows "0 < bm25_score r qs key \<longleftrightarrow> set qs \<inter> set (document_tokens r key) \<noteq> {}"
  unfolding bm25_score_sum
  by (subst sum_list_pos_iff)
     (use assms bm25_term_nonneg bm25_term_bounds(1) bm25_term_absent in \<open>fastforce+\<close>)

lemma boost_parts_bounds:
  assumes "boost_wf r"
  shows "0 \<le> coverage_part r qs ts" "coverage_part r qs ts \<le> of_rat (bo_coverage r)"
    "0 \<le> numeric_part r qs ts" "numeric_part r qs ts \<le> of_rat (bo_numeric r)"
    "0 \<le> phrase_part r qs ts" "phrase_part r qs ts \<le> of_rat (bo_phrase r)"
proof -
  have w: "0 \<le> (of_rat (bo_coverage r) :: real)" "0 \<le> (of_rat (bo_numeric r) :: real)"
    "0 \<le> (of_rat (bo_phrase r) :: real)"
    using assms by (simp_all add: boost_wf_def)
  have scale: "0 \<le> w * (real a / real n) \<and> w * (real a / real n) \<le> w" if "0 \<le> w" "a \<le> n" for w :: real and a n
  proof -
    have "real a / real n \<le> 1" using that(2) by (cases "n = 0") simp_all
    with that(1) show ?thesis using mult_left_le [of "real a / real n" w] by simp
  qed
  have "card (set qs \<inter> set ts) \<le> card (set qs)" by (intro card_mono) auto
  with scale [OF w(1)] w(1) show "0 \<le> coverage_part r qs ts" "coverage_part r qs ts \<le> of_rat (bo_coverage r)"
    by (auto simp: coverage_part_def Let_def)
  have "length (filter (\<lambda>t. t \<in> set ts) (filter has_digit qs)) \<le> length (filter has_digit qs)"
    by (rule length_filter_le)
  from scale [OF w(2) this] w(2)
  show "0 \<le> numeric_part r qs ts" "numeric_part r qs ts \<le> of_rat (bo_numeric r)"
    unfolding numeric_part_def Let_def by (simp_all del: filter_filter)
  show "0 \<le> phrase_part r qs ts" "phrase_part r qs ts \<le> of_rat (bo_phrase r)"
    using w(3) by (simp_all add: phrase_part_def)
qed

subsection \<open>Pseudorandom scores\<close>

lemma hex_digit_value_le: "hex c \<Longrightarrow> hex_digit_value c \<le> 15"
  by (auto simp: hex_def hex_digit_value_def Let_def)

lemma hex_value_bound: "list_all hex s \<Longrightarrow> hex_value s < 16 ^ length s"
proof (induction s rule: rev_induct)
  case (snoc c s)
  then have "hex_value s \<le> 16 ^ length s - 1" "hex_digit_value c \<le> 15"
    using hex_digit_value_le by auto
  then have "16 * hex_value s + hex_digit_value c \<le> 16 * (16 ^ length s - 1) + 15" by linarith
  also have "\<dots> < 16 * 16 ^ length s" by (simp add: algebra_simps)
  finally show ?case by (simp add: hex_value_def)
qed (simp add: hex_value_def)

lemma mantissa_bound:
  assumes "list_all hex h"
  shows "hex_value (take 16 h) div 2 ^ (64 - 53) \<le> 2 ^ 53 - 1"
proof -
  have "hex_value (take 16 h) < 16 ^ length (take 16 h)"
    by (rule hex_value_bound) (use assms in \<open>auto simp: list_all_iff dest: in_set_takeD\<close>)
  also have "(16::nat) ^ length (take 16 h) \<le> 16 ^ 16" by (intro power_increasing) auto
  finally have "hex_value (take 16 h) < 2 ^ 53 * 2 ^ 11" by simp
  then have "hex_value (take 16 h) div 2 ^ 11 < 2 ^ 53" by (subst div_less_iff_less_mult) auto
  then show ?thesis by simp
qed

lemma random_score_range:
  assumes "random_score c r q key = Inr s" and "\<And>x. list_all hex (cd_sha c x)"
  shows "0 \<le> s \<and> s \<le> 1"
proof -
  from assms(1) obtain x where s: "s = real (hex_value (take 16 (cd_sha c x)) div 2 ^ (64 - 53)) / real (2 ^ 53 - 1)"
    unfolding random_score_def Let_def ebind_Inr_iff by blast
  have "real (hex_value (take 16 (cd_sha c x)) div 2 ^ (64 - 53)) \<le> real (2 ^ 53 - 1)"
    using mantissa_bound [OF assms(2), of x] by (simp only: of_nat_le_iff)
  then show ?thesis unfolding s by simp
qed

end
