(* ===== verification/Metrics.thy ===== *)
theory Metrics
  imports PyValue "HOL-Library.Multiset"
begin

text \<open>
  \<^verbatim>\<open>src/search_quality/evaluation/metrics.py\<close>: the ranking metrics. Arguments are JSON-shaped
  values, because every function validates the types of what it is given; the checks come in the
  order of the source. Sums, quotients and logarithms are those of the real numbers.
  The lemmas prove the rearrangement bound behind nDCG and the ranges of every metric.
\<close>

subsection \<open>Validation\<close>

definition validate_k :: "json \<Rightarrow> exn + nat" where
  "validate_k k =
     (case k of
        JInt i \<Rightarrow> ebind (require (1 \<le> i) ValueError) (\<lambda>_. Inr (nat i))
      | _ \<Rightarrow> Inl TypeError)"

definition validate_gain :: "json \<Rightarrow> exn + rat" where
  "validate_gain g =
     ebind (require (real_number g) TypeError) (\<lambda>_.
     ebind (to_float g) (\<lambda>v.
     case v of
       Fin r \<Rightarrow> ebind (require (0 \<le> r) ValueError) (\<lambda>_. Inr r)
     | _ \<Rightarrow> Inl ValueError))"

definition validate_gains :: "json list \<Rightarrow> exn + rat list" where
  "validate_gains gs = traverse validate_gain gs"

definition validate_relevance :: "json list \<Rightarrow> exn + bool list" where
  "validate_relevance xs = traverse (\<lambda>x. of_option TypeError (dec_bool x)) xs"

definition mean :: "real list \<Rightarrow> exn + real" where
  "mean vs = ebind (require (vs \<noteq> []) ValueError) (\<lambda>_. Inr (sum_list vs / real (length vs)))"

subsection \<open>Discounted cumulative gain\<close>

definition dcg :: "rat list \<Rightarrow> nat \<Rightarrow> real" where
  "dcg gains k =
     sum_list (map (\<lambda>(rank, gain). of_rat gain / log 2 (real rank + 1)) (enumerate 1 (take k gains)))"

definition dcg_at_k :: "json list \<Rightarrow> json \<Rightarrow> exn + real" where
  "dcg_at_k gains k =
     ebind (validate_k k) (\<lambda>limit. ebind (validate_gains gains) (\<lambda>gs. Inr (dcg gs limit)))"

text \<open>\<^verbatim>\<open>math.isclose\<close> with its default relative tolerance.\<close>

definition isclose :: "real \<Rightarrow> real \<Rightarrow> bool" where
  "isclose a b = (\<bar>a - b\<bar> \<le> 1 / 10 ^ 9 * max \<bar>a\<bar> \<bar>b\<bar>)"

definition descending :: "rat list \<Rightarrow> rat list" where
  "descending xs = rev (sort xs)"

definition ndcg_at_k :: "json list \<Rightarrow> json list \<Rightarrow> json \<Rightarrow> exn + real" where
  "ndcg_at_k ranked candidates k =
     ebind (validate_k k) (\<lambda>limit.
     ebind (validate_gains ranked) (\<lambda>rs.
     ebind (validate_gains candidates) (\<lambda>cs.
     let actual = dcg rs limit; ideal = dcg (descending cs) limit in
     if ideal = 0 then (if 0 < actual then Inl ValueError else Inr 0)
     else if ideal < actual \<and> \<not> isclose actual ideal then Inl ValueError
     else Inr (actual / ideal))))"

definition mean_ndcg_at_k :: "json list list \<Rightarrow> json list list \<Rightarrow> json \<Rightarrow> exn + real" where
  "mean_ndcg_at_k rankings candidates k =
     ebind (validate_k k) (\<lambda>limit.
     ebind (require (length rankings = length candidates) ValueError) (\<lambda>_.
     ebind (traverse (\<lambda>(r, c). ndcg_at_k r c (JInt (int limit))) (zip rankings candidates)) mean))"

subsection \<open>Binary relevance\<close>

fun first_hit :: "nat \<Rightarrow> bool list \<Rightarrow> real" where
  "first_hit rank [] = 0"
| "first_hit rank (b # bs) = (if b then 1 / real rank else first_hit (Suc rank) bs)"

definition reciprocal_rank_at_k :: "json list \<Rightarrow> json \<Rightarrow> exn + real" where
  "reciprocal_rank_at_k relevant k =
     ebind (validate_k k) (\<lambda>limit.
     ebind (validate_relevance relevant) (\<lambda>bs. Inr (first_hit 1 (take limit bs))))"

definition mean_reciprocal_rank_at_k :: "json list list \<Rightarrow> json \<Rightarrow> exn + real" where
  "mean_reciprocal_rank_at_k rankings k =
     ebind (validate_k k) (\<lambda>limit.
     ebind (traverse (\<lambda>r. reciprocal_rank_at_k r (JInt (int limit))) rankings) mean)"

definition success_at_k :: "json list \<Rightarrow> json \<Rightarrow> exn + real" where
  "success_at_k relevant k =
     ebind (validate_k k) (\<lambda>limit.
     ebind (validate_relevance relevant) (\<lambda>bs. Inr (if list_ex id (take limit bs) then 1 else 0)))"

definition mean_success_at_k :: "json list list \<Rightarrow> json \<Rightarrow> exn + real" where
  "mean_success_at_k rankings k =
     ebind (validate_k k) (\<lambda>limit.
     ebind (traverse (\<lambda>r. success_at_k r (JInt (int limit))) rankings) mean)"

definition recall_at_k :: "json list \<Rightarrow> json \<Rightarrow> json \<Rightarrow> exn + real" where
  "recall_at_k relevant denominator k =
     ebind (validate_k k) (\<lambda>limit.
     case denominator of
       JInt n \<Rightarrow>
         ebind (require (1 \<le> n) ValueError) (\<lambda>_.
         ebind (validate_relevance relevant) (\<lambda>bs.
         let hits = length (filter id (take limit bs)) in
         ebind (require (int hits \<le> n) ValueError) (\<lambda>_.
         Inr (real hits / real_of_int n))))
     | _ \<Rightarrow> Inl TypeError)"

definition mean_recall_at_k :: "json list list \<Rightarrow> json list \<Rightarrow> json \<Rightarrow> exn + real" where
  "mean_recall_at_k rankings totals k =
     ebind (validate_k k) (\<lambda>limit.
     ebind (require (length rankings = length totals) ValueError) (\<lambda>_.
     ebind (traverse (\<lambda>(r, n). recall_at_k r n (JInt (int limit))) (zip rankings totals)) mean))"

lemma validate_k_Inr [simp]: "validate_k k = Inr n \<longleftrightarrow> (\<exists>i \<ge> 1. k = JInt i \<and> n = nat i)"
  by (auto simp: validate_k_def)

lemma validate_k_JInt [simp]: "1 \<le> n \<Longrightarrow> validate_k (JInt (int n)) = Inr n"
  by (simp add: validate_k_def)

lemma case_pyfloat_Inr_iff [simp]:
  "(case v of Fin r \<Rightarrow> f r | _ \<Rightarrow> Inl e) = Inr y \<longleftrightarrow> (\<exists>r. v = Fin r \<and> f r = Inr y)"
  by (cases v) simp_all

lemma validate_gain_nonneg: "validate_gain g = Inr r \<Longrightarrow> 0 \<le> r"
  by (auto simp: validate_gain_def)

lemma validate_gains_nonneg: "validate_gains gs = Inr rs \<Longrightarrow> r \<in> set rs \<Longrightarrow> 0 \<le> r"
  by (auto simp: validate_gains_def dest!: traverse_out validate_gain_nonneg)

subsection \<open>The rearrangement bound\<close>

text \<open>The sum of at most \<open>j\<close> elements is at most the sum of the \<open>j\<close> largest.\<close>

lemma sum_list_le_largest:
  fixes ys :: "'a::linordered_ab_group_add list"
  assumes "mset zs \<subseteq># mset ys" "length zs \<le> j" "sorted (rev ys)" "\<forall>y \<in> set ys. 0 \<le> y"
  shows "sum_list zs \<le> sum_list (take j ys)"
  using assms
proof (induction ys arbitrary: zs j)
  case (Cons y ys)
  have rest: "sorted (rev ys)" "\<forall>x \<in> set ys. 0 \<le> x" "\<forall>x \<in> set ys. x \<le> y" "0 \<le> y"
    using Cons.prems by (auto simp: sorted_append)
  show ?case
  proof (cases j)
    case 0
    then show ?thesis using Cons.prems by simp
  next
    case (Suc i)
    show ?thesis
    proof (cases "y \<in> set zs")
      case True
      then have zs: "mset zs = add_mset y (mset (remove1 y zs))" by simp
      have "add_mset y (mset (remove1 y zs)) \<subseteq># add_mset y (mset ys)"
        using Cons.prems(1) by (subst zs [symmetric]) simp
      then have "mset (remove1 y zs) \<subseteq># mset ys" by (rule mset_subset_eq_add_mset_cancel [THEN iffD1])
      moreover have "length (remove1 y zs) \<le> i" using Cons.prems(2) True Suc by (simp add: length_remove1)
      ultimately have "sum_list (remove1 y zs) \<le> sum_list (take i ys)"
        using Cons.IH rest by blast
      moreover have "sum_list zs = y + sum_list (remove1 y zs)"
        using True by (rule sum_list_map_remove1 [where f = "\<lambda>x. x", simplified])
      ultimately show ?thesis using Suc by simp
    next
      case False
      have sub: "mset zs \<subseteq># mset ys"
      proof (rule mset_subset_eqI)
        fix a
        have "count (mset zs) a \<le> count (mset (y # ys)) a"
          using Cons.prems(1) by (rule mset_subset_eq_count)
        moreover have "count (mset zs) y \<le> count (mset ys) y"
          by (rule ord_eq_le_trans [where b = 0]) (use False in simp_all)
        ultimately show "count (mset zs) a \<le> count (mset ys) a"
          by (cases "a = y") simp_all
      qed
      show ?thesis
      proof (cases zs)
        case Nil
        have "0 \<le> sum_list (take j (y # ys))"
        proof (rule sum_list_nonneg)
          fix x assume "x \<in> set (take j (y # ys))"
          then have "x \<in> set (y # ys)" by (rule in_set_takeD)
          with Cons.prems(4) show "0 \<le> x" by blast
        qed
        with Nil show ?thesis by simp
      next
        case (Cons z zs')
        have "z \<in> set ys" using sub Cons mset_subset_eqD [OF sub, of z] by simp
        then have "z \<le> y" using rest(3) by simp
        moreover have "mset zs' \<subseteq># mset ys" using sub Cons by (auto dest: subset_mset.order_trans mset_subset_eq_insertD)
        with Cons.IH [of zs' i] have "sum_list zs' \<le> sum_list (take i ys)"
          using rest Cons.prems(2) Cons Suc by simp
        ultimately show ?thesis using Cons Suc by (simp add: add_mono)
      qed
    qed
  qed
qed simp

text \<open>Summation by parts: decreasing weights turn prefix bounds into a bound of the weighted sums.\<close>

definition weighted :: "(nat \<Rightarrow> real) \<Rightarrow> (nat \<Rightarrow> real) \<Rightarrow> nat \<Rightarrow> real" where
  "weighted w f n = (\<Sum>i<n. w i * f i)"

lemma weighted_parts:
  "weighted w f n = w n * (\<Sum>i<n. f i) + (\<Sum>j<n. (w j - w (Suc j)) * (\<Sum>i<Suc j. f i))"
proof (induction n)
  case (Suc n)
  have "weighted w f (Suc n) = weighted w f n + w n * f n" by (simp add: weighted_def)
  with Suc show ?case by (simp add: algebra_simps)
qed (simp add: weighted_def)

lemma weighted_mono:
  assumes "\<And>j. j < n \<Longrightarrow> w (Suc j) \<le> w j" "0 \<le> w n"
    and "\<And>j. j \<le> n \<Longrightarrow> (\<Sum>i<j. f i) \<le> (\<Sum>i<j. g i)"
  shows "weighted w f n \<le> weighted w g n"
  unfolding weighted_parts
  by (intro add_mono mult_left_mono sum_mono assms) (use assms in \<open>auto simp: le_diff_eq\<close>)

definition discount :: "nat \<Rightarrow> real" where
  "discount i = 1 / log 2 (real i + 2)"

definition gain_at :: "rat list \<Rightarrow> nat \<Rightarrow> real" where
  "gain_at xs i = (if i < length xs then of_rat (xs ! i) else 0)"

lemma discount_pos: "0 < discount i"
  by (simp add: discount_def)

lemma discount_antimono: "discount (Suc i) \<le> discount i"
  unfolding discount_def by (intro divide_left_mono) auto

lemma dcg_weighted: "dcg xs k = weighted discount (gain_at xs) k"
proof -
  have "dcg xs k = (\<Sum>i<min (length xs) k. discount i * of_rat (xs ! i))"
    unfolding dcg_def
    by (simp add: sum_list_sum_nth length_enumerate nth_enumerate_eq discount_def atLeast0LessThan
        algebra_simps)
  also have "\<dots> = weighted discount (gain_at xs) k"
    unfolding weighted_def gain_at_def
    by (rule sum.mono_neutral_cong_left) auto
  finally show ?thesis .
qed

lemma gain_at_prefix: "(\<Sum>i<j. gain_at xs i) = of_rat (sum_list (take j xs))"
proof (induction j)
  case (Suc j)
  show ?case
  proof (cases "j < length xs")
    case True
    then show ?thesis using Suc by (simp add: gain_at_def take_Suc_conv_app_nth of_rat_add)
  next
    case False
    then show ?thesis using Suc by (simp add: gain_at_def)
  qed
qed simp

lemma descending_props: "mset (descending xs) = mset xs" "sorted (rev (descending xs))"
  "set (descending xs) = set xs"
  by (simp_all add: descending_def)

lemma dcg_le_ideal:
  assumes "mset xs \<subseteq># mset cs" "\<forall>c \<in> set cs. 0 \<le> c"
  shows "dcg xs k \<le> dcg (descending cs) k"
  unfolding dcg_weighted
proof (rule weighted_mono)
  fix j assume "j \<le> k"
  have "mset (take j xs) \<subseteq># mset (descending cs)"
    unfolding descending_props(1)
    by (rule subset_mset.order_trans [OF _ assms(1)]) (metis append_take_drop_id mset_append mset_subset_eq_add_left)
  then have "sum_list (take j xs) \<le> sum_list (take j (descending cs))"
    by (rule sum_list_le_largest) (use assms(2) in \<open>simp_all add: descending_props\<close>)
  then show "(\<Sum>i<j. gain_at xs i) \<le> (\<Sum>i<j. gain_at (descending cs) i)"
    unfolding gain_at_prefix by (simp add: of_rat_less_eq)
qed (auto intro: discount_antimono less_imp_le [OF discount_pos])

lemma dcg_nonneg: "\<forall>c \<in> set cs. 0 \<le> c \<Longrightarrow> 0 \<le> dcg cs k"
  unfolding dcg_weighted weighted_def gain_at_def
  by (intro sum_nonneg mult_nonneg_nonneg less_imp_le [OF discount_pos]) auto

subsection \<open>Ranges of the metrics\<close>

lemma ndcg_value:
  fixes k :: nat
  assumes "mset rs \<subseteq># mset cs" "\<forall>c \<in> set cs. 0 \<le> c"
  defines "v \<equiv> if dcg (descending cs) k = 0 then 0 else dcg rs k / dcg (descending cs) k"
  shows "0 \<le> v" "v \<le> 1" "\<not> dcg (descending cs) k < dcg rs k"
    "dcg (descending cs) k = 0 \<Longrightarrow> dcg rs k = 0"
proof -
  have "\<forall>c \<in> set rs. 0 \<le> c" using assms(1,2) by (auto dest: mset_subset_eqD)
  then have n: "0 \<le> dcg rs k" "0 \<le> dcg (descending cs) k"
    using assms(2) by (auto intro: dcg_nonneg simp: descending_props)
  note le = dcg_le_ideal [OF assms(1,2), of k]
  show "0 \<le> v" "v \<le> 1" unfolding v_def using n le by (auto simp: divide_le_eq_1)
  show "\<not> dcg (descending cs) k < dcg rs k" "dcg (descending cs) k = 0 \<Longrightarrow> dcg rs k = 0"
    using n le by auto
qed

lemma ndcg_at_k_value:
  assumes "validate_gains ranked = Inr rs" "validate_gains candidates = Inr cs" "1 \<le> k"
    and "mset rs \<subseteq># mset cs"
  shows "ndcg_at_k ranked candidates (JInt (int k)) =
           Inr (if dcg (descending cs) k = 0 then 0 else dcg rs k / dcg (descending cs) k)"
proof -
  have nonneg: "\<forall>c \<in> set cs. 0 \<le> c" using validate_gains_nonneg [OF assms(2)] by blast
  from ndcg_value(3,4) [OF assms(4) nonneg, of k] assms(1-3) show ?thesis
    by (simp add: ndcg_at_k_def Let_def)
qed

lemma dcg_pos:
  assumes "\<forall>c \<in> set xs. 0 \<le> c" "0 < k" "xs \<noteq> []" "0 < hd xs"
  shows "0 < dcg xs k"
proof -
  from assms(3) obtain y ys where xs: "xs = y # ys" by (cases xs) auto
  obtain i where k: "k = Suc i" using assms(2) by (cases k) auto
  have "0 < discount 0 * gain_at xs 0"
    using assms(4) xs by (simp add: gain_at_def discount_pos)
  moreover have "0 \<le> (\<Sum>i<i. discount (Suc i) * gain_at xs (Suc i))"
    using assms(1) by (intro sum_nonneg mult_nonneg_nonneg less_imp_le [OF discount_pos]) (auto simp: gain_at_def)
  ultimately show ?thesis
    unfolding dcg_weighted weighted_def k sum.lessThan_Suc_shift by linarith
qed

lemma hd_descending: "c \<in> set cs \<Longrightarrow> c \<le> hd (descending cs)"
proof -
  assume c: "c \<in> set cs"
  then obtain y ys where ys: "descending cs = y # ys"
    by (metis descending_props(3) list.exhaust list.set(1) emptyE)
  with descending_props(2) [of cs] have "\<forall>x \<in> set ys. x \<le> y" by (simp add: sorted_append)
  with c ys descending_props(3) [of cs] show ?thesis by auto
qed

lemma dcg_ideal_pos:
  assumes "\<forall>c \<in> set cs. 0 \<le> c" "c \<in> set cs" "0 < c" "0 < k"
  shows "0 < dcg (descending cs) k"
proof (rule dcg_pos)
  show "0 < hd (descending cs)" using hd_descending [OF assms(2)] assms(3) by simp
  show "descending cs \<noteq> []" using assms(2) descending_props(3) [of cs] by auto
qed (use assms in \<open>simp_all add: descending_props\<close>)

lemma first_hit_bounds: "1 \<le> n \<Longrightarrow> 0 \<le> first_hit n bs \<and> first_hit n bs \<le> 1 / real n"
proof (induction n bs rule: first_hit.induct)
  case (2 n b bs)
  have "1 / real (Suc n) \<le> 1 / real n" using 2(2) by (intro divide_left_mono) auto
  with 2 show ?case by (cases b) auto
qed simp

lemma first_hit_pos_iff: "1 \<le> n \<Longrightarrow> 0 < first_hit n bs \<longleftrightarrow> list_ex id bs"
  by (induction n bs rule: first_hit.induct) auto

text \<open>The reciprocal rank is at least the reciprocal of the cutoff when there is a hit.\<close>

lemma first_hit_cutoff: "1 \<le> n \<Longrightarrow> list_ex id bs \<Longrightarrow> 1 / real (n + length bs - 1) \<le> first_hit n bs"
proof (induction n bs rule: first_hit.induct)
  case (2 n b bs)
  show ?case
  proof (cases b)
    case True
    then show ?thesis using 2 by (simp add: divide_left_mono)
  next
    case False
    then show ?thesis using 2 by simp
  qed
qed simp

lemma hits_mono: "k \<le> l \<Longrightarrow> length (filter id (take k bs)) \<le> length (filter id (take l bs))"
proof -
  assume "k \<le> l"
  then have "take l bs = take k bs @ take (l - k) (drop k bs)"
    by (metis le_add_diff_inverse take_add)
  then show ?thesis by simp
qed

lemma mean_range:
  assumes "mean vs = Inr m" "\<forall>v \<in> set vs. a \<le> v \<and> v \<le> b"
  shows "a \<le> m \<and> m \<le> b"
proof -
  from assms(1) have vs: "vs \<noteq> []" and m: "m = sum_list vs / real (length vs)" by (auto simp: mean_def)
  have "real (length vs) * a \<le> sum_list vs \<and> sum_list vs \<le> real (length vs) * b"
    using assms(2) by (induction vs) (auto simp: algebra_simps)
  with vs show ?thesis by (auto simp: m pos_le_divide_eq pos_divide_le_eq mult.commute)
qed

lemma recall_at_k_Inr:
  "recall_at_k relevant n k = Inr v \<longleftrightarrow>
     (\<exists>i m bs. k = JInt i \<and> 1 \<le> i \<and> n = JInt m \<and> 1 \<le> m \<and> validate_relevance relevant = Inr bs \<and>
        int (length (filter id (take (nat i) bs))) \<le> m \<and>
        v = real (length (filter id (take (nat i) bs))) / real_of_int m)"
  by (auto simp: recall_at_k_def Let_def)

lemma recall_range: "recall_at_k relevant n k = Inr v \<Longrightarrow> 0 \<le> v \<and> v \<le> 1"
  by (auto simp: recall_at_k_Inr divide_le_eq_1)

end
