(* ===== verification/RankingProperties.thy ===== *)
theory RankingProperties
  imports Ranking Metrics
begin

text \<open>
  The properties of the tokeniser, the candidate rankers and the metrics. A ranking is described
  by what the Evaluation Harness relies on: nothing is lost or invented, positions are
  contiguous, the order is total, and the score says what was matched.
\<close>

lemma document_tokens_init:
  assumes "bm25_init ps k1 b = Inr r"
  shows "map fst (bm_tokens r) = map product_key_of ps"
    and "p \<in> set ps \<Longrightarrow> document_tokens r (product_key_of p) = tokenize (pd_title p)"
proof -
  have r: "bm_tokens r = map (\<lambda>p. (product_key_of p, tokenize (pd_title p))) ps"
    and d: "distinct (map product_key_of ps)"
    using assms by (auto simp: bm25_init_def bm25_index_of_def Let_def comp_def)
  show "map fst (bm_tokens r) = map product_key_of ps" by (simp add: r comp_def)
  assume p: "p \<in> set ps"
  have "map_of (bm_tokens r) (product_key_of p) = Some (tokenize (pd_title p))"
    by (rule map_of_is_SomeI) (use p d in \<open>auto simp: r comp_def\<close>)
  then show "document_tokens r (product_key_of p) = tokenize (pd_title p)" by (simp add: document_tokens_def)
qed

text \<open>Two candidates of a two-product catalogue, for the witnesses.\<close>

definition sample_products :: "candidate_product list" where
  "sample_products =
     [\<lparr>pd_locale = [117, 115], pd_product_id = [49], pd_title = [114, 101, 100, 32, 98, 97, 103]\<rparr>,
      \<lparr>pd_locale = [117, 115], pd_product_id = [50], pd_title = [98, 108, 117, 101, 32, 98, 97, 103]\<rparr>]"

definition sample_query :: ustring where
  "sample_query = [82, 101, 100]"

lemma sample_products_valid: "sample_products \<noteq> []" "distinct (map product_key_of sample_products)"
  by (simp_all add: sample_products_def product_key_of_def)

lemma sample_query_strip: "strip sample_query \<noteq> []"
  by (simp add: strip_empty_iff sample_query_def whitespace_def)

lemma sample_bm25: "\<exists>r out. bm25_init sample_products (Fin (3 / 2)) (Fin (3 / 4)) = Inr r \<and> bm25_rank r sample_query = Inr out"
proof -
  have "bm25_init sample_products (Fin (3 / 2)) (Fin (3 / 4)) =
      Inr (bm25_index_of (3 / 2) (3 / 4) (map (\<lambda>p. (product_key_of p, pd_title p)) sample_products))"
    using sample_products_valid by (simp add: bm25_init_def bm25_parameters_def validate_candidate_products_def)
  then show ?thesis using rank_by_total [OF sample_query_strip] by (auto simp: bm25_rank_def)
qed

lemma sample_boost:
  "\<exists>r out. boost_init sample_products (Fin 2) (Fin 1) (Fin 1) (Fin (3 / 2)) (Fin (3 / 4)) = Inr r \<and>
     boost_rank r sample_query = Inr out"
  using sample_bm25 rank_by_total [OF sample_query_strip]
  by (auto simp: boost_init_def boost_parameter_def boost_rank_def)

text \<open>
  Tokenising is idempotent: re-joining the tokens of a text with single spaces and tokenising
  again gives the same tokens, provided the text has no U+0130 (whose lower-case form contains a
  combining dot that is no word character).
\<close>

lemma tokenize_roundtrip:
  assumes "0x130 \<notin> set text"
  shows "tokenize (join_space (tokenize text)) = tokenize text"
  by (rule tokenize_join) (use assms tokenize_nonempty tokenize_chars tokenize_no_dot in blast)

lemma bm25_ranking_facts:
  assumes "bm25_init ps k1 b = Inr r" and "bm25_rank r q = Inr out"
  shows "mset (map ranked_key out) = mset (map product_key_of ps)"
    and "map rk_rank out = [1..<Suc (length ps)]"
    and "\<forall>i j. i < j \<and> j < length out \<longrightarrow>
           rk_score (out ! j) < rk_score (out ! i) \<or>
           rk_score (out ! j) = rk_score (out ! i) \<and> ranked_key (out ! i) < ranked_key (out ! j)"
    and "\<forall>x \<in> set out. 0 \<le> rk_score x \<and>
           (0 < rk_score x \<longleftrightarrow>
              (\<exists>p \<in> set ps. product_key_of p = ranked_key x \<and>
                 set (tokenize q) \<inter> set (tokenize (pd_title p)) \<noteq> {}))"
proof -
  note wf = bm25_init_wf [OF assms(1)]
  note init = document_tokens_init [OF assms(1)]
  show perm: "mset (map ranked_key out) = mset (map product_key_of ps)"
    using bm25.rank_permutation [OF wf assms(2)] init(1) by simp
  show "map rk_rank out = [1..<Suc (length ps)]"
    using bm25.rank_positions [OF wf assms(2)] init(1) by (metis length_map)
  show "\<forall>i j. i < j \<and> j < length out \<longrightarrow>
           rk_score (out ! j) < rk_score (out ! i) \<or>
           rk_score (out ! j) = rk_score (out ! i) \<and> ranked_key (out ! i) < ranked_key (out ! j)"
    using bm25.rank_order [OF wf assms(2)] by blast
  show "\<forall>x \<in> set out. 0 \<le> rk_score x \<and>
           (0 < rk_score x \<longleftrightarrow>
              (\<exists>p \<in> set ps. product_key_of p = ranked_key x \<and>
                 set (tokenize q) \<inter> set (tokenize (pd_title p)) \<noteq> {}))"
  proof
    fix x assume x: "x \<in> set out"
    then have "ranked_key x \<in> set (map product_key_of ps)"
      using perm by (metis image_eqI mset_eq_setD set_map)
    then obtain p where p: "p \<in> set ps" "product_key_of p = ranked_key x" by auto
    have score: "rk_score x = bm25_score r (nub (tokenize q)) (ranked_key x)"
      by (rule bm25.rank_scores [OF wf assms(2) x])
    have "0 < rk_score x \<longleftrightarrow> set (tokenize q) \<inter> set (tokenize (pd_title p)) \<noteq> {}"
      unfolding score bm25_score_pos_iff [OF wf] using init(2) [OF p(1)] p(2) by simp
    moreover have same: "tokenize (pd_title p') = tokenize (pd_title p)"
      if "p' \<in> set ps" "product_key_of p' = ranked_key x" for p'
      using init(2) [OF p(1)] init(2) [OF that(1)] p(2) that(2) by simp
    have "(\<exists>p \<in> set ps. product_key_of p = ranked_key x \<and> set (tokenize q) \<inter> set (tokenize (pd_title p)) \<noteq> {})
        \<longleftrightarrow> set (tokenize q) \<inter> set (tokenize (pd_title p)) \<noteq> {}"
      using p same by metis
    ultimately show "0 \<le> rk_score x \<and>
           (0 < rk_score x \<longleftrightarrow>
              (\<exists>p \<in> set ps. product_key_of p = ranked_key x \<and>
                 set (tokenize q) \<inter> set (tokenize (pd_title p)) \<noteq> {}))"
      using bm25_score_nonneg [OF wf] score by simp
  qed
qed

text \<open>
  C19. BM25 ranking. The ranking of a query holds every candidate exactly once, at positions 1, 2, ...;
  scores fall along it, equal scores by ascending product key; no score is negative, and a score is
  positive exactly for the candidates whose title shares a token with the query.
\<close>

theorem bm25_ranking_correct:
  assumes "bm25_init ps k1 b = Inr r" and "bm25_rank r q = Inr out"
  shows "mset (map ranked_key out) = mset (map product_key_of ps) \<and>
    map rk_rank out = [1..<Suc (length ps)] \<and>
    (\<forall>i j. i < j \<and> j < length out \<longrightarrow>
       rk_score (out ! j) < rk_score (out ! i) \<or>
       rk_score (out ! j) = rk_score (out ! i) \<and> ranked_key (out ! i) < ranked_key (out ! j)) \<and>
    (\<forall>x \<in> set out. 0 \<le> rk_score x \<and>
       (0 < rk_score x \<longleftrightarrow>
          (\<exists>p \<in> set ps. product_key_of p = ranked_key x \<and>
             set (tokenize q) \<inter> set (tokenize (pd_title p)) \<noteq> {})))"
  using bm25_ranking_facts [OF assms] by blast

theorem bm25_ranking_correct_witness:
  "\<exists>r out. bm25_init sample_products (Fin (3 / 2)) (Fin (3 / 4)) = Inr r \<and> bm25_rank r sample_query = Inr out \<and>
     map rk_rank out = [1, 2 :: nat]"
proof -
  obtain r out where 1: "bm25_init sample_products (Fin (3 / 2)) (Fin (3 / 4)) = Inr r"
    and 2: "bm25_rank r sample_query = Inr out"
    using sample_bm25 by blast
  from bm25_ranking_correct [OF 1 2] have "map rk_rank out = [1, 2]"
    by (simp add: sample_products_def upt_rec)
  with 1 2 show ?thesis by (intro exI conjI)
qed

text \<open>
  The exact-match boosts keep the ranking contract and are bounded: a candidate's score lies
  between its BM25 score and that score plus the three configured boosts.
\<close>

lemma boost_ranking_bounded:
  assumes "boost_init ps cb nb pb k1 b = Inr r" and "boost_rank r q = Inr out"
  shows "mset (map ranked_key out) = mset (map product_key_of ps) \<and>
    (\<forall>x \<in> set out.
       let base = bm25_score (bo_index r) (nub (tokenize q)) (ranked_key x) in
       base \<le> rk_score x \<and>
       rk_score x \<le> base + of_rat (bo_coverage r) + of_rat (bo_numeric r) + of_rat (bo_phrase r))"
proof -
  note wf = boost_init_wf [OF assms(1)]
  from assms(1) have "bm25_init ps k1 b = Inr (bo_index r)" by (auto simp: boost_init_def)
  from document_tokens_init(1) [OF this] boost.rank_permutation [OF wf assms(2)]
  have perm: "mset (map ranked_key out) = mset (map product_key_of ps)" by simp
  have "let base = bm25_score (bo_index r) (nub (tokenize q)) (ranked_key x) in
       base \<le> rk_score x \<and>
       rk_score x \<le> base + of_rat (bo_coverage r) + of_rat (bo_numeric r) + of_rat (bo_phrase r)"
    if "x \<in> set out" for x
    using boost_parts_bounds [OF wf, of "nub (tokenize q)" "document_tokens (bo_index r) (ranked_key x)"]
    unfolding boost.rank_scores [OF wf assms(2) that] boost_score_def Let_def by linarith
  with perm show ?thesis by blast
qed

text \<open>
  The order in which the candidates are supplied does not matter: two BM25 rankers built from the
  same candidates in any order return identical rankings, scores included.
\<close>

lemma map_of_mset:
  assumes "mset xs = mset ys" "distinct (map fst xs)" "distinct (map fst ys)"
  shows "map_of xs = map_of ys"
proof
  fix k
  have "set xs = set ys" using assms(1) by (metis set_mset_mset)
  then have "map_of xs k = Some v \<longleftrightarrow> map_of ys k = Some v" for v
    using assms(2,3) by simp
  then show "map_of xs k = map_of ys k" by (metis option.exhaust)
qed

lemma bm25_index_perm:
  assumes "bm25_init ps k1 b = Inr r" "bm25_init ps' k1 b = Inr r'" "mset ps = mset ps'"
  shows "bm25_score r qs key = bm25_score r' qs key"
proof -
  let ?entry = "\<lambda>p. (product_key_of p, tokenize (pd_title p))"
  from assms obtain s t where
    r: "r = bm25_index_of s t (map (\<lambda>p. (product_key_of p, pd_title p)) ps)"
    and r': "r' = bm25_index_of s t (map (\<lambda>p. (product_key_of p, pd_title p)) ps')"
    and d: "distinct (map product_key_of ps)" "distinct (map product_key_of ps')"
    by (auto simp: bm25_init_def)
  have tokens: "bm_tokens r = map ?entry ps" "bm_tokens r' = map ?entry ps'"
    by (simp_all add: r r' bm25_index_of_def Let_def comp_def)
  have size: "length ps = length ps'" using assms(3) by (rule mset_eq_length)
  have ms: "mset (map ?entry ps) = mset (map ?entry ps')" using assms(3) by simp
  have maps: "map_of (bm_tokens r) = map_of (bm_tokens r')"
    unfolding tokens by (rule map_of_mset) (use ms d in \<open>simp_all add: comp_def\<close>)
  have df: "document_frequency r u = document_frequency r' u" for u
    unfolding document_frequency_def tokens by (rule mset_eq_length) (simp only: mset_filter ms)
  have "sum_list (map (\<lambda>p. length (tokenize (pd_title p))) ps) = sum_list (map (\<lambda>p. length (tokenize (pd_title p))) ps')"
    unfolding sum_mset_sum_list [symmetric] mset_map assms(3) ..
  then have scalars: "bm_k1 r = bm_k1 r'" "bm_b r = bm_b r'" "bm_corpus_size r = bm_corpus_size r'"
    "bm_average_length r = bm_average_length r'"
    by (simp_all add: r r' bm25_index_of_def Let_def comp_def average_length_def size)
  have doc: "document_tokens r k = document_tokens r' k" for k
    by (simp add: document_tokens_def maps)
  show ?thesis
    unfolding bm25_score_sum bm25_term_def Let_def doc scalars df ..
qed

lemma bm25_input_order_irrelevant:
  assumes "bm25_init ps k1 b = Inr r" and "bm25_init ps' k1 b = Inr r'" and "mset ps = mset ps'"
    and "bm25_rank r q = Inr out" and "bm25_rank r' q = Inr out'"
  shows "out = out'"
proof (rule bm25.rank_input_order_irrelevant [OF bm25_init_wf [OF assms(1)] bm25_init_wf [OF assms(2)] _ _ assms(4,5)])
  show "mset (map fst (bm_tokens r)) = mset (map fst (bm_tokens r'))"
    using document_tokens_init(1) [OF assms(1)] document_tokens_init(1) [OF assms(2)] assms(3) by simp
qed (rule bm25_index_perm [OF assms(1-3)])

text \<open>
  The seeded random comparator is a ranking too, and its scores lie in the unit interval when the
  digest is hexadecimal.
\<close>

lemma random_ranking_correct:
  assumes "random_init ps seed = Inr r" and "random_rank c r q = Inr out" and "\<And>x. list_all hex (cd_sha c x)"
  shows "mset (map ranked_key out) = mset (map product_key_of ps) \<and> (\<forall>x \<in> set out. 0 \<le> rk_score x \<and> rk_score x \<le> 1)"
proof -
  note wf = random_init_wf [OF assms(1)]
  have keys: "rr_product_keys r = map product_key_of ps"
    using assms(1) by (auto simp: random_init_def)
  from assms(2) obtain scored where sc: "traverse (\<lambda>key. ebind (random_score c r (strip q) key) (\<lambda>s. Inr (key, s)))
      (rr_product_keys r) = Inr scored"
    by (auto simp: random_rank_def Let_def split: if_splits)
  have "0 \<le> rk_score x \<and> rk_score x \<le> 1" if "x \<in> set out" for x
  proof -
    have key: "ranked_key x \<in> set (rr_product_keys r)"
      using random.rank_permutation [OF wf assms(2)] that by (metis image_eqI mset_eq_setD set_map)
    from traverse_in [OF sc key] obtain s where s: "random_score c r (strip q) (ranked_key x) = Inr s" by auto
    with random.rank_scores [OF wf assms(2) that] have "rk_score x = s" by (simp add: random_key_score_def)
    with random_score_range [OF s assms(3)] show ?thesis by simp
  qed
  with random.rank_permutation [OF wf assms(2)] keys show ?thesis by simp
qed

definition sample_digests :: codec where
  "sample_digests = \<lparr>cd_ser = (\<lambda>_. []), cd_sha = (\<lambda>_. replicate 64 CHR ''a'')\<rparr>"



text \<open>Reciprocal rank and success see the same hits.\<close>

lemma reciprocal_rank_hit:
  assumes "reciprocal_rank_at_k relevant (JInt (int k)) = Inr v" and "success_at_k relevant (JInt (int k)) = Inr s"
  shows "(s = 1 \<and> 1 / real k \<le> v \<and> v \<le> 1) \<or> (s = 0 \<and> v = 0)"
proof -
  from assms obtain bs where k: "1 \<le> k" and bs: "validate_relevance relevant = Inr bs"
    and v: "v = first_hit 1 (take k bs)" and s: "s = (if list_ex id (take k bs) then 1 else 0)"
    by (auto simp: reciprocal_rank_at_k_def success_at_k_def)
  show ?thesis
  proof (cases "list_ex id (take k bs)")
    case True
    have len: "0 < length (take k bs)" using True by (cases "take k bs") auto
    have "1 / real k \<le> 1 / real (1 + length (take k bs) - 1)"
      using len by (intro divide_left_mono) auto
    also have "\<dots> \<le> v" unfolding v by (rule first_hit_cutoff [OF _ True]) simp
    finally show ?thesis using True s first_hit_bounds [of 1 "take k bs"] by (simp add: v)
  next
    case False
    with first_hit_pos_iff [of 1 "take k bs"] first_hit_bounds [of 1 "take k bs"] show ?thesis
      by (simp add: s v)
  qed
qed

text \<open>Recall is a share of the relevant total and positive exactly with a hit.\<close>

lemma recall_grows:
  assumes "recall_at_k relevant total_relevant (JInt k) = Inr v"
    and "recall_at_k relevant total_relevant (JInt l) = Inr w" and "k \<le> l"
  shows "0 \<le> v \<and> v \<le> w \<and> w \<le> 1"
proof -
  from assms obtain m bs where m: "1 \<le> m" and v: "v = real (length (filter id (take (nat k) bs))) / real_of_int m"
    and w: "w = real (length (filter id (take (nat l) bs))) / real_of_int m"
    by (auto simp: recall_at_k_Inr)
  have "v \<le> w"
    unfolding v w using hits_mono [of "nat k" "nat l" bs] assms(3) m by (intro divide_right_mono) auto
  with recall_range [OF assms(1)] recall_range [OF assms(2)] show ?thesis by simp
qed

lemma recall_hit:
  assumes "recall_at_k relevant total_relevant (JInt (int k)) = Inr v" and "success_at_k relevant (JInt (int k)) = Inr s"
  shows "0 < v \<longleftrightarrow> s = 1"
proof -
  from assms(1) obtain m bs where m: "1 \<le> m" and bs: "validate_relevance relevant = Inr bs"
    and v: "v = real (length (filter id (take k bs))) / real_of_int m"
    by (auto simp: recall_at_k_Inr)
  have "s = (if list_ex id (take k bs) then 1 else 0)" using assms(2) bs by (auto simp: success_at_k_def)
  moreover have "0 < v \<longleftrightarrow> list_ex id (take k bs)"
    using m by (auto simp: v zero_less_divide_iff filter_empty_conv list_ex_iff)
  ultimately show ?thesis by auto
qed

text \<open>
  The hit metrics are consistent. Within a cutoff reciprocal rank, success and recall see a hit together or
  not at all; with a hit the reciprocal rank lies between 1 / k and 1; recall is a share of the relevant total
  that a larger cutoff never lowers.
\<close>

lemma hit_metrics_consistent:
  assumes "reciprocal_rank_at_k relevant (JInt (int k)) = Inr v" and "success_at_k relevant (JInt (int k)) = Inr s"
    and "recall_at_k relevant total_relevant (JInt (int k)) = Inr w" and "recall_at_k relevant total_relevant (JInt (int l)) = Inr w'"
    and "k \<le> l"
  shows "(s = 1 \<and> 1 / real k \<le> v \<and> v \<le> 1 \<and> 0 < w \<or> s = 0 \<and> v = 0 \<and> w = 0) \<and> 0 \<le> w \<and> w \<le> w' \<and> w' \<le> 1"
proof -
  have grows: "0 \<le> w \<and> w \<le> w' \<and> w' \<le> 1" using recall_grows [OF assms(3,4)] assms(5) by simp
  moreover have "(s = 1 \<and> 1 / real k \<le> v \<and> v \<le> 1) \<or> (s = 0 \<and> v = 0)" by (rule reciprocal_rank_hit [OF assms(1,2)])
  moreover have "0 < w \<longleftrightarrow> s = 1" by (rule recall_hit [OF assms(3,2)])
  ultimately show ?thesis by force
qed

end
