(* ===== verification/RetrievalContracts.thy ===== *)
theory RetrievalContracts
  imports Ranking
begin

text \<open>
  \<^verbatim>\<open>src/search_quality/retrieval/contracts.py\<close>: the label-blind contracts of the retrieval stages. A
  frozen dataclass is a record; its \<^verbatim>\<open>__post_init__\<close> is a function \<open>*_init\<close> that returns the stored
  (stripped) value or raises. Texts and component ids are code points, scores are real numbers,
  so the \<^verbatim>\<open>isinstance\<close> and \<^verbatim>\<open>isfinite\<close> checks on them are settled by their types; ranks are natural
  numbers. The \<^verbatim>\<open>to_dict\<close> renderings are not modelled.
  The lemmas give each constructor on values that are already valid, which is how the channels
  and the pipeline call them.
\<close>

definition SAFE_COMPONENT_ID :: "ustring \<Rightarrow> bool" where
  "SAFE_COMPONENT_ID s =
     (case s of
        [] \<Rightarrow> False
      | c # cs \<Rightarrow> ascii_lower c \<and> list_all (\<lambda>d. ascii_lower d \<or> ascii_digit d \<or> d = 45) cs \<and> length cs \<le> 63)"

definition require_text :: "ustring \<Rightarrow> exn + ustring" where
  "require_text value = (if strip value = [] then Inl ValueError else Inr (strip value))"

definition require_component_id :: "ustring \<Rightarrow> exn + ustring" where
  "require_component_id value =
     ebind (require_text value) (\<lambda>normalized.
     ebind (require (SAFE_COMPONENT_ID normalized) ValueError) (\<lambda>_. Inr normalized))"

definition canonical_config :: "dict \<Rightarrow> exn + dict" where
  "canonical_config config = ebind (require (json_ok (JObj config)) ValueError) (\<lambda>_. Inr config)"

definition validate_ranked_keys :: "product_key list \<Rightarrow> nat list \<Rightarrow> exn + unit" where
  "validate_ranked_keys keys ranks =
     ebind (require (distinct keys) ValueError) (\<lambda>_.
     require (ranks = [1..<length ranks + 1]) ValueError)"

subsection \<open>Documents\<close>

record retrieval_document =
  rd_locale :: ustring
  rd_product_id :: ustring
  rd_title :: ustring
  rd_brand :: ustring
  rd_bullet_point :: ustring
  rd_description :: ustring

definition retrieval_document_init ::
    "ustring \<Rightarrow> ustring \<Rightarrow> ustring \<Rightarrow> ustring \<Rightarrow> ustring \<Rightarrow> ustring \<Rightarrow> exn + retrieval_document" where
  "retrieval_document_init locale product_id title brand bullet_point description =
     ebind (require_text locale) (\<lambda>l.
     ebind (require_text product_id) (\<lambda>p.
     ebind (require_text title) (\<lambda>t.
     Inr \<lparr>rd_locale = l, rd_product_id = p, rd_title = t, rd_brand = strip brand,
          rd_bullet_point = strip bullet_point, rd_description = strip description\<rparr>)))"

definition document_key :: "retrieval_document \<Rightarrow> product_key" where
  "document_key d = (rd_locale d, rd_product_id d)"

definition validate_retrieval_documents :: "retrieval_document list \<Rightarrow> exn + retrieval_document list" where
  "validate_retrieval_documents documents =
     ebind (require (documents \<noteq> []) ValueError) (\<lambda>_.
     ebind (require (distinct (map document_key documents)) ValueError) (\<lambda>_. Inr documents))"

subsection \<open>Hits of a channel\<close>

record retrieval_hit =
  rh_channel_id :: ustring
  rh_locale :: ustring
  rh_product_id :: ustring
  rh_rank :: nat
  rh_score :: real

definition retrieval_hit_init ::
    "ustring \<Rightarrow> ustring \<Rightarrow> ustring \<Rightarrow> nat \<Rightarrow> real \<Rightarrow> exn + retrieval_hit" where
  "retrieval_hit_init channel_id locale product_id rank score =
     ebind (require_component_id channel_id) (\<lambda>c.
     ebind (require_text locale) (\<lambda>l.
     ebind (require_text product_id) (\<lambda>p.
     ebind (require (1 \<le> rank) ValueError) (\<lambda>_.
     Inr \<lparr>rh_channel_id = c, rh_locale = l, rh_product_id = p, rh_rank = rank, rh_score = score\<rparr>))))"

definition hit_key :: "retrieval_hit \<Rightarrow> product_key" where
  "hit_key h = (rh_locale h, rh_product_id h)"

record channel_result =
  ch_channel_id :: ustring
  ch_config :: dict
  ch_hits :: "retrieval_hit list"

definition channel_result_init :: "ustring \<Rightarrow> dict \<Rightarrow> retrieval_hit list \<Rightarrow> exn + channel_result" where
  "channel_result_init channel_id config hits =
     ebind (require_component_id channel_id) (\<lambda>c.
     ebind (canonical_config config) (\<lambda>cfg.
     ebind (require (\<not> (\<exists>h \<in> set hits. rh_channel_id h \<noteq> c)) ValueError) (\<lambda>_.
     ebind (validate_ranked_keys (map hit_key hits) (map rh_rank hits)) (\<lambda>_.
     Inr \<lparr>ch_channel_id = c, ch_config = cfg, ch_hits = hits\<rparr>))))"

subsection \<open>Fusion and later stages\<close>

record rrf_contribution =
  rc_channel_id :: ustring
  rc_source_rank :: nat
  rc_contribution :: real

definition rrf_contribution_init :: "ustring \<Rightarrow> nat \<Rightarrow> real \<Rightarrow> exn + rrf_contribution" where
  "rrf_contribution_init channel_id source_rank contribution =
     ebind (require_component_id channel_id) (\<lambda>c.
     ebind (require (1 \<le> source_rank) ValueError) (\<lambda>_.
     ebind (require (0 < contribution) ValueError) (\<lambda>_.
     Inr \<lparr>rc_channel_id = c, rc_source_rank = source_rank, rc_contribution = contribution\<rparr>)))"

record fused_hit =
  fh_locale :: ustring
  fh_product_id :: ustring
  fh_rank :: nat
  fh_score :: real
  fh_contributions :: "rrf_contribution list"

text \<open>\<^verbatim>\<open>math.isclose(score, fsum(...), rel_tol=0.0, abs_tol=1e-15)\<close>\<close>

definition fused_hit_init ::
    "ustring \<Rightarrow> ustring \<Rightarrow> nat \<Rightarrow> real \<Rightarrow> rrf_contribution list \<Rightarrow> exn + fused_hit" where
  "fused_hit_init locale product_id rank score contributions =
     ebind (require_text locale) (\<lambda>l.
     ebind (require_text product_id) (\<lambda>p.
     ebind (require (1 \<le> rank) ValueError) (\<lambda>_.
     ebind (require (contributions \<noteq> []) ValueError) (\<lambda>_.
     ebind (require (distinct (map rc_channel_id contributions)) ValueError) (\<lambda>_.
     ebind (require (\<bar>score - sum_list (map rc_contribution contributions)\<bar> \<le> 1 / 10 ^ 15) ValueError) (\<lambda>_.
     Inr \<lparr>fh_locale = l, fh_product_id = p, fh_rank = rank, fh_score = score,
          fh_contributions = contributions\<rparr>))))))"

definition fused_key :: "fused_hit \<Rightarrow> product_key" where
  "fused_key h = (fh_locale h, fh_product_id h)"

record stage_hit =
  sh_stage_id :: ustring
  sh_locale :: ustring
  sh_product_id :: ustring
  sh_rank :: nat
  sh_score :: real

definition stage_hit_init :: "ustring \<Rightarrow> ustring \<Rightarrow> ustring \<Rightarrow> nat \<Rightarrow> real \<Rightarrow> exn + stage_hit" where
  "stage_hit_init stage_id locale product_id rank score =
     ebind (require_component_id stage_id) (\<lambda>s.
     ebind (require_text locale) (\<lambda>l.
     ebind (require_text product_id) (\<lambda>p.
     ebind (require (1 \<le> rank) ValueError) (\<lambda>_.
     Inr \<lparr>sh_stage_id = s, sh_locale = l, sh_product_id = p, sh_rank = rank, sh_score = score\<rparr>))))"

definition stage_key :: "stage_hit \<Rightarrow> product_key" where
  "stage_key h = (sh_locale h, sh_product_id h)"

record search_pipeline_result =
  sp_pipeline_id :: ustring
  sp_config :: dict
  sp_channels :: "channel_result list"
  sp_recall_union :: "product_key list"
  sp_fused_hits :: "fused_hit list"
  sp_coarse_hits :: "stage_hit list"

text \<open>\<^verbatim>\<open>sorted({hit.key for channel in channels for hit in channel.hits})\<close>\<close>

definition recall_union_of :: "channel_result list \<Rightarrow> product_key list" where
  "recall_union_of channels = sort (remdups (concat (map (\<lambda>c. map hit_key (ch_hits c)) channels)))"

definition search_pipeline_result_init ::
    "ustring \<Rightarrow> dict \<Rightarrow> channel_result list \<Rightarrow> product_key list \<Rightarrow> fused_hit list \<Rightarrow> stage_hit list \<Rightarrow>
     exn + search_pipeline_result" where
  "search_pipeline_result_init pipeline_id config channels recall_union fused_hits coarse_hits =
     ebind (require_component_id pipeline_id) (\<lambda>i.
     ebind (canonical_config config) (\<lambda>cfg.
     ebind (require (distinct (map ch_channel_id channels)) ValueError) (\<lambda>_.
     ebind (require (recall_union = recall_union_of channels) ValueError) (\<lambda>_.
     ebind (validate_ranked_keys (map fused_key fused_hits) (map fh_rank fused_hits)) (\<lambda>_.
     ebind (validate_ranked_keys (map stage_key coarse_hits) (map sh_rank coarse_hits)) (\<lambda>_.
     ebind (require (set (map fused_key fused_hits) \<subseteq> set recall_union) ValueError) (\<lambda>_.
     ebind (require (set (map stage_key coarse_hits) \<subseteq> set (map fused_key fused_hits)) ValueError) (\<lambda>_.
     Inr \<lparr>sp_pipeline_id = i, sp_config = cfg, sp_channels = channels, sp_recall_union = recall_union,
          sp_fused_hits = fused_hits, sp_coarse_hits = coarse_hits\<rparr>))))))))"

subsection \<open>Constructors on valid values\<close>

definition clean_text :: "ustring \<Rightarrow> bool" where
  "clean_text s = (s \<noteq> [] \<and> strip s = s)"

definition clean_id :: "ustring \<Rightarrow> bool" where
  "clean_id s = (clean_text s \<and> SAFE_COMPONENT_ID s)"

definition clean_key :: "product_key \<Rightarrow> bool" where
  "clean_key k = (clean_text (fst k) \<and> clean_text (snd k))"

lemma require_text_clean [simp]: "clean_text s \<Longrightarrow> require_text s = Inr s"
  by (simp add: require_text_def clean_text_def)

lemma require_text_Inr: "require_text s = Inr t \<Longrightarrow> clean_text t"
  by (auto simp: require_text_def clean_text_def split: if_splits)

lemma require_component_id_clean [simp]: "clean_id s \<Longrightarrow> require_component_id s = Inr s"
  by (simp add: require_component_id_def clean_id_def)

lemma require_component_id_Inr: "require_component_id s = Inr t \<Longrightarrow> clean_id t"
  by (auto simp: require_component_id_def clean_id_def dest: require_text_Inr)

lemma document_key_clean: "retrieval_document_init l p t b u d = Inr doc \<Longrightarrow> clean_key (document_key doc)"
  by (auto simp: retrieval_document_init_def document_key_def clean_key_def dest: require_text_Inr)

lemma validate_retrieval_documents_Inr [simp]:
  "validate_retrieval_documents ds = Inr xs \<longleftrightarrow> xs = ds \<and> ds \<noteq> [] \<and> distinct (map document_key ds)"
  by (auto simp: validate_retrieval_documents_def)

lemma validate_ranked_keys_Inr [simp]:
  "validate_ranked_keys keys ranks = Inr u \<longleftrightarrow> distinct keys \<and> ranks = [1..<length ranks + 1]"
  by (simp add: validate_ranked_keys_def del: upt_Suc)

end
