(* ===== verification/Rrf.thy ===== *)
theory Rrf
  imports RetrievalContracts
begin

text \<open>
  \<^verbatim>\<open>src/search_quality/retrieval/rrf.py\<close>: reciprocal-rank fusion. \<^verbatim>\<open>weights=None\<close> is the empty
  mapping, as in the source (\<^verbatim>\<open>weights or {}\<close>). The grouping dictionary is an association list in
  insertion order. Sums and quotients are real numbers, so \<^verbatim>\<open>math.fsum\<close> is the sum.
  The lemmas compute the result of a call with valid arguments, from which the score, the order
  and the provenance of every fused hit are read off.
\<close>

subsection \<open>The operation\<close>

definition positive_int :: "json \<Rightarrow> exn + int" where
  "positive_int v =
     (case strict_int v of
        None \<Rightarrow> Inl TypeError
      | Some i \<Rightarrow> ebind (require (1 \<le> i) ValueError) (\<lambda>_. Inr i))"

definition positive_weight :: "json \<Rightarrow> exn + rat" where
  "positive_weight v =
     ebind (to_float v) (\<lambda>f.
     case f of Fin r \<Rightarrow> ebind (require (0 < r) ValueError) (\<lambda>_. Inr r) | _ \<Rightarrow> Inl ValueError)"

definition channel_weight :: "(ustring \<times> json) list \<Rightarrow> ustring \<Rightarrow> json" where
  "channel_weight weights channel_id =
     (case map_of weights channel_id of None \<Rightarrow> JFloat (Fin 1) | Some w \<Rightarrow> w)"

definition normalized_weights :: "(ustring \<times> json) list \<Rightarrow> ustring list \<Rightarrow> exn + (ustring \<times> rat) list" where
  "normalized_weights weights channel_ids =
     traverse (\<lambda>c. ebind (positive_weight (channel_weight weights c)) (\<lambda>r. Inr (c, r))) channel_ids"

text \<open>\<^verbatim>\<open>contributions[key].append(item)\<close> on a \<^verbatim>\<open>defaultdict(list)\<close>\<close>

fun group_add :: "'k \<Rightarrow> 'v \<Rightarrow> ('k \<times> 'v list) list \<Rightarrow> ('k \<times> 'v list) list" where
  "group_add k v [] = [(k, [v])]"
| "group_add k v ((k', vs) # m) = (if k' = k then (k', vs @ [v]) # m else (k', vs) # group_add k v m)"

definition group_all :: "('k \<times> 'v) list \<Rightarrow> ('k \<times> 'v list) list" where
  "group_all ps = foldl (\<lambda>m p. group_add (fst p) (snd p) m) [] ps"

definition hit_contribution ::
    "int \<Rightarrow> rat \<Rightarrow> channel_result \<Rightarrow> retrieval_hit \<Rightarrow> exn + product_key \<times> rrf_contribution" where
  "hit_contribution rrf_k weight channel hit =
     ebind (rrf_contribution_init (ch_channel_id channel) (rh_rank hit)
              (of_rat weight / real_of_int (rrf_k + int (rh_rank hit)))) (\<lambda>c.
     Inr (hit_key hit, c))"

definition all_contributions ::
    "int \<Rightarrow> (ustring \<times> rat) list \<Rightarrow> channel_result list \<Rightarrow> exn + (product_key \<times> rrf_contribution) list" where
  "all_contributions rrf_k weights channels =
     ebind (traverse (\<lambda>channel.
              case map_of weights (ch_channel_id channel) of
                None \<Rightarrow> Inl KeyError
              | Some w \<Rightarrow> traverse (hit_contribution rrf_k w channel) (ch_hits channel)) channels) (\<lambda>pss.
     Inr (concat pss))"

definition score_group ::
    "product_key \<times> rrf_contribution list \<Rightarrow> product_key \<times> real \<times> rrf_contribution list" where
  "score_group g =
     (fst g, sum_list (map rc_contribution (snd g)), sort_key rc_channel_id (snd g))"

definition to_fused_hits ::
    "(product_key \<times> real \<times> rrf_contribution list) list \<Rightarrow> exn + fused_hit list" where
  "to_fused_hits scored =
     traverse (\<lambda>(rank, key, score, items). fused_hit_init (fst key) (snd key) rank score items)
       (enumerate 1 scored)"

definition reciprocal_rank_fuse ::
    "channel_result list \<Rightarrow> json \<Rightarrow> json \<Rightarrow> (ustring \<times> json) list \<Rightarrow> exn + fused_hit list" where
  "reciprocal_rank_fuse channels rrf_k top_k weights =
     ebind (positive_int rrf_k) (\<lambda>k.
     ebind (positive_int top_k) (\<lambda>limit.
     ebind (require (channels \<noteq> []) ValueError) (\<lambda>_.
     let channel_ids = map ch_channel_id channels in
     ebind (require (distinct channel_ids) ValueError) (\<lambda>_.
     ebind (require (set (map fst weights) \<subseteq> set channel_ids) ValueError) (\<lambda>_.
     ebind (normalized_weights weights channel_ids) (\<lambda>ws.
     ebind (all_contributions k ws channels) (\<lambda>ps.
     to_fused_hits (take (nat limit)
       (sort_key (\<lambda>item. (- fst (snd item), fst item)) (map score_group (group_all ps)))))))))))"

subsection \<open>Grouping\<close>

lemma nub_snoc: "nub (xs @ [x]) = (if x \<in> set xs then nub xs else nub xs @ [x])"
  by (induction xs) auto

lemma group_add_map:
  assumes "distinct ks"
  shows "group_add k v (map (\<lambda>k'. (k', f k')) ks) =
         (if k \<in> set ks then map (\<lambda>k'. (k', if k' = k then f k' @ [v] else f k')) ks
          else map (\<lambda>k'. (k', f k')) ks @ [(k, [v])])"
  using assms by (induction ks) auto

lemma group_all_eq:
  "group_all ps = map (\<lambda>k. (k, map snd (filter (\<lambda>p. fst p = k) ps))) (nub (map fst ps))"
proof (induction ps rule: rev_induct)
  case (snoc p ps)
  let ?f = "\<lambda>k. map snd (filter (\<lambda>p. fst p = k) ps)"
  have "group_all (ps @ [p]) = group_add (fst p) (snd p) (map (\<lambda>k. (k, ?f k)) (nub (map fst ps)))"
    using snoc by (simp add: group_all_def)
  also have "\<dots> = map (\<lambda>k. (k, map snd (filter (\<lambda>p. fst p = k) (ps @ [p])))) (nub (map fst (ps @ [p])))"
  proof (cases "fst p \<in> fst ` set ps")
    case False
    then have "?f (fst p) = []" by (auto simp: filter_empty_conv image_iff)
    with False show ?thesis by (auto simp: group_add_map nub_snoc)
  qed (auto simp: group_add_map nub_snoc)
  finally show ?case .
qed (simp add: group_all_def)

subsection \<open>Valid channels\<close>

definition channel_ok :: "channel_result \<Rightarrow> bool" where
  "channel_ok c =
     (clean_id (ch_channel_id c) \<and> list_all (\<lambda>h. clean_key (hit_key h) \<and> 1 \<le> rh_rank h) (ch_hits c) \<and>
      distinct (map hit_key (ch_hits c)) \<and> distinct (map rh_rank (ch_hits c)))"

definition channels_ok :: "channel_result list \<Rightarrow> bool" where
  "channels_ok cs = (cs \<noteq> [] \<and> list_all channel_ok cs \<and> distinct (map ch_channel_id cs))"

text \<open>The rank of a product in a channel, and its fused score.\<close>

definition rank_in :: "channel_result \<Rightarrow> product_key \<Rightarrow> nat option" where
  "rank_in c key = map_of (map (\<lambda>h. (hit_key h, rh_rank h)) (ch_hits c)) key"

definition contribution_in :: "int \<Rightarrow> (ustring \<Rightarrow> real) \<Rightarrow> channel_result \<Rightarrow> product_key \<Rightarrow> real" where
  "contribution_in k w c key =
     (case rank_in c key of None \<Rightarrow> 0 | Some r \<Rightarrow> w (ch_channel_id c) / real_of_int (k + int r))"

definition rrf_score :: "int \<Rightarrow> (ustring \<Rightarrow> real) \<Rightarrow> channel_result list \<Rightarrow> product_key \<Rightarrow> real" where
  "rrf_score k w channels key = (\<Sum>c\<leftarrow>channels. contribution_in k w c key)"

definition weight_of :: "(ustring \<times> json) list \<Rightarrow> ustring \<Rightarrow> real" where
  "weight_of weights c = of_rat (projr (positive_weight (channel_weight weights c)))"

definition weights_ok :: "(ustring \<times> json) list \<Rightarrow> channel_result list \<Rightarrow> bool" where
  "weights_ok weights channels =
     (set (map fst weights) \<subseteq> ch_channel_id ` set channels \<and>
      list_all (\<lambda>c. \<not> isl (positive_weight (channel_weight weights (ch_channel_id c)))) channels)"

definition all_hits :: "channel_result list \<Rightarrow> (channel_result \<times> retrieval_hit) list" where
  "all_hits channels = concat (map (\<lambda>c. map (\<lambda>h. (c, h)) (ch_hits c)) channels)"

definition contribution_of :: "int \<Rightarrow> (ustring \<Rightarrow> real) \<Rightarrow> channel_result \<times> retrieval_hit \<Rightarrow> rrf_contribution" where
  "contribution_of k w p =
     \<lparr>rc_channel_id = ch_channel_id (fst p), rc_source_rank = rh_rank (snd p),
      rc_contribution = w (ch_channel_id (fst p)) / real_of_int (k + int (rh_rank (snd p)))\<rparr>"

lemma positive_int_JInt [simp]: "1 \<le> i \<Longrightarrow> positive_int (JInt i) = Inr i"
  by (simp add: positive_int_def)

lemma positive_int_Inr: "positive_int v = Inr i \<longleftrightarrow> v = JInt i \<and> 1 \<le> i"
  by (cases v) (auto simp: positive_int_def)

lemma positive_weight_Inr: "positive_weight v = Inr r \<Longrightarrow> 0 < r"
  by (cases "to_float v"; cases "projr (to_float v)") (auto simp: positive_weight_def)

lemma weights_ok_weight:
  assumes "weights_ok ws cs" "c \<in> set cs"
  shows "\<exists>r. positive_weight (channel_weight ws (ch_channel_id c)) = Inr r \<and> 0 < r \<and>
             weight_of ws (ch_channel_id c) = of_rat r"
  using assms positive_weight_Inr
  by (cases "positive_weight (channel_weight ws (ch_channel_id c))")
     (auto simp: weights_ok_def list_all_iff weight_of_def)

lemma weight_of_pos: "weights_ok ws cs \<Longrightarrow> c \<in> set cs \<Longrightarrow> 0 < weight_of ws (ch_channel_id c)"
  using weights_ok_weight by fastforce

subsection \<open>The result of a valid call\<close>

lemma normalized_weights_ok:
  assumes "weights_ok ws cs"
  shows "\<exists>m. normalized_weights ws (map ch_channel_id cs) = Inr m \<and> map fst m = map ch_channel_id cs \<and>
            (\<forall>c \<in> set cs. map_of m (ch_channel_id c) = Some (projr (positive_weight (channel_weight ws (ch_channel_id c)))))"
proof -
  let ?w = "\<lambda>i. projr (positive_weight (channel_weight ws i))"
  have "normalized_weights ws (map ch_channel_id cs) = Inr (map (\<lambda>i. (i, ?w i)) (map ch_channel_id cs))"
    unfolding normalized_weights_def
    by (rule traverse_Inr_map) (use weights_ok_weight [OF assms] in fastforce)
  moreover have "map_of (map (\<lambda>i. (i, ?w i)) (map ch_channel_id cs)) (ch_channel_id c) = Some (?w (ch_channel_id c))"
    if "c \<in> set cs" for c
    unfolding map_of_map_restrict using that by simp
  ultimately show ?thesis by (intro exI conjI ballI) (assumption, simp add: comp_def, blast)
qed

lemma hit_contribution_ok:
  assumes "1 \<le> k" "0 < r" "channel_ok c" "h \<in> set (ch_hits c)" "w (ch_channel_id c) = of_rat r"
  shows "hit_contribution k r c h = Inr (hit_key h, contribution_of k w (c, h))"
proof -
  have "0 < (of_rat r :: real) / real_of_int (k + int (rh_rank h))"
    using assms(1,2) by (intro divide_pos_pos) auto
  then show ?thesis
    using assms by (auto simp: hit_contribution_def rrf_contribution_init_def contribution_of_def
        channel_ok_def list_all_iff)
qed

lemma all_contributions_ok:
  assumes k: "1 \<le> k" and cs: "list_all channel_ok cs" and ws: "weights_ok ws cs"
    and m: "\<forall>c \<in> set cs. map_of m (ch_channel_id c) = Some (projr (positive_weight (channel_weight ws (ch_channel_id c))))"
  shows "all_contributions k m cs =
         Inr (map (\<lambda>p. (hit_key (snd p), contribution_of k (weight_of ws) p)) (all_hits cs))"
proof -
  let ?g = "\<lambda>c. map (\<lambda>h. (hit_key h, contribution_of k (weight_of ws) (c, h))) (ch_hits c)"
  have "traverse (\<lambda>c. case map_of m (ch_channel_id c) of None \<Rightarrow> Inl KeyError
               | Some w \<Rightarrow> traverse (hit_contribution k w c) (ch_hits c)) cs = Inr (map ?g cs)"
  proof (rule traverse_Inr_map)
    fix c assume c: "c \<in> set cs"
    from weights_ok_weight [OF ws c] obtain r where r: "map_of m (ch_channel_id c) = Some r" "0 < r"
      "weight_of ws (ch_channel_id c) = of_rat r"
      using m c by auto
    have "traverse (hit_contribution k r c) (ch_hits c) = Inr (?g c)"
      by (rule traverse_Inr_map) (use c cs r in \<open>auto simp: list_all_iff intro!: hit_contribution_ok k\<close>)
    with r(1) show "(case map_of m (ch_channel_id c) of None \<Rightarrow> Inl KeyError
               | Some w \<Rightarrow> traverse (hit_contribution k w c) (ch_hits c)) = Inr (?g c)" by simp
  qed
  then show ?thesis by (simp add: all_contributions_def all_hits_def map_concat comp_def)
qed

lemma filter_distinct_key:
  "distinct (map f xs) \<Longrightarrow>
     filter (\<lambda>x. f x = k) xs = (case map_of (map (\<lambda>x. (f x, x)) xs) k of None \<Rightarrow> [] | Some x \<Rightarrow> [x])"
proof (induction xs)
  case (Cons x xs)
  have "filter (\<lambda>y. f y = k) xs = []" if "f x = k" using Cons.prems that by (auto simp: filter_empty_conv image_iff)
  with Cons show ?case by (cases "f x = k") simp_all
qed simp

lemma rank_in_hit: "rank_in c key = map_option rh_rank (map_of (map (\<lambda>h. (hit_key h, h)) (ch_hits c)) key)"
proof -
  have "map_of (map (\<lambda>h. (hit_key h, rh_rank h)) hs) key = map_option rh_rank (map_of (map (\<lambda>h. (hit_key h, h)) hs) key)" for hs
    by (induction hs) auto
  then show ?thesis by (simp add: rank_in_def)
qed

text \<open>The hits of one product: at most one per channel.\<close>

definition hits_of :: "channel_result list \<Rightarrow> product_key \<Rightarrow> (channel_result \<times> retrieval_hit) list" where
  "hits_of cs key = filter (\<lambda>p. hit_key (snd p) = key) (all_hits cs)"

lemma hits_of_Cons:
  assumes "channel_ok c"
  shows "hits_of (c # cs) key =
         (case map_of (map (\<lambda>h. (hit_key h, h)) (ch_hits c)) key of None \<Rightarrow> [] | Some h \<Rightarrow> [(c, h)]) @ hits_of cs key"
  using filter_distinct_key [of hit_key "ch_hits c" key] assms
  by (auto simp: hits_of_def all_hits_def filter_map comp_def channel_ok_def split: option.splits)

lemma hits_of_Nil [simp]: "hits_of [] key = []"
  by (simp add: hits_of_def all_hits_def)

lemma hits_of_sum:
  "list_all channel_ok cs \<Longrightarrow>
     sum_list (map (\<lambda>p. rc_contribution (contribution_of k w p)) (hits_of cs key)) = rrf_score k w cs key"
  by (induction cs)
     (auto simp: hits_of_Cons rrf_score_def contribution_in_def rank_in_hit contribution_of_def split: option.splits)

lemma hits_of_channels: "p \<in> set (hits_of cs key) \<Longrightarrow> fst p \<in> set cs"
  by (auto simp: hits_of_def all_hits_def)

lemma hits_of_distinct:
  "list_all channel_ok cs \<Longrightarrow> distinct (map ch_channel_id cs) \<Longrightarrow>
     distinct (map (\<lambda>p. ch_channel_id (fst p)) (hits_of cs key))"
proof (induction cs)
  case (Cons c cs)
  then have "ch_channel_id c \<notin> (\<lambda>p. ch_channel_id (fst p)) ` set (hits_of cs key)"
    using hits_of_channels [of _ cs key] by fastforce
  with Cons show ?case by (auto simp: hits_of_Cons split: option.splits)
qed simp

definition union_keys :: "channel_result list \<Rightarrow> product_key list" where
  "union_keys cs = nub (map (\<lambda>p. hit_key (snd p)) (all_hits cs))"

definition provenance :: "int \<Rightarrow> (ustring \<Rightarrow> real) \<Rightarrow> channel_result list \<Rightarrow> product_key \<Rightarrow> rrf_contribution list" where
  "provenance k w cs key = sort_key rc_channel_id (map (contribution_of k w) (hits_of cs key))"

definition fused_of ::
    "int \<Rightarrow> (ustring \<Rightarrow> real) \<Rightarrow> channel_result list \<Rightarrow> nat \<Rightarrow> product_key \<Rightarrow> fused_hit" where
  "fused_of k w cs rank key =
     \<lparr>fh_locale = fst key, fh_product_id = snd key, fh_rank = rank, fh_score = rrf_score k w cs key,
      fh_contributions = provenance k w cs key\<rparr>"

text \<open>Keys by descending score, ties by ascending key.\<close>

definition best_first :: "(product_key \<Rightarrow> real) \<Rightarrow> product_key list \<Rightarrow> product_key list" where
  "best_first score keys = sort_key (\<lambda>key. (- score key, key)) keys"

lemma set_union_keys: "set (union_keys cs) = {hit_key h |c h. c \<in> set cs \<and> h \<in> set (ch_hits c)}"
proof -
  have "set (all_hits cs) = {(c, h) |c h. c \<in> set cs \<and> h \<in> set (ch_hits c)}" by (auto simp: all_hits_def)
  then show ?thesis by (force simp: union_keys_def)
qed

lemma traverse_map: "traverse f (map g xs) = traverse (\<lambda>x. f (g x)) xs"
  by (induction xs) auto

lemma sort_key_map: "sort_key g (map f xs) = map f (sort_key (\<lambda>x. g (f x)) xs)"
proof -
  have "insort_key g (f x) (map f ys) = map f (insort_key (\<lambda>x. g (f x)) x ys)" for x ys
    by (induction ys) auto
  then show ?thesis by (induction xs) auto
qed

lemma sum_list_sort_key: "sum_list (map f (sort_key g xs)) = (sum_list (map f xs) :: real)"
  by (simp flip: sum_mset_sum_list)

lemma fused_hit_init_ok:
  assumes "channels_ok cs" "key \<in> set (union_keys cs)" "1 \<le> rank"
  shows "fused_hit_init (fst key) (snd key) rank (rrf_score k w cs key) (provenance k w cs key) =
         Inr (fused_of k w cs rank key)"
proof -
  have cs: "list_all channel_ok cs" "distinct (map ch_channel_id cs)" using assms(1) by (auto simp: channels_ok_def)
  from assms(2) cs(1) have "clean_key key" by (auto simp: set_union_keys list_all_iff channel_ok_def)
  then have key: "require_text (fst key) = Inr (fst key)" "require_text (snd key) = Inr (snd key)"
    by (simp_all add: clean_key_def)
  have "hits_of cs key \<noteq> []" using assms(2) by (auto simp: hits_of_def union_keys_def filter_empty_conv)
  then have ne: "provenance k w cs key \<noteq> []" by (metis provenance_def map_is_Nil_conv set_empty set_sort)
  have "mset (map rc_channel_id (provenance k w cs key)) = mset (map (\<lambda>p. ch_channel_id (fst p)) (hits_of cs key))"
    by (simp add: provenance_def image_mset.compositionality comp_def contribution_of_def)
  then have d: "distinct (map rc_channel_id (provenance k w cs key))"
    using hits_of_distinct [OF cs] by (metis mset_eq_imp_distinct_iff)
  have "sum_list (map rc_contribution (provenance k w cs key)) = rrf_score k w cs key"
    using hits_of_sum [OF cs(1)] by (simp add: provenance_def sum_list_sort_key comp_def)
  with key ne d assms(3) show ?thesis by (simp add: fused_hit_init_def fused_of_def)
qed

theorem fuse_result:
  assumes cs: "channels_ok cs" and ws: "weights_ok ws cs" and k: "1 \<le> k" and n: "1 \<le> n"
  shows "reciprocal_rank_fuse cs (JInt k) (JInt n) ws =
         Inr (map (\<lambda>(rank, key). fused_of k (weight_of ws) cs rank key)
               (enumerate 1 (take (nat n) (best_first (rrf_score k (weight_of ws) cs) (union_keys cs)))))"
proof -
  let ?w = "weight_of ws"
  let ?B = "take (nat n) (best_first (rrf_score k ?w cs) (union_keys cs))"
  let ?t = "\<lambda>key. (key, rrf_score k ?w cs key, provenance k ?w cs key)"
  have ok: "list_all channel_ok cs" "cs \<noteq> []" "distinct (map ch_channel_id cs)" using cs by (auto simp: channels_ok_def)
  obtain m where m: "normalized_weights ws (map ch_channel_id cs) = Inr m"
    "\<forall>c \<in> set cs. map_of m (ch_channel_id c) = Some (projr (positive_weight (channel_weight ws (ch_channel_id c))))"
    using normalized_weights_ok [OF ws] by blast
  let ?ps = "map (\<lambda>p. (hit_key (snd p), contribution_of k ?w p)) (all_hits cs)"
  have "group_all ?ps = map (\<lambda>key. (key, map (contribution_of k ?w) (hits_of cs key))) (union_keys cs)"
    by (simp add: group_all_eq union_keys_def hits_of_def comp_def filter_map)
  then have "map score_group (group_all ?ps) = map ?t (union_keys cs)"
    using hits_of_sum [OF ok(1)] by (simp add: score_group_def provenance_def comp_def)
  then have s: "sort_key (\<lambda>item. (- fst (snd item), fst item)) (map score_group (group_all ?ps)) =
             map ?t (best_first (rrf_score k ?w cs) (union_keys cs))"
    by (simp add: sort_key_map best_first_def)
  have "to_fused_hits (map ?t ?B) = Inr (map (\<lambda>(rank, key). fused_of k ?w cs rank key) (enumerate 1 ?B))"
  proof -
    have e: "enumerate 1 (map ?t ?B) = map (\<lambda>(rank, key). (rank, ?t key)) (enumerate 1 ?B)"
      by (rule nth_equalityI) (simp_all add: nth_enumerate_eq)
    have "traverse (\<lambda>(rank, key). fused_hit_init (fst key) (snd key) rank (rrf_score k ?w cs key) (provenance k ?w cs key))
            (enumerate 1 ?B) = Inr (map (\<lambda>(rank, key). fused_of k ?w cs rank key) (enumerate 1 ?B))"
    proof (rule traverse_Inr_map)
      fix p assume p: "p \<in> set (enumerate 1 ?B)"
      obtain rank key where [simp]: "p = (rank, key)" by (cases p)
      have "key \<in> set ?B" using p set_zip_rightD [of rank key] by (auto simp: enumerate_eq_zip)
      then have "key \<in> set (union_keys cs)" by (auto simp: best_first_def dest: in_set_takeD)
      moreover have "1 \<le> rank" using p by (auto simp: in_set_enumerate_eq)
      ultimately show "(case p of (rank, key) \<Rightarrow> fused_hit_init (fst key) (snd key) rank (rrf_score k ?w cs key) (provenance k ?w cs key))
            = Inr (case p of (rank, key) \<Rightarrow> fused_of k ?w cs rank key)"
        using fused_hit_init_ok [OF cs] by simp
    qed
    then show ?thesis unfolding to_fused_hits_def e traverse_map case_prod_unfold by simp
  qed
  then show ?thesis
    using ok ws k n m all_contributions_ok [OF k ok(1) ws m(2)] s
    by (auto simp: reciprocal_rank_fuse_def weights_ok_def take_map)
qed

subsection \<open>What fusion promises\<close>

lemma distinct_union_keys [simp]: "distinct (union_keys cs)"
  by (simp add: union_keys_def)

lemma best_first_props [simp]:
  "set (best_first s ks) = set ks" "length (best_first s ks) = length ks" "distinct (best_first s ks) = distinct ks"
  by (simp_all add: best_first_def distinct_sort)

lemma best_first_order:
  assumes "i < j" "j < length ks"
  shows "s (best_first s ks ! j) < s (best_first s ks ! i) \<or>
         s (best_first s ks ! j) = s (best_first s ks ! i) \<and> best_first s ks ! i \<le> best_first s ks ! j"
proof -
  let ?f = "\<lambda>key. (- s key, key)"
  have "sorted (map ?f (best_first s ks))" by (simp add: best_first_def)
  with assms have "?f (best_first s ks ! i) \<le> ?f (best_first s ks ! j)" by (simp add: sorted_iff_nth_mono)
  then show ?thesis by (auto simp: less_eq_prod_def)
qed

text \<open>A key that beats another one stands before it, and survives every cut that keeps the other.\<close>

definition beats :: "(product_key \<Rightarrow> real) \<Rightarrow> product_key \<Rightarrow> product_key \<Rightarrow> bool" where
  "beats s a b = (s b < s a \<or> s b = s a \<and> a < b)"

lemma best_first_take:
  assumes "distinct ks" "a \<in> set ks" "b \<in> set (take n (best_first s ks))" "beats s a b"
  shows "a \<in> set (take n (best_first s ks))"
proof -
  from assms(3) obtain j where j: "j < n" "j < length ks" "b = best_first s ks ! j"
    by (auto simp: in_set_conv_nth)
  from assms(2) obtain i where i: "i < length ks" "a = best_first s ks ! i"
    by (metis best_first_props(1,2) in_set_conv_nth)
  have "i \<le> j"
  proof (rule ccontr)
    assume "\<not> i \<le> j"
    with best_first_order [of j i ks s] i j assms(4) show False by (auto simp: beats_def)
  qed
  with i j show ?thesis by (auto simp: in_set_conv_nth intro!: exI [of _ i])
qed

lemma best_first_beats:
  assumes "distinct ks" "i < j" "j < length ks"
  shows "beats s (best_first s ks ! i) (best_first s ks ! j)"
proof -
  have "best_first s ks ! i \<noteq> best_first s ks ! j" using assms by (simp add: nth_eq_iff_index_eq)
  with best_first_order [OF assms(2,3), of s] show ?thesis by (auto simp: beats_def)
qed

text \<open>
  Dominance: a product that is placed at least as well in every channel that returned the other one
  has at least its score.
\<close>

definition dominates :: "channel_result list \<Rightarrow> product_key \<Rightarrow> product_key \<Rightarrow> bool" where
  "dominates cs a b =
     (\<forall>c \<in> set cs. case rank_in c b of None \<Rightarrow> True | Some r \<Rightarrow> (\<exists>q. rank_in c a = Some q \<and> q \<le> r))"

lemma contribution_nonneg: "1 \<le> k \<Longrightarrow> 0 \<le> w (ch_channel_id c) \<Longrightarrow> 0 \<le> contribution_in k w c key"
  by (simp add: contribution_in_def split: option.splits)

lemma contribution_mono:
  assumes "1 \<le> k" "0 \<le> w (ch_channel_id c)" "dominates cs a b" "c \<in> set cs"
  shows "contribution_in k w c b \<le> contribution_in k w c a"
proof (cases "rank_in c b")
  case None
  then show ?thesis using contribution_nonneg [of k w c a] assms by (simp add: contribution_in_def)
next
  case (Some r)
  with assms(3,4) obtain q where q: "rank_in c a = Some q" "q \<le> r" by (fastforce simp: dominates_def)
  have "w (ch_channel_id c) / real_of_int (k + int r) \<le> w (ch_channel_id c) / real_of_int (k + int q)"
    using assms(1,2) q(2) by (intro divide_left_mono) (auto intro!: mult_pos_pos)
  with q Some show ?thesis by (simp add: contribution_in_def)
qed

lemma rrf_score_mono:
  assumes "1 \<le> k" "\<And>c. c \<in> set cs \<Longrightarrow> 0 \<le> w (ch_channel_id c)" "dominates cs a b"
  shows "rrf_score k w cs b \<le> rrf_score k w cs a"
  unfolding rrf_score_def by (rule sum_list_mono) (use assms contribution_mono in blast)

lemma rank_in_Some:
  "rank_in c key = Some r \<Longrightarrow> \<exists>h \<in> set (ch_hits c). hit_key h = key \<and> rh_rank h = r"
  by (auto simp: rank_in_def dest!: map_of_SomeD)

lemma rank_in_hit_key: "h \<in> set (ch_hits c) \<Longrightarrow> \<exists>r. rank_in c (hit_key h) = Some r"
proof -
  assume "h \<in> set (ch_hits c)"
  then have "hit_key h \<in> fst ` set (map (\<lambda>h. (hit_key h, rh_rank h)) (ch_hits c))" by force
  then show ?thesis unfolding rank_in_def by (metis map_of_eq_None_iff option.exhaust)
qed

lemma rank_in_inj:
  assumes "channel_ok c" "rank_in c a = Some r" "rank_in c b = Some r"
  shows "a = b"
proof -
  obtain h h' where h: "h \<in> set (ch_hits c)" "hit_key h = a" "rh_rank h = r"
    "h' \<in> set (ch_hits c)" "hit_key h' = b" "rh_rank h' = r"
    using rank_in_Some [OF assms(2)] rank_in_Some [OF assms(3)] by blast
  then have "h = h'" using assms(1) by (auto simp: channel_ok_def distinct_map dest: inj_onD)
  with h show ?thesis by simp
qed

text \<open>In a channel that returned the dominated product the other one has the strictly larger part.\<close>

lemma rrf_score_strict:
  assumes k: "1 \<le> k" and cs: "list_all channel_ok cs" and w: "\<And>c. c \<in> set cs \<Longrightarrow> 0 < w (ch_channel_id c)"
    and dom: "dominates cs a b" and ab: "a \<noteq> b" and b: "b \<in> set (union_keys cs)"
  shows "rrf_score k w cs b < rrf_score k w cs a"
proof -
  obtain c h where c: "c \<in> set cs" "h \<in> set (ch_hits c)" "hit_key h = b"
    using b by (auto simp: set_union_keys)
  then obtain r where r: "rank_in c b = Some r" using rank_in_hit_key by blast
  with dom c(1) obtain q where q: "rank_in c a = Some q" "q \<le> r" by (fastforce simp: dominates_def)
  have "q \<noteq> r" using rank_in_inj [of c a r b] q r cs c(1) ab by (auto simp: list_all_iff)
  then have "w (ch_channel_id c) / real_of_int (k + int r) < w (ch_channel_id c) / real_of_int (k + int q)"
    using k w [OF c(1)] q(2) by (intro divide_strict_left_mono) (auto intro!: mult_pos_pos)
  then have strict: "contribution_in k w c b < contribution_in k w c a" using q r by (simp add: contribution_in_def)
  have mono: "contribution_in k w d b \<le> contribution_in k w d a" if "d \<in> set cs" for d
    using contribution_mono [OF k _ dom that] w [OF that] by simp
  obtain xs ys where cs': "cs = xs @ c # ys" using c(1) by (meson split_list)
  have "sum_list (map (\<lambda>d. contribution_in k w d b) xs) \<le> sum_list (map (\<lambda>d. contribution_in k w d a) xs)"
    "sum_list (map (\<lambda>d. contribution_in k w d b) ys) \<le> sum_list (map (\<lambda>d. contribution_in k w d a) ys)"
    by (rule sum_list_mono, use mono cs' in simp)+
  with strict show ?thesis by (simp add: rrf_score_def cs')
qed

end
