(* ===== verification/TitleChannels.thy ===== *)
theory TitleChannels
  imports Rrf
begin

text \<open>
  \<^verbatim>\<open>src/search_quality/retrieval/title_channels.py\<close>: the three retrieval channels. A channel object
  is what its constructor keeps (for BM25 the index of \<open>Ranking\<close>, whose scoring formula the source
  repeats); \<open>*_search\<close> is the \<^verbatim>\<open>search\<close> method. \<^verbatim>\<open>str.lower\<close> on a whole text is the parameter
  \<open>str_lower\<close>; tokens are lower-cased by \<open>tokenize\<close> itself.
  The locale \<open>retriever\<close> is the contract the pipeline relies on: valid arguments always give a
  ranked list of matching documents. It is interpreted on the three channels.
\<close>

definition ustr :: "string \<Rightarrow> ustring" where
  "ustr s = map of_char s"

definition to_hits :: "ustring \<Rightarrow> (product_key \<times> real) list \<Rightarrow> exn + retrieval_hit list" where
  "to_hits channel_id scored =
     traverse (\<lambda>(rank, key, score). retrieval_hit_init channel_id (fst key) (snd key) rank score)
       (enumerate 1 scored)"

subsection \<open>BM25 over titles\<close>

definition TITLE_BM25_ID :: ustring where "TITLE_BM25_ID = ustr ''title-bm25-recall-v1''"

definition title_bm25_init :: "retrieval_document list \<Rightarrow> pyfloat \<Rightarrow> pyfloat \<Rightarrow> exn + bm25_index" where
  "title_bm25_init documents k1 b =
     ebind (bm25_parameters k1 b) (\<lambda>kb.
     ebind (validate_retrieval_documents documents) (\<lambda>snapshot.
     Inr (bm25_index_of (fst kb) (snd kb) (map (\<lambda>d. (document_key d, rd_title d)) snapshot))))"

definition title_bm25_config :: "bm25_index \<Rightarrow> dict" where
  "title_bm25_config r =
     [(''analyzer_id'', JStr ''ascii-alnum-lower-v1''), (''b'', JFloat (Fin (bm_b r))),
      (''channel_id'', JStr ''title-bm25-recall-v1''), (''idf_scope'', JStr ''per_query_fully_judged_pool''),
      (''k1'', JFloat (Fin (bm_k1 r))), (''match_operator'', JStr ''or''),
      (''zero_score_products'', JStr ''excluded'')]"

definition title_bm25_search :: "bm25_index \<Rightarrow> ustring \<Rightarrow> json \<Rightarrow> exn + retrieval_hit list" where
  "title_bm25_search r query top_k =
     ebind (positive_int top_k) (\<lambda>limit.
     let query_terms = nub (tokenize query) in
     ebind (require (strip query \<noteq> [] \<and> query_terms \<noteq> []) ValueError) (\<lambda>_.
     let scored = map (\<lambda>key. (key, bm25_score r query_terms key)) (map fst (bm_tokens r)) in
     to_hits TITLE_BM25_ID (take (nat limit) (sort_scored (filter (\<lambda>item. 0 < snd item) scored)))))"

subsection \<open>Exact titles and identifiers\<close>

definition EXACT_TITLE_ID :: ustring where "EXACT_TITLE_ID = ustr ''exact-title-recall-v1''"

record exact_title =
  et_title_tokens :: "(product_key \<times> ustring list) list"

definition exact_title_init :: "retrieval_document list \<Rightarrow> exn + exact_title" where
  "exact_title_init documents =
     ebind (validate_retrieval_documents documents) (\<lambda>snapshot.
     Inr \<lparr>et_title_tokens = map (\<lambda>d. (document_key d, tokenize (rd_title d))) snapshot\<rparr>)"

definition exact_title_config :: dict where
  "exact_title_config =
     [(''analyzer_id'', JStr ''ascii-alnum-lower-v1''), (''channel_id'', JStr ''exact-title-recall-v1''),
      (''identifier_match'', JStr ''case_insensitive_exact_product_id''),
      (''match_operator'', JStr ''all_query_tokens_or_exact_product_id''),
      (''phrase_use'', JStr ''channel_ordering_only'')]"

definition flag :: "bool \<Rightarrow> real" where
  "flag b = (if b then 1 else 0)"

text \<open>One turn of the loop over the documents: \<open>None\<close> is its \<^verbatim>\<open>continue\<close>.\<close>

definition exact_title_match ::
    "(ustring \<Rightarrow> ustring) \<Rightarrow> ustring \<Rightarrow> ustring list \<Rightarrow> product_key \<times> ustring list \<Rightarrow> (product_key \<times> real) option" where
  "exact_title_match str_lower normalized_query query_terms document =
     (let identifier_exact = str_lower (snd (fst document)) = normalized_query;
          all_tokens = set query_terms \<subseteq> set (snd document);
          normalized_title = join_space (snd document);
          query_phrase = join_space query_terms;
          exact = normalized_title = query_phrase;
          phrase = substring query_phrase normalized_title
      in if \<not> identifier_exact \<and> \<not> all_tokens then None
         else Some (fst document, 8 * flag identifier_exact + 4 * flag exact + 2 * flag phrase + flag all_tokens))"

definition exact_title_search ::
    "(ustring \<Rightarrow> ustring) \<Rightarrow> exact_title \<Rightarrow> ustring \<Rightarrow> json \<Rightarrow> exn + retrieval_hit list" where
  "exact_title_search str_lower r query top_k =
     ebind (positive_int top_k) (\<lambda>limit.
     let normalized_query = str_lower (strip query); query_terms = nub (tokenize query) in
     ebind (require (normalized_query \<noteq> [] \<and> query_terms \<noteq> []) ValueError) (\<lambda>_.
     let scored = List.map_filter (exact_title_match str_lower normalized_query query_terms) (et_title_tokens r) in
     to_hits EXACT_TITLE_ID (take (nat limit) (sort_scored scored))))"

subsection \<open>BM25 over several fields\<close>

definition MULTI_FIELD_ID :: ustring where "MULTI_FIELD_ID = ustr ''multi-field-bm25-recall-v1''"

definition field_weights :: "(string \<times> rat) list" where
  "field_weights = [(''brand'', 2), (''bullet_point'', 1), (''description'', 1 / 2), (''title'', 2)]"

text \<open>\<^verbatim>\<open>getattr(document, field)\<close>\<close>

definition document_field :: "retrieval_document \<Rightarrow> string \<Rightarrow> ustring" where
  "document_field d f =
     (if f = ''brand'' then rd_brand d
      else if f = ''bullet_point'' then rd_bullet_point d
      else if f = ''description'' then rd_description d
      else rd_title d)"

record multi_field =
  mf_k1 :: rat
  mf_b :: rat
  mf_tokens :: "(product_key \<times> (string \<Rightarrow> ustring list)) list"

definition multi_field_init :: "retrieval_document list \<Rightarrow> pyfloat \<Rightarrow> pyfloat \<Rightarrow> exn + multi_field" where
  "multi_field_init documents k1 b =
     ebind (bm25_parameters k1 b) (\<lambda>kb.
     ebind (validate_retrieval_documents documents) (\<lambda>snapshot.
     Inr \<lparr>mf_k1 = fst kb, mf_b = snd kb,
          mf_tokens = map (\<lambda>d. (document_key d, \<lambda>f. tokenize (document_field d f))) snapshot\<rparr>))"

definition average_field_length :: "multi_field \<Rightarrow> string \<Rightarrow> real" where
  "average_field_length r f = average_length (map (\<lambda>p. length (snd p f)) (mf_tokens r))"

definition mf_document_tokens :: "multi_field \<Rightarrow> product_key \<Rightarrow> string \<Rightarrow> ustring list" where
  "mf_document_tokens r key = (case map_of (mf_tokens r) key of None \<Rightarrow> (\<lambda>_. []) | Some ts \<Rightarrow> ts)"

definition in_some_field :: "(string \<Rightarrow> ustring list) \<Rightarrow> ustring \<Rightarrow> bool" where
  "in_some_field ts t = list_ex (\<lambda>fw. t \<in> set (ts (fst fw))) field_weights"

definition mf_document_frequency :: "multi_field \<Rightarrow> ustring \<Rightarrow> nat" where
  "mf_document_frequency r t = length (filter (\<lambda>p. in_some_field (snd p) t) (mf_tokens r))"

definition normalized_frequency :: "multi_field \<Rightarrow> (string \<Rightarrow> ustring list) \<Rightarrow> string \<Rightarrow> ustring \<Rightarrow> real" where
  "normalized_frequency r ts f t =
     (let b = of_rat (mf_b r) in
      real (count_list (ts f) t) / (1 - b + b * real (length (ts f)) / average_field_length r f))"

definition weighted_tf :: "multi_field \<Rightarrow> (string \<Rightarrow> ustring list) \<Rightarrow> ustring \<Rightarrow> real" where
  "weighted_tf r ts t =
     foldl (\<lambda>acc fw. if count_list (ts (fst fw)) t = 0 then acc
                     else acc + of_rat (snd fw) * normalized_frequency r ts (fst fw) t) 0 field_weights"

definition mf_term :: "multi_field \<Rightarrow> (string \<Rightarrow> ustring list) \<Rightarrow> ustring \<Rightarrow> real" where
  "mf_term r ts t =
     inverse_document_frequency (length (mf_tokens r)) (mf_document_frequency r t) *
       (weighted_tf r ts t * (of_rat (mf_k1 r) + 1) / (weighted_tf r ts t + of_rat (mf_k1 r)))"

definition mf_score :: "multi_field \<Rightarrow> ustring list \<Rightarrow> product_key \<Rightarrow> real" where
  "mf_score r query_terms key =
     (let ts = mf_document_tokens r key in
      foldl (\<lambda>score t. if weighted_tf r ts t = 0 then score else score + mf_term r ts t) 0 query_terms)"

definition multi_field_config :: "multi_field \<Rightarrow> dict" where
  "multi_field_config r =
     [(''analyzer_id'', JStr ''ascii-alnum-lower-v1''), (''b'', JFloat (Fin (mf_b r))),
      (''channel_id'', JStr ''multi-field-bm25-recall-v1''),
      (''field_weights'', JObj (map (\<lambda>(f, w). (f, JFloat (Fin w))) field_weights)),
      (''fields'', JList (map (\<lambda>fw. JStr (fst fw)) field_weights)), (''k1'', JFloat (Fin (mf_k1 r))),
      (''match_operator'', JStr ''or''), (''score'', JStr ''bm25f_style_weighted_field_tf_v1''),
      (''zero_score_products'', JStr ''excluded'')]"

definition multi_field_search :: "multi_field \<Rightarrow> ustring \<Rightarrow> json \<Rightarrow> exn + retrieval_hit list" where
  "multi_field_search r query top_k =
     ebind (positive_int top_k) (\<lambda>limit.
     let query_terms = nub (tokenize query) in
     ebind (require (strip query \<noteq> [] \<and> query_terms \<noteq> []) ValueError) (\<lambda>_.
     let scored = map (\<lambda>key. (key, mf_score r query_terms key)) (map fst (mf_tokens r)) in
     to_hits MULTI_FIELD_ID (take (nat limit) (sort_scored (filter (\<lambda>item. 0 < snd item) scored)))))"

subsection \<open>The retriever contract\<close>

definition hit_of :: "ustring \<Rightarrow> (product_key \<Rightarrow> real) \<Rightarrow> nat \<Rightarrow> product_key \<Rightarrow> retrieval_hit" where
  "hit_of channel_id s rank key =
     \<lparr>rh_channel_id = channel_id, rh_locale = fst key, rh_product_id = snd key, rh_rank = rank, rh_score = s key\<rparr>"

definition ranked_hits :: "ustring \<Rightarrow> (product_key \<Rightarrow> real) \<Rightarrow> product_key list \<Rightarrow> retrieval_hit list" where
  "ranked_hits channel_id s keys = map (\<lambda>(rank, key). hit_of channel_id s rank key) (enumerate 1 keys)"

lemma sort_scored_map: "sort_scored (map (\<lambda>key. (key, s key)) ks) = map (\<lambda>key. (key, s key)) (best_first s ks)"
  by (simp add: sort_scored_def best_first_def sort_key_map)

lemma enumerate_map: "enumerate n (map f xs) = map (\<lambda>(i, x). (i, f x)) (enumerate n xs)"
  by (rule nth_equalityI) (simp_all add: nth_enumerate_eq)

lemma to_hits_ok:
  assumes "clean_id channel_id" "\<forall>key \<in> set ks. clean_key key"
  shows "to_hits channel_id (map (\<lambda>key. (key, s key)) ks) = Inr (ranked_hits channel_id s ks)"
  unfolding to_hits_def enumerate_map traverse_map ranked_hits_def
proof (rule traverse_Inr_map)
  fix p assume p: "p \<in> set (enumerate 1 ks)"
  obtain rank key where [simp]: "p = (rank, key)" by (cases p)
  have "clean_key key" using p set_zip_rightD [of rank key] assms(2) by (auto simp: enumerate_eq_zip)
  moreover have "1 \<le> rank" using p by (auto simp: in_set_enumerate_eq)
  ultimately show "(case case p of (i, x) \<Rightarrow> (i, x, s x) of
            (rank, key, score) \<Rightarrow> retrieval_hit_init channel_id (fst key) (snd key) rank score) =
        Inr (case p of (rank, key) \<Rightarrow> hit_of channel_id s rank key)"
    using assms(1) by (simp add: retrieval_hit_init_def hit_of_def clean_key_def)
qed

lemma ranked_hits_simps [simp]:
  "length (ranked_hits c s ks) = length ks"
  "map hit_key (ranked_hits c s ks) = ks"
  "map rh_rank (ranked_hits c s ks) = [1..<Suc (length ks)]"
  "h \<in> set (ranked_hits c s ks) \<Longrightarrow> rh_channel_id h = c \<and> rh_score h = s (hit_key h) \<and> 1 \<le> rh_rank h"
  by (auto simp: ranked_hits_def hit_of_def hit_key_def nth_enumerate_eq in_set_enumerate_eq
      simp del: upt_Suc intro!: nth_equalityI)

locale retriever =
  fixes wf :: "'r \<Rightarrow> bool" and keys :: "'r \<Rightarrow> product_key list"
    and score :: "'r \<Rightarrow> ustring \<Rightarrow> product_key \<Rightarrow> real" and matches :: "'r \<Rightarrow> ustring \<Rightarrow> product_key \<Rightarrow> bool"
    and accepts :: "ustring \<Rightarrow> bool" and channel_id :: ustring
    and search :: "'r \<Rightarrow> ustring \<Rightarrow> json \<Rightarrow> exn + retrieval_hit list"
  assumes keys_distinct: "wf r \<Longrightarrow> distinct (keys r)"
    and keys_clean: "wf r \<Longrightarrow> key \<in> set (keys r) \<Longrightarrow> clean_key key"
    and id_clean: "clean_id channel_id"
    and search_eq: "wf r \<Longrightarrow> search r q top_k =
           ebind (positive_int top_k) (\<lambda>n. ebind (require (accepts q) ValueError) (\<lambda>_.
           to_hits channel_id (take (nat n) (sort_scored
             (map (\<lambda>key. (key, score r q key)) (filter (matches r q) (keys r)))))))"
begin

lemma search_result:
  assumes "wf r" "accepts q" "1 \<le> n"
  shows "search r q (JInt n) =
         Inr (ranked_hits channel_id (score r q) (take (nat n) (best_first (score r q) (filter (matches r q) (keys r)))))"
proof -
  have "\<forall>key \<in> set (take (nat n) (best_first (score r q) (filter (matches r q) (keys r)))). clean_key key"
    using keys_clean [OF assms(1)] by (auto dest: in_set_takeD)
  then show ?thesis
    using assms id_clean by (simp add: search_eq sort_scored_map take_map to_hits_ok)
qed

lemma search_rejects: "wf r \<Longrightarrow> 1 \<le> n \<Longrightarrow> \<not> accepts q \<Longrightarrow> search r q (JInt n) = Inl ValueError"
  by (simp add: search_eq)

lemma hit_matches:
  assumes "wf r" "accepts q" "1 \<le> n" "search r q (JInt n) = Inr hits" "h \<in> set hits"
  shows "hit_key h \<in> set (keys r) \<and> matches r q (hit_key h) \<and> rh_score h = score r q (hit_key h)"
proof -
  let ?ks = "take (nat n) (best_first (score r q) (filter (matches r q) (keys r)))"
  have h: "hits = ranked_hits channel_id (score r q) ?ks" using search_result [OF assms(1-3)] assms(4) by simp
  have "hit_key h \<in> set (map hit_key hits)" using assms(5) by simp
  then have "hit_key h \<in> set ?ks" unfolding h by simp
  then show ?thesis using assms(5) unfolding h by (auto dest: in_set_takeD)
qed

text \<open>A matching document is left out only for \<open>n\<close> better ones.\<close>

lemma missing_is_beaten:
  assumes "wf r" "accepts q" "1 \<le> n" "search r q (JInt n) = Inr hits"
    and "key \<in> set (keys r)" "matches r q key" "key \<notin> hit_key ` set hits"
  shows "length hits = nat n \<and> (\<forall>h \<in> set hits. beats (score r q) (hit_key h) key)"
proof -
  let ?K = "filter (matches r q) (keys r)"
  let ?ks = "take (nat n) (best_first (score r q) ?K)"
  have h: "hits = ranked_hits channel_id (score r q) ?ks" using search_result [OF assms(1-3)] assms(4) by simp
  have ks: "hit_key ` set hits = set ?ks" unfolding h by (metis ranked_hits_simps(2) set_map)
  have d: "distinct ?K" using keys_distinct [OF assms(1)] by simp
  have "beats (score r q) a key" if a: "a \<in> set ?ks" for a
  proof (rule ccontr)
    assume "\<not> beats (score r q) a key"
    moreover have "a \<noteq> key" using a assms(7) ks by auto
    ultimately have "beats (score r q) key a" by (auto simp: beats_def)
    with best_first_take [OF d _ a] assms(5-7) ks show False by auto
  qed
  moreover have "length ?ks = nat n"
  proof (rule ccontr)
    assume "length ?ks \<noteq> nat n"
    then have "?ks = best_first (score r q) ?K" by simp
    then have "set ?ks = set ?K" by (metis best_first_props(1))
    with assms(5-7) ks show False by auto
  qed
  ultimately show ?thesis unfolding h by (metis (no_types, lifting) h image_eqI ks ranked_hits_simps(1))
qed

lemma channel_result_ok:
  assumes "wf r" "accepts q" "1 \<le> n" "search r q (JInt n) = Inr hits" "json_ok (JObj config)"
  shows "channel_result_init channel_id config hits =
         Inr \<lparr>ch_channel_id = channel_id, ch_config = config, ch_hits = hits\<rparr> \<and>
         channel_ok \<lparr>ch_channel_id = channel_id, ch_config = config, ch_hits = hits\<rparr>"
proof -
  let ?ks = "take (nat n) (best_first (score r q) (filter (matches r q) (keys r)))"
  have h: "hits = ranked_hits channel_id (score r q) ?ks" using search_result [OF assms(1-3)] assms(4) by simp
  have d: "distinct ?ks" using keys_distinct [OF assms(1)] by (intro distinct_take) simp
  have "clean_key (hit_key x)" if "x \<in> set hits" for x
    using hit_matches [OF assms(1-4) that] keys_clean [OF assms(1)] by blast
  then show ?thesis
    using d assms(5) id_clean unfolding h
    by (auto simp: channel_result_init_def channel_ok_def canonical_config_def list_all_iff simp del: upt_Suc
        dest!: ranked_hits_simps(4))
qed

end

subsection \<open>The channels satisfy the contract\<close>

definition searchable :: "ustring \<Rightarrow> bool" where
  "searchable q = (tokenize q \<noteq> [])"

lemma blank_not_searchable: "strip q = [] \<Longrightarrow> tokenize q = []"
proof -
  assume "strip q = []"
  then have w: "list_all whitespace q" by (simp add: strip_empty_iff)
  have nw: "\<not> word_char c" if "whitespace c" for c
    using that by (auto simp: whitespace_def word_char_def ascii_lower_def ascii_upper_def ascii_digit_def)
  from w have "runs [] q = []" by (induction q) (auto simp: nw)
  then show ?thesis by (simp add: tokenize_def)
qed

lemma require_searchable [simp]: "(strip q \<noteq> [] \<and> nub (tokenize q) \<noteq> []) = searchable q"
  using blank_not_searchable [of q] by (auto simp: searchable_def)

definition title_bm25_wf :: "bm25_index \<Rightarrow> bool" where
  "title_bm25_wf r = (index_wf r \<and> list_all clean_key (map fst (bm_tokens r)))"

definition title_matches :: "bm25_index \<Rightarrow> ustring \<Rightarrow> product_key \<Rightarrow> bool" where
  "title_matches r q key = (set (tokenize q) \<inter> set (document_tokens r key) \<noteq> {})"

lemma filter_scored:
  "(\<And>key. P (key, s key) = M key) \<Longrightarrow> filter P (map (\<lambda>key. (key, s key)) ks) = map (\<lambda>key. (key, s key)) (filter M ks)"
  by (induction ks) auto

lemma clean_ids: "clean_id TITLE_BM25_ID" "clean_id EXACT_TITLE_ID" "clean_id MULTI_FIELD_ID"
  by code_simp+

interpretation title_bm25: retriever title_bm25_wf "\<lambda>r. map fst (bm_tokens r)"
    "\<lambda>r q. bm25_score r (nub (tokenize q))" title_matches searchable TITLE_BM25_ID title_bm25_search
proof unfold_locales
  fix r q top_k assume "title_bm25_wf r"
  then have "filter (\<lambda>item. 0 < snd item) (map (\<lambda>key. (key, bm25_score r (nub (tokenize q)) key)) (map fst (bm_tokens r))) =
        map (\<lambda>key. (key, bm25_score r (nub (tokenize q)) key)) (filter (title_matches r q) (map fst (bm_tokens r)))"
    by (intro filter_scored) (simp add: title_bm25_wf_def title_matches_def bm25_score_pos_iff)
  then show "title_bm25_search r q top_k =
       ebind (positive_int top_k) (\<lambda>n. ebind (require (searchable q) ValueError) (\<lambda>_.
         to_hits TITLE_BM25_ID (take (nat n) (sort_scored
           (map (\<lambda>key. (key, bm25_score r (nub (tokenize q)) key)) (filter (title_matches r q) (map fst (bm_tokens r))))))))"
    by (simp only: title_bm25_search_def Let_def require_searchable)
qed (auto simp: title_bm25_wf_def index_wf_def list_all_iff clean_ids)

definition exact_title_wf :: "exact_title \<Rightarrow> bool" where
  "exact_title_wf r = (distinct (map fst (et_title_tokens r)) \<and> list_all clean_key (map fst (et_title_tokens r)))"

definition title_tokens :: "exact_title \<Rightarrow> product_key \<Rightarrow> ustring list" where
  "title_tokens r key = (case map_of (et_title_tokens r) key of None \<Rightarrow> [] | Some ts \<Rightarrow> ts)"

definition exact_matches :: "(ustring \<Rightarrow> ustring) \<Rightarrow> exact_title \<Rightarrow> ustring \<Rightarrow> product_key \<Rightarrow> bool" where
  "exact_matches str_lower r q key =
     (str_lower (snd key) = str_lower (strip q) \<or> set (tokenize q) \<subseteq> set (title_tokens r key))"

definition exact_score :: "(ustring \<Rightarrow> ustring) \<Rightarrow> exact_title \<Rightarrow> ustring \<Rightarrow> product_key \<Rightarrow> real" where
  "exact_score str_lower r q key =
     8 * flag (str_lower (snd key) = str_lower (strip q)) +
     4 * flag (title_tokens r key = nub (tokenize q)) +
     2 * flag (substring (join_space (nub (tokenize q))) (join_space (title_tokens r key))) +
     flag (set (tokenize q) \<subseteq> set (title_tokens r key))"

definition exact_accepts :: "(ustring \<Rightarrow> ustring) \<Rightarrow> ustring \<Rightarrow> bool" where
  "exact_accepts str_lower q = (str_lower (strip q) \<noteq> [] \<and> searchable q)"

definition token_list :: "ustring list \<Rightarrow> bool" where
  "token_list ts = list_all (\<lambda>t. t \<noteq> [] \<and> 32 \<notin> set t) ts"

lemma tokenize_token_list: "token_list (tokenize t)"
  using tokenize_nonempty tokenize_chars [of _ t]
  by (fastforce simp: token_list_def list_all_iff token_char_def ascii_lower_def ascii_digit_def)

lemma split_at_space:
  assumes "xs @ 32 # ys = xs' @ 32 # ys'" "32 \<notin> set xs" "32 \<notin> set (xs' :: ustring)"
  shows "xs = xs' \<and> ys = ys'"
  using assms by (fastforce simp: append_eq_append_conv2 append_eq_Cons_conv Cons_eq_append_conv)

lemma join_space_inj:
  "token_list ts \<Longrightarrow> token_list us \<Longrightarrow> join_space ts = join_space us \<Longrightarrow> ts = us"
proof (induction ts arbitrary: us rule: join_space.induct)
  case 1
  then show ?case by (cases us rule: join_space.cases) (auto simp: token_list_def)
next
  case (2 t)
  show ?case
  proof (cases us rule: join_space.cases)
    case (3 v w ws)
    with 2 have "32 \<in> set t" by auto
    with 2 show ?thesis by (simp add: token_list_def)
  qed (use 2 in \<open>auto simp: token_list_def\<close>)
next
  case (3 t u ts)
  note outer = "3.prems" and IH = "3.IH"
  show ?case
  proof (cases us rule: join_space.cases)
    case (2 v)
    with outer have "v = t @ 32 # join_space (u # ts)" by simp
    then have "32 \<in> set v" by simp
    with outer 2 show ?thesis by (simp add: token_list_def)
  next
    case (3 v w ws)
    with outer have "t @ 32 # join_space (u # ts) = v @ 32 # join_space (w # ws)" "32 \<notin> set t" "32 \<notin> set v"
      by (simp_all add: token_list_def)
    from split_at_space [OF this] have "t = v" "join_space (u # ts) = join_space (w # ws)" by simp_all
    with 3 outer IH [of "w # ws"] show ?thesis by (simp add: token_list_def)
  qed (use outer in \<open>auto simp: token_list_def\<close>)
qed

lemma token_list_nub: "token_list ts \<Longrightarrow> token_list (nub ts)"
  by (auto simp: token_list_def list_all_iff)

definition title_tables_ok :: "exact_title \<Rightarrow> bool" where
  "title_tables_ok r = list_all token_list (map snd (et_title_tokens r))"

lemma exact_entries:
  assumes "exact_title_wf r" "title_tables_ok r"
  shows "List.map_filter (exact_title_match str_lower (str_lower (strip q)) (nub (tokenize q))) (et_title_tokens r) =
         map (\<lambda>key. (key, exact_score str_lower r q key))
           (filter (exact_matches str_lower r q) (map fst (et_title_tokens r)))"
proof -
  have "exact_title_match str_lower (str_lower (strip q)) (nub (tokenize q)) p =
        (if exact_matches str_lower r q (fst p) then Some (fst p, exact_score str_lower r q (fst p)) else None)"
    if p: "p \<in> set (et_title_tokens r)" for p
  proof -
    have "map_of (et_title_tokens r) (fst p) = Some (snd p)"
      using assms(1) p by (simp add: exact_title_wf_def)
    then have m: "title_tokens r (fst p) = snd p" by (simp add: title_tokens_def)
    have "token_list (snd p)" using assms(2) p by (auto simp: title_tables_ok_def list_all_iff)
    then have "(join_space (snd p) = join_space (nub (tokenize q))) = (snd p = nub (tokenize q))"
      by (metis join_space_inj token_list_nub tokenize_token_list)
    then show ?thesis by (simp add: exact_title_match_def exact_matches_def exact_score_def m Let_def)
  qed
  then have "List.map_filter (exact_title_match str_lower (str_lower (strip q)) (nub (tokenize q))) ps =
        map (\<lambda>key. (key, exact_score str_lower r q key)) (filter (exact_matches str_lower r q) (map fst ps))"
    if "set ps \<subseteq> set (et_title_tokens r)" for ps
    using that by (induction ps) (auto simp: List.map_filter_simps)
  then show ?thesis by blast
qed

interpretation exact_title: retriever "\<lambda>r. exact_title_wf r \<and> title_tables_ok r" "\<lambda>r. map fst (et_title_tokens r)"
    "exact_score str_lower" "exact_matches str_lower" "exact_accepts str_lower" EXACT_TITLE_ID "exact_title_search str_lower"
    for str_lower
  by unfold_locales
     (auto simp: exact_title_wf_def [symmetric] exact_title_search_def exact_accepts_def searchable_def exact_entries Let_def
        clean_ids simp del: map_map, auto simp: exact_title_wf_def list_all_iff)

subsection \<open>Several fields\<close>

definition multi_field_wf :: "multi_field \<Rightarrow> bool" where
  "multi_field_wf r =
     (distinct (map fst (mf_tokens r)) \<and> list_all clean_key (map fst (mf_tokens r)) \<and>
      0 < mf_k1 r \<and> 0 \<le> mf_b r \<and> mf_b r \<le> 1)"

definition mf_matches :: "multi_field \<Rightarrow> ustring \<Rightarrow> product_key \<Rightarrow> bool" where
  "mf_matches r q key = list_ex (in_some_field (mf_document_tokens r key)) (tokenize q)"

lemma normalized_frequency_pos:
  assumes "multi_field_wf r" "t \<in> set (ts f)"
  shows "0 < normalized_frequency r ts f t"
proof -
  have b: "0 \<le> (of_rat (mf_b r) :: real)" "(of_rat (mf_b r) :: real) \<le> 1"
    using assms(1) by (simp_all add: multi_field_wf_def)
  have a: "1 \<le> average_field_length r f" by (simp add: average_field_length_def average_length_ge_1)
  have l: "0 < real (length (ts f))" using assms(2) by (cases "ts f") auto
  have "0 < 1 - of_rat (mf_b r) + of_rat (mf_b r) * real (length (ts f)) / average_field_length r f"
  proof (cases "of_rat (mf_b r) = (1::real)")
    case True
    then show ?thesis using a l by simp
  next
    case False
    with b a l show ?thesis by (intro add_pos_nonneg divide_nonneg_pos mult_nonneg_nonneg) auto
  qed
  moreover have "0 < real (count_list (ts f) t)"
    using assms(2) count_list_0_iff [of "ts f" t] by (simp add: neq0_conv [symmetric] del: neq0_conv)
  ultimately show ?thesis by (simp add: normalized_frequency_def Let_def)
qed

lemma normalized_frequency_absent: "t \<notin> set (ts f) \<Longrightarrow> normalized_frequency r ts f t = 0"
  by (simp add: normalized_frequency_def)

lemma weighted_tf_sum:
  "weighted_tf r ts t = sum_list (map (\<lambda>fw. of_rat (snd fw) * normalized_frequency r ts (fst fw) t) field_weights)"
  unfolding weighted_tf_def
  by (subst foldl_guarded_sum) (simp_all add: normalized_frequency_absent count_list_0_iff)

lemma field_weights_pos: "fw \<in> set field_weights \<Longrightarrow> 0 < snd fw"
  by (auto simp: field_weights_def)

lemma weighted_part_nonneg:
  assumes "multi_field_wf r" "fw \<in> set field_weights"
  shows "0 \<le> of_rat (snd fw) * normalized_frequency r ts (fst fw) t"
    and "0 < of_rat (snd fw) * normalized_frequency r ts (fst fw) t \<longleftrightarrow> t \<in> set (ts (fst fw))"
  using field_weights_pos [OF assms(2)] normalized_frequency_pos [OF assms(1), of t ts "fst fw"]
    normalized_frequency_absent [of t ts "fst fw" r]
  by (cases "t \<in> set (ts (fst fw))"; force)+

lemma weighted_tf_pos_iff:
  assumes "multi_field_wf r"
  shows "0 < weighted_tf r ts t \<longleftrightarrow> in_some_field ts t" and "0 \<le> weighted_tf r ts t"
  unfolding weighted_tf_sum
   apply (subst sum_list_pos_iff)
    apply (use weighted_part_nonneg [OF assms] in \<open>simp_all add: in_some_field_def list_ex_iff\<close>)
  by (intro sum_list_nonneg) (use weighted_part_nonneg(1) [OF assms] in auto)

lemma mf_document_frequency_le: "mf_document_frequency r t \<le> length (mf_tokens r)"
  by (simp add: mf_document_frequency_def)

lemma mf_term_pos_iff:
  assumes "multi_field_wf r"
  shows "0 < mf_term r ts t \<longleftrightarrow> in_some_field ts t" and "0 \<le> mf_term r ts t"
proof -
  have k: "0 < (of_rat (mf_k1 r) :: real)" using assms by (simp add: multi_field_wf_def)
  have idf: "0 < inverse_document_frequency (length (mf_tokens r)) (mf_document_frequency r t)"
    by (rule idf_pos) (rule mf_document_frequency_le)
  have frac: "0 < w * (k1 + 1) / (w + k1)" if "0 < w" "0 < k1" for w k1 :: real
    using that by (intro divide_pos_pos mult_pos_pos) auto
  have p: "0 < mf_term r ts t" if "0 < weighted_tf r ts t"
    unfolding mf_term_def by (intro mult_pos_pos idf frac that k)
  have z: "mf_term r ts t = 0" if "weighted_tf r ts t = 0" by (simp add: mf_term_def that)
  from p z weighted_tf_pos_iff [OF assms, of ts t]
  show "0 < mf_term r ts t \<longleftrightarrow> in_some_field ts t" "0 \<le> mf_term r ts t" by fastforce+
qed

lemma mf_score_sum: "mf_score r qs key = sum_list (map (mf_term r (mf_document_tokens r key)) qs)"
  unfolding mf_score_def Let_def by (subst foldl_guarded_sum) (simp_all add: mf_term_def)

lemma mf_score_pos_iff:
  assumes "multi_field_wf r"
  shows "0 < mf_score r (nub (tokenize q)) key \<longleftrightarrow> mf_matches r q key"
  unfolding mf_score_sum
  by (subst sum_list_pos_iff) (use mf_term_pos_iff [OF assms] in \<open>simp_all add: mf_matches_def list_ex_iff\<close>)

interpretation multi_field: retriever multi_field_wf "\<lambda>r. map fst (mf_tokens r)"
    "\<lambda>r q. mf_score r (nub (tokenize q))" mf_matches searchable MULTI_FIELD_ID multi_field_search
proof unfold_locales
  fix r q top_k assume "multi_field_wf r"
  then have "filter (\<lambda>item. 0 < snd item) (map (\<lambda>key. (key, mf_score r (nub (tokenize q)) key)) (map fst (mf_tokens r))) =
        map (\<lambda>key. (key, mf_score r (nub (tokenize q)) key)) (filter (mf_matches r q) (map fst (mf_tokens r)))"
    by (intro filter_scored) (simp add: mf_score_pos_iff)
  then show "multi_field_search r q top_k =
       ebind (positive_int top_k) (\<lambda>n. ebind (require (searchable q) ValueError) (\<lambda>_.
         to_hits MULTI_FIELD_ID (take (nat n) (sort_scored
           (map (\<lambda>key. (key, mf_score r (nub (tokenize q)) key)) (filter (mf_matches r q) (map fst (mf_tokens r))))))))"
    by (simp only: multi_field_search_def Let_def require_searchable)
qed (auto simp: multi_field_wf_def list_all_iff clean_ids)

subsection \<open>Constructors\<close>

definition documents_ok :: "retrieval_document list \<Rightarrow> bool" where
  "documents_ok ds = (ds \<noteq> [] \<and> distinct (map document_key ds) \<and> 
     list_all (\<lambda>d. clean_key (document_key d) \<and> clean_text (rd_title d)) ds)"

lemma title_bm25_init_ok:
  assumes "documents_ok ds" "0 < k1" "0 \<le> b" "b \<le> 1"
  shows "\<exists>r. title_bm25_init ds (Fin k1) (Fin b) = Inr r \<and> title_bm25_wf r \<and>
             map fst (bm_tokens r) = map document_key ds \<and> json_ok (JObj (title_bm25_config r))"
  using assms index_of_wf [of k1 b "map (\<lambda>d. (document_key d, rd_title d)) ds"]
  by (auto simp: title_bm25_init_def documents_ok_def title_bm25_wf_def title_bm25_config_def comp_def
      bm25_parameters_def bm25_index_of_def case_prod_beta list_all_iff)

lemma exact_title_init_ok:
  assumes "documents_ok ds"
  shows "\<exists>r. exact_title_init ds = Inr r \<and> exact_title_wf r \<and> title_tables_ok r \<and>
             map fst (et_title_tokens r) = map document_key ds"
  using assms tokenize_token_list
  by (auto simp: exact_title_init_def documents_ok_def exact_title_wf_def title_tables_ok_def comp_def list_all_iff)

lemma multi_field_init_ok:
  assumes "documents_ok ds" "0 < k1" "0 \<le> b" "b \<le> 1"
  shows "\<exists>r. multi_field_init ds (Fin k1) (Fin b) = Inr r \<and> multi_field_wf r \<and>
             map fst (mf_tokens r) = map document_key ds \<and> json_ok (JObj (multi_field_config r))"
  using assms
  by (auto simp: multi_field_init_def documents_ok_def multi_field_wf_def multi_field_config_def comp_def
      bm25_parameters_def list_all_iff)

end
