(* ===== verification/SearchPipeline.thy ===== *)
theory SearchPipeline
  imports TitleChannels
begin

text \<open>
  \<^verbatim>\<open>src/search_quality/retrieval/pipeline.py\<close>: the query-scoped pipeline of channels, fusion and
  coarse ranking. The object is a record; \<open>pipeline_init\<close> is its constructor, \<open>pipeline_run\<close> the
  \<^verbatim>\<open>run\<close> method. JSON text and SHA-256 come from the codec, \<^verbatim>\<open>str.lower\<close> is the parameter of
  the exact-title channel.
  The lemmas show that a constructed pipeline answers every searchable query, and compute each
  stage of the answer.
\<close>

subsection \<open>Construction\<close>

definition PIPELINE_VARIANTS :: "string list" where
  "PIPELINE_VARIANTS =
     [''title-exact-v1'', ''title-exact-multifield-v1'', ''title-exact-multifield-weighted-v1'',
      ''title-exact-multifield-weighted-aggressive-v1'']"

record search_pipeline =
  pl_channel_top_k :: int
  pl_fusion_top_k :: int
  pl_coarse_top_k :: int
  pl_rrf_k :: int
  pl_variant :: string
  pl_documents :: "(product_key \<times> retrieval_document) list"
  pl_title :: bm25_index
  pl_exact :: exact_title
  pl_multi :: "multi_field option"
  pl_fusion_weights :: "(ustring \<times> json) list"
  pl_config :: dict
  pl_pipeline_id :: ustring

text \<open>The doubles nearest to 0.1 and 1.2; the other constants are exact.\<close>

definition double_0_1 :: rat where "double_0_1 = 3602879701896397 / 2 ^ 55"

definition double_1_2 :: rat where "double_1_2 = 5404319552844595 / 2 ^ 52"

definition weight_entry :: "ustring \<Rightarrow> rat \<Rightarrow> ustring \<times> json" where
  "weight_entry c w = (c, JFloat (Fin w))"

definition fusion_weights :: "string \<Rightarrow> (ustring \<times> json) list" where
  "fusion_weights variant =
     (if variant = ''title-exact-multifield-weighted-v1'' then
        [weight_entry EXACT_TITLE_ID 1, weight_entry MULTI_FIELD_ID double_0_1, weight_entry TITLE_BM25_ID 1]
      else if variant = ''title-exact-multifield-weighted-aggressive-v1'' then
        [weight_entry EXACT_TITLE_ID (1 / 2), weight_entry MULTI_FIELD_ID (1 / 4), weight_entry TITLE_BM25_ID 1]
      else [])"

text \<open>The same weights as they stand in the configuration.\<close>

definition fusion_weights_config :: "string \<Rightarrow> json" where
  "fusion_weights_config variant =
     (if variant = ''title-exact-multifield-weighted-v1'' then
        JObj [(''exact-title-recall-v1'', JFloat (Fin 1)), (''multi-field-bm25-recall-v1'', JFloat (Fin double_0_1)),
              (''title-bm25-recall-v1'', JFloat (Fin 1))]
      else if variant = ''title-exact-multifield-weighted-aggressive-v1'' then
        JObj [(''exact-title-recall-v1'', JFloat (Fin (1 / 2))), (''multi-field-bm25-recall-v1'', JFloat (Fin (1 / 4))),
              (''title-bm25-recall-v1'', JFloat (Fin 1))]
      else JStr ''uniform'')"

definition pipeline_config :: "int \<Rightarrow> int \<Rightarrow> int \<Rightarrow> int \<Rightarrow> string \<Rightarrow> dict list \<Rightarrow> dict" where
  "pipeline_config channel_top_k fusion_top_k coarse_top_k rrf_k variant channel_configs =
     [(''analyzer_id'', JStr ''ascii-alnum-lower-v1''), (''channel_top_k'', JInt channel_top_k),
      (''channels'', JList (map JObj channel_configs)),
      (''coarse_rank'', JObj [(''ranker_id'', JStr ''candidate-title-bm25-v1''), (''top_k'', JInt coarse_top_k)]),
      (''fine_rank'', JObj [(''status'', JStr ''not_implemented'')]),
      (''fusion'', JObj [(''method'', JStr ''reciprocal_rank_fusion''), (''rrf_k'', JInt rrf_k),
                         (''top_k'', JInt fusion_top_k), (''weights'', fusion_weights_config variant)]),
      (''rerank'', JObj [(''status'', JStr ''not_implemented'')]),
      (''schema_version'', JStr ''query-scoped-search-pipeline-config-v1''), (''variant'', JStr variant)]"

definition multi_field_of_variant :: "string \<Rightarrow> retrieval_document list \<Rightarrow> exn + multi_field option" where
  "multi_field_of_variant variant snapshot =
     (if variant \<in> {''title-exact-multifield-v1'', ''title-exact-multifield-weighted-v1'',
                    ''title-exact-multifield-weighted-aggressive-v1''}
      then ebind (multi_field_init snapshot (Fin double_1_2) (Fin (3 / 4))) (\<lambda>m. Inr (Some m))
      else Inr None)"

definition channel_configs :: "bm25_index \<Rightarrow> multi_field option \<Rightarrow> dict list" where
  "channel_configs title multi =
     [title_bm25_config title, exact_title_config] @
       (case multi of None \<Rightarrow> [] | Some m \<Rightarrow> [multi_field_config m])"

definition pipeline_init ::
    "codec \<Rightarrow> retrieval_document list \<Rightarrow> json \<Rightarrow> json \<Rightarrow> json \<Rightarrow> json \<Rightarrow> string \<Rightarrow> exn + search_pipeline" where
  "pipeline_init c documents channel_top_k fusion_top_k coarse_top_k rrf_k variant =
     ebind (validate_retrieval_documents documents) (\<lambda>snapshot.
     ebind (positive_int channel_top_k) (\<lambda>ch.
     ebind (positive_int fusion_top_k) (\<lambda>fu.
     ebind (positive_int coarse_top_k) (\<lambda>co.
     ebind (positive_int rrf_k) (\<lambda>k.
     ebind (require (co \<le> fu) ValueError) (\<lambda>_.
     ebind (require (variant \<in> set PIPELINE_VARIANTS) ValueError) (\<lambda>_.
     ebind (title_bm25_init snapshot (Fin (3 / 2)) (Fin (3 / 4))) (\<lambda>title.
     ebind (exact_title_init snapshot) (\<lambda>exact.
     ebind (multi_field_of_variant variant snapshot) (\<lambda>multi.
     let config = pipeline_config ch fu co k variant (channel_configs title multi) in
     ebind (canonical_json_bytes c (JObj config)) (\<lambda>canonical.
     Inr \<lparr>pl_channel_top_k = ch, pl_fusion_top_k = fu, pl_coarse_top_k = co, pl_rrf_k = k,
          pl_variant = variant, pl_documents = map (\<lambda>d. (document_key d, d)) snapshot,
          pl_title = title, pl_exact = exact, pl_multi = multi, pl_fusion_weights = fusion_weights variant,
          pl_config = config, pl_pipeline_id = ustr (''pipeline-'' @ take 12 (cd_sha c canonical))\<rparr>)))))))))))"

subsection \<open>A search\<close>

definition run_channel ::
    "ustring \<Rightarrow> dict \<Rightarrow> exn + retrieval_hit list \<Rightarrow> exn + channel_result" where
  "run_channel channel_id config searched = ebind searched (\<lambda>hits. channel_result_init channel_id config hits)"

definition run_channels ::
    "(ustring \<Rightarrow> ustring) \<Rightarrow> search_pipeline \<Rightarrow> ustring \<Rightarrow> exn + channel_result list" where
  "run_channels str_lower pl query =
     (let top_k = JInt (pl_channel_top_k pl) in
      ebind (run_channel TITLE_BM25_ID (title_bm25_config (pl_title pl)) (title_bm25_search (pl_title pl) query top_k)) (\<lambda>t.
      ebind (run_channel EXACT_TITLE_ID exact_title_config (exact_title_search str_lower (pl_exact pl) query top_k)) (\<lambda>e.
      case pl_multi pl of
        None \<Rightarrow> Inr [t, e]
      | Some m \<Rightarrow>
          ebind (run_channel MULTI_FIELD_ID (multi_field_config m) (multi_field_search m query top_k)) (\<lambda>f.
          Inr [t, e, f]))))"

definition coarse_product :: "search_pipeline \<Rightarrow> fused_hit \<Rightarrow> exn + candidate_product" where
  "coarse_product pl hit =
     ebind (of_option KeyError (map_of (pl_documents pl) (fused_key hit))) (\<lambda>d.
     candidate_product_init (rd_locale d) (rd_product_id d) (rd_title d))"

definition COARSE_STAGE_ID :: ustring where "COARSE_STAGE_ID = ustr ''coarse-title-bm25-v1''"

definition coarse_rank :: "search_pipeline \<Rightarrow> ustring \<Rightarrow> fused_hit list \<Rightarrow> exn + stage_hit list" where
  "coarse_rank pl query fused =
     (if fused = [] then Inr []
      else ebind (traverse (coarse_product pl) fused) (\<lambda>products.
           ebind (bm25_init products (Fin (3 / 2)) (Fin (3 / 4))) (\<lambda>ranker.
           ebind (bm25_rank ranker query) (\<lambda>ranked.
           traverse (\<lambda>(rank, p). stage_hit_init COARSE_STAGE_ID (rk_locale p) (rk_product_id p) rank (rk_score p))
             (enumerate 1 (take (nat (pl_coarse_top_k pl)) ranked))))))"

definition pipeline_run ::
    "(ustring \<Rightarrow> ustring) \<Rightarrow> search_pipeline \<Rightarrow> ustring \<Rightarrow> exn + search_pipeline_result" where
  "pipeline_run str_lower pl query =
     ebind (run_channels str_lower pl query) (\<lambda>channels.
     let recall_union = recall_union_of channels in
     ebind (reciprocal_rank_fuse channels (JInt (pl_rrf_k pl)) (JInt (pl_fusion_top_k pl)) (pl_fusion_weights pl)) (\<lambda>fused.
     ebind (coarse_rank pl query fused) (\<lambda>coarse.
     search_pipeline_result_init (pl_pipeline_id pl) (pl_config pl) channels recall_union fused coarse)))"

subsection \<open>A constructed pipeline\<close>

definition pipeline_channel_ids :: "search_pipeline \<Rightarrow> ustring list" where
  "pipeline_channel_ids pl =
     [TITLE_BM25_ID, EXACT_TITLE_ID] @ (case pl_multi pl of None \<Rightarrow> [] | Some _ \<Rightarrow> [MULTI_FIELD_ID])"

definition pipeline_keys :: "search_pipeline \<Rightarrow> product_key list" where
  "pipeline_keys pl = map fst (pl_documents pl)"

definition pipeline_wf :: "search_pipeline \<Rightarrow> bool" where
  "pipeline_wf pl =
     (1 \<le> pl_channel_top_k pl \<and> 1 \<le> pl_fusion_top_k pl \<and> 1 \<le> pl_coarse_top_k pl \<and> 1 \<le> pl_rrf_k pl \<and>
      pl_coarse_top_k pl \<le> pl_fusion_top_k pl \<and>
      title_bm25_wf (pl_title pl) \<and> map fst (bm_tokens (pl_title pl)) = pipeline_keys pl \<and>
      json_ok (JObj (title_bm25_config (pl_title pl))) \<and>
      exact_title_wf (pl_exact pl) \<and> title_tables_ok (pl_exact pl) \<and>
      map fst (et_title_tokens (pl_exact pl)) = pipeline_keys pl \<and>
      (case pl_multi pl of None \<Rightarrow> True
       | Some m \<Rightarrow> multi_field_wf m \<and> map fst (mf_tokens m) = pipeline_keys pl \<and> json_ok (JObj (multi_field_config m))) \<and>
      set (map fst (pl_fusion_weights pl)) \<subseteq> set (pipeline_channel_ids pl) \<and>
      list_all (\<lambda>c. \<not> isl (positive_weight (channel_weight (pl_fusion_weights pl) c))) (pipeline_channel_ids pl) \<and>
      distinct (pipeline_keys pl) \<and>
      list_all (\<lambda>p. fst p = document_key (snd p) \<and> clean_key (fst p) \<and> clean_text (rd_title (snd p))) (pl_documents pl) \<and>
      json_ok (JObj (pl_config pl)) \<and> clean_id (pl_pipeline_id pl))"

lemma fusion_weights_ok:
  assumes "variant \<in> set PIPELINE_VARIANTS" "multi_field_of_variant variant ds = Inr multi"
  defines "ids \<equiv> [TITLE_BM25_ID, EXACT_TITLE_ID] @ (case multi of None \<Rightarrow> [] | Some _ \<Rightarrow> [MULTI_FIELD_ID])"
  shows "set (map fst (fusion_weights variant)) \<subseteq> set ids \<and>
         list_all (\<lambda>c. \<not> isl (positive_weight (channel_weight (fusion_weights variant) c))) ids"
proof -
  have d: "TITLE_BM25_ID \<noteq> EXACT_TITLE_ID" "TITLE_BM25_ID \<noteq> MULTI_FIELD_ID" "EXACT_TITLE_ID \<noteq> MULTI_FIELD_ID"
    by code_simp+
  have p: "0 < double_0_1" by (simp add: double_0_1_def)
  show ?thesis
    using assms(1,2) d p unfolding ids_def
    by (auto simp: PIPELINE_VARIANTS_def multi_field_of_variant_def fusion_weights_def weight_entry_def
        channel_weight_def positive_weight_def split: if_splits)
qed

lemma strip_unchanged:
  assumes "list_all (\<lambda>c. \<not> whitespace c) s"
  shows "strip s = s"
proof -
  have "dropWhile whitespace t = t" if "list_all (\<lambda>c. \<not> whitespace c) t" for t
    using that by (cases t) auto
  from this [OF assms] this [of "rev s"] assms show ?thesis by (simp add: strip_def)
qed

lemma take_hex_id:
  assumes "list_all hex h"
  shows "clean_id (ustr (''pipeline-'' @ take 12 h))"
proof -
  have hexc: "ascii_lower (of_char x) \<or> ascii_digit (of_char x)" if "hex x" for x
    using that by (auto simp: hex_def ascii_lower_def ascii_digit_def)
  let ?t = "map of_char (take 12 h) :: ustring"
  have t: "list_all (\<lambda>d. ascii_lower d \<or> ascii_digit d) ?t"
    using assms hexc by (auto simp: list_all_iff dest!: in_set_takeD)
  have e: "ustr (''pipeline-'' @ take 12 h) = [112, 105, 112, 101, 108, 105, 110, 101, 45] @ ?t"
    by (simp add: ustr_def)
  have nw: "\<not> whitespace d" if "ascii_lower d \<or> ascii_digit d \<or> d = 45" for d
    using that by (auto simp: whitespace_def ascii_lower_def ascii_digit_def)
  let ?s = "[112, 105, 112, 101, 108, 105, 110, 101, 45] @ ?t"
  have all: "list_all (\<lambda>d. ascii_lower d \<or> ascii_digit d \<or> d = 45) ?s"
    using t by (auto simp: list_all_iff ascii_lower_def)
  then have "list_all (\<lambda>d. \<not> whitespace d) ?s" using nw by (auto simp: list_all_iff)
  then have "strip ?s = ?s" by (rule strip_unchanged)
  then have "clean_text ?s" by (simp add: clean_text_def)
  moreover have "SAFE_COMPONENT_ID ?s"
    using all by (simp add: SAFE_COMPONENT_ID_def) (simp add: ascii_lower_def)
  ultimately show ?thesis unfolding e clean_id_def by simp
qed

lemma pipeline_init_wf:
  assumes ds: "documents_ok ds"
    and args: "1 \<le> ch" "1 \<le> co" "co \<le> fu" "1 \<le> k" "variant \<in> set PIPELINE_VARIANTS"
    and sha: "\<And>x. list_all hex (cd_sha c x)"
  shows "\<exists>pl. pipeline_init c ds (JInt ch) (JInt fu) (JInt co) (JInt k) variant = Inr pl \<and> pipeline_wf pl \<and>
              pl_channel_top_k pl = ch \<and> pl_fusion_top_k pl = fu \<and> pl_coarse_top_k pl = co \<and> pl_rrf_k pl = k \<and>
              pipeline_keys pl = map document_key ds"
proof -
  obtain t where t: "title_bm25_init ds (Fin (3 / 2)) (Fin (3 / 4)) = Inr t" "title_bm25_wf t"
    "map fst (bm_tokens t) = map document_key ds" "json_ok (JObj (title_bm25_config t))"
    using title_bm25_init_ok [OF ds, of "3 / 2" "3 / 4"] by auto
  obtain e where e: "exact_title_init ds = Inr e" "exact_title_wf e" "title_tables_ok e"
    "map fst (et_title_tokens e) = map document_key ds"
    using exact_title_init_ok [OF ds] by auto
  obtain m where m: "multi_field_init ds (Fin double_1_2) (Fin (3 / 4)) = Inr m" "multi_field_wf m"
    "map fst (mf_tokens m) = map document_key ds" "json_ok (JObj (multi_field_config m))"
    using multi_field_init_ok [OF ds, of double_1_2 "3 / 4"] by (auto simp: double_1_2_def)
  have "\<exists>multi. multi_field_of_variant variant ds = Inr multi \<and> (multi = None \<or> multi = Some m)"
    using m(1) by (simp add: multi_field_of_variant_def)
  then obtain multi where multi: "multi_field_of_variant variant ds = Inr multi" "multi = None \<or> multi = Some m"
    by blast
  let ?config = "pipeline_config ch fu co k variant (channel_configs t multi)"
  have cfg: "json_ok (JObj ?config)"
    using t(4) m(4) multi(2)
    by (auto simp: pipeline_config_def channel_configs_def fusion_weights_config_def exact_title_config_def)
  have d: "ds \<noteq> []" "distinct (map document_key ds)" "\<forall>d \<in> set ds. clean_key (document_key d) \<and> clean_text (rd_title d)"
    using ds by (auto simp: documents_ok_def list_all_iff)
  note w = fusion_weights_ok [OF args(5) multi(1)]
  have id: "clean_id (ustr (''pipeline-'' @ take 12 (cd_sha c x)))" for x by (rule take_hex_id) (rule sha)
  have "1 \<le> fu" using args by simp
  then show ?thesis
    using args d t e m multi cfg w id
    by (auto simp: pipeline_init_def Let_def canonical_json_bytes_def ensure_json_value_def
        pipeline_wf_def pipeline_keys_def pipeline_channel_ids_def comp_def list_all_iff split: option.splits)
qed

subsection \<open>The stages of a search\<close>

definition channel_of :: "ustring \<Rightarrow> dict \<Rightarrow> (product_key \<Rightarrow> real) \<Rightarrow> product_key list \<Rightarrow> channel_result" where
  "channel_of channel_id config s keys =
     \<lparr>ch_channel_id = channel_id, ch_config = config, ch_hits = ranked_hits channel_id s keys\<rparr>"

definition top :: "int \<Rightarrow> (product_key \<Rightarrow> real) \<Rightarrow> (product_key \<Rightarrow> bool) \<Rightarrow> product_key list \<Rightarrow> product_key list" where
  "top n s M keys = take (nat n) (best_first s (filter M keys))"

definition pipeline_channels :: "(ustring \<Rightarrow> ustring) \<Rightarrow> search_pipeline \<Rightarrow> ustring \<Rightarrow> channel_result list" where
  "pipeline_channels str_lower pl q =
     (let n = pl_channel_top_k pl; ks = pipeline_keys pl;
          bm = bm25_score (pl_title pl) (nub (tokenize q)); ex = exact_score str_lower (pl_exact pl) q in
      [channel_of TITLE_BM25_ID (title_bm25_config (pl_title pl)) bm (top n bm (title_matches (pl_title pl) q) ks),
       channel_of EXACT_TITLE_ID exact_title_config ex (top n ex (exact_matches str_lower (pl_exact pl) q) ks)] @
      (case pl_multi pl of
         None \<Rightarrow> []
       | Some m \<Rightarrow> let mf = mf_score m (nub (tokenize q)) in
           [channel_of MULTI_FIELD_ID (multi_field_config m) mf (top n mf (mf_matches m q) ks)]))"

lemma run_channel_title:
  assumes "pipeline_wf pl" "searchable q"
  defines "bm \<equiv> bm25_score (pl_title pl) (nub (tokenize q))"
  defines "c \<equiv> channel_of TITLE_BM25_ID (title_bm25_config (pl_title pl)) bm
     (top (pl_channel_top_k pl) bm (title_matches (pl_title pl) q) (pipeline_keys pl))"
  shows "run_channel TITLE_BM25_ID (title_bm25_config (pl_title pl))
           (title_bm25_search (pl_title pl) q (JInt (pl_channel_top_k pl))) = Inr c \<and> channel_ok c"
proof -
  have w: "title_bm25_wf (pl_title pl)" "1 \<le> pl_channel_top_k pl" "map fst (bm_tokens (pl_title pl)) = pipeline_keys pl"
    "json_ok (JObj (title_bm25_config (pl_title pl)))"
    using assms(1) by (auto simp: pipeline_wf_def)
  note r = title_bm25.search_result [OF w(1) assms(2) w(2)]
  from title_bm25.channel_result_ok [OF w(1) assms(2) w(2) r w(4)] r show ?thesis
    by (simp add: run_channel_def c_def bm_def channel_of_def top_def w(3))
qed

lemma run_channel_exact:
  assumes "pipeline_wf pl" "exact_accepts str_lower q"
  defines "ex \<equiv> exact_score str_lower (pl_exact pl) q"
  defines "c \<equiv> channel_of EXACT_TITLE_ID exact_title_config ex
     (top (pl_channel_top_k pl) ex (exact_matches str_lower (pl_exact pl) q) (pipeline_keys pl))"
  shows "run_channel EXACT_TITLE_ID exact_title_config
           (exact_title_search str_lower (pl_exact pl) q (JInt (pl_channel_top_k pl))) = Inr c \<and> channel_ok c"
proof -
  have w: "exact_title_wf (pl_exact pl) \<and> title_tables_ok (pl_exact pl)" "1 \<le> pl_channel_top_k pl"
    "map fst (et_title_tokens (pl_exact pl)) = pipeline_keys pl"
    using assms(1) by (auto simp: pipeline_wf_def)
  have j: "json_ok (JObj exact_title_config)" by (simp add: exact_title_config_def)
  note r = exact_title.search_result [OF w(1) assms(2) w(2)]
  from exact_title.channel_result_ok [OF w(1) assms(2) w(2) r j] r show ?thesis
    by (simp add: run_channel_def c_def ex_def channel_of_def top_def w(3))
qed

lemma run_channel_multi:
  assumes "pipeline_wf pl" "searchable q" "pl_multi pl = Some m"
  defines "mf \<equiv> mf_score m (nub (tokenize q))"
  defines "c \<equiv> channel_of MULTI_FIELD_ID (multi_field_config m) mf
     (top (pl_channel_top_k pl) mf (mf_matches m q) (pipeline_keys pl))"
  shows "run_channel MULTI_FIELD_ID (multi_field_config m)
           (multi_field_search m q (JInt (pl_channel_top_k pl))) = Inr c \<and> channel_ok c"
proof -
  have w: "multi_field_wf m" "1 \<le> pl_channel_top_k pl" "map fst (mf_tokens m) = pipeline_keys pl"
    "json_ok (JObj (multi_field_config m))"
    using assms(1,3) by (auto simp: pipeline_wf_def)
  note r = multi_field.search_result [OF w(1) assms(2) w(2)]
  from multi_field.channel_result_ok [OF w(1) assms(2) w(2) r w(4)] r show ?thesis
    by (simp add: run_channel_def c_def mf_def channel_of_def top_def w(3))
qed

lemma run_channels_ok:
  assumes "pipeline_wf pl" "exact_accepts str_lower q"
  shows "run_channels str_lower pl q = Inr (pipeline_channels str_lower pl q) \<and>
         list_all channel_ok (pipeline_channels str_lower pl q)"
proof -
  have s: "searchable q" using assms(2) by (simp add: exact_accepts_def)
  show ?thesis
    using run_channel_title [OF assms(1) s] run_channel_exact [OF assms] run_channel_multi [OF assms(1) s]
    by (cases "pl_multi pl") (simp_all add: run_channels_def pipeline_channels_def Let_def)
qed

lemma pipeline_channels_ids: "map ch_channel_id (pipeline_channels str_lower pl q) = pipeline_channel_ids pl"
  by (simp add: pipeline_channels_def pipeline_channel_ids_def channel_of_def Let_def split: option.splits)

lemma distinct_channel_ids: "distinct (pipeline_channel_ids pl)"
proof -
  have "TITLE_BM25_ID \<noteq> EXACT_TITLE_ID" "TITLE_BM25_ID \<noteq> MULTI_FIELD_ID" "EXACT_TITLE_ID \<noteq> MULTI_FIELD_ID"
    by code_simp+
  then show ?thesis by (simp add: pipeline_channel_ids_def split: option.splits)
qed

lemma pipeline_channels_ok:
  assumes "pipeline_wf pl" "exact_accepts str_lower q"
  shows "channels_ok (pipeline_channels str_lower pl q) \<and>
         weights_ok (pl_fusion_weights pl) (pipeline_channels str_lower pl q)"
proof -
  let ?cs = "pipeline_channels str_lower pl q"
  have i: "ch_channel_id ` set ?cs = set (pipeline_channel_ids pl)"
    by (metis list.set_map pipeline_channels_ids)
  have "?cs \<noteq> []" by (simp add: pipeline_channels_def Let_def)
  moreover have "distinct (map ch_channel_id ?cs)" by (simp add: pipeline_channels_ids distinct_channel_ids)
  moreover have "weights_ok (pl_fusion_weights pl) ?cs"
    using assms(1) i by (auto simp: weights_ok_def pipeline_wf_def list_all_iff)
  ultimately show ?thesis using run_channels_ok [OF assms] by (simp add: channels_ok_def)
qed

definition fused_keys :: "(ustring \<Rightarrow> ustring) \<Rightarrow> search_pipeline \<Rightarrow> ustring \<Rightarrow> product_key list" where
  "fused_keys str_lower pl q =
     (let cs = pipeline_channels str_lower pl q in
      take (nat (pl_fusion_top_k pl))
        (best_first (rrf_score (pl_rrf_k pl) (weight_of (pl_fusion_weights pl)) cs) (union_keys cs)))"

definition fused_answer :: "(ustring \<Rightarrow> ustring) \<Rightarrow> search_pipeline \<Rightarrow> ustring \<Rightarrow> fused_hit list" where
  "fused_answer str_lower pl q =
     map (\<lambda>(rank, key). fused_of (pl_rrf_k pl) (weight_of (pl_fusion_weights pl)) (pipeline_channels str_lower pl q) rank key)
       (enumerate 1 (fused_keys str_lower pl q))"

definition title_of :: "search_pipeline \<Rightarrow> product_key \<Rightarrow> ustring" where
  "title_of pl key = (case map_of (pl_documents pl) key of None \<Rightarrow> [] | Some d \<Rightarrow> rd_title d)"

definition coarse_score :: "search_pipeline \<Rightarrow> ustring \<Rightarrow> product_key list \<Rightarrow> product_key \<Rightarrow> real" where
  "coarse_score pl q keys =
     bm25_score (bm25_index_of (3 / 2) (3 / 4) (map (\<lambda>key. (key, title_of pl key)) keys)) (nub (tokenize q))"

definition coarse_keys :: "(ustring \<Rightarrow> ustring) \<Rightarrow> search_pipeline \<Rightarrow> ustring \<Rightarrow> product_key list" where
  "coarse_keys str_lower pl q =
     (let keys = fused_keys str_lower pl q in
      take (nat (pl_coarse_top_k pl)) (best_first (coarse_score pl q keys) keys))"

definition stage_of :: "(product_key \<Rightarrow> real) \<Rightarrow> nat \<Rightarrow> product_key \<Rightarrow> stage_hit" where
  "stage_of s rank key =
     \<lparr>sh_stage_id = COARSE_STAGE_ID, sh_locale = fst key, sh_product_id = snd key, sh_rank = rank, sh_score = s key\<rparr>"

definition coarse_answer :: "(ustring \<Rightarrow> ustring) \<Rightarrow> search_pipeline \<Rightarrow> ustring \<Rightarrow> stage_hit list" where
  "coarse_answer str_lower pl q =
     map (\<lambda>(rank, key). stage_of (coarse_score pl q (fused_keys str_lower pl q)) rank key)
       (enumerate 1 (coarse_keys str_lower pl q))"

lemma fused_answer_simps [simp]:
  "map fused_key (fused_answer str_lower pl q) = fused_keys str_lower pl q"
  "map fh_rank (fused_answer str_lower pl q) = [1..<Suc (length (fused_keys str_lower pl q))]"
  by (auto simp: fused_answer_def fused_of_def fused_key_def nth_enumerate_eq simp del: upt_Suc intro!: nth_equalityI)

lemma coarse_answer_simps [simp]:
  "map stage_key (coarse_answer str_lower pl q) = coarse_keys str_lower pl q"
  "map sh_rank (coarse_answer str_lower pl q) = [1..<Suc (length (coarse_keys str_lower pl q))]"
  by (auto simp: coarse_answer_def stage_of_def stage_key_def nth_enumerate_eq simp del: upt_Suc intro!: nth_equalityI)

lemma union_keys_documents: "set (union_keys (pipeline_channels str_lower pl q)) \<subseteq> set (pipeline_keys pl)"
proof
  fix key assume "key \<in> set (union_keys (pipeline_channels str_lower pl q))"
  then obtain c where c: "c \<in> set (pipeline_channels str_lower pl q)" "key \<in> set (map hit_key (ch_hits c))"
    by (auto simp: set_union_keys)
  then show "key \<in> set (pipeline_keys pl)"
    by (auto simp: pipeline_channels_def channel_of_def top_def Let_def
        simp del: set_map dest!: in_set_takeD split: option.splits)
qed

lemma fused_keys_props:
  "set (fused_keys str_lower pl q) \<subseteq> set (union_keys (pipeline_channels str_lower pl q))"
  "distinct (fused_keys str_lower pl q)"
  by (auto simp: fused_keys_def Let_def dest: in_set_takeD intro!: distinct_take)

lemma coarse_keys_props:
  "set (coarse_keys str_lower pl q) \<subseteq> set (fused_keys str_lower pl q)"
  "distinct (coarse_keys str_lower pl q)"
  by (auto simp: coarse_keys_def Let_def fused_keys_props dest: in_set_takeD intro!: distinct_take)

lemma fused_stage:
  assumes "pipeline_wf pl" "exact_accepts str_lower q"
  shows "reciprocal_rank_fuse (pipeline_channels str_lower pl q) (JInt (pl_rrf_k pl)) (JInt (pl_fusion_top_k pl))
           (pl_fusion_weights pl) = Inr (fused_answer str_lower pl q)"
  using fuse_result [of "pipeline_channels str_lower pl q" "pl_fusion_weights pl" "pl_rrf_k pl" "pl_fusion_top_k pl"]
    pipeline_channels_ok [OF assms] assms(1)
  by (simp add: fused_answer_def fused_keys_def Let_def pipeline_wf_def)

lemma coarse_products:
  assumes "pipeline_wf pl" "set ks \<subseteq> set (pipeline_keys pl)" "map fused_key hits = ks"
  shows "traverse (coarse_product pl) hits =
         Inr (map (\<lambda>key. \<lparr>pd_locale = fst key, pd_product_id = snd key, pd_title = title_of pl key\<rparr>) ks)"
proof -
  have "coarse_product pl h = Inr \<lparr>pd_locale = fst (fused_key h), pd_product_id = snd (fused_key h), pd_title = title_of pl (fused_key h)\<rparr>"
    if h: "h \<in> set hits" for h
  proof -
    from h assms(2,3) have "fused_key h \<in> set (pipeline_keys pl)" by auto
    then obtain d where d: "map_of (pl_documents pl) (fused_key h) = Some d" "(fused_key h, d) \<in> set (pl_documents pl)"
      using assms(1) by (auto simp: pipeline_keys_def pipeline_wf_def)
    then have "fused_key h = document_key d" "clean_key (fused_key h)" "clean_text (rd_title d)"
      using assms(1) by (auto simp: pipeline_wf_def list_all_iff)
    with d(1) show ?thesis
      by (auto simp: coarse_product_def candidate_product_init_def title_of_def document_key_def clean_key_def clean_text_def)
  qed
  then have "traverse (coarse_product pl) hits =
      Inr (map (\<lambda>h. \<lparr>pd_locale = fst (fused_key h), pd_product_id = snd (fused_key h), pd_title = title_of pl (fused_key h)\<rparr>) hits)"
    by (rule traverse_Inr_map)
  then show ?thesis using assms(3) by (auto simp: comp_def)
qed

lemma stage_hits_ok:
  assumes "\<forall>key \<in> set ks. clean_key key"
  shows "traverse (\<lambda>(rank, p). stage_hit_init COARSE_STAGE_ID (rk_locale p) (rk_product_id p) rank (rk_score p))
           (enumerate 1 (take n (to_ranked_products (map (\<lambda>key. (key, s key)) ks)))) =
         Inr (map (\<lambda>(rank, key). stage_of s rank key) (enumerate 1 (take n ks)))"
proof -
  let ?p = "\<lambda>i. to_ranked_products (map (\<lambda>key. (key, s key)) ks) ! i"
  have e: "enumerate 1 (take n (to_ranked_products (map (\<lambda>key. (key, s key)) ks))) =
        map (\<lambda>i. (Suc i, ?p i)) [0..<length (take n ks)]"
    by (rule nth_equalityI) (simp_all add: nth_enumerate_eq)
  have e': "map (\<lambda>(rank, key). stage_of s rank key) (enumerate 1 (take n ks)) =
        map (\<lambda>i. stage_of s (Suc i) (ks ! i)) [0..<length (take n ks)]"
    by (rule nth_equalityI) (simp_all add: nth_enumerate_eq)
  have c: "clean_id COARSE_STAGE_ID" by code_simp
  show ?thesis unfolding e e' traverse_map
  proof (rule traverse_Inr_map)
    fix i assume "i \<in> set [0..<length (take n ks)]"
    then have i: "i < length ks" by simp
    with assms have "clean_key (ks ! i)" by simp
    then show "(case (Suc i, ?p i) of (rank, p) \<Rightarrow>
          stage_hit_init COARSE_STAGE_ID (rk_locale p) (rk_product_id p) rank (rk_score p)) = Inr (stage_of s (Suc i) (ks ! i))"
      using i c by (simp add: to_ranked_products_nth stage_hit_init_def stage_of_def clean_key_def)
  qed
qed

lemma searchable_strip: "searchable q \<Longrightarrow> strip q \<noteq> []"
  using blank_not_searchable by (auto simp: searchable_def)

lemma coarse_stage:
  assumes wf: "pipeline_wf pl" and q: "exact_accepts str_lower q"
  shows "coarse_rank pl q (fused_answer str_lower pl q) = Inr (coarse_answer str_lower pl q)"
proof (cases "fused_answer str_lower pl q = []")
  case True
  then have "fused_keys str_lower pl q = []" by (metis fused_answer_simps(1) list.map_disc_iff)
  with True show ?thesis by (simp add: coarse_rank_def coarse_answer_def coarse_keys_def Let_def best_first_def)
next
  case False
  let ?ks = "fused_keys str_lower pl q"
  let ?s = "coarse_score pl q ?ks"
  let ?index = "bm25_index_of (3 / 2) (3 / 4) (map (\<lambda>key. (key, title_of pl key)) ?ks)"
  have ks: "?ks \<noteq> []" using False by (metis fused_answer_simps(1) list.map_disc_iff)
  have sub: "set ?ks \<subseteq> set (pipeline_keys pl)" using fused_keys_props(1) union_keys_documents by blast
  then have clean: "\<forall>key \<in> set (best_first ?s ?ks). clean_key key"
    using wf by (fastforce simp: pipeline_wf_def pipeline_keys_def list_all_iff)
  note products = coarse_products [OF wf sub fused_answer_simps(1)]
  let ?ps = "map (\<lambda>key. \<lparr>pd_locale = fst key, pd_product_id = snd key, pd_title = title_of pl key\<rparr>) ?ks"
  have "bm25_init ?ps (Fin (3 / 2)) (Fin (3 / 4)) = Inr ?index"
    using ks fused_keys_props(2) [of str_lower pl q]
    by (simp add: bm25_init_def bm25_parameters_def product_key_of_def comp_def)
  moreover have "bm25_rank ?index q = Inr (to_ranked_products (map (\<lambda>key. (key, ?s key)) (best_first ?s ?ks)))"
  proof -
    have "map fst (bm_tokens ?index) = ?ks" by (simp add: bm25_index_of_def comp_def)
    moreover have "strip q \<noteq> []" using q searchable_strip by (simp add: exact_accepts_def)
    ultimately show ?thesis
      by (simp add: bm25_rank_def rank_by_def coarse_score_def flip: sort_scored_map)
  qed
  ultimately show ?thesis
    using False products stage_hits_ok [OF clean, of "nat (pl_coarse_top_k pl)" ?s]
    by (simp add: coarse_rank_def coarse_answer_def coarse_keys_def Let_def)
qed

text \<open>The whole answer of a search.\<close>

definition pipeline_answer :: "(ustring \<Rightarrow> ustring) \<Rightarrow> search_pipeline \<Rightarrow> ustring \<Rightarrow> search_pipeline_result" where
  "pipeline_answer str_lower pl q =
     \<lparr>sp_pipeline_id = pl_pipeline_id pl, sp_config = pl_config pl,
      sp_channels = pipeline_channels str_lower pl q,
      sp_recall_union = sort (union_keys (pipeline_channels str_lower pl q)),
      sp_fused_hits = fused_answer str_lower pl q, sp_coarse_hits = coarse_answer str_lower pl q\<rparr>"

lemma recall_union_of_eq: "recall_union_of cs = sort (union_keys cs)"
  unfolding recall_union_of_def
  by (rule sorted_distinct_set_unique) (auto simp: set_union_keys)

theorem pipeline_run_result:
  assumes wf: "pipeline_wf pl" and q: "exact_accepts str_lower q"
  shows "pipeline_run str_lower pl q = Inr (pipeline_answer str_lower pl q)"
proof -
  let ?cs = "pipeline_channels str_lower pl q"
  have "fused_key ` set (fused_answer str_lower pl q) = set (fused_keys str_lower pl q)"
    "stage_key ` set (coarse_answer str_lower pl q) = set (coarse_keys str_lower pl q)"
    by (metis fused_answer_simps(1) set_map, metis coarse_answer_simps(1) set_map)
  moreover have "length (fused_answer str_lower pl q) = length (fused_keys str_lower pl q)"
    "length (coarse_answer str_lower pl q) = length (coarse_keys str_lower pl q)"
    by (metis fused_answer_simps(1) length_map, metis coarse_answer_simps(1) length_map)
  moreover have "json_ok (JObj (pl_config pl))" "clean_id (pl_pipeline_id pl)"
    using wf by (auto simp: pipeline_wf_def)
  ultimately have "search_pipeline_result_init (pl_pipeline_id pl) (pl_config pl) ?cs (sort (union_keys ?cs))
      (fused_answer str_lower pl q) (coarse_answer str_lower pl q) = Inr (pipeline_answer str_lower pl q)"
    using fused_keys_props [of str_lower pl q] coarse_keys_props [of str_lower pl q]
    by (simp add: search_pipeline_result_init_def canonical_config_def pipeline_channels_ids distinct_channel_ids
        recall_union_of_eq pipeline_answer_def del: upt_Suc json_ok.simps)
  then show ?thesis
    using run_channels_ok [OF assms] fused_stage [OF assms] coarse_stage [OF assms]
    by (simp add: pipeline_run_def Let_def recall_union_of_eq)
qed

end
