(* ===== verification/RetrievalProperties.thy ===== *)
theory RetrievalProperties
  imports SearchPipeline
begin

text \<open>
  The properties of the retrieval pipeline: what fusion guarantees for arbitrary valid channels, what
  each channel returns, and that a constructed pipeline answers every searchable query with a
  consistent result.
\<close>

subsection \<open>Fusion\<close>

definition returned_keys :: "channel_result list \<Rightarrow> product_key set" where
  "returned_keys cs = {hit_key h |c h. c \<in> set cs \<and> h \<in> set (ch_hits c)}"

lemma returned_keys_union: "returned_keys cs = set (union_keys cs)"
  by (simp add: returned_keys_def set_union_keys)

definition top_fused :: "int \<Rightarrow> int \<Rightarrow> (ustring \<Rightarrow> real) \<Rightarrow> channel_result list \<Rightarrow> product_key list" where
  "top_fused k n w cs = take (nat n) (best_first (rrf_score k w cs) (union_keys cs))"

lemma fuse_out:
  assumes "channels_ok cs" "weights_ok ws cs" "1 \<le> k" "1 \<le> n"
    and "reciprocal_rank_fuse cs (JInt k) (JInt n) ws = Inr out"
  shows "map fused_key out = top_fused k n (weight_of ws) cs"
    and "map fh_rank out = [1..<Suc (length out)]"
    and "h \<in> set out \<Longrightarrow> fh_score h = rrf_score k (weight_of ws) cs (fused_key h) \<and>
           fh_contributions h = provenance k (weight_of ws) cs (fused_key h)"
  using fuse_result [OF assms(1-4)] assms(5)
  by (auto simp: top_fused_def fused_of_def fused_key_def nth_enumerate_eq in_set_enumerate_eq simp del: upt_Suc
      intro!: nth_equalityI)

lemma fuse_keys:
  assumes "map fused_key out = top_fused k n w cs"
  shows "fused_key ` set out \<subseteq> returned_keys cs"
    and "length out = min (nat n) (card (returned_keys cs))"
    and "distinct (map fused_key out)"
    and "a \<in> returned_keys cs \<Longrightarrow> b \<in> fused_key ` set out \<Longrightarrow> beats (rrf_score k w cs) a b \<Longrightarrow> a \<in> fused_key ` set out"
proof -
  have s: "fused_key ` set out = set (top_fused k n w cs)" using assms by (metis set_map)
  show "fused_key ` set out \<subseteq> returned_keys cs"
    unfolding s by (auto simp: top_fused_def returned_keys_union dest: in_set_takeD)
  have "length out = length (top_fused k n w cs)" using assms by (metis length_map)
  then show "length out = min (nat n) (card (returned_keys cs))"
    by (simp add: top_fused_def returned_keys_union distinct_card)
  show "distinct (map fused_key out)" unfolding assms by (simp add: top_fused_def)
  show "a \<in> fused_key ` set out" if "a \<in> returned_keys cs" "b \<in> fused_key ` set out" "beats (rrf_score k w cs) a b"
    using that best_first_take [OF distinct_union_keys, of a cs b] unfolding s by (auto simp: top_fused_def returned_keys_union)
qed

lemma fuse_order:
  assumes "map fused_key out = top_fused k n w cs" "i < j" "j < length out"
  shows "beats (rrf_score k w cs) (fused_key (out ! i)) (fused_key (out ! j))"
proof -
  let ?B = "best_first (rrf_score k w cs) (union_keys cs)"
  have l: "length out = length (top_fused k n w cs)" using assms(1) by (metis length_map)
  then have j: "j < length (union_keys cs)" "j < nat n" using assms(3) by (auto simp: top_fused_def)
  have "fused_key (out ! m) = ?B ! m" if "m < length out" for m
    using that assms(1) l by (metis nth_map nth_take top_fused_def length_take min_less_iff_conj)
  then show ?thesis using best_first_beats [OF distinct_union_keys assms(2) j(1)] assms by simp
qed




text \<open>Two channels that agree on one product, for the witnesses.\<close>

definition sample_hit :: "ustring \<Rightarrow> nat \<Rightarrow> nat \<Rightarrow> retrieval_hit" where
  "sample_hit c pid rank =
     \<lparr>rh_channel_id = c, rh_locale = [117, 115], rh_product_id = [pid], rh_rank = rank, rh_score = 1\<rparr>"

definition sample_channels :: "channel_result list" where
  "sample_channels =
     [\<lparr>ch_channel_id = [97], ch_config = [], ch_hits = [sample_hit [97] 49 1, sample_hit [97] 50 2]\<rparr>,
      \<lparr>ch_channel_id = [98], ch_config = [], ch_hits = [sample_hit [98] 49 1]\<rparr>]"

lemma sample_channels_ok: "channels_ok sample_channels" "weights_ok [] sample_channels"
proof -
  have "clean_id [97]" "clean_id [98]" "clean_key ([117, 115], [49])" "clean_key ([117, 115], [50])"
    by (simp_all add: clean_id_def clean_key_def clean_text_def strip_def whitespace_def SAFE_COMPONENT_ID_def ascii_lower_def)
  then show "channels_ok sample_channels"
    by (simp add: channels_ok_def channel_ok_def sample_channels_def sample_hit_def hit_key_def)
  show "weights_ok [] sample_channels"
    by (simp add: weights_ok_def channel_weight_def positive_weight_def list_all_iff)
qed



text \<open>
  C27. Fusion respects dominance: when every channel that returned product \<open>b\<close> returned product \<open>a\<close>
  at a rank that is no worse, and \<open>b\<close> is in the fused result, then so is \<open>a\<close>, at a better rank and
  with a higher score. Raw channel scores play no role.
\<close>

theorem fusion_dominance:
  assumes "channels_ok cs" and "weights_ok ws cs" and "1 \<le> k" and "1 \<le> n"
    and "reciprocal_rank_fuse cs (JInt k) (JInt n) ws = Inr out"
    and "dominates cs a b" and "a \<noteq> b" and "hb \<in> set out" and "fused_key hb = b"
  shows "\<exists>ha \<in> set out. fused_key ha = a \<and> fh_score hb < fh_score ha \<and> fh_rank ha < fh_rank hb"
proof -
  note f = fuse_out [OF assms(1-5)]
  note keys = fuse_keys [OF f(1)]
  have b: "b \<in> returned_keys cs" using keys(1) assms(8,9) by blast
  have ok: "list_all channel_ok cs" using assms(1) by (simp add: channels_ok_def)
  have s: "rrf_score k (weight_of ws) cs b < rrf_score k (weight_of ws) cs a"
    using b by (intro rrf_score_strict assms(3,6,7) ok weight_of_pos [OF assms(2)]) (simp_all add: returned_keys_union)
  obtain c r where c: "c \<in> set cs" "rank_in c b = Some r"
    using b rank_in_hit_key by (fastforce simp: returned_keys_def)
  then obtain r' where "rank_in c a = Some r'" using assms(6) by (fastforce simp: dominates_def)
  then have "a \<in> returned_keys cs" using c(1) by (auto simp: returned_keys_def dest!: rank_in_Some)
  then obtain ha where ha: "ha \<in> set out" "fused_key ha = a"
    using keys(4) [of a b] s assms(8,9) by (auto simp: beats_def)
  obtain i j where ij: "i < length out" "ha = out ! i" "j < length out" "hb = out ! j"
    using ha(1) assms(8) by (auto simp: in_set_conv_nth)
  have "i < j"
  proof (rule ccontr)
    assume "\<not> i < j"
    then consider "j = i" | "j < i" by linarith
    then show False
      using fuse_order [OF f(1), of j i] ij ha assms(7,9) s by cases (auto simp: beats_def)
  qed
  moreover have rank: "fh_rank (out ! m) = Suc m" if "m < length out" for m
  proof -
    have "fh_rank (out ! m) = map fh_rank out ! m" using that by simp
    then show ?thesis unfolding f(2) using that by (simp del: upt_Suc)
  qed
  ultimately have "fh_rank ha < fh_rank hb" using ij by simp
  moreover have "fh_score hb < fh_score ha" using s f(3) [OF ha(1)] f(3) [OF assms(8)] ha(2) assms(9) by simp
  ultimately show ?thesis using ha by blast
qed

lemma sample_dominates: "dominates sample_channels ([117, 115], [49]) ([117, 115], [50])"
  by (simp add: dominates_def sample_channels_def rank_in_def sample_hit_def hit_key_def)

lemma sample_fused:
  "\<exists>out hb. reciprocal_rank_fuse sample_channels (JInt 60) (JInt 20) [] = Inr out \<and> hb \<in> set out \<and>
     fused_key hb = ([117, 115], [50])"
proof -
  obtain out where out: "reciprocal_rank_fuse sample_channels (JInt 60) (JInt 20) [] = Inr out"
    using fuse_result [OF sample_channels_ok, of 60 20] by auto
  have keys: "map fused_key out = top_fused 60 20 (weight_of []) sample_channels"
    using fuse_out(1) [OF sample_channels_ok _ _ out] by simp
  have u: "union_keys sample_channels = [([117, 115], [49]), ([117, 115], [50])]"
    by (simp add: union_keys_def all_hits_def sample_channels_def sample_hit_def hit_key_def)
  have "set (map fused_key out) = {([117, 115], [49]), ([117, 115], [50])}"
    unfolding keys top_fused_def by (simp add: u)
  then have "([117, 115], [50]) \<in> fused_key ` set out" by simp
  with out show ?thesis by force
qed

theorem fusion_dominance_witness:
  "\<exists>out hb ha. reciprocal_rank_fuse sample_channels (JInt 60) (JInt 20) [] = Inr out \<and> hb \<in> set out \<and> ha \<in> set out \<and>
     fused_key ha = ([117, 115], [49]) \<and> fused_key hb = ([117, 115], [50]) \<and> fh_score hb < fh_score ha"
proof -
  obtain out hb where h: "reciprocal_rank_fuse sample_channels (JInt 60) (JInt 20) [] = Inr out" "hb \<in> set out"
    "fused_key hb = ([117, 115], [50])"
    using sample_fused by blast
  from fusion_dominance [OF sample_channels_ok _ _ h(1) sample_dominates _ h(2,3)] h show ?thesis by auto
qed

subsection \<open>Channels\<close>

lemma documents_ok_validate: "documents_ok ds \<Longrightarrow> validate_retrieval_documents ds = Inr ds"
  by (simp add: documents_ok_def)

lemma map_of_documents:
  assumes "distinct (map document_key ds)" "d \<in> set ds"
  shows "map_of (map (\<lambda>d. (document_key d, f d)) ds) (document_key d) = Some (f d)"
  by (rule map_of_is_SomeI) (use assms in \<open>auto simp: comp_def\<close>)

lemma title_bm25_documents:
  assumes "documents_ok ds" "title_bm25_init ds k1 b = Inr r"
  shows "title_bm25_wf r" "map fst (bm_tokens r) = map document_key ds"
    "d \<in> set ds \<Longrightarrow> document_tokens r (document_key d) = tokenize (rd_title d)"
proof -
  from assms(2) obtain kr br where kb: "k1 = Fin kr" "b = Fin br" "0 < kr" "0 \<le> br" "br \<le> 1"
    by (auto simp: title_bm25_init_def)
  have r: "bm_tokens r = map (\<lambda>d. (document_key d, tokenize (rd_title d))) ds"
    using assms(2) by (auto simp: title_bm25_init_def bm25_index_of_def Let_def comp_def)
  from title_bm25_init_ok [OF assms(1) kb(3-5)] assms(2) kb
  show "title_bm25_wf r" "map fst (bm_tokens r) = map document_key ds" by auto
  show "document_tokens r (document_key d) = tokenize (rd_title d)" if "d \<in> set ds"
    using map_of_documents [of ds d "\<lambda>d. tokenize (rd_title d)"] that assms(1)
    by (simp add: document_tokens_def r documents_ok_def)
qed

lemma exact_title_documents:
  assumes "documents_ok ds" "exact_title_init ds = Inr r"
  shows "exact_title_wf r \<and> title_tables_ok r" "map fst (et_title_tokens r) = map document_key ds"
    "d \<in> set ds \<Longrightarrow> title_tokens r (document_key d) = tokenize (rd_title d)"
proof -
  have r: "et_title_tokens r = map (\<lambda>d. (document_key d, tokenize (rd_title d))) ds"
    using assms(2) by (auto simp: exact_title_init_def)
  from exact_title_init_ok [OF assms(1)] assms(2)
  show "exact_title_wf r \<and> title_tables_ok r" "map fst (et_title_tokens r) = map document_key ds" by auto
  show "title_tokens r (document_key d) = tokenize (rd_title d)" if "d \<in> set ds"
    using map_of_documents [of ds d "\<lambda>d. tokenize (rd_title d)"] that assms(1)
    by (simp add: title_tokens_def r documents_ok_def)
qed


definition sample_documents :: "retrieval_document list" where
  "sample_documents =
     [\<lparr>rd_locale = [117, 115], rd_product_id = [49], rd_title = [103, 111, 32, 103, 111], rd_brand = [],
       rd_bullet_point = [], rd_description = []\<rparr>,
      \<lparr>rd_locale = [117, 115], rd_product_id = [50], rd_title = [103, 111], rd_brand = [120],
       rd_bullet_point = [], rd_description = []\<rparr>]"

definition go_go :: ustring where
  "go_go = [103, 111, 32, 103, 111]"

lemma sample_documents_ok: "documents_ok sample_documents"
  by (simp add: documents_ok_def sample_documents_def document_key_def clean_key_def clean_text_def strip_def whitespace_def)

lemma tokenize_go_go: "tokenize go_go = [[103, 111], [103, 111]]"
  by (simp add: tokenize_def go_go_def word_char_def lower_char_def ascii_lower_def ascii_upper_def ascii_digit_def)




text \<open>
  A title in which a token repeats never earns the exact-title bonus, not even for the query that
  is the title itself: the query tokens are deduplicated, the title tokens are not. Its hit scores at
  most 3, below the 7 of a title without repetition that equals the query.
\<close>

lemma repeated_title_never_exact:
  assumes "documents_ok ds" and "exact_title_init ds = Inr r" and "exact_accepts str_lower q" and "1 \<le> n"
    and "exact_title_search str_lower r q (JInt n) = Inr hits" and "h \<in> set hits" and "d \<in> set ds"
    and "document_key d = hit_key h" and "\<not> distinct (tokenize (rd_title d))"
    and "str_lower (rd_product_id d) \<noteq> str_lower (strip q)"
  shows "rh_score h \<le> 3"
proof -
  note r = exact_title_documents [OF assms(1,2)]
  note m = exact_title.hit_matches [OF r(1) assms(3-6)]
  have "tokenize (rd_title d) \<noteq> nub (tokenize q)" using assms(9) distinct_nub by metis
  moreover have "snd (hit_key h) = rd_product_id d" using assms(8) by (metis document_key_def snd_conv)
  ultimately show ?thesis
    using m r(3) [OF assms(7)] assms(8,10) by (auto simp: exact_score_def flag_def)
qed

lemma repeated_title_never_exact_sample:
  "\<exists>r hits h. exact_title_init sample_documents = Inr r \<and> exact_title_search (\<lambda>s. s) r go_go (JInt 10) = Inr hits \<and>
     h \<in> set hits \<and> document_key (hd sample_documents) = hit_key h \<and> rd_title (hd sample_documents) = go_go \<and>
     rh_score h \<le> 3"
proof -
  let ?d = "hd sample_documents"
  obtain r where r: "exact_title_init sample_documents = Inr r" using exact_title_init_ok [OF sample_documents_ok] by blast
  note f = exact_title_documents [OF sample_documents_ok r]
  have d: "?d \<in> set sample_documents" "rd_title ?d = go_go" by (simp_all add: sample_documents_def go_go_def)
  have strip: "strip go_go = go_go" by (simp add: strip_def go_go_def whitespace_def)
  have q: "exact_accepts (\<lambda>s. s) go_go"
    by (simp add: exact_accepts_def searchable_def tokenize_go_go strip) (simp add: go_go_def)
  let ?keys = "take 10 (best_first (exact_score (\<lambda>s. s) r go_go) (filter (exact_matches (\<lambda>s. s) r go_go) (map document_key sample_documents)))"
  have hits: "exact_title_search (\<lambda>s. s) r go_go (JInt 10) = Inr (ranked_hits EXACT_TITLE_ID (exact_score (\<lambda>s. s) r go_go) ?keys)"
    using exact_title.search_result [OF f(1) q, of 10] f(2) by simp
  have "exact_matches (\<lambda>s. s) r go_go (document_key ?d)" using f(3) [OF d(1)] d(2) by (simp add: exact_matches_def)
  moreover have "length (filter P sample_documents) \<le> 10" for P
    by (rule order_trans [OF length_filter_le]) (simp add: sample_documents_def)
  ultimately have "document_key ?d \<in> set ?keys" using d(1) by (simp add: filter_map comp_def)
  then have "document_key ?d \<in> set (map hit_key (ranked_hits EXACT_TITLE_ID (exact_score (\<lambda>s. s) r go_go) ?keys))"
    by (simp only: ranked_hits_simps)
  then obtain h where h: "h \<in> set (ranked_hits EXACT_TITLE_ID (exact_score (\<lambda>s. s) r go_go) ?keys)" "document_key ?d = hit_key h"
    by (auto simp del: ranked_hits_simps(2))
  have "\<not> distinct (tokenize (rd_title ?d))" "rd_product_id ?d \<noteq> strip go_go"
    by (simp_all add: d(2) tokenize_go_go strip) (simp add: sample_documents_def go_go_def)
  from repeated_title_never_exact [OF sample_documents_ok r q _ hits h(1) d(1) h(2) this] r hits h d(2)
  show ?thesis by auto
qed

subsection \<open>The pipeline\<close>

definition shares_token :: "ustring \<Rightarrow> retrieval_document \<Rightarrow> bool" where
  "shares_token q d = (set (tokenize q) \<inter> set (tokenize (rd_title d)) \<noteq> {})"

text \<open>
  C31. A pipeline over valid documents and admissible parameters can be constructed, and answers every
  query that has a token (for a \<open>str.lower\<close> that keeps non-empty texts non-empty). In the answer the
  coarse hits are a subset of the fused hits, these of the recall union, and that of the documents;
  each stage has contiguous ranks, no repetition and exactly as many hits as its limit allows.
\<close>

theorem pipeline_answers:
  assumes "documents_ok ds" and "1 \<le> ch" and "1 \<le> co" and "co \<le> fu" and "1 \<le> k" and "variant \<in> set PIPELINE_VARIANTS"
    and "\<And>x. list_all hex (cd_sha c x)" and "\<And>s. s \<noteq> [] \<Longrightarrow> str_lower s \<noteq> []" and "tokenize q \<noteq> []"
  shows "\<exists>pl r. pipeline_init c ds (JInt ch) (JInt fu) (JInt co) (JInt k) variant = Inr pl \<and>
    pipeline_run str_lower pl q = Inr r \<and>
    stage_key ` set (sp_coarse_hits r) \<subseteq> fused_key ` set (sp_fused_hits r) \<and>
    fused_key ` set (sp_fused_hits r) \<subseteq> set (sp_recall_union r) \<and>
    set (sp_recall_union r) \<subseteq> document_key ` set ds \<and>
    length (sp_fused_hits r) = min (nat fu) (length (sp_recall_union r)) \<and>
    length (sp_coarse_hits r) = min (nat co) (length (sp_fused_hits r)) \<and>
    map fh_rank (sp_fused_hits r) = [1..<Suc (length (sp_fused_hits r))] \<and>
    map sh_rank (sp_coarse_hits r) = [1..<Suc (length (sp_coarse_hits r))] \<and>
    distinct (map fused_key (sp_fused_hits r)) \<and> distinct (map stage_key (sp_coarse_hits r))"
proof -
  obtain pl where pl: "pipeline_init c ds (JInt ch) (JInt fu) (JInt co) (JInt k) variant = Inr pl" "pipeline_wf pl"
    "pl_fusion_top_k pl = fu" "pl_coarse_top_k pl = co" "pipeline_keys pl = map document_key ds"
    using pipeline_init_wf [OF assms(1-7)] by blast
  have "exact_accepts str_lower q"
    using assms(8) [of "strip q"] searchable_strip assms(9) by (simp add: exact_accepts_def searchable_def)
  then have run: "pipeline_run str_lower pl q = Inr (pipeline_answer str_lower pl q)"
    by (rule pipeline_run_result [OF pl(2)])
  let ?r = "pipeline_answer str_lower pl q"
  have fk: "map fused_key (sp_fused_hits ?r) = fused_keys str_lower pl q"
    and ck: "map stage_key (sp_coarse_hits ?r) = coarse_keys str_lower pl q"
    by (simp_all add: pipeline_answer_def)
  have sets: "fused_key ` set (sp_fused_hits ?r) = set (fused_keys str_lower pl q)"
    "stage_key ` set (sp_coarse_hits ?r) = set (coarse_keys str_lower pl q)"
    by (metis fk set_map, metis ck set_map)
  have lens: "length (sp_fused_hits ?r) = length (fused_keys str_lower pl q)"
    "length (sp_coarse_hits ?r) = length (coarse_keys str_lower pl q)"
    by (metis fk length_map, metis ck length_map)
  have fr: "map fh_rank (sp_fused_hits ?r) = [1..<Suc (length (sp_fused_hits ?r))]"
    and cr: "map sh_rank (sp_coarse_hits ?r) = [1..<Suc (length (sp_coarse_hits ?r))]"
    unfolding lens by (simp_all add: pipeline_answer_def del: upt_Suc)
  have u: "set (sp_recall_union ?r) \<subseteq> document_key ` set ds"
    using union_keys_documents [of str_lower pl q] pl(5) by (simp add: pipeline_answer_def)
  show ?thesis
    by (rule exI [of _ pl], rule exI [of _ ?r], intro conjI pl(1) run fr cr u)
       (unfold sets lens fk ck, simp_all add: coarse_keys_props fused_keys_props pl(3,4) pipeline_answer_def,
        simp_all add: fused_keys_def coarse_keys_def Let_def pl(3,4))
qed

definition hex_codec :: codec where
  "hex_codec = \<lparr>cd_ser = (\<lambda>_. []), cd_sha = (\<lambda>_. replicate 64 CHR ''a'')\<rparr>"

theorem pipeline_answers_witness:
  "\<exists>pl r. pipeline_init hex_codec sample_documents (JInt 50) (JInt 20) (JInt 10) (JInt 60) ''title-exact-multifield-v1'' = Inr pl \<and>
     pipeline_run (\<lambda>s. s) pl go_go = Inr r \<and> set (sp_recall_union r) \<subseteq> document_key ` set sample_documents"
proof -
  have "''title-exact-multifield-v1'' \<in> set PIPELINE_VARIANTS" by (simp add: PIPELINE_VARIANTS_def)
  moreover have "list_all hex (cd_sha hex_codec x)" for x by (simp add: hex_codec_def list_all_iff hex_def)
  ultimately show ?thesis
    using pipeline_answers [OF sample_documents_ok, of 50 10 20 60 "''title-exact-multifield-v1''" hex_codec "\<lambda>s. s" go_go]
    by (force simp: tokenize_go_go)
qed

text \<open>
  C32. Nothing is lost when the limits leave room: with limits of at least the number of documents,
  every document whose title shares a token with the query reaches the coarse ranking.
\<close>

theorem pipeline_recall_complete:
  assumes "documents_ok ds" and "int (length ds) \<le> ch" and "int (length ds) \<le> co" and "co \<le> fu" and "1 \<le> k"
    and "variant \<in> set PIPELINE_VARIANTS" and "\<And>x. list_all hex (cd_sha c x)"
    and "pipeline_init c ds (JInt ch) (JInt fu) (JInt co) (JInt k) variant = Inr pl"
    and "pipeline_run str_lower pl q = Inr r" and "exact_accepts str_lower q" and "d \<in> set ds" and "shares_token q d"
  shows "document_key d \<in> stage_key ` set (sp_coarse_hits r)"
proof -
  have n: "1 \<le> int (length ds)" using assms(11) by (cases ds) auto
  have pl: "pipeline_wf pl" "pl_channel_top_k pl = ch" "pl_fusion_top_k pl = fu" "pl_coarse_top_k pl = co"
    "pipeline_keys pl = map document_key ds"
    using pipeline_init_wf [of ds ch co fu k variant c] assms(1-8) n by auto
  have r: "r = pipeline_answer str_lower pl q" using pipeline_run_result [OF pl(1) assms(10)] assms(9) by simp
  let ?cs = "pipeline_channels str_lower pl q"
  let ?bm = "bm25_score (pl_title pl) (nub (tokenize q))"
  obtain t where t: "title_bm25_init ds (Fin (3 / 2)) (Fin (3 / 4)) = Inr t" "pl_title pl = t"
    using assms(8) by (auto simp: pipeline_init_def Let_def)
  have m: "title_matches (pl_title pl) q (document_key d)"
    using title_bm25_documents(3) [OF assms(1) t(1) assms(11)] assms(12) t(2) by (simp add: title_matches_def shares_token_def)
  have len: "length ds \<le> nat ch" "length ds \<le> nat fu" "length ds \<le> nat co" using assms(2-4) by auto
  have whole: "top ch s M (map document_key ds) = best_first s (filter M (map document_key ds))" for s M
    using order_trans [OF length_filter_le, of "map document_key ds" "nat ch" M] len(1)
    by (simp add: top_def del: length_filter_map)
  have "document_key d \<in> set (union_keys ?cs)"
  proof -
    let ?c = "channel_of TITLE_BM25_ID (title_bm25_config (pl_title pl)) ?bm
       (top ch ?bm (title_matches (pl_title pl) q) (map document_key ds))"
    have "?c \<in> set ?cs" by (simp add: pipeline_channels_def Let_def pl)
    moreover have "document_key d \<in> set (map hit_key (ch_hits ?c))"
      using m assms(11) by (simp add: channel_of_def whole)
    ultimately show ?thesis by (auto simp: set_union_keys)
  qed
  moreover have "length (union_keys ?cs) \<le> length ds"
  proof -
    have "card (set (union_keys ?cs)) \<le> card (set (map document_key ds))"
      using union_keys_documents [of str_lower pl q] pl(5) by (intro card_mono) auto
    also have "\<dots> \<le> length ds" by (metis card_length length_map)
    finally show ?thesis by (simp add: distinct_card)
  qed
  ultimately have f: "document_key d \<in> set (fused_keys str_lower pl q)" "length (fused_keys str_lower pl q) \<le> length ds"
    using len(2) by (simp_all add: fused_keys_def Let_def pl(3))
  then have "document_key d \<in> set (coarse_keys str_lower pl q)"
    using len(3) by (simp add: coarse_keys_def Let_def pl(4))
  then show ?thesis unfolding r by (metis (no_types, lifting) coarse_answer_simps(1) pipeline_answer_def search_pipeline_result.select_convs(6) set_map)
qed


theorem pipeline_recall_complete_witness:
  "\<exists>pl r. pipeline_init hex_codec sample_documents (JInt 50) (JInt 20) (JInt 10) (JInt 60) ''title-exact-v1'' = Inr pl \<and>
     pipeline_run (\<lambda>s. s) pl go_go = Inr r \<and>
     document_key (hd sample_documents) \<in> stage_key ` set (sp_coarse_hits r)"
proof -
  have v: "''title-exact-v1'' \<in> set PIPELINE_VARIANTS" by (simp add: PIPELINE_VARIANTS_def)
  have h: "list_all hex (cd_sha hex_codec x)" for x by (simp add: hex_codec_def list_all_iff hex_def)
  have q: "exact_accepts (\<lambda>s. s) go_go"
    by (simp add: exact_accepts_def searchable_def tokenize_go_go strip_empty_iff) (simp add: go_go_def whitespace_def)
  obtain pl where pl: "pipeline_init hex_codec sample_documents (JInt 50) (JInt 20) (JInt 10) (JInt 60) ''title-exact-v1'' = Inr pl"
    "pipeline_wf pl"
    using pipeline_init_wf [OF sample_documents_ok _ _ _ _ v h, of 50 10 20 60] by auto
  note run = pipeline_run_result [OF pl(2) q]
  have d: "hd sample_documents \<in> set sample_documents" "shares_token go_go (hd sample_documents)"
    by (simp_all add: sample_documents_def shares_token_def tokenize_go_go flip: go_go_def)
  have "int (length sample_documents) \<le> 10" by (simp add: sample_documents_def)
  from pipeline_recall_complete [OF sample_documents_ok _ this _ _ v h pl(1) run q d] this
  have "document_key (hd sample_documents) \<in> stage_key ` set (sp_coarse_hits (pipeline_answer (\<lambda>s. s) pl go_go))"
    by simp
  with pl(1) run show ?thesis by blast
qed

end
