(* ===== verification/ReleaseContracts.thy ===== *)
theory ReleaseContracts
  imports RetrievalEvidence Codec AgentContracts
begin

text \<open>
  The models of \<^verbatim>\<open>src/search_quality/agent/retrieval_release_control.py\<close>: proposal, Owner decision,
  validation outcome, rollback, their intents, and the three serving receipts. A model class is a
  record; \<open>*_ok\<close> is its field constraints and validators, \<open>dump_*\<close> its \<^verbatim>\<open>model_dump(mode="json")\<close>
  (keys sorted, constant fields included), \<open>decode_*\<close> its strict \<^verbatim>\<open>model_validate\<close> where the code
  parses caller input. Every record carries an identifier derived from its own content:
  \<open>sha256_payload\<close> of the dump without the identifier.
\<close>

subsection \<open>Errors and identifiers\<close>

text \<open>
  \<open>Release code\<close> is a \<^verbatim>\<open>RetrievalReleaseError\<close> with that code, \<open>Python e\<close> any other exception;
  the former is a subclass of \<^verbatim>\<open>ValueError\<close>, which the handlers below take into account.
\<close>

datatype release_exn = Release string | Python exn

definition lift_exn :: "exn + 'a \<Rightarrow> release_exn + 'a" where
  "lift_exn m = (case m of Inl e \<Rightarrow> Inl (Python e) | Inr x \<Rightarrow> Inr x)"

text \<open>\<^verbatim>\<open>except (TypeError, ValueError) as exc: raise RetrievalReleaseError(code)\<close>\<close>

fun value_or_type_error :: "release_exn \<Rightarrow> bool" where
  "value_or_type_error (Release _) = True"
| "value_or_type_error (Python e) = (e = TypeError \<or> e = ValueError)"

definition recast_error :: "string \<Rightarrow> release_exn + 'a \<Rightarrow> release_exn + 'a" where
  "recast_error code m =
     (case m of
        Inl e \<Rightarrow> Inl (if value_or_type_error e then Release code else e)
      | Inr x \<Rightarrow> Inr x)"

text \<open>A pydantic model whose validation fails raises a \<^verbatim>\<open>ValidationError\<close>, a \<^verbatim>\<open>ValueError\<close>.\<close>

definition validated :: "bool \<Rightarrow> 'a \<Rightarrow> release_exn + 'a" where
  "validated ok x = (if ok then Inr x else Inl (Python ValueError))"

definition sha256_payload :: "codec \<Rightarrow> json \<Rightarrow> release_exn + string" where
  "sha256_payload c v = lift_exn (ebind (canonical_json_bytes c v) (\<lambda>b. Inr (cd_sha c b)))"

definition content_id :: "codec \<Rightarrow> string \<Rightarrow> json \<Rightarrow> release_exn + string" where
  "content_id c prefix v = ebind (sha256_payload c v) (\<lambda>h. Inr (prefix @ ''-'' @ take 12 h))"

definition alnum :: "char \<Rightarrow> bool" where
  "alnum ch = (lower ch \<or> upper ch \<or> digit ch)"

definition SAFE_COMPONENT_PATTERN :: "string \<Rightarrow> bool" where
  "SAFE_COMPONENT_PATTERN = head_tail lower (\<lambda>ch. lower ch \<or> digit ch \<or> ch = CHR ''-'') 63"

definition SAFE_ACTION_PATTERN :: "string \<Rightarrow> bool" where
  "SAFE_ACTION_PATTERN = head_tail alnum (\<lambda>ch. alnum ch \<or> ch \<in> set ''._:-'') 127"

definition SAFE_ACTOR_PATTERN :: "string \<Rightarrow> bool" where
  "SAFE_ACTOR_PATTERN = head_tail alnum (\<lambda>ch. alnum ch \<or> ch \<in> set ''._@:-'') 127"

definition SAFE_ERROR_PATTERN :: "string \<Rightarrow> bool" where
  "SAFE_ERROR_PATTERN = head_tail lower (\<lambda>ch. lower ch \<or> digit ch \<or> ch = CHR ''_'') 63"

definition opt_sha :: "string option \<Rightarrow> bool" where
  "opt_sha x = (case x of None \<Rightarrow> True | Some h \<Rightarrow> hex_exact 64 h)"

definition SELECTED_STRATEGY_ID :: string where
  "SELECTED_STRATEGY_ID = ''multi-field-bm25-weighted-rrf-v1''"

definition SELECTED_PIPELINE_VARIANT :: string where
  "SELECTED_PIPELINE_VARIANT = ''title-exact-multifield-weighted-v1''"

subsection \<open>Proposals\<close>

record selected_pipeline =
  sl_pipeline_id :: string
  sl_config :: dict
  sl_config_sha256 :: string

definition selected_pipeline_ok :: "codec \<Rightarrow> selected_pipeline \<Rightarrow> bool" where
  "selected_pipeline_ok c p =
     (prefixed_hex ''pipeline-'' 12 (sl_pipeline_id p) \<and> hex_exact 64 (sl_config_sha256 p) \<and>
      json_ok (JObj (sl_config p)) \<and>
      py_eq (dget (sl_config p) ''variant'') (JStr SELECTED_PIPELINE_VARIANT) \<and>
      sha256_payload c (JObj (sl_config p)) = Inr (sl_config_sha256 p) \<and>
      sl_pipeline_id p = ''pipeline-'' @ take 12 (sl_config_sha256 p))"

definition dump_selected_pipeline :: "selected_pipeline \<Rightarrow> json" where
  "dump_selected_pipeline p = JObj
     [(''config'', JObj (sl_config p)), (''config_sha256'', JStr (sl_config_sha256 p)),
      (''pipeline_id'', JStr (sl_pipeline_id p)), (''strategy_id'', JStr SELECTED_STRATEGY_ID)]"

record evidence_refs =
  ev_baseline_run_id :: string
  ev_candidate_run_id :: string
  ev_comparison_id :: string
  ev_baseline_diagnosis_id :: string
  ev_candidate_diagnosis_id :: string
  ev_trace_id :: string

definition evidence_refs_ok :: "evidence_refs \<Rightarrow> bool" where
  "evidence_refs_ok e =
     (prefixed_hex ''retrieval-'' 12 (ev_baseline_run_id e) \<and>
      prefixed_hex ''retrieval-'' 12 (ev_candidate_run_id e) \<and>
      prefixed_hex ''retrieval-comparison-'' 12 (ev_comparison_id e) \<and>
      prefixed_hex ''stage-diagnosis-'' 12 (ev_baseline_diagnosis_id e) \<and>
      prefixed_hex ''stage-diagnosis-'' 12 (ev_candidate_diagnosis_id e) \<and>
      hex_exact 32 (ev_trace_id e) \<and>
      ev_baseline_run_id e \<noteq> ev_candidate_run_id e \<and>
      ev_baseline_diagnosis_id e \<noteq> ev_candidate_diagnosis_id e)"

definition dump_evidence_refs :: "evidence_refs \<Rightarrow> json" where
  "dump_evidence_refs e = JObj
     [(''baseline_diagnosis_id'', JStr (ev_baseline_diagnosis_id e)),
      (''baseline_run_id'', JStr (ev_baseline_run_id e)),
      (''candidate_diagnosis_id'', JStr (ev_candidate_diagnosis_id e)),
      (''candidate_run_id'', JStr (ev_candidate_run_id e)),
      (''comparison_id'', JStr (ev_comparison_id e)), (''trace_id'', JStr (ev_trace_id e))]"

definition dump_gate_check :: "gate_check \<Rightarrow> json" where
  "dump_gate_check g = JObj
     [(''comparator'', JStr (gc_comparator g)), (''name'', JStr (gc_name g)),
      (''observed'', JFloat (Fin (gc_observed g))), (''passed'', JBool (gc_passed g)),
      (''threshold'', JFloat (Fin (gc_threshold g)))]"

definition dump_gate_summary :: "gate_summary \<Rightarrow> json" where
  "dump_gate_summary g = JObj
     [(''checks'', JList (map dump_gate_check (gs_checks g))),
      (''failed_gates'', JList (map JStr (gs_failed_gates g))), (''passed'', JBool (gs_passed g)),
      (''policy_version'', JStr ''closed-retrieval-experiment-gates-v1'')]"

record release_proposal =
  po_proposal_id :: string
  po_proposal_revision :: string
  po_trace_terminal_reason_code :: string
  po_code_revision :: string
  po_parent_active_revision :: "string option"
  po_selected_pipeline :: selected_pipeline
  po_evidence :: evidence_refs
  po_release_gate :: gate_summary

text \<open>The dump without \<^verbatim>\<open>proposal_id\<close> and \<^verbatim>\<open>proposal_revision\<close>.\<close>

definition proposal_body :: "release_proposal \<Rightarrow> dict" where
  "proposal_body p =
     [(''analysis_schema_version'', JStr ''retrieval-stage-analysis-response-v1''),
      (''analysis_status'', JStr ''proposal_ready''), (''approval_eligible'', JBool True),
      (''code_revision'', JStr (po_code_revision p)), (''evidence'', dump_evidence_refs (po_evidence p)),
      (''lifecycle'', JStr ''pending_owner_review''),
      (''parent_active_revision'', opt_str (po_parent_active_revision p)), (''profile'', JStr ''smoke''),
      (''release_gate'', dump_gate_summary (po_release_gate p)),
      (''schema_version'', JStr ''retrieval-release-proposal-v1''),
      (''selected_pipeline'', dump_selected_pipeline (po_selected_pipeline p)),
      (''trace_terminal_reason_code'', JStr (po_trace_terminal_reason_code p))]"

definition proposal_ok :: "codec \<Rightarrow> release_proposal \<Rightarrow> bool" where
  "proposal_ok c p =
     (prefixed_hex ''retrieval-proposal-'' 12 (po_proposal_id p) \<and> hex_exact 64 (po_proposal_revision p) \<and>
      SAFE_ERROR_PATTERN (po_trace_terminal_reason_code p) \<and> hex_exact 40 (po_code_revision p) \<and>
      opt_sha (po_parent_active_revision p) \<and> selected_pipeline_ok c (po_selected_pipeline p) \<and>
      evidence_refs_ok (po_evidence p) \<and> gate_summary_ok (po_release_gate p) \<and> gs_passed (po_release_gate p) \<and>
      sha256_payload c (JObj (proposal_body p)) = Inr (po_proposal_revision p) \<and>
      po_proposal_id p = ''retrieval-proposal-'' @ take 12 (po_proposal_revision p))"

record proposal_intent =
  pi_trace_id :: string
  pi_proposal_id :: string
  pi_proposal_revision :: string
  pi_parent_active_revision :: "string option"
  pi_code_revision :: string
  pi_config_sha256 :: string
  pi_baseline_run_id :: string
  pi_candidate_run_id :: string
  pi_comparison_id :: string

subsection \<open>Owner decisions\<close>

datatype owner_decision = Approve | Reject

fun owner_decision_value :: "owner_decision \<Rightarrow> string" where
  "owner_decision_value Approve = ''approve''"
| "owner_decision_value Reject = ''reject''"

definition decision_lifecycle :: "owner_decision \<Rightarrow> string" where
  "decision_lifecycle d = (if d = Approve then ''approved_for_validation'' else ''rejected'')"

text \<open>
  The fields \<^verbatim>\<open>lifecycle\<close> and \<^verbatim>\<open>validation_required\<close> are functions of \<^verbatim>\<open>decision\<close> in every valid
  decision, so they are computed, not stored.
\<close>

record release_decision =
  de_decision_id :: string
  de_proposal_id :: string
  de_proposal_revision :: string
  de_decision :: owner_decision
  de_client_action_id :: string
  de_actor_id :: string
  de_pipeline_id :: string
  de_config_sha256 :: string
  de_parent_active_revision :: "string option"

definition de_lifecycle :: "release_decision \<Rightarrow> string" where
  "de_lifecycle d = decision_lifecycle (de_decision d)"

definition decision_body :: "release_decision \<Rightarrow> dict" where
  "decision_body d =
     [(''activation_status'', JStr ''not_active''), (''actor_id'', JStr (de_actor_id d)),
      (''client_action_id'', JStr (de_client_action_id d)), (''config_sha256'', JStr (de_config_sha256 d)),
      (''decision'', JStr (owner_decision_value (de_decision d))), (''lifecycle'', JStr (de_lifecycle d)),
      (''parent_active_revision'', opt_str (de_parent_active_revision d)),
      (''pipeline_id'', JStr (de_pipeline_id d)), (''proposal_id'', JStr (de_proposal_id d)),
      (''proposal_revision'', JStr (de_proposal_revision d)),
      (''schema_version'', JStr ''retrieval-release-decision-v1''),
      (''strategy_id'', JStr SELECTED_STRATEGY_ID), (''validation_required'', JBool (de_decision d = Approve))]"

definition release_decision_ok :: "codec \<Rightarrow> release_decision \<Rightarrow> bool" where
  "release_decision_ok c d =
     (prefixed_hex ''retrieval-decision-'' 12 (de_decision_id d) \<and>
      prefixed_hex ''retrieval-proposal-'' 12 (de_proposal_id d) \<and> hex_exact 64 (de_proposal_revision d) \<and>
      SAFE_ACTION_PATTERN (de_client_action_id d) \<and> SAFE_ACTOR_PATTERN (de_actor_id d) \<and>
      prefixed_hex ''pipeline-'' 12 (de_pipeline_id d) \<and> hex_exact 64 (de_config_sha256 d) \<and>
      opt_sha (de_parent_active_revision d) \<and>
      content_id c ''retrieval-decision'' (JObj (decision_body d)) = Inr (de_decision_id d))"

record decision_intent =
  di_proposal_id :: string
  di_proposal_revision :: string
  di_decision :: owner_decision
  di_client_action_id :: string
  di_actor_id :: string
  di_decision_id :: string

subsection \<open>Serving receipts\<close>

record channel_counts =
  cc_title :: int
  cc_exact :: int
  cc_multi_field :: int
  cc_union :: int
  cc_fused :: int
  cc_coarse :: int

definition decode_channel_counts :: "json \<Rightarrow> channel_counts option" where
  "decode_channel_counts j =
     Option.bind (model_fields [''title'', ''exact'', ''multi_field'', ''union'', ''fused'', ''coarse''] j) (\<lambda>d.
     Option.bind (field d ''title'' (dec_int (\<lambda>i. 0 \<le> i))) (\<lambda>t.
     Option.bind (field d ''exact'' (dec_int (\<lambda>i. 0 \<le> i))) (\<lambda>e.
     Option.bind (field d ''multi_field'' (dec_int (\<lambda>i. 0 \<le> i))) (\<lambda>m.
     Option.bind (field d ''union'' (dec_int (\<lambda>i. 0 \<le> i))) (\<lambda>u.
     Option.bind (field d ''fused'' (dec_int (\<lambda>i. 0 \<le> i))) (\<lambda>f.
     Option.bind (field d ''coarse'' (dec_int (\<lambda>i. 0 \<le> i))) (\<lambda>cr.
     Some \<lparr>cc_title = t, cc_exact = e, cc_multi_field = m, cc_union = u, cc_fused = f, cc_coarse = cr\<rparr>)))))))"

definition dump_channel_counts :: "channel_counts \<Rightarrow> json" where
  "dump_channel_counts k = JObj
     [(''coarse'', JInt (cc_coarse k)), (''exact'', JInt (cc_exact k)), (''fused'', JInt (cc_fused k)),
      (''multi_field'', JInt (cc_multi_field k)), (''title'', JInt (cc_title k)), (''union'', JInt (cc_union k))]"

record activation_latency =
  al_max :: rat
  al_p95 :: rat
  al_total :: rat

definition decode_activation_latency :: "json \<Rightarrow> activation_latency option" where
  "decode_activation_latency j =
     Option.bind (model_fields [''max'', ''p95'', ''total''] j) (\<lambda>d.
     Option.bind (field d ''max'' (dec_finite (\<lambda>r. 0 \<le> r))) (\<lambda>m.
     Option.bind (field d ''p95'' (dec_finite (\<lambda>r. 0 \<le> r))) (\<lambda>p.
     Option.bind (field d ''total'' (dec_finite (\<lambda>r. 0 \<le> r))) (\<lambda>t.
     if m < p \<or> t < m then None else Some \<lparr>al_max = m, al_p95 = p, al_total = t\<rparr>))))"

definition dump_activation_latency :: "activation_latency \<Rightarrow> json" where
  "dump_activation_latency l = JObj
     [(''max'', JFloat (Fin (al_max l))), (''p95'', JFloat (Fin (al_p95 l))), (''total'', JFloat (Fin (al_total l)))]"

text \<open>What both validation receipts share and the control plane compares with the proposal.\<close>

record receipt_binding =
  re_receipt_id :: string
  re_proposal_id :: string
  re_proposal_revision :: string
  re_pipeline_id :: string
  re_config_sha256 :: string
  re_parent_active_revision :: "string option"
  re_code_revision :: string

record activation_receipt = receipt_binding +
  ac_strategy_revision :: string
  ac_index_id :: string
  ac_index_schema_version :: string
  ac_previous_strategy_revision :: "string option"
  ac_rollback_strategy_revision :: string
  ac_channel_counts :: channel_counts
  ac_sentinel_count :: int
  ac_latency_ms :: activation_latency

definition activation_body :: "activation_receipt \<Rightarrow> dict" where
  "activation_body r =
     [(''active'', JBool True), (''channel_counts'', dump_channel_counts (ac_channel_counts r)),
      (''code_revision'', JStr (re_code_revision r)), (''config_sha256'', JStr (re_config_sha256 r)),
      (''index_id'', JStr (ac_index_id r)), (''index_schema_version'', JStr (ac_index_schema_version r)),
      (''latency_ms'', dump_activation_latency (ac_latency_ms r)),
      (''parent_active_revision'', opt_str (re_parent_active_revision r)), (''passed'', JBool True),
      (''pipeline_id'', JStr (re_pipeline_id r)),
      (''previous_strategy_revision'', opt_str (ac_previous_strategy_revision r)),
      (''proposal_id'', JStr (re_proposal_id r)), (''proposal_revision'', JStr (re_proposal_revision r)),
      (''rollback_strategy_revision'', JStr (ac_rollback_strategy_revision r)),
      (''schema_version'', JStr ''retrieval-serving-activation-receipt-v1''),
      (''sentinel_count'', JInt (ac_sentinel_count r)), (''strategy_id'', JStr SELECTED_STRATEGY_ID),
      (''strategy_revision'', JStr (ac_strategy_revision r))]"

definition ACTIVATION_FIELDS :: "string list" where
  "ACTIVATION_FIELDS =
     [''active'', ''channel_counts'', ''code_revision'', ''config_sha256'', ''index_id'', ''index_schema_version'',
      ''latency_ms'', ''parent_active_revision'', ''passed'', ''pipeline_id'', ''previous_strategy_revision'',
      ''proposal_id'', ''proposal_revision'', ''receipt_id'', ''rollback_strategy_revision'', ''schema_version'',
      ''sentinel_count'', ''strategy_id'', ''strategy_revision'']"

definition dec_true :: "json \<Rightarrow> bool option" where
  "dec_true j = (if j = JBool True then Some True else None)"

definition dec_false :: "json \<Rightarrow> bool option" where
  "dec_false j = (if j = JBool False then Some False else None)"

definition decode_activation_receipt :: "codec \<Rightarrow> json \<Rightarrow> activation_receipt option" where
  "decode_activation_receipt c j =
     Option.bind (model_fields ACTIVATION_FIELDS j) (\<lambda>d.
     Option.bind (field_default d ''schema_version'' ''retrieval-serving-activation-receipt-v1''
                    (dec_literal [''retrieval-serving-activation-receipt-v1''])) (\<lambda>_.
     Option.bind (field d ''receipt_id'' (dec_pattern (prefixed_hex ''activation-'' 12))) (\<lambda>i.
     Option.bind (field d ''proposal_id'' (dec_pattern (prefixed_hex ''retrieval-proposal-'' 12))) (\<lambda>pid.
     Option.bind (field d ''proposal_revision'' (dec_pattern (hex_exact 64))) (\<lambda>rev.
     Option.bind (field_default d ''strategy_id'' SELECTED_STRATEGY_ID (dec_literal [SELECTED_STRATEGY_ID])) (\<lambda>_.
     Option.bind (field d ''strategy_revision'' (dec_pattern (hex_exact 64))) (\<lambda>srev.
     Option.bind (field d ''pipeline_id'' (dec_pattern (prefixed_hex ''pipeline-'' 12))) (\<lambda>pipe.
     Option.bind (field d ''config_sha256'' (dec_pattern (hex_exact 64))) (\<lambda>cfg.
     Option.bind (field d ''index_id'' (dec_pattern SAFE_COMPONENT_PATTERN)) (\<lambda>idx.
     Option.bind (field d ''index_schema_version'' (dec_pattern SAFE_COMPONENT_PATTERN)) (\<lambda>idxv.
     Option.bind (field_default d ''parent_active_revision'' None (dec_optional (dec_pattern (hex_exact 64)))) (\<lambda>par.
     Option.bind (field_default d ''previous_strategy_revision'' None (dec_optional (dec_pattern (hex_exact 64)))) (\<lambda>prev.
     Option.bind (field d ''rollback_strategy_revision'' (dec_pattern (hex_exact 64))) (\<lambda>rb.
     Option.bind (field d ''code_revision'' (dec_pattern (hex_exact 40))) (\<lambda>code.
     Option.bind (field d ''channel_counts'' decode_channel_counts) (\<lambda>counts.
     Option.bind (field d ''sentinel_count'' (dec_int (\<lambda>n. 1 \<le> n \<and> n \<le> 10000))) (\<lambda>n.
     Option.bind (field d ''latency_ms'' decode_activation_latency) (\<lambda>lat.
     Option.bind (field_default d ''passed'' True dec_true) (\<lambda>_.
     Option.bind (field_default d ''active'' True dec_true) (\<lambda>_.
     let r = \<lparr>re_receipt_id = i, re_proposal_id = pid, re_proposal_revision = rev, re_pipeline_id = pipe,
              re_config_sha256 = cfg, re_parent_active_revision = par, re_code_revision = code,
              ac_strategy_revision = srev, ac_index_id = idx, ac_index_schema_version = idxv,
              ac_previous_strategy_revision = prev, ac_rollback_strategy_revision = rb,
              ac_channel_counts = counts, ac_sentinel_count = n, ac_latency_ms = lat\<rparr>
     in if prev = par \<and> content_id c ''activation'' (JObj (activation_body r)) = Inr i then Some r else None
     ))))))))))))))))))))"

record validation_failure = receipt_binding +
  vf_error_code :: string

definition failure_body :: "validation_failure \<Rightarrow> dict" where
  "failure_body r =
     [(''active'', JBool False), (''code_revision'', JStr (re_code_revision r)),
      (''config_sha256'', JStr (re_config_sha256 r)), (''error_code'', JStr (vf_error_code r)),
      (''parent_active_revision'', opt_str (re_parent_active_revision r)), (''passed'', JBool False),
      (''pipeline_id'', JStr (re_pipeline_id r)), (''proposal_id'', JStr (re_proposal_id r)),
      (''proposal_revision'', JStr (re_proposal_revision r)),
      (''schema_version'', JStr ''retrieval-serving-validation-failure-v1''),
      (''strategy_id'', JStr SELECTED_STRATEGY_ID)]"

definition FAILURE_FIELDS :: "string list" where
  "FAILURE_FIELDS =
     [''active'', ''code_revision'', ''config_sha256'', ''error_code'', ''parent_active_revision'', ''passed'',
      ''pipeline_id'', ''proposal_id'', ''proposal_revision'', ''receipt_id'', ''schema_version'', ''strategy_id'']"

definition decode_validation_failure :: "codec \<Rightarrow> json \<Rightarrow> validation_failure option" where
  "decode_validation_failure c j =
     Option.bind (model_fields FAILURE_FIELDS j) (\<lambda>d.
     Option.bind (field_default d ''schema_version'' ''retrieval-serving-validation-failure-v1''
                    (dec_literal [''retrieval-serving-validation-failure-v1''])) (\<lambda>_.
     Option.bind (field d ''receipt_id'' (dec_pattern (prefixed_hex ''validation-failure-'' 12))) (\<lambda>i.
     Option.bind (field d ''proposal_id'' (dec_pattern (prefixed_hex ''retrieval-proposal-'' 12))) (\<lambda>pid.
     Option.bind (field d ''proposal_revision'' (dec_pattern (hex_exact 64))) (\<lambda>rev.
     Option.bind (field_default d ''strategy_id'' SELECTED_STRATEGY_ID (dec_literal [SELECTED_STRATEGY_ID])) (\<lambda>_.
     Option.bind (field d ''pipeline_id'' (dec_pattern (prefixed_hex ''pipeline-'' 12))) (\<lambda>pipe.
     Option.bind (field d ''config_sha256'' (dec_pattern (hex_exact 64))) (\<lambda>cfg.
     Option.bind (field_default d ''parent_active_revision'' None (dec_optional (dec_pattern (hex_exact 64)))) (\<lambda>par.
     Option.bind (field d ''code_revision'' (dec_pattern (hex_exact 40))) (\<lambda>code.
     Option.bind (field d ''error_code'' (dec_pattern SAFE_ERROR_PATTERN)) (\<lambda>err.
     Option.bind (field_default d ''passed'' False dec_false) (\<lambda>_.
     Option.bind (field_default d ''active'' False dec_false) (\<lambda>_.
     let r = \<lparr>re_receipt_id = i, re_proposal_id = pid, re_proposal_revision = rev, re_pipeline_id = pipe,
              re_config_sha256 = cfg, re_parent_active_revision = par, re_code_revision = code, vf_error_code = err\<rparr>
     in if content_id c ''validation-failure'' (JObj (failure_body r)) = Inr i then Some r else None)))))))))))))"

definition dump_validation_failure :: "validation_failure \<Rightarrow> dict" where
  "dump_validation_failure r = (''receipt_id'', JStr (re_receipt_id r)) # failure_body r"

record rollback_receipt =
  ro_receipt_id :: string
  ro_from_strategy_revision :: string
  ro_index_id :: string
  ro_index_schema_version :: string
  ro_mode :: string
  ro_strategy_id :: string
  ro_strategy_revision :: string

definition rollback_receipt_body :: "rollback_receipt \<Rightarrow> dict" where
  "rollback_receipt_body r =
     [(''from_strategy_revision'', JStr (ro_from_strategy_revision r)), (''index_id'', JStr (ro_index_id r)),
      (''index_schema_version'', JStr (ro_index_schema_version r)), (''mode'', JStr (ro_mode r)),
      (''schema_version'', JStr ''retrieval-serving-rollback-receipt-v1''),
      (''strategy_id'', JStr (ro_strategy_id r)), (''strategy_revision'', JStr (ro_strategy_revision r)),
      (''succeeded'', JBool True)]"

definition dump_rollback_receipt :: "rollback_receipt \<Rightarrow> dict" where
  "dump_rollback_receipt r = (''receipt_id'', JStr (ro_receipt_id r)) # rollback_receipt_body r"

definition ROLLBACK_RECEIPT_FIELDS :: "string list" where
  "ROLLBACK_RECEIPT_FIELDS =
     [''from_strategy_revision'', ''index_id'', ''index_schema_version'', ''mode'', ''receipt_id'', ''schema_version'',
      ''strategy_id'', ''strategy_revision'', ''succeeded'']"

text \<open>\<^verbatim>\<open>^[a-z][a-z0-9-]{0,127}$\<close>\<close>

definition index_name :: "string \<Rightarrow> bool" where
  "index_name = head_tail lower (\<lambda>ch. lower ch \<or> digit ch \<or> ch = CHR ''-'') 127"

definition decode_rollback_receipt :: "codec \<Rightarrow> json \<Rightarrow> rollback_receipt option" where
  "decode_rollback_receipt c j =
     Option.bind (model_fields ROLLBACK_RECEIPT_FIELDS j) (\<lambda>d.
     Option.bind (field_default d ''schema_version'' ''retrieval-serving-rollback-receipt-v1''
                    (dec_literal [''retrieval-serving-rollback-receipt-v1''])) (\<lambda>_.
     Option.bind (field d ''receipt_id'' (dec_pattern (prefixed_hex ''rollback-'' 12))) (\<lambda>i.
     Option.bind (field d ''from_strategy_revision'' (dec_pattern (hex_exact 64))) (\<lambda>fr.
     Option.bind (field d ''index_id'' (dec_pattern index_name)) (\<lambda>idx.
     Option.bind (field d ''index_schema_version'' (dec_pattern index_name)) (\<lambda>idxv.
     Option.bind (field d ''mode'' (dec_literal [''baseline'', ''v2''])) (\<lambda>m.
     Option.bind (field d ''strategy_id'' (dec_pattern index_name)) (\<lambda>strat.
     Option.bind (field d ''strategy_revision'' (dec_pattern (hex_exact 64))) (\<lambda>rev.
     Option.bind (field_default d ''succeeded'' True dec_true) (\<lambda>_.
     let r = \<lparr>ro_receipt_id = i, ro_from_strategy_revision = fr, ro_index_id = idx, ro_index_schema_version = idxv,
              ro_mode = m, ro_strategy_id = strat, ro_strategy_revision = rev\<rparr>
     in if fr \<noteq> rev \<and> content_id c ''rollback'' (JObj (rollback_receipt_body r)) = Inr i then Some r else None))))))))))"

subsection \<open>Outcomes and rollbacks\<close>

datatype outcome_lifecycle = Active | Validation_failed

fun outcome_lifecycle_value :: "outcome_lifecycle \<Rightarrow> string" where
  "outcome_lifecycle_value Active = ''active''"
| "outcome_lifecycle_value Validation_failed = ''validation_failed''"

record release_outcome =
  ou_outcome_id :: string
  ou_proposal_id :: string
  ou_proposal_revision :: string
  ou_decision_id :: string
  ou_lifecycle :: outcome_lifecycle
  ou_validation_receipt :: dict
  ou_validation_receipt_sha256 :: string
  ou_active_strategy_revision :: "string option"
  ou_pipeline_id :: string
  ou_config_sha256 :: string

definition outcome_body :: "release_outcome \<Rightarrow> dict" where
  "outcome_body x =
     [(''active_strategy_revision'', opt_str (ou_active_strategy_revision x)),
      (''config_sha256'', JStr (ou_config_sha256 x)), (''decision_id'', JStr (ou_decision_id x)),
      (''lifecycle'', JStr (outcome_lifecycle_value (ou_lifecycle x))), (''pipeline_id'', JStr (ou_pipeline_id x)),
      (''proposal_id'', JStr (ou_proposal_id x)), (''proposal_revision'', JStr (ou_proposal_revision x)),
      (''schema_version'', JStr ''retrieval-release-outcome-v1''), (''strategy_id'', JStr SELECTED_STRATEGY_ID),
      (''validation_receipt'', JObj (ou_validation_receipt x)),
      (''validation_receipt_sha256'', JStr (ou_validation_receipt_sha256 x))]"

definition release_outcome_ok :: "codec \<Rightarrow> release_outcome \<Rightarrow> bool" where
  "release_outcome_ok c x =
     (prefixed_hex ''retrieval-outcome-'' 12 (ou_outcome_id x) \<and>
      prefixed_hex ''retrieval-proposal-'' 12 (ou_proposal_id x) \<and> hex_exact 64 (ou_proposal_revision x) \<and>
      prefixed_hex ''retrieval-decision-'' 12 (ou_decision_id x) \<and> hex_exact 64 (ou_validation_receipt_sha256 x) \<and>
      opt_sha (ou_active_strategy_revision x) \<and> prefixed_hex ''pipeline-'' 12 (ou_pipeline_id x) \<and>
      hex_exact 64 (ou_config_sha256 x) \<and> json_ok (JObj (ou_validation_receipt x)) \<and>
      sha256_payload c (JObj (ou_validation_receipt x)) = Inr (ou_validation_receipt_sha256 x) \<and>
      (ou_lifecycle x = Active) = (ou_active_strategy_revision x \<noteq> None) \<and>
      content_id c ''retrieval-outcome'' (JObj (outcome_body x)) = Inr (ou_outcome_id x))"

record outcome_intent =
  oi_proposal_id :: string
  oi_proposal_revision :: string
  oi_outcome_id :: string
  oi_lifecycle :: outcome_lifecycle
  oi_validation_receipt_sha256 :: string
  oi_active_strategy_revision :: "string option"

record release_rollback =
  rb_rollback_id :: string
  rb_proposal_id :: string
  rb_proposal_revision :: string
  rb_outcome_id :: string
  rb_from_strategy_revision :: string
  rb_target_strategy_revision :: string
  rb_rollback_receipt :: dict
  rb_rollback_receipt_sha256 :: string

definition rollback_body :: "release_rollback \<Rightarrow> dict" where
  "rollback_body x =
     [(''from_strategy_revision'', JStr (rb_from_strategy_revision x)), (''lifecycle'', JStr ''rolled_back''),
      (''outcome_id'', JStr (rb_outcome_id x)), (''proposal_id'', JStr (rb_proposal_id x)),
      (''proposal_revision'', JStr (rb_proposal_revision x)), (''rollback_receipt'', JObj (rb_rollback_receipt x)),
      (''rollback_receipt_sha256'', JStr (rb_rollback_receipt_sha256 x)),
      (''schema_version'', JStr ''retrieval-release-rollback-v1''),
      (''target_strategy_revision'', JStr (rb_target_strategy_revision x))]"

definition release_rollback_ok :: "codec \<Rightarrow> release_rollback \<Rightarrow> bool" where
  "release_rollback_ok c x =
     (prefixed_hex ''retrieval-rollback-'' 12 (rb_rollback_id x) \<and>
      prefixed_hex ''retrieval-proposal-'' 12 (rb_proposal_id x) \<and> hex_exact 64 (rb_proposal_revision x) \<and>
      prefixed_hex ''retrieval-outcome-'' 12 (rb_outcome_id x) \<and> hex_exact 64 (rb_from_strategy_revision x) \<and>
      hex_exact 64 (rb_target_strategy_revision x) \<and> hex_exact 64 (rb_rollback_receipt_sha256 x) \<and>
      json_ok (JObj (rb_rollback_receipt x)) \<and>
      sha256_payload c (JObj (rb_rollback_receipt x)) = Inr (rb_rollback_receipt_sha256 x) \<and>
      (case decode_rollback_receipt c (JObj (rb_rollback_receipt x)) of
         None \<Rightarrow> False
       | Some r \<Rightarrow> ro_from_strategy_revision r = rb_from_strategy_revision x \<and>
                   ro_strategy_revision r = rb_target_strategy_revision x) \<and>
      rb_from_strategy_revision x \<noteq> rb_target_strategy_revision x \<and>
      content_id c ''retrieval-rollback'' (JObj (rollback_body x)) = Inr (rb_rollback_id x))"

record rollback_intent =
  ri_proposal_id :: string
  ri_proposal_revision :: string
  ri_rollback_id :: string
  ri_from_strategy_revision :: string
  ri_target_strategy_revision :: string
  ri_rollback_receipt_sha256 :: string

lemma validated_Inr [simp]: "validated ok x = Inr y \<longleftrightarrow> ok \<and> y = x"
  by (auto simp: validated_def)

lemma recast_error_Inr_iff [simp]: "recast_error code m = Inr x \<longleftrightarrow> m = Inr x"
  by (cases m) (auto simp: recast_error_def)

lemma lift_exn_Inr [simp]: "lift_exn m = Inr x \<longleftrightarrow> m = Inr x"
  by (cases m) (auto simp: lift_exn_def)

lemma de_lifecycle_approved [simp]: "de_lifecycle d = ''approved_for_validation'' \<longleftrightarrow> de_decision d = Approve"
  by (cases "de_decision d") (simp_all add: de_lifecycle_def decision_lifecycle_def)

end
