(* ===== verification/ReleaseStore.thy ===== *)
theory ReleaseStore
  imports ReleaseContracts
begin

text \<open>
  The artifact directories of the release control plane
  (\<^verbatim>\<open>src/search_quality/agent/retrieval_release_control.py\<close>) and \<^verbatim>\<open>write_immutable_json\<close> of
  \<^verbatim>\<open>src/search_quality/evaluation/artifacts.py\<close>. A directory is a map from file stems to the models
  its files hold; a file that no code path writes (foreign, unparsable, a symbolic link) is not
  represented, a stored model that fails its validators is. \<open>rs_active\<close> is what reading the serving
  pointer gives.

  An operation reads first and then publishes a list of files, so it is described by its plan: the
  value it returns and the \<open>release_write\<close>s in order. \<open>perform\<close> publishes them one by one and stops at the
  first collision; a process that dies has published a prefix.
\<close>

record release_store =
  rs_proposals :: "string \<Rightarrow> release_proposal option"
  rs_proposal_intents :: "string \<Rightarrow> proposal_intent option"
  rs_decision_intents :: "string \<Rightarrow> decision_intent option"
  rs_decisions :: "string \<Rightarrow> release_decision option"
  rs_decision_of_proposal :: "string \<Rightarrow> release_decision option"
  rs_decision_of_action :: "string \<Rightarrow> release_decision option"
  rs_outcome_intents :: "string \<Rightarrow> outcome_intent option"
  rs_outcomes :: "string \<Rightarrow> release_outcome option"
  rs_outcome_of_proposal :: "string \<Rightarrow> release_outcome option"
  rs_rollback_intents :: "string \<Rightarrow> rollback_intent option"
  rs_rollbacks :: "string \<Rightarrow> release_rollback option"
  rs_rollback_of_proposal :: "string \<Rightarrow> release_rollback option"
  rs_active :: "release_exn + string option"

subsection \<open>Publishing\<close>

definition write_immutable :: "(string \<Rightarrow> 'a option) \<Rightarrow> string \<Rightarrow> 'a \<Rightarrow> release_exn + (string \<Rightarrow> 'a option)" where
  "write_immutable files path payload =
     (case files path of
        None \<Rightarrow> Inr (files(path \<mapsto> payload))
      | Some stored \<Rightarrow> if stored = payload then Inr files else Inl (Python RuntimeError))"

text \<open>The pointer of a client action is named by the digest of its identifier.\<close>

definition action_file :: "codec \<Rightarrow> string \<Rightarrow> string" where
  "action_file c client_action_id = cd_sha c client_action_id"

datatype release_write =
    W_proposal_intent proposal_intent
  | W_proposal release_proposal
  | W_decision_intent decision_intent
  | W_decision release_decision
  | W_decision_of_proposal release_decision
  | W_decision_of_action release_decision
  | W_outcome_intent outcome_intent
  | W_outcome release_outcome
  | W_outcome_of_proposal release_outcome
  | W_rollback_intent rollback_intent
  | W_rollback release_rollback
  | W_rollback_of_proposal release_rollback

fun apply_write :: "codec \<Rightarrow> release_write \<Rightarrow> release_store \<Rightarrow> release_exn + release_store" where
  "apply_write c (W_proposal_intent i) s =
     ebind (write_immutable (rs_proposal_intents s) (pi_trace_id i) i) (\<lambda>m. Inr (s\<lparr>rs_proposal_intents := m\<rparr>))"
| "apply_write c (W_proposal p) s =
     ebind (write_immutable (rs_proposals s) (po_proposal_id p) p) (\<lambda>m. Inr (s\<lparr>rs_proposals := m\<rparr>))"
| "apply_write c (W_decision_intent i) s =
     ebind (write_immutable (rs_decision_intents s) (di_proposal_id i) i) (\<lambda>m. Inr (s\<lparr>rs_decision_intents := m\<rparr>))"
| "apply_write c (W_decision d) s =
     ebind (write_immutable (rs_decisions s) (de_decision_id d) d) (\<lambda>m. Inr (s\<lparr>rs_decisions := m\<rparr>))"
| "apply_write c (W_decision_of_proposal d) s =
     ebind (write_immutable (rs_decision_of_proposal s) (de_proposal_id d) d) (\<lambda>m.
     Inr (s\<lparr>rs_decision_of_proposal := m\<rparr>))"
| "apply_write c (W_decision_of_action d) s =
     ebind (write_immutable (rs_decision_of_action s) (action_file c (de_client_action_id d)) d) (\<lambda>m.
     Inr (s\<lparr>rs_decision_of_action := m\<rparr>))"
| "apply_write c (W_outcome_intent i) s =
     ebind (write_immutable (rs_outcome_intents s) (oi_proposal_id i) i) (\<lambda>m. Inr (s\<lparr>rs_outcome_intents := m\<rparr>))"
| "apply_write c (W_outcome x) s =
     ebind (write_immutable (rs_outcomes s) (ou_outcome_id x) x) (\<lambda>m. Inr (s\<lparr>rs_outcomes := m\<rparr>))"
| "apply_write c (W_outcome_of_proposal x) s =
     ebind (write_immutable (rs_outcome_of_proposal s) (ou_proposal_id x) x) (\<lambda>m.
     Inr (s\<lparr>rs_outcome_of_proposal := m\<rparr>))"
| "apply_write c (W_rollback_intent i) s =
     ebind (write_immutable (rs_rollback_intents s) (ri_proposal_id i) i) (\<lambda>m. Inr (s\<lparr>rs_rollback_intents := m\<rparr>))"
| "apply_write c (W_rollback x) s =
     ebind (write_immutable (rs_rollbacks s) (rb_rollback_id x) x) (\<lambda>m. Inr (s\<lparr>rs_rollbacks := m\<rparr>))"
| "apply_write c (W_rollback_of_proposal x) s =
     ebind (write_immutable (rs_rollback_of_proposal s) (rb_proposal_id x) x) (\<lambda>m.
     Inr (s\<lparr>rs_rollback_of_proposal := m\<rparr>))"

text \<open>The store after a sequence of writes and the exception that stopped it, if any.\<close>

fun perform :: "codec \<Rightarrow> release_write list \<Rightarrow> release_store \<Rightarrow> release_exn option \<times> release_store" where
  "perform c [] s = (None, s)"
| "perform c (w # ws) s =
     (case apply_write c w s of Inl e \<Rightarrow> (Some e, s) | Inr s' \<Rightarrow> perform c ws s')"

definition run_plan ::
    "codec \<Rightarrow> (release_store \<Rightarrow> release_exn + 'a \<times> release_write list) \<Rightarrow> release_store \<Rightarrow>
     (release_exn + 'a) \<times> release_store" where
  "run_plan c plan s =
     (case plan s of
        Inl e \<Rightarrow> (Inl e, s)
      | Inr (x, ws) \<Rightarrow> (case perform c ws s of (None, s') \<Rightarrow> (Inr x, s') | (Some e, s') \<Rightarrow> (Inl e, s')))"

subsection \<open>Reading\<close>

definition load_active_revision :: "release_store \<Rightarrow> release_exn + string option" where
  "load_active_revision s =
     ebind (recast_error ''active_revision_invalid'' (rs_active s)) (\<lambda>r.
     ebind (require (opt_sha r) (Release ''active_revision_invalid'')) (\<lambda>_. Inr r))"

definition load_proposal :: "codec \<Rightarrow> release_store \<Rightarrow> string \<Rightarrow> release_exn + release_proposal" where
  "load_proposal c s proposal_id =
     ebind (require (prefixed_hex ''retrieval-proposal-'' 12 proposal_id) (Release ''invalid_proposal_id'')) (\<lambda>_.
     ebind (of_option (Release ''artifact_unavailable'') (rs_proposals s proposal_id)) (\<lambda>p.
     ebind (recast_error ''proposal_artifact_invalid'' (validated (proposal_ok c p) p)) (\<lambda>p.
     ebind (require (po_proposal_id p = proposal_id) (Release ''proposal_artifact_invalid'')) (\<lambda>_.
     Inr p))))"

definition load_existing_decision :: "codec \<Rightarrow> release_store \<Rightarrow> string \<Rightarrow> release_exn + release_decision option" where
  "load_existing_decision c s proposal_id =
     (case rs_decision_of_proposal s proposal_id of
        None \<Rightarrow> Inr None
      | Some stored \<Rightarrow>
          ebind (recast_error ''decision_artifact_invalid'' (validated (release_decision_ok c stored) stored)) (\<lambda>d.
          ebind (require (de_proposal_id d = proposal_id) (Release ''decision_artifact_invalid'')) (\<lambda>_.
          ebind (of_option (Release ''artifact_unavailable'') (rs_decisions s (de_decision_id d))) (\<lambda>im.
          ebind (validated (release_decision_ok c im) im) (\<lambda>im.
          ebind (require (im = d) (Release ''decision_artifact_invalid'')) (\<lambda>_. Inr (Some d)))))))"

definition load_client_action_decision :: "codec \<Rightarrow> release_store \<Rightarrow> string \<Rightarrow> release_exn + release_decision option" where
  "load_client_action_decision c s client_action_id =
     (case rs_decision_of_action s (action_file c client_action_id) of
        None \<Rightarrow> Inr None
      | Some stored \<Rightarrow>
          ebind (recast_error ''decision_artifact_invalid'' (validated (release_decision_ok c stored) stored)) (\<lambda>d.
          Inr (Some d)))"

definition load_existing_outcome :: "codec \<Rightarrow> release_store \<Rightarrow> string \<Rightarrow> release_exn + release_outcome option" where
  "load_existing_outcome c s proposal_id =
     (case rs_outcome_of_proposal s proposal_id of
        None \<Rightarrow> Inr None
      | Some stored \<Rightarrow>
          ebind (recast_error ''outcome_artifact_invalid''
                   (ebind (validated (release_outcome_ok c stored) stored) (\<lambda>x.
                    ebind (of_option (Release ''artifact_unavailable'') (rs_outcomes s (ou_outcome_id x))) (\<lambda>im.
                    ebind (validated (release_outcome_ok c im) im) (\<lambda>im. Inr (x, im)))))) (\<lambda>(x, im).
          ebind (require (ou_proposal_id x = proposal_id \<and> im = x) (Release ''outcome_artifact_invalid'')) (\<lambda>_.
          Inr (Some x))))"

definition load_existing_rollback :: "codec \<Rightarrow> release_store \<Rightarrow> string \<Rightarrow> release_exn + release_rollback option" where
  "load_existing_rollback c s proposal_id =
     (case rs_rollback_of_proposal s proposal_id of
        None \<Rightarrow> Inr None
      | Some stored \<Rightarrow>
          ebind (recast_error ''rollback_artifact_invalid''
                   (ebind (validated (release_rollback_ok c stored) stored) (\<lambda>x.
                    ebind (of_option (Release ''artifact_unavailable'') (rs_rollbacks s (rb_rollback_id x))) (\<lambda>im.
                    ebind (validated (release_rollback_ok c im) im) (\<lambda>im. Inr (x, im)))))) (\<lambda>(x, im).
          ebind (require (rb_proposal_id x = proposal_id \<and> im = x) (Release ''rollback_artifact_invalid'')) (\<lambda>_.
          Inr (Some x))))"

subsection \<open>Published files never change\<close>

definition extends :: "release_store \<Rightarrow> release_store \<Rightarrow> bool" where
  "extends s s' =
     (rs_proposals s \<subseteq>\<^sub>m rs_proposals s' \<and> rs_proposal_intents s \<subseteq>\<^sub>m rs_proposal_intents s' \<and>
      rs_decision_intents s \<subseteq>\<^sub>m rs_decision_intents s' \<and> rs_decisions s \<subseteq>\<^sub>m rs_decisions s' \<and>
      rs_decision_of_proposal s \<subseteq>\<^sub>m rs_decision_of_proposal s' \<and>
      rs_decision_of_action s \<subseteq>\<^sub>m rs_decision_of_action s' \<and>
      rs_outcome_intents s \<subseteq>\<^sub>m rs_outcome_intents s' \<and> rs_outcomes s \<subseteq>\<^sub>m rs_outcomes s' \<and>
      rs_outcome_of_proposal s \<subseteq>\<^sub>m rs_outcome_of_proposal s' \<and>
      rs_rollback_intents s \<subseteq>\<^sub>m rs_rollback_intents s' \<and> rs_rollbacks s \<subseteq>\<^sub>m rs_rollbacks s' \<and>
      rs_rollback_of_proposal s \<subseteq>\<^sub>m rs_rollback_of_proposal s')"

lemma extends_refl [simp]: "extends s s"
  by (simp add: extends_def)

lemma extends_trans: "extends s t \<Longrightarrow> extends t u \<Longrightarrow> extends s u"
  unfolding extends_def by (blast intro: map_le_trans)

lemma write_immutable_extends: "write_immutable m k v = Inr m' \<Longrightarrow> m \<subseteq>\<^sub>m m' \<and> m' k = Some v"
  by (auto simp: write_immutable_def map_le_def split: option.splits if_splits)

lemma write_immutable_other: "write_immutable m k v = Inr m' \<Longrightarrow> k' \<noteq> k \<Longrightarrow> m' k' = m k'"
  by (auto simp: write_immutable_def split: option.splits if_splits)

lemma write_immutable_cases:
  "write_immutable m k v = Inr m' \<Longrightarrow> m' k' = Some x \<Longrightarrow> m k' = Some x \<or> k' = k \<and> x = v"
  by (auto simp: write_immutable_def split: option.splits if_splits)

lemma apply_write_extends: "apply_write c w s = Inr s' \<Longrightarrow> extends s s' \<and> rs_active s' = rs_active s"
  by (cases w) (auto simp: extends_def dest!: write_immutable_extends)

lemma perform_extends: "perform c ws s = (e, s') \<Longrightarrow> extends s s' \<and> rs_active s' = rs_active s"
proof (induction ws arbitrary: s)
  case (Cons w ws)
  then show ?case
    by (auto split: sum.splits dest!: apply_write_extends intro: extends_trans)
qed simp

end
