(* ===== verification/ReleaseControl.thy ===== *)
theory ReleaseControl
  imports ReleaseStore
begin

text \<open>
  The operations of \<^verbatim>\<open>src/search_quality/agent/retrieval_release_control.py\<close> on the artifact store. Each
  operation that publishes is a plan (\<open>ReleaseStore\<close>): its checks in source order, then the files it
  writes. The file lock makes operations exclusive; the directory checks and logging are not modelled.
  What an operation learns from outside the store is an argument: the validated analysis, the clean
  code revision (\<open>Inl RuntimeError\<close> stands for the \<^verbatim>\<open>OSError\<close> and \<^verbatim>\<open>RuntimeError\<close> that the code catches)
  and the result of re-validating a proposal's evidence.
\<close>

subsection \<open>Proposals\<close>

record validated_analysis =
  va_code_revision :: string
  va_selected_pipeline :: selected_pipeline
  va_evidence :: evidence_refs
  va_release_gate :: gate_summary
  va_trace_terminal_reason_code :: string

definition build_proposal :: "codec \<Rightarrow> validated_analysis \<Rightarrow> string option \<Rightarrow> release_exn + release_proposal" where
  "build_proposal c va parent =
     (let draft = \<lparr>po_proposal_id = [], po_proposal_revision = [],
                   po_trace_terminal_reason_code = va_trace_terminal_reason_code va,
                   po_code_revision = va_code_revision va, po_parent_active_revision = parent,
                   po_selected_pipeline = va_selected_pipeline va, po_evidence = va_evidence va,
                   po_release_gate = va_release_gate va\<rparr> in
      ebind (sha256_payload c (JObj (proposal_body draft))) (\<lambda>revision.
      let p = draft\<lparr>po_proposal_id := ''retrieval-proposal-'' @ take 12 revision, po_proposal_revision := revision\<rparr> in
      validated (proposal_ok c p) p))"

definition proposal_intent_ok :: "proposal_intent \<Rightarrow> bool" where
  "proposal_intent_ok i =
     (hex_exact 32 (pi_trace_id i) \<and> prefixed_hex ''retrieval-proposal-'' 12 (pi_proposal_id i) \<and>
      hex_exact 64 (pi_proposal_revision i) \<and> opt_sha (pi_parent_active_revision i) \<and>
      hex_exact 40 (pi_code_revision i) \<and> hex_exact 64 (pi_config_sha256 i) \<and>
      prefixed_hex ''retrieval-'' 12 (pi_baseline_run_id i) \<and> prefixed_hex ''retrieval-'' 12 (pi_candidate_run_id i) \<and>
      prefixed_hex ''retrieval-comparison-'' 12 (pi_comparison_id i))"

definition validate_intent_matches_analysis :: "proposal_intent \<Rightarrow> validated_analysis \<Rightarrow> release_exn + unit" where
  "validate_intent_matches_analysis i va =
     require (pi_trace_id i = ev_trace_id (va_evidence va) \<and> pi_code_revision i = va_code_revision va \<and>
              pi_config_sha256 i = sl_config_sha256 (va_selected_pipeline va) \<and>
              pi_baseline_run_id i = ev_baseline_run_id (va_evidence va) \<and>
              pi_candidate_run_id i = ev_candidate_run_id (va_evidence va) \<and>
              pi_comparison_id i = ev_comparison_id (va_evidence va)) (Release ''proposal_intent_mismatch'')"

definition intent_of_proposal :: "validated_analysis \<Rightarrow> release_proposal \<Rightarrow> proposal_intent" where
  "intent_of_proposal va p =
     \<lparr>pi_trace_id = ev_trace_id (va_evidence va), pi_proposal_id = po_proposal_id p,
      pi_proposal_revision = po_proposal_revision p, pi_parent_active_revision = po_parent_active_revision p,
      pi_code_revision = po_code_revision p, pi_config_sha256 = sl_config_sha256 (po_selected_pipeline p),
      pi_baseline_run_id = ev_baseline_run_id (po_evidence p),
      pi_candidate_run_id = ev_candidate_run_id (po_evidence p), pi_comparison_id = ev_comparison_id (po_evidence p)\<rparr>"

definition create_or_load_proposal ::
    "codec \<Rightarrow> release_exn + validated_analysis \<Rightarrow> release_store \<Rightarrow> release_exn + release_proposal \<times> release_write list" where
  "create_or_load_proposal c analysis s =
     ebind analysis (\<lambda>va.
     case rs_proposal_intents s (ev_trace_id (va_evidence va)) of
       Some stored \<Rightarrow>
         ebind (validated (proposal_intent_ok stored) stored) (\<lambda>intent.
         ebind (validate_intent_matches_analysis intent va) (\<lambda>_.
         ebind (build_proposal c va (pi_parent_active_revision intent)) (\<lambda>p.
         ebind (require (po_proposal_id p = pi_proposal_id intent \<and> po_proposal_revision p = pi_proposal_revision intent)
                  (Release ''proposal_intent_mismatch'')) (\<lambda>_.
         Inr (p, [W_proposal p])))))
     | None \<Rightarrow>
         ebind (load_active_revision s) (\<lambda>parent.
         ebind (build_proposal c va parent) (\<lambda>p.
         ebind (validated (proposal_intent_ok (intent_of_proposal va p)) (intent_of_proposal va p)) (\<lambda>intent.
         Inr (p, [W_proposal_intent intent, W_proposal p])))))"

subsection \<open>Owner decisions\<close>

definition validate_decision_request :: "string \<Rightarrow> string \<Rightarrow> string \<Rightarrow> string \<Rightarrow> string \<Rightarrow> release_exn + owner_decision" where
  "validate_decision_request proposal_id proposal_revision decision client_action_id actor_id =
     ebind (require (prefixed_hex ''retrieval-proposal-'' 12 proposal_id) (Release ''invalid_proposal_id'')) (\<lambda>_.
     ebind (require (hex_exact 64 proposal_revision) (Release ''invalid_proposal_revision'')) (\<lambda>_.
     ebind (require (decision \<in> {''approve'', ''reject''}) (Release ''invalid_decision'')) (\<lambda>_.
     ebind (require (SAFE_ACTION_PATTERN client_action_id) (Release ''invalid_client_action_id'')) (\<lambda>_.
     ebind (require (SAFE_ACTOR_PATTERN actor_id) (Release ''invalid_actor_id'')) (\<lambda>_.
     Inr (if decision = ''approve'' then Approve else Reject))))))"

definition build_decision ::
    "codec \<Rightarrow> release_proposal \<Rightarrow> owner_decision \<Rightarrow> string \<Rightarrow> string \<Rightarrow> release_exn + release_decision" where
  "build_decision c p decision client_action_id actor_id =
     (let draft = \<lparr>de_decision_id = [], de_proposal_id = po_proposal_id p, de_proposal_revision = po_proposal_revision p,
                   de_decision = decision, de_client_action_id = client_action_id, de_actor_id = actor_id,
                   de_pipeline_id = sl_pipeline_id (po_selected_pipeline p),
                   de_config_sha256 = sl_config_sha256 (po_selected_pipeline p),
                   de_parent_active_revision = po_parent_active_revision p\<rparr> in
      ebind (content_id c ''retrieval-decision'' (JObj (decision_body draft))) (\<lambda>i.
      let d = draft\<lparr>de_decision_id := i\<rparr> in validated (release_decision_ok c d) d))"

definition decision_intent_ok :: "decision_intent \<Rightarrow> bool" where
  "decision_intent_ok i =
     (prefixed_hex ''retrieval-proposal-'' 12 (di_proposal_id i) \<and> hex_exact 64 (di_proposal_revision i) \<and>
      SAFE_ACTION_PATTERN (di_client_action_id i) \<and> SAFE_ACTOR_PATTERN (di_actor_id i) \<and>
      prefixed_hex ''retrieval-decision-'' 12 (di_decision_id i))"

definition intent_of_decision :: "release_decision \<Rightarrow> decision_intent" where
  "intent_of_decision d =
     \<lparr>di_proposal_id = de_proposal_id d, di_proposal_revision = de_proposal_revision d, di_decision = de_decision d,
      di_client_action_id = de_client_action_id d, di_actor_id = de_actor_id d, di_decision_id = de_decision_id d\<rparr>"

text \<open>\<^verbatim>\<open>_prepare_*_intent\<close>: an identical intent is kept, a different one refused, otherwise it is written.\<close>

definition prepare_intent :: "string \<Rightarrow> ('i \<Rightarrow> bool) \<Rightarrow> 'i option \<Rightarrow> 'i \<Rightarrow> release_write \<Rightarrow> release_exn + release_write list" where
  "prepare_intent code ok stored intent write =
     (case stored of
        None \<Rightarrow> Inr [write]
      | Some old \<Rightarrow>
          ebind (validated (ok old) old) (\<lambda>existing.
          ebind (require (existing = intent) (Release code)) (\<lambda>_. Inr [])))"

definition complete_decision_publication :: "release_decision \<Rightarrow> release_write list" where
  "complete_decision_publication d = [W_decision d, W_decision_of_proposal d, W_decision_of_action d]"

definition validate_approval ::
    "(release_proposal \<Rightarrow> release_exn + unit) \<Rightarrow> exn + string \<Rightarrow> release_store \<Rightarrow> release_proposal \<Rightarrow> release_exn + unit" where
  "validate_approval evidence revision s p =
     ebind (load_active_revision s) (\<lambda>current.
     ebind (require (current = po_parent_active_revision p) (Release ''parent_active_revision_conflict'')) (\<lambda>_.
     ebind (case revision of
              Inl RuntimeError \<Rightarrow> Inl (Release ''code_revision_unavailable'')
            | Inl e \<Rightarrow> Inl (Python e)
            | Inr r \<Rightarrow> Inr r) (\<lambda>r.
     ebind (require (r = po_code_revision p) (Release ''code_revision_mismatch'')) (\<lambda>_.
     ebind (evidence p) (\<lambda>_.
     ebind (load_active_revision s) (\<lambda>again.
     require (again = po_parent_active_revision p) (Release ''parent_active_revision_conflict'')))))))"

record decision_request =
  dr_proposal_id :: string
  dr_proposal_revision :: string
  dr_decision :: string
  dr_client_action_id :: string
  dr_actor_id :: string

definition apply_release_decision ::
    "codec \<Rightarrow> (release_proposal \<Rightarrow> release_exn + unit) \<Rightarrow> exn + string \<Rightarrow> decision_request \<Rightarrow> release_store \<Rightarrow>
     release_exn + release_decision \<times> release_write list" where
  "apply_release_decision c evidence revision q s =
     ebind (validate_decision_request (dr_proposal_id q) (dr_proposal_revision q) (dr_decision q)
              (dr_client_action_id q) (dr_actor_id q)) (\<lambda>decision.
     ebind (load_proposal c s (dr_proposal_id q)) (\<lambda>p.
     ebind (require (po_proposal_revision p = dr_proposal_revision q) (Release ''proposal_revision_conflict'')) (\<lambda>_.
     ebind (build_decision c p decision (dr_client_action_id q) (dr_actor_id q)) (\<lambda>candidate.
     ebind (load_existing_decision c s (dr_proposal_id q)) (\<lambda>existing.
     ebind (load_client_action_decision c s (dr_client_action_id q)) (\<lambda>action_existing.
     ebind (require (\<forall>stored \<in> set_option existing \<union> set_option action_existing. stored = candidate)
              (Release ''decision_idempotency_conflict'')) (\<lambda>_.
     if existing \<noteq> None \<or> action_existing \<noteq> None then
       Inr (candidate,
            if existing = None \<or> action_existing = None then complete_decision_publication candidate else [])
     else
       ebind (if decision = Approve then validate_approval evidence revision s p else Inr ()) (\<lambda>_.
       ebind (prepare_intent ''decision_idempotency_conflict'' decision_intent_ok
                (rs_decision_intents s (po_proposal_id p)) (intent_of_decision candidate)
                (W_decision_intent (intent_of_decision candidate))) (\<lambda>ws.
       Inr (candidate, ws @ complete_decision_publication candidate))))))))))"

subsection \<open>Validation outcomes\<close>

definition binding_matches :: "('a) receipt_binding_scheme \<Rightarrow> release_proposal \<Rightarrow> bool" where
  "binding_matches r p =
     (re_proposal_id r = po_proposal_id p \<and> re_proposal_revision r = po_proposal_revision p \<and>
      re_pipeline_id r = sl_pipeline_id (po_selected_pipeline p) \<and>
      re_config_sha256 r = sl_config_sha256 (po_selected_pipeline p) \<and>
      re_code_revision r = po_code_revision p \<and> re_parent_active_revision r = po_parent_active_revision p)"

definition validate_validation_receipt ::
    "codec \<Rightarrow> release_proposal \<Rightarrow> dict \<Rightarrow> outcome_lifecycle \<Rightarrow> string option \<Rightarrow> release_store \<Rightarrow> release_exn + unit" where
  "validate_validation_receipt c p receipt outcome active_revision s =
     recast_error ''validation_receipt_invalid''
       (if outcome = Active then
          ebind (of_option (Python ValueError) (decode_activation_receipt c (JObj receipt))) (\<lambda>r.
          ebind (require (active_revision = Some (ac_strategy_revision r)) (Python ValueError)) (\<lambda>_.
          ebind (load_active_revision s) (\<lambda>pointer.
          ebind (require (pointer = Some (ac_strategy_revision r)) (Python ValueError)) (\<lambda>_.
          ebind (require (re_parent_active_revision r = po_parent_active_revision p) (Python ValueError)) (\<lambda>_.
          require (binding_matches r p) (Python ValueError))))))
        else
          ebind (of_option (Python ValueError) (decode_validation_failure c (JObj receipt))) (\<lambda>r.
          ebind (require (active_revision = None) (Python ValueError)) (\<lambda>_.
          require (binding_matches r p) (Python ValueError))))"

definition build_outcome ::
    "codec \<Rightarrow> release_proposal \<Rightarrow> release_decision \<Rightarrow> outcome_lifecycle \<Rightarrow> dict \<Rightarrow> string option \<Rightarrow>
     release_exn + release_outcome" where
  "build_outcome c p d outcome receipt active_revision =
     ebind (sha256_payload c (JObj receipt)) (\<lambda>h.
     let draft = \<lparr>ou_outcome_id = [], ou_proposal_id = po_proposal_id p, ou_proposal_revision = po_proposal_revision p,
                  ou_decision_id = de_decision_id d, ou_lifecycle = outcome, ou_validation_receipt = receipt,
                  ou_validation_receipt_sha256 = h, ou_active_strategy_revision = active_revision,
                  ou_pipeline_id = sl_pipeline_id (po_selected_pipeline p),
                  ou_config_sha256 = sl_config_sha256 (po_selected_pipeline p)\<rparr> in
     ebind (content_id c ''retrieval-outcome'' (JObj (outcome_body draft))) (\<lambda>i.
     let x = draft\<lparr>ou_outcome_id := i\<rparr> in validated (release_outcome_ok c x) x))"

definition outcome_intent_ok :: "outcome_intent \<Rightarrow> bool" where
  "outcome_intent_ok i =
     (prefixed_hex ''retrieval-proposal-'' 12 (oi_proposal_id i) \<and> hex_exact 64 (oi_proposal_revision i) \<and>
      prefixed_hex ''retrieval-outcome-'' 12 (oi_outcome_id i) \<and> hex_exact 64 (oi_validation_receipt_sha256 i) \<and>
      opt_sha (oi_active_strategy_revision i))"

definition intent_of_outcome :: "release_outcome \<Rightarrow> outcome_intent" where
  "intent_of_outcome x =
     \<lparr>oi_proposal_id = ou_proposal_id x, oi_proposal_revision = ou_proposal_revision x,
      oi_outcome_id = ou_outcome_id x, oi_lifecycle = ou_lifecycle x,
      oi_validation_receipt_sha256 = ou_validation_receipt_sha256 x,
      oi_active_strategy_revision = ou_active_strategy_revision x\<rparr>"

definition complete_outcome_publication :: "release_outcome \<Rightarrow> release_write list" where
  "complete_outcome_publication x = [W_outcome x, W_outcome_of_proposal x]"

record outcome_request =
  or_proposal_id :: string
  or_proposal_revision :: string
  or_outcome :: string
  or_validation_receipt :: dict
  or_active_strategy_revision :: "string option"

definition outcome_of_request :: "string \<Rightarrow> outcome_lifecycle option" where
  "outcome_of_request x =
     (if x = ''active'' then Some Active else if x = ''validation_failed'' then Some Validation_failed else None)"

definition record_release_outcome ::
    "codec \<Rightarrow> outcome_request \<Rightarrow> release_store \<Rightarrow> release_exn + release_outcome \<times> release_write list" where
  "record_release_outcome c q s =
     ebind (require (prefixed_hex ''retrieval-proposal-'' 12 (or_proposal_id q)) (Release ''invalid_proposal_id'')) (\<lambda>_.
     ebind (require (hex_exact 64 (or_proposal_revision q)) (Release ''invalid_proposal_revision'')) (\<lambda>_.
     ebind (of_option (Release ''invalid_outcome'') (outcome_of_request (or_outcome q))) (\<lambda>outcome.
     ebind (load_proposal c s (or_proposal_id q)) (\<lambda>p.
     ebind (require (po_proposal_revision p = or_proposal_revision q) (Release ''proposal_revision_conflict'')) (\<lambda>_.
     ebind (load_existing_decision c s (or_proposal_id q)) (\<lambda>decision.
     case decision of
       None \<Rightarrow> Inl (Release ''release_not_approved'')
     | Some d \<Rightarrow>
         ebind (require (de_lifecycle d = ''approved_for_validation'') (Release ''release_not_approved'')) (\<lambda>_.
         ebind (lift_exn (ensure_json_value (JObj (or_validation_receipt q)))) (\<lambda>_.
         ebind (validate_validation_receipt c p (or_validation_receipt q) outcome (or_active_strategy_revision q) s) (\<lambda>_.
         ebind (build_outcome c p d outcome (or_validation_receipt q) (or_active_strategy_revision q)) (\<lambda>x.
         ebind (load_existing_outcome c s (or_proposal_id q)) (\<lambda>existing.
         case existing of
           Some old \<Rightarrow> ebind (require (old = x) (Release ''outcome_idempotency_conflict'')) (\<lambda>_. Inr (old, []))
         | None \<Rightarrow>
             ebind (prepare_intent ''outcome_idempotency_conflict'' outcome_intent_ok
                      (rs_outcome_intents s (ou_proposal_id x)) (intent_of_outcome x)
                      (W_outcome_intent (intent_of_outcome x))) (\<lambda>ws.
             Inr (x, ws @ complete_outcome_publication x)))))))))))))"

subsection \<open>Rollbacks\<close>

definition validate_rollback_receipt ::
    "codec \<Rightarrow> release_proposal \<Rightarrow> release_outcome \<Rightarrow> dict \<Rightarrow> release_exn + rollback_receipt" where
  "validate_rollback_receipt c p x receipt =
     recast_error ''rollback_receipt_invalid''
       (ebind (of_option (Python ValueError) (decode_rollback_receipt c (JObj receipt))) (\<lambda>r.
        ebind (require (Some (ro_from_strategy_revision r) = ou_active_strategy_revision x \<and>
                        ou_proposal_id x = po_proposal_id p \<and> ou_proposal_revision x = po_proposal_revision p \<and>
                        ou_pipeline_id x = sl_pipeline_id (po_selected_pipeline p) \<and>
                        ou_config_sha256 x = sl_config_sha256 (po_selected_pipeline p)) (Python ValueError)) (\<lambda>_.
        Inr r)))"

definition build_rollback ::
    "codec \<Rightarrow> release_proposal \<Rightarrow> release_outcome \<Rightarrow> rollback_receipt \<Rightarrow> release_exn + release_rollback" where
  "build_rollback c p x r =
     ebind (sha256_payload c (JObj (dump_rollback_receipt r))) (\<lambda>h.
     let draft = \<lparr>rb_rollback_id = [], rb_proposal_id = po_proposal_id p, rb_proposal_revision = po_proposal_revision p,
                  rb_outcome_id = ou_outcome_id x, rb_from_strategy_revision = ro_from_strategy_revision r,
                  rb_target_strategy_revision = ro_strategy_revision r,
                  rb_rollback_receipt = dump_rollback_receipt r, rb_rollback_receipt_sha256 = h\<rparr> in
     ebind (content_id c ''retrieval-rollback'' (JObj (rollback_body draft))) (\<lambda>i.
     let y = draft\<lparr>rb_rollback_id := i\<rparr> in validated (release_rollback_ok c y) y))"

definition rollback_intent_ok :: "rollback_intent \<Rightarrow> bool" where
  "rollback_intent_ok i =
     (prefixed_hex ''retrieval-proposal-'' 12 (ri_proposal_id i) \<and> hex_exact 64 (ri_proposal_revision i) \<and>
      prefixed_hex ''retrieval-rollback-'' 12 (ri_rollback_id i) \<and> hex_exact 64 (ri_from_strategy_revision i) \<and>
      hex_exact 64 (ri_target_strategy_revision i) \<and> hex_exact 64 (ri_rollback_receipt_sha256 i))"

definition intent_of_rollback :: "release_rollback \<Rightarrow> rollback_intent" where
  "intent_of_rollback y =
     \<lparr>ri_proposal_id = rb_proposal_id y, ri_proposal_revision = rb_proposal_revision y,
      ri_rollback_id = rb_rollback_id y, ri_from_strategy_revision = rb_from_strategy_revision y,
      ri_target_strategy_revision = rb_target_strategy_revision y,
      ri_rollback_receipt_sha256 = rb_rollback_receipt_sha256 y\<rparr>"

definition complete_rollback_publication :: "release_rollback \<Rightarrow> release_write list" where
  "complete_rollback_publication y = [W_rollback y, W_rollback_of_proposal y]"

record rollback_request =
  rq_proposal_id :: string
  rq_proposal_revision :: string
  rq_rollback_receipt :: dict

definition record_release_rollback ::
    "codec \<Rightarrow> rollback_request \<Rightarrow> release_store \<Rightarrow> release_exn + release_rollback \<times> release_write list" where
  "record_release_rollback c q s =
     ebind (require (prefixed_hex ''retrieval-proposal-'' 12 (rq_proposal_id q)) (Release ''invalid_proposal_id'')) (\<lambda>_.
     ebind (require (hex_exact 64 (rq_proposal_revision q)) (Release ''invalid_proposal_revision'')) (\<lambda>_.
     ebind (lift_exn (ensure_json_value (JObj (rq_rollback_receipt q)))) (\<lambda>_.
     ebind (load_proposal c s (rq_proposal_id q)) (\<lambda>p.
     ebind (require (po_proposal_revision p = rq_proposal_revision q) (Release ''proposal_revision_conflict'')) (\<lambda>_.
     ebind (load_existing_decision c s (rq_proposal_id q)) (\<lambda>decision.
     ebind (load_existing_outcome c s (rq_proposal_id q)) (\<lambda>outcome.
     ebind (require (\<exists>d \<in> set_option decision. de_lifecycle d = ''approved_for_validation'')
              (Release ''release_not_approved'')) (\<lambda>_.
     case outcome of
       None \<Rightarrow> Inl (Release ''release_not_active'')
     | Some x \<Rightarrow>
         ebind (require (ou_lifecycle x = Active) (Release ''release_not_active'')) (\<lambda>_.
         ebind (validate_rollback_receipt c p x (rq_rollback_receipt q)) (\<lambda>r.
         ebind (build_rollback c p x r) (\<lambda>y.
         ebind (load_existing_rollback c s (rq_proposal_id q)) (\<lambda>existing.
         case existing of
           Some old \<Rightarrow> ebind (require (old = y) (Release ''rollback_idempotency_conflict'')) (\<lambda>_. Inr (old, []))
         | None \<Rightarrow>
             ebind (load_active_revision s) (\<lambda>pointer.
             ebind (require (pointer = Some (ro_strategy_revision r)) (Release ''rollback_pointer_conflict'')) (\<lambda>_.
             ebind (prepare_intent ''rollback_idempotency_conflict'' rollback_intent_ok
                      (rs_rollback_intents s (rb_proposal_id y)) (intent_of_rollback y)
                      (W_rollback_intent (intent_of_rollback y))) (\<lambda>ws.
             Inr (y, ws @ complete_rollback_publication y))))))))))))))))"

subsection \<open>Reading a release\<close>

definition build_validation_failure_receipt ::
    "codec \<Rightarrow> release_proposal \<Rightarrow> string \<Rightarrow> release_exn + dict" where
  "build_validation_failure_receipt c proposal error_code =
     ebind (validated (proposal_ok c proposal) proposal) (\<lambda>p.
     let draft = \<lparr>re_receipt_id = [], re_proposal_id = po_proposal_id p, re_proposal_revision = po_proposal_revision p,
                  re_pipeline_id = sl_pipeline_id (po_selected_pipeline p),
                  re_config_sha256 = sl_config_sha256 (po_selected_pipeline p),
                  re_parent_active_revision = po_parent_active_revision p, re_code_revision = po_code_revision p,
                  vf_error_code = error_code\<rparr> in
     ebind (content_id c ''validation-failure'' (JObj (failure_body draft))) (\<lambda>i.
     ebind (of_option (Python ValueError)
              (decode_validation_failure c (JObj ((''receipt_id'', JStr i) # failure_body draft)))) (\<lambda>r.
     Inr (dump_validation_failure r))))"

definition load_activation_envelope ::
    "codec \<Rightarrow> release_store \<Rightarrow> string \<Rightarrow> string \<Rightarrow> release_exn + release_proposal \<times> release_decision" where
  "load_activation_envelope c s proposal_id proposal_revision =
     ebind (load_proposal c s proposal_id) (\<lambda>p.
     ebind (require (po_proposal_revision p = proposal_revision) (Release ''proposal_revision_conflict'')) (\<lambda>_.
     ebind (load_existing_decision c s proposal_id) (\<lambda>decision.
     case decision of
       None \<Rightarrow> Inl (Release ''release_not_approved'')
     | Some d \<Rightarrow>
         ebind (require (de_lifecycle d = ''approved_for_validation'') (Release ''release_not_approved'')) (\<lambda>_.
         ebind (load_existing_outcome c s proposal_id) (\<lambda>outcome.
         ebind (require (outcome = None) (Release ''release_already_finalized'')) (\<lambda>_.
         Inr (p, d)))))))"

definition release_lifecycle ::
    "release_decision option \<Rightarrow> release_outcome option \<Rightarrow> release_rollback option \<Rightarrow> string option \<Rightarrow> release_exn + string" where
  "release_lifecycle decision outcome rollback active_revision =
     (let approved = (\<exists>d \<in> set_option decision. de_lifecycle d = ''approved_for_validation'') in
      case rollback of
        Some y \<Rightarrow>
          (case outcome of
             Some x \<Rightarrow>
               if approved \<and> ou_lifecycle x = Active \<and> rb_outcome_id y = ou_outcome_id x \<and>
                  rb_proposal_revision y = ou_proposal_revision x \<and>
                  Some (rb_from_strategy_revision y) = ou_active_strategy_revision x
               then Inr ''rolled_back'' else Inl (Release ''release_lifecycle_invalid'')
           | None \<Rightarrow> Inl (Release ''release_lifecycle_invalid''))
      | None \<Rightarrow>
          (case outcome of
             Some x \<Rightarrow>
               if \<not> approved then Inl (Release ''release_lifecycle_invalid'')
               else if ou_lifecycle x = Active \<and> ou_active_strategy_revision x \<noteq> active_revision then Inr ''rolled_back''
               else Inr (outcome_lifecycle_value (ou_lifecycle x))
           | None \<Rightarrow>
               (case decision of Some d \<Rightarrow> Inr (de_lifecycle d) | None \<Rightarrow> Inr ''pending_owner_review'')))"

record release_view =
  rv_proposal :: release_proposal
  rv_decision :: "release_decision option"
  rv_outcome :: "release_outcome option"
  rv_rollback :: "release_rollback option"
  rv_lifecycle :: string

definition load_release :: "codec \<Rightarrow> release_store \<Rightarrow> string \<Rightarrow> string option \<Rightarrow> release_exn + release_view" where
  "load_release c s proposal_id proposal_revision =
     ebind (load_proposal c s proposal_id) (\<lambda>p.
     ebind (require (proposal_revision = None \<or> proposal_revision = Some (po_proposal_revision p))
              (Release ''proposal_revision_conflict'')) (\<lambda>_.
     ebind (load_existing_decision c s proposal_id) (\<lambda>d.
     ebind (load_existing_outcome c s proposal_id) (\<lambda>x.
     ebind (load_existing_rollback c s proposal_id) (\<lambda>y.
     ebind (load_active_revision s) (\<lambda>active.
     ebind (release_lifecycle d x y active) (\<lambda>l.
     Inr \<lparr>rv_proposal = p, rv_decision = d, rv_outcome = x, rv_rollback = y, rv_lifecycle = l\<rparr>)))))))"

text \<open>The public projection; \<^verbatim>\<open>receipt.get(key)\<close> of an absent outcome is \<^verbatim>\<open>None\<close>.\<close>

definition safe_release_entry ::
    "release_proposal \<Rightarrow> release_decision option \<Rightarrow> release_outcome option \<Rightarrow> release_rollback option \<Rightarrow> string option \<Rightarrow>
     release_exn + dict" where
  "safe_release_entry p d x y active_revision =
     ebind (release_lifecycle d x y active_revision) (\<lambda>lifecycle.
     let receipt = (case x of None \<Rightarrow> [] | Some o' \<Rightarrow> ou_validation_receipt o');
         activated = Option.bind x ou_active_strategy_revision in
     Inr [(''active_strategy_revision'', if lifecycle = ''active'' then opt_str activated else JNull),
          (''activated_strategy_revision'', opt_str activated),
          (''approval_eligible'', JBool (lifecycle = ''pending_owner_review'')),
          (''code_revision'', JStr (po_code_revision p)),
          (''config_sha256'', JStr (sl_config_sha256 (po_selected_pipeline p))),
          (''decision_id'', opt_str (map_option de_decision_id d)),
          (''evidence'', dump_evidence_refs (po_evidence p)),
          (''health'', JStr (if lifecycle = ''active'' then ''ready'' else ''not_ready'')),
          (''index_id'', dget receipt ''index_id''),
          (''index_schema_version'', dget receipt ''index_schema_version''),
          (''lifecycle'', JStr lifecycle),
          (''outcome_id'', opt_str (map_option ou_outcome_id x)),
          (''parent_active_revision'', opt_str (po_parent_active_revision p)),
          (''pipeline_id'', JStr (sl_pipeline_id (po_selected_pipeline p))),
          (''pipeline_variant'', dget (sl_config (po_selected_pipeline p)) ''variant''),
          (''previous_revision'', dget receipt ''rollback_strategy_revision''),
          (''proposal_id'', JStr (po_proposal_id p)),
          (''proposal_revision'', JStr (po_proposal_revision p)),
          (''release_gate_passed'', JBool (gs_passed (po_release_gate p))),
          (''rollback_id'', opt_str (map_option rb_rollback_id y)),
          (''rollback_receipt_id'', case y of None \<Rightarrow> JNull | Some r \<Rightarrow> dget (rb_rollback_receipt r) ''receipt_id''),
          (''rollback_target_revision'', opt_str (map_option rb_target_strategy_revision y)),
          (''rollout'', if lifecycle = ''active'' then JStr ''explicit_active_lane'' else JNull),
          (''ready'', JBool (lifecycle = ''active'')),
          (''strategy_id'', JStr SELECTED_STRATEGY_ID),
          (''strategy_revision'', opt_str activated)])"

definition entry_active :: "dict \<Rightarrow> bool" where
  "entry_active e = (dget e ''lifecycle'' = JStr ''active'')"

definition catalog_entry :: "codec \<Rightarrow> release_store \<Rightarrow> string option \<Rightarrow> string \<Rightarrow> release_exn + dict" where
  "catalog_entry c s active stem =
     ebind (load_proposal c s stem) (\<lambda>p.
     ebind (load_existing_decision c s (po_proposal_id p)) (\<lambda>d.
     ebind (load_existing_outcome c s (po_proposal_id p)) (\<lambda>x.
     ebind (load_existing_rollback c s (po_proposal_id p)) (\<lambda>y.
     safe_release_entry p d x y active))))"

fun catalog_loop ::
    "codec \<Rightarrow> release_store \<Rightarrow> string option \<Rightarrow> string list \<Rightarrow> dict option \<Rightarrow> release_exn + dict list \<times> dict option" where
  "catalog_loop c s active [] found = Inr ([], found)"
| "catalog_loop c s active (stem # stems) found =
     ebind (catalog_entry c s active stem) (\<lambda>e.
     ebind (if entry_active e then
              (if found \<noteq> None then Inl (Release ''active_release_ambiguous'') else Inr (Some e))
            else Inr found) (\<lambda>found'.
     ebind (catalog_loop c s active stems found') (\<lambda>(es, final). Inr (e # es, final))))"

definition MAX_RELEASE_PROPOSALS :: nat where "MAX_RELEASE_PROPOSALS = 1000"
definition MAX_PUBLIC_RELEASES :: nat where "MAX_PUBLIC_RELEASES = 100"

text \<open>\<open>stems\<close> is the sorted listing of the proposal directory; \<^verbatim>\<open>xs[-n:]\<close> keeps the last \<open>n\<close>.\<close>

definition load_release_catalog ::
    "codec \<Rightarrow> release_store \<Rightarrow> string list \<Rightarrow> release_exn + dict list \<times> dict option" where
  "load_release_catalog c s stems =
     ebind (require (length stems \<le> MAX_RELEASE_PROPOSALS) (Release ''release_catalog_too_large'')) (\<lambda>_.
     ebind (load_active_revision s) (\<lambda>active.
     ebind (catalog_loop c s active stems None) (\<lambda>(es, found).
     Inr (rev (drop (length es - MAX_PUBLIC_RELEASES) es), found))))"

end
