(* ===== verification/ReleaseInvariants.thy ===== *)
theory ReleaseInvariants
  imports ReleaseControl
begin

text \<open>
  The release control plane as a transition system. A step publishes a prefix of the files of one
  operation (all of them, or fewer when a write collides or the process dies) or changes the serving
  pointer, which serving does on its own. The invariant says that every pointer file agrees with the
  immutable record it points to and with the record of the earlier stage. It is shown write by write:
  \<open>justified\<close> is what a write needs of the store it meets, \<open>justified_seq\<close> that every write of a plan has
  it when its turn comes.
\<close>

subsection \<open>Steps\<close>

datatype release_op =
    Op_create "release_exn + validated_analysis"
  | Op_decide "release_proposal \<Rightarrow> release_exn + unit" "exn + string" decision_request
  | Op_outcome outcome_request
  | Op_rollback rollback_request

definition op_writes :: "codec \<Rightarrow> release_op \<Rightarrow> release_store \<Rightarrow> release_exn + release_write list" where
  "op_writes c op s =
     (case op of
        Op_create a \<Rightarrow> map_sum id snd (create_or_load_proposal c a s)
      | Op_decide ev code_rev q \<Rightarrow> map_sum id snd (apply_release_decision c ev code_rev q s)
      | Op_outcome q \<Rightarrow> map_sum id snd (record_release_outcome c q s)
      | Op_rollback q \<Rightarrow> map_sum id snd (record_release_rollback c q s))"

inductive release_step :: "codec \<Rightarrow> release_store \<Rightarrow> release_store \<Rightarrow> bool" for c where
  publish: "op_writes c op s = Inr ws \<Longrightarrow> perform c (take n ws) s = (e, s') \<Longrightarrow> release_step c s s'"
| serving: "release_step c s (s\<lparr>rs_active := a\<rparr>)"

inductive release_steps :: "codec \<Rightarrow> release_store \<Rightarrow> release_store \<Rightarrow> bool" for c where
  none: "release_steps c s s"
| more: "release_steps c s t \<Longrightarrow> release_step c t u \<Longrightarrow> release_steps c s u"

inductive_cases release_stepE: "release_step c s s'"

definition empty_store :: "release_exn + string option \<Rightarrow> release_store" where
  "empty_store a =
     \<lparr>rs_proposals = (\<lambda>_. None), rs_proposal_intents = (\<lambda>_. None), rs_decision_intents = (\<lambda>_. None),
      rs_decisions = (\<lambda>_. None), rs_decision_of_proposal = (\<lambda>_. None), rs_decision_of_action = (\<lambda>_. None),
      rs_outcome_intents = (\<lambda>_. None), rs_outcomes = (\<lambda>_. None), rs_outcome_of_proposal = (\<lambda>_. None),
      rs_rollback_intents = (\<lambda>_. None), rs_rollbacks = (\<lambda>_. None), rs_rollback_of_proposal = (\<lambda>_. None),
      rs_active = a\<rparr>"

definition release_reachable :: "codec \<Rightarrow> release_store \<Rightarrow> bool" where
  "release_reachable c s = (\<exists>a. release_steps c (empty_store a) s)"

lemma extends_active [simp]: "extends s (s\<lparr>rs_active := a\<rparr>)" "extends (s\<lparr>rs_active := a\<rparr>) s"
  by (simp_all add: extends_def)

lemma release_step_extends: "release_step c s s' \<Longrightarrow> extends s s'"
  by (erule release_stepE) (auto dest: perform_extends)

lemma release_steps_extends: "release_steps c s s' \<Longrightarrow> extends s s'"
  by (induction rule: release_steps.induct) (auto intro: extends_trans release_step_extends)

lemma release_reachable_steps: "release_reachable c s \<Longrightarrow> release_steps c s t \<Longrightarrow> release_reachable c t"
proof -
  assume "release_steps c s t" "release_reachable c s"
  then show ?thesis
    by (induction rule: release_steps.induct) (auto simp: release_reachable_def intro: release_steps.more)
qed

subsection \<open>The invariant\<close>

definition proposal_sound :: "codec \<Rightarrow> string \<Rightarrow> release_proposal \<Rightarrow> bool" where
  "proposal_sound c i p = (po_proposal_id p = i \<and> proposal_ok c p)"

definition decision_sound :: "codec \<Rightarrow> release_store \<Rightarrow> string \<Rightarrow> release_decision \<Rightarrow> bool" where
  "decision_sound c s i d =
     (de_proposal_id d = i \<and> release_decision_ok c d \<and> rs_decisions s (de_decision_id d) = Some d \<and>
      (\<exists>p. rs_proposals s i = Some p \<and> build_decision c p (de_decision d) (de_client_action_id d) (de_actor_id d) = Inr d))"

definition action_sound :: "codec \<Rightarrow> release_store \<Rightarrow> string \<Rightarrow> release_decision \<Rightarrow> bool" where
  "action_sound c s k d = (action_file c (de_client_action_id d) = k \<and> rs_decision_of_proposal s (de_proposal_id d) = Some d)"

definition outcome_sound :: "codec \<Rightarrow> release_store \<Rightarrow> string \<Rightarrow> release_outcome \<Rightarrow> bool" where
  "outcome_sound c s i x =
     (ou_proposal_id x = i \<and> release_outcome_ok c x \<and> rs_outcomes s (ou_outcome_id x) = Some x \<and>
      (\<exists>p d. rs_proposals s i = Some p \<and> rs_decision_of_proposal s i = Some d \<and> de_decision d = Approve \<and>
         build_outcome c p d (ou_lifecycle x) (ou_validation_receipt x) (ou_active_strategy_revision x) = Inr x))"

definition rollback_sound :: "codec \<Rightarrow> release_store \<Rightarrow> string \<Rightarrow> release_rollback \<Rightarrow> bool" where
  "rollback_sound c s i y =
     (rb_proposal_id y = i \<and> release_rollback_ok c y \<and> rs_rollbacks s (rb_rollback_id y) = Some y \<and>
      (\<exists>p x r. rs_proposals s i = Some p \<and> rs_outcome_of_proposal s i = Some x \<and> ou_lifecycle x = Active \<and>
         Some (rb_from_strategy_revision y) = ou_active_strategy_revision x \<and> build_rollback c p x r = Inr y))"

definition release_inv :: "codec \<Rightarrow> release_store \<Rightarrow> bool" where
  "release_inv c s =
     ((\<forall>i p. rs_proposals s i = Some p \<longrightarrow> proposal_sound c i p) \<and>
      (\<forall>i d. rs_decision_of_proposal s i = Some d \<longrightarrow> decision_sound c s i d) \<and>
      (\<forall>k d. rs_decision_of_action s k = Some d \<longrightarrow> action_sound c s k d) \<and>
      (\<forall>i x. rs_outcome_of_proposal s i = Some x \<longrightarrow> outcome_sound c s i x) \<and>
      (\<forall>i y. rs_rollback_of_proposal s i = Some y \<longrightarrow> rollback_sound c s i y))"

text \<open>The invariant, one pointer file at a time.\<close>

lemma release_inv_dest:
  assumes "release_inv c s"
  shows "rs_proposals s i = Some p \<Longrightarrow> po_proposal_id p = i \<and> proposal_ok c p"
    and "rs_decision_of_proposal s i = Some d \<Longrightarrow> decision_sound c s i d"
    and "rs_decision_of_action s k = Some d \<Longrightarrow> action_sound c s k d"
    and "rs_outcome_of_proposal s i = Some x \<Longrightarrow> outcome_sound c s i x"
    and "rs_rollback_of_proposal s i = Some y \<Longrightarrow> rollback_sound c s i y"
  using assms by (simp_all add: release_inv_def proposal_sound_def)

lemma decision_soundE:
  assumes "decision_sound c s i d"
  obtains p where "rs_proposals s i = Some p" "de_proposal_id d = i" "release_decision_ok c d"
    "rs_decisions s (de_decision_id d) = Some d"
    "build_decision c p (de_decision d) (de_client_action_id d) (de_actor_id d) = Inr d"
  using assms by (auto simp: decision_sound_def)

lemma outcome_soundE:
  assumes "outcome_sound c s i x"
  obtains p d where "rs_proposals s i = Some p" "rs_decision_of_proposal s i = Some d" "de_decision d = Approve"
    "ou_proposal_id x = i" "release_outcome_ok c x" "rs_outcomes s (ou_outcome_id x) = Some x"
    "build_outcome c p d (ou_lifecycle x) (ou_validation_receipt x) (ou_active_strategy_revision x) = Inr x"
  using assms by (auto simp: outcome_sound_def)

lemma rollback_soundE:
  assumes "rollback_sound c s i y"
  obtains p x r where "rs_proposals s i = Some p" "rs_outcome_of_proposal s i = Some x" "ou_lifecycle x = Active"
    "rb_proposal_id y = i" "release_rollback_ok c y" "rs_rollbacks s (rb_rollback_id y) = Some y"
    "Some (rb_from_strategy_revision y) = ou_active_strategy_revision x" "build_rollback c p x r = Inr y"
  using assms by (auto simp: rollback_sound_def)

lemma map_le_Some: "m \<subseteq>\<^sub>m m' \<Longrightarrow> m k = Some v \<Longrightarrow> m' k = Some v"
  by (auto simp: map_le_def dom_def)

lemma extends_Some:
  assumes "extends s s'"
  shows "rs_proposals s i = Some p \<Longrightarrow> rs_proposals s' i = Some p"
    and "rs_proposal_intents s i = Some u \<Longrightarrow> rs_proposal_intents s' i = Some u"
    and "rs_decision_intents s i = Some v \<Longrightarrow> rs_decision_intents s' i = Some v"
    and "rs_decisions s i = Some d \<Longrightarrow> rs_decisions s' i = Some d"
    and "rs_decision_of_proposal s i = Some d \<Longrightarrow> rs_decision_of_proposal s' i = Some d"
    and "rs_decision_of_action s i = Some d \<Longrightarrow> rs_decision_of_action s' i = Some d"
    and "rs_outcomes s i = Some x \<Longrightarrow> rs_outcomes s' i = Some x"
    and "rs_outcome_of_proposal s i = Some x \<Longrightarrow> rs_outcome_of_proposal s' i = Some x"
    and "rs_rollbacks s i = Some y \<Longrightarrow> rs_rollbacks s' i = Some y"
    and "rs_rollback_of_proposal s i = Some y \<Longrightarrow> rs_rollback_of_proposal s' i = Some y"
  using assms by (auto simp: extends_def intro: map_le_Some)

lemma sound_mono:
  assumes "extends s s'"
  shows "decision_sound c s i d \<Longrightarrow> decision_sound c s' i d"
    and "action_sound c s k d \<Longrightarrow> action_sound c s' k d"
    and "outcome_sound c s i x \<Longrightarrow> outcome_sound c s' i x"
    and "rollback_sound c s i y \<Longrightarrow> rollback_sound c s' i y"
  using extends_Some [OF assms]
  by (auto simp: decision_sound_def action_sound_def outcome_sound_def rollback_sound_def)

subsection \<open>Justified writes\<close>

fun justified :: "codec \<Rightarrow> release_store \<Rightarrow> release_write \<Rightarrow> bool" where
  "justified c s (W_proposal p) = proposal_ok c p"
| "justified c s (W_decision_of_proposal d) = decision_sound c s (de_proposal_id d) d"
| "justified c s (W_decision_of_action d) = (rs_decision_of_proposal s (de_proposal_id d) = Some d)"
| "justified c s (W_outcome_of_proposal x) = outcome_sound c s (ou_proposal_id x) x"
| "justified c s (W_rollback_of_proposal y) = rollback_sound c s (rb_proposal_id y) y"
| "justified c s _ = True"

fun justified_seq :: "codec \<Rightarrow> release_write list \<Rightarrow> release_store \<Rightarrow> bool" where
  "justified_seq c [] s = True"
| "justified_seq c (w # ws) s =
     (justified c s w \<and> (\<forall>s'. apply_write c w s = Inr s' \<longrightarrow> justified_seq c ws s'))"

lemma write_inv:
  assumes inv: "release_inv c s" and j: "justified c s w" and w: "apply_write c w s = Inr s'"
  shows "release_inv c s'"
proof -
  note ext = apply_write_extends [OF w, THEN conjunct1]
  note mono = sound_mono [OF ext]
  have "rs_proposals s' i = Some p \<Longrightarrow> proposal_sound c i p" for i p
    using inv j w by (cases w) (auto simp: release_inv_def proposal_sound_def dest!: write_immutable_cases)
  moreover have "rs_decision_of_proposal s' i = Some d \<Longrightarrow> decision_sound c s' i d" for i d
    using inv j w mono(1) [of c i d] by (cases w) (auto simp: release_inv_def dest!: write_immutable_cases)
  moreover have "rs_decision_of_action s' k = Some d \<Longrightarrow> action_sound c s' k d" for k d
    using inv j w mono(2) [of c k d] extends_Some(5) [OF ext, of "de_proposal_id d" d]
    by (cases w) (auto simp: release_inv_def action_sound_def dest!: write_immutable_cases)
  moreover have "rs_outcome_of_proposal s' i = Some x \<Longrightarrow> outcome_sound c s' i x" for i x
    using inv j w mono(3) [of c i x] by (cases w) (auto simp: release_inv_def dest!: write_immutable_cases)
  moreover have "rs_rollback_of_proposal s' i = Some y \<Longrightarrow> rollback_sound c s' i y" for i y
    using inv j w mono(4) [of c i y] by (cases w) (auto simp: release_inv_def dest!: write_immutable_cases)
  ultimately show ?thesis by (simp add: release_inv_def)
qed

lemma perform_inv:
  "release_inv c s \<Longrightarrow> justified_seq c ws s \<Longrightarrow> perform c (take n ws) s = (e, s') \<Longrightarrow> release_inv c s'"
proof (induction ws arbitrary: s n)
  case (Cons w ws)
  show ?case
  proof (cases n)
    case (Suc m)
    show ?thesis
    proof (cases "apply_write c w s")
      case (Inr t)
      then show ?thesis using Cons.IH [of t m] write_inv [OF Cons.prems(1) _ Inr] Cons.prems Suc by simp
    qed (use Cons.prems Suc in simp)
  qed (use Cons.prems in simp)
qed simp

subsection \<open>Every plan is justified\<close>

lemma load_proposal_Inr:
  "load_proposal c s i = Inr p \<Longrightarrow> rs_proposals s i = Some p \<and> po_proposal_id p = i \<and> proposal_ok c p"
  by (auto simp: load_proposal_def)

lemma load_existing_decision_Inr:
  "load_existing_decision c s i = Inr d \<Longrightarrow> d = rs_decision_of_proposal s i"
  by (auto simp: load_existing_decision_def split: option.splits)

lemma load_existing_outcome_Inr:
  "load_existing_outcome c s i = Inr x \<Longrightarrow> x = rs_outcome_of_proposal s i"
  by (auto simp: load_existing_outcome_def split: option.splits)

lemma load_existing_rollback_Inr:
  "load_existing_rollback c s i = Inr y \<Longrightarrow> y = rs_rollback_of_proposal s i"
  by (auto simp: load_existing_rollback_def split: option.splits)

lemma load_client_action_decision_Inr:
  "load_client_action_decision c s a = Inr d \<Longrightarrow> d = rs_decision_of_action s (action_file c a)"
  by (auto simp: load_client_action_decision_def split: option.splits)

lemma build_proposal_ok: "build_proposal c va parent = Inr p \<Longrightarrow> proposal_ok c p \<and> po_parent_active_revision p = parent"
  by (auto simp: build_proposal_def Let_def proposal_body_def)

lemma build_decision_fields:
  assumes "build_decision c p dec a actor = Inr d"
  shows "release_decision_ok c d" "de_proposal_id d = po_proposal_id p" "de_proposal_revision d = po_proposal_revision p"
    "de_decision d = dec" "de_client_action_id d = a" "de_actor_id d = actor"
    "build_decision c p (de_decision d) (de_client_action_id d) (de_actor_id d) = Inr d"
proof -
  show "release_decision_ok c d" "de_proposal_id d = po_proposal_id p" "de_proposal_revision d = po_proposal_revision p"
    and f: "de_decision d = dec" "de_client_action_id d = a" "de_actor_id d = actor"
    using assms by (auto simp: build_decision_def Let_def)
  show "build_decision c p (de_decision d) (de_client_action_id d) (de_actor_id d) = Inr d"
    unfolding f by (rule assms)
qed

lemma build_outcome_fields:
  assumes "build_outcome c p d oc receipt act = Inr x"
  shows "release_outcome_ok c x" "ou_proposal_id x = po_proposal_id p" "ou_proposal_revision x = po_proposal_revision p"
    "ou_lifecycle x = oc" "ou_validation_receipt x = receipt" "ou_active_strategy_revision x = act"
    "ou_decision_id x = de_decision_id d"
  using assms by (auto simp: build_outcome_def Let_def)

lemma build_rollback_fields:
  assumes "build_rollback c p x r = Inr y"
  shows "release_rollback_ok c y" "rb_proposal_id y = po_proposal_id p" "rb_proposal_revision y = po_proposal_revision p"
    "rb_from_strategy_revision y = ro_from_strategy_revision r" "rb_target_strategy_revision y = ro_strategy_revision r"
    "rb_outcome_id y = ou_outcome_id x" "rb_rollback_receipt y = dump_rollback_receipt r"
  using assms by (auto simp: build_rollback_def Let_def)

lemma prepare_intent_Inr:
  "prepare_intent code ok stored i w = Inr ws \<longleftrightarrow>
     (stored = None \<and> ws = [w] \<or> stored = Some i \<and> ok i \<and> ws = [])"
  by (auto simp: prepare_intent_def split: option.splits)

lemma justified_seq_append:
  "justified_seq c (ws @ vs) s \<longleftrightarrow>
     justified_seq c ws s \<and> (\<forall>s'. perform c ws s = (None, s') \<longrightarrow> justified_seq c vs s')"
  by (induction ws arbitrary: s) (auto split: sum.splits)

text \<open>A record, then its pointers: each pointer write meets the record it points to.\<close>

lemma decision_publication_justified:
  assumes p: "rs_proposals s (de_proposal_id d) = Some p" and ok: "release_decision_ok c d"
    and b: "build_decision c p (de_decision d) (de_client_action_id d) (de_actor_id d) = Inr d"
  shows "justified_seq c (complete_decision_publication d) s"
  using assms
  by (auto simp: complete_decision_publication_def decision_sound_def dest!: write_immutable_extends)

lemma outcome_publication_justified:
  assumes "rs_proposals s (ou_proposal_id x) = Some p" "rs_decision_of_proposal s (ou_proposal_id x) = Some d"
    "de_decision d = Approve" "release_outcome_ok c x"
    "build_outcome c p d (ou_lifecycle x) (ou_validation_receipt x) (ou_active_strategy_revision x) = Inr x"
  shows "justified_seq c (complete_outcome_publication x) s"
  using assms
  by (auto simp: complete_outcome_publication_def outcome_sound_def dest!: write_immutable_extends)

lemma rollback_publication_justified:
  assumes "rs_proposals s (rb_proposal_id y) = Some p" "rs_outcome_of_proposal s (rb_proposal_id y) = Some x"
    "ou_lifecycle x = Active" "release_rollback_ok c y" "Some (rb_from_strategy_revision y) = ou_active_strategy_revision x"
    "build_rollback c p x r = Inr y"
  shows "justified_seq c (complete_rollback_publication y) s"
  using assms
  by (auto simp: complete_rollback_publication_def rollback_sound_def dest!: write_immutable_extends)

lemma apply_release_decision_Inr:
  assumes "apply_release_decision c evidence revision q s = Inr (d, ws)"
  shows "ws = [] \<or> (\<exists>p dec iw. rs_proposals s (dr_proposal_id q) = Some p \<and> po_proposal_id p = dr_proposal_id q \<and>
     build_decision c p dec (dr_client_action_id q) (dr_actor_id q) = Inr d \<and>
     ws = iw @ complete_decision_publication d \<and> (iw = [] \<or> iw = [W_decision_intent (intent_of_decision d)]))"
  using assms
  by (auto simp: apply_release_decision_def prepare_intent_Inr dest!: load_proposal_Inr split: if_splits)

lemma record_release_outcome_Inr:
  assumes "record_release_outcome c q s = Inr (x, ws)"
  shows "ws = [] \<or> (\<exists>p d iw. rs_proposals s (or_proposal_id q) = Some p \<and> po_proposal_id p = or_proposal_id q \<and>
     rs_decision_of_proposal s (or_proposal_id q) = Some d \<and> de_decision d = Approve \<and>
     build_outcome c p d (ou_lifecycle x) (or_validation_receipt q) (or_active_strategy_revision q) = Inr x \<and>
     ws = iw @ complete_outcome_publication x \<and> (iw = [] \<or> iw = [W_outcome_intent (intent_of_outcome x)]))"
  using assms
  by (auto simp: record_release_outcome_def prepare_intent_Inr build_outcome_fields
      dest!: load_proposal_Inr load_existing_decision_Inr split: option.splits)

lemma record_release_rollback_Inr:
  assumes "record_release_rollback c q s = Inr (y, ws)"
  shows "ws = [] \<or> (\<exists>p x r iw. rs_proposals s (rq_proposal_id q) = Some p \<and> po_proposal_id p = rq_proposal_id q \<and>
     rs_outcome_of_proposal s (rq_proposal_id q) = Some x \<and> ou_lifecycle x = Active \<and>
     Some (ro_from_strategy_revision r) = ou_active_strategy_revision x \<and> build_rollback c p x r = Inr y \<and>
     ws = iw @ complete_rollback_publication y \<and> (iw = [] \<or> iw = [W_rollback_intent (intent_of_rollback y)]))"
  using assms
  by (auto simp: record_release_rollback_def prepare_intent_Inr validate_rollback_receipt_def
      dest!: load_proposal_Inr load_existing_outcome_Inr split: option.splits)

lemma justified_after_intent:
  assumes "iw = [] \<or> iw = [W_decision_intent i] \<or> iw = [W_outcome_intent i'] \<or> iw = [W_rollback_intent i'']"
    and "\<And>s'. extends s s' \<Longrightarrow> justified_seq c ws s'"
  shows "justified_seq c (iw @ ws) s"
  using assms(1)
  by (auto simp: justified_seq_append intro!: assms(2) dest: perform_extends)

lemma map_sum_Inr_iff: "map_sum id snd m = Inr ws \<longleftrightarrow> (\<exists>x. m = Inr (x, ws))"
  by (cases m) auto

lemma plan_justified:
  assumes "op_writes c op s = Inr ws"
  shows "justified_seq c ws s"
proof (cases op)
  case (Op_create a)
  with assms show ?thesis
    by (auto simp: op_writes_def create_or_load_proposal_def map_sum_Inr_iff dest!: build_proposal_ok split: option.splits)
next
  case (Op_decide ev code_rev q)
  with assms obtain d where "apply_release_decision c ev code_rev q s = Inr (d, ws)"
    by (auto simp: op_writes_def map_sum_Inr_iff)
  then consider "ws = []" | p dec iw where "rs_proposals s (dr_proposal_id q) = Some p" "po_proposal_id p = dr_proposal_id q"
      "build_decision c p dec (dr_client_action_id q) (dr_actor_id q) = Inr d"
      "ws = iw @ complete_decision_publication d" "iw = [] \<or> iw = [W_decision_intent (intent_of_decision d)]"
    using apply_release_decision_Inr by blast
  then show ?thesis
  proof cases
    case a: 2
    note b = build_decision_fields [OF a(3)]
    show ?thesis unfolding a(4)
      by (rule justified_after_intent) (use a b in \<open>auto intro!: decision_publication_justified dest: extends_Some(1)\<close>)
  qed simp
next
  case (Op_outcome q)
  with assms obtain x where "record_release_outcome c q s = Inr (x, ws)"
    by (auto simp: op_writes_def map_sum_Inr_iff)
  then consider "ws = []" | p d iw where "rs_proposals s (or_proposal_id q) = Some p" "po_proposal_id p = or_proposal_id q"
      "rs_decision_of_proposal s (or_proposal_id q) = Some d" "de_decision d = Approve"
      "build_outcome c p d (ou_lifecycle x) (or_validation_receipt q) (or_active_strategy_revision q) = Inr x"
      "ws = iw @ complete_outcome_publication x" "iw = [] \<or> iw = [W_outcome_intent (intent_of_outcome x)]"
    using record_release_outcome_Inr by blast
  then show ?thesis
  proof cases
    case a: 2
    note b = build_outcome_fields [OF a(5)]
    show ?thesis unfolding a(6)
      by (rule justified_after_intent)
         (use a b in \<open>auto intro!: outcome_publication_justified dest: extends_Some(1,5)\<close>)
  qed simp
next
  case (Op_rollback q)
  with assms obtain y where "record_release_rollback c q s = Inr (y, ws)"
    by (auto simp: op_writes_def map_sum_Inr_iff)
  then consider "ws = []" | p x r iw where "rs_proposals s (rq_proposal_id q) = Some p" "po_proposal_id p = rq_proposal_id q"
      "rs_outcome_of_proposal s (rq_proposal_id q) = Some x" "ou_lifecycle x = Active"
      "Some (ro_from_strategy_revision r) = ou_active_strategy_revision x" "build_rollback c p x r = Inr y"
      "ws = iw @ complete_rollback_publication y" "iw = [] \<or> iw = [W_rollback_intent (intent_of_rollback y)]"
    using record_release_rollback_Inr by blast
  then show ?thesis
  proof cases
    case a: 2
    note b = build_rollback_fields [OF a(6)]
    show ?thesis unfolding a(7)
      by (rule justified_after_intent)
         (use a b in \<open>auto intro!: rollback_publication_justified dest: extends_Some(1,8)\<close>)
  qed simp
qed

lemma active_update_inv: "release_inv c s \<Longrightarrow> release_inv c (s\<lparr>rs_active := a\<rparr>)"
  by (simp add: release_inv_def decision_sound_def action_sound_def outcome_sound_def rollback_sound_def)

lemma release_step_inv: "release_step c s s' \<Longrightarrow> release_inv c s \<Longrightarrow> release_inv c s'"
  by (erule release_stepE) (auto intro: perform_inv plan_justified active_update_inv)

lemma release_steps_inv: "release_steps c s s' \<Longrightarrow> release_inv c s \<Longrightarrow> release_inv c s'"
  by (induction rule: release_steps.induct) (auto intro: release_step_inv)

lemma release_reachable_inv: "release_reachable c s \<Longrightarrow> release_inv c s"
proof -
  assume "release_reachable c s"
  then obtain a where "release_steps c (empty_store a) s" by (auto simp: release_reachable_def)
  moreover have "release_inv c (empty_store a)" by (simp add: release_inv_def empty_store_def)
  ultimately show ?thesis by (rule release_steps_inv)
qed

end
