(* ===== verification/ReleaseSamples.thy ===== *)
theory ReleaseSamples
  imports ReleaseInvariants RetrievalSamples
begin

text \<open>
  One release from proposal to rollback over the sample codec, for the witnesses: the records that each
  operation builds, the requests, and the stores in between, each reached by the operations themselves.
\<close>

definition sample_revision :: "char \<Rightarrow> string" where
  "sample_revision ch = hex_text 64 ch"

definition sample_pipeline :: selected_pipeline where
  "sample_pipeline =
     \<lparr>sl_pipeline_id = ''pipeline-'' @ hex_text 12 CHR ''a'',
      sl_config = [(''variant'', JStr SELECTED_PIPELINE_VARIANT)], sl_config_sha256 = sample_hash\<rparr>"

definition sample_evidence :: evidence_refs where
  "sample_evidence =
     \<lparr>ev_baseline_run_id = ''retrieval-'' @ hex_text 12 CHR ''1'', ev_candidate_run_id = ''retrieval-'' @ hex_text 12 CHR ''2'',
      ev_comparison_id = ''retrieval-comparison-'' @ hex_text 12 CHR ''2'',
      ev_baseline_diagnosis_id = ''stage-diagnosis-'' @ hex_text 12 CHR ''1'',
      ev_candidate_diagnosis_id = ''stage-diagnosis-'' @ hex_text 12 CHR ''2'', ev_trace_id = sample_trace_id\<rparr>"

definition sample_gate :: gate_summary where
  "sample_gate =
     \<lparr>gs_passed = True,
      gs_checks = map (\<lambda>(n, cmp, t). \<lparr>gc_name = n, gc_comparator = cmp, gc_threshold = t,
                                     gc_observed = gate_observed n, gc_passed = True\<rparr>) GATE_POLICY,
      gs_failed_gates = []\<rparr>"

definition sample_analysis :: validated_analysis where
  "sample_analysis =
     \<lparr>va_code_revision = hex_text 40 CHR ''d'', va_selected_pipeline = sample_pipeline, va_evidence = sample_evidence,
      va_release_gate = sample_gate, va_trace_terminal_reason_code = ''uniform_candidate_passed''\<rparr>"

definition sample_proposal :: release_proposal where
  "sample_proposal =
     \<lparr>po_proposal_id = ''retrieval-proposal-'' @ hex_text 12 CHR ''a'', po_proposal_revision = sample_hash,
      po_trace_terminal_reason_code = ''uniform_candidate_passed'', po_code_revision = hex_text 40 CHR ''d'',
      po_parent_active_revision = None, po_selected_pipeline = sample_pipeline, po_evidence = sample_evidence,
      po_release_gate = sample_gate\<rparr>"

definition sample_decision :: "owner_decision \<Rightarrow> release_decision" where
  "sample_decision dec =
     \<lparr>de_decision_id = ''retrieval-decision-'' @ hex_text 12 CHR ''a'', de_proposal_id = po_proposal_id sample_proposal,
      de_proposal_revision = sample_hash, de_decision = dec, de_client_action_id = ''click-1'', de_actor_id = ''owner'',
      de_pipeline_id = sl_pipeline_id sample_pipeline, de_config_sha256 = sample_hash, de_parent_active_revision = None\<rparr>"

definition decide_request :: "string \<Rightarrow> decision_request" where
  "decide_request dec =
     \<lparr>dr_proposal_id = po_proposal_id sample_proposal, dr_proposal_revision = sample_hash, dr_decision = dec,
      dr_client_action_id = ''click-1'', dr_actor_id = ''owner''\<rparr>"

definition sample_code_revision :: "exn + string" where
  "sample_code_revision = Inr (hex_text 40 CHR ''d'')"

definition evidence_holds :: "release_proposal \<Rightarrow> release_exn + unit" where
  "evidence_holds p = Inr ()"

subsection \<open>What the operations build\<close>

lemma sample_sha: "json_ok j \<Longrightarrow> sha256_payload sample_codec j = Inr sample_hash"
  by (simp add: sha256_payload_def sample_canonical) (simp add: sample_codec_def lift_exn_def)

lemma sample_proposal_ok: "proposal_ok sample_codec sample_proposal"
  by code_simp

lemma sample_proposal_prefix: "prefixed_hex ''retrieval-proposal-'' 12 (po_proposal_id sample_proposal)"
  by code_simp

lemma sample_build_proposal: "build_proposal sample_codec sample_analysis None = Inr sample_proposal"
  by code_simp

lemma sample_build_decision:
  "build_decision sample_codec sample_proposal Approve ''click-1'' ''owner'' = Inr (sample_decision Approve)"
  "build_decision sample_codec sample_proposal Reject ''click-1'' ''owner'' = Inr (sample_decision Reject)"
  by code_simp+

definition activation_dict :: dict where
  "activation_dict =
     [(''schema_version'', JStr ''retrieval-serving-activation-receipt-v1''),
      (''receipt_id'', JStr (''activation-'' @ hex_text 12 CHR ''a'')), (''proposal_id'', JStr (po_proposal_id sample_proposal)),
      (''proposal_revision'', JStr sample_hash), (''strategy_id'', JStr SELECTED_STRATEGY_ID),
      (''strategy_revision'', JStr (sample_revision CHR ''b'')), (''pipeline_id'', JStr (sl_pipeline_id sample_pipeline)),
      (''config_sha256'', JStr sample_hash), (''index_id'', JStr ''products''), (''index_schema_version'', JStr ''v2''),
      (''parent_active_revision'', JNull), (''previous_strategy_revision'', JNull),
      (''rollback_strategy_revision'', JStr (sample_revision CHR ''c'')), (''code_revision'', JStr (hex_text 40 CHR ''d'')),
      (''channel_counts'', JObj [(''title'', JInt 3), (''exact'', JInt 1), (''multi_field'', JInt 4), (''union'', JInt 5),
                                 (''fused'', JInt 5), (''coarse'', JInt 5)]),
      (''sentinel_count'', JInt 1),
      (''latency_ms'', JObj [(''max'', sample_rat 2), (''p95'', sample_rat 2), (''total'', sample_rat 2)]),
      (''passed'', JBool True), (''active'', JBool True)]"

definition rollback_dict :: dict where
  "rollback_dict =
     [(''receipt_id'', JStr (''rollback-'' @ hex_text 12 CHR ''a'')),
      (''from_strategy_revision'', JStr (sample_revision CHR ''b'')), (''index_id'', JStr ''products''),
      (''index_schema_version'', JStr ''v2''), (''mode'', JStr ''baseline''),
      (''schema_version'', JStr ''retrieval-serving-rollback-receipt-v1''), (''strategy_id'', JStr ''baseline''),
      (''strategy_revision'', JStr (sample_revision CHR ''c'')), (''succeeded'', JBool True)]"

definition sample_outcome :: release_outcome where
  "sample_outcome =
     \<lparr>ou_outcome_id = ''retrieval-outcome-'' @ hex_text 12 CHR ''a'', ou_proposal_id = po_proposal_id sample_proposal,
      ou_proposal_revision = sample_hash, ou_decision_id = de_decision_id (sample_decision Approve), ou_lifecycle = Active,
      ou_validation_receipt = activation_dict, ou_validation_receipt_sha256 = sample_hash,
      ou_active_strategy_revision = Some (sample_revision CHR ''b''), ou_pipeline_id = sl_pipeline_id sample_pipeline,
      ou_config_sha256 = sample_hash\<rparr>"

definition sample_rollback :: release_rollback where
  "sample_rollback =
     \<lparr>rb_rollback_id = ''retrieval-rollback-'' @ hex_text 12 CHR ''a'', rb_proposal_id = po_proposal_id sample_proposal,
      rb_proposal_revision = sample_hash, rb_outcome_id = ou_outcome_id sample_outcome,
      rb_from_strategy_revision = sample_revision CHR ''b'', rb_target_strategy_revision = sample_revision CHR ''c'',
      rb_rollback_receipt = rollback_dict, rb_rollback_receipt_sha256 = sample_hash\<rparr>"

lemma sample_build_outcome:
  "build_outcome sample_codec sample_proposal (sample_decision Approve) Active activation_dict
     (Some (sample_revision CHR ''b'')) = Inr sample_outcome"
  by code_simp

lemma sample_activation_decodes:
  "case decode_activation_receipt sample_codec (JObj activation_dict) of
     None \<Rightarrow> False
   | Some r \<Rightarrow> ac_strategy_revision r = sample_revision CHR ''b'' \<and> re_parent_active_revision r = None \<and>
       binding_matches r sample_proposal"
  by code_simp

lemma sample_rollback_decodes:
  "case decode_rollback_receipt sample_codec (JObj rollback_dict) of
     None \<Rightarrow> False
   | Some r \<Rightarrow> ro_from_strategy_revision r = sample_revision CHR ''b'' \<and> ro_strategy_revision r = sample_revision CHR ''c'' \<and>
       dump_rollback_receipt r = rollback_dict \<and> build_rollback sample_codec sample_proposal sample_outcome r = Inr sample_rollback"
  by code_simp

subsection \<open>The stores on the way\<close>

definition published :: "release_write list \<Rightarrow> release_store \<Rightarrow> release_store" where
  "published ws s = snd (perform sample_codec ws s)"

definition proposed_store :: release_store where
  "proposed_store =
     published [W_proposal_intent (intent_of_proposal sample_analysis sample_proposal), W_proposal sample_proposal]
       (empty_store (Inr None))"

definition decision_writes :: "release_decision \<Rightarrow> release_write list" where
  "decision_writes d = W_decision_intent (intent_of_decision d) # complete_decision_publication d"

definition decided_store :: release_store where
  "decided_store = published (decision_writes (sample_decision Approve)) proposed_store"

definition activated_store :: release_store where
  "activated_store =
     published (W_outcome_intent (intent_of_outcome sample_outcome) # complete_outcome_publication sample_outcome)
       (decided_store\<lparr>rs_active := Inr (Some (sample_revision CHR ''b''))\<rparr>)"

definition rolled_back_store :: release_store where
  "rolled_back_store =
     published (W_rollback_intent (intent_of_rollback sample_rollback) # complete_rollback_publication sample_rollback)
       (activated_store\<lparr>rs_active := Inr (Some (sample_revision CHR ''c''))\<rparr>)"

text \<open>The store of an approval that died after its intent, with serving moved to another revision.\<close>

definition interrupted_store :: release_store where
  "interrupted_store =
     published [W_decision_intent (intent_of_decision (sample_decision Approve))] proposed_store
       \<lparr>rs_active := Inr (Some (sample_revision CHR ''b''))\<rparr>"

lemmas sample_stores =
  published_def proposed_store_def decided_store_def activated_store_def rolled_back_store_def interrupted_store_def
  decision_writes_def empty_store_def write_immutable_def complete_decision_publication_def
  complete_outcome_publication_def complete_rollback_publication_def
  intent_of_decision_def intent_of_proposal_def intent_of_outcome_def intent_of_rollback_def

lemma sample_request_valid:
  "validate_decision_request (dr_proposal_id (decide_request ''approve'')) (dr_proposal_revision (decide_request ''approve''))
     (dr_decision (decide_request ''approve'')) ''click-1'' ''owner'' = Inr Approve"
  by code_simp

lemma sample_intents_ok:
  "proposal_intent_ok (intent_of_proposal sample_analysis sample_proposal)"
  "hex_exact 64 (sample_revision CHR ''b'')" "hex_exact 64 (sample_revision CHR ''c'')"
  by code_simp+

lemma sample_propose:
  "create_or_load_proposal sample_codec (Inr sample_analysis) (empty_store (Inr None)) =
     Inr (sample_proposal, [W_proposal_intent (intent_of_proposal sample_analysis sample_proposal), W_proposal sample_proposal])"
  using sample_intents_ok(1)
  by (simp add: create_or_load_proposal_def empty_store_def load_active_revision_def opt_sha_def recast_error_def
      sample_build_proposal validated_def)

lemma published_steps:
  assumes "op_writes sample_codec op s = Inr ws"
  shows "release_steps sample_codec s (published (take n ws) s)" "release_steps sample_codec s (published ws s)"
proof -
  show *: "release_steps sample_codec s (published (take n ws) s)" for n
  proof -
    obtain e where "perform sample_codec (take n ws) s = (e, published (take n ws) s)"
      by (cases "perform sample_codec (take n ws) s") (simp add: published_def)
    then have "release_step sample_codec s (published (take n ws) s)" using assms by (rule_tac publish)
    then show ?thesis by (rule release_steps.more [OF release_steps.none])
  qed
  show "release_steps sample_codec s (published ws s)" using * [of "length ws"] by simp
qed

lemmas published_reachable = release_reachable_steps [OF _ published_steps(1)] release_reachable_steps [OF _ published_steps(2)]

lemma serving_reachable: "release_reachable c s \<Longrightarrow> release_reachable c (s\<lparr>rs_active := a\<rparr>)"
  by (rule release_reachable_steps, assumption, rule release_steps.more [OF release_steps.none release_step.serving])

lemma proposed_reachable: "release_reachable sample_codec proposed_store"
proof -
  have "release_reachable sample_codec (empty_store (Inr None))"
    by (auto simp: release_reachable_def intro: release_steps.none)
  from published_reachable(2) [OF this, of "Op_create (Inr sample_analysis)"] show ?thesis
    by (simp add: op_writes_def sample_propose proposed_store_def)
qed

lemma proposed_fields:
  "rs_proposals proposed_store (po_proposal_id sample_proposal) = Some sample_proposal"
  "rs_decision_intents proposed_store = (\<lambda>_. None)" "rs_decision_of_proposal proposed_store = (\<lambda>_. None)"
  "rs_decision_of_action proposed_store = (\<lambda>_. None)" "rs_active proposed_store = Inr None"
  by (simp_all add: sample_stores)

lemma sample_decide:
  "apply_release_decision sample_codec evidence_holds sample_code_revision (decide_request ''approve'') proposed_store =
     Inr (sample_decision Approve, decision_writes (sample_decision Approve))"
proof -
  have p: "load_proposal sample_codec proposed_store (dr_proposal_id (decide_request ''approve'')) = Inr sample_proposal"
    using sample_proposal_ok proposed_fields(1) sample_proposal_prefix
    by (simp add: load_proposal_def decide_request_def recast_error_def validated_def)
  have r: "po_proposal_revision sample_proposal = dr_proposal_revision (decide_request ''approve'')"
    "dr_client_action_id (decide_request ''approve'') = ''click-1''" "dr_actor_id (decide_request ''approve'') = ''owner''"
    "po_parent_active_revision sample_proposal = None" "po_code_revision sample_proposal = hex_text 40 CHR ''d''"
    by (simp_all add: sample_proposal_def decide_request_def)
  show ?thesis
    unfolding apply_release_decision_def p r sample_request_valid ebind_simps
    by (simp add: sample_build_decision load_existing_decision_def load_client_action_decision_def proposed_fields
        validate_approval_def load_active_revision_def recast_error_def opt_sha_def sample_code_revision_def evidence_holds_def
        prepare_intent_def decision_writes_def r)
qed

lemma decided_reachable: "release_reachable sample_codec decided_store"
  using published_reachable(2) [OF proposed_reachable, of "Op_decide evidence_holds sample_code_revision (decide_request ''approve'')"]
  by (simp add: op_writes_def sample_decide decided_store_def)

lemma interrupted_reachable: "release_reachable sample_codec interrupted_store"
  using published_reachable(1) [OF proposed_reachable,
      of "Op_decide evidence_holds sample_code_revision (decide_request ''approve'')" _ 1]
  by (simp add: op_writes_def sample_decide interrupted_store_def decision_writes_def serving_reachable)

lemma sample_decide_perform:
  "perform sample_codec (decision_writes (sample_decision Approve)) proposed_store = (None, decided_store)"
  "perform sample_codec (take 2 (decision_writes (sample_decision Approve))) proposed_store =
     (None, published (take 2 (decision_writes (sample_decision Approve))) proposed_store)"
  by (simp_all add: sample_stores)

lemma sample_decide_run:
  "run_plan sample_codec (apply_release_decision sample_codec evidence_holds sample_code_revision (decide_request ''approve''))
     proposed_store = (Inr (sample_decision Approve), decided_store)"
  by (simp add: run_plan_def sample_decide sample_decide_perform)

lemma decided_fields:
  "rs_proposals decided_store (po_proposal_id sample_proposal) = Some sample_proposal"
  "rs_decision_of_proposal decided_store (po_proposal_id sample_proposal) = Some (sample_decision Approve)"
  "rs_decisions decided_store (de_decision_id (sample_decision Approve)) = Some (sample_decision Approve)"
  "rs_outcome_of_proposal decided_store = (\<lambda>_. None)" "rs_outcome_intents decided_store = (\<lambda>_. None)"
  by (simp_all add: sample_stores sample_decision_def)

definition activate_request :: outcome_request where
  "activate_request =
     \<lparr>or_proposal_id = po_proposal_id sample_proposal, or_proposal_revision = sample_hash, or_outcome = ''active'',
      or_validation_receipt = activation_dict, or_active_strategy_revision = Some (sample_revision CHR ''b'')\<rparr>"

lemma sample_activate:
  "record_release_outcome sample_codec activate_request (decided_store\<lparr>rs_active := Inr (Some (sample_revision CHR ''b''))\<rparr>) =
     Inr (sample_outcome, W_outcome_intent (intent_of_outcome sample_outcome) # complete_outcome_publication sample_outcome)"
proof -
  let ?s = "decided_store\<lparr>rs_active := Inr (Some (sample_revision CHR ''b''))\<rparr>"
  have p: "load_proposal sample_codec ?s (po_proposal_id sample_proposal) = Inr sample_proposal"
    using sample_proposal_ok decided_fields(1) sample_proposal_prefix
    by (simp add: load_proposal_def recast_error_def validated_def)
  have ok: "release_decision_ok sample_codec (sample_decision Approve)" "de_proposal_id (sample_decision Approve) = po_proposal_id sample_proposal"
    "de_decision (sample_decision Approve) = Approve"
    using build_decision_fields [OF sample_build_decision(1)] by simp_all
  have d: "load_existing_decision sample_codec ?s (po_proposal_id sample_proposal) = Inr (Some (sample_decision Approve))"
    using ok decided_fields by (simp add: load_existing_decision_def recast_error_def validated_def)
  obtain r where r: "decode_activation_receipt sample_codec (JObj activation_dict) = Some r"
    "ac_strategy_revision r = sample_revision CHR ''b''" "re_parent_active_revision r = None" "binding_matches r sample_proposal"
    using sample_activation_decodes by (auto split: option.splits)
  have v: "validate_validation_receipt sample_codec sample_proposal activation_dict Active (Some (sample_revision CHR ''b'')) ?s = Inr ()"
    using r sample_intents_ok(2)
    by (simp add: validate_validation_receipt_def recast_error_def load_active_revision_def opt_sha_def)
      (simp add: sample_proposal_def)
  have j: "ensure_json_value (JObj activation_dict) = Inr ()" by code_simp
  have q: "or_proposal_id activate_request = po_proposal_id sample_proposal" "or_proposal_revision activate_request = sample_hash"
    "or_outcome activate_request = ''active''" "or_validation_receipt activate_request = activation_dict"
    "or_active_strategy_revision activate_request = Some (sample_revision CHR ''b'')" "po_proposal_revision sample_proposal = sample_hash"
    by (simp_all add: activate_request_def sample_proposal_def)
  show ?thesis
    unfolding record_release_outcome_def q p
    by (simp add: sample_proposal_prefix outcome_of_request_def p d q ok j v lift_exn_def sample_build_outcome
        load_existing_outcome_def decided_fields prepare_intent_def)
qed

lemma activated_reachable: "release_reachable sample_codec activated_store"
  using published_reachable(2) [OF serving_reachable [OF decided_reachable], of "Op_outcome activate_request"]
  by (simp add: op_writes_def sample_activate activated_store_def)

lemma activated_fields:
  "rs_proposals activated_store (po_proposal_id sample_proposal) = Some sample_proposal"
  "rs_decision_of_proposal activated_store (po_proposal_id sample_proposal) = Some (sample_decision Approve)"
  "rs_decisions activated_store (de_decision_id (sample_decision Approve)) = Some (sample_decision Approve)"
  "rs_outcome_of_proposal activated_store (po_proposal_id sample_proposal) = Some sample_outcome"
  "rs_outcomes activated_store (ou_outcome_id sample_outcome) = Some sample_outcome"
  "rs_rollback_of_proposal activated_store = (\<lambda>_. None)" "rs_rollback_intents activated_store = (\<lambda>_. None)"
  "rs_active activated_store = Inr (Some (sample_revision CHR ''b''))"
  by (simp_all add: sample_stores sample_decision_def sample_outcome_def)

definition rollback_request_1 :: rollback_request where
  "rollback_request_1 =
     \<lparr>rq_proposal_id = po_proposal_id sample_proposal, rq_proposal_revision = sample_hash, rq_rollback_receipt = rollback_dict\<rparr>"

lemma sample_roll_back:
  "record_release_rollback sample_codec rollback_request_1 (activated_store\<lparr>rs_active := Inr (Some (sample_revision CHR ''c''))\<rparr>) =
     Inr (sample_rollback, W_rollback_intent (intent_of_rollback sample_rollback) # complete_rollback_publication sample_rollback)"
proof -
  let ?s = "activated_store\<lparr>rs_active := Inr (Some (sample_revision CHR ''c''))\<rparr>"
  have p: "load_proposal sample_codec ?s (po_proposal_id sample_proposal) = Inr sample_proposal"
    using sample_proposal_ok activated_fields(1) sample_proposal_prefix
    by (simp add: load_proposal_def recast_error_def validated_def)
  have ok: "release_decision_ok sample_codec (sample_decision Approve)" "de_proposal_id (sample_decision Approve) = po_proposal_id sample_proposal"
    "de_decision (sample_decision Approve) = Approve"
    using build_decision_fields [OF sample_build_decision(1)] by simp_all
  have d: "load_existing_decision sample_codec ?s (po_proposal_id sample_proposal) = Inr (Some (sample_decision Approve))"
    using ok activated_fields by (simp add: load_existing_decision_def recast_error_def validated_def)
  have oko: "release_outcome_ok sample_codec sample_outcome" "ou_proposal_id sample_outcome = po_proposal_id sample_proposal"
    "ou_lifecycle sample_outcome = Active" "ou_proposal_revision sample_outcome = po_proposal_revision sample_proposal"
    "ou_active_strategy_revision sample_outcome = Some (sample_revision CHR ''b'')"
    using build_outcome_fields [OF sample_build_outcome] by simp_all
  have o': "load_existing_outcome sample_codec ?s (po_proposal_id sample_proposal) = Inr (Some sample_outcome)"
    using oko activated_fields by (simp add: load_existing_outcome_def recast_error_def validated_def)
  obtain r where r: "decode_rollback_receipt sample_codec (JObj rollback_dict) = Some r"
    "ro_from_strategy_revision r = sample_revision CHR ''b''" "ro_strategy_revision r = sample_revision CHR ''c''"
    "build_rollback sample_codec sample_proposal sample_outcome r = Inr sample_rollback"
    using sample_rollback_decodes by (auto split: option.splits)
  have b: "ou_pipeline_id sample_outcome = sl_pipeline_id (po_selected_pipeline sample_proposal)"
    "ou_config_sha256 sample_outcome = sl_config_sha256 (po_selected_pipeline sample_proposal)"
    by (simp_all add: sample_outcome_def sample_proposal_def sample_pipeline_def)
  have v: "validate_rollback_receipt sample_codec sample_proposal sample_outcome rollback_dict = Inr r"
    using r oko b by (simp add: validate_rollback_receipt_def)
  have j: "ensure_json_value (JObj rollback_dict) = Inr ()" by code_simp
  have q: "rq_proposal_id rollback_request_1 = po_proposal_id sample_proposal" "rq_proposal_revision rollback_request_1 = sample_hash"
    "rq_rollback_receipt rollback_request_1 = rollback_dict" "po_proposal_revision sample_proposal = sample_hash"
    by (simp_all add: rollback_request_1_def sample_proposal_def)
  show ?thesis
    unfolding record_release_rollback_def q p
    by (simp add: sample_proposal_prefix p d o' q ok oko j v r lift_exn_def load_existing_rollback_def activated_fields
        load_active_revision_def recast_error_def opt_sha_def sample_intents_ok prepare_intent_def)
qed

lemma roll_back_steps: "release_steps sample_codec (activated_store\<lparr>rs_active := Inr (Some (sample_revision CHR ''c''))\<rparr>) rolled_back_store"
  using published_steps(2) [of "Op_rollback rollback_request_1"]
  by (simp add: op_writes_def sample_roll_back rolled_back_store_def)

lemma rolled_back_reachable: "release_reachable sample_codec rolled_back_store"
  by (rule release_reachable_steps [OF serving_reachable [OF activated_reachable] roll_back_steps])

lemma rolled_back_fields:
  "rs_proposals rolled_back_store (po_proposal_id sample_proposal) = Some sample_proposal"
  "rs_decision_of_proposal rolled_back_store (po_proposal_id sample_proposal) = Some (sample_decision Approve)"
  "rs_outcome_of_proposal rolled_back_store (po_proposal_id sample_proposal) = Some sample_outcome"
  "rs_rollback_of_proposal rolled_back_store (po_proposal_id sample_proposal) = Some sample_rollback"
  "rs_active rolled_back_store = Inr (Some (sample_revision CHR ''c''))"
  by (simp_all add: sample_stores sample_decision_def sample_outcome_def sample_rollback_def)

lemma interrupted_fields:
  "rs_decision_intents interrupted_store (po_proposal_id sample_proposal) = Some (intent_of_decision (sample_decision Approve))"
  "rs_decision_of_proposal interrupted_store (po_proposal_id sample_proposal) = None"
  "rs_proposals interrupted_store (po_proposal_id sample_proposal) = Some sample_proposal"
  "rs_active interrupted_store = Inr (Some (sample_revision CHR ''b''))"
  by (simp_all add: sample_stores sample_decision_def)

end
