(* ===== verification/ReleaseProperties.thy ===== *)
theory ReleaseProperties
  imports ReleaseSamples
begin

text \<open>
  The properties of the release control plane: published records never change, every stage rests on the
  stage before it, the lifecycle that is shown is the one the records and the serving pointer support,
  decisions are idempotent for ever and survive a crash at any point, and the one way in which a crash
  can block a proposal.
\<close>

subsection \<open>Loading from a sound store\<close>

lemma load_existing_decision_sound:
  "release_inv c s \<Longrightarrow> load_existing_decision c s i = Inr (rs_decision_of_proposal s i)"
  by (cases "rs_decision_of_proposal s i")
     (auto simp: load_existing_decision_def release_inv_def decision_sound_def recast_error_def validated_def)

lemma load_client_action_decision_sound:
  assumes "release_inv c s"
  shows "load_client_action_decision c s a = Inr (rs_decision_of_action s (action_file c a))"
proof (cases "rs_decision_of_action s (action_file c a)")
  case (Some d)
  with assms have "rs_decision_of_proposal s (de_proposal_id d) = Some d" by (auto simp: release_inv_def action_sound_def)
  with assms have "release_decision_ok c d" by (auto simp: release_inv_def decision_sound_def)
  with Some show ?thesis by (simp add: load_client_action_decision_def recast_error_def validated_def)
qed (simp add: load_client_action_decision_def)



lemma load_proposal_sound:
  assumes "release_inv c s" "rs_proposals s i = Some p"
  shows "load_proposal c s i = Inr p"
proof -
  have "proposal_sound c i p" using assms by (simp add: release_inv_def)
  then have "proposal_ok c p" "po_proposal_id p = i" by (simp_all add: proposal_sound_def)
  then show ?thesis
    using assms(2) by (auto simp: load_proposal_def proposal_ok_def recast_error_def validated_def)
qed


subsection \<open>Immutability and soundness of the records\<close>

text \<open>
  C33. Whatever operations run, complete, fail or are interrupted, and wherever serving moves its pointer:
  a published proposal, decision, outcome or rollback stays as it is.
\<close>

theorem release_records_immutable:
  assumes "release_steps c s t"
  shows "(\<forall>i p. rs_proposals s i = Some p \<longrightarrow> rs_proposals t i = Some p) \<and>
    (\<forall>i d. rs_decision_of_proposal s i = Some d \<longrightarrow> rs_decision_of_proposal t i = Some d) \<and>
    (\<forall>k d. rs_decision_of_action s k = Some d \<longrightarrow> rs_decision_of_action t k = Some d) \<and>
    (\<forall>i x. rs_outcome_of_proposal s i = Some x \<longrightarrow> rs_outcome_of_proposal t i = Some x) \<and>
    (\<forall>i y. rs_rollback_of_proposal s i = Some y \<longrightarrow> rs_rollback_of_proposal t i = Some y)"
  using extends_Some [OF release_steps_extends [OF assms]] by blast

theorem release_records_immutable_witness:
  "rs_outcome_of_proposal rolled_back_store (po_proposal_id sample_proposal) = Some sample_outcome"
proof -
  have "rs_outcome_of_proposal (activated_store\<lparr>rs_active := Inr (Some (sample_revision CHR ''c''))\<rparr>)
      (po_proposal_id sample_proposal) = Some sample_outcome"
    by (simp add: activated_fields)
  then show ?thesis using release_records_immutable [OF roll_back_steps] by blast
qed

text \<open>
  C34. In every reachable store an outcome belongs to a proposal that passed the release gate and that the
  Owner approved, for the very revision that was approved; an activation names its strategy revision; and a
  rollback leaves the revision that the recorded activation of its proposal made active.
\<close>

theorem release_chain_sound:
  assumes "release_reachable c s"
  shows "(\<forall>i d. rs_decision_of_proposal s i = Some d \<longrightarrow>
      (\<exists>p. rs_proposals s i = Some p \<and> gs_passed (po_release_gate p) \<and> de_proposal_revision d = po_proposal_revision p)) \<and>
    (\<forall>i x. rs_outcome_of_proposal s i = Some x \<longrightarrow>
      (\<exists>d. rs_decision_of_proposal s i = Some d \<and> de_decision d = Approve \<and> ou_decision_id x = de_decision_id d \<and>
         ou_proposal_revision x = de_proposal_revision d \<and>
         (ou_lifecycle x = Active \<longleftrightarrow> ou_active_strategy_revision x \<noteq> None))) \<and>
    (\<forall>i y. rs_rollback_of_proposal s i = Some y \<longrightarrow>
      (\<exists>x. rs_outcome_of_proposal s i = Some x \<and> ou_lifecycle x = Active \<and> rb_outcome_id y = ou_outcome_id x \<and>
         ou_active_strategy_revision x = Some (rb_from_strategy_revision y)))"
proof -
  note inv = release_reachable_inv [OF assms]
  have dec: "\<exists>p. rs_proposals s i = Some p \<and> gs_passed (po_release_gate p) \<and> de_proposal_revision d = po_proposal_revision p"
    if d: "rs_decision_of_proposal s i = Some d" for i d
  proof -
    obtain p where p: "rs_proposals s i = Some p" "build_decision c p (de_decision d) (de_client_action_id d) (de_actor_id d) = Inr d"
      by (rule decision_soundE [OF release_inv_dest(2) [OF inv d]])
    moreover have "proposal_ok c p" using release_inv_dest(1) [OF inv p(1)] by simp
    ultimately show ?thesis using build_decision_fields(3) [OF p(2)] by (auto simp: proposal_ok_def)
  qed
  have out: "\<exists>d. rs_decision_of_proposal s i = Some d \<and> de_decision d = Approve \<and> ou_decision_id x = de_decision_id d \<and>
         ou_proposal_revision x = de_proposal_revision d \<and> (ou_lifecycle x = Active \<longleftrightarrow> ou_active_strategy_revision x \<noteq> None)"
    if x: "rs_outcome_of_proposal s i = Some x" for i x
  proof -
    obtain p d where pd: "rs_proposals s i = Some p" "rs_decision_of_proposal s i = Some d" "de_decision d = Approve"
      "build_outcome c p d (ou_lifecycle x) (ou_validation_receipt x) (ou_active_strategy_revision x) = Inr x"
      and ok: "release_outcome_ok c x"
      by (rule outcome_soundE [OF release_inv_dest(4) [OF inv x]])
    then show ?thesis using build_outcome_fields [OF pd(4)] dec [OF pd(2)] by (auto simp: release_outcome_ok_def)
  qed
  have rb: "\<exists>x. rs_outcome_of_proposal s i = Some x \<and> ou_lifecycle x = Active \<and> rb_outcome_id y = ou_outcome_id x \<and>
         ou_active_strategy_revision x = Some (rb_from_strategy_revision y)"
    if y: "rs_rollback_of_proposal s i = Some y" for i y
  proof -
    obtain p x r where "rs_outcome_of_proposal s i = Some x" "ou_lifecycle x = Active"
      "Some (rb_from_strategy_revision y) = ou_active_strategy_revision x" and b: "build_rollback c p x r = Inr y"
      by (rule rollback_soundE [OF release_inv_dest(5) [OF inv y]])
    then show ?thesis using build_rollback_fields(6) [OF b] by auto
  qed
  show ?thesis using dec out rb by blast
qed

theorem release_chain_sound_witness:
  "gs_passed (po_release_gate sample_proposal) \<and>
   (\<exists>x. rs_outcome_of_proposal rolled_back_store (po_proposal_id sample_proposal) = Some x \<and> ou_lifecycle x = Active \<and>
      ou_active_strategy_revision x = Some (rb_from_strategy_revision sample_rollback))"
  using release_chain_sound [OF rolled_back_reachable] rolled_back_fields(1,2,4) by (metis option.inject)




subsection \<open>Decisions\<close>

text \<open>What a request finds about its proposal and its client action, and what it must pass first.\<close>

definition own_decision :: "release_store \<Rightarrow> decision_request \<Rightarrow> release_decision option" where
  "own_decision s q = rs_decision_of_proposal s (dr_proposal_id q)"

definition action_decision :: "codec \<Rightarrow> release_store \<Rightarrow> decision_request \<Rightarrow> release_decision option" where
  "action_decision c s q = rs_decision_of_action s (action_file c (dr_client_action_id q))"

definition accepted_request :: "codec \<Rightarrow> release_store \<Rightarrow> decision_request \<Rightarrow> owner_decision \<Rightarrow> release_proposal \<Rightarrow> release_decision \<Rightarrow> bool" where
  "accepted_request c s q dec p d =
     (validate_decision_request (dr_proposal_id q) (dr_proposal_revision q) (dr_decision q) (dr_client_action_id q)
        (dr_actor_id q) = Inr dec \<and>
      rs_proposals s (dr_proposal_id q) = Some p \<and> po_proposal_id p = dr_proposal_id q \<and>
      po_proposal_revision p = dr_proposal_revision q \<and>
      build_decision c p dec (dr_client_action_id q) (dr_actor_id q) = Inr d)"

lemma load_proposal_iff:
  assumes "release_inv c s"
  shows "load_proposal c s i = Inr p \<longleftrightarrow> rs_proposals s i = Some p \<and> po_proposal_id p = i"
  using load_proposal_sound [OF assms] load_proposal_Inr by blast

text \<open>The end of the operation: the known decision is completed, or a new one is prepared and published.\<close>

lemma decision_tail_Inr:
  "(if known then Inr (x, if half then full else [])
    else ebind appr (\<lambda>_. ebind prep (\<lambda>ws. Inr (x, ws @ full)))) = Inr (d, ws) \<longleftrightarrow>
   x = d \<and> (if known then ws = (if half then full else [])
            else appr = Inr () \<and> (\<exists>iw. prep = Inr iw \<and> ws = iw @ full))"
  by auto

lemma set_option_all_eq: "(\<forall>x\<in>set_option a \<union> set_option b. x = d) \<longleftrightarrow> a \<in> {None, Some d} \<and> b \<in> {None, Some d}"
  by (cases a; cases b) auto

lemma decision_plan_iff:
  assumes "release_inv c s"
  shows "apply_release_decision c ev code_rev q s = Inr (d, ws) \<longleftrightarrow>
    (\<exists>dec p. accepted_request c s q dec p d \<and> own_decision s q \<in> {None, Some d} \<and> action_decision c s q \<in> {None, Some d} \<and>
      (if own_decision s q \<noteq> None \<or> action_decision c s q \<noteq> None
       then ws = (if own_decision s q = None \<or> action_decision c s q = None then complete_decision_publication d else [])
       else (if dec = Approve then validate_approval ev code_rev s p else Inr ()) = Inr () \<and>
         (\<exists>iw. prepare_intent ''decision_idempotency_conflict'' decision_intent_ok (rs_decision_intents s (po_proposal_id p))
            (intent_of_decision d) (W_decision_intent (intent_of_decision d)) = Inr iw \<and>
          ws = iw @ complete_decision_publication d)))"
  unfolding apply_release_decision_def accepted_request_def own_decision_def action_decision_def
  by (simp only: ebind_Inr_iff load_existing_decision_sound [OF assms] load_client_action_decision_sound [OF assms]
      load_proposal_iff [OF assms] sum.inject require_Inr_iff decision_tail_Inr set_option_all_eq) blast

lemma run_plan_Inr:
  "run_plan c plan s = (Inr x, s') \<longleftrightarrow> (\<exists>ws. plan s = Inr (x, ws) \<and> perform c ws s = (None, s'))"
  by (auto simp: run_plan_def split: sum.splits prod.splits option.splits)

lemma perform_append:
  "perform c (us @ vs) s = (case perform c us s of (None, t) \<Rightarrow> perform c vs t | (Some e, t) \<Rightarrow> (Some e, t))"
  by (induction us arbitrary: s) (auto split: sum.splits)

lemma decision_publication_pointers:
  assumes "perform c (iw @ complete_decision_publication d) s = (None, s')"
  shows "rs_decision_of_proposal s' (de_proposal_id d) = Some d"
    "rs_decision_of_action s' (action_file c (de_client_action_id d)) = Some d"
proof -
  obtain t where "perform c (complete_decision_publication d) t = (None, s')"
    using assms by (auto simp: perform_append split: prod.splits option.splits)
  then show "rs_decision_of_proposal s' (de_proposal_id d) = Some d"
    "rs_decision_of_action s' (action_file c (de_client_action_id d)) = Some d"
    by (auto simp: complete_decision_publication_def split: sum.splits dest!: write_immutable_extends)
qed

lemma accepted_request_mono: "extends s t \<Longrightarrow> accepted_request c s q dec p d \<Longrightarrow> accepted_request c t q dec p d"
  using extends_Some(1) by (auto simp: accepted_request_def)

lemma accepted_request_fields:
  assumes "accepted_request c s q dec p d"
  shows "de_proposal_id d = dr_proposal_id q" "de_client_action_id d = dr_client_action_id q" "release_decision_ok c d"
  using assms build_decision_fields [of c p dec "dr_client_action_id q" "dr_actor_id q" d]
  by (auto simp: accepted_request_def)

lemma decide_step:
  "apply_release_decision c ev code_rev q s = Inr (d, ws) \<Longrightarrow> perform c (take n ws) s = (e, s') \<Longrightarrow> release_step c s s'"
  "apply_release_decision c ev code_rev q s = Inr (d, ws) \<Longrightarrow> perform c ws s = (e, s') \<Longrightarrow> release_step c s s'"
  using publish [of c "Op_decide ev code_rev q" s ws n e s'] publish [of c "Op_decide ev code_rev q" s ws "length ws" e s']
  by (simp_all add: op_writes_def)

text \<open>
  C36. A decision is idempotent for ever: once a request was answered, the same request gets the same answer
  after any later operations, writes nothing, and does not depend on the serving pointer, on the clean code
  revision or on whether the evidence still re-validates.
\<close>

theorem decision_replays_forever:
  assumes "release_reachable c s" and "run_plan c (apply_release_decision c ev code_rev q) s = (Inr d, s')"
    and "release_steps c s' t"
  shows "run_plan c (apply_release_decision c ev' code_rev' q) t = (Inr d, t)"
proof -
  note inv = release_reachable_inv [OF assms(1)]
  obtain ws where plan: "apply_release_decision c ev code_rev q s = Inr (d, ws)" and pf: "perform c ws s = (None, s')"
    using assms(2) by (auto simp: run_plan_Inr)
  obtain dec p where acc: "accepted_request c s q dec p d" and ws: "ws = [] \<and> own_decision s q = Some d \<and> action_decision c s q = Some d
      \<or> (\<exists>iw. ws = iw @ complete_decision_publication d)"
    using plan unfolding decision_plan_iff [OF inv] by (auto split: if_splits)
  have step: "release_step c s s'" using decide_step [OF plan] pf by blast
  then have ext: "extends s s'" by (rule release_step_extends)
  have "own_decision s' q = Some d \<and> action_decision c s' q = Some d"
    using ws pf decision_publication_pointers [of c _ d s s'] accepted_request_fields [OF acc]
    by (auto simp: own_decision_def action_decision_def)
  then have ptr: "own_decision t q = Some d" "action_decision c t q = Some d"
    using extends_Some [OF release_steps_extends [OF assms(3)]] by (auto simp: own_decision_def action_decision_def)
  have "accepted_request c t q dec p d"
    by (rule accepted_request_mono [OF extends_trans [OF ext release_steps_extends [OF assms(3)]] acc])
  moreover have "release_inv c t" using release_step_inv [OF step inv] assms(3) by (blast intro: release_steps_inv)
  ultimately have "apply_release_decision c ev' code_rev' q t = Inr (d, [])"
    using ptr by (auto simp: decision_plan_iff)
  then show ?thesis by (simp add: run_plan_def)
qed

theorem decision_replays_forever_witness:
  "run_plan sample_codec (apply_release_decision sample_codec (\<lambda>_. Inl (Release ''evidence_changed'')) (Inl RuntimeError)
       (decide_request ''approve'')) (decided_store\<lparr>rs_active := Inr (Some (sample_revision CHR ''b''))\<rparr>) =
     (Inr (sample_decision Approve), decided_store\<lparr>rs_active := Inr (Some (sample_revision CHR ''b''))\<rparr>)"
  by (rule decision_replays_forever [OF proposed_reachable sample_decide_run])
     (rule release_steps.more [OF release_steps.none release_step.serving])

subsection \<open>Crash recovery\<close>

text \<open>A file that has been written keeps the content, so writing it again does nothing.\<close>

definition written :: "codec \<Rightarrow> release_store \<Rightarrow> release_write \<Rightarrow> bool" where
  "written c s w = (apply_write c w s = Inr s)"

lemma write_immutable_again:
  "write_immutable m k v = Inr m' \<Longrightarrow> m' \<subseteq>\<^sub>m files \<Longrightarrow> write_immutable files k v = Inr files"
  by (auto simp: write_immutable_def dest!: map_le_Some [of _ _ k v] split: option.splits if_splits)

lemma apply_write_again:
  assumes "apply_write c w s = Inr s1" and "extends s1 t"
  shows "written c t w"
  using assms unfolding written_def
  by (cases w) (simp_all only: extends_def apply_write.simps ebind_Inr_iff, auto dest: write_immutable_again)

lemma perform_written: "perform c us s = (None, t) \<Longrightarrow> extends t u \<Longrightarrow> w \<in> set us \<Longrightarrow> written c u w"
proof (induction us arbitrary: s)
  case (Cons v us)
  from Cons.prems(1) obtain s1 where s1: "apply_write c v s = Inr s1" "perform c us s1 = (None, t)"
    by (auto split: sum.splits)
  then show ?case
    using Cons.IH [OF s1(2) Cons.prems(2)] Cons.prems(2,3) apply_write_again [OF s1(1)] perform_extends [OF s1(2)]
    by (auto intro: extends_trans)
qed simp

lemma perform_skip: "(\<And>w. w \<in> set us \<Longrightarrow> written c s w) \<Longrightarrow> perform c (us @ vs) s = perform c vs s"
  by (induction us) (auto simp: written_def)

text \<open>Restarting a list of writes after some of them were done ends in the same store.\<close>

lemma perform_restart:
  assumes "perform c ws s = (None, s')" and "perform c (take n ws) s = (None, s1)"
  shows "perform c ws s1 = (None, s')"
proof -
  have "perform c (take n ws @ drop n ws) s1 = perform c (drop n ws) s1"
    by (rule perform_skip) (use assms(2) in \<open>auto intro: perform_written\<close>)
  moreover have "perform c (drop n ws) s1 = (None, s')"
    using assms perform_append [of c "take n ws" "drop n ws" s] by simp
  ultimately show ?thesis by simp
qed

lemma decision_intent_of_ok: "release_decision_ok c d \<Longrightarrow> decision_intent_ok (intent_of_decision d)"
  by (simp add: release_decision_ok_def decision_intent_ok_def intent_of_decision_def)

lemma written_intent:
  assumes "written c s (W_decision_intent (intent_of_decision d))"
  shows "rs_decision_intents s (de_proposal_id d) = Some (intent_of_decision d)"
proof -
  let ?i = "intent_of_decision d"
  obtain m where m: "write_immutable (rs_decision_intents s) (di_proposal_id ?i) ?i = Inr m" "s\<lparr>rs_decision_intents := m\<rparr> = s"
    using assms by (auto simp: written_def)
  have "m = rs_decision_intents (s\<lparr>rs_decision_intents := m\<rparr>)" by simp
  then have "m = rs_decision_intents s" unfolding m(2) .
  then show ?thesis using write_immutable_extends [OF m(1)] by (simp add: intent_of_decision_def)
qed

lemma decision_publication_fits:
  assumes "perform c (complete_decision_publication d) t = (None, s')"
  shows "rs_decision_of_proposal t (de_proposal_id d) \<in> {None, Some d}"
    "rs_decision_of_action t (action_file c (de_client_action_id d)) \<in> {None, Some d}"
  using assms by (auto simp: complete_decision_publication_def write_immutable_def split: option.splits if_splits)

lemma extends_None:
  assumes "extends s t"
  shows "rs_decision_of_proposal t i = None \<Longrightarrow> rs_decision_of_proposal s i = None"
    "rs_decision_of_action t k = None \<Longrightarrow> rs_decision_of_action s k = None"
  using extends_Some(5,6) [OF assms] by (metis option.exhaust)+

text \<open>
  The request at a store where only the publication of its decision may be missing: it publishes it, or finds
  it complete.
\<close>

lemma decision_resumes:
  assumes inv: "release_inv c t" and acc: "accepted_request c t q dec p d"
    and rest: "perform c (complete_decision_publication d) t = (None, s')"
    and fresh: "own_decision t q = None \<Longrightarrow> action_decision c t q = None \<Longrightarrow>
      (if dec = Approve then validate_approval ev code_rev t p else Inr ()) = Inr () \<and>
      rs_decision_intents t (po_proposal_id p) = Some (intent_of_decision d)"
  shows "run_plan c (apply_release_decision c ev code_rev q) t = (Inr d, s')"
proof -
  note f = accepted_request_fields [OF acc]
  have ptr: "own_decision t q \<in> {None, Some d}" "action_decision c t q \<in> {None, Some d}"
    using decision_publication_fits [OF rest] f by (simp_all add: own_decision_def action_decision_def)
  have plan: "apply_release_decision c ev code_rev q t = Inr (d, ws) \<Longrightarrow> perform c ws t = (None, s') \<Longrightarrow> ?thesis" for ws
    by (simp add: run_plan_def)
  consider "own_decision t q = Some d" "action_decision c t q = Some d"
    | "own_decision t q \<noteq> None \<or> action_decision c t q \<noteq> None" "own_decision t q = None \<or> action_decision c t q = None"
    | "own_decision t q = None" "action_decision c t q = None"
    by (cases "own_decision t q"; cases "action_decision c t q") (use ptr in auto)
  then show ?thesis
  proof cases
    case 1
    then have "decision_sound c t (de_proposal_id d) d"
      using release_inv_dest(2) [OF inv, of "dr_proposal_id q" d] f by (simp add: own_decision_def)
    then have "perform c (complete_decision_publication d) t = (None, t)"
      using 1 f by (auto simp: complete_decision_publication_def decision_sound_def own_decision_def action_decision_def
          write_immutable_def)
    with rest have "s' = t" by simp
    moreover have "apply_release_decision c ev code_rev q t = Inr (d, [])"
      unfolding decision_plan_iff [OF inv] using acc 1 by auto
    ultimately show ?thesis using plan by simp
  next
    case 2
    have "apply_release_decision c ev code_rev q t = Inr (d, complete_decision_publication d)"
      unfolding decision_plan_iff [OF inv] using acc ptr 2 by (intro exI [of _ dec] exI [of _ p]) auto
    then show ?thesis using plan rest by simp
  next
    case 3
    have "apply_release_decision c ev code_rev q t = Inr (d, complete_decision_publication d)"
      unfolding decision_plan_iff [OF inv] using acc 3 fresh decision_intent_of_ok [OF f(3)]
      by (intro exI [of _ dec] exI [of _ p]) (auto simp: prepare_intent_Inr)
    then show ?thesis using plan rest by simp
  qed
qed

text \<open>A request without any known decision has passed the approval checks, and its intent is stored or comes first.\<close>

definition decision_prepared ::
    "codec \<Rightarrow> (release_proposal \<Rightarrow> release_exn + unit) \<Rightarrow> exn + string \<Rightarrow> release_store \<Rightarrow> decision_request \<Rightarrow>
     owner_decision \<Rightarrow> release_proposal \<Rightarrow> release_decision \<Rightarrow> release_write list \<Rightarrow> bool" where
  "decision_prepared c ev code_rev s q dec p d iw =
     (own_decision s q = None \<and> action_decision c s q = None \<longrightarrow>
      (if dec = Approve then validate_approval ev code_rev s p else Inr ()) = Inr () \<and>
      (iw = [] \<longrightarrow> rs_decision_intents s (po_proposal_id p) = Some (intent_of_decision d)))"

lemma decision_plan_shape:
  assumes "release_inv c s" and "apply_release_decision c ev code_rev q s = Inr (d, ws)" and "ws \<noteq> []"
  obtains dec p iw where "accepted_request c s q dec p d" "ws = iw @ complete_decision_publication d"
    "iw = [] \<or> iw = [W_decision_intent (intent_of_decision d)]" "decision_prepared c ev code_rev s q dec p d iw"
proof -
  obtain dec p where acc: "accepted_request c s q dec p d"
    and plan: "if own_decision s q \<noteq> None \<or> action_decision c s q \<noteq> None
       then ws = (if own_decision s q = None \<or> action_decision c s q = None then complete_decision_publication d else [])
       else (if dec = Approve then validate_approval ev code_rev s p else Inr ()) = Inr () \<and>
         (\<exists>iw. prepare_intent ''decision_idempotency_conflict'' decision_intent_ok (rs_decision_intents s (po_proposal_id p))
            (intent_of_decision d) (W_decision_intent (intent_of_decision d)) = Inr iw \<and>
          ws = iw @ complete_decision_publication d)"
    using assms(2) unfolding decision_plan_iff [OF assms(1)] by blast
  have "\<exists>iw. ws = iw @ complete_decision_publication d \<and> (iw = [] \<or> iw = [W_decision_intent (intent_of_decision d)]) \<and>
      decision_prepared c ev code_rev s q dec p d iw"
    using plan assms(3) unfolding decision_prepared_def
    by (cases "own_decision s q \<noteq> None \<or> action_decision c s q \<noteq> None") (auto simp: prepare_intent_Inr split: if_splits)
  then show ?thesis using that acc by blast
qed

lemma decision_still_prepared:
  assumes "decision_prepared c ev code_rev s q dec p d iw" and ext: "extends s t" and "rs_active t = rs_active s"
    and "\<And>w. w \<in> set iw \<Longrightarrow> written c t w" and "iw = [] \<or> iw = [W_decision_intent (intent_of_decision d)]"
    and "de_proposal_id d = po_proposal_id p" and "own_decision t q = None" and "action_decision c t q = None"
  shows "(if dec = Approve then validate_approval ev code_rev t p else Inr ()) = Inr () \<and>
    rs_decision_intents t (po_proposal_id p) = Some (intent_of_decision d)"
proof -
  have f: "(if dec = Approve then validate_approval ev code_rev s p else Inr ()) = Inr ()"
    "iw = [] \<Longrightarrow> rs_decision_intents s (po_proposal_id p) = Some (intent_of_decision d)"
    using assms(1,7,8) extends_None [OF ext] by (simp_all add: decision_prepared_def own_decision_def action_decision_def)
  have "validate_approval ev code_rev t p = validate_approval ev code_rev s p"
    using assms(3) by (simp add: validate_approval_def load_active_revision_def)
  moreover have "rs_decision_intents t (po_proposal_id p) = Some (intent_of_decision d)"
  proof (cases "iw = []")
    case True
    then show ?thesis using f(2) extends_Some(3) [OF ext] by simp
  next
    case False
    then have "written c t (W_decision_intent (intent_of_decision d))" using assms(4,5) by auto
    then show ?thesis using written_intent [of c t d] assms(6) by simp
  qed
  ultimately show ?thesis using f(1) by (cases "dec = Approve") simp_all
qed

text \<open>
  C37. A decision survives a crash at any point: if an operation would have succeeded but only its first \<open>n\<close>
  files were published, then the same request, sent again to what is left, succeeds with the same decision
  and ends in exactly the store that the uninterrupted operation would have reached.
\<close>

theorem decision_crash_recovery:
  assumes "release_reachable c s" and "apply_release_decision c ev code_rev q s = Inr (d, ws)"
    and "perform c ws s = (None, s')" and "perform c (take n ws) s = (None, s1)"
  shows "run_plan c (apply_release_decision c ev code_rev q) s1 = (Inr d, s')"
proof (cases "n = 0 \<or> ws = []")
  case True
  then show ?thesis using assms(2-4) by (auto simp: run_plan_def)
next
  case False
  note inv = release_reachable_inv [OF assms(1)]
  have step: "release_step c s s1" using decide_step(1) [OF assms(2,4)] .
  note ext = release_step_extends [OF step]
  from False have "ws \<noteq> []" by simp
  then obtain dec p iw where acc: "accepted_request c s q dec p d" and ws: "ws = iw @ complete_decision_publication d"
    and iw: "iw = [] \<or> iw = [W_decision_intent (intent_of_decision d)]" and fresh: "decision_prepared c ev code_rev s q dec p d iw"
    by (rule decision_plan_shape [OF inv assms(2)])
  have "set iw \<subseteq> set (take n ws)" using iw False by (cases n) (auto simp: ws)
  then have old: "written c s1 w" if "w \<in> set iw" for w
    using that by (blast intro: perform_written [OF assms(4) extends_refl])
  have rest: "perform c (complete_decision_publication d) s1 = (None, s')"
    using perform_restart [OF assms(3,4)] perform_skip [of iw c s1 "complete_decision_publication d"] old ws by simp
  have "rs_active s1 = rs_active s" using perform_extends [OF assms(4)] by simp
  then show ?thesis
    using decision_resumes [OF release_step_inv [OF step inv] accepted_request_mono [OF ext acc] rest]
      decision_still_prepared [OF fresh ext _ old] iw acc accepted_request_fields(1) [OF acc]
    by (auto simp: accepted_request_def)
qed

theorem decision_crash_recovery_witness:
  "run_plan sample_codec (apply_release_decision sample_codec evidence_holds sample_code_revision (decide_request ''approve''))
     (published (take 2 (decision_writes (sample_decision Approve))) proposed_store) = (Inr (sample_decision Approve), decided_store)"
  by (rule decision_crash_recovery [OF proposed_reachable sample_decide, of _ 2])
     (simp_all add: sample_decide_perform)

subsection \<open>A blocked proposal\<close>

text \<open>
  C38. An interrupted approval can block its proposal: when only the intent of an approval was published and
  serving has since moved away from the parent revision of the proposal, every decision on the proposal is
  refused and leaves the store as it is. An approval no longer fits the serving pointer, and a rejection
  collides with the intent.
\<close>

theorem interrupted_approval_blocks:
  assumes "release_reachable c s" and "rs_decision_intents s i = Some intent" and "di_decision intent = Approve"
    and "rs_decision_of_proposal s i = None" and "rs_proposals s i = Some p"
    and "rs_active s = Inr a" and "a \<noteq> po_parent_active_revision p" and "dr_proposal_id q = i"
  shows "\<exists>e. run_plan c (apply_release_decision c ev code_rev q) s = (Inl e, s)"
proof (cases "apply_release_decision c ev code_rev q s")
  case (Inr r)
  note inv = release_reachable_inv [OF assms(1)]
  obtain d ws where plan: "apply_release_decision c ev code_rev q s = Inr (d, ws)" using Inr by (cases r) auto
  have own: "own_decision s q = None" using assms(4,8) by (simp add: own_decision_def)
  obtain dec p' where acc: "accepted_request c s q dec p' d" and act: "action_decision c s q \<in> {None, Some d}"
    and rest: "if own_decision s q \<noteq> None \<or> action_decision c s q \<noteq> None
       then ws = (if own_decision s q = None \<or> action_decision c s q = None then complete_decision_publication d else [])
       else (if dec = Approve then validate_approval ev code_rev s p' else Inr ()) = Inr () \<and>
         (\<exists>iw. prepare_intent ''decision_idempotency_conflict'' decision_intent_ok (rs_decision_intents s (po_proposal_id p'))
            (intent_of_decision d) (W_decision_intent (intent_of_decision d)) = Inr iw \<and>
          ws = iw @ complete_decision_publication d)"
    using plan unfolding decision_plan_iff [OF inv] by blast
  have "action_decision c s q = None"
  proof (rule ccontr)
    assume "action_decision c s q \<noteq> None"
    with act have "rs_decision_of_action s (action_file c (dr_client_action_id q)) = Some d" by (auto simp: action_decision_def)
    from release_inv_dest(3) [OF inv this] show False
      using accepted_request_fields(1) [OF acc] assms(4,8) by (simp add: action_sound_def)
  qed
  with rest own have r: "(if dec = Approve then validate_approval ev code_rev s p' else Inr ()) = Inr ()"
    "rs_decision_intents s (po_proposal_id p') \<in> {None, Some (intent_of_decision d)}"
    by (auto simp: prepare_intent_Inr)
  have p': "p' = p" "po_proposal_id p = i" and dec: "de_decision d = dec"
    using acc assms(5,8) build_decision_fields(4) [of c p' dec] by (auto simp: accepted_request_def)
  have "dec = Approve" using r(2) assms(2,3) p' dec by (auto simp: intent_of_decision_def)
  then show ?thesis using r(1) p' assms(6,7) by (simp add: validate_approval_def load_active_revision_def)
qed (simp add: run_plan_def)

theorem interrupted_approval_blocks_witness:
  "\<exists>e. run_plan sample_codec (apply_release_decision sample_codec evidence_holds sample_code_revision (decide_request ''reject''))
     interrupted_store = (Inl e, interrupted_store)"
  by (rule interrupted_approval_blocks [OF interrupted_reachable interrupted_fields(1) _ interrupted_fields(2,3,4)])
     (simp_all add: intent_of_decision_def sample_decision_def sample_proposal_def decide_request_def)

end
