(* ===== verification/DataSplits.thy ===== *)
theory DataSplits
  imports Ranking
begin

text \<open>
  \<^verbatim>\<open>src/search_quality/data/splits.py\<close>: the assignment of queries to train, dev and test by the normalised
  text, and the smoke profile inside dev. Dictionaries keep their insertion order as association lists. The
  Unicode tables behind NFKC normalisation and \<^verbatim>\<open>str.casefold\<close> are the parameter \<open>fold_text\<close>, SHA-256
  is the field of the codec. The lemmas describe the groups as a function of the set of queries.
\<close>

subsection \<open>Queries and groups\<close>

datatype split_exn = SplitContractError | SplitPython exn

record query_identity =
  qi_query_id :: int
  qi_query_text :: ustring
  qi_locale :: ustring
  qi_origin_split :: ustring

type_synonym group_key = "ustring \<times> ustring"

record split_plan =
  sp_assignments :: "(int \<times> string) list"
  sp_smoke_query_ids :: "int set"
  sp_normalized_queries :: "(int \<times> ustring) list"

text \<open>\<^verbatim>\<open>str.split()\<close>: the maximal runs of characters that are not white space.\<close>

fun split_words :: "ustring \<Rightarrow> ustring \<Rightarrow> ustring list" where
  "split_words acc [] = (if acc = [] then [] else [acc])"
| "split_words acc (c # cs) =
     (if \<not> whitespace c then split_words (acc @ [c]) cs
      else if acc = [] then split_words [] cs
      else acc # split_words [] cs)"

definition normalize_query :: "(ustring \<Rightarrow> ustring) \<Rightarrow> ustring \<Rightarrow> ustring" where
  "normalize_query fold_text t = join_space (split_words [] (fold_text t))"

definition stable_score :: "codec \<Rightarrow> ustring \<Rightarrow> ustring \<Rightarrow> ustring \<Rightarrow> split_exn + string" where
  "stable_score c seed locale query_key =
     (case utf8 (seed @ 0 # locale @ 0 # query_key) of
        Inl e \<Rightarrow> Inl (SplitPython e)
      | Inr payload \<Rightarrow> Inr (cd_sha c payload))"

text \<open>One query: its checks and its canonical form, which must agree with an earlier query of the same number.\<close>

definition canonical_query :: "ustring \<Rightarrow> ustring \<Rightarrow> query_identity \<Rightarrow> split_exn + query_identity" where
  "canonical_query train test q =
     ebind (require (strip (qi_query_text q) \<noteq> []) SplitContractError) (\<lambda>_.
     ebind (require (strip (qi_locale q) \<noteq> []) SplitContractError) (\<lambda>_.
     ebind (require (qi_origin_split q \<in> {train, test}) SplitContractError) (\<lambda>_.
     Inr (q\<lparr>qi_query_text := strip (qi_query_text q)\<rparr>))))"

fun index_queries ::
    "ustring \<Rightarrow> ustring \<Rightarrow> query_identity list \<Rightarrow> (int \<times> query_identity) list \<Rightarrow> split_exn + (int \<times> query_identity) list" where
  "index_queries train test [] by_id = Inr by_id"
| "index_queries train test (q # qs) by_id =
     ebind (canonical_query train test q) (\<lambda>canonical.
     ebind (require (map_of by_id (qi_query_id q) \<in> {None, Some canonical}) SplitContractError) (\<lambda>_.
     index_queries train test qs (dict_set (qi_query_id q) canonical by_id)))"

text \<open>\<^verbatim>\<open>groups.setdefault(key, []).append(id)\<close> and \<^verbatim>\<open>group_origins.setdefault(key, set()).add(origin)\<close>\<close>

definition query_group :: "(ustring \<Rightarrow> ustring) \<Rightarrow> query_identity \<Rightarrow> group_key" where
  "query_group fold_text q = (qi_locale q, normalize_query fold_text (qi_query_text q))"

definition member_ids :: "(group_key \<times> int list \<times> ustring set) list \<Rightarrow> group_key \<Rightarrow> int list" where
  "member_ids groups k = (case map_of groups k of None \<Rightarrow> [] | Some (ids, _) \<Rightarrow> ids)"

definition origins :: "(group_key \<times> int list \<times> ustring set) list \<Rightarrow> group_key \<Rightarrow> ustring set" where
  "origins groups k = (case map_of groups k of None \<Rightarrow> {} | Some (_, os) \<Rightarrow> os)"

fun group_queries ::
    "(ustring \<Rightarrow> ustring) \<Rightarrow> (int \<times> query_identity) list \<Rightarrow> (group_key \<times> int list \<times> ustring set) list \<Rightarrow>
     (group_key \<times> int list \<times> ustring set) list" where
  "group_queries fold_text [] groups = groups"
| "group_queries fold_text ((i, q) # rest) groups =
     (let k = query_group fold_text q in
      group_queries fold_text rest
        (dict_set k (member_ids groups k @ [i], insert (qi_origin_split q) (origins groups k)) groups))"

subsection \<open>The plan\<close>

text \<open>\<^verbatim>\<open>train_groups.sort(key=lambda key: (score, key))\<close>\<close>

definition sort_train_groups :: "codec \<Rightarrow> ustring \<Rightarrow> group_key list \<Rightarrow> split_exn + group_key list" where
  "sort_train_groups c seed keys =
     ebind (traverse (\<lambda>k. ebind (stable_score c seed (fst k) (snd k)) (\<lambda>s. Inr (s, k))) keys) (\<lambda>scored.
     Inr (map snd (sort_key (\<lambda>x. x) scored)))"

definition split_of :: "ustring \<Rightarrow> group_key set \<Rightarrow> group_key \<Rightarrow> ustring set \<Rightarrow> string" where
  "split_of test dev_groups k os = (if os = {test} then ''test'' else if k \<in> dev_groups then ''dev'' else ''train'')"

fun assign_groups ::
    "ustring \<Rightarrow> group_key set \<Rightarrow> group_key set \<Rightarrow> (group_key \<times> int list \<times> ustring set) list \<Rightarrow>
     (int \<times> string) list \<times> int set \<Rightarrow> (int \<times> string) list \<times> int set" where
  "assign_groups test dev smoke [] acc = acc"
| "assign_groups test dev smoke ((k, ids, os) # rest) (assignments, smoke_ids) =
     assign_groups test dev smoke rest
       (fold (\<lambda>i. dict_set i (split_of test dev k os)) ids assignments,
        if k \<in> smoke then smoke_ids \<union> set ids else smoke_ids)"

definition plan_query_splits ::
    "(ustring \<Rightarrow> ustring) \<Rightarrow> codec \<Rightarrow> query_identity list \<Rightarrow> ustring \<Rightarrow> int \<Rightarrow> int \<Rightarrow> ustring \<Rightarrow> ustring \<Rightarrow>
     split_exn + split_plan" where
  "plan_query_splits fold_text c queries seed dev_query_count smoke_query_count train test =
     ebind (require (1 \<le> dev_query_count) (SplitPython ValueError)) (\<lambda>_.
     ebind (require (1 \<le> smoke_query_count \<and> smoke_query_count \<le> dev_query_count) (SplitPython ValueError)) (\<lambda>_.
     ebind (index_queries train test queries []) (\<lambda>by_id.
     ebind (require (by_id \<noteq> []) SplitContractError) (\<lambda>_.
     let normalized = map (\<lambda>(i, q). (i, normalize_query fold_text (qi_query_text q))) by_id;
         groups = group_queries fold_text by_id [] in
     ebind (require (list_all (\<lambda>(_, _, os). card os \<le> 1) groups) SplitContractError) (\<lambda>_.
     let train_groups = map fst (filter (\<lambda>(_, _, os). os = {train}) groups) in
     ebind (require (dev_query_count \<le> int (length train_groups)) SplitContractError) (\<lambda>_.
     ebind (sort_train_groups c seed train_groups) (\<lambda>ordered.
     let dev_groups = set (take (nat dev_query_count) ordered);
         smoke_groups = set (take (nat smoke_query_count) ordered);
         assigned = assign_groups test dev_groups smoke_groups groups ([], {}) in
     Inr \<lparr>sp_assignments = fst assigned, sp_smoke_query_ids = snd assigned, sp_normalized_queries = normalized\<rparr>)))))))"

subsection \<open>The index\<close>

definition stripped :: "query_identity \<Rightarrow> query_identity" where
  "stripped q = q\<lparr>qi_query_text := strip (qi_query_text q)\<rparr>"

definition query_ok :: "ustring \<Rightarrow> ustring \<Rightarrow> query_identity \<Rightarrow> bool" where
  "query_ok train test q =
     (strip (qi_query_text q) \<noteq> [] \<and> strip (qi_locale q) \<noteq> [] \<and> qi_origin_split q \<in> {train, test})"

lemma canonical_query_Inr: "canonical_query train test q = Inr x \<longleftrightarrow> query_ok train test q \<and> x = stripped q"
  by (auto simp: canonical_query_def query_ok_def stripped_def)

text \<open>Queries with one number must agree once they are stripped.\<close>

definition entry :: "query_identity \<Rightarrow> int \<times> query_identity" where
  "entry q = (qi_query_id q, stripped q)"

definition consistent :: "query_identity set \<Rightarrow> bool" where
  "consistent Q = (\<forall>q \<in> Q. \<forall>r \<in> Q. qi_query_id q = qi_query_id r \<longrightarrow> stripped q = stripped r)"

lemma dict_set_entries:
  "distinct (map fst m) \<Longrightarrow> set (dict_set k v m) = insert (k, v) {e \<in> set m. fst e \<noteq> k}"
proof (induction m)
  case (Cons a m)
  then show ?case by (cases a) force
qed simp

lemma dict_set_agree:
  assumes "distinct (map fst m)" and "map_of m k \<in> {None, Some v}"
  shows "set (dict_set k v m) = insert (k, v) (set m)"
  using assms by (auto simp: dict_set_entries map_of_eq_None_iff image_iff dest: eq_key_imp_eq_value)

lemma index_queries_sound:
  assumes "index_queries train test qs m = Inr m'" and "distinct (map fst m)"
  shows "distinct (map fst m') \<and> set m' = set m \<union> entry ` set qs \<and> (\<forall>q \<in> set qs. query_ok train test q)"
  using assms
proof (induction qs arbitrary: m)
  case (Cons q qs)
  let ?m = "dict_set (qi_query_id q) (stripped q) m"
  have step: "index_queries train test qs ?m = Inr m'" "query_ok train test q"
    "map_of m (qi_query_id q) \<in> {None, Some (stripped q)}"
    using Cons.prems(1) by (auto simp: canonical_query_Inr)
  have "set ?m = insert (entry q) (set m)"
    unfolding entry_def by (rule dict_set_agree [OF Cons.prems(2) step(3)])
  then show ?case using Cons.IH [OF step(1) distinct_dict_set [OF Cons.prems(2)]] step(2) by simp
qed simp

lemma index_queries_total:
  assumes "\<forall>q \<in> set qs. query_ok train test q" and "consistent (set qs)"
    and "\<forall>q \<in> set qs. map_of m (qi_query_id q) \<in> {None, Some (stripped q)}"
  shows "\<exists>m'. index_queries train test qs m = Inr m'"
  using assms
proof (induction qs arbitrary: m)
  case (Cons q qs)
  let ?m = "dict_set (qi_query_id q) (stripped q) m"
  have "map_of ?m (qi_query_id r) \<in> {None, Some (stripped r)}" if r: "r \<in> set qs" for r
  proof (cases "qi_query_id r = qi_query_id q")
    case True
    then have "stripped r = stripped q" using Cons.prems(2) r unfolding consistent_def by (meson list.set_intros)
    then show ?thesis using True by (simp add: map_of_dict_set)
  qed (use Cons.prems(3) r in \<open>simp add: map_of_dict_set\<close>)
  moreover have "consistent (set qs)" using Cons.prems(2) unfolding consistent_def by (meson list.set_intros(2))
  moreover have "\<forall>q \<in> set qs. query_ok train test q" using Cons.prems(1) by simp
  ultimately obtain m' where m': "index_queries train test qs ?m = Inr m'" using Cons.IH by blast
  have "canonical_query train test q = Inr (stripped q)" using Cons.prems(1) by (simp add: canonical_query_Inr)
  then show ?case using Cons.prems(3) m' by simp
qed simp

lemma entries_consistent:
  assumes "distinct (map fst m)" and "set m = entry ` Q"
  shows "consistent Q"
proof -
  have "stripped q = stripped r" if "q \<in> Q" "r \<in> Q" "qi_query_id q = qi_query_id r" for q r
  proof (rule eq_key_imp_eq_value [OF assms(1)])
    have "entry q \<in> set m" "entry r \<in> set m" using that(1,2) assms(2) by simp_all
    then show "(qi_query_id q, stripped q) \<in> set m" "(qi_query_id q, stripped r) \<in> set m"
      using that(3) by (simp_all add: entry_def)
  qed
  then show ?thesis unfolding consistent_def by blast
qed

subsection \<open>The groups\<close>

text \<open>What the groups hold, whatever the order in which the queries came.\<close>

definition members :: "(ustring \<Rightarrow> ustring) \<Rightarrow> (int \<times> query_identity) set \<Rightarrow> group_key \<Rightarrow> int set" where
  "members f X k = {i. \<exists>q. (i, q) \<in> X \<and> query_group f q = k}"

definition member_origins :: "(ustring \<Rightarrow> ustring) \<Rightarrow> (int \<times> query_identity) set \<Rightarrow> group_key \<Rightarrow> ustring set" where
  "member_origins f X k = {o'. \<exists>i q. (i, q) \<in> X \<and> query_group f q = k \<and> qi_origin_split q = o'}"

definition groups_of :: "(ustring \<Rightarrow> ustring) \<Rightarrow> (int \<times> query_identity) set \<Rightarrow> (group_key \<times> int list \<times> ustring set) list \<Rightarrow> bool" where
  "groups_of f X groups =
     (distinct (map fst groups) \<and> fst ` set groups = (\<lambda>x. query_group f (snd x)) ` X \<and>
      (\<forall>e \<in> set groups. set (fst (snd e)) = members f X (fst e) \<and> snd (snd e) = member_origins f X (fst e)))"

lemma groups_ofD:
  assumes "groups_of f X groups"
  shows "distinct (map fst groups)" "fst ` set groups = (\<lambda>x. query_group f (snd x)) ` X"
    "e \<in> set groups \<Longrightarrow> set (fst (snd e)) = members f X (fst e)"
    "e \<in> set groups \<Longrightarrow> snd (snd e) = member_origins f X (fst e)"
  using assms by (simp_all add: groups_of_def)

lemma members_insert:
  "members f (insert (i, q) X) k = (if query_group f q = k then insert i (members f X k) else members f X k)"
  "member_origins f (insert (i, q) X) k =
     (if query_group f q = k then insert (qi_origin_split q) (member_origins f X k) else member_origins f X k)"
  by (auto simp: members_def member_origins_def)

lemma groups_of_lookup:
  assumes g: "groups_of f X groups"
  shows "set (member_ids groups k) = members f X k" "origins groups k = member_origins f X k"
proof -
  have "set (member_ids groups k) = members f X k \<and> origins groups k = member_origins f X k"
  proof (cases "map_of groups k")
    case None
    then have "k \<notin> (\<lambda>x. query_group f (snd x)) ` X" using g by (simp add: groups_of_def map_of_eq_None_iff)
    then have "members f X k = {}" "member_origins f X k = {}" by (force simp: members_def member_origins_def)+
    then show ?thesis using None by (simp add: member_ids_def origins_def)
  next
    case (Some v)
    then have "(k, v) \<in> set groups" by (rule map_of_SomeD)
    then have "set (fst v) = members f X k \<and> snd v = member_origins f X k" using g by (force simp: groups_of_def)
    then show ?thesis using Some by (cases v) (simp add: member_ids_def origins_def)
  qed
  then show "set (member_ids groups k) = members f X k" "origins groups k = member_origins f X k" by simp_all
qed

lemma groups_of_insert:
  assumes g: "groups_of f X groups" and k: "query_group f q = k"
  shows "groups_of f (insert (i, q) X)
    (dict_set k (member_ids groups k @ [i], insert (qi_origin_split q) (origins groups k)) groups)"
    (is "groups_of f ?X ?groups")
proof -
  have d: "distinct (map fst groups)" using g by (simp add: groups_of_def)
  note entries = dict_set_entries [OF d]
  have "fst ` set ?groups = insert k (fst ` set groups)"
    using keys_dict_set [of k "(member_ids groups k @ [i], insert (qi_origin_split q) (origins groups k))" groups]
    by (simp only: set_map)
  moreover have "set (fst (snd e)) = members f ?X (fst e) \<and> snd (snd e) = member_origins f ?X (fst e)"
    if e: "e \<in> set ?groups" for e
  proof (cases "fst e = k")
    case True
    then have "snd e = (member_ids groups k @ [i], insert (qi_origin_split q) (origins groups k))"
      using e by (auto simp: entries)
    then show ?thesis using groups_of_lookup [OF g] True k by (simp add: members_insert)
  next
    case False
    then have "e \<in> set groups" using e by (auto simp: entries)
    then show ?thesis using g False k by (simp add: groups_of_def members_insert)
  qed
  ultimately show ?thesis
    using g k distinct_dict_set [OF d] unfolding groups_of_def by simp
qed

lemma group_queries_sound:
  "groups_of f X groups \<Longrightarrow> groups_of f (X \<union> set xs) (group_queries f xs groups)"
proof (induction xs arbitrary: X groups)
  case (Cons a xs)
  obtain i q where a: "a = (i, q)" by (cases a)
  show ?case
    using Cons.IH [OF groups_of_insert [OF Cons.prems refl]] by (simp add: a Let_def)
qed simp

lemma groups_of_queries: "groups_of f (set xs) (group_queries f xs [])"
  using group_queries_sound [of f "{}" "[]" xs] by (simp add: groups_of_def)

subsection \<open>The plan as a function of the set of queries\<close>

text \<open>The training groups of a set of queries, and their order.\<close>

definition group_of :: "(ustring \<Rightarrow> ustring) \<Rightarrow> query_identity \<Rightarrow> group_key" where
  "group_of f q = query_group f (stripped q)"

definition train_groups_of :: "(ustring \<Rightarrow> ustring) \<Rightarrow> ustring \<Rightarrow> query_identity set \<Rightarrow> group_key set" where
  "train_groups_of f train Q = {k \<in> group_of f ` Q. \<forall>q \<in> Q. group_of f q = k \<longrightarrow> qi_origin_split q = train}"

text \<open>No group crosses the official boundary.\<close>

definition unleaked :: "(ustring \<Rightarrow> ustring) \<Rightarrow> query_identity set \<Rightarrow> bool" where
  "unleaked f Q = (\<forall>q \<in> Q. \<forall>r \<in> Q. group_of f q = group_of f r \<longrightarrow> qi_origin_split q = qi_origin_split r)"

definition reference_split ::
    "(ustring \<Rightarrow> ustring) \<Rightarrow> ustring \<Rightarrow> group_key set \<Rightarrow> query_identity \<Rightarrow> string" where
  "reference_split f test dev q =
     (if qi_origin_split q = test then ''test'' else if group_of f q \<in> dev then ''dev'' else ''train'')"

lemma stripped_fields [simp]:
  "qi_query_id (stripped q) = qi_query_id q" "qi_locale (stripped q) = qi_locale q"
  "qi_origin_split (stripped q) = qi_origin_split q" "qi_query_text (stripped q) = strip (qi_query_text q)"
  by (simp_all add: stripped_def)

lemma entry_groups:
  "(\<lambda>x. query_group f (snd x)) ` entry ` Q = group_of f ` Q"
  "members f (entry ` Q) k = qi_query_id ` {q \<in> Q. group_of f q = k}"
  "member_origins f (entry ` Q) k = qi_origin_split ` {q \<in> Q. group_of f q = k}"
  by (force simp: entry_def group_of_def members_def member_origins_def)+

text \<open>The loop over the groups.\<close>

lemma map_of_fold_dict_set:
  "map_of (fold (\<lambda>i. dict_set i v) is m) i = (if i \<in> set is then Some v else map_of m i)"
  by (induction "is" arbitrary: m) (auto simp: map_of_dict_set)

lemma distinct_fold_dict_set: "distinct (map fst m) \<Longrightarrow> distinct (map fst (fold (\<lambda>i. dict_set i v) is m))"
  by (induction "is" arbitrary: m) (auto simp: distinct_dict_set)

lemma assign_groups_smoke:
  "i \<in> snd (assign_groups test dev smoke groups acc) \<longleftrightarrow>
     i \<in> snd acc \<or> (\<exists>e \<in> set groups. fst e \<in> smoke \<and> i \<in> set (fst (snd e)))"
  by (induction test dev smoke groups acc rule: assign_groups.induct) auto

lemma assign_groups_distinct:
  "distinct (map fst (fst acc)) \<Longrightarrow> distinct (map fst (fst (assign_groups test dev smoke groups acc)))"
  by (induction test dev smoke groups acc rule: assign_groups.induct) (auto simp: distinct_fold_dict_set)

lemma assign_groups_keep:
  "(\<And>e. e \<in> set groups \<Longrightarrow> i \<notin> set (fst (snd e))) \<Longrightarrow>
   map_of (fst (assign_groups test dev smoke groups acc)) i = map_of (fst acc) i"
proof (induction test dev smoke groups acc rule: assign_groups.induct)
  case (2 test dev smoke k ids os rest assignments smoke_ids)
  have "i \<notin> set ids" using "2.prems" [of "(k, ids, os)"] by simp
  then show ?case using "2.IH" "2.prems" by (simp add: map_of_fold_dict_set)
qed simp

text \<open>A number that only one group holds gets the split of that group.\<close>

lemma assign_groups_lookup:
  assumes "e \<in> set groups" and "i \<in> set (fst (snd e))"
    and "\<And>e'. e' \<in> set groups \<Longrightarrow> i \<in> set (fst (snd e')) \<Longrightarrow> e' = e"
  shows "map_of (fst (assign_groups test dev smoke groups acc)) i = Some (split_of test dev (fst e) (snd (snd e)))"
  using assms
proof (induction test dev smoke groups acc rule: assign_groups.induct)
  case (2 test dev smoke k ids os rest assignments smoke_ids)
  show ?case
  proof (cases "e \<in> set rest")
    case True
    have "e' = e" if "e' \<in> set rest" "i \<in> set (fst (snd e'))" for e'
      by (rule "2.prems"(3)) (use that in simp_all)
    from "2.IH" [OF True "2.prems"(2) this] show ?thesis by simp
  next
    case False
    then have e: "e = (k, ids, os)" using "2.prems"(1) by simp
    have none: "i \<notin> set (fst (snd e'))" if "e' \<in> set rest" for e'
    proof
      assume "i \<in> set (fst (snd e'))"
      then have "e' = e" using "2.prems"(3) [of e'] that by simp
      then show False using that False by simp
    qed
    show ?thesis using e "2.prems"(2) by (simp add: assign_groups_keep [OF none] map_of_fold_dict_set)
  qed
qed simp

subsection \<open>The order of the training groups\<close>

lemma sort_train_groups_Inr:
  "sort_train_groups c seed keys = Inr ordered \<longleftrightarrow>
     (\<exists>scored. traverse (\<lambda>k. ebind (stable_score c seed (fst k) (snd k)) (\<lambda>s. Inr (s, k))) keys = Inr scored \<and>
        ordered = map snd (sort scored))"
  by (auto simp: sort_train_groups_def)

lemma scored_keys:
  "traverse (\<lambda>k. ebind (stable_score c seed (fst k) (snd k)) (\<lambda>s. Inr (s, k))) keys = Inr scored \<Longrightarrow> map snd scored = keys"
  by (induction keys arbitrary: scored) auto

lemma sort_train_groups_keys:
  assumes "sort_train_groups c seed keys = Inr ordered" and "distinct keys"
  shows "distinct ordered" "set ordered = set keys" "length ordered = length keys"
proof -
  obtain scored :: "(string \<times> group_key) list" where s: "map snd scored = keys" "ordered = map snd (sort scored)"
  proof -
    obtain scored where t: "traverse (\<lambda>k. ebind (stable_score c seed (fst k) (snd k)) (\<lambda>s. Inr (s, k))) keys = Inr scored"
      and o': "ordered = map snd (sort scored)" using assms(1) unfolding sort_train_groups_Inr by blast
    show thesis by (rule that [OF scored_keys [OF t] o'])
  qed
  have m: "mset ordered = mset keys" unfolding s(2) s(1) [symmetric] by simp
  show "distinct ordered" using assms(2) mset_eq_imp_distinct_iff [OF m] by simp
  show "set ordered = set keys" by (rule mset_eq_setD [OF m])
  show "length ordered = length keys" by (rule mset_eq_length [OF m])
qed

text \<open>Which order the groups came in does not matter.\<close>

lemma sort_train_groups_order:
  assumes "sort_train_groups c seed keys = Inr ordered" and "distinct keys" "distinct keys'" "set keys' = set keys"
  shows "sort_train_groups c seed keys' = Inr ordered"
proof -
  let ?score = "\<lambda>k. ebind (stable_score c seed (fst k) (snd k)) (\<lambda>s. Inr (s, k))"
  obtain scored where s: "traverse ?score keys = Inr scored" "ordered = map snd (sort scored)"
    using assms(1) by (auto simp: sort_train_groups_Inr)
  obtain f where f: "\<And>k. k \<in> set keys \<Longrightarrow> stable_score c seed (fst k) (snd k) = Inr (f k)"
  proof -
    have "\<exists>s. stable_score c seed (fst k) (snd k) = Inr s" if "k \<in> set keys" for k
      using traverse_in [OF s(1) that] by auto
    then show thesis using that by metis
  qed
  have g: "?score k = Inr (f k, k)" if "k \<in> set keys" for k using f [OF that] by simp
  have "traverse ?score keys = Inr (map (\<lambda>k. (f k, k)) keys)" "traverse ?score keys' = Inr (map (\<lambda>k. (f k, k)) keys')"
    by (rule traverse_Inr_map, use g assms(4) in simp)+
  moreover have "mset keys' = mset keys" using assms(2-4) by (simp add: set_eq_iff_mset_eq_distinct)
  then have "sort (map (\<lambda>k. (f k, k)) keys') = sort (map (\<lambda>k. (f k, k)) keys)"
    by (intro properties_for_sort) simp_all
  ultimately show ?thesis using s by (simp add: sort_train_groups_Inr)
qed

subsection \<open>What a plan has checked and computed\<close>

lemma train_group_keys:
  assumes g: "groups_of f (entry ` Q) groups" and "\<forall>q \<in> Q. qi_origin_split q \<in> {train, test}"
  shows "set (map fst (filter (\<lambda>(_, _, os). os = {train}) groups)) = train_groups_of f train Q"
proof -
  have "k \<in> set (map fst (filter (\<lambda>(_, _, os). os = {train}) groups)) \<longleftrightarrow> k \<in> train_groups_of f train Q" for k
  proof -
    have "k \<in> set (map fst (filter (\<lambda>(_, _, os). os = {train}) groups)) \<longleftrightarrow>
        (\<exists>e \<in> set groups. fst e = k \<and> snd (snd e) = {train})" by force
    also have "\<dots> \<longleftrightarrow> (\<exists>e \<in> set groups. fst e = k \<and> member_origins f (entry ` Q) (fst e) = {train})"
      using groups_ofD(4) [OF g] by (intro bex_cong) simp_all
    also have "\<dots> \<longleftrightarrow> k \<in> fst ` set groups \<and> member_origins f (entry ` Q) k = {train}" by blast
    also have "\<dots> \<longleftrightarrow> k \<in> group_of f ` Q \<and> qi_origin_split ` {q \<in> Q. group_of f q = k} = {train}"
      unfolding groups_ofD(2) [OF g] entry_groups ..
    also have "\<dots> \<longleftrightarrow> k \<in> train_groups_of f train Q"
      by (auto simp: train_groups_of_def)
    finally show ?thesis .
  qed
  then show ?thesis by blast
qed

lemma unleaked_groups:
  assumes g: "groups_of f (entry ` Q) groups" and "finite Q"
  shows "list_all (\<lambda>(_, _, os). card os \<le> 1) groups \<longleftrightarrow> unleaked f Q"
proof -
  have "list_all (\<lambda>(_, _, os). card os \<le> 1) groups \<longleftrightarrow> (\<forall>e \<in> set groups. card (snd (snd e)) \<le> 1)"
    by (auto simp: list_all_iff)
  also have "\<dots> \<longleftrightarrow> (\<forall>e \<in> set groups. card (member_origins f (entry ` Q) (fst e)) \<le> 1)"
    using groups_ofD(4) [OF g] by (intro ball_cong) simp_all
  also have "\<dots> \<longleftrightarrow> (\<forall>k \<in> fst ` set groups. card (member_origins f (entry ` Q) k) \<le> 1)" by blast
  also have "\<dots> \<longleftrightarrow> (\<forall>k \<in> group_of f ` Q. card (qi_origin_split ` {q \<in> Q. group_of f q = k}) \<le> 1)"
    unfolding groups_ofD(2) [OF g] entry_groups ..
  also have "\<dots> \<longleftrightarrow> unleaked f Q"
  proof -
    have c: "card (qi_origin_split ` {q \<in> Q. group_of f q = k}) \<le> 1 \<longleftrightarrow>
        (\<forall>q \<in> Q. \<forall>r \<in> Q. group_of f q = k \<longrightarrow> group_of f r = k \<longrightarrow> qi_origin_split q = qi_origin_split r)" for k
      using assms(2) by (auto simp: card_le_Suc0_iff_eq)
    show ?thesis unfolding unleaked_def c by blast
  qed
  finally show ?thesis .
qed

text \<open>The checks and intermediate values of a plan that is returned, and the assignment they give.\<close>

definition planned_with ::
    "(ustring \<Rightarrow> ustring) \<Rightarrow> codec \<Rightarrow> query_identity set \<Rightarrow> ustring \<Rightarrow> int \<Rightarrow> int \<Rightarrow> ustring \<Rightarrow> ustring \<Rightarrow>
     group_key list \<Rightarrow> bool" where
  "planned_with f c Q seed n m train test ordered =
     (1 \<le> m \<and> m \<le> n \<and> Q \<noteq> {} \<and> (\<forall>q \<in> Q. query_ok train test q) \<and> consistent Q \<and> unleaked f Q \<and>
      n \<le> int (length ordered) \<and> distinct ordered \<and> set ordered = train_groups_of f train Q \<and>
      sort_train_groups c seed ordered = Inr ordered)"

lemma plan_values:
  assumes g: "groups_of f (entry ` Q) groups" and c: "consistent Q" and u: "unleaked f Q" and q: "q \<in> Q"
  shows "map_of (fst (assign_groups test dev smoke groups acc)) (qi_query_id q) = Some (reference_split f test dev q)"
proof -
  let ?k = "group_of f q"
  have "?k \<in> fst ` set groups" using q unfolding groups_ofD(2) [OF g] entry_groups by blast
  then obtain e where e: "e \<in> set groups" "fst e = ?k" by auto
  have "qi_query_id q \<in> members f (entry ` Q) ?k" using q unfolding entry_groups by blast
  then have i: "qi_query_id q \<in> set (fst (snd e))" using groups_ofD(3) [OF g e(1)] e(2) by simp
  have unique: "e' = e" if e': "e' \<in> set groups" "qi_query_id q \<in> set (fst (snd e'))" for e'
  proof -
    have "qi_query_id q \<in> qi_query_id ` {r \<in> Q. group_of f r = fst e'}"
      using groups_ofD(3) [OF g e'(1)] e'(2) unfolding entry_groups by blast
    then obtain r where r: "r \<in> Q" "qi_query_id r = qi_query_id q" "group_of f r = fst e'" by force
    then have "stripped r = stripped q" using c q unfolding consistent_def by blast
    then have "fst e' = fst e" using r(3) e(2) by (simp add: group_of_def)
    then show ?thesis using groups_ofD(1) [OF g] e(1) e'(1) by (metis distinct_map inj_onD)
  qed
  have "snd (snd e) = qi_origin_split ` {r \<in> Q. group_of f r = ?k}"
    using groups_ofD(4) [OF g e(1)] e(2) unfolding entry_groups by simp
  also have "\<dots> = {qi_origin_split q}" using u q unfolding unleaked_def by blast
  finally have "snd (snd e) = {qi_origin_split q}" .
  then show ?thesis
    using assign_groups_lookup [OF e(1) i unique] e(2) by (simp add: split_of_def reference_split_def)
qed

lemma plan_smoke:
  assumes g: "groups_of f (entry ` Q) groups"
  shows "snd (assign_groups test dev smoke groups ([], {})) = qi_query_id ` {q \<in> Q. group_of f q \<in> smoke}"
proof -
  have "i \<in> snd (assign_groups test dev smoke groups ([], {})) \<longleftrightarrow> i \<in> qi_query_id ` {q \<in> Q. group_of f q \<in> smoke}" for i
  proof -
    have "i \<in> snd (assign_groups test dev smoke groups ([], {})) \<longleftrightarrow>
        (\<exists>e \<in> set groups. fst e \<in> smoke \<and> i \<in> members f (entry ` Q) (fst e))"
      unfolding assign_groups_smoke using groups_ofD(3) [OF g] by auto
    also have "\<dots> \<longleftrightarrow> (\<exists>k \<in> fst ` set groups. k \<in> smoke \<and> i \<in> members f (entry ` Q) k)" by blast
    also have "\<dots> \<longleftrightarrow> i \<in> qi_query_id ` {q \<in> Q. group_of f q \<in> smoke}"
      unfolding groups_ofD(2) [OF g] entry_groups by auto
    finally show ?thesis .
  qed
  then show ?thesis by blast
qed

lemma plan_ids:
  assumes g: "groups_of f (entry ` Q) groups" and "i \<notin> qi_query_id ` Q"
  shows "map_of (fst (assign_groups test dev smoke groups ([], {}))) i = None"
proof -
  have "i \<notin> set (fst (snd e))" if "e \<in> set groups" for e
    using groups_ofD(3) [OF g that] assms(2) unfolding entry_groups by blast
  then show ?thesis by (simp add: assign_groups_keep)
qed

lemma plan_query_splits_Inr:
  assumes "plan_query_splits f c qs seed n m train test = Inr pl"
  obtains ordered where "planned_with f c (set qs) seed n m train test ordered" "distinct (map fst (sp_assignments pl))"
    "\<forall>q \<in> set qs. map_of (sp_assignments pl) (qi_query_id q) =
       Some (reference_split f test (set (take (nat n) ordered)) q)"
    "\<forall>i. i \<notin> qi_query_id ` set qs \<longrightarrow> map_of (sp_assignments pl) i = None"
    "sp_smoke_query_ids pl = qi_query_id ` {q \<in> set qs. group_of f q \<in> set (take (nat m) ordered)}"
proof -
  obtain by_id ordered where mn: "1 \<le> m" "m \<le> n" and idx: "index_queries train test qs [] = Inr by_id" and ne: "by_id \<noteq> []"
    and leak: "list_all (\<lambda>(_, _, os). card os \<le> 1) (group_queries f by_id [])"
    and enough: "n \<le> int (length (map fst (filter (\<lambda>(_, _, os). os = {train}) (group_queries f by_id []))))"
    and sort: "sort_train_groups c seed (map fst (filter (\<lambda>(_, _, os). os = {train}) (group_queries f by_id []))) = Inr ordered"
    and pl: "sp_assignments pl = fst (assign_groups test (set (take (nat n) ordered)) (set (take (nat m) ordered)) (group_queries f by_id []) ([], {}))"
      "sp_smoke_query_ids pl = snd (assign_groups test (set (take (nat n) ordered)) (set (take (nat m) ordered)) (group_queries f by_id []) ([], {}))"
    using assms unfolding plan_query_splits_def Let_def by auto
  let ?groups = "group_queries f by_id []" and ?Q = "set qs"
  have d: "distinct (map fst by_id)" and e: "set by_id = entry ` ?Q" and ok: "\<forall>q \<in> ?Q. query_ok train test q"
    using index_queries_sound [OF idx] by auto
  have cons: "consistent ?Q" by (rule entries_consistent [OF d e])
  have g: "groups_of f (entry ` ?Q) ?groups" using groups_of_queries [of f by_id] e by simp
  have u: "unleaked f ?Q" using leak unleaked_groups [OF g] by simp
  have keys: "set (map fst (filter (\<lambda>(_, _, os). os = {train}) ?groups)) = train_groups_of f train ?Q"
    by (rule train_group_keys [OF g, where test = test]) (use ok in \<open>auto simp: query_ok_def\<close>)
  have dk: "distinct (map fst (filter (\<lambda>(_, _, os). os = {train}) ?groups))"
    using groups_ofD(1) [OF g] by (simp add: distinct_map_filter)
  note o' = sort_train_groups_keys [OF sort dk]
  have "planned_with f c ?Q seed n m train test ordered"
    using mn ok cons u enough o' keys sort_train_groups_order [OF sort dk o'(1,2)] ne e
    unfolding planned_with_def by auto
  then show thesis
    using that pl plan_values [OF g cons u] plan_ids [OF g] plan_smoke [OF g] assign_groups_distinct by simp
qed

lemma plan_query_splits_total:
  assumes "planned_with f c (set qs) seed n m train test ordered"
  shows "\<exists>pl. plan_query_splits f c qs seed n m train test = Inr pl"
proof -
  let ?Q = "set qs"
  have p: "1 \<le> m" "m \<le> n" "?Q \<noteq> {}" "\<forall>q \<in> ?Q. query_ok train test q" "consistent ?Q" "unleaked f ?Q"
    "n \<le> int (length ordered)" "distinct ordered" "set ordered = train_groups_of f train ?Q"
    "sort_train_groups c seed ordered = Inr ordered"
    using assms unfolding planned_with_def by blast+
  obtain by_id where idx: "index_queries train test qs [] = Inr by_id"
    using index_queries_total [OF p(4,5), of "[]"] by auto
  let ?groups = "group_queries f by_id []"
  have e: "set by_id = entry ` ?Q" using index_queries_sound [OF idx] by auto
  have g: "groups_of f (entry ` ?Q) ?groups" using groups_of_queries [of f by_id] e by simp
  have keys: "set (map fst (filter (\<lambda>(_, _, os). os = {train}) ?groups)) = train_groups_of f train ?Q"
    by (rule train_group_keys [OF g, where test = test]) (use p(4) in \<open>auto simp: query_ok_def\<close>)
  have dk: "distinct (map fst (filter (\<lambda>(_, _, os). os = {train}) ?groups))"
    using groups_ofD(1) [OF g] by (simp add: distinct_map_filter)
  have sort: "sort_train_groups c seed (map fst (filter (\<lambda>(_, _, os). os = {train}) ?groups)) = Inr ordered"
    by (rule sort_train_groups_order [OF p(10,8) dk]) (use keys p(9) in simp)
  have "length (map fst (filter (\<lambda>(_, _, os). os = {train}) ?groups)) = length ordered"
    using distinct_card [OF dk] distinct_card [OF p(8)] keys p(9) by simp
  moreover have "by_id \<noteq> []" using e p(3) by auto
  moreover have "list_all (\<lambda>(_, _, os). card os \<le> 1) ?groups" using unleaked_groups [OF g] p(6) by simp
  ultimately show ?thesis
    using p(1,2,7) idx sort unfolding plan_query_splits_def Let_def by simp
qed

lemma planned_with_unique:
  assumes "planned_with f c Q seed n m train test ordered" and "planned_with f c Q seed n m train test ordered'"
  shows "ordered' = ordered"
proof -
  have "sort_train_groups c seed ordered' = Inr ordered"
    using assms sort_train_groups_order [of c seed ordered ordered ordered'] unfolding planned_with_def by simp
  then show ?thesis using assms(2) unfolding planned_with_def by simp
qed

end
