(* ===== verification/SplitProperties.thy ===== *)
theory SplitProperties
  imports DataSplits Samples
begin

text \<open>
  The properties of the query split: no leakage between train, dev and test, the configured sizes, and
  independence of the order of the input. The sample holds four queries, two of them with the same normalised text.
\<close>

lemma planned_dev:
  assumes "planned_with f c Q seed n m train test ordered" and "train \<noteq> test" and "q \<in> Q"
  shows "group_of f q \<in> set ordered \<longleftrightarrow> qi_origin_split q = train" "qi_origin_split q = train \<or> qi_origin_split q = test"
proof -
  show origin: "qi_origin_split q = train \<or> qi_origin_split q = test"
    using assms unfolding planned_with_def query_ok_def by blast
  have "set ordered = train_groups_of f train Q" "unleaked f Q" using assms unfolding planned_with_def by blast+
  then show "group_of f q \<in> set ordered \<longleftrightarrow> qi_origin_split q = train"
    using assms(3) unfolding train_groups_of_def unleaked_def by blast
qed

text \<open>A prefix of the order: the groups of its queries are the prefix itself.\<close>

lemma prefix_groups:
  assumes p: "planned_with f c Q seed n m train test ordered" and "train \<noteq> test" and "int k \<le> n"
  shows "group_of f ` {q \<in> Q. group_of f q \<in> set (take k ordered)} = set (take k ordered)"
    "card (set (take k ordered)) = k"
proof -
  have o': "set ordered = train_groups_of f train Q" "distinct ordered" "n \<le> int (length ordered)"
    using p unfolding planned_with_def by blast+
  then have "set (take k ordered) \<subseteq> group_of f ` Q" using set_take_subset [of k ordered] by (auto simp: train_groups_of_def)
  then show "group_of f ` {q \<in> Q. group_of f q \<in> set (take k ordered)} = set (take k ordered)" by blast
  show "card (set (take k ordered)) = k" using o' assms(3) by (simp add: distinct_card)
qed

subsection \<open>A sample\<close>

text \<open>Texts are code points: \<^verbatim>\<open>"A"\<close>, \<^verbatim>\<open>" a"\<close>, \<^verbatim>\<open>"b"\<close> of the training split \<^verbatim>\<open>"t"\<close>, \<^verbatim>\<open>"c"\<close> of the test split \<^verbatim>\<open>"e"\<close>.\<close>

definition TRAIN :: ustring where "TRAIN = [116]"
definition TEST :: ustring where "TEST = [101]"

text \<open>NFKC normalisation and case folding on ASCII texts.\<close>

definition ascii_fold :: "ustring \<Rightarrow> ustring" where
  "ascii_fold = map (\<lambda>c. if ascii_upper c then c + 32 else c)"

definition sample_query :: "int \<Rightarrow> ustring \<Rightarrow> ustring \<Rightarrow> query_identity" where
  "sample_query i t o' = \<lparr>qi_query_id = i, qi_query_text = t, qi_locale = [117], qi_origin_split = o'\<rparr>"

definition sample_queries :: "query_identity list" where
  "sample_queries = [sample_query 1 [65] TRAIN, sample_query 2 [32, 97] TRAIN, sample_query 3 [98] TRAIN, sample_query 4 [99] TEST]"

lemma sample_white: "whitespace 32" "\<not> whitespace 65" "\<not> whitespace 97" "\<not> whitespace 98" "\<not> whitespace 99" "\<not> whitespace 117"
  by (simp_all add: whitespace_def)

lemma sample_groups:
  "group_of ascii_fold (sample_query i [65] o') = ([117], [97])" "group_of ascii_fold (sample_query i [32, 97] o') = ([117], [97])"
  "group_of ascii_fold (sample_query i [98] o') = ([117], [98])" "group_of ascii_fold (sample_query i [99] o') = ([117], [99])"
  by (simp_all add: group_of_def query_group_def normalize_query_def ascii_fold_def ascii_upper_def strip_def sample_query_def sample_white)

lemma sample_plan: "\<exists>pl. plan_query_splits ascii_fold sample_codec sample_queries [] 1 1 TRAIN TEST = Inr pl"
proof (rule plan_query_splits_total)
  let ?Q = "set sample_queries"
  have Q: "?Q = {sample_query 1 [65] TRAIN, sample_query 2 [32, 97] TRAIN, sample_query 3 [98] TRAIN, sample_query 4 [99] TEST}"
    by (simp add: sample_queries_def)
  have "\<forall>q \<in> ?Q. query_ok TRAIN TEST q"
    by (simp add: Q query_ok_def sample_query_def strip_def sample_white)
  moreover have "consistent ?Q" by (simp add: Q consistent_def sample_query_def)
  moreover have ne: "TRAIN \<noteq> TEST" by (simp add: TRAIN_def TEST_def)
  moreover have "unleaked ascii_fold ?Q" by (simp add: Q unleaked_def sample_groups) (simp add: sample_query_def)
  moreover have "train_groups_of ascii_fold TRAIN ?Q = set [([117], [97]), ([117], [98])]"
    using ne by (auto simp: Q train_groups_of_def sample_groups) (simp_all add: sample_query_def)
  moreover have "sort_train_groups sample_codec [] [([117], [97]), ([117], [98])] = Inr [([117], [97]), ([117], [98])]"
    by (simp add: sort_train_groups_def stable_score_def utf8_def utf8_char_def sample_codec_def)
  ultimately show "planned_with ascii_fold sample_codec ?Q [] 1 1 TRAIN TEST [([117], [97]), ([117], [98])]"
    by (simp add: planned_with_def Q)
qed

subsection \<open>Properties\<close>

text \<open>
  C25. A split plan assigns every query exactly once and leaks nothing: a query is in test exactly when the
  official split says so, queries with the same normalised text and locale are assigned together whatever their
  numbers, dev holds exactly the configured number of distinct texts, and the smoke profile lies inside dev with its
  own configured number.
\<close>

theorem split_plan_sound:
  assumes "plan_query_splits f c queries seed n m train test = Inr pl" and "train \<noteq> test"
  shows "distinct (map fst (sp_assignments pl)) \<and> set (map fst (sp_assignments pl)) = qi_query_id ` set queries \<and>
    (\<forall>q \<in> set queries. map_of (sp_assignments pl) (qi_query_id q) \<in> {Some ''train'', Some ''dev'', Some ''test''} \<and>
       (map_of (sp_assignments pl) (qi_query_id q) = Some ''test'' \<longleftrightarrow> qi_origin_split q = test)) \<and>
    (\<forall>q \<in> set queries. \<forall>r \<in> set queries. group_of f q = group_of f r \<longrightarrow>
       map_of (sp_assignments pl) (qi_query_id q) = map_of (sp_assignments pl) (qi_query_id r)) \<and>
    int (card (group_of f ` {q \<in> set queries. map_of (sp_assignments pl) (qi_query_id q) = Some ''dev''})) = n \<and>
    (\<forall>i \<in> sp_smoke_query_ids pl. map_of (sp_assignments pl) i = Some ''dev'') \<and>
    int (card (group_of f ` {q \<in> set queries. qi_query_id q \<in> sp_smoke_query_ids pl})) = m"
proof -
  obtain ordered where p: "planned_with f c (set queries) seed n m train test ordered"
    and d: "distinct (map fst (sp_assignments pl))"
    and a: "\<forall>q \<in> set queries. map_of (sp_assignments pl) (qi_query_id q) =
       Some (reference_split f test (set (take (nat n) ordered)) q)"
    and none: "\<forall>i. i \<notin> qi_query_id ` set queries \<longrightarrow> map_of (sp_assignments pl) i = None"
    and smoke: "sp_smoke_query_ids pl = qi_query_id ` {q \<in> set queries. group_of f q \<in> set (take (nat m) ordered)}"
    by (rule plan_query_splits_Inr [OF assms(1)])
  have mn: "1 \<le> m" "m \<le> n" and u: "unleaked f (set queries)" and cons: "consistent (set queries)"
    using p unfolding planned_with_def by blast+
  note origin = planned_dev [OF p assms(2)]
  have dev: "map_of (sp_assignments pl) (qi_query_id q) = Some ''dev'' \<longleftrightarrow> group_of f q \<in> set (take (nat n) ordered)"
    if "q \<in> set queries" for q
    using bspec [OF a that] origin [OF that] assms(2) in_set_takeD [of "group_of f q" "nat n" ordered] by (auto simp: reference_split_def)
  have small: "set (take (nat m) ordered) \<subseteq> set (take (nat n) ordered)" using mn by (intro set_take_subset_set_take) simp
  have in_smoke: "qi_query_id q \<in> sp_smoke_query_ids pl \<longleftrightarrow> group_of f q \<in> set (take (nat m) ordered)"
    if q: "q \<in> set queries" for q
  proof
    assume "qi_query_id q \<in> sp_smoke_query_ids pl"
    then obtain r where r: "r \<in> set queries" "qi_query_id q = qi_query_id r" "group_of f r \<in> set (take (nat m) ordered)"
      unfolding smoke by blast
    then have "stripped q = stripped r" using cons q unfolding consistent_def by blast
    then show "group_of f q \<in> set (take (nat m) ordered)" using r(3) by (simp add: group_of_def)
  qed (use q in \<open>auto simp: smoke\<close>)
  have "set (map fst (sp_assignments pl)) = dom (map_of (sp_assignments pl))" by (simp add: dom_map_of_conv_image_fst)
  also have "\<dots> = qi_query_id ` set queries" using a none by (auto simp: dom_def)
  finally have ids: "set (map fst (sp_assignments pl)) = qi_query_id ` set queries" .
  have groups: "group_of f ` {q \<in> set queries. map_of (sp_assignments pl) (qi_query_id q) = Some ''dev''} = set (take (nat n) ordered)"
    "group_of f ` {q \<in> set queries. qi_query_id q \<in> sp_smoke_query_ids pl} = set (take (nat m) ordered)"
    using prefix_groups(1) [OF p assms(2)] mn dev in_smoke by (simp_all cong: conj_cong)
  have sizes: "int (card (set (take (nat n) ordered))) = n" "int (card (set (take (nat m) ordered))) = m"
    using prefix_groups(2) [OF p assms(2)] mn by simp_all
  have together: "reference_split f test D q = reference_split f test D r"
    if "q \<in> set queries" "r \<in> set queries" "group_of f q = group_of f r" for q r D
  proof -
    have "qi_origin_split q = qi_origin_split r" using u that unfolding unleaked_def by blast
    then show ?thesis using that(3) by (simp add: reference_split_def)
  qed
  have kinds: "map_of (sp_assignments pl) (qi_query_id q) \<in> {Some ''train'', Some ''dev'', Some ''test''} \<and>
      (map_of (sp_assignments pl) (qi_query_id q) = Some ''test'' \<longleftrightarrow> qi_origin_split q = test)" if "q \<in> set queries" for q
    using bspec [OF a that] by (simp add: reference_split_def)
  have same: "map_of (sp_assignments pl) (qi_query_id q) = map_of (sp_assignments pl) (qi_query_id r)"
    if "q \<in> set queries" "r \<in> set queries" "group_of f q = group_of f r" for q r
    using bspec [OF a that(1)] bspec [OF a that(2)] together [OF that] by simp
  have inside: "map_of (sp_assignments pl) i = Some ''dev''" if "i \<in> sp_smoke_query_ids pl" for i
    using that small dev unfolding smoke by blast
  show ?thesis unfolding groups sizes ids using d kinds same inside by blast
qed

theorem split_plan_sound_witness:
  "\<exists>pl. plan_query_splits ascii_fold sample_codec sample_queries [] 1 1 TRAIN TEST = Inr pl \<and>
     map_of (sp_assignments pl) 1 = map_of (sp_assignments pl) 2 \<and> map_of (sp_assignments pl) 4 = Some ''test'' \<and>
     int (card (group_of ascii_fold ` {q \<in> set sample_queries. map_of (sp_assignments pl) (qi_query_id q) = Some ''dev''})) = 1"
proof -
  obtain pl where pl: "plan_query_splits ascii_fold sample_codec sample_queries [] 1 1 TRAIN TEST = Inr pl"
    using sample_plan by blast
  have ne: "TRAIN \<noteq> TEST" by (simp add: TRAIN_def TEST_def)
  have q: "sample_query 1 [65] TRAIN \<in> set sample_queries" "sample_query 2 [32, 97] TRAIN \<in> set sample_queries"
    "sample_query 4 [99] TEST \<in> set sample_queries"
    by (simp_all add: sample_queries_def)
  have i: "qi_query_id (sample_query j t o') = j" "qi_origin_split (sample_query j t o') = o'" for j t o'
    by (simp_all add: sample_query_def)
  note * = split_plan_sound [OF pl ne]
  have "map_of (sp_assignments pl) (qi_query_id (sample_query 1 [65] TRAIN)) =
      map_of (sp_assignments pl) (qi_query_id (sample_query 2 [32, 97] TRAIN))"
    using * q(1,2) sample_groups(1) [of 1 TRAIN] sample_groups(2) [of 2 TRAIN] by fastforce
  moreover have "map_of (sp_assignments pl) (qi_query_id (sample_query 4 [99] TEST)) = Some ''test''"
    using * q(3) i(2) by blast
  ultimately show ?thesis using pl * unfolding i(1) by blast
qed

text \<open>
  C30. The plan does not depend on the order of the queries or on repetitions: any listing of the same queries is
  planned as well, with the same assignment of every number and the same smoke profile.
\<close>

theorem split_order_irrelevant:
  assumes "plan_query_splits f c queries seed n m train test = Inr pl" and "set queries' = set queries"
  shows "\<exists>pl'. plan_query_splits f c queries' seed n m train test = Inr pl' \<and>
    map_of (sp_assignments pl') = map_of (sp_assignments pl) \<and> sp_smoke_query_ids pl' = sp_smoke_query_ids pl"
proof -
  obtain ordered where p: "planned_with f c (set queries) seed n m train test ordered"
    and a: "\<forall>q \<in> set queries. map_of (sp_assignments pl) (qi_query_id q) =
       Some (reference_split f test (set (take (nat n) ordered)) q)"
    and none: "\<forall>i. i \<notin> qi_query_id ` set queries \<longrightarrow> map_of (sp_assignments pl) i = None"
    and smoke: "sp_smoke_query_ids pl = qi_query_id ` {q \<in> set queries. group_of f q \<in> set (take (nat m) ordered)}"
    by (rule plan_query_splits_Inr [OF assms(1)])
  have p': "planned_with f c (set queries') seed n m train test ordered" unfolding assms(2) by (rule p)
  then obtain pl' where pl': "plan_query_splits f c queries' seed n m train test = Inr pl'"
    using plan_query_splits_total by blast
  obtain ordered' where q: "planned_with f c (set queries') seed n m train test ordered'"
    and a': "\<forall>q \<in> set queries'. map_of (sp_assignments pl') (qi_query_id q) =
       Some (reference_split f test (set (take (nat n) ordered')) q)"
    and none': "\<forall>i. i \<notin> qi_query_id ` set queries' \<longrightarrow> map_of (sp_assignments pl') i = None"
    and smoke': "sp_smoke_query_ids pl' = qi_query_id ` {q \<in> set queries'. group_of f q \<in> set (take (nat m) ordered')}"
    by (rule plan_query_splits_Inr [OF pl'])
  have o': "ordered' = ordered" by (rule planned_with_unique [OF p' q])
  have "map_of (sp_assignments pl') i = map_of (sp_assignments pl) i" for i
  proof (cases "i \<in> qi_query_id ` set queries")
    case True
    then show ?thesis using a a' unfolding o' assms(2) by auto
  qed (use none none' assms(2) in simp)
  then show ?thesis using pl' smoke smoke' unfolding o' assms(2) by auto
qed

theorem split_order_irrelevant_witness:
  "\<exists>pl. plan_query_splits ascii_fold sample_codec (rev sample_queries @ sample_queries) [] 1 1 TRAIN TEST = Inr pl"
proof -
  obtain pl where "plan_query_splits ascii_fold sample_codec sample_queries [] 1 1 TRAIN TEST = Inr pl"
    using sample_plan by blast
  then show ?thesis using split_order_irrelevant [of ascii_fold sample_codec sample_queries "[]" 1 1 TRAIN TEST pl
      "rev sample_queries @ sample_queries"] by auto
qed

end
