(* ===== verification/StrategyContracts.thy ===== *)
theory StrategyContracts
  imports Grounding Ranking
begin

text \<open>
  The models of \<^verbatim>\<open>src/search_quality/agent/strategy_search.py\<close> and the comparison summary of
  \<^verbatim>\<open>src/search_quality/agent/tools.py\<close> that it scores. A model class is a record, \<open>*_ok\<close> its field constraints
  and validators, \<open>dump_*\<close> its \<^verbatim>\<open>model_dump(mode="json")\<close> where its content enters an identifier. A field that
  every valid instance computes from the others (a reason code equal to the cause, a literal version) is not
  stored. \<open>round12\<close> is \<^verbatim>\<open>round(x, 12)\<close> on the exact value.
\<close>

subsection \<open>Rounding\<close>

definition half_even :: "rat \<Rightarrow> int" where
  "half_even x =
     (let n = \<lfloor>x\<rfloor>; d = x - of_int n in
      if d < 1 / 2 then n else if 1 / 2 < d then n + 1 else if even n then n else n + 1)"

definition round12 :: "rat \<Rightarrow> rat" where
  "round12 x = of_int (half_even (x * 10 ^ 12)) / 10 ^ 12"

definition rounded_unit :: "rat \<Rightarrow> rat" where
  "rounded_unit v = round12 (min 1 (max 0 v))"

text \<open>\<^verbatim>\<open>math.isclose(a, b, abs_tol=1e-12)\<close> with the default relative tolerance.\<close>

definition float_1e_9 :: rat where "float_1e_9 = 4835703278458517 / 4835703278458516698824704"

definition isclose_12 :: "rat \<Rightarrow> rat \<Rightarrow> bool" where
  "isclose_12 a b = (\<bar>a - b\<bar> \<le> max (float_1e_9 * max \<bar>a\<bar> \<bar>b\<bar>) float_1e_12)"

abbreviation unit_float :: "rat \<Rightarrow> bool" where
  "unit_float r \<equiv> 0 \<le> r \<and> r \<le> 1"

abbreviation delta_float :: "rat \<Rightarrow> bool" where
  "delta_float r \<equiv> - 1 \<le> r \<and> r \<le> 1"

abbreviation fin_json :: "rat \<Rightarrow> json" where
  "fin_json r \<equiv> JFloat (Fin r)"

subsection \<open>The comparison summary\<close>

record metric_delta =
  md_baseline :: rat
  md_candidate :: rat
  md_delta :: rat

definition metric_delta_ok :: "metric_delta \<Rightarrow> bool" where
  "metric_delta_ok m =
     (unit_float (md_baseline m) \<and> unit_float (md_candidate m) \<and> delta_float (md_delta m) \<and>
      isclose_abs float_1e_12 (md_delta m) (md_candidate m - md_baseline m))"

record outcome_counts =
  oc_improved :: int
  oc_regressed :: int
  oc_tied :: int

definition outcome_counts_ok :: "outcome_counts \<Rightarrow> bool" where
  "outcome_counts_ok k = (0 \<le> oc_improved k \<and> 0 \<le> oc_regressed k \<and> 0 \<le> oc_tied k)"

text \<open>\<^verbatim>\<open>AggregateMetricDeltas\<close> and \<^verbatim>\<open>OutcomeCountsOutput\<close> have one field per metric, in this order.\<close>

record 'a per_metric =
  pm_ndcg_at_5 :: 'a
  pm_ndcg_at_10 :: 'a
  pm_mrr_at_10 :: 'a
  pm_success_at_1 :: 'a
  pm_success_at_5 :: 'a

definition metric_values :: "'a per_metric \<Rightarrow> 'a list" where
  "metric_values m = [pm_ndcg_at_5 m, pm_ndcg_at_10 m, pm_mrr_at_10 m, pm_success_at_1 m, pm_success_at_5 m]"

record query_delta =
  qd_changed_rank_count :: int
  qd_ndcg_at_10_delta :: rat
  qd_query_id :: int
  qd_top_10_changed :: bool

definition query_delta_ok :: "query_delta \<Rightarrow> bool" where
  "query_delta_ok q = (0 \<le> qd_changed_rank_count q \<and> delta_float (qd_ndcg_at_10_delta q) \<and> 1 \<le> qd_query_id q)"

record compare_payload =
  co_aggregate_metrics :: "metric_delta per_metric"
  co_baseline_run_id :: string
  co_candidate_run_id :: string
  co_comparison_id :: string
  co_comparison_epsilon :: rat
  co_improvements :: "query_delta list"
  co_outcome_counts :: "outcome_counts per_metric"
  co_query_count :: int
  co_regressions :: "query_delta list"

text \<open>An aggregate that moved needs a query that moved with it.\<close>

definition aggregate_supported :: "metric_delta \<times> outcome_counts \<Rightarrow> bool" where
  "aggregate_supported x =
     (case x of (m, k) \<Rightarrow>
        (float_1e_12 < md_delta m \<longrightarrow> oc_improved k \<noteq> 0) \<and> (md_delta m < - float_1e_12 \<longrightarrow> oc_regressed k \<noteq> 0) \<and>
        (oc_improved k = 0 \<and> oc_regressed k = 0 \<longrightarrow> \<bar>md_delta m\<bar> \<le> float_1e_12))"

definition compare_payload_ok :: "compare_payload \<Rightarrow> bool" where
  "compare_payload_ok p =
     (list_all metric_delta_ok (metric_values (co_aggregate_metrics p)) \<and>
      RUN_ID_PATTERN (co_baseline_run_id p) \<and> RUN_ID_PATTERN (co_candidate_run_id p) \<and>
      prefixed_hex ''comparison-'' 12 (co_comparison_id p) \<and>
      list_all query_delta_ok (co_improvements p) \<and> length (co_improvements p) \<le> 5 \<and>
      list_all outcome_counts_ok (metric_values (co_outcome_counts p)) \<and> 1 \<le> co_query_count p \<and>
      list_all query_delta_ok (co_regressions p) \<and> length (co_regressions p) \<le> 5 \<and>
      co_baseline_run_id p \<noteq> co_candidate_run_id p \<and> co_comparison_epsilon p = float_1e_12 \<and>
      list_all (\<lambda>k. oc_improved k + oc_regressed k + oc_tied k = co_query_count p) (metric_values (co_outcome_counts p)) \<and>
      list_all aggregate_supported (zip (metric_values (co_aggregate_metrics p)) (metric_values (co_outcome_counts p))) \<and>
      distinct (map qd_query_id (co_regressions p)) \<and> distinct (map qd_query_id (co_improvements p)) \<and>
      set (map qd_query_id (co_regressions p)) \<inter> set (map qd_query_id (co_improvements p)) = {} \<and>
      list_all (\<lambda>q. qd_ndcg_at_10_delta q < - float_1e_12) (co_regressions p) \<and>
      list_all (\<lambda>q. float_1e_12 < qd_ndcg_at_10_delta q) (co_improvements p) \<and>
      int (length (co_regressions p)) = min (oc_regressed (pm_ndcg_at_10 (co_outcome_counts p))) 5 \<and>
      int (length (co_improvements p)) = min (oc_improved (pm_ndcg_at_10 (co_outcome_counts p))) 5 \<and>
      co_regressions p = sort_key (\<lambda>q. (qd_ndcg_at_10_delta q, qd_query_id q)) (co_regressions p) \<and>
      co_improvements p = sort_key (\<lambda>q. (- qd_ndcg_at_10_delta q, qd_query_id q)) (co_improvements p))"

subsection \<open>Bad cases and diagnoses\<close>

definition QUERY_ID_PATTERN :: "string \<Rightarrow> bool" where
  "QUERY_ID_PATTERN =
     head_tail (\<lambda>c. lower c \<or> upper c \<or> digit c) (\<lambda>c. lower c \<or> upper c \<or> digit c \<or> c \<in> set ''._:-'') 127"

record bad_case_input =
  bc_query_id :: string
  bc_query_text :: ustring
  bc_relevant_title :: ustring
  bc_baseline_top_title :: "ustring option"
  bc_relevant_rank :: int
  bc_title_signal_used :: bool

text \<open>A \<^verbatim>\<open>StrictStr\<close> of 1 to 4096 characters; a lone surrogate is no valid string of the model.\<close>

definition bounded_text :: "ustring \<Rightarrow> bool" where
  "bounded_text t = (t \<noteq> [] \<and> length t \<le> 4096 \<and> (\<exists>bytes. utf8 t = Inr bytes))"

definition bad_case_ok :: "bad_case_input \<Rightarrow> bool" where
  "bad_case_ok b =
     (QUERY_ID_PATTERN (bc_query_id b) \<and> bounded_text (bc_query_text b) \<and> bounded_text (bc_relevant_title b) \<and>
      list_all bounded_text (case bc_baseline_top_title b of None \<Rightarrow> [] | Some t \<Rightarrow> [t]) \<and> 1 \<le> bc_relevant_rank b \<and>
      strip (bc_query_text b) \<noteq> [] \<and> tokenize (bc_query_text b) \<noteq> [] \<and> strip (bc_relevant_title b) \<noteq> [] \<and>
      (case bc_baseline_top_title b of None \<Rightarrow> True | Some t \<Rightarrow> strip t \<noteq> []))"

datatype root_cause = Numeric_token | Coverage_gap | Exact_phrase_displaced | Missing_title_signal

fun root_cause_value :: "root_cause \<Rightarrow> string" where
  "root_cause_value Numeric_token = ''numeric_token''"
| "root_cause_value Coverage_gap = ''coverage_gap''"
| "root_cause_value Exact_phrase_displaced = ''exact_phrase_displaced''"
| "root_cause_value Missing_title_signal = ''missing_title_signal''"

text \<open>\<^verbatim>\<open>ROOT_CAUSE_ORDER.index\<close>\<close>

fun cause_index :: "root_cause \<Rightarrow> nat" where
  "cause_index Numeric_token = 0"
| "cause_index Coverage_gap = 1"
| "cause_index Exact_phrase_displaced = 2"
| "cause_index Missing_title_signal = 3"

definition ROOT_CAUSE_ORDER :: "root_cause list" where
  "ROOT_CAUSE_ORDER = [Numeric_token, Coverage_gap, Exact_phrase_displaced, Missing_title_signal]"

record root_cause_finding =
  rf_cause :: root_cause
  rf_confidence :: rat

definition dump_finding :: "root_cause_finding \<Rightarrow> json" where
  "dump_finding f = JObj
     [(''cause'', JStr (root_cause_value (rf_cause f))), (''confidence'', fin_json (rf_confidence f)),
      (''reason_code'', JStr (root_cause_value (rf_cause f)))]"

record diagnosis_signals =
  ds_query_token_count :: int
  ds_numeric_query_token_count :: int
  ds_numeric_missing_from_top_count :: int
  ds_relevant_query_coverage :: rat
  ds_baseline_top_query_coverage :: rat
  ds_coverage_gap :: rat
  ds_exact_phrase_in_relevant :: bool
  ds_exact_phrase_in_baseline_top :: bool
  ds_relevant_rank :: int
  ds_title_signal_used :: bool

definition diagnosis_signals_ok :: "diagnosis_signals \<Rightarrow> bool" where
  "diagnosis_signals_ok s =
     (1 \<le> ds_query_token_count s \<and> 0 \<le> ds_numeric_query_token_count s \<and> 0 \<le> ds_numeric_missing_from_top_count s \<and>
      unit_float (ds_relevant_query_coverage s) \<and> unit_float (ds_baseline_top_query_coverage s) \<and>
      unit_float (ds_coverage_gap s) \<and> 1 \<le> ds_relevant_rank s \<and>
      ds_numeric_missing_from_top_count s \<le> ds_numeric_query_token_count s \<and>
      isclose_12 (ds_coverage_gap s) (max 0 (ds_relevant_query_coverage s - ds_baseline_top_query_coverage s)))"

definition dump_signals :: "diagnosis_signals \<Rightarrow> json" where
  "dump_signals s = JObj
     [(''baseline_top_query_coverage'', fin_json (ds_baseline_top_query_coverage s)),
      (''coverage_gap'', fin_json (ds_coverage_gap s)),
      (''exact_phrase_in_baseline_top'', JBool (ds_exact_phrase_in_baseline_top s)),
      (''exact_phrase_in_relevant'', JBool (ds_exact_phrase_in_relevant s)),
      (''numeric_missing_from_top_count'', JInt (ds_numeric_missing_from_top_count s)),
      (''numeric_query_token_count'', JInt (ds_numeric_query_token_count s)),
      (''query_token_count'', JInt (ds_query_token_count s)), (''relevant_query_coverage'', fin_json (ds_relevant_query_coverage s)),
      (''relevant_rank'', JInt (ds_relevant_rank s)), (''title_signal_used'', JBool (ds_title_signal_used s))]"

record bad_case_diagnosis =
  bd_diagnosis_id :: string
  bd_query_id :: string
  bd_findings :: "root_cause_finding list"
  bd_signals :: diagnosis_signals

definition bad_case_diagnosis_ok :: "bad_case_diagnosis \<Rightarrow> bool" where
  "bad_case_diagnosis_ok d =
     (prefixed_hex ''diagnosis-'' 12 (bd_diagnosis_id d) \<and> QUERY_ID_PATTERN (bd_query_id d) \<and>
      length (bd_findings d) \<le> 4 \<and> list_all (\<lambda>f. unit_float (rf_confidence f)) (bd_findings d) \<and>
      diagnosis_signals_ok (bd_signals d) \<and> distinct (map rf_cause (bd_findings d)) \<and>
      map rf_cause (bd_findings d) = sort_key cause_index (map rf_cause (bd_findings d)))"

subsection \<open>Candidates\<close>

record exact_boost_parameters =
  xb_coverage_boost :: rat
  xb_numeric_boost :: rat
  xb_phrase_boost :: rat

definition exact_boost_parameters_ok :: "exact_boost_parameters \<Rightarrow> bool" where
  "exact_boost_parameters_ok x =
     (0 \<le> xb_coverage_boost x \<and> xb_coverage_boost x \<le> 3 \<and> 0 \<le> xb_numeric_boost x \<and> xb_numeric_boost x \<le> 3 \<and>
      0 \<le> xb_phrase_boost x \<and> xb_phrase_boost x \<le> 3)"

definition complexity :: "exact_boost_parameters \<Rightarrow> rat" where
  "complexity x = round12 (xb_coverage_boost x + xb_numeric_boost x + xb_phrase_boost x)"

record exact_boost_candidate =
  xc_candidate_id :: string
  xc_trigger_cause :: root_cause
  xc_parameters :: exact_boost_parameters
  xc_supporting_diagnosis_ids :: "string list"
  xc_supporting_query_ids :: "string list"
  xc_support_count :: int

definition CANDIDATE_IDS :: "string list" where
  "CANDIDATE_IDS = [''exact-conservative-v1'', ''exact-numeric-v1'', ''exact-coverage-v1'', ''exact-phrase-v1'']"

text \<open>\<^verbatim>\<open>sorted(set(xs))\<close>\<close>

definition sorted_ids :: "string list \<Rightarrow> string list" where
  "sorted_ids xs = sort (remdups xs)"

definition exact_boost_candidate_ok :: "exact_boost_candidate \<Rightarrow> bool" where
  "exact_boost_candidate_ok x =
     (xc_candidate_id x \<in> set CANDIDATE_IDS \<and> exact_boost_parameters_ok (xc_parameters x) \<and>
      xc_supporting_diagnosis_ids x \<noteq> [] \<and> xc_supporting_query_ids x \<noteq> [] \<and> 1 \<le> xc_support_count x \<and>
      xc_supporting_diagnosis_ids x = sorted_ids (xc_supporting_diagnosis_ids x) \<and>
      xc_supporting_query_ids x = sorted_ids (xc_supporting_query_ids x) \<and>
      xc_support_count x = int (length (xc_supporting_query_ids x)))"

definition dump_candidate :: "exact_boost_candidate \<Rightarrow> json" where
  "dump_candidate x = JObj
     [(''candidate_id'', JStr (xc_candidate_id x)),
      (''parameters'', JObj [(''coverage_boost'', fin_json (xb_coverage_boost (xc_parameters x))),
                             (''numeric_boost'', fin_json (xb_numeric_boost (xc_parameters x))),
                             (''phrase_boost'', fin_json (xb_phrase_boost (xc_parameters x)))]),
      (''ranker_id'', JStr ''candidate-title-bm25-exact-boost-v1''), (''support_count'', JInt (xc_support_count x)),
      (''supporting_diagnosis_ids'', JList (map JStr (xc_supporting_diagnosis_ids x))),
      (''supporting_query_ids'', JList (map JStr (xc_supporting_query_ids x))),
      (''trigger_cause'', JStr (root_cause_value (xc_trigger_cause x)))]"

record candidate_selection =
  cs_selection_id :: string
  cs_diagnosis_count :: int
  cs_candidates :: "exact_boost_candidate list"

definition candidate_selection_ok :: "candidate_selection \<Rightarrow> bool" where
  "candidate_selection_ok s =
     (prefixed_hex ''candidate-selection-'' 12 (cs_selection_id s) \<and> 0 \<le> cs_diagnosis_count s \<and>
      length (cs_candidates s) \<le> 4 \<and> list_all exact_boost_candidate_ok (cs_candidates s) \<and>
      distinct (map xc_candidate_id (cs_candidates s)))"

subsection \<open>Scores and gates\<close>

record gate_policy =
  gp_min_ndcg_at_10_delta :: rat
  gp_min_ndcg_at_5_delta :: rat
  gp_min_mrr_at_10_delta :: rat
  gp_min_success_at_1_delta :: rat
  gp_min_success_at_5_delta :: rat
  gp_max_ndcg_at_10_regression_rate :: rat
  gp_max_worst_ndcg_at_10_regression_magnitude :: rat

definition float_0_15 :: rat where "float_0_15 = 5404319552844595 / 36028797018963968"
definition float_0_05 :: rat where "float_0_05 = 3602879701896397 / 72057594037927936"

definition TRUSTED_SMOKE_GATE_POLICY :: gate_policy where
  "TRUSTED_SMOKE_GATE_POLICY =
     \<lparr>gp_min_ndcg_at_10_delta = float_1e_12, gp_min_ndcg_at_5_delta = float_m0_02, gp_min_mrr_at_10_delta = 0,
      gp_min_success_at_1_delta = 0, gp_min_success_at_5_delta = 0, gp_max_ndcg_at_10_regression_rate = float_0_15,
      gp_max_worst_ndcg_at_10_regression_magnitude = float_0_05\<rparr>"

definition gate_policy_ok :: "gate_policy \<Rightarrow> bool" where
  "gate_policy_ok g =
     (delta_float (gp_min_ndcg_at_10_delta g) \<and> delta_float (gp_min_ndcg_at_5_delta g) \<and> delta_float (gp_min_mrr_at_10_delta g) \<and>
      delta_float (gp_min_success_at_1_delta g) \<and> delta_float (gp_min_success_at_5_delta g) \<and>
      unit_float (gp_max_ndcg_at_10_regression_rate g) \<and> unit_float (gp_max_worst_ndcg_at_10_regression_magnitude g))"

definition dump_gate_policy :: "gate_policy \<Rightarrow> json" where
  "dump_gate_policy g = JObj
     [(''max_ndcg_at_10_regression_rate'', fin_json (gp_max_ndcg_at_10_regression_rate g)),
      (''max_worst_ndcg_at_10_regression_magnitude'', fin_json (gp_max_worst_ndcg_at_10_regression_magnitude g)),
      (''min_mrr_at_10_delta'', fin_json (gp_min_mrr_at_10_delta g)), (''min_ndcg_at_10_delta'', fin_json (gp_min_ndcg_at_10_delta g)),
      (''min_ndcg_at_5_delta'', fin_json (gp_min_ndcg_at_5_delta g)), (''min_success_at_1_delta'', fin_json (gp_min_success_at_1_delta g)),
      (''min_success_at_5_delta'', fin_json (gp_min_success_at_5_delta g)), (''policy_version'', JStr ''smoke-release-gates-v2'')]"

record score_component =
  sc_name :: string
  sc_value :: rat
  sc_weight :: rat
  sc_contribution :: rat

definition SELECTION_SCORE_WEIGHTS :: "(string \<times> rat) list" where
  "SELECTION_SCORE_WEIGHTS =
     [(''ndcg@10_delta'', 1 / 2), (''ndcg@5_delta'', float_0_15), (''mrr@10_delta'', float_0_15),
      (''success@1_delta'', float_0_15), (''success@5_delta'', float_0_05), (''ndcg@10_regression_rate'', - float_0_1),
      (''worst_ndcg@10_regression_magnitude'', - float_0_1)]"

definition score_component_ok :: "score_component \<Rightarrow> bool" where
  "score_component_ok x =
     (sc_name x \<in> set (map fst SELECTION_SCORE_WEIGHTS) \<and> isclose_12 (sc_contribution x) (round12 (sc_value x * sc_weight x)))"

record score_breakdown =
  sb_components :: "score_component list"
  sb_total :: rat

definition score_breakdown_ok :: "score_breakdown \<Rightarrow> bool" where
  "score_breakdown_ok b =
     (length (sb_components b) = 7 \<and> list_all score_component_ok (sb_components b) \<and> distinct (map sc_name (sb_components b)) \<and>
      isclose_12 (sb_total b) (round12 (sum_list (map sc_contribution (sb_components b)))))"

definition dump_score :: "score_breakdown \<Rightarrow> json" where
  "dump_score b = JObj
     [(''components'', JList (map (\<lambda>x. JObj
         [(''contribution'', fin_json (sc_contribution x)), (''name'', JStr (sc_name x)), (''value'', fin_json (sc_value x)),
          (''weight'', fin_json (sc_weight x))]) (sb_components b))),
      (''policy_version'', JStr ''exact-boost-selection-score-v1''), (''total'', fin_json (sb_total b))]"

record smoke_check =
  sk_name :: string
  sk_comparator :: string
  sk_observed :: rat
  sk_threshold :: rat
  sk_passed :: bool

definition SMOKE_GATES :: "string list" where
  "SMOKE_GATES =
     [''ndcg@10_minimum'', ''ndcg@5_floor'', ''mrr@10_floor'', ''success@1_floor'', ''success@5_floor'',
      ''ndcg@10_regression_rate_ceiling'', ''worst_ndcg@10_regression_ceiling'']"

definition smoke_check_ok :: "smoke_check \<Rightarrow> bool" where
  "smoke_check_ok k =
     (sk_name k \<in> set SMOKE_GATES \<and> sk_comparator k \<in> {''>'', ''>='', ''<=''} \<and>
      sk_passed k = compare_by (sk_comparator k) (sk_observed k) (sk_threshold k))"

record gate_result =
  gr_policy :: gate_policy
  gr_checks :: "smoke_check list"
  gr_passed :: bool

definition gate_result_ok :: "gate_result \<Rightarrow> bool" where
  "gate_result_ok g =
     (gate_policy_ok (gr_policy g) \<and> length (gr_checks g) = 7 \<and> list_all smoke_check_ok (gr_checks g) \<and>
      distinct (map sk_name (gr_checks g)) \<and> gr_passed g = list_all sk_passed (gr_checks g))"

definition dump_gates :: "gate_result \<Rightarrow> json" where
  "dump_gates g = JObj
     [(''checks'', JList (map (\<lambda>k. JObj
         [(''comparator'', JStr (sk_comparator k)), (''name'', JStr (sk_name k)), (''observed'', fin_json (sk_observed k)),
          (''passed'', JBool (sk_passed k)), (''threshold'', fin_json (sk_threshold k))]) (gr_checks g))),
      (''passed'', JBool (gr_passed g)), (''policy'', dump_gate_policy (gr_policy g))]"

subsection \<open>Evaluations and the winner\<close>

record strategy_evaluation =
  se_evaluation_id :: string
  se_candidate :: exact_boost_candidate
  se_comparison_id :: string
  se_baseline_run_id :: string
  se_candidate_run_id :: string
  se_query_count :: int
  se_success_at_5 :: metric_delta
  se_mrr_at_10 :: metric_delta
  se_ndcg_at_10 :: metric_delta
  se_ndcg_at_10_delta :: rat
  se_mrr_at_10_delta :: rat
  se_success_at_5_delta :: rat
  se_selection_score :: score_breakdown
  se_gates :: gate_result
  se_eligible :: bool

definition strategy_evaluation_ok :: "strategy_evaluation \<Rightarrow> bool" where
  "strategy_evaluation_ok e =
     (prefixed_hex ''strategy-evaluation-'' 12 (se_evaluation_id e) \<and> exact_boost_candidate_ok (se_candidate e) \<and>
      prefixed_hex ''comparison-'' 12 (se_comparison_id e) \<and> RUN_ID_PATTERN (se_baseline_run_id e) \<and>
      RUN_ID_PATTERN (se_candidate_run_id e) \<and> 1 \<le> se_query_count e \<and>
      metric_delta_ok (se_success_at_5 e) \<and> metric_delta_ok (se_mrr_at_10 e) \<and> metric_delta_ok (se_ndcg_at_10 e) \<and>
      delta_float (se_ndcg_at_10_delta e) \<and> delta_float (se_mrr_at_10_delta e) \<and> delta_float (se_success_at_5_delta e) \<and>
      score_breakdown_ok (se_selection_score e) \<and> gate_result_ok (se_gates e) \<and>
      se_baseline_run_id e \<noteq> se_candidate_run_id e \<and> se_eligible e = gr_passed (se_gates e) \<and>
      isclose_abs float_1e_12 (se_ndcg_at_10_delta e) (md_delta (se_ndcg_at_10 e)) \<and>
      isclose_abs float_1e_12 (se_mrr_at_10_delta e) (md_delta (se_mrr_at_10 e)) \<and>
      isclose_abs float_1e_12 (se_success_at_5_delta e) (md_delta (se_success_at_5 e)))"

record winner_selection =
  ws_selection_id :: string
  ws_status :: string
  ws_baseline_run_id :: "string option"
  ws_evaluated_candidate_count :: int
  ws_eligible_candidate_count :: int
  ws_ranked_candidate_ids :: "string list"
  ws_winner_candidate_id :: "string option"
  ws_winner_evaluation_id :: "string option"

definition winner_selection_ok :: "winner_selection \<Rightarrow> bool" where
  "winner_selection_ok w =
     (prefixed_hex ''winner-selection-'' 12 (ws_selection_id w) \<and>
      ws_status w \<in> {''winner_selected'', ''no_passing_candidate''} \<and> pred_option RUN_ID_PATTERN (ws_baseline_run_id w) \<and>
      0 \<le> ws_evaluated_candidate_count w \<and> 0 \<le> ws_eligible_candidate_count w \<and>
      list_all (\<lambda>i. i \<in> set CANDIDATE_IDS) (ws_ranked_candidate_ids w) \<and>
      pred_option (\<lambda>i. i \<in> set CANDIDATE_IDS) (ws_winner_candidate_id w) \<and>
      pred_option (prefixed_hex ''strategy-evaluation-'' 12) (ws_winner_evaluation_id w) \<and>
      ws_eligible_candidate_count w \<le> ws_evaluated_candidate_count w \<and>
      int (length (ws_ranked_candidate_ids w)) = ws_eligible_candidate_count w \<and> distinct (ws_ranked_candidate_ids w) \<and>
      (if ws_status w = ''winner_selected'' then
         ws_ranked_candidate_ids w \<noteq> [] \<and> ws_winner_candidate_id w = Some (hd (ws_ranked_candidate_ids w)) \<and>
         ws_winner_evaluation_id w \<noteq> None
       else ws_winner_candidate_id w = None \<and> ws_winner_evaluation_id w = None))"

end
