(* ===== verification/StrategySearch.thy ===== *)
theory StrategySearch
  imports StrategyContracts
begin

text \<open>
  The functions of \<^verbatim>\<open>src/search_quality/agent/strategy_search.py\<close>: the diagnosis of a bad case, the choice of
  candidates from the fixed library, the score and the gates of a comparison, and the winner. Each result is
  validated by its model, as in the code. Logging is not modelled.
\<close>

definition strategy_id :: "codec \<Rightarrow> string \<Rightarrow> json \<Rightarrow> exn + string" where
  "strategy_id c prefix payload =
     ebind (canonical_json_bytes c payload) (\<lambda>canonical. Inr (prefix @ ''-'' @ take 12 (cd_sha c canonical)))"

definition checked :: "('a \<Rightarrow> bool) \<Rightarrow> 'a \<Rightarrow> exn + 'a" where
  "checked ok x = ebind (require (ok x) ValueError) (\<lambda>_. Inr x)"

subsection \<open>Diagnosis\<close>

definition query_terms :: "bad_case_input \<Rightarrow> ustring list" where
  "query_terms b = nub (tokenize (bc_query_text b))"

definition relevant_tokens :: "bad_case_input \<Rightarrow> ustring list" where
  "relevant_tokens b = tokenize (bc_relevant_title b)"

definition top_tokens :: "bad_case_input \<Rightarrow> ustring list" where
  "top_tokens b = tokenize (case bc_baseline_top_title b of None \<Rightarrow> [] | Some t \<Rightarrow> t)"

definition query_coverage :: "ustring list \<Rightarrow> ustring list \<Rightarrow> rat" where
  "query_coverage terms tokens = of_nat (card (set terms \<inter> set tokens)) / of_nat (card (set terms))"

definition coverage_gap_of :: "bad_case_input \<Rightarrow> rat" where
  "coverage_gap_of b =
     max 0 (query_coverage (query_terms b) (relevant_tokens b) - query_coverage (query_terms b) (top_tokens b))"

definition numeric_terms :: "bad_case_input \<Rightarrow> ustring set" where
  "numeric_terms b = set (filter has_digit (query_terms b))"

definition missing_numeric :: "bad_case_input \<Rightarrow> ustring set" where
  "missing_numeric b = (numeric_terms b \<inter> set (relevant_tokens b)) - set (top_tokens b)"

definition phrase_in :: "bad_case_input \<Rightarrow> ustring list \<Rightarrow> bool" where
  "phrase_in b tokens = (2 \<le> length (query_terms b) \<and> substring (join_space (query_terms b)) (join_space tokens))"

definition displaced :: "bad_case_input \<Rightarrow> bool" where
  "displaced b = (1 < bc_relevant_rank b)"

text \<open>The four findings, each with its condition.\<close>

fun shows_cause :: "bad_case_input \<Rightarrow> root_cause \<Rightarrow> bool" where
  "shows_cause b Numeric_token = (displaced b \<and> missing_numeric b \<noteq> {})"
| "shows_cause b Coverage_gap =
     (displaced b \<and> 0 < query_coverage (query_terms b) (relevant_tokens b) \<and> 1 / 4 \<le> coverage_gap_of b)"
| "shows_cause b Exact_phrase_displaced =
     (displaced b \<and> phrase_in b (relevant_tokens b) \<and> \<not> phrase_in b (top_tokens b))"
| "shows_cause b Missing_title_signal =
     (displaced b \<and> \<not> bc_title_signal_used b \<and> query_coverage (query_terms b) (relevant_tokens b) = 0)"

fun confidence_of :: "bad_case_input \<Rightarrow> root_cause \<Rightarrow> rat" where
  "confidence_of b Numeric_token = rounded_unit (of_nat (card (missing_numeric b)) / of_nat (card (numeric_terms b)))"
| "confidence_of b Coverage_gap = rounded_unit (coverage_gap_of b)"
| "confidence_of b _ = 1"

definition findings_of :: "bad_case_input \<Rightarrow> root_cause_finding list" where
  "findings_of b =
     map (\<lambda>x. \<lparr>rf_cause = x, rf_confidence = confidence_of b x\<rparr>)
       (filter (shows_cause b) [Numeric_token, Coverage_gap, Exact_phrase_displaced, Missing_title_signal])"

definition signals_of :: "bad_case_input \<Rightarrow> diagnosis_signals" where
  "signals_of b =
     \<lparr>ds_query_token_count = int (length (query_terms b)), ds_numeric_query_token_count = int (card (numeric_terms b)),
      ds_numeric_missing_from_top_count = int (card (missing_numeric b)),
      ds_relevant_query_coverage = rounded_unit (query_coverage (query_terms b) (relevant_tokens b)),
      ds_baseline_top_query_coverage = rounded_unit (query_coverage (query_terms b) (top_tokens b)),
      ds_coverage_gap = rounded_unit (coverage_gap_of b),
      ds_exact_phrase_in_relevant = phrase_in b (relevant_tokens b),
      ds_exact_phrase_in_baseline_top = phrase_in b (top_tokens b),
      ds_relevant_rank = bc_relevant_rank b, ds_title_signal_used = bc_title_signal_used b\<rparr>"

definition dump_bad_case :: "bad_case_input \<Rightarrow> exn + json" where
  "dump_bad_case b =
     ebind (utf8 (bc_query_text b)) (\<lambda>q.
     ebind (utf8 (bc_relevant_title b)) (\<lambda>r.
     ebind (case bc_baseline_top_title b of None \<Rightarrow> Inr JNull | Some t \<Rightarrow> ebind (utf8 t) (\<lambda>x. Inr (JStr x))) (\<lambda>top_title.
     Inr (JObj [(''baseline_top_title'', top_title), (''query_id'', JStr (bc_query_id b)), (''query_text'', JStr q),
                (''relevant_rank'', JInt (bc_relevant_rank b)), (''relevant_title'', JStr r),
                (''title_signal_used'', JBool (bc_title_signal_used b))]))))"

definition diagnose_bad_case :: "codec \<Rightarrow> bad_case_input \<Rightarrow> exn + bad_case_diagnosis" where
  "diagnose_bad_case c b =
     ebind (require (list_all (\<lambda>f. unit_float (rf_confidence f)) (findings_of b)) ValueError) (\<lambda>_.
     ebind (checked diagnosis_signals_ok (signals_of b)) (\<lambda>signals.
     ebind (dump_bad_case b) (\<lambda>case_json.
     ebind (strategy_id c ''diagnosis''
              (JObj [(''findings'', JList (map dump_finding (findings_of b))), (''input'', case_json),
                     (''signals'', dump_signals signals)])) (\<lambda>i.
     checked bad_case_diagnosis_ok
       \<lparr>bd_diagnosis_id = i, bd_query_id = bc_query_id b, bd_findings = findings_of b, bd_signals = signals\<rparr>))))"

subsection \<open>Candidates\<close>

definition float_0_2 :: rat where "float_0_2 = 3602879701896397 / 18014398509481984"
definition float_0_3 :: rat where "float_0_3 = 5404319552844595 / 18014398509481984"
definition float_0_6 :: rat where "float_0_6 = 5404319552844595 / 9007199254740992"
definition float_0_8 :: rat where "float_0_8 = 3602879701896397 / 4503599627370496"
definition float_1_4 :: rat where "float_1_4 = 3152519739159347 / 2251799813685248"
definition float_1_8 :: rat where "float_1_8 = 8106479329266893 / 4503599627370496"

fun CANDIDATE_LIBRARY :: "root_cause \<Rightarrow> (string \<times> exact_boost_parameters) option" where
  "CANDIDATE_LIBRARY Numeric_token =
     Some (''exact-numeric-v1'', \<lparr>xb_coverage_boost = float_0_8, xb_numeric_boost = float_1_8, xb_phrase_boost = 1\<rparr>)"
| "CANDIDATE_LIBRARY Coverage_gap =
     Some (''exact-coverage-v1'', \<lparr>xb_coverage_boost = float_1_4, xb_numeric_boost = 1, xb_phrase_boost = 1\<rparr>)"
| "CANDIDATE_LIBRARY Exact_phrase_displaced =
     Some (''exact-phrase-v1'', \<lparr>xb_coverage_boost = float_0_6, xb_numeric_boost = float_0_8, xb_phrase_boost = float_1_8\<rparr>)"
| "CANDIDATE_LIBRARY Missing_title_signal = None"

definition CONSERVATIVE_PARAMETERS :: exact_boost_parameters where
  "CONSERVATIVE_PARAMETERS = \<lparr>xb_coverage_boost = float_0_2, xb_numeric_boost = float_0_3, xb_phrase_boost = float_0_3\<rparr>"

definition in_library :: "root_cause \<Rightarrow> bool" where
  "in_library x = (CANDIDATE_LIBRARY x \<noteq> None)"

text \<open>\<^verbatim>\<open>support[cause]\<close>: the diagnoses with a finding of that cause, in order.\<close>

definition support :: "bad_case_diagnosis list \<Rightarrow> root_cause \<Rightarrow> bad_case_diagnosis list" where
  "support ds x = concat (map (\<lambda>d. map (\<lambda>_. d) (filter (\<lambda>f. rf_cause f = x) (bd_findings d))) ds)"

definition cause_count :: "bad_case_diagnosis list \<Rightarrow> root_cause \<Rightarrow> nat" where
  "cause_count ds x = card (set (map bd_query_id (support ds x)))"

definition ordered_causes :: "bad_case_diagnosis list \<Rightarrow> root_cause list" where
  "ordered_causes ds =
     sort_key (\<lambda>x. (- int (cause_count ds x), cause_index x))
       (filter (\<lambda>x. support ds x \<noteq> [] \<and> in_library x) ROOT_CAUSE_ORDER)"

definition addressable :: "bad_case_diagnosis \<Rightarrow> bool" where
  "addressable d = list_ex (\<lambda>f. in_library (rf_cause f)) (bd_findings d)"

definition candidate_for :: "string \<Rightarrow> exact_boost_parameters \<Rightarrow> root_cause \<Rightarrow> bad_case_diagnosis list \<Rightarrow> exact_boost_candidate" where
  "candidate_for i parameters x supporting =
     (let query_ids = sorted_ids (map bd_query_id supporting) in
      \<lparr>xc_candidate_id = i, xc_trigger_cause = x, xc_parameters = parameters,
       xc_supporting_diagnosis_ids = sorted_ids (map bd_diagnosis_id supporting),
       xc_supporting_query_ids = query_ids, xc_support_count = int (length query_ids)\<rparr>)"

definition conservative_candidates :: "bad_case_diagnosis list \<Rightarrow> exact_boost_candidate list" where
  "conservative_candidates ds =
     (if filter addressable ds = [] then []
      else [candidate_for ''exact-conservative-v1'' CONSERVATIVE_PARAMETERS (hd (ordered_causes ds)) (filter addressable ds)])"

definition targeted_candidate :: "bad_case_diagnosis list \<Rightarrow> root_cause \<Rightarrow> exact_boost_candidate list" where
  "targeted_candidate ds x =
     (case CANDIDATE_LIBRARY x of None \<Rightarrow> [] | Some (i, parameters) \<Rightarrow> [candidate_for i parameters x (support ds x)])"

definition select_exact_boost_candidates :: "codec \<Rightarrow> bad_case_diagnosis list \<Rightarrow> json \<Rightarrow> exn + candidate_selection" where
  "select_exact_boost_candidates c ds max_candidates =
     (case max_candidates of
        JInt n \<Rightarrow>
          ebind (require (1 \<le> n \<and> n \<le> 4) ValueError) (\<lambda>_.
          ebind (require (distinct (map bd_diagnosis_id ds)) ValueError) (\<lambda>_.
          let selected = take (nat (max 0 (n - 1))) (ordered_causes ds);
              candidates = conservative_candidates ds @ concat (map (targeted_candidate ds) selected) in
          ebind (require (list_all exact_boost_candidate_ok candidates) ValueError) (\<lambda>_.
          ebind (strategy_id c ''candidate-selection''
                   (JObj [(''candidate_ids'', JList (map (\<lambda>x. JStr (xc_candidate_id x)) candidates)),
                          (''diagnosis_ids'', JList (map JStr (sort (map bd_diagnosis_id ds)))),
                          (''max_candidates'', JInt n)])) (\<lambda>i.
          checked candidate_selection_ok
            \<lparr>cs_selection_id = i, cs_diagnosis_count = int (length ds), cs_candidates = candidates\<rparr>))))
      | _ \<Rightarrow> Inl TypeError)"

subsection \<open>Evaluations\<close>

definition smoke_check_of :: "string \<Rightarrow> string \<Rightarrow> rat \<Rightarrow> rat \<Rightarrow> smoke_check" where
  "smoke_check_of name comparator observed threshold =
     \<lparr>sk_name = name, sk_comparator = comparator, sk_observed = round12 observed, sk_threshold = round12 threshold,
      sk_passed = compare_by comparator (round12 observed) (round12 threshold)\<rparr>"

definition regression_rate :: "compare_payload \<Rightarrow> rat" where
  "regression_rate p = of_int (oc_regressed (pm_ndcg_at_10 (co_outcome_counts p))) / of_int (co_query_count p)"

definition worst_regression :: "compare_payload \<Rightarrow> rat" where
  "worst_regression p =
     (case map (\<lambda>q. - qd_ndcg_at_10_delta q) (filter (\<lambda>q. qd_ndcg_at_10_delta q < 0) (co_regressions p)) of
        [] \<Rightarrow> 0 | x # xs \<Rightarrow> foldl max x xs)"

definition aggregate_delta :: "compare_payload \<Rightarrow> (metric_delta per_metric \<Rightarrow> metric_delta) \<Rightarrow> rat" where
  "aggregate_delta p m = md_delta (m (co_aggregate_metrics p))"

definition score_values :: "compare_payload \<Rightarrow> (string \<times> rat) list" where
  "score_values p =
     [(''ndcg@10_delta'', aggregate_delta p pm_ndcg_at_10), (''ndcg@5_delta'', aggregate_delta p pm_ndcg_at_5),
      (''mrr@10_delta'', aggregate_delta p pm_mrr_at_10), (''success@1_delta'', aggregate_delta p pm_success_at_1),
      (''success@5_delta'', aggregate_delta p pm_success_at_5), (''ndcg@10_regression_rate'', rounded_unit (regression_rate p)),
      (''worst_ndcg@10_regression_magnitude'', rounded_unit (worst_regression p))]"

definition score_component_of :: "compare_payload \<Rightarrow> string \<times> rat \<Rightarrow> score_component" where
  "score_component_of p x =
     (case x of (name, weight) \<Rightarrow>
        let value = the (map_of (score_values p) name) in
        \<lparr>sc_name = name, sc_value = value, sc_weight = weight, sc_contribution = round12 (value * weight)\<rparr>)"

definition score_of :: "compare_payload \<Rightarrow> score_breakdown" where
  "score_of p =
     (let components = map (score_component_of p) SELECTION_SCORE_WEIGHTS in
      \<lparr>sb_components = components, sb_total = round12 (sum_list (map sc_contribution components))\<rparr>)"

definition checks_of :: "gate_policy \<Rightarrow> compare_payload \<Rightarrow> smoke_check list" where
  "checks_of g p =
     [smoke_check_of ''ndcg@10_minimum'' ''>'' (aggregate_delta p pm_ndcg_at_10) (gp_min_ndcg_at_10_delta g),
      smoke_check_of ''ndcg@5_floor'' ''>='' (aggregate_delta p pm_ndcg_at_5) (gp_min_ndcg_at_5_delta g),
      smoke_check_of ''mrr@10_floor'' ''>='' (aggregate_delta p pm_mrr_at_10) (gp_min_mrr_at_10_delta g),
      smoke_check_of ''success@1_floor'' ''>='' (aggregate_delta p pm_success_at_1) (gp_min_success_at_1_delta g),
      smoke_check_of ''success@5_floor'' ''>='' (aggregate_delta p pm_success_at_5) (gp_min_success_at_5_delta g),
      smoke_check_of ''ndcg@10_regression_rate_ceiling'' ''<='' (regression_rate p) (gp_max_ndcg_at_10_regression_rate g),
      smoke_check_of ''worst_ndcg@10_regression_ceiling'' ''<='' (worst_regression p)
        (gp_max_worst_ndcg_at_10_regression_magnitude g)]"

definition gates_of :: "gate_policy \<Rightarrow> compare_payload \<Rightarrow> gate_result" where
  "gates_of g p = \<lparr>gr_policy = g, gr_checks = checks_of g p, gr_passed = list_all sk_passed (checks_of g p)\<rparr>"

definition score_strategy_comparison ::
    "codec \<Rightarrow> exact_boost_candidate \<Rightarrow> compare_payload \<Rightarrow> gate_policy option \<Rightarrow> exn + strategy_evaluation" where
  "score_strategy_comparison c x p gate_policy =
     (let g = (case gate_policy of None \<Rightarrow> TRUSTED_SMOKE_GATE_POLICY | Some g \<Rightarrow> g) in
      ebind (require (list_all score_component_ok (map (score_component_of p) SELECTION_SCORE_WEIGHTS)) ValueError) (\<lambda>_.
      ebind (checked score_breakdown_ok (score_of p)) (\<lambda>score.
      ebind (require (list_all smoke_check_ok (checks_of g p)) ValueError) (\<lambda>_.
      ebind (checked gate_result_ok (gates_of g p)) (\<lambda>gates.
      ebind (strategy_id c ''strategy-evaluation''
               (JObj [(''candidate'', dump_candidate x), (''comparison_id'', JStr (co_comparison_id p)),
                      (''gates'', dump_gates gates), (''selection_score'', dump_score score)])) (\<lambda>i.
      checked strategy_evaluation_ok
        \<lparr>se_evaluation_id = i, se_candidate = x, se_comparison_id = co_comparison_id p,
         se_baseline_run_id = co_baseline_run_id p, se_candidate_run_id = co_candidate_run_id p,
         se_query_count = co_query_count p, se_success_at_5 = pm_success_at_5 (co_aggregate_metrics p),
         se_mrr_at_10 = pm_mrr_at_10 (co_aggregate_metrics p), se_ndcg_at_10 = pm_ndcg_at_10 (co_aggregate_metrics p),
         se_ndcg_at_10_delta = aggregate_delta p pm_ndcg_at_10, se_mrr_at_10_delta = aggregate_delta p pm_mrr_at_10,
         se_success_at_5_delta = aggregate_delta p pm_success_at_5, se_selection_score = score, se_gates = gates,
         se_eligible = gr_passed gates\<rparr>))))))"

definition candidate_id_of :: "strategy_evaluation \<Rightarrow> string" where
  "candidate_id_of e = xc_candidate_id (se_candidate e)"

definition winner_key :: "strategy_evaluation \<Rightarrow> rat \<times> rat \<times> rat \<times> string" where
  "winner_key e =
     (- sb_total (se_selection_score e), - se_ndcg_at_10_delta e, complexity (xc_parameters (se_candidate e)), candidate_id_of e)"

definition select_winner :: "codec \<Rightarrow> strategy_evaluation list \<Rightarrow> exn + winner_selection" where
  "select_winner c es =
     ebind (require (distinct (map candidate_id_of es)) ValueError) (\<lambda>_.
     ebind (require (card (set (map se_baseline_run_id es)) \<le> 1) ValueError) (\<lambda>_.
     let eligible = sort_key winner_key (filter se_eligible es);
         ranked = map candidate_id_of eligible in
     ebind (strategy_id c ''winner-selection''
              (JObj [(''evaluation_ids'', JList (map JStr (sort (map se_evaluation_id es)))),
                     (''ranked_candidate_ids'', JList (map JStr ranked))])) (\<lambda>i.
     checked winner_selection_ok
       \<lparr>ws_selection_id = i, ws_status = (if eligible \<noteq> [] then ''winner_selected'' else ''no_passing_candidate''),
        ws_baseline_run_id = (case es of [] \<Rightarrow> None | e # _ \<Rightarrow> Some (se_baseline_run_id e)),
        ws_evaluated_candidate_count = int (length es), ws_eligible_candidate_count = int (length eligible),
        ws_ranked_candidate_ids = ranked,
        ws_winner_candidate_id = (case eligible of [] \<Rightarrow> None | e # _ \<Rightarrow> Some (candidate_id_of e)),
        ws_winner_evaluation_id = (case eligible of [] \<Rightarrow> None | e # _ \<Rightarrow> Some (se_evaluation_id e))\<rparr>)))"

end
