(* ===== verification/StrategyLemmas.thy ===== *)
theory StrategyLemmas
  imports StrategySearch
begin

text \<open>
  What the functions of the strategy search compute always passes the validators of their models: rounding keeps
  order and range, the findings come in canonical order, supports are sorted and non-empty, and the winner is the
  head of its ranking.
\<close>

subsection \<open>Rounding\<close>

lemma half_even_close: "\<bar>of_int (half_even x) - x\<bar> \<le> 1 / 2"
proof -
  have "of_int \<lfloor>x\<rfloor> \<le> x" "x < of_int \<lfloor>x\<rfloor> + 1" by linarith+
  then show ?thesis by (auto simp: half_even_def Let_def abs_le_iff field_simps)
qed

lemma half_even_of_int [simp]: "half_even (of_int n) = n"
  by (simp add: half_even_def)

lemma half_even_mono: "x \<le> y \<Longrightarrow> half_even x \<le> half_even y"
proof (rule ccontr)
  assume le: "x \<le> y" and "\<not> half_even x \<le> half_even y"
  then have "of_int (half_even y) + 1 \<le> (of_int (half_even x) :: rat)"
    by (metis linorder_not_le of_int_1 of_int_add of_int_le_iff zless_imp_add1_zle)
  then have "y = x" using half_even_close [of x] half_even_close [of y] le unfolding abs_le_iff by linarith
  with \<open>\<not> half_even x \<le> half_even y\<close> show False by simp
qed

lemma round12_mono: "x \<le> y \<Longrightarrow> round12 x \<le> round12 y"
  by (simp add: round12_def half_even_mono divide_right_mono)

lemma round12_fixed: "round12 (of_int n / 10 ^ 12) = of_int n / 10 ^ 12"
  by (simp add: round12_def)

lemma round12_round12 [simp]: "round12 (round12 x) = round12 x"
  unfolding round12_def [of x] by (rule round12_fixed)

lemma round12_const [simp]: "round12 0 = 0" "round12 1 = 1"
  using round12_fixed [of 0] round12_fixed [of "10 ^ 12"] by simp_all

lemma round12_close: "\<bar>round12 x - x\<bar> \<le> 1 / (2 * 10 ^ 12)"
proof -
  have "round12 x - x = (of_int (half_even (x * 10 ^ 12)) - x * 10 ^ 12) / 10 ^ 12"
    by (simp add: round12_def diff_divide_distrib)
  then have "\<bar>round12 x - x\<bar> = \<bar>of_int (half_even (x * 10 ^ 12)) - x * 10 ^ 12\<bar> / 10 ^ 12"
    by (simp only: abs_divide) simp
  also have "\<dots> \<le> (1 / 2) / 10 ^ 12" by (rule divide_right_mono [OF half_even_close]) simp
  finally show ?thesis by simp
qed

lemma rounded_unit_range: "unit_float (rounded_unit x)"
  using round12_mono [of 0 "min 1 (max 0 x)"] round12_mono [of "min 1 (max 0 x)" 1] by (simp add: rounded_unit_def)

lemma rounded_unit_of_unit: "unit_float x \<Longrightarrow> rounded_unit x = round12 x"
  by (simp add: rounded_unit_def)

text \<open>Rounding a difference and the difference of the rounded values are one unit apart at most.\<close>

lemma round12_diff: "\<bar>round12 (x - y) - (round12 x - round12 y)\<bar> \<le> 1 / 10 ^ 12"
proof -
  let ?E = "10 ^ 12 :: rat"
  let ?n = "half_even ((x - y) * ?E) - (half_even (x * ?E) - half_even (y * ?E))"
  have "\<bar>of_int ?n :: rat\<bar> \<le> 3 / 2"
    using half_even_close [of "(x - y) * ?E"] half_even_close [of "x * ?E"] half_even_close [of "y * ?E"]
    unfolding abs_le_iff left_diff_distrib of_int_diff by linarith
  then have "\<bar>?n\<bar> \<le> 1" by linarith
  then have "\<bar>of_int ?n :: rat\<bar> \<le> 1" by linarith
  then have step: "\<bar>of_int ?n :: rat\<bar> / ?E \<le> 1 / ?E" by (intro divide_right_mono) simp_all
  have eq: "round12 (x - y) - (round12 x - round12 y) = of_int ?n / ?E"
    by (simp add: round12_def diff_divide_distrib)
  have E: "\<bar>?E\<bar> = ?E" by simp
  show ?thesis unfolding eq abs_divide E by (rule step)
qed

lemma isclose_12_refl [simp]: "isclose_12 x x"
  by (simp add: isclose_12_def float_1e_12_def)

subsection \<open>A diagnosis is always valid\<close>

lemma query_terms_props:
  assumes "bad_case_ok b"
  shows "query_terms b \<noteq> []" "distinct (query_terms b)" "card (set (query_terms b)) = length (query_terms b)"
proof -
  show "query_terms b \<noteq> []" using assms by (simp add: bad_case_ok_def query_terms_def)
  show d: "distinct (query_terms b)" by (simp add: query_terms_def)
  show "card (set (query_terms b)) = length (query_terms b)" by (rule distinct_card [OF d])
qed

lemma query_coverage_range: "unit_float (query_coverage terms tokens)"
proof (cases "terms = []")
  case False
  have "card (set terms \<inter> set tokens) \<le> card (set terms)" by (rule card_mono) auto
  moreover have "0 < card (set terms)" using False by (simp add: card_gt_0_iff)
  ultimately show ?thesis by (simp add: query_coverage_def)
qed (simp add: query_coverage_def)

lemma coverage_gap_range: "unit_float (coverage_gap_of b)"
  using query_coverage_range [of "query_terms b" "relevant_tokens b"] query_coverage_range [of "query_terms b" "top_tokens b"]
  unfolding coverage_gap_of_def by linarith

lemma coverage_gap_step:
  assumes "bad_case_ok b" and "coverage_gap_of b \<noteq> 0"
  shows "1 / of_nat (length (query_terms b)) \<le> coverage_gap_of b"
proof -
  let ?n = "length (query_terms b)"
  define k where "k = int (card (set (query_terms b) \<inter> set (relevant_tokens b))) - int (card (set (query_terms b) \<inter> set (top_tokens b)))"
  have n: "0 < ?n" using query_terms_props(1) [OF assms(1)] by simp
  have gap: "coverage_gap_of b = max 0 (of_int k / of_nat ?n)"
    by (simp add: coverage_gap_of_def query_coverage_def query_terms_props(3) [OF assms(1)] k_def diff_divide_distrib)
  with assms(2) have "\<not> (of_int k / of_nat ?n :: rat) \<le> 0" by (simp only: max_def split: if_splits)
  then have "0 < (of_int k / of_nat ?n :: rat)" by simp
  then have "1 \<le> k" using n by (simp add: zero_less_divide_iff)
  then have "1 / of_nat ?n \<le> (of_int k / of_nat ?n :: rat)" by (intro divide_right_mono) simp_all
  then show ?thesis by (simp add: gap)
qed

lemma gap_isclose:
  assumes "bad_case_ok b" and "length (query_terms b) \<le> 500"
  shows "isclose_12 (rounded_unit (coverage_gap_of b))
    (max 0 (rounded_unit (query_coverage (query_terms b) (relevant_tokens b)) -
            rounded_unit (query_coverage (query_terms b) (top_tokens b))))"
proof -
  let ?x = "query_coverage (query_terms b) (relevant_tokens b)" and ?y = "query_coverage (query_terms b) (top_tokens b)"
  note r = rounded_unit_of_unit [OF query_coverage_range] rounded_unit_of_unit [OF coverage_gap_range]
  show ?thesis
  proof (cases "coverage_gap_of b = 0")
    case True
    then have "?x \<le> ?y" by (simp add: coverage_gap_of_def max_def split: if_splits)
    then have "round12 ?x \<le> round12 ?y" by (rule round12_mono)
    then show ?thesis unfolding r True by (simp add: max_def rounded_unit_def)
  next
    case False
    then have gap: "coverage_gap_of b = ?x - ?y" and le: "?y \<le> ?x" by (auto simp: coverage_gap_of_def max_def split: if_splits)
    have n: "0 < length (query_terms b)" using query_terms_props(1) [OF assms(1)] by simp
    have "(1 / 500 :: rat) \<le> 1 / of_nat (length (query_terms b))"
      using assms(2) n by (simp add: field_simps)
    also have "\<dots> \<le> coverage_gap_of b" by (rule coverage_gap_step [OF assms(1) False])
    finally have "round12 (1 / 500) \<le> round12 (coverage_gap_of b)" by (rule round12_mono)
    moreover have "round12 (1 / 500) = 1 / 500" using round12_fixed [of 2000000000] by simp
    ultimately have big: "1 / 500 \<le> round12 (coverage_gap_of b)" by simp
    have "\<bar>round12 (coverage_gap_of b) - max 0 (round12 ?x - round12 ?y)\<bar> \<le> 1 / 10 ^ 12"
      using round12_diff [of ?x ?y] round12_mono [OF le] by (simp add: gap max_def)
    also have "\<dots> \<le> float_1e_9 * (1 / 500)" by (simp add: float_1e_9_def)
    also have "\<dots> \<le> float_1e_9 * max \<bar>round12 (coverage_gap_of b)\<bar> \<bar>max 0 (round12 ?x - round12 ?y)\<bar>"
      using big by (intro mult_left_mono) (auto simp: float_1e_9_def max_def)
    finally show ?thesis unfolding r isclose_12_def le_max_iff_disj by (rule disjI1)
  qed
qed

lemma confidence_range: "unit_float (confidence_of b x)"
  using rounded_unit_range by (cases x) simp_all

lemma signals_valid:
  assumes "bad_case_ok b" and "length (query_terms b) \<le> 500"
  shows "diagnosis_signals_ok (signals_of b)"
proof -
  have "finite (numeric_terms b)" by (simp add: numeric_terms_def)
  then have "card (missing_numeric b) \<le> card (numeric_terms b)" by (rule card_mono) (auto simp: missing_numeric_def)
  then show ?thesis
    using query_terms_props(1) [OF assms(1)] rounded_unit_range gap_isclose [OF assms] assms(1)
    by (simp add: diagnosis_signals_ok_def signals_of_def bad_case_ok_def Suc_le_eq)
qed

lemma findings_causes: "map rf_cause (findings_of b) = filter (shows_cause b) ROOT_CAUSE_ORDER"
  by (simp add: findings_of_def ROOT_CAUSE_ORDER_def comp_def)

lemma cause_order: "sorted (map cause_index (filter P ROOT_CAUSE_ORDER))" "distinct (filter P ROOT_CAUSE_ORDER)"
  by (simp_all add: ROOT_CAUSE_ORDER_def)

text \<open>The digest of the codec has the form that \<^verbatim>\<open>hashlib.sha256(...).hexdigest()\<close> promises.\<close>

definition hex_digests :: "codec \<Rightarrow> bool" where
  "hex_digests c = (\<forall>text. hex_exact 64 (cd_sha c text))"

lemma strategy_id_valid:
  assumes "hex_digests c" and "json_ok v"
  shows "\<exists>i. strategy_id c prefix v = Inr i \<and> prefixed_hex (prefix @ ''-'') 12 i"
proof -
  obtain bytes where b: "canonical_json_bytes c v = Inr bytes"
    using assms(2) by (auto simp: canonical_json_bytes_def ensure_json_value_def)
  have "hex_exact 64 (cd_sha c bytes)" using assms(1) by (simp add: hex_digests_def)
  then have "hex_exact 12 (take 12 (cd_sha c bytes))" by (auto simp: hex_exact_def list_all_iff dest: in_set_takeD)
  then show ?thesis by (simp add: strategy_id_def b prefixed_hex_def)
qed

lemma dumps_json_ok [simp]:
  "json_ok (dump_finding f)" "json_ok (dump_signals s)" "json_ok (dump_candidate x)" "json_ok (dump_gate_policy g)"
  "json_ok (dump_score b)" "json_ok (dump_gates r)"
  by (simp_all add: dump_finding_def dump_signals_def dump_candidate_def dump_gate_policy_def dump_score_def dump_gates_def
      list_all_iff)

lemma dump_bad_case_total:
  assumes "bad_case_ok b"
  shows "\<exists>j. dump_bad_case b = Inr j \<and> json_ok j"
proof -
  obtain q r where "utf8 (bc_query_text b) = Inr q" "utf8 (bc_relevant_title b) = Inr r"
    using assms by (auto simp: bad_case_ok_def bounded_text_def)
  moreover obtain t where "(case bc_baseline_top_title b of None \<Rightarrow> Inr JNull | Some t \<Rightarrow> ebind (utf8 t) (\<lambda>x. Inr (JStr x))) = Inr t"
    "json_ok t"
    using assms by (cases "bc_baseline_top_title b") (auto simp: bad_case_ok_def bounded_text_def)
  ultimately show ?thesis by (simp add: dump_bad_case_def)
qed

lemma diagnose_bad_case_total:
  assumes ok: "bad_case_ok b" and few: "length (query_terms b) \<le> 500" and c: "hex_digests c"
  shows "\<exists>d. diagnose_bad_case c b = Inr d \<and> bad_case_diagnosis_ok d \<and> bd_query_id d = bc_query_id b \<and>
    bd_findings d = findings_of b \<and> bd_signals d = signals_of b"
proof -
  obtain j where j: "dump_bad_case b = Inr j" "json_ok j" using dump_bad_case_total [OF ok] by blast
  let ?v = "JObj [(''findings'', JList (map dump_finding (findings_of b))), (''input'', j), (''signals'', dump_signals (signals_of b))]"
  have "json_ok ?v" using j(2) by (simp add: list_all_iff)
  then obtain i where i: "strategy_id c ''diagnosis'' ?v = Inr i" "prefixed_hex ''diagnosis-'' 12 i"
    using strategy_id_valid [OF c, of ?v "''diagnosis''"] by auto
  let ?d = "\<lparr>bd_diagnosis_id = i, bd_query_id = bc_query_id b, bd_findings = findings_of b, bd_signals = signals_of b\<rparr>"
  have f: "list_all (\<lambda>f. unit_float (rf_confidence f)) (findings_of b)"
    using confidence_range by (simp add: findings_of_def list_all_iff)
  have len: "length (findings_of b) \<le> 4"
    unfolding findings_of_def length_map by (rule order_trans [OF length_filter_le]) simp
  have "bad_case_diagnosis_ok ?d"
    using i(2) ok f len signals_valid [OF ok few] cause_order [of "shows_cause b"]
    by (simp add: bad_case_diagnosis_ok_def bad_case_ok_def findings_causes sort_key_id_if_sorted)
  then show ?thesis
    using f signals_valid [OF ok few] j(1) i(1) by (simp add: diagnose_bad_case_def checked_def)
qed

subsection \<open>What a finding says about the boosted ranker\<close>

text \<open>The parts of the boosted score that the candidates of the library raise, for the relevant and the top title.\<close>

lemma coverage_part_coverage:
  assumes "bad_case_ok b"
  shows "coverage_part r (query_terms b) tokens = of_rat (bo_coverage r) * of_rat (query_coverage (query_terms b) tokens)"
  using query_terms_props(1) [OF assms] by (simp add: coverage_part_def query_coverage_def of_rat_divide Let_def)

lemma coverage_finding_gain:
  assumes "bad_case_ok b" and "shows_cause b Coverage_gap" and "0 \<le> bo_coverage r"
  shows "coverage_part r (query_terms b) (top_tokens b) + of_rat (bo_coverage r) / 4 \<le> coverage_part r (query_terms b) (relevant_tokens b)"
proof -
  let ?x = "query_coverage (query_terms b) (relevant_tokens b)" and ?y = "query_coverage (query_terms b) (top_tokens b)"
  have "1 / 4 \<le> max 0 (?x - ?y)" using assms(2) by (simp add: coverage_gap_of_def)
  then have "?y + 1 / 4 \<le> ?x" by (simp add: max_def split: if_splits)
  then have "of_rat (?y + 1 / 4) \<le> (of_rat ?x :: real)" by (simp only: of_rat_less_eq)
  then have "(of_rat ?y :: real) + 1 / 4 \<le> of_rat ?x" by (simp add: of_rat_add of_rat_divide)
  then have "of_rat (bo_coverage r) * ((of_rat ?y :: real) + 1 / 4) \<le> of_rat (bo_coverage r) * of_rat ?x"
    using assms(3) by (intro mult_left_mono) auto
  then show ?thesis by (simp add: coverage_part_coverage [OF assms(1)] distrib_left)
qed

lemma phrase_finding_gain:
  assumes "bad_case_ok b" and "shows_cause b Exact_phrase_displaced"
  shows "phrase_part r (query_terms b) (relevant_tokens b) = of_rat (bo_phrase r)"
    "phrase_part r (query_terms b) (top_tokens b) = 0"
  using assms(2) query_terms_props(1) [OF assms(1)] by (auto simp: phrase_in_def phrase_part_def)

subsection \<open>Candidates\<close>

lemma sorted_ids_props [simp]:
  "set (sorted_ids xs) = set xs" "distinct (sorted_ids xs)" "sorted_ids (sorted_ids xs) = sorted_ids xs"
  "sorted_ids xs = [] \<longleftrightarrow> xs = []" "length (sorted_ids xs) = card (set xs)"
proof -
  show "set (sorted_ids xs) = set xs" and d: "distinct (sorted_ids xs)" by (simp_all add: sorted_ids_def)
  then show "length (sorted_ids xs) = card (set xs)" by (metis distinct_card)
  show "sorted_ids (sorted_ids xs) = sorted_ids xs"
    unfolding sorted_ids_def by (simp add: distinct_remdups_id sorted_sort_id)
  show "sorted_ids xs = [] \<longleftrightarrow> xs = []" by (metis \<open>set (sorted_ids xs) = set xs\<close> set_empty)
qed

definition causes :: "bad_case_diagnosis \<Rightarrow> root_cause set" where
  "causes d = rf_cause ` set (bd_findings d)"

lemma one_finding:
  "distinct (map rf_cause fs) \<Longrightarrow> map (\<lambda>_. d) (filter (\<lambda>f. rf_cause f = x) fs) = (if x \<in> rf_cause ` set fs then [d] else [])"
  by (induction fs) (auto simp: filter_empty_conv)

lemma support_filter:
  assumes "list_all bad_case_diagnosis_ok ds"
  shows "support ds x = filter (\<lambda>d. x \<in> causes d) ds"
  using assms
proof (induction ds)
  case (Cons d ds)
  have "distinct (map rf_cause (bd_findings d))" using Cons.prems by (simp add: bad_case_diagnosis_ok_def)
  then have "map (\<lambda>_. d) (filter (\<lambda>f. rf_cause f = x) (bd_findings d)) = (if x \<in> causes d then [d] else [])"
    unfolding causes_def by (rule one_finding)
  then show ?case using Cons by (simp add: support_def)
qed (simp add: support_def)

lemma addressable_causes: "addressable d \<longleftrightarrow> (\<exists>x \<in> causes d. in_library x)"
  by (auto simp: addressable_def causes_def list_ex_iff)

lemma all_causes: "set ROOT_CAUSE_ORDER = UNIV"
  by (auto simp: ROOT_CAUSE_ORDER_def intro: root_cause.exhaust)

lemma ordered_causes_set:
  assumes "list_all bad_case_diagnosis_ok ds"
  shows "set (ordered_causes ds) = {x. in_library x \<and> (\<exists>d \<in> set ds. x \<in> causes d)}"
proof -
  show ?thesis using all_causes support_filter [OF assms] by (auto simp: ordered_causes_def filter_empty_conv)
qed

lemma ordered_causes_distinct: "distinct (ordered_causes ds)"
  by (simp add: ordered_causes_def ROOT_CAUSE_ORDER_def)

lemma library_entry:
  "CANDIDATE_LIBRARY x = Some (i, ps) \<Longrightarrow> i \<in> set CANDIDATE_IDS \<and> i \<noteq> ''exact-conservative-v1'' \<and> exact_boost_parameters_ok ps"
  by (cases x) (auto simp: CANDIDATE_IDS_def exact_boost_parameters_ok_def float_0_6_def float_0_8_def float_1_4_def float_1_8_def)

lemma library_injective:
  "CANDIDATE_LIBRARY x = Some (i, ps) \<Longrightarrow> CANDIDATE_LIBRARY y = Some (i, ps') \<Longrightarrow> x = y"
  by (cases x; cases y) auto

lemma conservative_ok:
  "exact_boost_parameters_ok CONSERVATIVE_PARAMETERS" "''exact-conservative-v1'' \<in> set CANDIDATE_IDS"
  by (simp_all add: CONSERVATIVE_PARAMETERS_def exact_boost_parameters_ok_def float_0_2_def float_0_3_def CANDIDATE_IDS_def)

lemma candidate_for_ok:
  assumes "i \<in> set CANDIDATE_IDS" and "exact_boost_parameters_ok ps" and "ds \<noteq> []"
  shows "exact_boost_candidate_ok (candidate_for i ps x ds)"
proof -
  have "0 < card (set (map bd_query_id ds))" using assms(3) by (simp add: card_gt_0_iff)
  then show ?thesis using assms by (simp add: exact_boost_candidate_ok_def candidate_for_def Let_def)
qed

text \<open>The candidates of a selection: the conservative one and the most supported causes.\<close>

definition chosen_causes :: "bad_case_diagnosis list \<Rightarrow> nat \<Rightarrow> root_cause list" where
  "chosen_causes ds n = take (n - 1) (ordered_causes ds)"

definition candidates_of :: "bad_case_diagnosis list \<Rightarrow> nat \<Rightarrow> exact_boost_candidate list" where
  "candidates_of ds n = conservative_candidates ds @ concat (map (targeted_candidate ds) (chosen_causes ds n))"

lemma targeted_candidate_single:
  "in_library x \<Longrightarrow> \<exists>i ps. CANDIDATE_LIBRARY x = Some (i, ps) \<and> targeted_candidate ds x = [candidate_for i ps x (support ds x)]"
  by (auto simp: in_library_def targeted_candidate_def)

lemma candidate_for_fields [simp]:
  "xc_candidate_id (candidate_for i ps x ds) = i" "xc_trigger_cause (candidate_for i ps x ds) = x"
  "xc_parameters (candidate_for i ps x ds) = ps" "set (xc_supporting_query_ids (candidate_for i ps x ds)) = bd_query_id ` set ds"
  "xc_support_count (candidate_for i ps x ds) = int (card (bd_query_id ` set ds))"
  by (simp_all add: candidate_for_def Let_def)

lemma no_addressable:
  assumes "list_all bad_case_diagnosis_ok ds"
  shows "filter addressable ds = [] \<longleftrightarrow> ordered_causes ds = []"
proof -
  have "ordered_causes ds = [] \<longleftrightarrow> set (ordered_causes ds) = {}" by simp
  then show ?thesis unfolding ordered_causes_set [OF assms] by (auto simp: filter_empty_conv addressable_causes)
qed

lemma chosen_supported:
  assumes "list_all bad_case_diagnosis_ok ds" and "x \<in> set (chosen_causes ds n)"
  shows "in_library x" "support ds x \<noteq> []"
  using in_set_takeD [of x "n - 1" "ordered_causes ds"] assms(2) ordered_causes_set [OF assms(1)] support_filter [OF assms(1)]
  by (auto simp: chosen_causes_def filter_empty_conv)

text \<open>The identifier that the library gives to a cause.\<close>

definition library_id :: "root_cause \<Rightarrow> string" where
  "library_id x = (case CANDIDATE_LIBRARY x of None \<Rightarrow> [] | Some (i, ps) \<Rightarrow> i)"

lemma library_id_injective: "in_library x \<Longrightarrow> in_library y \<Longrightarrow> library_id x = library_id y \<Longrightarrow> x = y"
  by (cases x; cases y) (auto simp: in_library_def library_id_def)

lemma library_id_targeted: "in_library x \<Longrightarrow> library_id x \<noteq> ''exact-conservative-v1''"
  by (cases x) (auto simp: in_library_def library_id_def)

lemma targeted_ids:
  "(\<And>x. x \<in> set xs \<Longrightarrow> in_library x) \<Longrightarrow>
   map xc_candidate_id (concat (map (targeted_candidate ds) xs)) = map library_id xs"
proof (induction xs)
  case (Cons x xs)
  obtain i ps where "CANDIDATE_LIBRARY x = Some (i, ps)" "targeted_candidate ds x = [candidate_for i ps x (support ds x)]"
    using targeted_candidate_single Cons.prems by (metis list.set_intros(1))
  then show ?case using Cons by (simp add: library_id_def)
qed simp

lemma targeted_ok:
  assumes "list_all bad_case_diagnosis_ok ds" and "y \<in> set (concat (map (targeted_candidate ds) (chosen_causes ds n)))"
  shows "exact_boost_candidate_ok y"
proof -
  obtain x where x: "x \<in> set (chosen_causes ds n)" "y \<in> set (targeted_candidate ds x)" using assms(2) by auto
  note s = chosen_supported [OF assms(1) x(1)]
  obtain i ps where i: "CANDIDATE_LIBRARY x = Some (i, ps)" "targeted_candidate ds x = [candidate_for i ps x (support ds x)]"
    using targeted_candidate_single [OF s(1)] by blast
  then show ?thesis using candidate_for_ok [of i ps "support ds x" x] library_entry [OF i(1)] s(2) x(2) by simp
qed

lemma candidates_of_ok:
  assumes ok: "list_all bad_case_diagnosis_ok ds" and n: "1 \<le> n"
  shows "list_all exact_boost_candidate_ok (candidates_of ds n)" "distinct (map xc_candidate_id (candidates_of ds n))"
    "length (candidates_of ds n) \<le> n" "candidates_of ds n = [] \<longleftrightarrow> filter addressable ds = []"
proof -
  note lib = chosen_supported(1) [OF ok, of _ n]
  have "list_all exact_boost_candidate_ok (conservative_candidates ds)"
    using candidate_for_ok [OF conservative_ok(2,1)] by (simp add: conservative_candidates_def)
  then show "list_all exact_boost_candidate_ok (candidates_of ds n)"
    using targeted_ok [OF ok] unfolding candidates_of_def list_all_append by (simp add: list_all_iff)
  have ids: "map xc_candidate_id (concat (map (targeted_candidate ds) (chosen_causes ds n))) = map library_id (chosen_causes ds n)"
    by (rule targeted_ids) (rule lib)
  have "inj_on library_id (set (chosen_causes ds n))" using lib library_id_injective by (auto simp: inj_on_def)
  then have "distinct (map library_id (chosen_causes ds n))"
    by (simp add: distinct_map chosen_causes_def ordered_causes_distinct)
  moreover have "''exact-conservative-v1'' \<notin> set (map library_id (chosen_causes ds n))"
    using lib library_id_targeted by force
  moreover have "map xc_candidate_id (candidates_of ds n) =
      map xc_candidate_id (conservative_candidates ds) @ map library_id (chosen_causes ds n)"
    by (simp only: candidates_of_def map_append ids)
  ultimately show "distinct (map xc_candidate_id (candidates_of ds n))"
    by (cases "filter addressable ds = []") (simp_all add: conservative_candidates_def del: set_map)
  have "length (concat (map (targeted_candidate ds) (chosen_causes ds n))) = length (map library_id (chosen_causes ds n))"
    unfolding ids [symmetric] by (rule length_map [symmetric])
  then have len: "length (candidates_of ds n) \<le> length (conservative_candidates ds) + (n - 1)"
    by (simp add: candidates_of_def chosen_causes_def)
  moreover have "length (conservative_candidates ds) \<le> 1" by (simp add: conservative_candidates_def)
  ultimately show "length (candidates_of ds n) \<le> n" using n by linarith
  show "candidates_of ds n = [] \<longleftrightarrow> filter addressable ds = []"
    using no_addressable [OF ok] by (simp add: candidates_of_def conservative_candidates_def chosen_causes_def)
qed

subsection \<open>Selections\<close>

lemma select_candidates_total:
  assumes ok: "list_all bad_case_diagnosis_ok ds" and c: "hex_digests c" and d: "distinct (map bd_diagnosis_id ds)"
    and n: "1 \<le> n" "n \<le> 4"
  shows "\<exists>s. select_exact_boost_candidates c ds (JInt n) = Inr s \<and> candidate_selection_ok s \<and>
    cs_diagnosis_count s = int (length ds) \<and> cs_candidates s = candidates_of ds (nat n)"
proof -
  let ?v = "JObj [(''candidate_ids'', JList (map (\<lambda>x. JStr (xc_candidate_id x)) (candidates_of ds (nat n)))),
    (''diagnosis_ids'', JList (map JStr (sort (map bd_diagnosis_id ds)))), (''max_candidates'', JInt n)]"
  have "json_ok ?v" by (simp add: list_all_iff)
  then obtain i where i: "strategy_id c ''candidate-selection'' ?v = Inr i" "prefixed_hex ''candidate-selection-'' 12 i"
    using strategy_id_valid [OF c, of ?v "''candidate-selection''"] by auto
  let ?s = "\<lparr>cs_selection_id = i, cs_diagnosis_count = int (length ds), cs_candidates = candidates_of ds (nat n)\<rparr>"
  have m: "1 \<le> nat n" "nat (n - 1) = nat n - Suc 0" using n by (simp_all add: nat_diff_distrib)
  note k = candidates_of_ok [OF ok m(1)]
  have "candidate_selection_ok ?s" using i(2) k n by (simp add: candidate_selection_ok_def)
  then show ?thesis
    using i(1) k(1) d n
    by (simp add: select_exact_boost_candidates_def checked_def Let_def m(2) candidates_of_def chosen_causes_def)
qed

subsection \<open>Scores and gates\<close>

lemma score_of_ok: "list_all score_component_ok (map (score_component_of p) SELECTION_SCORE_WEIGHTS)" "score_breakdown_ok (score_of p)"
proof -
  have names: "map sc_name (map (score_component_of p) SELECTION_SCORE_WEIGHTS) = map fst SELECTION_SCORE_WEIGHTS"
    by (simp add: score_component_of_def Let_def case_prod_beta)
  show c: "list_all score_component_ok (map (score_component_of p) SELECTION_SCORE_WEIGHTS)"
    by (auto simp: list_all_iff score_component_ok_def score_component_of_def Let_def intro: rev_image_eqI)
  have "distinct (map fst SELECTION_SCORE_WEIGHTS)" "length SELECTION_SCORE_WEIGHTS = 7"
    by (simp_all add: SELECTION_SCORE_WEIGHTS_def)
  then show "score_breakdown_ok (score_of p)"
    using c names by (simp only: score_breakdown_ok_def score_of_def Let_def score_breakdown.simps length_map isclose_12_refl
      simp_thms)
qed

lemma checks_of_ok: "list_all smoke_check_ok (checks_of g p)" "gate_policy_ok g \<Longrightarrow> gate_result_ok (gates_of g p)"
proof -
  show c: "list_all smoke_check_ok (checks_of g p)"
    by (simp add: checks_of_def smoke_check_ok_def smoke_check_of_def SMOKE_GATES_def)
  have "map sk_name (checks_of g p) = SMOKE_GATES" "length (checks_of g p) = 7"
    by (simp_all add: checks_of_def smoke_check_of_def SMOKE_GATES_def)
  moreover have "distinct SMOKE_GATES" by (simp add: SMOKE_GATES_def)
  ultimately show "gate_policy_ok g \<Longrightarrow> gate_result_ok (gates_of g p)"
    using c by (simp add: gate_result_ok_def gates_of_def)
qed

lemma trusted_policy_ok: "gate_policy_ok TRUSTED_SMOKE_GATE_POLICY"
  by (simp add: gate_policy_ok_def TRUSTED_SMOKE_GATE_POLICY_def float_1e_12_def float_m0_02_def float_0_15_def float_0_05_def)

lemma isclose_abs_refl: "isclose_abs float_1e_12 x x"
  by (simp add: isclose_abs_def float_1e_12_def)

text \<open>The evaluation that a comparison gets, apart from its identifier.\<close>

definition evaluation_of :: "string \<Rightarrow> exact_boost_candidate \<Rightarrow> compare_payload \<Rightarrow> gate_policy \<Rightarrow> strategy_evaluation" where
  "evaluation_of i x p g =
     \<lparr>se_evaluation_id = i, se_candidate = x, se_comparison_id = co_comparison_id p,
      se_baseline_run_id = co_baseline_run_id p, se_candidate_run_id = co_candidate_run_id p,
      se_query_count = co_query_count p, se_success_at_5 = pm_success_at_5 (co_aggregate_metrics p),
      se_mrr_at_10 = pm_mrr_at_10 (co_aggregate_metrics p), se_ndcg_at_10 = pm_ndcg_at_10 (co_aggregate_metrics p),
      se_ndcg_at_10_delta = aggregate_delta p pm_ndcg_at_10, se_mrr_at_10_delta = aggregate_delta p pm_mrr_at_10,
      se_success_at_5_delta = aggregate_delta p pm_success_at_5, se_selection_score = score_of p, se_gates = gates_of g p,
      se_eligible = gr_passed (gates_of g p)\<rparr>"

lemma evaluation_of_ok:
  assumes "compare_payload_ok p" and "exact_boost_candidate_ok x" and "gate_policy_ok g"
    and "prefixed_hex ''strategy-evaluation-'' 12 i"
  shows "strategy_evaluation_ok (evaluation_of i x p g)"
  using assms score_of_ok(2) [of p] checks_of_ok(2) [of g p]
  by (simp add: strategy_evaluation_ok_def evaluation_of_def compare_payload_ok_def metric_values_def aggregate_delta_def
      isclose_abs_refl gates_of_def metric_delta_ok_def)

lemma score_comparison_total:
  assumes p: "compare_payload_ok p" and x: "exact_boost_candidate_ok x" and c: "hex_digests c"
  shows "\<exists>i. score_strategy_comparison c x p None = Inr (evaluation_of i x p TRUSTED_SMOKE_GATE_POLICY) \<and>
    prefixed_hex ''strategy-evaluation-'' 12 i"
proof -
  let ?g = TRUSTED_SMOKE_GATE_POLICY
  let ?v = "JObj [(''candidate'', dump_candidate x), (''comparison_id'', JStr (co_comparison_id p)),
    (''gates'', dump_gates (gates_of ?g p)), (''selection_score'', dump_score (score_of p))]"
  have "json_ok ?v" by simp
  then obtain i where i: "strategy_id c ''strategy-evaluation'' ?v = Inr i" "prefixed_hex ''strategy-evaluation-'' 12 i"
    using strategy_id_valid [OF c, of ?v "''strategy-evaluation''"] by auto
  have "strategy_evaluation_ok (evaluation_of i x p ?g)" by (rule evaluation_of_ok [OF p x trusted_policy_ok i(2)])
  then show ?thesis
    using i score_of_ok [of p] checks_of_ok [of ?g p] trusted_policy_ok
    by (simp add: score_strategy_comparison_def checked_def evaluation_of_def)
qed


subsection \<open>Winners\<close>

definition ranking_of :: "strategy_evaluation list \<Rightarrow> strategy_evaluation list" where
  "ranking_of es = sort_key winner_key (filter se_eligible es)"

lemma ranking_of_set [simp]: "set (ranking_of es) = {e \<in> set es. se_eligible e}" "length (ranking_of es) = length (filter se_eligible es)"
  by (auto simp: ranking_of_def)

lemma distinct_map_perm: "mset xs = mset ys \<Longrightarrow> distinct (map f xs) = distinct (map f ys)"
  by (metis mset_map mset_eq_imp_distinct_iff)

lemma ranking_distinct: "distinct (map candidate_id_of es) \<Longrightarrow> distinct (map candidate_id_of (ranking_of es))"
proof -
  assume "distinct (map candidate_id_of es)"
  then have "distinct (map candidate_id_of (filter se_eligible es))" by (rule distinct_map_filter)
  moreover have "mset (ranking_of es) = mset (filter se_eligible es)" by (simp add: ranking_of_def)
  ultimately show ?thesis using distinct_map_perm by blast
qed

lemma ranking_head:
  assumes "ranking_of es = e # rest" and "e' \<in> set es" and "se_eligible e'"
  shows "sb_total (se_selection_score e') \<le> sb_total (se_selection_score e)"
proof -
  have "sorted (map winner_key (ranking_of es))" by (simp add: ranking_of_def)
  moreover have "e' \<in> set (ranking_of es)" using assms(2,3) by simp
  ultimately have "winner_key e \<le> winner_key e'" unfolding assms(1) by auto
  then show ?thesis by (auto simp: winner_key_def less_eq_prod_def split: if_splits)
qed

lemma select_winner_total:
  assumes ok: "list_all strategy_evaluation_ok es" and c: "hex_digests c" and d: "distinct (map candidate_id_of es)"
    and base: "card (set (map se_baseline_run_id es)) \<le> 1"
  shows "\<exists>w. select_winner c es = Inr w \<and> winner_selection_ok w \<and>
    ws_ranked_candidate_ids w = map candidate_id_of (ranking_of es) \<and>
    ws_winner_candidate_id w = (case ranking_of es of [] \<Rightarrow> None | e # _ \<Rightarrow> Some (candidate_id_of e)) \<and>
    ws_winner_evaluation_id w = (case ranking_of es of [] \<Rightarrow> None | e # _ \<Rightarrow> Some (se_evaluation_id e))"
proof -
  let ?v = "JObj [(''evaluation_ids'', JList (map JStr (sort (map se_evaluation_id es)))),
    (''ranked_candidate_ids'', JList (map JStr (map candidate_id_of (ranking_of es))))]"
  have "json_ok ?v" by (simp add: list_all_iff)
  then obtain i where i: "strategy_id c ''winner-selection'' ?v = Inr i" "prefixed_hex ''winner-selection-'' 12 i"
    using strategy_id_valid [OF c, of ?v "''winner-selection''"] by auto
  let ?w = "\<lparr>ws_selection_id = i, ws_status = (if ranking_of es \<noteq> [] then ''winner_selected'' else ''no_passing_candidate''),
    ws_baseline_run_id = (case es of [] \<Rightarrow> None | e # _ \<Rightarrow> Some (se_baseline_run_id e)),
    ws_evaluated_candidate_count = int (length es), ws_eligible_candidate_count = int (length (ranking_of es)),
    ws_ranked_candidate_ids = map candidate_id_of (ranking_of es),
    ws_winner_candidate_id = (case ranking_of es of [] \<Rightarrow> None | e # _ \<Rightarrow> Some (candidate_id_of e)),
    ws_winner_evaluation_id = (case ranking_of es of [] \<Rightarrow> None | e # _ \<Rightarrow> Some (se_evaluation_id e))\<rparr>"
  have each: "strategy_evaluation_ok e" if "e \<in> set es" for e using ok that by (simp add: list_all_iff)
  then have ids: "candidate_id_of e \<in> set CANDIDATE_IDS" "prefixed_hex ''strategy-evaluation-'' 12 (se_evaluation_id e)"
    "RUN_ID_PATTERN (se_baseline_run_id e)" if "e \<in> set es" for e
    using that by (simp_all add: strategy_evaluation_ok_def exact_boost_candidate_ok_def candidate_id_of_def)
  have ranked: "list_all (\<lambda>i. i \<in> set CANDIDATE_IDS) (map candidate_id_of (ranking_of es))"
    using ids(1) by (auto simp: list_all_iff)
  have head: "e \<in> set es" if "ranking_of es = e # rest" for e rest
    using ranking_of_set(1) [of es] that by auto
  have "winner_selection_ok ?w"
    using i(2) ids head ranked ranking_distinct [OF d]
    by (auto simp: winner_selection_ok_def split: list.splits)
  then show ?thesis using i(1) d base by (simp add: select_winner_def checked_def Let_def ranking_of_def [symmetric])
qed

subsection \<open>What the gates promise\<close>

lemma round12_greater: "round12 a < round12 b \<Longrightarrow> a < b"
  using round12_mono [of b a] by linarith

lemma round12_at_least: "round12 a \<le> round12 b \<Longrightarrow> a - 1 / 10 ^ 12 \<le> b"
  using round12_close [of a] round12_close [of b] unfolding abs_le_iff by linarith

lemma foldl_max_upper: "a \<le> foldl max a xs" "x \<in> set xs \<Longrightarrow> x \<le> foldl max (a :: rat) xs"
  by (induction xs arbitrary: a) (auto intro: order_trans [OF max.cobounded1] order_trans [OF max.cobounded2])

lemma worst_regression_bound:
  assumes "compare_payload_ok p" and "q \<in> set (co_regressions p)"
  shows "- qd_ndcg_at_10_delta q \<le> worst_regression p"
proof -
  have neg: "qd_ndcg_at_10_delta q < 0" using assms
    by (auto simp: compare_payload_ok_def list_all_iff float_1e_12_def)
  let ?xs = "map (\<lambda>q. - qd_ndcg_at_10_delta q) (filter (\<lambda>q. qd_ndcg_at_10_delta q < 0) (co_regressions p))"
  have "- qd_ndcg_at_10_delta q \<in> set ?xs" using neg assms(2) by auto
  then show ?thesis unfolding worst_regression_def
    using foldl_max_upper by (cases ?xs) auto
qed

text \<open>The release bounds that the trusted policy states, on the comparison itself.\<close>

definition within_release_bounds :: "compare_payload \<Rightarrow> bool" where
  "within_release_bounds p =
     (0 < aggregate_delta p pm_ndcg_at_10 \<and> - 21 / 1000 < aggregate_delta p pm_ndcg_at_5 \<and>
      - 1 / 10 ^ 12 \<le> aggregate_delta p pm_mrr_at_10 \<and> - 1 / 10 ^ 12 \<le> aggregate_delta p pm_success_at_1 \<and>
      - 1 / 10 ^ 12 \<le> aggregate_delta p pm_success_at_5 \<and>
      1000 * oc_regressed (pm_ndcg_at_10 (co_outcome_counts p)) \<le> 151 * co_query_count p \<and>
      list_all (\<lambda>q. - 51 / 1000 \<le> qd_ndcg_at_10_delta q) (co_regressions p))"

lemma gates_release_bounds:
  assumes p: "compare_payload_ok p" and passed: "gr_passed (gates_of TRUSTED_SMOKE_GATE_POLICY p)"
  shows "within_release_bounds p"
proof -
  note policy = TRUSTED_SMOKE_GATE_POLICY_def float_1e_12_def float_m0_02_def float_0_15_def float_0_05_def
  let ?g = TRUSTED_SMOKE_GATE_POLICY
  have raw: "round12 (gp_min_ndcg_at_10_delta ?g) < round12 (aggregate_delta p pm_ndcg_at_10)"
    "round12 (gp_min_ndcg_at_5_delta ?g) \<le> round12 (aggregate_delta p pm_ndcg_at_5)"
    "round12 (gp_min_mrr_at_10_delta ?g) \<le> round12 (aggregate_delta p pm_mrr_at_10)"
    "round12 (gp_min_success_at_1_delta ?g) \<le> round12 (aggregate_delta p pm_success_at_1)"
    "round12 (gp_min_success_at_5_delta ?g) \<le> round12 (aggregate_delta p pm_success_at_5)"
    "round12 (regression_rate p) \<le> round12 (gp_max_ndcg_at_10_regression_rate ?g)"
    "round12 (worst_regression p) \<le> round12 (gp_max_worst_ndcg_at_10_regression_magnitude ?g)"
    using passed by (simp_all add: gates_of_def checks_of_def smoke_check_of_def compare_by_def)
  have "regression_rate p \<le> 151 / 1000" using round12_at_least [OF raw(6)] by (simp add: policy)
  moreover have q: "0 < co_query_count p" using p by (simp add: compare_payload_ok_def)
  ultimately have "of_int (oc_regressed (pm_ndcg_at_10 (co_outcome_counts p))) \<le> (151 / 1000 * of_int (co_query_count p) :: rat)"
    by (simp add: regression_rate_def field_simps)
  then have rate: "1000 * oc_regressed (pm_ndcg_at_10 (co_outcome_counts p)) \<le> 151 * co_query_count p" by linarith
  have worst: "worst_regression p \<le> 51 / 1000" using round12_at_least [OF raw(7)] by (simp add: policy)
  have "- 51 / 1000 \<le> qd_ndcg_at_10_delta q" if "q \<in> set (co_regressions p)" for q
    using worst_regression_bound [OF p that] worst by simp
  then show ?thesis
    using round12_greater [OF raw(1)] round12_at_least [OF raw(2)] round12_at_least [OF raw(3)]
      round12_at_least [OF raw(4)] round12_at_least [OF raw(5)] rate
    by (simp add: within_release_bounds_def policy list_all_iff)
qed


end
