(* ===== verification/EvalRelevance.thy ===== *)
theory EvalRelevance
  imports Metrics Ranking
begin

text \<open>
  \<^verbatim>\<open>src/search_quality/evaluation/relevance.py\<close>: the relevance policy that turns a label into a gain. A policy is
  a record of what the constructor keeps; \<open>policy_init\<close> is \<^verbatim>\<open>__post_init__\<close>, \<open>policy_from_dict\<close> and
  \<open>relevance_to_dict\<close> are the two conversions. Strings of JSON values are UTF-8 bytes, so \<open>decode_utf8\<close> gives the
  code points that \<^verbatim>\<open>strip\<close> and \<^verbatim>\<open>upper\<close> work on. The upper-case tables of Unicode and \<^verbatim>\<open>str(v)\<close> of a value
  that is no string are the two fields of \<open>pytext\<close>.
\<close>

subsection \<open>Text\<close>

record pytext =
  pt_upper :: "ustring \<Rightarrow> ustring"
  pt_str :: "json \<Rightarrow> string"

definition continuation :: "string \<Rightarrow> nat \<Rightarrow> nat" where
  "continuation bytes i = (if i < length bytes then of_char (bytes ! i) mod 64 else 0)"

fun decode_utf8 :: "string \<Rightarrow> ustring" where
  "decode_utf8 [] = []"
| "decode_utf8 (a # bytes) =
     (let n = of_char a :: nat in
      if n < 0x80 then n # decode_utf8 bytes
      else if n < 0xE0 then (n mod 32 * 64 + continuation bytes 0) # decode_utf8 (drop 1 bytes)
      else if n < 0xF0 then
        (n mod 16 * 4096 + continuation bytes 0 * 64 + continuation bytes 1) # decode_utf8 (drop 2 bytes)
      else (n mod 8 * 262144 + continuation bytes 0 * 4096 + continuation bytes 1 * 64 + continuation bytes 2)
             # decode_utf8 (drop 3 bytes))"

definition blank :: "string \<Rightarrow> bool" where
  "blank s = (strip (decode_utf8 s) = [])"

definition strip_bytes :: "string \<Rightarrow> string" where
  "strip_bytes s = (case utf8 (strip (decode_utf8 s)) of Inr b \<Rightarrow> b | Inl _ \<Rightarrow> s)"

definition text_of :: "pytext \<Rightarrow> json \<Rightarrow> string" where
  "text_of pt v = (case v of JStr s \<Rightarrow> s | _ \<Rightarrow> pt_str pt v)"

text \<open>\<^verbatim>\<open>str(payload.get(key, ""))\<close>\<close>

definition text_field :: "pytext \<Rightarrow> dict \<Rightarrow> string \<Rightarrow> string" where
  "text_field pt payload k = (case map_of payload k of None \<Rightarrow> [] | Some v \<Rightarrow> text_of pt v)"

subsection \<open>Policies\<close>

definition POLICY_SCHEMA_VERSION :: string where
  "POLICY_SCHEMA_VERSION = ''relevance-policy-v1''"

definition ESCI_LABELS :: "ustring list" where
  "ESCI_LABELS = [[69], [83], [67], [73]]"

definition IRRELEVANT :: ustring where
  "IRRELEVANT = [73]"

record relevance_policy =
  rp_policy_id :: string
  rp_gains :: "(ustring \<times> rat) list"
  rp_relevant :: "ustring list"
  rp_description :: string

definition normalized_label :: "pytext \<Rightarrow> string \<Rightarrow> ustring" where
  "normalized_label pt s = pt_upper pt (strip (decode_utf8 s))"

fun normalize_gains :: "pytext \<Rightarrow> (ustring \<times> rat) list \<Rightarrow> dict \<Rightarrow> exn + (ustring \<times> rat) list" where
  "normalize_gains pt acc [] = Inr acc"
| "normalize_gains pt acc ((label, gain) # rest) =
     (let l = normalized_label pt label in
      ebind (require (l \<notin> set (map fst acc)) ValueError) (\<lambda>_.
      ebind (validate_gain gain) (\<lambda>v. normalize_gains pt (acc @ [(l, v)]) rest)))"

definition policy_init :: "pytext \<Rightarrow> string \<Rightarrow> dict \<Rightarrow> json list \<Rightarrow> string \<Rightarrow> string \<Rightarrow> exn + relevance_policy" where
  "policy_init pt policy_id label_gains relevant_labels description schema_version =
     ebind (require (\<not> blank policy_id) ValueError) (\<lambda>_.
     ebind (require (schema_version = POLICY_SCHEMA_VERSION) ValueError) (\<lambda>_.
     ebind (normalize_gains pt [] label_gains) (\<lambda>gains.
     ebind (require (set (map fst gains) = set ESCI_LABELS) ValueError) (\<lambda>_.
     ebind (require (map_of gains IRRELEVANT = Some 0) ValueError) (\<lambda>_.
     let relevant = map (\<lambda>v. normalized_label pt (text_of pt v)) relevant_labels in
     ebind (require (relevant \<noteq> []) ValueError) (\<lambda>_.
     ebind (require (set relevant \<subseteq> set ESCI_LABELS) ValueError) (\<lambda>_.
     ebind (require (IRRELEVANT \<notin> set relevant) ValueError) (\<lambda>_.
     Inr \<lparr>rp_policy_id = strip_bytes policy_id, rp_gains = gains, rp_relevant = relevant,
          rp_description = strip_bytes description\<rparr>))))))))"

definition policy_from_dict :: "pytext \<Rightarrow> dict \<Rightarrow> exn + relevance_policy" where
  "policy_from_dict pt payload =
     (case dget payload ''label_gains'' of
        JObj label_gains \<Rightarrow>
          (case dget payload ''relevant_labels'' of
             JList labels \<Rightarrow>
               ebind (require (list_all hashable labels) TypeError) (\<lambda>_.
               policy_init pt (text_field pt payload ''policy_id'') label_gains labels
                 (text_field pt payload ''description'') (text_field pt payload ''schema_version''))
           | _ \<Rightarrow> Inl TypeError)
      | _ \<Rightarrow> Inl TypeError)"

definition label_text :: "ustring \<Rightarrow> string" where
  "label_text l = map char_of l"

definition relevance_to_dict :: "relevance_policy \<Rightarrow> dict" where
  "relevance_to_dict p =
     [(''description'', JStr (rp_description p)),
      (''label_gains'', JObj (map (\<lambda>l. (label_text l, JFloat (Fin (the (map_of (rp_gains p) l))))) ESCI_LABELS)),
      (''policy_id'', JStr (rp_policy_id p)),
      (''relevant_labels'', JList (map (\<lambda>l. JStr (label_text l)) (filter (\<lambda>l. l \<in> set (rp_relevant p)) ESCI_LABELS))),
      (''schema_version'', JStr POLICY_SCHEMA_VERSION)]"

definition known_label :: "pytext \<Rightarrow> string \<Rightarrow> exn + ustring" where
  "known_label pt label =
     (let l = normalized_label pt label in ebind (require (l \<in> set ESCI_LABELS) ValueError) (\<lambda>_. Inr l))"

definition policy_gain :: "pytext \<Rightarrow> relevance_policy \<Rightarrow> string \<Rightarrow> exn + rat" where
  "policy_gain pt p label = ebind (known_label pt label) (\<lambda>l. of_option KeyError (map_of (rp_gains p) l))"

definition policy_relevant :: "pytext \<Rightarrow> relevance_policy \<Rightarrow> string \<Rightarrow> exn + bool" where
  "policy_relevant pt p label = ebind (known_label pt label) (\<lambda>l. Inr (l \<in> set (rp_relevant p)))"

subsection \<open>Decoding what was encoded\<close>

lemma of_char_byte: "n < 256 \<Longrightarrow> of_char (char_of n :: char) = (n :: nat)"
  by simp

lemma byte_parts:
  "q < 32 \<Longrightarrow> (192 + q) mod 32 = (q :: nat)" "q < 16 \<Longrightarrow> (224 + q) mod 16 = (q :: nat)"
  "q < 8 \<Longrightarrow> (240 + q) mod 8 = (q :: nat)" "r < 64 \<Longrightarrow> (128 + r) mod 64 = (r :: nat)"
  using mod_mult_self4 [of 32 6 q] mod_mult_self4 [of 16 14 q] mod_mult_self4 [of 8 30 q] mod_mult_self4 [of 64 2 r]
  by simp_all

lemma continuation_at [simp]:
  "r < 64 \<Longrightarrow> continuation (char_of (128 + r :: nat) # s) 0 = r"
  "continuation (a # s) (Suc i) = continuation s i" "continuation (a # s) 2 = continuation s (Suc 0)"
  by (simp_all add: continuation_def of_char_byte byte_parts(4) numeral_2_eq_2 del: of_char_of)

lemma drop_bytes [simp]: "drop 2 (a # b # s) = s" "drop 3 (a # b # d # s) = s"
  by (simp_all add: numeral_2_eq_2 numeral_3_eq_3)

lemma decode_two:
  "q < 32 \<Longrightarrow> a < 64 \<Longrightarrow> decode_utf8 (char_of (192 + q :: nat) # char_of (128 + a :: nat) # s) = (q * 64 + a) # decode_utf8 s"
  by (simp add: of_char_byte byte_parts Let_def del: of_char_of)

lemma decode_three:
  "q < 16 \<Longrightarrow> a < 64 \<Longrightarrow> b < 64 \<Longrightarrow>
   decode_utf8 (char_of (224 + q :: nat) # char_of (128 + a :: nat) # char_of (128 + b :: nat) # s) =
     (q * 4096 + a * 64 + b) # decode_utf8 s"
  by (simp add: of_char_byte byte_parts Let_def del: of_char_of)

lemma decode_four:
  "q < 8 \<Longrightarrow> a < 64 \<Longrightarrow> b < 64 \<Longrightarrow> d < 64 \<Longrightarrow>
   decode_utf8 (char_of (240 + q :: nat) # char_of (128 + a :: nat) # char_of (128 + b :: nat) # char_of (128 + d :: nat) # s) =
     (q * 262144 + a * 4096 + b * 64 + d) # decode_utf8 s"
  by (simp add: of_char_byte byte_parts Let_def del: of_char_of)

lemma base_64:
  "c = e * 64 + r \<Longrightarrow> e = f * 64 + t \<Longrightarrow> c = f * 4096 + t * 64 + (r :: nat)"
  "c = e * 64 + r \<Longrightarrow> e = f * 64 + t \<Longrightarrow> f = g * 64 + u \<Longrightarrow> c = g * 262144 + u * 4096 + t * 64 + (r :: nat)"
  by simp_all

lemma div_parts:
  fixes c :: nat
  shows "c = c div 4096 * 4096 + c div 64 mod 64 * 64 + c mod 64"
    and "c = c div 262144 * 262144 + c div 4096 mod 64 * 4096 + c div 64 mod 64 * 64 + c mod 64"
proof -
  have one: "c = c div 64 * 64 + c mod 64" for c :: nat by (rule div_mult_mod_eq [symmetric])
  have d: "c div 64 div 64 = c div 4096" "c div 4096 div 64 = c div 262144" by (simp_all flip: div_mult2_eq)
  show "c = c div 4096 * 4096 + c div 64 mod 64 * 64 + c mod 64"
    by (rule base_64(1) [OF one [of c] one [of "c div 64", unfolded d]])
  show "c = c div 262144 * 262144 + c div 4096 mod 64 * 4096 + c div 64 mod 64 * 64 + c mod 64"
    by (rule base_64(2) [OF one [of c] one [of "c div 64", unfolded d] one [of "c div 4096", unfolded d]])
qed

lemma decode_utf8_char:
  assumes u: "utf8_char c = Inr b" and max: "c < 0x200000"
  shows "decode_utf8 (b @ s) = c # decode_utf8 s"
proof -
  have a: "c mod 64 < 64" "c div 64 mod 64 < 64" "c div 4096 mod 64 < 64" by simp_all
  consider "c < 0x80" | "0x80 \<le> c" "c < 0x800" | "0x800 \<le> c" "c < 0x10000" | "0x10000 \<le> c" by linarith
  then show ?thesis
  proof cases
    case 1
    then have "b = [char_of c]" using u by (simp add: utf8_char_def)
    then show ?thesis using 1 by (simp add: of_char_byte del: of_char_of)
  next
    case 2
    then have "b = [char_of (192 + c div 64), char_of (128 + c mod 64)]" using u by (simp add: utf8_char_def)
    moreover have "c div 64 < 32" using 2 by (simp only: less_mult_imp_div_less)
    ultimately show ?thesis using decode_two [of "c div 64" "c mod 64" s] a(1) by simp
  next
    case 3
    then have "b = [char_of (224 + c div 4096), char_of (128 + c div 64 mod 64), char_of (128 + c mod 64)]"
      using u by (simp add: utf8_char_def split: if_splits)
    moreover have "c div 4096 < 16" using 3 by (simp only: less_mult_imp_div_less)
    ultimately show ?thesis
      using decode_three [of "c div 4096" "c div 64 mod 64" "c mod 64" s] a div_parts(1) [of c] by simp
  next
    case 4
    then have "b = [char_of (240 + c div 262144), char_of (128 + c div 4096 mod 64), char_of (128 + c div 64 mod 64),
        char_of (128 + c mod 64)]" using u by (simp add: utf8_char_def)
    moreover have "c div 262144 < 8" using max by simp
    ultimately show ?thesis
      using decode_four [of "c div 262144" "c div 4096 mod 64" "c div 64 mod 64" "c mod 64" s] a div_parts(2) [of c] by simp
  qed
qed

lemma decode_utf8_encode: "utf8 t = Inr s \<Longrightarrow> \<forall>c \<in> set t. c < 0x200000 \<Longrightarrow> decode_utf8 s = t"
proof (induction t arbitrary: s)
  case (Cons c t)
  then obtain b s' where "utf8_char c = Inr b" "utf8 t = Inr s'" "s = b @ s'" by (auto simp: utf8_def)
  then show ?case using Cons decode_utf8_char by simp
qed (simp add: utf8_def)

end
