(* ===== verification/RunValidation.thy ===== *)
theory RunValidation
  imports EvalRelevance StrategyContracts
begin

text \<open>
  \<^verbatim>\<open>_validate_run\<close> of \<^verbatim>\<open>src/search_quality/evaluation/comparison.py\<close>: the checks that an untyped Run has to pass
  before anything is compared. The functions read the JSON value in the order of the source and raise the exception
  of the first check that fails; what they accept is kept in records (\<open>ranked_item\<close>, \<open>run_query\<close>,
  \<open>evaluated_run\<close>), whose fields are exactly the parts that later code reads. The messages, which only name the
  role of the Run, are not modelled.
\<close>

subsection \<open>Checked reads\<close>

definition RUN_KEYS :: "string list" where
  "RUN_KEYS =
     [''code_revision'', ''dataset'', ''evaluation_boundary'', ''metrics'', ''per_query'', ''ranker'',
      ''relevance_policy'', ''run_id'', ''schema_version'']"

definition DATASET_KEYS :: "string list" where
  "DATASET_KEYS =
     [''canonical_sha256'', ''eval_splits'', ''file'', ''file_sha256'', ''judgments'', ''locales'', ''origin_splits'',
      ''products'', ''profile'', ''queries'', ''source_commit'', ''stage1_manifest_sha256'', ''stage1_schema_version'']"

definition QUERY_KEYS :: "string list" where
  "QUERY_KEYS = [''candidate_count'', ''locale'', ''metrics'', ''query_id'', ''query_text'', ''ranking'']"

definition RANKING_KEYS :: "string list" where
  "RANKING_KEYS = [''example_id'', ''gain'', ''label'', ''locale'', ''product_id'', ''rank'', ''score'']"

definition RUN_SCHEMA_VERSION :: string where
  "RUN_SCHEMA_VERSION = ''search-evaluation-run-v1''"

definition RUN_PREFIX_BY_RANKER_ID :: "(string \<times> string) list" where
  "RUN_PREFIX_BY_RANKER_ID =
     [(''candidate-random-v1'', ''random''), (''candidate-title-bm25-exact-boost-v1'', ''exact-boost''),
      (''candidate-title-bm25-v1'', ''bm25''), (''candidate-title-keyword-overlap-v1'', ''overlap'')]"

definition require_dict :: "json \<Rightarrow> exn + dict" where
  "require_dict v = (case v of JObj d \<Rightarrow> Inr d | _ \<Rightarrow> Inl TypeError)"

definition require_list :: "json \<Rightarrow> exn + json list" where
  "require_list v = (case v of JList xs \<Rightarrow> Inr xs | _ \<Rightarrow> Inl TypeError)"

definition non_empty_string :: "json \<Rightarrow> exn + string" where
  "non_empty_string v = (case v of JStr s \<Rightarrow> if blank s then Inl TypeError else Inr s | _ \<Rightarrow> Inl TypeError)"

definition positive_int :: "json \<Rightarrow> exn + int" where
  "positive_int v = (case v of JInt i \<Rightarrow> if i < 1 then Inl TypeError else Inr i | _ \<Rightarrow> Inl TypeError)"

definition finite_value :: "json \<Rightarrow> exn + rat" where
  "finite_value v =
     ebind (require (real_number v) TypeError) (\<lambda>_.
     ebind (to_float v) (\<lambda>x. case x of Fin r \<Rightarrow> Inr r | _ \<Rightarrow> Inl ValueError))"

definition metric_value :: "dict \<Rightarrow> string \<Rightarrow> exn + rat" where
  "metric_value metrics name =
     ebind (finite_value (dget metrics name)) (\<lambda>r. ebind (require (unit_float r) ValueError) (\<lambda>_. Inr r))"

text \<open>\<^verbatim>\<open>_validate_metric_keys\<close> and the values it read, one per metric name.\<close>

definition read_metrics :: "dict \<Rightarrow> exn + rat per_metric" where
  "read_metrics metrics =
     ebind (require (set (dict_keys metrics) = set METRIC_NAMES) ValueError) (\<lambda>_.
     ebind (traverse (metric_value metrics) METRIC_NAMES) (\<lambda>vs.
     Inr \<lparr>pm_ndcg_at_5 = vs ! 0, pm_ndcg_at_10 = vs ! 1, pm_mrr_at_10 = vs ! 2, pm_success_at_1 = vs ! 3,
          pm_success_at_5 = vs ! 4\<rparr>))"

definition within_epsilon :: "rat \<Rightarrow> real \<Rightarrow> bool" where
  "within_epsilon observed expected = (\<bar>of_rat observed - expected\<bar> \<le> of_rat float_1e_12)"

subsection \<open>One ranking item\<close>

record ranked_item =
  it_locale :: string
  it_product_id :: string
  it_rank :: int
  it_example_id :: int
  it_score :: rat
  it_label :: string
  it_gain :: rat

type_synonym item_key = "string \<times> string"

definition item_key :: "ranked_item \<Rightarrow> item_key" where
  "item_key x = (it_locale x, it_product_id x)"

definition validate_item ::
    "pytext \<Rightarrow> relevance_policy \<Rightarrow> string \<Rightarrow> item_key list \<Rightarrow> int \<Rightarrow> json \<Rightarrow> exn + ranked_item" where
  "validate_item pt policy query_locale seen expected_rank raw =
     ebind (require_dict raw) (\<lambda>item.
     ebind (require (set (dict_keys item) = set RANKING_KEYS) ValueError) (\<lambda>_.
     ebind (non_empty_string (dget item ''locale'')) (\<lambda>item_locale.
     ebind (require (item_locale = query_locale) ValueError) (\<lambda>_.
     ebind (non_empty_string (dget item ''product_id'')) (\<lambda>product_id.
     ebind (require ((item_locale, product_id) \<notin> set seen) ValueError) (\<lambda>_.
     ebind (positive_int (dget item ''rank'')) (\<lambda>rank.
     ebind (require (rank = expected_rank) ValueError) (\<lambda>_.
     ebind (positive_int (dget item ''example_id'')) (\<lambda>example_id.
     ebind (finite_value (dget item ''score'')) (\<lambda>score.
     ebind (non_empty_string (dget item ''label'')) (\<lambda>raw_label.
     ebind (require (pt_upper pt (decode_utf8 raw_label) = decode_utf8 raw_label) ValueError) (\<lambda>_.
     ebind (finite_value (dget item ''gain'')) (\<lambda>gain.
     ebind (policy_gain pt policy raw_label) (\<lambda>expected_gain.
     ebind (require (isclose_abs float_1e_12 gain expected_gain) ValueError) (\<lambda>_.
     Inr \<lparr>it_locale = item_locale, it_product_id = product_id, it_rank = rank, it_example_id = example_id,
          it_score = score, it_label = raw_label, it_gain = gain\<rparr>)))))))))))))))"

text \<open>The loop over the ranking, with the products seen so far and the rank expected next.\<close>

fun validate_items ::
    "pytext \<Rightarrow> relevance_policy \<Rightarrow> string \<Rightarrow> item_key list \<Rightarrow> int \<Rightarrow> json list \<Rightarrow> exn + ranked_item list" where
  "validate_items pt policy query_locale seen expected_rank [] = Inr []"
| "validate_items pt policy query_locale seen expected_rank (raw # rest) =
     ebind (validate_item pt policy query_locale seen expected_rank raw) (\<lambda>x.
     ebind (validate_items pt policy query_locale (seen @ [item_key x]) (expected_rank + 1) rest) (\<lambda>xs.
     Inr (x # xs)))"

subsection \<open>One Query\<close>

record run_query =
  rq_locale :: string
  rq_query_id :: int
  rq_query_text :: string
  rq_metrics :: "rat per_metric"
  rq_ranking :: "ranked_item list"

definition query_key :: "run_query \<Rightarrow> string \<times> int" where
  "query_key q = (rq_locale q, rq_query_id q)"

text \<open>The metrics that the ranking itself gives.\<close>

definition json_gains :: "ranked_item list \<Rightarrow> json list" where
  "json_gains items = map (\<lambda>x. JFloat (Fin (it_gain x))) items"

definition expected_metrics :: "ranked_item list \<Rightarrow> json list \<Rightarrow> exn + real per_metric" where
  "expected_metrics items relevance =
     ebind (ndcg_at_k (json_gains items) (json_gains items) (JInt 5)) (\<lambda>n5.
     ebind (ndcg_at_k (json_gains items) (json_gains items) (JInt 10)) (\<lambda>n10.
     ebind (reciprocal_rank_at_k relevance (JInt 10)) (\<lambda>m.
     ebind (success_at_k relevance (JInt 1)) (\<lambda>s1.
     ebind (success_at_k relevance (JInt 5)) (\<lambda>s5.
     Inr \<lparr>pm_ndcg_at_5 = n5, pm_ndcg_at_10 = n10, pm_mrr_at_10 = m, pm_success_at_1 = s1, pm_success_at_5 = s5\<rparr>)))))"

definition metrics_match :: "rat per_metric \<Rightarrow> real per_metric \<Rightarrow> bool" where
  "metrics_match observed expected = list_all2 within_epsilon (metric_values observed) (metric_values expected)"

definition validate_query :: "pytext \<Rightarrow> relevance_policy \<Rightarrow> (string \<times> int) list \<Rightarrow> json \<Rightarrow> exn + run_query" where
  "validate_query pt policy seen raw =
     ebind (require_dict raw) (\<lambda>query.
     ebind (require (set (dict_keys query) = set QUERY_KEYS) ValueError) (\<lambda>_.
     ebind (non_empty_string (dget query ''locale'')) (\<lambda>query_locale.
     ebind (positive_int (dget query ''query_id'')) (\<lambda>query_id.
     ebind (non_empty_string (dget query ''query_text'')) (\<lambda>query_text.
     ebind (positive_int (dget query ''candidate_count'')) (\<lambda>candidate_count.
     ebind (require ((query_locale, query_id) \<notin> set seen) ValueError) (\<lambda>_.
     ebind (require_list (dget query ''ranking'')) (\<lambda>ranking.
     ebind (require (int (length ranking) = candidate_count) ValueError) (\<lambda>_.
     ebind (validate_items pt policy query_locale [] 1 ranking) (\<lambda>items.
     ebind (traverse (\<lambda>x. policy_relevant pt policy (it_label x)) items) (\<lambda>relevance.
     ebind (require_dict (dget query ''metrics'')) (\<lambda>metrics.
     ebind (read_metrics metrics) (\<lambda>observed.
     ebind (expected_metrics items (map JBool relevance)) (\<lambda>expected.
     ebind (require (metrics_match observed expected) ValueError) (\<lambda>_.
     Inr \<lparr>rq_locale = query_locale, rq_query_id = query_id, rq_query_text = query_text, rq_metrics = observed,
          rq_ranking = items\<rparr>)))))))))))))))"

fun validate_queries :: "pytext \<Rightarrow> relevance_policy \<Rightarrow> (string \<times> int) list \<Rightarrow> json list \<Rightarrow> exn + run_query list" where
  "validate_queries pt policy seen [] = Inr []"
| "validate_queries pt policy seen (raw # rest) =
     ebind (validate_query pt policy seen raw) (\<lambda>q.
     ebind (validate_queries pt policy (seen @ [query_key q]) rest) (\<lambda>qs. Inr (q # qs)))"

subsection \<open>The whole Run\<close>

record evaluated_run =
  er_run_id :: string
  er_code_revision :: string
  er_dataset :: dict
  er_boundary :: json
  er_policy :: json
  er_ranker :: dict
  er_ranker_id :: string
  er_metrics :: "rat per_metric"
  er_queries :: "run_query list"

definition ensure_profile_authorized :: "string \<Rightarrow> exn + unit" where
  "ensure_profile_authorized profile_id = require (profile_id \<noteq> ''dev'') RuntimeError"

text \<open>\<^verbatim>\<open>Path(f).name == f\<close> for a non-empty \<^verbatim>\<open>f\<close>.\<close>

definition plain_file_name :: "string \<Rightarrow> bool" where
  "plain_file_name f = (CHR ''/'' \<notin> set f \<and> f \<noteq> ''.'')"

definition string_that :: "(string \<Rightarrow> bool) \<Rightarrow> json \<Rightarrow> bool" where
  "string_that P v = (case v of JStr s \<Rightarrow> P s | _ \<Rightarrow> False)"

definition validate_dataset :: "dict \<Rightarrow> exn + unit" where
  "validate_dataset dataset =
     ebind (require (set (dict_keys dataset) = set DATASET_KEYS) ValueError) (\<lambda>_.
     ebind (in_str_set (dget dataset ''profile'') [''smoke'', ''dev'']) (\<lambda>known.
     ebind (require known ValueError) (\<lambda>_.
     ebind (require (dget dataset ''profile'' \<noteq> JStr ''dev'') RuntimeError) (\<lambda>_.
     ebind (require (py_eq (dget dataset ''eval_splits'') (JList [JStr ''dev''])) ValueError) (\<lambda>_.
     ebind (require (py_eq (dget dataset ''origin_splits'') (JList [JStr ''train''])) ValueError) (\<lambda>_.
     ebind (require (list_all (\<lambda>k. string_that (hex_exact 64) (dget dataset k))
                       [''canonical_sha256'', ''file_sha256'', ''stage1_manifest_sha256'']) ValueError) (\<lambda>_.
     ebind (require (string_that (\<lambda>s. \<not> blank s) (dget dataset ''stage1_schema_version'')) ValueError) (\<lambda>_.
     ebind (require (string_that (hex_exact 40) (dget dataset ''source_commit'')) ValueError) (\<lambda>_.
     require (string_that (\<lambda>s. \<not> blank s \<and> plain_file_name s) (dget dataset ''file'')) ValueError)))))))))"

definition BOUNDARY :: json where
  "BOUNDARY = JObj
     [(''full_catalog_recall_claimed'', JBool False), (''task'', JStr ''judged-candidate-reranking''),
      (''unjudged_products_are_irrelevant'', JBool False)]"

definition metric_means :: "run_query list \<Rightarrow> rat per_metric" where
  "metric_means qs =
     (let average = \<lambda>m. sum_list (map (\<lambda>q. m (rq_metrics q)) qs) / of_nat (length qs) in
      \<lparr>pm_ndcg_at_5 = average pm_ndcg_at_5, pm_ndcg_at_10 = average pm_ndcg_at_10, pm_mrr_at_10 = average pm_mrr_at_10,
       pm_success_at_1 = average pm_success_at_1, pm_success_at_5 = average pm_success_at_5\<rparr>)"

definition run_products :: "run_query list \<Rightarrow> item_key set" where
  "run_products qs = (\<Union>q \<in> set qs. item_key ` set (rq_ranking q))"

definition validate_counts :: "dict \<Rightarrow> run_query list \<Rightarrow> exn + unit" where
  "validate_counts dataset qs =
     ebind (require (py_eq (dget dataset ''queries'') (JInt (int (length qs)))) ValueError) (\<lambda>_.
     ebind (require (py_eq (dget dataset ''judgments'')
                       (JInt (sum_list (map (\<lambda>q. int (length (rq_ranking q))) qs)))) ValueError) (\<lambda>_.
     ebind (require (py_eq (dget dataset ''products'') (JInt (int (card (run_products qs))))) ValueError) (\<lambda>_.
     require (py_eq (dget dataset ''locales'') (JList (map JStr (sorted_ids (map rq_locale qs))))) ValueError)))"

definition validate_digest :: "codec \<Rightarrow> string \<Rightarrow> dict \<Rightarrow> exn + unit" where
  "validate_digest c run_id run =
     ebind (canonical_json_bytes c (JObj (filter (\<lambda>p. fst p \<noteq> ''run_id'') run))) (\<lambda>canonical.
     require (drop (length run_id - 13) run_id = ''-'' @ take 12 (cd_sha c canonical)) ValueError)"

definition validate_run :: "codec \<Rightarrow> pytext \<Rightarrow> json \<Rightarrow> exn + evaluated_run" where
  "validate_run c pt raw =
     ebind (require (is_dict raw) ValueError) (\<lambda>_.
     ebind (require_dict raw) (\<lambda>run.
     ebind (require (set (dict_keys run) = set RUN_KEYS) ValueError) (\<lambda>_.
     ebind (require (dget run ''schema_version'' = JStr RUN_SCHEMA_VERSION) ValueError) (\<lambda>_.
     ebind (of_option ValueError (dec_pattern RUN_ID_PATTERN (dget run ''run_id''))) (\<lambda>run_id.
     ebind (of_option ValueError (dec_pattern (hex_exact 40) (dget run ''code_revision''))) (\<lambda>revision.
     ebind (require_dict (dget run ''dataset'')) (\<lambda>dataset.
     ebind (validate_dataset dataset) (\<lambda>_.
     ebind (ebind (require_dict (dget run ''evaluation_boundary'')) (\<lambda>b. require (py_eq (JObj b) BOUNDARY) ValueError)) (\<lambda>_.
     ebind (require_dict (dget run ''relevance_policy'')) (\<lambda>policy_payload.
     ebind (policy_from_dict pt policy_payload) (\<lambda>policy.
     ebind (require (py_eq (JObj policy_payload) (JObj (relevance_to_dict policy))) ValueError) (\<lambda>_.
     ebind (require_dict (dget run ''ranker'')) (\<lambda>ranker.
     ebind (of_option ValueError (dec_pattern (\<lambda>s. \<not> blank s) (dget ranker ''ranker_id''))) (\<lambda>ranker_id.
     ebind (require (case map_of RUN_PREFIX_BY_RANKER_ID ranker_id of
                       None \<Rightarrow> True | Some prefix \<Rightarrow> take (length run_id - 13) run_id = prefix) ValueError) (\<lambda>_.
     ebind (ebind (require_dict (dget run ''metrics'')) read_metrics) (\<lambda>metrics.
     ebind (require_list (dget run ''per_query'')) (\<lambda>query_items.
     ebind (require (query_items \<noteq> []) ValueError) (\<lambda>_.
     ebind (validate_queries pt policy [] query_items) (\<lambda>queries.
     ebind (require (list_all2 (isclose_abs float_1e_12) (metric_values metrics) (metric_values (metric_means queries)))
              ValueError) (\<lambda>_.
     ebind (validate_counts dataset queries) (\<lambda>_.
     ebind (validate_digest c run_id run) (\<lambda>_.
     Inr \<lparr>er_run_id = run_id, er_code_revision = revision, er_dataset = dataset,
          er_boundary = dget run ''evaluation_boundary'', er_policy = JObj policy_payload, er_ranker = ranker,
          er_ranker_id = ranker_id, er_metrics = metrics, er_queries = queries\<rparr>))))))))))))))))))))))"

end
