(* ===== verification/RunComparison.thy ===== *)
theory RunComparison
  imports RunValidation
begin

text \<open>
  \<^verbatim>\<open>compare_runs\<close> of \<^verbatim>\<open>src/search_quality/evaluation/comparison.py\<close>, with the provenance and compatibility checks
  before it, and the profile of \<^verbatim>\<open>evaluation/datasets.py\<close>. Differences are those of the rational values. The profile
  that \<^verbatim>\<open>from_stage1_manifest\<close> reads from the manifest file is an argument, an exception or a profile; the
  rendering as Markdown and logging are not modelled.
\<close>

subsection \<open>The trusted profile\<close>

record evaluation_profile =
  ep_profile_id :: string
  ep_file_name :: string
  ep_file_sha256 :: string
  ep_canonical_sha256 :: string
  ep_stage1_manifest_sha256 :: string
  ep_stage1_schema_version :: string
  ep_source_commit :: string
  ep_expected_rows :: int
  ep_expected_queries :: int
  ep_expected_products :: int

definition profile_init :: "evaluation_profile \<Rightarrow> exn + evaluation_profile" where
  "profile_init p =
     ebind (require (ep_profile_id p \<in> {''smoke'', ''dev''}) ValueError) (\<lambda>_.
     ebind (require (list_all (\<lambda>s. \<not> blank s)
              [ep_file_sha256 p, ep_canonical_sha256 p, ep_stage1_manifest_sha256 p, ep_stage1_schema_version p,
               ep_source_commit p]) ValueError) (\<lambda>_.
     ebind (require (list_all (\<lambda>n. 1 \<le> n) [ep_expected_rows p, ep_expected_queries p, ep_expected_products p]) ValueError) (\<lambda>_.
     Inr p)))"

definition to_manifest_dict :: "evaluation_profile \<Rightarrow> dict" where
  "to_manifest_dict p =
     [(''canonical_sha256'', JStr (ep_canonical_sha256 p)), (''file'', JStr (ep_file_name p)),
      (''file_sha256'', JStr (ep_file_sha256 p)), (''profile'', JStr (ep_profile_id p)),
      (''source_commit'', JStr (ep_source_commit p)), (''stage1_manifest_sha256'', JStr (ep_stage1_manifest_sha256 p)),
      (''stage1_schema_version'', JStr (ep_stage1_schema_version p))]"

definition expected_counts :: "evaluation_profile \<Rightarrow> dict" where
  "expected_counts p =
     [(''judgments'', JInt (ep_expected_rows p)), (''products'', JInt (ep_expected_products p)),
      (''queries'', JInt (ep_expected_queries p))]"

definition validate_trusted_provenance :: "evaluation_profile \<Rightarrow> evaluated_run \<Rightarrow> exn + unit" where
  "validate_trusted_provenance p run =
     require (list_all (\<lambda>(k, v). py_eq (dget (er_dataset run) k) v) (to_manifest_dict p @ expected_counts p)) ValueError"

definition validate_trusted_run ::
    "codec \<Rightarrow> pytext \<Rightarrow> string \<Rightarrow> exn + evaluation_profile \<Rightarrow> json \<Rightarrow> exn + evaluated_run" where
  "validate_trusted_run c pt expected_profile trusted raw =
     ebind (ensure_profile_authorized expected_profile) (\<lambda>_.
     ebind (validate_run c pt raw) (\<lambda>run.
     ebind trusted (\<lambda>profile.
     ebind (validate_trusted_provenance profile run) (\<lambda>_. Inr run))))"

subsection \<open>Compatibility\<close>

definition candidate_evidence :: "run_query \<Rightarrow> (item_key \<times> int \<times> string \<times> rat) set" where
  "candidate_evidence q = (\<lambda>x. (item_key x, it_example_id x, it_label x, it_gain x)) ` set (rq_ranking q)"

definition find_query :: "run_query list \<Rightarrow> string \<times> int \<Rightarrow> exn + run_query" where
  "find_query qs k = of_option KeyError (map_of (map (\<lambda>q. (query_key q, q)) qs) k)"

definition compatible_query :: "run_query \<Rightarrow> run_query \<Rightarrow> bool" where
  "compatible_query b d =
     (rq_query_text b = rq_query_text d \<and> length (rq_ranking b) = length (rq_ranking d) \<and>
      candidate_evidence b = candidate_evidence d)"

definition validate_compatibility :: "evaluated_run \<Rightarrow> evaluated_run \<Rightarrow> exn + unit" where
  "validate_compatibility b d =
     ebind (require (py_eq (JObj (er_dataset b)) (JObj (er_dataset d))) ValueError) (\<lambda>_.
     ebind (require (py_eq (er_boundary b) (er_boundary d)) ValueError) (\<lambda>_.
     ebind (require (py_eq (er_policy b) (er_policy d)) ValueError) (\<lambda>_.
     ebind (require (query_key ` set (er_queries b) = query_key ` set (er_queries d)) ValueError) (\<lambda>_.
     ebind (traverse (\<lambda>q. ebind (find_query (er_queries d) (query_key q)) (\<lambda>q'. require (compatible_query q q') ValueError))
              (er_queries b)) (\<lambda>_.
     Inr ())))))"

subsection \<open>Differences\<close>

definition metric_delta_of :: "rat \<Rightarrow> rat \<Rightarrow> metric_delta" where
  "metric_delta_of b d = \<lparr>md_baseline = b, md_candidate = d, md_delta = d - b\<rparr>"

definition per_metric_of :: "('a \<Rightarrow> 'b \<Rightarrow> 'c) \<Rightarrow> 'a per_metric \<Rightarrow> 'b per_metric \<Rightarrow> 'c per_metric" where
  "per_metric_of f x y =
     \<lparr>pm_ndcg_at_5 = f (pm_ndcg_at_5 x) (pm_ndcg_at_5 y), pm_ndcg_at_10 = f (pm_ndcg_at_10 x) (pm_ndcg_at_10 y),
      pm_mrr_at_10 = f (pm_mrr_at_10 x) (pm_mrr_at_10 y), pm_success_at_1 = f (pm_success_at_1 x) (pm_success_at_1 y),
      pm_success_at_5 = f (pm_success_at_5 x) (pm_success_at_5 y)\<rparr>"

datatype delta_outcome = Improved | Regressed | Tied

definition outcome_of_delta :: "rat \<Rightarrow> delta_outcome" where
  "outcome_of_delta d = (if float_1e_12 < d then Improved else if d < - float_1e_12 then Regressed else Tied)"

definition count_outcomes :: "rat list \<Rightarrow> outcome_counts" where
  "count_outcomes ds =
     (let count = \<lambda>x. int (length (filter (\<lambda>d. outcome_of_delta d = x) ds)) in
      \<lparr>oc_improved = count Improved, oc_regressed = count Regressed, oc_tied = count Tied\<rparr>)"

record rank_move =
  mv_key :: item_key
  mv_baseline_rank :: int
  mv_baseline_score :: rat
  mv_candidate_rank :: int
  mv_candidate_score :: rat
  mv_example_id :: int
  mv_gain :: rat
  mv_label :: string
  mv_rank_delta :: int

definition movement :: "rank_move \<Rightarrow> string" where
  "movement m = (if 0 < mv_rank_delta m then ''up'' else if mv_rank_delta m < 0 then ''down'' else ''same'')"

definition ranking_by_product :: "run_query \<Rightarrow> item_key \<Rightarrow> ranked_item option" where
  "ranking_by_product q = map_of (rev (map (\<lambda>x. (item_key x, x)) (rq_ranking q)))"

definition move_of :: "ranked_item \<Rightarrow> ranked_item \<Rightarrow> rank_move" where
  "move_of b x =
     \<lparr>mv_key = item_key x, mv_baseline_rank = it_rank b, mv_baseline_score = it_score b, mv_candidate_rank = it_rank x,
      mv_candidate_score = it_score x, mv_example_id = it_example_id x, mv_gain = it_gain x, mv_label = it_label x,
      mv_rank_delta = it_rank b - it_rank x\<rparr>"

definition ranking_diff :: "run_query \<Rightarrow> run_query \<Rightarrow> exn + rank_move list" where
  "ranking_diff b d =
     traverse (\<lambda>x. ebind (of_option KeyError (ranking_by_product b (item_key x))) (\<lambda>y. Inr (move_of y x)))
       (sort_key it_rank (rq_ranking d))"

definition top_product_keys :: "run_query \<Rightarrow> nat \<Rightarrow> item_key list" where
  "top_product_keys q k = map item_key (take k (rq_ranking q))"

record query_comparison =
  qc_key :: "string \<times> int"
  qc_query_text :: string
  qc_candidate_count :: int
  qc_changed_rank_count :: int
  qc_metrics :: "metric_delta per_metric"
  qc_ranking_diff :: "rank_move list"
  qc_top_10_changed :: bool

definition compare_query :: "run_query \<Rightarrow> run_query \<Rightarrow> exn + query_comparison" where
  "compare_query b d =
     ebind (ranking_diff b d) (\<lambda>moves.
     Inr \<lparr>qc_key = query_key b, qc_query_text = rq_query_text b, qc_candidate_count = int (length (rq_ranking b)),
          qc_changed_rank_count = int (length (filter (\<lambda>m. mv_rank_delta m \<noteq> 0) moves)),
          qc_metrics = per_metric_of metric_delta_of (rq_metrics b) (rq_metrics d), qc_ranking_diff = moves,
          qc_top_10_changed = (top_product_keys b 10 \<noteq> top_product_keys d 10)\<rparr>)"

subsection \<open>The comparison\<close>

record run_reference =
  rr_code_revision :: string
  rr_ranker :: dict
  rr_ranker_id :: string
  rr_run_id :: string

definition run_reference_of :: "evaluated_run \<Rightarrow> run_reference" where
  "run_reference_of r =
     \<lparr>rr_code_revision = er_code_revision r, rr_ranker = er_ranker r, rr_ranker_id = er_ranker_id r, rr_run_id = er_run_id r\<rparr>"

record run_comparison =
  rc_comparison_id :: string
  rc_aggregate :: "metric_delta per_metric"
  rc_baseline :: run_reference
  rc_candidate :: run_reference
  rc_comparator_revision :: string
  rc_dataset :: dict
  rc_boundary :: json
  rc_policy :: json
  rc_outcome_counts :: "outcome_counts per_metric"
  rc_per_query :: "query_comparison list"

definition outcome_counts_of :: "query_comparison list \<Rightarrow> outcome_counts per_metric" where
  "outcome_counts_of qs =
     (let counts = \<lambda>m. count_outcomes (map (\<lambda>q. md_delta (m (qc_metrics q))) qs) in
      \<lparr>pm_ndcg_at_5 = counts pm_ndcg_at_5, pm_ndcg_at_10 = counts pm_ndcg_at_10, pm_mrr_at_10 = counts pm_mrr_at_10,
       pm_success_at_1 = counts pm_success_at_1, pm_success_at_5 = counts pm_success_at_5\<rparr>)"

definition dump_per_metric :: "('a \<Rightarrow> json) \<Rightarrow> 'a per_metric \<Rightarrow> json" where
  "dump_per_metric f m = JObj (zip METRIC_NAMES (map f (metric_values m)))"

definition dump_delta :: "metric_delta \<Rightarrow> json" where
  "dump_delta d = JObj
     [(''baseline'', fin_json (md_baseline d)), (''candidate'', fin_json (md_candidate d)), (''delta'', fin_json (md_delta d))]"

definition dump_counts :: "outcome_counts \<Rightarrow> json" where
  "dump_counts k = JObj
     [(''improved'', JInt (oc_improved k)), (''regressed'', JInt (oc_regressed k)), (''tied'', JInt (oc_tied k))]"

definition dump_move :: "rank_move \<Rightarrow> json" where
  "dump_move m = JObj
     [(''baseline_rank'', JInt (mv_baseline_rank m)), (''baseline_score'', fin_json (mv_baseline_score m)),
      (''candidate_rank'', JInt (mv_candidate_rank m)), (''candidate_score'', fin_json (mv_candidate_score m)),
      (''example_id'', JInt (mv_example_id m)), (''gain'', fin_json (mv_gain m)), (''label'', JStr (mv_label m)),
      (''locale'', JStr (fst (mv_key m))), (''movement'', JStr (movement m)), (''product_id'', JStr (snd (mv_key m))),
      (''rank_delta'', JInt (mv_rank_delta m))]"

definition dump_query_comparison :: "query_comparison \<Rightarrow> json" where
  "dump_query_comparison q = JObj
     [(''candidate_count'', JInt (qc_candidate_count q)), (''changed_rank_count'', JInt (qc_changed_rank_count q)),
      (''locale'', JStr (fst (qc_key q))), (''metrics'', dump_per_metric dump_delta (qc_metrics q)),
      (''query_id'', JInt (snd (qc_key q))), (''query_text'', JStr (qc_query_text q)),
      (''ranking_diff'', JList (map dump_move (qc_ranking_diff q))), (''top_10_changed'', JBool (qc_top_10_changed q))]"

definition dump_run_reference :: "run_reference \<Rightarrow> json" where
  "dump_run_reference r = JObj
     [(''code_revision'', JStr (rr_code_revision r)), (''ranker'', JObj (rr_ranker r)), (''ranker_id'', JStr (rr_ranker_id r)),
      (''run_id'', JStr (rr_run_id r))]"

text \<open>The payload that the identifier is computed over.\<close>

definition comparison_body :: "run_comparison \<Rightarrow> dict" where
  "comparison_body x =
     [(''aggregate_metrics'', dump_per_metric dump_delta (rc_aggregate x)),
      (''baseline'', dump_run_reference (rc_baseline x)), (''candidate'', dump_run_reference (rc_candidate x)),
      (''comparator_revision'', JStr (rc_comparator_revision x)),
      (''compatibility'', JObj
         [(''dataset'', JObj (rc_dataset x)), (''evaluation_boundary'', rc_boundary x),
          (''query_count'', JInt (int (length (rc_per_query x)))), (''relevance_policy'', rc_policy x)]),
      (''comparison_epsilon'', fin_json float_1e_12), (''diagnostic_sort_metric'', JStr ''ndcg@10''),
      (''outcome_counts'', dump_per_metric dump_counts (rc_outcome_counts x)),
      (''per_query'', JList (map dump_query_comparison (rc_per_query x))),
      (''schema_version'', JStr ''search-evaluation-comparison-v1'')]"

text \<open>The comparison of two validated Runs.\<close>

definition compare_validated :: "codec \<Rightarrow> string \<Rightarrow> evaluated_run \<Rightarrow> evaluated_run \<Rightarrow> exn + run_comparison" where
  "compare_validated c revision b d =
     ebind (validate_compatibility b d) (\<lambda>_.
     ebind (traverse (\<lambda>q. ebind (find_query (er_queries d) (query_key q)) (compare_query q))
              (sort_key query_key (er_queries b))) (\<lambda>per_query.
     let x = \<lparr>rc_comparison_id = [], rc_aggregate = per_metric_of metric_delta_of (er_metrics b) (er_metrics d),
              rc_baseline = run_reference_of b, rc_candidate = run_reference_of d, rc_comparator_revision = revision,
              rc_dataset = er_dataset b, rc_boundary = er_boundary b, rc_policy = er_policy b,
              rc_outcome_counts = outcome_counts_of per_query, rc_per_query = per_query\<rparr> in
     ebind (canonical_json_bytes c (JObj (comparison_body x))) (\<lambda>canonical.
     Inr (x\<lparr>rc_comparison_id := ''comparison-'' @ take 12 (cd_sha c canonical)\<rparr>))))"

definition compare_runs ::
    "codec \<Rightarrow> pytext \<Rightarrow> string \<Rightarrow> string \<Rightarrow> exn + evaluation_profile \<Rightarrow> json \<Rightarrow> json \<Rightarrow> exn + run_comparison" where
  "compare_runs c pt comparator_revision expected_profile trusted baseline_run candidate_run =
     (let revision = strip_bytes comparator_revision in
      ebind (require (hex_exact 40 revision) ValueError) (\<lambda>_.
      ebind (ensure_profile_authorized expected_profile) (\<lambda>_.
      ebind trusted (\<lambda>profile.
      ebind (validate_run c pt baseline_run) (\<lambda>b.
      ebind (validate_run c pt candidate_run) (\<lambda>d.
      ebind (validate_trusted_provenance profile b) (\<lambda>_.
      ebind (validate_trusted_provenance profile d) (\<lambda>_.
      compare_validated c revision b d))))))))"

end
