(* ===== verification/EvaluationBaseline.thy ===== *)
theory EvaluationBaseline
  imports RunComparison
begin

text \<open>
  \<^verbatim>\<open>src/search_quality/evaluation/baseline.py\<close>: the producer of Runs. A Parquet file is read into a \<open>frame\<close>, a list of
  rows whose cells may be null; the frame is normalised and validated, every Query's judged products are ranked without
  their labels, and the ranking, its metrics and the provenance become one JSON document with a content-addressed ID.
  What Polars and the standard library contribute are the fields of \<open>baseline_env\<close>: the three text functions of the
  casts, \<^verbatim>\<open>str.upper\<close>, the JSON text with its digest, and \<open>be_round\<close>, the double that a real-valued computation yields.
  Logging and the measured durations are not modelled.
\<close>

record baseline_env =
  be_codec :: codec
  be_text :: pytext
  be_strip_chars :: "ustring \<Rightarrow> ustring"
  be_to_uppercase :: "ustring \<Rightarrow> ustring"
  be_to_lowercase :: "ustring \<Rightarrow> ustring"
  be_round :: "real \<Rightarrow> pyfloat"

subsection \<open>The judgments\<close>

definition REQUIRED_COLUMNS :: "string list" where
  "REQUIRED_COLUMNS =
     [''query_id'', ''example_id'', ''query_text'', ''product_id'', ''product_locale'', ''product_title'', ''esci_label'',
      ''eval_split'', ''origin_split'', ''is_smoke'']"

record frame_row =
  fr_query_id :: "int option"
  fr_example_id :: "int option"
  fr_query_text :: "ustring option"
  fr_product_id :: "ustring option"
  fr_product_locale :: "ustring option"
  fr_product_title :: "ustring option"
  fr_esci_label :: "ustring option"
  fr_eval_split :: "ustring option"
  fr_origin_split :: "ustring option"
  fr_is_smoke :: "bool option"

record frame =
  fm_columns :: "string list"
  fm_query_id_integer :: bool
  fm_is_smoke_boolean :: bool
  fm_rows :: "frame_row list"

definition cast_row :: "baseline_env \<Rightarrow> frame_row \<Rightarrow> frame_row" where
  "cast_row env r =
     r\<lparr>fr_query_text := map_option (be_strip_chars env) (fr_query_text r),
       fr_product_id := map_option (be_strip_chars env) (fr_product_id r),
       fr_product_title := map_option (be_strip_chars env) (fr_product_title r),
       fr_esci_label := map_option (be_to_uppercase env) (fr_esci_label r),
       fr_product_locale := map_option (be_to_lowercase env) (fr_product_locale r),
       fr_eval_split := map_option (be_to_lowercase env) (fr_eval_split r),
       fr_origin_split := map_option (be_to_lowercase env) (fr_origin_split r)\<rparr>"

text \<open>A cast of a column that the file does not have raises inside Polars.\<close>

definition cast_frame :: "baseline_env \<Rightarrow> frame \<Rightarrow> exn + frame" where
  "cast_frame env f =
     ebind (require (list_all (\<lambda>c. c \<in> set (fm_columns f))
              [''query_text'', ''product_id'', ''product_title'', ''esci_label'', ''product_locale'', ''eval_split'',
               ''origin_split'']) OtherException) (\<lambda>_.
     Inr (f\<lparr>fm_rows := map (cast_row env) (fm_rows f)\<rparr>))"

text \<open>A row of a validated frame. Only the example ID may still be null.\<close>

record judged_row =
  jd_query_id :: int
  jd_example_id :: "int option"
  jd_query_text :: ustring
  jd_product_id :: ustring
  jd_locale :: ustring
  jd_title :: ustring
  jd_label :: ustring
  jd_eval_split :: ustring
  jd_origin_split :: ustring
  jd_is_smoke :: bool

definition judgment_of :: "frame_row \<Rightarrow> judged_row" where
  "judgment_of r =
     \<lparr>jd_query_id = the (fr_query_id r), jd_example_id = fr_example_id r, jd_query_text = the (fr_query_text r),
      jd_product_id = the (fr_product_id r), jd_locale = the (fr_product_locale r), jd_title = the (fr_product_title r),
      jd_label = the (fr_esci_label r), jd_eval_split = the (fr_eval_split r), jd_origin_split = the (fr_origin_split r),
      jd_is_smoke = the (fr_is_smoke r)\<rparr>"

definition judgment_query :: "judged_row \<Rightarrow> ustring \<times> int" where
  "judgment_query j = (jd_locale j, jd_query_id j)"

definition judgment_key :: "judged_row \<Rightarrow> product_key" where
  "judgment_key j = (jd_locale j, jd_product_id j)"

text \<open>\<^verbatim>\<open>group_by(key).agg(col.n_unique())\<close> gives 1 for every group.\<close>

definition one_per_group :: "('a \<Rightarrow> 'k) \<Rightarrow> ('a \<Rightarrow> 'b) \<Rightarrow> 'a list \<Rightarrow> bool" where
  "one_per_group key col rows =
     list_all (\<lambda>k. length (nub (map col (filter (\<lambda>r. key r = k) rows))) = 1) (nub (map key rows))"

definition dev_split :: ustring where "dev_split = [100, 101, 118]"
definition train_split :: ustring where "train_split = [116, 114, 97, 105, 110]"
definition us_locale :: ustring where "us_locale = [117, 115]"

definition text_present :: "ustring option \<Rightarrow> bool" where
  "text_present t = (t \<noteq> None \<and> t \<noteq> Some [])"

definition validate_evaluation_frame :: "frame \<Rightarrow> exn + unit" where
  "validate_evaluation_frame f =
     (let rows = fm_rows f; js = map judgment_of rows in
      ebind (require (set REQUIRED_COLUMNS \<subseteq> set (fm_columns f)) ValueError) (\<lambda>_.
      ebind (require (rows \<noteq> []) ValueError) (\<lambda>_.
      ebind (require (list_all (\<lambda>column. list_all (\<lambda>r. text_present (column r)) rows)
               [fr_query_text, fr_product_id, fr_product_locale, fr_product_title, fr_esci_label, fr_eval_split,
                fr_origin_split]) ValueError) (\<lambda>_.
      ebind (require (list_all (\<lambda>r. fr_query_id r \<noteq> None) rows) ValueError) (\<lambda>_.
      ebind (require (list_all (\<lambda>r. fr_is_smoke r \<noteq> None) rows) ValueError) (\<lambda>_.
      ebind (require (fm_query_id_integer f) TypeError) (\<lambda>_.
      ebind (require (fm_is_smoke_boolean f) TypeError) (\<lambda>_.
      ebind (require (set (map jd_eval_split js) = {dev_split}) ValueError) (\<lambda>_.
      ebind (require (set (map jd_origin_split js) = {train_split}) ValueError) (\<lambda>_.
      ebind (require (set (map jd_locale js) = {us_locale}) ValueError) (\<lambda>_.
      ebind (require (list_all (\<lambda>j. jd_label j \<in> set ESCI_LABELS) js) ValueError) (\<lambda>_.
      ebind (require (distinct (map (\<lambda>j. (judgment_query j, jd_product_id j)) js)) ValueError) (\<lambda>_.
      ebind (require (one_per_group judgment_query jd_query_text js \<and> one_per_group judgment_query jd_eval_split js \<and>
                      one_per_group judgment_query jd_origin_split js) ValueError) (\<lambda>_.
      require (one_per_group judgment_key jd_title js) ValueError))))))))))))))"

subsection \<open>The ranker\<close>

definition RANKER_NAMES :: "string list" where
  "RANKER_NAMES = [''random'', ''keyword-overlap'', ''title-bm25'', ''title-bm25-exact-boost'']"

definition RUN_ID_PREFIXES :: "(string \<times> string) list" where
  "RUN_ID_PREFIXES =
     [(''keyword-overlap'', ''overlap''), (''random'', ''random''), (''title-bm25-exact-boost'', ''exact-boost''),
      (''title-bm25'', ''bm25'')]"

text \<open>The doubles nearest to 0.1, 0.8 and 1.2.\<close>

definition lowest_k1 :: rat where "lowest_k1 = 3602879701896397 / 36028797018963968"
definition default_coverage_boost :: rat where "default_coverage_boost = 3602879701896397 / 4503599627370496"
definition default_phrase_boost :: rat where "default_phrase_boost = 5404319552844595 / 4503599627370496"

definition EXACT_BOOST_OPTION_BOUNDS :: "(string \<times> rat \<times> rat) list" where
  "EXACT_BOOST_OPTION_BOUNDS =
     [(''b'', 0, 1), (''coverage_boost'', 0, 3), (''k1'', lowest_k1, 3), (''numeric_boost'', 0, 3),
      (''phrase_boost'', 0, 3)]"

type_synonym ranker_options = "(string \<times> rat) list"

definition normalize_option :: "string \<Rightarrow> json \<Rightarrow> exn + rat" where
  "normalize_option name v =
     ebind (require (real_number v) ValueError) (\<lambda>_.
     ebind (to_float v) (\<lambda>x.
     case x of
       Fin r \<Rightarrow>
         (case map_of EXACT_BOOST_OPTION_BOUNDS name of
            None \<Rightarrow> Inl KeyError
          | Some (minimum, maximum) \<Rightarrow> ebind (require (minimum \<le> r \<and> r \<le> maximum) ValueError) (\<lambda>_. Inr r))
     | _ \<Rightarrow> Inl ValueError))"

definition normalize_ranker_options :: "string \<Rightarrow> json \<Rightarrow> exn + ranker_options" where
  "normalize_ranker_options ranker_name options =
     (case options of
        JNull \<Rightarrow> Inr []
      | JObj d \<Rightarrow>
          ebind (require (ranker_name = ''title-bm25-exact-boost'' \<or> d = []) ValueError) (\<lambda>_.
          ebind (require (list_all (\<lambda>k. k \<in> set (map fst EXACT_BOOST_OPTION_BOUNDS)) (dict_keys d)) ValueError) (\<lambda>_.
          traverse (\<lambda>(name, v). ebind (normalize_option name v) (\<lambda>r. Inr (name, r))) d))
      | _ \<Rightarrow> Inl TypeError)"

datatype built_ranker =
    Random_ranker random_ranker
  | Overlap_ranker overlap_ranker
  | Bm25_ranker bm25_index
  | Boost_ranker boost_ranker

definition ranker_option :: "ranker_options \<Rightarrow> string \<Rightarrow> rat \<Rightarrow> pyfloat" where
  "ranker_option options name usual = Fin (case map_of options name of None \<Rightarrow> usual | Some r \<Rightarrow> r)"

definition build_ranker :: "string \<Rightarrow> candidate_product list \<Rightarrow> ranker_options \<Rightarrow> json \<Rightarrow> exn + built_ranker" where
  "build_ranker ranker_name products options random_seed =
     (if ranker_name = ''random'' then ebind (random_init products random_seed) (\<lambda>r. Inr (Random_ranker r))
      else if ranker_name = ''keyword-overlap'' then ebind (overlap_init products) (\<lambda>r. Inr (Overlap_ranker r))
      else if ranker_name = ''title-bm25'' then
        ebind (bm25_init products (Fin (3 / 2)) (Fin (3 / 4))) (\<lambda>r. Inr (Bm25_ranker r))
      else if ranker_name = ''title-bm25-exact-boost'' then
        ebind (boost_init products (ranker_option options ''coverage_boost'' default_coverage_boost)
                 (ranker_option options ''numeric_boost'' 1) (ranker_option options ''phrase_boost'' default_phrase_boost)
                 (ranker_option options ''k1'' (3 / 2)) (ranker_option options ''b'' (3 / 4)))
          (\<lambda>r. Inr (Boost_ranker r))
      else Inl ValueError)"

fun ranker_config :: "built_ranker \<Rightarrow> dict" where
  "ranker_config (Random_ranker r) = random_config r"
| "ranker_config (Overlap_ranker r) = overlap_config"
| "ranker_config (Bm25_ranker r) = bm25_config r"
| "ranker_config (Boost_ranker r) = boost_config r"

fun rank_query :: "codec \<Rightarrow> built_ranker \<Rightarrow> ustring \<Rightarrow> exn + ranked_product list" where
  "rank_query c (Random_ranker r) query = random_rank c r query"
| "rank_query c (Overlap_ranker r) query = overlap_rank r query"
| "rank_query c (Bm25_ranker r) query = bm25_rank r query"
| "rank_query c (Boost_ranker r) query = boost_rank r query"

definition validate_ranking :: "baseline_env \<Rightarrow> product_key list \<Rightarrow> ranked_product list \<Rightarrow> exn + unit" where
  "validate_ranking env candidate_keys ranked =
     (let ranked_keys = map ranked_key ranked in
      ebind (require (distinct ranked_keys) ValueError) (\<lambda>_.
      ebind (require (set ranked_keys = set candidate_keys) ValueError) (\<lambda>_.
      ebind (require (map rk_rank ranked = [1..<length ranked + 1]) ValueError) (\<lambda>_.
      require (list_all (\<lambda>p. isfinite (be_round env (rk_score p))) ranked) ValueError))))"

subsection \<open>One Query\<close>

record query_result =
  qr_ranked_gains :: "rat list"
  qr_candidate_gains :: "rat list"
  qr_relevance :: "bool list"
  qr_entry :: json

definition gain_json :: "rat \<Rightarrow> json" where
  "gain_json g = JFloat (Fin g)"

definition query_metrics :: "rat list \<Rightarrow> rat list \<Rightarrow> bool list \<Rightarrow> exn + real per_metric" where
  "query_metrics ranked_gains candidate_gains relevance =
     ebind (reciprocal_rank_at_k (map JBool relevance) (JInt 10)) (\<lambda>m.
     ebind (ndcg_at_k (map gain_json ranked_gains) (map gain_json candidate_gains) (JInt 10)) (\<lambda>n10.
     ebind (ndcg_at_k (map gain_json ranked_gains) (map gain_json candidate_gains) (JInt 5)) (\<lambda>n5.
     ebind (success_at_k (map JBool relevance) (JInt 1)) (\<lambda>s1.
     ebind (success_at_k (map JBool relevance) (JInt 5)) (\<lambda>s5.
     Inr \<lparr>pm_ndcg_at_5 = n5, pm_ndcg_at_10 = n10, pm_mrr_at_10 = m, pm_success_at_1 = s1, pm_success_at_5 = s5\<rparr>)))))"

definition metrics_json :: "baseline_env \<Rightarrow> real per_metric \<Rightarrow> json" where
  "metrics_json env m = JObj
     [(''mrr@10'', JFloat (be_round env (pm_mrr_at_10 m))), (''ndcg@10'', JFloat (be_round env (pm_ndcg_at_10 m))),
      (''ndcg@5'', JFloat (be_round env (pm_ndcg_at_5 m))), (''success@1'', JFloat (be_round env (pm_success_at_1 m))),
      (''success@5'', JFloat (be_round env (pm_success_at_5 m)))]"

definition ranking_entry ::
    "baseline_env \<Rightarrow> relevance_policy \<Rightarrow> (product_key \<times> ustring) list \<Rightarrow> (product_key \<times> int) list \<Rightarrow> ranked_product \<Rightarrow> exn + json" where
  "ranking_entry env policy labels example_ids p =
     ebind (of_option KeyError (map_of (rev labels) (ranked_key p))) (\<lambda>label.
     ebind (policy_gain (be_text env) policy (label_text label)) (\<lambda>gain.
     ebind (of_option KeyError (map_of (rev example_ids) (ranked_key p))) (\<lambda>example_id.
     ebind (utf8 (rk_locale p)) (\<lambda>locale.
     ebind (utf8 (rk_product_id p)) (\<lambda>product_id.
     Inr (JObj
       [(''gain'', gain_json gain), (''example_id'', JInt example_id), (''label'', JStr (label_text label)),
        (''locale'', JStr locale), (''product_id'', JStr product_id), (''rank'', JInt (int (rk_rank p))),
        (''score'', JFloat (be_round env (rk_score p)))]))))))"

definition evaluate_query ::
    "baseline_env \<Rightarrow> relevance_policy \<Rightarrow> string \<Rightarrow> ranker_options \<Rightarrow> json \<Rightarrow> dict option \<Rightarrow> judged_row list
      \<Rightarrow> exn + query_result \<times> dict" where
  "evaluate_query env policy ranker_name options random_seed config rows =
     (let candidate_keys = map judgment_key rows; labels = map (\<lambda>j. (judgment_key j, jd_label j)) rows;
          gain = (\<lambda>l. policy_gain (be_text env) policy (label_text l)) in
      ebind (traverse (\<lambda>j. candidate_product_init (jd_locale j) (jd_product_id j) (jd_title j)) rows) (\<lambda>products.
      ebind (build_ranker ranker_name products options random_seed) (\<lambda>ranker.
      let observed = ranker_config ranker in
      ebind (require (case config of None \<Rightarrow> True | Some d \<Rightarrow> py_eq (JObj d) (JObj observed)) ValueError) (\<lambda>_.
      ebind (traverse (\<lambda>j. ebind (of_option TypeError (jd_example_id j)) (\<lambda>i. Inr (judgment_key j, i))) rows) (\<lambda>example_ids.
      ebind (rank_query (be_codec env) ranker (jd_query_text (hd rows))) (\<lambda>ranked.
      ebind (validate_ranking env candidate_keys ranked) (\<lambda>_.
      ebind (traverse (\<lambda>p. of_option KeyError (map_of (rev labels) (ranked_key p))) ranked) (\<lambda>ranked_labels.
      ebind (traverse gain ranked_labels) (\<lambda>ranked_gains.
      ebind (traverse gain (map jd_label rows)) (\<lambda>candidate_gains.
      ebind (traverse (\<lambda>l. policy_relevant (be_text env) policy (label_text l)) ranked_labels) (\<lambda>relevance.
      ebind (query_metrics ranked_gains candidate_gains relevance) (\<lambda>metrics.
      ebind (traverse (ranking_entry env policy labels example_ids) ranked) (\<lambda>ranking.
      ebind (utf8 (jd_locale (hd rows))) (\<lambda>locale.
      ebind (utf8 (jd_query_text (hd rows))) (\<lambda>query_text.
      Inr (\<lparr>qr_ranked_gains = ranked_gains, qr_candidate_gains = candidate_gains, qr_relevance = relevance,
            qr_entry = JObj
              [(''candidate_count'', JInt (int (length candidate_keys))), (''locale'', JStr locale),
               (''metrics'', metrics_json env metrics), (''query_id'', JInt (jd_query_id (hd rows))),
               (''query_text'', JStr query_text), (''ranking'', JList ranking)]\<rparr>,
           case config of None \<Rightarrow> observed | Some d \<Rightarrow> d))))))))))))))))"

text \<open>The loop over the Queries, with the configuration that the first ranker reported.\<close>

fun evaluate_queries ::
    "baseline_env \<Rightarrow> relevance_policy \<Rightarrow> string \<Rightarrow> ranker_options \<Rightarrow> json \<Rightarrow> dict option \<Rightarrow> judged_row list list
      \<Rightarrow> exn + query_result list \<times> dict option" where
  "evaluate_queries env policy ranker_name options random_seed config [] = Inr ([], config)"
| "evaluate_queries env policy ranker_name options random_seed config (rows # rest) =
     ebind (evaluate_query env policy ranker_name options random_seed config rows) (\<lambda>(q, d).
     ebind (evaluate_queries env policy ranker_name options random_seed (Some d) rest) (\<lambda>(qs, config').
     Inr (q # qs, config')))"

definition sort_judgments :: "judged_row list \<Rightarrow> judged_row list" where
  "sort_judgments js = sort_key (\<lambda>j. (jd_locale j, jd_query_id j, jd_product_id j)) js"

definition partition_queries :: "judged_row list \<Rightarrow> judged_row list list" where
  "partition_queries js = map (\<lambda>k. filter (\<lambda>j. judgment_query j = k) js) (nub (map judgment_query js))"

subsection \<open>The whole Run\<close>

definition aggregate_metrics :: "query_result list \<Rightarrow> exn + real per_metric" where
  "aggregate_metrics qs =
     (let relevance = map (\<lambda>q. map JBool (qr_relevance q)) qs; ranked = map (\<lambda>q. map gain_json (qr_ranked_gains q)) qs;
          candidates = map (\<lambda>q. map gain_json (qr_candidate_gains q)) qs in
      ebind (mean_reciprocal_rank_at_k relevance (JInt 10)) (\<lambda>m.
      ebind (mean_ndcg_at_k ranked candidates (JInt 10)) (\<lambda>n10.
      ebind (mean_ndcg_at_k ranked candidates (JInt 5)) (\<lambda>n5.
      ebind (mean_success_at_k relevance (JInt 1)) (\<lambda>s1.
      ebind (mean_success_at_k relevance (JInt 5)) (\<lambda>s5.
      Inr \<lparr>pm_ndcg_at_5 = n5, pm_ndcg_at_10 = n10, pm_mrr_at_10 = m, pm_success_at_1 = s1, pm_success_at_5 = s5\<rparr>))))))"

definition unit_pyfloat :: "pyfloat \<Rightarrow> bool" where
  "unit_pyfloat v = (case v of Fin r \<Rightarrow> unit_float r | _ \<Rightarrow> False)"

definition sorted_texts :: "ustring list \<Rightarrow> exn + json" where
  "sorted_texts ts = ebind (traverse utf8 (sort (nub ts))) (\<lambda>ss. Inr (JList (map JStr ss)))"

text \<open>What the file of the profile gives: its kind, the frame that is read from it, and its bytes.\<close>

record baseline_source =
  bs_is_symlink :: bool
  bs_is_file :: bool
  bs_frame :: "exn + frame"
  bs_bytes :: string

definition run_payload ::
    "baseline_env \<Rightarrow> string \<Rightarrow> evaluation_profile \<Rightarrow> relevance_policy \<Rightarrow> judged_row list \<Rightarrow> query_result list \<Rightarrow> real per_metric
      \<Rightarrow> dict \<Rightarrow> exn + dict" where
  "run_payload env revision profile policy js qs metrics config =
     ebind (sorted_texts (map jd_eval_split js)) (\<lambda>eval_splits.
     ebind (sorted_texts (map jd_locale js)) (\<lambda>locales.
     ebind (sorted_texts (map jd_origin_split js)) (\<lambda>origin_splits.
     Inr [(''code_revision'', JStr revision),
       (''dataset'', JObj (to_manifest_dict profile @
         [(''eval_splits'', eval_splits), (''judgments'', JInt (int (length js))), (''locales'', locales),
          (''origin_splits'', origin_splits), (''products'', JInt (int (card (set (map judgment_key js))))),
          (''queries'', JInt (int (length qs)))])),
       (''evaluation_boundary'', BOUNDARY), (''metrics'', metrics_json env metrics), (''per_query'', JList (map qr_entry qs)),
       (''ranker'', JObj config), (''relevance_policy'', JObj (relevance_to_dict policy)),
       (''schema_version'', JStr RUN_SCHEMA_VERSION)])))"

definition with_run_id :: "codec \<Rightarrow> string \<Rightarrow> dict \<Rightarrow> exn + dict" where
  "with_run_id c ranker_name payload =
     ebind (of_option KeyError (map_of RUN_ID_PREFIXES ranker_name)) (\<lambda>prefix.
     Inr (payload @ [(''run_id'', JStr (prefix @ ''-'' @ take 12 (cd_sha c (cd_ser c (sort_keys (JObj payload))))))]))"

definition run_candidate_baseline ::
    "baseline_env \<Rightarrow> evaluation_profile \<Rightarrow> relevance_policy \<Rightarrow> string \<Rightarrow> string \<Rightarrow> json \<Rightarrow> json \<Rightarrow> baseline_source \<Rightarrow> exn + dict" where
  "run_candidate_baseline env profile policy code_revision ranker_name ranker_options random_seed source =
     ebind (ensure_profile_authorized (ep_profile_id profile)) (\<lambda>_.
     ebind (require (ranker_name \<in> set RANKER_NAMES) ValueError) (\<lambda>_.
     ebind (normalize_ranker_options ranker_name ranker_options) (\<lambda>options.
     ebind (require (\<not> bs_is_symlink source) ValueError) (\<lambda>_.
     ebind (require (bs_is_file source) OtherException) (\<lambda>_.
     let revision = strip_bytes code_revision in
     ebind (require (hex_exact 40 revision) ValueError) (\<lambda>_.
     ebind (bs_frame source) (\<lambda>raw.
     ebind (cast_frame env raw) (\<lambda>f.
     ebind (validate_evaluation_frame f) (\<lambda>_.
     ebind (require (cd_sha (be_codec env) (bs_bytes source) = ep_file_sha256 profile) ValueError) (\<lambda>_.
     let js = map judgment_of (fm_rows f) in
     ebind (require (ep_profile_id profile = ''smoke'' \<longrightarrow> list_all jd_is_smoke js) ValueError) (\<lambda>_.
     ebind (require ((int (length js), int (card (set (map judgment_query js))), int (card (set (map judgment_key js)))) =
              (ep_expected_rows profile, ep_expected_queries profile, ep_expected_products profile)) ValueError) (\<lambda>_.
     ebind (evaluate_queries env policy ranker_name options random_seed None (partition_queries (sort_judgments js))) (\<lambda>(qs, config).
     ebind (aggregate_metrics qs) (\<lambda>metrics.
     ebind (require (list_all (\<lambda>v. unit_pyfloat (be_round env v)) (metric_values metrics)) ValueError) (\<lambda>_.
     ebind (of_option RuntimeError config) (\<lambda>d.
     ebind (run_payload env revision profile policy js qs metrics d) (\<lambda>payload.
     with_run_id (be_codec env) ranker_name payload)))))))))))))))))"

definition DEFAULT_RANDOM_SEED :: json where
  "DEFAULT_RANDOM_SEED = JInt 17"

definition run_candidate_title_bm25_baseline ::
    "baseline_env \<Rightarrow> evaluation_profile \<Rightarrow> relevance_policy \<Rightarrow> string \<Rightarrow> baseline_source \<Rightarrow> exn + dict" where
  "run_candidate_title_bm25_baseline env profile policy code_revision source =
     run_candidate_baseline env profile policy code_revision ''title-bm25'' JNull DEFAULT_RANDOM_SEED source"

definition run_candidate_keyword_overlap_baseline ::
    "baseline_env \<Rightarrow> evaluation_profile \<Rightarrow> relevance_policy \<Rightarrow> string \<Rightarrow> baseline_source \<Rightarrow> exn + dict" where
  "run_candidate_keyword_overlap_baseline env profile policy code_revision source =
     run_candidate_baseline env profile policy code_revision ''keyword-overlap'' JNull DEFAULT_RANDOM_SEED source"

definition run_candidate_random_baseline ::
    "baseline_env \<Rightarrow> evaluation_profile \<Rightarrow> relevance_policy \<Rightarrow> string \<Rightarrow> json \<Rightarrow> baseline_source \<Rightarrow> exn + dict" where
  "run_candidate_random_baseline env profile policy code_revision seed source =
     run_candidate_baseline env profile policy code_revision ''random'' JNull seed source"


end
