(* ===== verification/RunComparisonLemmas.thy ===== *)
theory RunComparisonLemmas
  imports RunComparison
begin

text \<open>
  What validation establishes of a Run (\<open>run_wf\<close>), and what comparing two compatible Runs computes: products are
  matched one to one, so rank movements of a Query cancel out, and swapping the Runs mirrors the comparison.
\<close>

subsection \<open>Validated Runs\<close>

definition query_wf :: "run_query \<Rightarrow> bool" where
  "query_wf q =
     (rq_ranking q \<noteq> [] \<and> map it_rank (rq_ranking q) = [1..int (length (rq_ranking q))] \<and>
      distinct (map item_key (rq_ranking q)) \<and> list_all unit_float (metric_values (rq_metrics q)) \<and> 1 \<le> rq_query_id q)"

definition run_wf :: "evaluated_run \<Rightarrow> bool" where
  "run_wf r =
     (RUN_ID_PATTERN (er_run_id r) \<and> er_queries r \<noteq> [] \<and> list_all query_wf (er_queries r) \<and>
      distinct (map query_key (er_queries r)) \<and> list_all unit_float (metric_values (er_metrics r)) \<and>
      list_all2 (isclose_abs float_1e_12) (metric_values (er_metrics r)) (metric_values (metric_means (er_queries r))) \<and>
      json_ok (JObj (er_dataset r)) \<and> json_ok (er_boundary r) \<and> json_ok (er_policy r) \<and> json_ok (JObj (er_ranker r)))"

lemma validate_item_Inr:
  "validate_item pt policy l seen r raw = Inr x \<Longrightarrow> it_rank x = r \<and> item_key x \<notin> set seen \<and> it_locale x = l"
  by (auto simp: validate_item_def item_key_def)

lemma validate_items_Inr:
  "validate_items pt policy l seen r raws = Inr xs \<Longrightarrow>
   length xs = length raws \<and> map it_rank xs = [r..r + int (length xs) - 1] \<and> distinct (map item_key xs) \<and>
   set (map item_key xs) \<inter> set seen = {}"
proof (induction raws arbitrary: seen r xs)
  case (Cons raw raws)
  then obtain x ys where x: "validate_item pt policy l seen r raw = Inr x" "xs = x # ys"
    "validate_items pt policy l (seen @ [item_key x]) (r + 1) raws = Inr ys" by auto
  note y = Cons.IH [OF x(3)] and x' = validate_item_Inr [OF x(1)]
  have "[r..r + int (length xs) - 1] = r # [r + 1..r + int (length xs) - 1]" using x(2) by (subst upto.simps) simp
  then show ?case using y x' x(2) by auto
qed simp

lemma metric_value_Inr: "metric_value d n = Inr v \<Longrightarrow> unit_float v"
  by (auto simp: metric_value_def)

lemma read_metrics_Inr: "read_metrics d = Inr m \<Longrightarrow> list_all unit_float (metric_values m)"
proof -
  assume "read_metrics d = Inr m"
  then obtain vs where "traverse (metric_value d) METRIC_NAMES = Inr vs" "metric_values m = [vs ! 0, vs ! 1, vs ! 2, vs ! 3, vs ! 4]"
    by (auto simp: read_metrics_def metric_values_def)
  then show ?thesis by (auto simp: METRIC_NAMES_def dest!: metric_value_Inr)
qed

lemma validate_query_Inr:
  assumes "validate_query pt policy seen raw = Inr q"
  shows "query_wf q" "query_key q \<notin> set seen"
proof -
  obtain d raws items m where q: "rq_ranking q = items" "validate_items pt policy (rq_locale q) [] 1 raws = Inr items"
    "positive_int (dget d ''candidate_count'') = Inr (int (length raws))" "positive_int (dget d ''query_id'') = Inr (rq_query_id q)"
    "(rq_locale q, rq_query_id q) \<notin> set seen" "read_metrics m = Inr (rq_metrics q)"
    using assms unfolding validate_query_def by (simp only: ebind_Inr_iff) fastforce
  note v = validate_items_Inr [OF q(2)]
  have "1 \<le> int (length raws)" "1 \<le> rq_query_id q" using q(3,4) by (auto simp: positive_int_def Suc_le_eq split: json.splits if_splits)
  then show "query_wf q" using q(1,6) v read_metrics_Inr by (auto simp: query_wf_def Suc_le_eq)
  show "query_key q \<notin> set seen" using q(5) by (simp add: query_key_def)
qed

lemma validate_queries_Inr:
  "validate_queries pt policy seen raws = Inr qs \<Longrightarrow>
   length qs = length raws \<and> list_all query_wf qs \<and> distinct (map query_key qs) \<and> set (map query_key qs) \<inter> set seen = {}"
proof (induction raws arbitrary: seen qs)
  case (Cons raw raws)
  then obtain q rs where q: "validate_query pt policy seen raw = Inr q" "qs = q # rs"
    "validate_queries pt policy (seen @ [query_key q]) raws = Inr rs" by auto
  show ?case using Cons.IH [OF q(3)] validate_query_Inr [OF q(1)] q(2) by auto
qed simp

lemma json_ok_dget: "list_all (\<lambda>p. json_ok (snd p)) d \<Longrightarrow> json_ok (dget d k)"
  by (fastforce simp: dget_def list_all_iff split: option.splits dest: map_of_SomeD)

lemma dget_filter: "k \<noteq> k' \<Longrightarrow> dget (filter (\<lambda>p. fst p \<noteq> k') d) k = dget d k"
proof -
  assume "k \<noteq> k'"
  then have "map_of (filter (\<lambda>p. fst p \<noteq> k') d) k = map_of d k" by (induction d) auto
  then show ?thesis by (simp add: dget_def)
qed

lemma require_dict_Inr [simp]: "require_dict v = Inr d \<longleftrightarrow> v = JObj d"
  by (auto simp: require_dict_def split: json.splits)

lemma require_list_Inr [simp]: "require_list v = Inr xs \<longleftrightarrow> v = JList xs"
  by (auto simp: require_list_def split: json.splits)

theorem validate_run_wf:
  assumes "validate_run c pt raw = Inr r"
  shows "run_wf r"
proof -
  obtain run policy policy_payload raws m where
    id: "dec_pattern RUN_ID_PATTERN (dget run ''run_id'') = Some (er_run_id r)" and
    parts: "dget run ''dataset'' = JObj (er_dataset r)" "dget run ''evaluation_boundary'' = er_boundary r"
      "dget run ''relevance_policy'' = er_policy r" "dget run ''ranker'' = JObj (er_ranker r)" and
    metrics: "read_metrics m = Inr (er_metrics r)" and
    queries: "raws \<noteq> []" "validate_queries pt policy [] raws = Inr (er_queries r)" and
    close: "list_all2 (isclose_abs float_1e_12) (metric_values (er_metrics r)) (metric_values (metric_means (er_queries r)))" and
    digest: "validate_digest c (er_run_id r) run = Inr ()"
    using assms by (auto simp: validate_run_def)
  note v = validate_queries_Inr [OF queries(2)]
  let ?body = "filter (\<lambda>p. fst p \<noteq> ''run_id'') run"
  have "json_ok (JObj ?body)" using digest by (auto simp: validate_digest_def canonical_json_bytes_def ensure_json_value_def)
  then have ok: "json_ok (dget run k)" if "k \<noteq> ''run_id''" for k
    using json_ok_dget [of ?body k] dget_filter [OF that] by simp
  have "json_ok (JObj (er_dataset r))" "json_ok (er_boundary r)" "json_ok (er_policy r)" "json_ok (JObj (er_ranker r))"
    using ok [of "''dataset''"] ok [of "''evaluation_boundary''"] ok [of "''relevance_policy''"] ok [of "''ranker''"] parts
    by simp_all
  moreover have "RUN_ID_PATTERN (er_run_id r)" using id by (auto simp: dec_pattern_def split: json.splits if_splits option.splits)
  moreover have "er_queries r \<noteq> []" using v queries(1) by auto
  ultimately show ?thesis using v read_metrics_Inr [OF metrics] close by (simp add: run_wf_def)
qed

subsection \<open>Matching the products of a Query\<close>

definition partner :: "run_query \<Rightarrow> ranked_item \<Rightarrow> ranked_item" where
  "partner q x = the (ranking_by_product q (item_key x))"

lemma ranking_by_product_self:
  assumes "query_wf q" and "x \<in> set (rq_ranking q)"
  shows "ranking_by_product q (item_key x) = Some x"
proof -
  have "distinct (map fst (rev (map (\<lambda>x. (item_key x, x)) (rq_ranking q))))"
    using assms(1) by (simp add: query_wf_def comp_def flip: rev_map)
  then show ?thesis using assms(2) unfolding ranking_by_product_def by (auto simp: map_of_eq_Some_iff)
qed

definition matched_queries :: "run_query \<Rightarrow> run_query \<Rightarrow> bool" where
  "matched_queries b d = (query_wf b \<and> query_wf d \<and> compatible_query b d)"

lemma matchedD: "matched_queries b d \<Longrightarrow> query_wf b" "matched_queries b d \<Longrightarrow> query_wf d"
  "matched_queries b d \<Longrightarrow> compatible_query b d" "matched_queries b d \<Longrightarrow> length (rq_ranking b) = length (rq_ranking d)"
  by (simp_all add: matched_queries_def compatible_query_def)

lemma partner:
  assumes m: "matched_queries b d" and "x \<in> set (rq_ranking d)"
  shows "partner b x \<in> set (rq_ranking b)" "item_key (partner b x) = item_key x"
    "ranking_by_product b (item_key x) = Some (partner b x)"
    "it_example_id (partner b x) = it_example_id x" "it_label (partner b x) = it_label x" "it_gain (partner b x) = it_gain x"
proof -
  have "(item_key x, it_example_id x, it_label x, it_gain x) \<in> candidate_evidence b"
    using matchedD(3) [OF m] assms(2) by (auto simp: compatible_query_def candidate_evidence_def)
  then obtain y where y: "y \<in> set (rq_ranking b)" "item_key y = item_key x" "it_example_id y = it_example_id x"
    "it_label y = it_label x" "it_gain y = it_gain x"
    unfolding candidate_evidence_def by auto
  then have "ranking_by_product b (item_key x) = Some y" using ranking_by_product_self [OF matchedD(1) [OF m] y(1)] by simp
  then show "partner b x \<in> set (rq_ranking b)" "item_key (partner b x) = item_key x"
    "ranking_by_product b (item_key x) = Some (partner b x)"
    "it_example_id (partner b x) = it_example_id x" "it_label (partner b x) = it_label x" "it_gain (partner b x) = it_gain x"
    using y by (simp_all add: partner_def)
qed

lemma sorted_ranking: "query_wf d \<Longrightarrow> sort_key it_rank (rq_ranking d) = rq_ranking d"
  by (intro sort_key_id_if_sorted) (simp add: query_wf_def)

lemma ranking_diff_eq:
  assumes m: "matched_queries b d"
  shows "ranking_diff b d = Inr (map (\<lambda>x. move_of (partner b x) x) (rq_ranking d))"
  unfolding ranking_diff_def sorted_ranking [OF matchedD(2) [OF m]]
  by (rule traverse_Inr_map) (simp add: partner(3) [OF m])

lemma partner_perm:
  assumes m: "matched_queries b d"
  shows "mset (map (partner b) (rq_ranking d)) = mset (rq_ranking b)"
proof -
  have keys: "map item_key (map (partner b) (rq_ranking d)) = map item_key (rq_ranking d)"
    using partner(2) [OF m] by simp
  then have "distinct (map (partner b) (rq_ranking d))" using matchedD(2) [OF m] unfolding query_wf_def by (metis distinct_map)
  moreover have sub: "set (map (partner b) (rq_ranking d)) \<subseteq> set (rq_ranking b)" using partner(1) [OF m] by auto
  moreover have "distinct (rq_ranking b)" using matchedD(1) [OF m] unfolding query_wf_def by (simp add: distinct_map)
  ultimately have "card (set (map (partner b) (rq_ranking d))) = card (set (rq_ranking b))"
    using matchedD(4) [OF m] by (simp only: distinct_card length_map)
  then have "set (map (partner b) (rq_ranking d)) = set (rq_ranking b)" using sub by (simp only: card_subset_eq finite_set)
  then show ?thesis using \<open>distinct (map (partner b) (rq_ranking d))\<close> \<open>distinct (rq_ranking b)\<close>
    by (simp only: set_eq_iff_mset_eq_distinct)
qed

lemma movements_cancel:
  assumes m: "matched_queries b d"
  shows "sum_list (map mv_rank_delta (map (\<lambda>x. move_of (partner b x) x) (rq_ranking d))) = 0"
proof -
  have "sum_list (map it_rank (map (partner b) (rq_ranking d))) = sum_list (map it_rank (rq_ranking b))"
    using partner_perm [OF m] by (metis mset_map sum_mset_sum_list)
  also have "\<dots> = sum_list (map it_rank (rq_ranking d))" using matchedD [OF m] by (simp add: query_wf_def)
  finally show ?thesis by (simp add: move_of_def comp_def sum_list_subtractf)
qed

lemma rank_at: "query_wf q \<Longrightarrow> i < length (rq_ranking q) \<Longrightarrow> it_rank (rq_ranking q ! i) = int i + 1"
proof -
  assume "query_wf q" "i < length (rq_ranking q)"
  then have "map it_rank (rq_ranking q) ! i = [1..int (length (rq_ranking q))] ! i" by (simp add: query_wf_def)
  then show ?thesis using \<open>i < length (rq_ranking q)\<close> by simp
qed

lemma unmoved_same_order:
  assumes m: "matched_queries b d" and same: "\<forall>x \<in> set (rq_ranking d). it_rank (partner b x) = it_rank x"
  shows "map item_key (rq_ranking b) = map item_key (rq_ranking d)"
proof (rule nth_equalityI)
  fix i assume "i < length (map item_key (rq_ranking b))"
  then have i: "i < length (rq_ranking b)" "i < length (rq_ranking d)" using matchedD(4) [OF m] by simp_all
  then have x: "rq_ranking d ! i \<in> set (rq_ranking d)" by simp
  obtain j where j: "j < length (rq_ranking b)" "rq_ranking b ! j = partner b (rq_ranking d ! i)"
    using partner(1) [OF m x] by (metis in_set_conv_nth)
  have "int j + 1 = int i + 1"
    using same x rank_at [OF matchedD(1) [OF m] j(1)] rank_at [OF matchedD(2) [OF m] i(2)] j(2) by simp
  then show "map item_key (rq_ranking b) ! i = map item_key (rq_ranking d) ! i"
    using i j partner(2) [OF m x] by simp
qed (simp add: matchedD(4) [OF m])

text \<open>Compatibility is symmetric, and matching back and forth gives the same item.\<close>

lemma compatible_sym: "compatible_query b d \<Longrightarrow> compatible_query d b"
  by (auto simp: compatible_query_def)

lemma matched_sym: "matched_queries b d \<Longrightarrow> matched_queries d b"
  by (simp add: matched_queries_def compatible_sym)

lemma partner_back:
  assumes "matched_queries b d" and "x \<in> set (rq_ranking d)"
  shows "partner d (partner b x) = x"
  using partner(2) [OF assms] ranking_by_product_self [of d x] assms
  by (simp add: partner_def [of d] matched_queries_def)

definition mirror_move :: "rank_move \<Rightarrow> rank_move" where
  "mirror_move m =
     \<lparr>mv_key = mv_key m, mv_baseline_rank = mv_candidate_rank m, mv_baseline_score = mv_candidate_score m,
      mv_candidate_rank = mv_baseline_rank m, mv_candidate_score = mv_baseline_score m, mv_example_id = mv_example_id m,
      mv_gain = mv_gain m, mv_label = mv_label m, mv_rank_delta = - mv_rank_delta m\<rparr>"

lemma moves_mirrored:
  assumes m: "matched_queries b d"
  shows "mset (map (\<lambda>y. move_of (partner d y) y) (rq_ranking b)) =
    image_mset mirror_move (mset (map (\<lambda>x. move_of (partner b x) x) (rq_ranking d)))"
proof -
  have each: "mirror_move (move_of (partner b x) x) = move_of (partner d (partner b x)) (partner b x)"
    if "x \<in> set (rq_ranking d)" for x
    using partner [OF m that] partner_back [OF m that] by (simp add: mirror_move_def move_of_def)
  have "image_mset mirror_move (mset (map (\<lambda>x. move_of (partner b x) x) (rq_ranking d))) =
      mset (map (\<lambda>x. move_of (partner d (partner b x)) (partner b x)) (rq_ranking d))"
    unfolding mset_map image_mset.compositionality by (rule image_mset_cong) (simp add: each)
  also have "\<dots> = image_mset (\<lambda>y. move_of (partner d y) y) (mset (map (partner b) (rq_ranking d)))"
    by (simp add: image_mset.compositionality comp_def)
  also have "\<dots> = mset (map (\<lambda>y. move_of (partner d y) y) (rq_ranking b))"
    unfolding partner_perm [OF m] by simp
  finally show ?thesis by simp
qed


subsection \<open>Comparing two Queries\<close>

definition matched_comparison :: "run_query \<Rightarrow> run_query \<Rightarrow> query_comparison" where
  "matched_comparison b d =
     (let moves = map (\<lambda>x. move_of (partner b x) x) (rq_ranking d) in
      \<lparr>qc_key = query_key b, qc_query_text = rq_query_text b, qc_candidate_count = int (length (rq_ranking b)),
       qc_changed_rank_count = int (length (filter (\<lambda>m. mv_rank_delta m \<noteq> 0) moves)),
       qc_metrics = per_metric_of metric_delta_of (rq_metrics b) (rq_metrics d), qc_ranking_diff = moves,
       qc_top_10_changed = (top_product_keys b 10 \<noteq> top_product_keys d 10)\<rparr>)"

lemma compare_query_eq: "matched_queries b d \<Longrightarrow> compare_query b d = Inr (matched_comparison b d)"
  by (simp add: compare_query_def ranking_diff_eq matched_comparison_def Let_def)

text \<open>What a comparison of one Query always satisfies.\<close>

definition query_comparison_sound :: "query_comparison \<Rightarrow> bool" where
  "query_comparison_sound q =
     (sum_list (map mv_rank_delta (qc_ranking_diff q)) = 0 \<and> qc_changed_rank_count q \<noteq> 1 \<and>
      int (length (qc_ranking_diff q)) = qc_candidate_count q \<and> (qc_top_10_changed q \<longrightarrow> 2 \<le> qc_changed_rank_count q))"

lemma one_nonzero:
  assumes "length (filter (\<lambda>n. n \<noteq> 0) xs) = 1"
  shows "sum_list xs \<noteq> (0 :: int)"
proof -
  have "sum_list xs = sum_list (filter (\<lambda>n. n \<noteq> 0) xs)" by (induction xs) auto
  moreover obtain y where y: "filter (\<lambda>n. n \<noteq> 0) xs = [y]" using assms by (auto simp: length_Suc_conv)
  moreover have "\<forall>z \<in> set [y]. z \<noteq> 0" unfolding y [symmetric] by simp
  ultimately show ?thesis by simp
qed

lemma matched_comparison_sound:
  assumes m: "matched_queries b d"
  shows "query_comparison_sound (matched_comparison b d)"
proof -
  let ?moves = "map (\<lambda>x. move_of (partner b x) x) (rq_ranking d)"
  let ?changed = "length (filter (\<lambda>m. mv_rank_delta m \<noteq> 0) ?moves)"
  have sum: "sum_list (map mv_rank_delta ?moves) = 0" by (rule movements_cancel [OF m])
  have "?changed = length (filter (\<lambda>n. n \<noteq> 0) (map mv_rank_delta ?moves))" by (simp add: filter_map comp_def)
  then have one: "?changed \<noteq> 1" using one_nonzero sum by metis
  have moved: "0 < ?changed" if "top_product_keys b 10 \<noteq> top_product_keys d 10"
  proof (rule ccontr)
    assume "\<not> 0 < ?changed"
    then have "\<forall>x \<in> set (rq_ranking d). it_rank (partner b x) = it_rank x"
      by (auto simp: filter_empty_conv move_of_def)
    then have "map item_key (rq_ranking b) = map item_key (rq_ranking d)" by (rule unmoved_same_order [OF m])
    then show False using that by (simp add: top_product_keys_def flip: take_map)
  qed
  have two: "2 \<le> ?changed" if "top_product_keys b 10 \<noteq> top_product_keys d 10" using moved [OF that] one by linarith
  show ?thesis
    using sum one matchedD(4) [OF m] two
    unfolding query_comparison_sound_def matched_comparison_def Let_def query_comparison.simps length_map of_nat_eq_iff by simp
qed

text \<open>The mirror image of a comparison: negated differences, and every move taken back.\<close>

definition mirror_delta :: "metric_delta \<Rightarrow> metric_delta" where
  "mirror_delta m = \<lparr>md_baseline = md_candidate m, md_candidate = md_baseline m, md_delta = - md_delta m\<rparr>"

definition mirror_counts :: "outcome_counts \<Rightarrow> outcome_counts" where
  "mirror_counts k = \<lparr>oc_improved = oc_regressed k, oc_regressed = oc_improved k, oc_tied = oc_tied k\<rparr>"

definition mirrored_queries :: "query_comparison \<Rightarrow> query_comparison \<Rightarrow> bool" where
  "mirrored_queries p q =
     (qc_key q = qc_key p \<and> qc_query_text q = qc_query_text p \<and> qc_candidate_count q = qc_candidate_count p \<and>
      qc_changed_rank_count q = qc_changed_rank_count p \<and> qc_top_10_changed q = qc_top_10_changed p \<and>
      metric_values (qc_metrics q) = map mirror_delta (metric_values (qc_metrics p)) \<and>
      mset (qc_ranking_diff q) = image_mset mirror_move (mset (qc_ranking_diff p)))"

lemma mirror_metric_delta: "metric_delta_of y x = mirror_delta (metric_delta_of x y)"
  by (simp add: metric_delta_of_def mirror_delta_def)

lemma mirror_metrics:
  "metric_values (per_metric_of metric_delta_of y x) = map mirror_delta (metric_values (per_metric_of metric_delta_of x y))"
  by (simp add: metric_values_def per_metric_of_def mirror_metric_delta [of "f y" "f x" for f])

lemma outcome_negated:
  "outcome_of_delta (- x) = Improved \<longleftrightarrow> outcome_of_delta x = Regressed"
  "outcome_of_delta (- x) = Regressed \<longleftrightarrow> outcome_of_delta x = Improved"
  "outcome_of_delta (- x) = Tied \<longleftrightarrow> outcome_of_delta x = Tied"
  by (auto simp: outcome_of_delta_def float_1e_12_def)

lemma count_outcomes_negated: "count_outcomes (map uminus ds) = mirror_counts (count_outcomes ds)"
  by (simp add: count_outcomes_def mirror_counts_def Let_def filter_map comp_def outcome_negated)

lemma matched_comparison_mirrored:
  assumes m: "matched_queries b d" and k: "query_key d = query_key b"
  shows "mirrored_queries (matched_comparison b d) (matched_comparison d b)"
proof -
  let ?p = "map (\<lambda>x. move_of (partner b x) x) (rq_ranking d)" and ?q = "map (\<lambda>y. move_of (partner d y) y) (rq_ranking b)"
  have moves: "mset ?q = image_mset mirror_move (mset ?p)" by (rule moves_mirrored [OF m])
  have "size (filter_mset (\<lambda>m. mv_rank_delta m \<noteq> 0) (mset ?q)) = size (filter_mset (\<lambda>m. mv_rank_delta m \<noteq> 0) (mset ?p))"
    unfolding moves by (simp add: filter_mset_image_mset mirror_move_def)
  then have "length (filter (\<lambda>m. mv_rank_delta m \<noteq> 0) ?q) = length (filter (\<lambda>m. mv_rank_delta m \<noteq> 0) ?p)"
    by (simp only: size_mset flip: mset_filter)
  then show ?thesis
    using moves k matchedD(3,4) [OF m] mirror_metrics [of "rq_metrics d" "rq_metrics b"]
    unfolding mirrored_queries_def matched_comparison_def Let_def compatible_query_def query_comparison.simps by auto
qed


subsection \<open>Comparing two Runs\<close>

lemma find_query_self:
  "distinct (map query_key qs) \<Longrightarrow> q \<in> set qs \<Longrightarrow> find_query qs (query_key q) = Inr q"
  by (simp add: find_query_def map_of_eq_Some_iff comp_def)

definition counterpart :: "run_query list \<Rightarrow> run_query \<Rightarrow> run_query" where
  "counterpart qs q = projr (find_query qs (query_key q))"

definition matched_runs :: "evaluated_run \<Rightarrow> evaluated_run \<Rightarrow> bool" where
  "matched_runs b d = (run_wf b \<and> run_wf d \<and> validate_compatibility b d = Inr ())"

lemma matched_counterpart:
  assumes m: "matched_runs b d" and q: "q \<in> set (er_queries b)"
  shows "find_query (er_queries d) (query_key q) = Inr (counterpart (er_queries d) q)"
    "counterpart (er_queries d) q \<in> set (er_queries d)" "query_key (counterpart (er_queries d) q) = query_key q"
    "matched_queries q (counterpart (er_queries d) q)"
proof -
  have wf: "run_wf b" "run_wf d" using m by (simp_all add: matched_runs_def)
  have "query_key q \<in> query_key ` set (er_queries d)"
    using m q by (auto simp: matched_runs_def validate_compatibility_def)
  then obtain q' where q': "q' \<in> set (er_queries d)" "query_key q' = query_key q" by auto
  have f: "find_query (er_queries d) (query_key q) = Inr q'"
    using find_query_self [OF _ q'(1)] wf(2) q'(2) by (simp add: run_wf_def)
  then have cp: "counterpart (er_queries d) q = q'" by (simp add: counterpart_def)
  obtain us where "traverse (\<lambda>q. ebind (find_query (er_queries d) (query_key q)) (\<lambda>q'. require (compatible_query q q') ValueError))
      (er_queries b) = Inr us"
    using m by (auto simp: matched_runs_def validate_compatibility_def)
  from traverse_in [OF this q] have "compatible_query q q'" using f by auto
  then have "matched_queries q q'" using wf q q'(1) by (simp add: matched_queries_def run_wf_def list_all_iff)
  then show "find_query (er_queries d) (query_key q) = Inr (counterpart (er_queries d) q)"
    "counterpart (er_queries d) q \<in> set (er_queries d)" "query_key (counterpart (er_queries d) q) = query_key q"
    "matched_queries q (counterpart (er_queries d) q)"
    using f q' unfolding cp by simp_all
qed

lemma matched_runs_sym: "matched_runs b d \<Longrightarrow> matched_runs d b"
proof -
  assume m: "matched_runs b d"
  have keys: "query_key ` set (er_queries d) = query_key ` set (er_queries b)"
    using m by (auto simp: matched_runs_def validate_compatibility_def)
  have each: "ebind (find_query (er_queries b) (query_key q)) (\<lambda>q'. require (compatible_query q q') ValueError) = Inr ()"
    if q: "q \<in> set (er_queries d)" for q
  proof -
    have "query_key q \<in> query_key ` set (er_queries b)" using q keys by auto
    then obtain p where p: "p \<in> set (er_queries b)" "query_key p = query_key q" by auto
    have fp: "find_query (er_queries b) (query_key p) = Inr p" and fq: "find_query (er_queries d) (query_key q) = Inr q"
      using find_query_self p(1) q m by (auto simp: matched_runs_def run_wf_def)
    have "counterpart (er_queries d) p = q" using fq p(2) by (simp add: counterpart_def)
    then have "compatible_query p q" using matched_counterpart(4) [OF m p(1)] by (simp add: matched_queries_def)
    then show ?thesis using fp p(2) compatible_sym by simp
  qed
  then have "traverse (\<lambda>q. ebind (find_query (er_queries b) (query_key q)) (\<lambda>q'. require (compatible_query q q') ValueError))
      (er_queries d) = Inr (map (\<lambda>_. ()) (er_queries d))"
    by (rule traverse_Inr_map)
  then show "matched_runs d b"
    using m keys by (auto simp: matched_runs_def validate_compatibility_def py_eq_sym)
qed

definition query_comparisons :: "evaluated_run \<Rightarrow> evaluated_run \<Rightarrow> query_comparison list" where
  "query_comparisons b d =
     map (\<lambda>q. matched_comparison q (counterpart (er_queries d) q)) (sort_key query_key (er_queries b))"

definition comparison_content :: "string \<Rightarrow> evaluated_run \<Rightarrow> evaluated_run \<Rightarrow> run_comparison" where
  "comparison_content revision b d =
     \<lparr>rc_comparison_id = [], rc_aggregate = per_metric_of metric_delta_of (er_metrics b) (er_metrics d),
      rc_baseline = run_reference_of b, rc_candidate = run_reference_of d, rc_comparator_revision = revision,
      rc_dataset = er_dataset b, rc_boundary = er_boundary b, rc_policy = er_policy b,
      rc_outcome_counts = outcome_counts_of (query_comparisons b d), rc_per_query = query_comparisons b d\<rparr>"

lemma dump_per_metric_ok: "(\<And>x. json_ok (f x)) \<Longrightarrow> json_ok (dump_per_metric f m)"
  by (auto simp: dump_per_metric_def list_all_iff dest!: set_zip_rightD)

lemma comparison_body_ok:
  assumes "run_wf b" and "run_wf d"
  shows "json_ok (JObj (comparison_body (comparison_content revision b d)))"
proof -
  have leaves: "json_ok (dump_delta x)" "json_ok (dump_counts k)" "json_ok (dump_move v)" for x k v
    by (simp_all add: dump_delta_def dump_counts_def dump_move_def)
  have metrics: "json_ok (dump_per_metric dump_delta m)" "json_ok (dump_per_metric dump_counts n)" for m n
    by (rule dump_per_metric_ok, rule leaves)+
  have "json_ok (dump_query_comparison q)" for q
    using leaves(3) metrics(1) by (simp add: dump_query_comparison_def list_all_iff)
  moreover have "json_ok (dump_run_reference (run_reference_of r))" if "run_wf r" for r
    using that by (simp add: dump_run_reference_def run_reference_of_def run_wf_def)
  ultimately show ?thesis
    using assms metrics
    by (simp add: comparison_body_def comparison_content_def list_all_iff run_wf_def)
qed

lemma compare_validated_eq:
  assumes m: "matched_runs b d"
  shows "\<exists>i. compare_validated c revision b d = Inr ((comparison_content revision b d)\<lparr>rc_comparison_id := i\<rparr>) \<and>
    i = ''comparison-'' @ take 12 (cd_sha c (cd_ser c (sort_keys (JObj (comparison_body (comparison_content revision b d))))))"
proof -
  have "traverse (\<lambda>q. ebind (find_query (er_queries d) (query_key q)) (compare_query q)) (sort_key query_key (er_queries b)) =
      Inr (query_comparisons b d)"
    unfolding query_comparisons_def
    by (rule traverse_Inr_map) (use matched_counterpart [OF m] compare_query_eq in simp)
  moreover have "json_ok (JObj (comparison_body (comparison_content revision b d)))"
    using comparison_body_ok m by (simp add: matched_runs_def)
  ultimately show ?thesis
    using m by (simp add: compare_validated_def matched_runs_def comparison_content_def canonical_json_bytes_def
      ensure_json_value_def del: json_ok.simps sort_keys.simps)
qed

lemma compare_validated_Inr:
  assumes "run_wf b" and "run_wf d" and "compare_validated c revision b d = Inr x"
  shows "matched_runs b d" "\<exists>i. x = (comparison_content revision b d)\<lparr>rc_comparison_id := i\<rparr>"
proof -
  show m: "matched_runs b d" using assms by (auto simp: compare_validated_def matched_runs_def)
  show "\<exists>i. x = (comparison_content revision b d)\<lparr>rc_comparison_id := i\<rparr>"
    using compare_validated_eq [OF m, of c revision] assms(3) by auto
qed

lemma sorted_counterparts:
  assumes m: "matched_runs b d"
  shows "map (counterpart (er_queries d)) (sort_key query_key (er_queries b)) = sort_key query_key (er_queries d)"
proof -
  let ?xs = "map (counterpart (er_queries d)) (sort_key query_key (er_queries b))" and ?ys = "sort_key query_key (er_queries d)"
  have wf: "distinct (map query_key (er_queries b))" "distinct (map query_key (er_queries d))"
    using m by (simp_all add: matched_runs_def run_wf_def)
  have keys: "map query_key ?xs = map query_key (sort_key query_key (er_queries b))"
    using matched_counterpart(3) [OF m] by simp
  have set: "set (map query_key (sort_key query_key (er_queries b))) = set (map query_key ?ys)"
    using m by (simp add: matched_runs_def validate_compatibility_def)
  have "distinct (map query_key (sort_key query_key qs)) = distinct (map query_key qs)" for qs
    by (metis mset_map mset_sort mset_eq_imp_distinct_iff)
  then have "map query_key (sort_key query_key (er_queries b)) = map query_key ?ys"
    using wf set by (intro sorted_distinct_set_unique) simp_all
  then have "map query_key ?xs = map query_key ?ys" using keys by simp
  moreover have "inj_on query_key (set ?xs \<union> set ?ys)"
    using matched_counterpart(2) [OF m] wf(2) by (auto simp: distinct_map inj_on_def)
  ultimately show ?thesis by (simp only: inj_on_map_eq_map)
qed

lemma counterpart_back:
  assumes m: "matched_runs b d" and q: "q \<in> set (er_queries b)"
  shows "counterpart (er_queries b) (counterpart (er_queries d) q) = q"
  using matched_counterpart(3) [OF m q] find_query_self [OF _ q] m
  by (simp add: counterpart_def [of "er_queries b"] matched_runs_def run_wf_def)

lemma query_comparisons_back:
  assumes m: "matched_runs b d"
  shows "query_comparisons d b = map (\<lambda>q. matched_comparison (counterpart (er_queries d) q) q) (sort_key query_key (er_queries b))"
  unfolding query_comparisons_def sorted_counterparts [OF m, symmetric]
  by (simp add: counterpart_back [OF m])

lemma query_comparisons_mirrored:
  assumes m: "matched_runs b d"
  shows "list_all2 mirrored_queries (query_comparisons b d) (query_comparisons d b)"
  unfolding query_comparisons_back [OF m]
  unfolding query_comparisons_def list_all2_map1 list_all2_map2 list_all2_same
  using matched_comparison_mirrored matched_counterpart(3,4) [OF m] by simp


end
