(* ===== verification/BaselineLemmas.thy ===== *)
theory BaselineLemmas
  imports EvaluationBaseline RunComparisonLemmas
begin

text \<open>
  What a produced Run is made of: texts that decode to themselves, a policy that survives its own JSON form, rankings
  whose entries pass the checks of the validator, and metrics that the validator computes again from the ranking.
\<close>

subsection \<open>Texts as bytes\<close>

definition enc :: "ustring \<Rightarrow> string" where
  "enc t = (case utf8 t of Inr b \<Rightarrow> b | Inl _ \<Rightarrow> [])"

definition scalar_text :: "ustring \<Rightarrow> bool" where
  "scalar_text t = (\<forall>c \<in> set t. c < 0x110000)"

lemma enc_eq: "utf8 t = Inr b \<Longrightarrow> b = enc t"
  by (simp add: enc_def)

lemma decode_enc: "utf8 t = Inr b \<Longrightarrow> scalar_text t \<Longrightarrow> decode_utf8 b = t"
  by (rule decode_utf8_encode) (auto simp: scalar_text_def)

lemma enc_inj: "utf8 t = Inr b \<Longrightarrow> utf8 u = Inr b \<Longrightarrow> scalar_text t \<Longrightarrow> scalar_text u \<Longrightarrow> t = u"
  using decode_enc by metis

lemma decode_utf8_bound: "\<forall>c \<in> set (decode_utf8 s). c < 0x200000"
proof (induction s rule: decode_utf8.induct)
  case (2 a bytes)
  have c: "continuation bytes i < 64" for i by (simp add: continuation_def)
  have m: "(n :: nat) mod 32 < 32" "n mod 16 < 16" "n mod 8 < 8" for n by simp_all
  have "n mod 32 * 64 + continuation bytes 0 < 0x200000" for n
    using c [of 0] m(1) [of n] by linarith
  moreover have "n mod 16 * 4096 + continuation bytes 0 * 64 + continuation bytes 1 < 0x200000" for n
    using c [of 0] c [of 1] m(2) [of n] by linarith
  moreover have "n mod 8 * 262144 + continuation bytes 0 * 4096 + continuation bytes 1 * 64 + continuation bytes 2 < 0x200000" for n
    using c [of 0] c [of 1] c [of 2] m(3) [of n] by linarith
  ultimately show ?case using 2 by (auto simp: Let_def)
qed simp

lemma set_strip: "set (strip t) \<subseteq> set t"
  unfolding strip_def by (metis set_dropWhileD set_rev subsetI)

lemma strip_bytes_cases:
  obtains "strip_bytes s = s" | "decode_utf8 (strip_bytes s) = strip (decode_utf8 s)"
proof (cases "utf8 (strip (decode_utf8 s))")
  case (Inr b)
  then have "decode_utf8 b = strip (decode_utf8 s)"
    using decode_utf8_bound [of s] set_strip by (intro decode_utf8_encode) blast+
  with Inr that show ?thesis by (simp add: strip_bytes_def)
qed (use that in \<open>simp add: strip_bytes_def\<close>)

lemma strip_bytes_idem [simp]: "strip_bytes (strip_bytes s) = strip_bytes s"
proof (rule strip_bytes_cases [of s])
  assume d: "decode_utf8 (strip_bytes s) = strip (decode_utf8 s)"
  show ?thesis
  proof (cases "utf8 (strip (decode_utf8 s))")
    case (Inr b)
    then show ?thesis using d by (simp add: strip_bytes_def)
  qed (simp add: strip_bytes_def)
qed simp

lemma blank_strip_bytes [simp]: "blank (strip_bytes s) = blank s"
  by (rule strip_bytes_cases [of s]) (simp_all add: blank_def)

subsection \<open>The policy survives its JSON form\<close>

definition policy_wf :: "relevance_policy \<Rightarrow> bool" where
  "policy_wf p =
     (\<not> blank (rp_policy_id p) \<and> strip_bytes (rp_policy_id p) = rp_policy_id p \<and>
      strip_bytes (rp_description p) = rp_description p \<and> set (map fst (rp_gains p)) = set ESCI_LABELS \<and>
      list_all (\<lambda>g. 0 \<le> snd g) (rp_gains p) \<and> map_of (rp_gains p) IRRELEVANT = Some 0 \<and>
      rp_relevant p \<noteq> [] \<and> set (rp_relevant p) \<subseteq> set ESCI_LABELS \<and> IRRELEVANT \<notin> set (rp_relevant p))"

text \<open>\<^verbatim>\<open>str.upper\<close> leaves the four labels as they are.\<close>

definition labels_upper :: "pytext \<Rightarrow> bool" where
  "labels_upper pt = (\<forall>l \<in> set ESCI_LABELS. pt_upper pt l = l)"

lemma normalize_gains_nonneg:
  "normalize_gains pt acc d = Inr gs \<Longrightarrow> list_all (\<lambda>g. 0 \<le> snd g) acc \<Longrightarrow> list_all (\<lambda>g. 0 \<le> snd g) gs"
  by (induction pt acc d rule: normalize_gains.induct) (auto simp: Let_def dest!: validate_gain_nonneg)

lemma policy_init_wf: "policy_init pt i g l d v = Inr p \<Longrightarrow> policy_wf p"
  by (auto simp: policy_init_def policy_wf_def Let_def simp del: set_map dest!: normalize_gains_nonneg)

lemma policy_from_dict_wf: "policy_from_dict pt d = Inr p \<Longrightarrow> policy_wf p"
  unfolding policy_from_dict_def case_json_Inr_iff by (auto dest: policy_init_wf)

lemma decode_label: "l \<in> set ESCI_LABELS \<Longrightarrow> decode_utf8 (label_text l) = l"
  by (auto simp: ESCI_LABELS_def label_text_def of_char_byte simp del: of_char_of)

lemma strip_label: "l \<in> set ESCI_LABELS \<Longrightarrow> strip l = l"
  by (auto simp: ESCI_LABELS_def strip_def whitespace_def)

lemma normalized_label_text: "labels_upper pt \<Longrightarrow> l \<in> set ESCI_LABELS \<Longrightarrow> normalized_label pt (label_text l) = l"
  by (simp add: normalized_label_def decode_label strip_label labels_upper_def)

definition canonical_policy :: "relevance_policy \<Rightarrow> relevance_policy" where
  "canonical_policy p =
     p\<lparr>rp_gains := map (\<lambda>l. (l, the (map_of (rp_gains p) l))) ESCI_LABELS,
       rp_relevant := filter (\<lambda>l. l \<in> set (rp_relevant p)) ESCI_LABELS\<rparr>"

lemma policy_gain_at:
  assumes "policy_wf p" "l \<in> set ESCI_LABELS"
  shows "map_of (rp_gains p) l = Some (the (map_of (rp_gains p) l))" "0 \<le> the (map_of (rp_gains p) l)"
proof -
  have "l \<in> set (map fst (rp_gains p))" using assms by (simp add: policy_wf_def)
  then have "map_of (rp_gains p) l \<noteq> None" by (simp add: map_of_eq_None_iff)
  then obtain g where g: "map_of (rp_gains p) l = Some g" by blast
  then have "(l, g) \<in> set (rp_gains p)" by (rule map_of_SomeD)
  then show "map_of (rp_gains p) l = Some (the (map_of (rp_gains p) l))" "0 \<le> the (map_of (rp_gains p) l)"
    using g assms(1) by (auto simp: policy_wf_def list_all_iff)
qed

lemma known_label_text: "labels_upper pt \<Longrightarrow> l \<in> set ESCI_LABELS \<Longrightarrow> known_label pt (label_text l) = Inr l"
  by (simp add: known_label_def normalized_label_text Let_def)

lemma map_of_keys: "k \<in> set ks \<Longrightarrow> map_of (map (\<lambda>l. (l, f l)) ks) k = Some (f k)"
  by (induction ks) auto

lemma canonical_policy_gain:
  assumes "policy_wf p" "labels_upper pt" "l \<in> set ESCI_LABELS"
  shows "policy_gain pt p (label_text l) = Inr (the (map_of (rp_gains p) l))"
    and "policy_gain pt (canonical_policy p) (label_text l) = Inr (the (map_of (rp_gains p) l))"
    and "policy_relevant pt (canonical_policy p) (label_text l) = policy_relevant pt p (label_text l)"
  using assms policy_gain_at(1) [OF assms(1,3)]
  by (simp_all add: policy_gain_def policy_relevant_def known_label_text canonical_policy_def map_of_keys)

lemma relevance_to_dict_canonical: "relevance_to_dict (canonical_policy p) = relevance_to_dict p"
  by (auto simp: relevance_to_dict_def canonical_policy_def ESCI_LABELS_def)

lemma normalize_gains_labels:
  assumes "policy_wf p" "labels_upper pt"
  shows "normalize_gains pt [] (map (\<lambda>l. (label_text l, JFloat (Fin (the (map_of (rp_gains p) l))))) ESCI_LABELS) =
    Inr (map (\<lambda>l. (l, the (map_of (rp_gains p) l))) ESCI_LABELS)"
proof -
  have n: "normalized_label pt (label_text l) = l" if "l \<in> set ESCI_LABELS" for l
    using that assms(2) by (rule normalized_label_text [rotated])
  have g: "validate_gain (JFloat (Fin (the (map_of (rp_gains p) l)))) = Inr (the (map_of (rp_gains p) l))"
    if "l \<in> set ESCI_LABELS" for l
    using policy_gain_at(2) [OF assms(1) that] by (simp add: validate_gain_def)
  have m: "[69] \<in> set ESCI_LABELS" "[83] \<in> set ESCI_LABELS" "[67] \<in> set ESCI_LABELS" "[73] \<in> set ESCI_LABELS"
    by (simp_all add: ESCI_LABELS_def)
  show ?thesis using m [THEN n] m [THEN g] by (simp add: ESCI_LABELS_def Let_def)
qed

lemma policy_round_trip:
  assumes "policy_wf p" "labels_upper pt"
  shows "policy_from_dict pt (relevance_to_dict p) = Inr (canonical_policy p)"
proof -
  have texts: "text_field pt (relevance_to_dict p) ''policy_id'' = rp_policy_id p"
    "text_field pt (relevance_to_dict p) ''description'' = rp_description p"
    "text_field pt (relevance_to_dict p) ''schema_version'' = POLICY_SCHEMA_VERSION"
    by (simp_all add: text_field_def relevance_to_dict_def text_of_def)
  have rel: "map (\<lambda>v. normalized_label pt (text_of pt v)) (map (\<lambda>l. JStr (label_text l)) ls) = ls"
    if "set ls \<subseteq> set ESCI_LABELS" for ls
    using that by (induction ls) (auto simp: text_of_def normalized_label_text [OF assms(2)])
  let ?ls = "filter (\<lambda>l. l \<in> set (rp_relevant p)) ESCI_LABELS"
  have ne: "?ls \<noteq> []"
    using assms(1) by (cases "rp_relevant p") (auto simp: policy_wf_def filter_empty_conv)
  have "dget (relevance_to_dict p) ''label_gains'' = JObj (map (\<lambda>l. (label_text l, JFloat (Fin (the (map_of (rp_gains p) l))))) ESCI_LABELS)"
    "dget (relevance_to_dict p) ''relevant_labels'' = JList (map (\<lambda>l. JStr (label_text l)) ?ls)"
    by (simp_all add: dget_def relevance_to_dict_def)
  moreover have "map_of (map (\<lambda>l. (l, the (map_of (rp_gains p) l))) ESCI_LABELS) IRRELEVANT = Some 0"
    using assms(1) by (simp add: policy_wf_def ESCI_LABELS_def IRRELEVANT_def)
  moreover have "list_all hashable (map (\<lambda>l. JStr (label_text l)) ?ls)" by (simp add: list_all_iff)
  moreover have "map (\<lambda>v. normalized_label pt (text_of pt v)) (map (\<lambda>l. JStr (label_text l)) ?ls) = ?ls"
    by (rule rel) auto
  moreover have "set (map fst (map (\<lambda>l. (l, the (map_of (rp_gains p) l))) ESCI_LABELS)) = set ESCI_LABELS" by force
  ultimately show ?thesis
    using assms(1) ne normalize_gains_labels [OF assms]
    unfolding policy_from_dict_def policy_init_def texts
    by (simp add: policy_wf_def canonical_policy_def Let_def del: map_map set_map)
qed

subsection \<open>Entries of the ranking\<close>

definition encodable :: "ustring \<Rightarrow> bool" where
  "encodable t = (scalar_text t \<and> utf8 t = Inr (enc t))"

lemma encodableI: "utf8 t = Inr b \<Longrightarrow> scalar_text t \<Longrightarrow> encodable t"
  by (simp add: encodable_def enc_def)

lemma encodable_inj: "encodable t \<Longrightarrow> encodable u \<Longrightarrow> enc t = enc u \<Longrightarrow> t = u"
  using enc_inj by (metis encodable_def)

lemma encodable_decode [simp]: "encodable t \<Longrightarrow> decode_utf8 (enc t) = t"
  by (auto simp: encodable_def intro: decode_enc)

lemma encodable_blank: "encodable t \<Longrightarrow> blank (enc t) = (strip t = [])"
  by (simp add: blank_def)

definition key_bytes :: "product_key \<Rightarrow> item_key" where
  "key_bytes k = (enc (fst k), enc (snd k))"

definition encodable_key :: "product_key \<Rightarrow> bool" where
  "encodable_key k = (encodable (fst k) \<and> encodable (snd k))"

lemma key_bytes_inj: "inj_on key_bytes {k. encodable_key k}"
  by (auto simp: inj_on_def key_bytes_def encodable_key_def dest: encodable_inj)

definition item_of ::
    "baseline_env \<Rightarrow> relevance_policy \<Rightarrow> (product_key \<times> ustring) list \<Rightarrow> (product_key \<times> int) list \<Rightarrow> ranked_product \<Rightarrow> ranked_item" where
  "item_of env policy labels example_ids p =
     (let label = the (map_of (rev labels) (ranked_key p)) in
      \<lparr>it_locale = enc (rk_locale p), it_product_id = enc (rk_product_id p), it_rank = int (rk_rank p),
       it_example_id = the (map_of (rev example_ids) (ranked_key p)),
       it_score = (case be_round env (rk_score p) of Fin r \<Rightarrow> r | _ \<Rightarrow> 0), it_label = label_text label,
       it_gain = the (map_of (rp_gains policy) label)\<rparr>)"

lemma item_of_key [simp]: "item_key (item_of env policy labels example_ids p) = key_bytes (ranked_key p)"
  by (simp add: item_of_def item_key_def key_bytes_def ranked_key_def Let_def)

text \<open>What the producer knows of a ranked product: its texts, its score and its place are in order.\<close>

definition good_product :: "baseline_env \<Rightarrow> ranked_product \<Rightarrow> bool" where
  "good_product env p =
     (isfinite (be_round env (rk_score p)) \<and> scalar_text (rk_locale p) \<and> scalar_text (rk_product_id p) \<and>
      strip (rk_locale p) \<noteq> [] \<and> strip (rk_product_id p) \<noteq> [] \<and> 1 \<le> rk_rank p)"

definition good_tables :: "(product_key \<times> ustring) list \<Rightarrow> (product_key \<times> int) list \<Rightarrow> bool" where
  "good_tables labels example_ids =
     (list_all (\<lambda>x. snd x \<in> set ESCI_LABELS) labels \<and> list_all (\<lambda>x. 1 \<le> snd x) example_ids)"

lemma isclose_abs_self [simp]: "isclose_abs float_1e_12 r r"
  by (simp add: isclose_abs_def float_1e_12_def)

lemma label_not_blank: "l \<in> set ESCI_LABELS \<Longrightarrow> \<not> blank (label_text l)"
  by (auto simp: blank_def decode_label strip_label) (simp add: ESCI_LABELS_def)

lemma ranking_entry_valid:
  assumes e: "ranking_entry env policy labels example_ids p = Inr j" and wf: "policy_wf policy" "labels_upper (be_text env)"
    and g: "good_product env p" and t: "good_tables labels example_ids"
    and seen: "key_bytes (ranked_key p) \<notin> set seen"
  shows "validate_item (be_text env) (canonical_policy policy) (enc (rk_locale p)) seen (int (rk_rank p)) j =
           Inr (item_of env policy labels example_ids p)" (is ?valid)
    and "json_ok j" and "encodable_key (ranked_key p)"
proof -
  obtain l gain i b1 b2 where l: "map_of (rev labels) (ranked_key p) = Some l"
    and gain: "policy_gain (be_text env) policy (label_text l) = Inr gain"
    and i: "map_of (rev example_ids) (ranked_key p) = Some i" and b: "utf8 (rk_locale p) = Inr b1" "utf8 (rk_product_id p) = Inr b2"
    and j: "j = JObj [(''gain'', gain_json gain), (''example_id'', JInt i), (''label'', JStr (label_text l)), (''locale'', JStr b1),
        (''product_id'', JStr b2), (''rank'', JInt (int (rk_rank p))), (''score'', JFloat (be_round env (rk_score p)))]"
    using e by (auto simp: ranking_entry_def)
  have "(ranked_key p, l) \<in> set labels" "(ranked_key p, i) \<in> set example_ids"
    using map_of_SomeD [OF l] map_of_SomeD [OF i] by simp_all
  then have li: "l \<in> set ESCI_LABELS" "1 \<le> i" using t by (auto simp: good_tables_def list_all_iff)
  note cg = canonical_policy_gain [OF wf li(1)]
  have gain': "gain = the (map_of (rp_gains policy) l)" using gain cg(1) by simp
  obtain r where r: "be_round env (rk_score p) = Fin r"
    using g by (cases "be_round env (rk_score p)") (auto simp: good_product_def)
  have enc: "encodable (rk_locale p)" "encodable (rk_product_id p)" using b g by (auto simp: good_product_def intro: encodableI)
  then show "encodable_key (ranked_key p)" by (simp add: encodable_key_def ranked_key_def)
  show "json_ok j" by (simp add: j gain_json_def r)
  have nb: "\<not> blank (enc (rk_locale p))" "\<not> blank (enc (rk_product_id p))"
    using encodable_blank [OF enc(1)] encodable_blank [OF enc(2)] g by (simp_all add: good_product_def)
  have keys: "set (dict_keys [(''gain'', a1), (''example_id'', a2), (''label'', a3), (''locale'', a4), (''product_id'', a5),
      (''rank'', a6), (''score'', a7)]) = set RANKING_KEYS" for a1 a2 a3 a4 a5 a6 a7
    by (auto simp: dict_keys_def RANKING_KEYS_def)
  have up: "pt_upper (be_text env) (decode_utf8 (label_text l)) = decode_utf8 (label_text l)"
    using wf(2) li(1) by (simp add: decode_label labels_upper_def)
  have seen': "(b1, b2) \<notin> set seen" using seen b by (simp add: key_bytes_def ranked_key_def enc_def)
  show ?valid
    using li(2) nb up seen' cg(2) label_not_blank [OF li(1)] b [THEN enc_eq] g
    by (simp add: j validate_item_def require_dict_def keys dget_def non_empty_string_def positive_int_def finite_value_def
        gain_json_def r item_of_def Let_def l i gain' good_product_def)
qed

lemma ranking_entries_valid:
  assumes "traverse (ranking_entry env policy labels example_ids) ps = Inr js" "policy_wf policy" "labels_upper (be_text env)"
    and "list_all (good_product env) ps" "good_tables labels example_ids" "\<forall>p \<in> set ps. rk_locale p = loc"
    and "map rk_rank ps = [r..<r + length ps]" "distinct (map ranked_key ps)"
    and "\<forall>p \<in> set ps. key_bytes (ranked_key p) \<notin> set seen"
  shows "validate_items (be_text env) (canonical_policy policy) (enc loc) seen (int r) js =
           Inr (map (item_of env policy labels example_ids) ps) \<and> list_all json_ok js \<and> (\<forall>p \<in> set ps. encodable_key (ranked_key p))"
  using assms
proof (induction ps arbitrary: js seen r)
  case (Cons p ps)
  obtain j ks where j: "ranking_entry env policy labels example_ids p = Inr j" "traverse (ranking_entry env policy labels example_ids) ps = Inr ks"
    "js = j # ks" using Cons.prems(1) by auto
  have r: "rk_rank p = r" "map rk_rank ps = [Suc r..<Suc r + length ps]" using Cons.prems(7) by (simp_all add: upt_rec)
  have p: "good_product env p" "key_bytes (ranked_key p) \<notin> set seen" "rk_locale p = loc" using Cons.prems by simp_all
  note one = ranking_entry_valid [OF j(1) Cons.prems(2,3) p(1) Cons.prems(5) p(2)]
  have enc: "\<forall>q \<in> set ps. encodable_key (ranked_key q)"
    using j(2) Cons.prems(4) ranking_entry_valid(3) [OF _ Cons.prems(2,3) _ Cons.prems(5), where seen = "[]"]
    by (auto simp: list_all_iff dest: traverse_in)
  have "\<forall>q \<in> set ps. key_bytes (ranked_key q) \<notin> set (seen @ [key_bytes (ranked_key p)])"
  proof
    fix q assume q: "q \<in> set ps"
    have "ranked_key q \<noteq> ranked_key p" using q Cons.prems(8) by (metis distinct.simps(2) image_eqI list.simps(9) set_map)
    then have "key_bytes (ranked_key q) \<noteq> key_bytes (ranked_key p)"
      using q enc one(3) inj_onD [OF key_bytes_inj, of "ranked_key q" "ranked_key p"] by auto
    then show "key_bytes (ranked_key q) \<notin> set (seen @ [key_bytes (ranked_key p)])" using q Cons.prems(9) by simp
  qed
  then have "validate_items (be_text env) (canonical_policy policy) (enc loc) (seen @ [key_bytes (ranked_key p)]) (int (Suc r)) ks =
      Inr (map (item_of env policy labels example_ids) ps) \<and> list_all json_ok ks \<and> (\<forall>p \<in> set ps. encodable_key (ranked_key p))"
    using Cons.prems r(2) by (intro Cons.IH [OF j(2)]) auto
  then show ?case using one p(3) r(1) by (simp add: j(3) add.commute)
qed simp


subsection \<open>Metrics are computed again\<close>

text \<open>On the unit interval rounding stays inside it and moves a value by at most \<open>10\<^sup>-\<^sup>1\<^sup>3\<close>.\<close>

definition faithful_rounding :: "baseline_env \<Rightarrow> bool" where
  "faithful_rounding env =
     (\<forall>x. 0 \<le> x \<and> x \<le> 1 \<longrightarrow> (\<exists>r. be_round env x = Fin r \<and> 0 \<le> r \<and> r \<le> 1 \<and> \<bar>of_rat r - x\<bar> \<le> 1 / 10 ^ 13))"

definition value_of :: "baseline_env \<Rightarrow> real \<Rightarrow> rat" where
  "value_of env x = (case be_round env x of Fin r \<Rightarrow> r | _ \<Rightarrow> 0)"

definition rounded :: "baseline_env \<Rightarrow> real per_metric \<Rightarrow> rat per_metric" where
  "rounded env m =
     \<lparr>pm_ndcg_at_5 = value_of env (pm_ndcg_at_5 m), pm_ndcg_at_10 = value_of env (pm_ndcg_at_10 m),
      pm_mrr_at_10 = value_of env (pm_mrr_at_10 m), pm_success_at_1 = value_of env (pm_success_at_1 m),
      pm_success_at_5 = value_of env (pm_success_at_5 m)\<rparr>"

abbreviation unit_metrics_of :: "real per_metric \<Rightarrow> bool" where
  "unit_metrics_of m \<equiv> list_all (\<lambda>v. 0 \<le> v \<and> v \<le> 1) (metric_values m)"

lemma value_of_unit:
  assumes "faithful_rounding env" "0 \<le> x" "x \<le> 1"
  shows "be_round env x = Fin (value_of env x)" "0 \<le> value_of env x" "value_of env x \<le> 1"
    "\<bar>of_rat (value_of env x) - x\<bar> \<le> 1 / 10 ^ 13"
proof -
  obtain r where "be_round env x = Fin r \<and> 0 \<le> r \<and> r \<le> 1 \<and> \<bar>of_rat r - x\<bar> \<le> 1 / 10 ^ 13"
    using assms unfolding faithful_rounding_def by blast
  then show "be_round env x = Fin (value_of env x)" "0 \<le> value_of env x" "value_of env x \<le> 1"
    "\<bar>of_rat (value_of env x) - x\<bar> \<le> 1 / 10 ^ 13" by (simp_all add: value_of_def)
qed

lemma metrics_json_read:
  assumes "faithful_rounding env" "unit_metrics_of m"
  shows "\<exists>d. metrics_json env m = JObj d \<and> read_metrics d = Inr (rounded env m) \<and> json_ok (JObj d)"
proof -
  let ?d = "[(''mrr@10'', JFloat (be_round env (pm_mrr_at_10 m))), (''ndcg@10'', JFloat (be_round env (pm_ndcg_at_10 m))),
      (''ndcg@5'', JFloat (be_round env (pm_ndcg_at_5 m))), (''success@1'', JFloat (be_round env (pm_success_at_1 m))),
      (''success@5'', JFloat (be_round env (pm_success_at_5 m)))]"
  have u: "0 \<le> pm_mrr_at_10 m" "pm_mrr_at_10 m \<le> 1" "0 \<le> pm_ndcg_at_10 m" "pm_ndcg_at_10 m \<le> 1" "0 \<le> pm_ndcg_at_5 m"
    "pm_ndcg_at_5 m \<le> 1" "0 \<le> pm_success_at_1 m" "pm_success_at_1 m \<le> 1" "0 \<le> pm_success_at_5 m" "pm_success_at_5 m \<le> 1"
    using assms(2) by (simp_all add: metric_values_def)
  note v = value_of_unit(1-3) [OF assms(1)]
  have "metric_value ?d ''mrr@10'' = Inr (value_of env (pm_mrr_at_10 m))"
    "metric_value ?d ''ndcg@10'' = Inr (value_of env (pm_ndcg_at_10 m))"
    "metric_value ?d ''ndcg@5'' = Inr (value_of env (pm_ndcg_at_5 m))"
    "metric_value ?d ''success@1'' = Inr (value_of env (pm_success_at_1 m))"
    "metric_value ?d ''success@5'' = Inr (value_of env (pm_success_at_5 m))"
    using u by (simp_all add: metric_value_def finite_value_def dget_def v)
  moreover have "set (dict_keys ?d) = set METRIC_NAMES" by (auto simp: dict_keys_def METRIC_NAMES_def)
  ultimately have "read_metrics ?d = Inr (rounded env m)"
    by (simp add: read_metrics_def METRIC_NAMES_def rounded_def del: set_map)
  moreover have "json_ok (JObj ?d)" using u by (simp add: v)
  ultimately show ?thesis by (simp add: metrics_json_def)
qed

lemma metrics_match_rounded:
  assumes "faithful_rounding env" "unit_metrics_of m"
  shows "metrics_match (rounded env m) m"
proof -
  have "within_epsilon (value_of env x) x" if "0 \<le> x" "x \<le> 1" for x
    using value_of_unit(4) [OF assms(1) that] by (simp add: within_epsilon_def float_1e_12_def of_rat_divide)
  then show ?thesis using assms(2) by (simp add: metrics_match_def metric_values_def rounded_def)
qed

lemma validate_gains_json [simp]: "list_all (\<lambda>g. 0 \<le> g) gs \<Longrightarrow> validate_gains (map gain_json gs) = Inr gs"
  by (induction gs) (simp_all add: validate_gains_def validate_gain_def gain_json_def)

lemma validate_relevance_json [simp]: "validate_relevance (map JBool bs) = Inr bs"
  by (induction bs) (simp_all add: validate_relevance_def)

lemma descending_mset: "mset rs = mset cs \<Longrightarrow> descending rs = descending cs"
  by (simp add: descending_def) (metis sort_key_stable properties_for_sort mset_sort sorted_sort)

lemma ndcg_permuted:
  assumes "list_all (\<lambda>g. 0 \<le> g) rs" "mset rs = mset cs"
  shows "ndcg_at_k (map gain_json rs) (map gain_json cs) k = ndcg_at_k (map gain_json rs) (map gain_json rs) k"
proof -
  have "list_all (\<lambda>g. 0 \<le> g) cs" using assms by (metis list_all_iff mset_eq_setD)
  then show ?thesis using assms(1) descending_mset [OF assms(2)] by (simp add: ndcg_at_k_def)
qed

lemma ndcg_unit:
  assumes "list_all (\<lambda>g. 0 \<le> g) rs" "mset rs = mset cs" "1 \<le> k"
    and "ndcg_at_k (map gain_json rs) (map gain_json cs) (JInt (int k)) = Inr v"
  shows "0 \<le> v \<and> v \<le> 1"
proof -
  have n: "list_all (\<lambda>g. 0 \<le> g) cs" using assms(1,2) by (metis list_all_iff mset_eq_setD)
  have "ndcg_at_k (map gain_json rs) (map gain_json cs) (JInt (int k)) =
      Inr (if dcg (descending cs) k = 0 then 0 else dcg rs k / dcg (descending cs) k)"
    by (rule ndcg_at_k_value) (use assms n in simp_all)
  then show ?thesis using ndcg_value(1,2) [of rs cs k] assms(2,4) n by (auto simp: list_all_iff)
qed

lemma reciprocal_rank_unit: "reciprocal_rank_at_k (map JBool bs) (JInt (int k)) = Inr v \<Longrightarrow> 0 \<le> v \<and> v \<le> 1"
  using first_hit_bounds [of 1 "take k bs"] by (auto simp: reciprocal_rank_at_k_def)

lemma success_unit: "success_at_k (map JBool bs) (JInt (int k)) = Inr v \<Longrightarrow> 0 \<le> v \<and> v \<le> 1"
  by (auto simp: success_at_k_def split: if_splits)

lemma query_metrics_agree:
  assumes "query_metrics rs cs bs = Inr m" "list_all (\<lambda>g. 0 \<le> g) rs" "mset rs = mset cs"
  shows "unit_metrics_of m" and "map it_gain items = rs \<Longrightarrow> expected_metrics items (map JBool bs) = Inr m"
proof -
  obtain mrr n10 n5 s1 s5 where q: "reciprocal_rank_at_k (map JBool bs) (JInt (int 10)) = Inr mrr"
    "ndcg_at_k (map gain_json rs) (map gain_json cs) (JInt (int 10)) = Inr n10"
    "ndcg_at_k (map gain_json rs) (map gain_json cs) (JInt (int 5)) = Inr n5"
    "success_at_k (map JBool bs) (JInt (int 1)) = Inr s1" "success_at_k (map JBool bs) (JInt (int 5)) = Inr s5"
    and m: "m = \<lparr>pm_ndcg_at_5 = n5, pm_ndcg_at_10 = n10, pm_mrr_at_10 = mrr, pm_success_at_1 = s1, pm_success_at_5 = s5\<rparr>"
    using assms(1) by (auto simp: query_metrics_def)
  show "unit_metrics_of m"
    using reciprocal_rank_unit [OF q(1)] ndcg_unit [OF assms(2,3) _ q(2)] ndcg_unit [OF assms(2,3) _ q(3)]
      success_unit [OF q(4)] success_unit [OF q(5)] by (simp add: m metric_values_def)
  assume "map it_gain items = rs"
  then have "json_gains items = map gain_json rs" by (auto simp: json_gains_def gain_json_def)
  then show "expected_metrics items (map JBool bs) = Inr m"
    using q by (simp add: expected_metrics_def m ndcg_permuted [OF assms(2,3)])
qed


subsection \<open>One Query\<close>

definition good_group :: "judged_row list \<Rightarrow> bool" where
  "good_group rows =
     (rows \<noteq> [] \<and> distinct (map judgment_key rows) \<and>
      (\<forall>j \<in> set rows. jd_locale j = jd_locale (hd rows) \<and> jd_label j \<in> set ESCI_LABELS \<and> scalar_text (jd_locale j) \<and>
         scalar_text (jd_product_id j) \<and> scalar_text (jd_query_text j) \<and> 1 \<le> jd_query_id j \<and>
         (\<forall>i. jd_example_id j = Some i \<longrightarrow> 1 \<le> i)))"

lemma good_groupD:
  assumes "good_group rows" "j \<in> set rows"
  shows "jd_locale j = jd_locale (hd rows)" "jd_label j \<in> set ESCI_LABELS" "scalar_text (jd_locale j)"
    "scalar_text (jd_product_id j)" "scalar_text (jd_query_text j)" "1 \<le> jd_query_id j" "jd_example_id j = Some i \<Longrightarrow> 1 \<le> i"
  using assms unfolding good_group_def by blast+

lemma rank_query_not_blank: "rank_query c r q = Inr out \<Longrightarrow> strip q \<noteq> []"
  by (cases r)
     (auto simp: random_rank_def overlap_rank_def bm25_rank_def boost_rank_def rank_by_def Let_def split: if_splits)

lemma validate_ranking_Inr:
  assumes "validate_ranking env keys ranked = Inr u" "distinct keys"
  shows "mset (map ranked_key ranked) = mset keys" "distinct (map ranked_key ranked)" "length ranked = length keys"
    "map rk_rank ranked = [1..<1 + length ranked]" "list_all (\<lambda>p. isfinite (be_round env (rk_score p))) ranked"
proof -
  have v: "distinct (map ranked_key ranked)" "set (map ranked_key ranked) = set keys"
    "map rk_rank ranked = [1..<length ranked + 1]" "list_all (\<lambda>p. isfinite (be_round env (rk_score p))) ranked"
    using assms(1) unfolding validate_ranking_def Let_def ebind_Inr_iff require_Inr_iff by blast+
  show m: "mset (map ranked_key ranked) = mset keys" using v(1,2) assms(2) by (metis set_eq_iff_mset_eq_distinct)
  show "length ranked = length keys" using arg_cong [OF m, of size] by simp
  show "distinct (map ranked_key ranked)" "list_all (\<lambda>p. isfinite (be_round env (rk_score p))) ranked" by (fact v)+
  show "map rk_rank ranked = [1..<1 + length ranked]" using v(3) by (simp only: add.commute)
qed

lemma labels_permuted:
  assumes "mset (map ranked_key ranked) = mset (map judgment_key rows)" "distinct (map judgment_key rows)"
    and "traverse (\<lambda>p. of_option KeyError (map_of (rev (map (\<lambda>j. (judgment_key j, jd_label j)) rows)) (ranked_key p))) ranked = Inr ls"
  shows "ls = map (\<lambda>p. the (map_of (rev (map (\<lambda>j. (judgment_key j, jd_label j)) rows)) (ranked_key p))) ranked"
    and "mset ls = mset (map jd_label rows)"
proof -
  let ?t = "map (\<lambda>j. (judgment_key j, jd_label j)) rows"
  let ?f = "\<lambda>k. the (map_of (rev ?t) k)"
  have "list_all2 (\<lambda>p l. map_of (rev ?t) (ranked_key p) = Some l) ranked ls"
    using assms(3) by (simp add: traverse_Inr_iff)
  then show ls: "ls = map (\<lambda>p. ?f (ranked_key p)) ranked" by (induction rule: list_all2_induct) auto
  have "?f (judgment_key j) = jd_label j" if "j \<in> set rows" for j
  proof -
    have "distinct (map fst (rev ?t))" using assms(2) by (simp add: comp_def rev_map [symmetric] distinct_rev)
    then have "map_of (rev ?t) (judgment_key j) = Some (jd_label j)" using that by (intro map_of_is_SomeI) auto
    then show ?thesis by simp
  qed
  then have rows: "map jd_label rows = map ?f (map judgment_key rows)" by simp
  have "mset ls = image_mset ?f (mset (map ranked_key ranked))" by (simp add: ls image_mset.compositionality comp_def)
  also have "\<dots> = mset (map jd_label rows)" unfolding assms(1) by (simp add: rows image_mset.compositionality comp_def)
  finally show "mset ls = mset (map jd_label rows)" .
qed

lemma traverse_map_eq: "traverse (\<lambda>x. Inr (f x)) xs = Inr ys \<Longrightarrow> ys = map f xs"
  by (induction xs arbitrary: ys) auto

lemma traverse_cong: "(\<And>x. x \<in> set xs \<Longrightarrow> f x = g x) \<Longrightarrow> traverse f xs = traverse g xs"
  by (induction xs) auto

text \<open>The gains of the producer are those that the policy gives to the labels.\<close>

lemma gains_of_labels:
  assumes "traverse (\<lambda>l. policy_gain pt policy (label_text l)) ls = Inr gs" "policy_wf policy" "labels_upper pt" "set ls \<subseteq> set ESCI_LABELS"
  shows "gs = map (\<lambda>l. the (map_of (rp_gains policy) l)) ls" "list_all (\<lambda>g. 0 \<le> g) gs"
proof -
  have "traverse (\<lambda>l. policy_gain pt policy (label_text l)) ls = traverse (\<lambda>l. Inr (the (map_of (rp_gains policy) l))) ls"
    using assms(4) canonical_policy_gain(1) [OF assms(2,3)] by (intro traverse_cong) auto
  then show g: "gs = map (\<lambda>l. the (map_of (rp_gains policy) l)) ls" using assms(1) traverse_map_eq by metis
  show "list_all (\<lambda>g. 0 \<le> g) gs" using assms(4) policy_gain_at(2) [OF assms(2)] by (auto simp: g list_all_iff)
qed

definition group_result :: "query_result \<Rightarrow> judged_row list \<Rightarrow> real per_metric \<Rightarrow> bool" where
  "group_result r rows m =
     (query_metrics (qr_ranked_gains r) (qr_candidate_gains r) (qr_relevance r) = Inr m \<and>
      mset (qr_ranked_gains r) = mset (qr_candidate_gains r) \<and> list_all (\<lambda>g. 0 \<le> g) (qr_ranked_gains r) \<and>
      json_ok (qr_entry r) \<and> (\<forall>j \<in> set rows. encodable_key (judgment_key j)))"

lemma evaluate_query_valid:
  assumes ev: "evaluate_query env policy ranker_name options seed config rows = Inr (r, d)"
    and wf: "policy_wf policy" "labels_upper (be_text env)" and fr: "faithful_rounding env" and g: "good_group rows"
    and seen: "(enc (jd_locale (hd rows)), jd_query_id (hd rows)) \<notin> set seen"
  shows "\<exists>q m. validate_query (be_text env) (canonical_policy policy) seen (qr_entry r) = Inr q \<and> group_result r rows m \<and>
    query_key q = (enc (jd_locale (hd rows)), jd_query_id (hd rows)) \<and> rq_metrics q = rounded env m \<and>
    length (rq_ranking q) = length rows \<and> item_key ` set (rq_ranking q) = key_bytes ` judgment_key ` set rows"
proof -
  let ?pt = "be_text env" and ?labels = "map (\<lambda>j. (judgment_key j, jd_label j)) rows"
  let ?label = "\<lambda>p. the (map_of (rev ?labels) (ranked_key p))"
  obtain products ranker example_ids ranked ls rg cg rel m items b1 b2 where
    products: "traverse (\<lambda>j. candidate_product_init (jd_locale j) (jd_product_id j) (jd_title j)) rows = Inr products"
    and ids: "traverse (\<lambda>j. ebind (of_option TypeError (jd_example_id j)) (\<lambda>i. Inr (judgment_key j, i))) rows = Inr example_ids"
    and rank: "rank_query (be_codec env) ranker (jd_query_text (hd rows)) = Inr ranked"
    and vr: "validate_ranking env (map judgment_key rows) ranked = Inr ()"
    and ls: "traverse (\<lambda>p. of_option KeyError (map_of (rev ?labels) (ranked_key p))) ranked = Inr ls"
    and rg: "traverse (\<lambda>l. policy_gain ?pt policy (label_text l)) ls = Inr rg"
    and cg: "traverse (\<lambda>l. policy_gain ?pt policy (label_text l)) (map jd_label rows) = Inr cg"
    and rel: "traverse (\<lambda>l. policy_relevant ?pt policy (label_text l)) ls = Inr rel"
    and m: "query_metrics rg cg rel = Inr m"
    and items: "traverse (ranking_entry env policy ?labels example_ids) ranked = Inr items"
    and b: "utf8 (jd_locale (hd rows)) = Inr b1" "utf8 (jd_query_text (hd rows)) = Inr b2"
    and r: "r = \<lparr>qr_ranked_gains = rg, qr_candidate_gains = cg, qr_relevance = rel, qr_entry = JObj
              [(''candidate_count'', JInt (int (length rows))), (''locale'', JStr b1), (''metrics'', metrics_json env m),
               (''query_id'', JInt (jd_query_id (hd rows))), (''query_text'', JStr b2), (''ranking'', JList items)]\<rparr>"
    using ev by (auto simp: evaluate_query_def Let_def)
  have hd: "hd rows \<in> set rows" "rows \<noteq> []" and dk: "distinct (map judgment_key rows)" using g by (simp_all add: good_group_def)
  note v = validate_ranking_Inr [OF vr dk]
  note lp = labels_permuted [OF v(1) dk ls]
  have lset: "set (map jd_label rows) \<subseteq> set ESCI_LABELS" using good_groupD(2) [OF g] by auto
  then have lset': "set ls \<subseteq> set ESCI_LABELS" using mset_eq_setD [OF lp(2)] by simp
  note rg' = gains_of_labels [OF rg wf lset'] and cg' = gains_of_labels [OF cg wf lset]
  have mg: "mset rg = mset cg" unfolding rg'(1) cg'(1) mset_map lp(2) ..
  have tables: "good_tables ?labels example_ids"
    using good_groupD(2,7) [OF g] ids by (auto simp: good_tables_def list_all_iff dest!: traverse_out)
  have key: "\<exists>j \<in> set rows. ranked_key p = judgment_key j" if "p \<in> set ranked" for p
    using mset_eq_setD [OF v(1)] that by (metis imageE image_eqI list.set_map)
  have prod: "strip (jd_locale j) \<noteq> [] \<and> strip (jd_product_id j) \<noteq> []" if "j \<in> set rows" for j
    using traverse_in [OF products that] by (auto simp: candidate_product_init_def)
  have loc: "\<forall>p \<in> set ranked. rk_locale p = jd_locale (hd rows)"
  proof
    fix p assume "p \<in> set ranked"
    then obtain j where j: "j \<in> set rows" "ranked_key p = judgment_key j" using key by blast
    then have "rk_locale p = jd_locale j" by (simp add: ranked_key_def judgment_key_def)
    then show "rk_locale p = jd_locale (hd rows)" using good_groupD(1) [OF g j(1)] by simp
  qed
  have rk: "rk_rank p \<in> set [1..<1 + length ranked]" if "p \<in> set ranked" for p
    unfolding v(4) [symmetric] using that by simp
  have good: "list_all (good_product env) ranked"
    unfolding list_all_iff
  proof
    fix p assume p: "p \<in> set ranked"
    obtain j where j: "j \<in> set rows" "ranked_key p = judgment_key j" using key [OF p] by blast
    have "rk_locale p = jd_locale j" "rk_product_id p = jd_product_id j" using j(2) by (simp_all add: ranked_key_def judgment_key_def)
    moreover have "1 \<le> rk_rank p" using rk [OF p] by auto
    ultimately show "good_product env p"
      using good_groupD(3,4) [OF g j(1)] prod [OF j(1)] v(5) p by (simp add: good_product_def list_all_iff)
  qed
  note entries = ranking_entries_valid [OF items wf good tables loc v(4) v(2), where seen = "[]"]
  let ?items = "map (item_of env policy ?labels example_ids) ranked"
  have vi: "validate_items ?pt (canonical_policy policy) b1 [] 1 items = Inr ?items" "list_all json_ok items"
    "\<forall>p \<in> set ranked. encodable_key (ranked_key p)"
    using entries enc_eq [OF b(1)] by auto
  have relv: "traverse (\<lambda>x. policy_relevant ?pt (canonical_policy policy) (it_label x)) ?items = Inr rel"
  proof -
    have "traverse (\<lambda>x. policy_relevant ?pt (canonical_policy policy) (it_label x)) ?items =
        traverse (\<lambda>l. policy_relevant ?pt policy (label_text l)) ls"
    proof -
      have "?label p \<in> set ESCI_LABELS" if "p \<in> set ranked" for p using lset' that by (auto simp: lp(1))
      then have "list_all2 (\<lambda>x l. policy_relevant ?pt (canonical_policy policy) (it_label x) = policy_relevant ?pt policy (label_text l)) ?items ls"
        by (auto simp: lp(1) list_all2_map1 list_all2_map2 item_of_def Let_def list.rel_refl_strong canonical_policy_gain(3) [OF wf])
      then show ?thesis by (induction rule: list_all2_induct) auto
    qed
    then show ?thesis using rel by simp
  qed
  have "map it_gain ?items = rg" by (simp add: rg'(1) lp(1) item_of_def Let_def)
  note qm = query_metrics_agree(1) [OF m rg'(2) mg] query_metrics_agree(2) [OF m rg'(2) mg this]
  obtain md where md: "metrics_json env m = JObj md" "read_metrics md = Inr (rounded env m)" "json_ok (JObj md)"
    using metrics_json_read [OF fr qm(1)] by blast
  have enc: "encodable (jd_locale (hd rows))" "encodable (jd_query_text (hd rows))"
    using b good_groupD(3,5) [OF g hd(1)] by (auto intro: encodableI)
  then have nb: "\<not> blank b1" "\<not> blank b2"
    using enc_eq [OF b(1)] enc_eq [OF b(2)] prod [OF hd(1)] rank_query_not_blank [OF rank] by (simp_all add: encodable_blank)
  have keys: "set (dict_keys [(''candidate_count'', a1), (''locale'', a2), (''metrics'', a3), (''query_id'', a4), (''query_text'', a5),
      (''ranking'', a6)]) = set QUERY_KEYS" for a1 a2 a3 a4 a5 a6
    by (auto simp: dict_keys_def QUERY_KEYS_def)
  let ?q = "\<lparr>rq_locale = b1, rq_query_id = jd_query_id (hd rows), rq_query_text = b2, rq_metrics = rounded env m, rq_ranking = ?items\<rparr>"
  have len: "length items = length rows" using traverse_length [OF items] v(3) by simp
  have id: "1 \<le> jd_query_id (hd rows)" by (rule good_groupD(6) [OF g hd(1)])
  have pos: "1 \<le> int (length rows)" using hd(2) by (cases rows) simp_all
  have "validate_query ?pt (canonical_policy policy) seen (qr_entry r) = Inr ?q"
    using hd(2) seen enc_eq [OF b(1)] nb id pos vi(1) relv md qm(2) metrics_match_rounded [OF fr qm(1)] len
    by (simp add: r validate_query_def require_dict_def keys dget_def non_empty_string_def positive_int_def require_list_def)
  moreover have enck: "\<forall>j \<in> set rows. encodable_key (judgment_key j)"
    using vi(3) mset_eq_setD [OF v(1)] by (metis imageE image_eqI list.set_map)
  then have "group_result r rows m" using m mg rg'(2) vi(2) md(3) by (simp add: group_result_def r md(1))
  moreover have "query_key ?q = (enc (jd_locale (hd rows)), jd_query_id (hd rows))" using enc_eq [OF b(1)] by (simp add: query_key_def)
  moreover have "item_key ` set (rq_ranking ?q) = key_bytes ` judgment_key ` set rows"
    using mset_eq_setD [OF v(1)] by (simp add: image_image) (metis image_image)
  ultimately show ?thesis using v(3) by (intro exI [of _ ?q] exI [of _ m]) simp
qed


end
