(* ===== verification/BaselineAcceptance.thy ===== *)
theory BaselineAcceptance
  imports BaselineLemmas StrategyLemmas
begin

text \<open>
  From one Query to the whole Run: the judgments are split into the Queries without loss, the loop over them passes the
  validator entry by entry, and the counts, the means and the digest of the Run are those that the validator expects.
\<close>

subsection \<open>The loop over the Queries\<close>

definition group_key_of :: "judged_row list \<Rightarrow> string \<times> int" where
  "group_key_of rows = (enc (jd_locale (hd rows)), jd_query_id (hd rows))"

record evaluated_group =
  eg_rows :: "judged_row list"
  eg_result :: query_result
  eg_query :: run_query
  eg_metrics :: "real per_metric"

definition group_sound :: "baseline_env \<Rightarrow> evaluated_group \<Rightarrow> bool" where
  "group_sound env x =
     (group_result (eg_result x) (eg_rows x) (eg_metrics x) \<and> query_key (eg_query x) = group_key_of (eg_rows x) \<and>
      rq_metrics (eg_query x) = rounded env (eg_metrics x) \<and> length (rq_ranking (eg_query x)) = length (eg_rows x) \<and>
      item_key ` set (rq_ranking (eg_query x)) = key_bytes ` judgment_key ` set (eg_rows x))"

lemma evaluate_queries_valid:
  assumes "evaluate_queries env policy ranker_name options seed config groups = Inr (rs, config')" "policy_wf policy"
    "labels_upper (be_text env)" "faithful_rounding env" "\<forall>g \<in> set groups. good_group g" "distinct (map group_key_of groups)"
    "set (map group_key_of groups) \<inter> set seen = {}"
  shows "\<exists>xs. validate_queries (be_text env) (canonical_policy policy) seen (map qr_entry rs) = Inr (map eg_query xs) \<and>
    map eg_result xs = rs \<and> map eg_rows xs = groups \<and> list_all (group_sound env) xs"
  using assms
proof (induction groups arbitrary: config seen rs)
  case (Cons g groups)
  obtain r d rs' where r: "evaluate_query env policy ranker_name options seed config g = Inr (r, d)"
    "evaluate_queries env policy ranker_name options seed (Some d) groups = Inr (rs', config')" "rs = r # rs'"
    using Cons.prems(1) by auto
  have g: "good_group g" "(enc (jd_locale (hd g)), jd_query_id (hd g)) \<notin> set seen"
    using Cons.prems(5,7) by (auto simp: group_key_of_def)
  obtain q m where q: "validate_query (be_text env) (canonical_policy policy) seen (qr_entry r) = Inr q" "group_result r g m"
    "query_key q = group_key_of g" "rq_metrics q = rounded env m" "length (rq_ranking q) = length g"
    "item_key ` set (rq_ranking q) = key_bytes ` judgment_key ` set g"
    using evaluate_query_valid [OF r(1) Cons.prems(2-4) g] unfolding group_key_of_def by blast
  have "set (map group_key_of groups) \<inter> set (seen @ [query_key q]) = {}" using Cons.prems(6,7) q(3) by auto
  then obtain xs where xs: "validate_queries (be_text env) (canonical_policy policy) (seen @ [query_key q]) (map qr_entry rs') = Inr (map eg_query xs)"
    "map eg_result xs = rs'" "map eg_rows xs = groups" "list_all (group_sound env) xs"
    using Cons.IH [OF r(2) Cons.prems(2-4), of "seen @ [query_key q]"] Cons.prems(5,6) by fastforce
  let ?x = "\<lparr>eg_rows = g, eg_result = r, eg_query = q, eg_metrics = m\<rparr>"
  have "group_sound env ?x" using q by (simp add: group_sound_def)
  then show ?case using q(1) xs r(3) by (intro exI [of _ "?x # xs"]) simp
qed (auto intro: exI [of _ "[]"])

lemma evaluate_queries_config:
  assumes "evaluate_queries env policy ranker_name options seed (Some d) groups = Inr (rs, config')"
  shows "config' = Some d"
  using assms
proof (induction groups arbitrary: rs)
  case (Cons g groups)
  then obtain r rs' where "evaluate_queries env policy ranker_name options seed (Some d) groups = Inr (rs', config')"
    by (auto simp: evaluate_query_def Let_def)
  then show ?case by (rule Cons.IH)
qed simp

lemma evaluate_queries_ranker:
  assumes "evaluate_queries env policy ranker_name options seed None groups = Inr (rs, Some d)"
  obtains products ranker where "build_ranker ranker_name products options seed = Inr ranker" "d = ranker_config ranker"
proof (cases groups)
  case (Cons g rest)
  then obtain r d' rs' where r: "evaluate_query env policy ranker_name options seed None g = Inr (r, d')"
    "evaluate_queries env policy ranker_name options seed (Some d') rest = Inr (rs', Some d)" using assms by auto
  have "d' = d" using evaluate_queries_config [OF r(2)] by simp
  with r(1) obtain products ranker where "build_ranker ranker_name products options seed = Inr ranker" "d = ranker_config ranker"
    by (auto simp: evaluate_query_def Let_def)
  then show ?thesis by (rule that)
qed (use assms in simp)

text \<open>Every ranker names itself, and its name has the prefix of the Run ID.\<close>

lemma ranker_identity:
  assumes "build_ranker ranker_name products options seed = Inr ranker" "map_of RUN_ID_PREFIXES ranker_name = Some prefix"
  shows "\<exists>ranker_id. dget (ranker_config ranker) ''ranker_id'' = JStr ranker_id \<and>
    map_of RUN_PREFIX_BY_RANKER_ID ranker_id = Some prefix \<and> \<not> blank ranker_id"
    and "json_ok (JObj (ranker_config ranker))"
proof -
  have b: "\<not> blank (CHR ''c'' # s)" for s
    by (simp add: blank_def strip_empty_iff whitespace_def)
  show "\<exists>ranker_id. dget (ranker_config ranker) ''ranker_id'' = JStr ranker_id \<and>
    map_of RUN_PREFIX_BY_RANKER_ID ranker_id = Some prefix \<and> \<not> blank ranker_id"
    using assms by (cases ranker) (auto simp: build_ranker_def random_config_def overlap_config_def bm25_config_def
      boost_config_def dget_def RUN_ID_PREFIXES_def RUN_PREFIX_BY_RANKER_ID_def b split: if_splits)
  show "json_ok (JObj (ranker_config ranker))"
    by (cases ranker) (simp_all add: random_config_def overlap_config_def bm25_config_def boost_config_def)
qed

subsection \<open>The split into Queries\<close>

lemma sum_groups:
  assumes "distinct ks" "set (map f xs) \<subseteq> set ks"
  shows "sum_list (map (\<lambda>k. length (filter (\<lambda>x. f x = k) xs)) ks) = length xs"
  using assms(2)
proof (induction xs)
  case (Cons x xs)
  have "sum_list (map (\<lambda>k. length (filter (\<lambda>x. f x = k) (x # xs))) ks) =
      sum_list (map (\<lambda>k. (if k = f x then 1 else 0) + length (filter (\<lambda>x. f x = k) xs)) ks)"
    by (intro arg_cong [where f = sum_list] map_cong) auto
  also have "\<dots> = sum_list (map (\<lambda>k. if k = f x then 1 else 0) ks) + length xs"
    using Cons by (simp only: sum_list_addf set_simps list.map insert_subset)
  also have "sum_list (map (\<lambda>k. if k = f x then 1 else 0) ks) = (1 :: nat)"
    using assms(1) Cons.prems by (subst sum_list_distinct_conv_sum_set) simp_all
  finally show ?case by simp
qed simp

definition judgments_ok :: "judged_row list \<Rightarrow> bool" where
  "judgments_ok js =
     (js \<noteq> [] \<and> distinct (map (\<lambda>j. (judgment_query j, jd_product_id j)) js) \<and>
      (\<forall>j \<in> set js. jd_locale j = us_locale \<and> jd_label j \<in> set ESCI_LABELS \<and> jd_eval_split j = dev_split \<and>
         jd_origin_split j = train_split))"

text \<open>Hypotheses about the data that no check of the producer covers: positive IDs and texts of Unicode scalar values.\<close>

definition judgments_regular :: "judged_row list \<Rightarrow> bool" where
  "judgments_regular js =
     (\<forall>j \<in> set js. scalar_text (jd_product_id j) \<and> scalar_text (jd_query_text j) \<and> 1 \<le> jd_query_id j \<and>
        (\<forall>i. jd_example_id j = Some i \<longrightarrow> 1 \<le> i))"

lemma us_locale_bytes: "enc us_locale = ''us''" "scalar_text us_locale" "utf8 us_locale = Inr ''us''"
proof -
  show u: "utf8 us_locale = Inr ''us''"
    by (simp add: utf8_def us_locale_def utf8_char_def char_of_def bit_0)
  show "enc us_locale = ''us''" using u by (simp add: enc_def)
  show "scalar_text us_locale" by (simp add: scalar_text_def us_locale_def)
qed

lemma partition_props:
  assumes "judgments_ok js" "judgments_regular js"
  defines "gs \<equiv> partition_queries (sort_judgments js)"
  shows "\<forall>g \<in> set gs. good_group g" "distinct (map group_key_of gs)" "gs \<noteq> []"
    "sum_list (map length gs) = length js" "(\<Union>g \<in> set gs. set g) = set js" "length gs = card (set (map judgment_query js))"
    "\<forall>g \<in> set gs. fst (group_key_of g) = ''us''"
proof -
  let ?js = "sort_judgments js" and ?ks = "nub (map judgment_query (sort_judgments js))"
  have set: "set ?js = set js" and mset: "mset ?js = mset js" by (simp_all add: sort_judgments_def)
  have gs: "gs = map (\<lambda>k. filter (\<lambda>j. judgment_query j = k) ?js) ?ks" by (simp add: gs_def partition_queries_def)
  have dist: "distinct (map (\<lambda>j. (judgment_query j, jd_product_id j)) ?js)"
    using assms(1) mset mset_eq_imp_distinct_iff [of "map (\<lambda>j. (judgment_query j, jd_product_id j)) ?js"
      "map (\<lambda>j. (judgment_query j, jd_product_id j)) js"] by (simp add: judgments_ok_def)
  have ok: "jd_locale j = us_locale" "jd_label j \<in> set ESCI_LABELS" if "j \<in> set js" for j
    using assms(1) that by (auto simp: judgments_ok_def)
  have group: "good_group (filter (\<lambda>j. judgment_query j = k) ?js) \<and>
      group_key_of (filter (\<lambda>j. judgment_query j = k) ?js) = (''us'', snd k)" if "k \<in> set ?ks" for k
  proof -
    let ?g = "filter (\<lambda>j. judgment_query j = k) ?js"
    have "k \<in> judgment_query ` set js" using that set by simp
    then obtain j where "j \<in> set js" "judgment_query j = k" by blast
    then have ne: "?g \<noteq> []" using set by (auto simp: filter_empty_conv)
    then have hd: "hd ?g \<in> set js" "judgment_query (hd ?g) = k" using set hd_in_set [OF ne] by auto
    have "inj_on (\<lambda>j. (judgment_query j, jd_product_id j)) (set ?js)" "distinct ?js" using dist by (simp_all add: distinct_map)
    then have "inj_on judgment_key (set ?g)" "distinct ?g"
      by (auto simp: inj_on_def judgment_key_def)
    then have "distinct (map judgment_key ?g)" by (simp add: distinct_map)
    then have "good_group ?g"
      using ne ok hd assms(2) us_locale_bytes(2) by (auto simp: good_group_def judgments_regular_def set)
    moreover have "group_key_of ?g = (''us'', snd k)"
      using arg_cong [OF hd(2), of snd] ok(1) [OF hd(1)] us_locale_bytes(1) by (simp add: group_key_of_def judgment_query_def)
    ultimately show ?thesis by simp
  qed
  show "\<forall>g \<in> set gs. good_group g" "\<forall>g \<in> set gs. fst (group_key_of g) = ''us''" using group by (auto simp: gs simp del: set_nub)
  have keys: "map group_key_of gs = map (\<lambda>k. (''us'', snd k)) ?ks" using group by (simp add: gs del: set_nub)
  have "inj_on (\<lambda>k. (''us'', snd k)) (set ?ks)" using ok(1) by (auto simp: inj_on_def judgment_query_def set)
  then show "distinct (map group_key_of gs)" unfolding keys by (simp add: distinct_map del: set_nub)
  show "gs \<noteq> []" using assms(1) set by (auto simp: gs judgments_ok_def)
  have "sum_list (map length gs) = length ?js" unfolding gs map_map comp_def by (rule sum_groups) simp_all
  then show "sum_list (map length gs) = length js" by (simp add: sort_judgments_def)
  show "(\<Union>g \<in> set gs. set g) = set js" using set by (auto simp: gs)
  have "length gs = card (set ?ks)" unfolding gs length_map by (rule distinct_card [symmetric]) simp
  then show "length gs = card (set (map judgment_query js))" using set by simp
qed

subsection \<open>The aggregate metrics\<close>

definition query_metrics_of :: "query_result \<Rightarrow> exn + real per_metric" where
  "query_metrics_of r = query_metrics (qr_ranked_gains r) (qr_candidate_gains r) (qr_relevance r)"

lemma traverse_related:
  "list_all2 (\<lambda>r m. f (a r) = Inr (g m)) rs ms \<Longrightarrow> traverse f (map a rs) = Inr (map g ms)"
  by (induction rule: list_all2_induct) simp_all

lemma query_metrics_parts:
  assumes "query_metrics_of r = Inr m"
  shows "reciprocal_rank_at_k (map JBool (qr_relevance r)) (JInt 10) = Inr (pm_mrr_at_10 m)"
    "ndcg_at_k (map gain_json (qr_ranked_gains r)) (map gain_json (qr_candidate_gains r)) (JInt 10) = Inr (pm_ndcg_at_10 m)"
    "ndcg_at_k (map gain_json (qr_ranked_gains r)) (map gain_json (qr_candidate_gains r)) (JInt 5) = Inr (pm_ndcg_at_5 m)"
    "success_at_k (map JBool (qr_relevance r)) (JInt 1) = Inr (pm_success_at_1 m)"
    "success_at_k (map JBool (qr_relevance r)) (JInt 5) = Inr (pm_success_at_5 m)"
  using assms by (auto simp: query_metrics_of_def query_metrics_def)

abbreviation average :: "real list \<Rightarrow> real" where
  "average vs \<equiv> sum_list vs / real (length vs)"

definition averages :: "real per_metric list \<Rightarrow> real per_metric" where
  "averages ms =
     \<lparr>pm_ndcg_at_5 = average (map pm_ndcg_at_5 ms), pm_ndcg_at_10 = average (map pm_ndcg_at_10 ms),
      pm_mrr_at_10 = average (map pm_mrr_at_10 ms), pm_success_at_1 = average (map pm_success_at_1 ms),
      pm_success_at_5 = average (map pm_success_at_5 ms)\<rparr>"

lemma aggregate_is_average:
  assumes "aggregate_metrics rs = Inr m" "list_all2 (\<lambda>r m. query_metrics_of r = Inr m) rs ms"
  shows "m = averages ms" "ms \<noteq> []"
proof -
  have part: "list_all2 (\<lambda>r m. f r = Inr (g m)) rs ms" if "\<And>r m. query_metrics_of r = Inr m \<Longrightarrow> f r = Inr (g m)"
    for f :: "query_result \<Rightarrow> exn + real" and g
    using assms(2) that by (rule list_all2_mono)
  note parts = part [OF query_metrics_parts(1)] part [OF query_metrics_parts(2)] part [OF query_metrics_parts(3)]
    part [OF query_metrics_parts(4)] part [OF query_metrics_parts(5)]
  have mean: "mean vs = Inr v \<longleftrightarrow> vs \<noteq> [] \<and> v = average vs" for vs v by (auto simp: mean_def)
  have pairs: "traverse (\<lambda>(r, c). ndcg_at_k r c k) (zip (map (\<lambda>q. map gain_json (qr_ranked_gains q)) rs)
      (map (\<lambda>q. map gain_json (qr_candidate_gains q)) rs)) =
      traverse (\<lambda>r. ndcg_at_k (map gain_json (qr_ranked_gains r)) (map gain_json (qr_candidate_gains r)) k) rs" for k
    by (induction rs) auto
  have single: "traverse (\<lambda>r. f r k) (map (\<lambda>q. map JBool (qr_relevance q)) rs) = traverse (\<lambda>q. f (map JBool (qr_relevance q)) k) rs"
    for f :: "json list \<Rightarrow> json \<Rightarrow> exn + real" and k by (induction rs) auto
  have "mean_reciprocal_rank_at_k (map (\<lambda>q. map JBool (qr_relevance q)) rs) (JInt 10) = mean (map pm_mrr_at_10 ms)"
    "mean_ndcg_at_k (map (\<lambda>q. map gain_json (qr_ranked_gains q)) rs) (map (\<lambda>q. map gain_json (qr_candidate_gains q)) rs) (JInt 10) =
      mean (map pm_ndcg_at_10 ms)"
    "mean_ndcg_at_k (map (\<lambda>q. map gain_json (qr_ranked_gains q)) rs) (map (\<lambda>q. map gain_json (qr_candidate_gains q)) rs) (JInt 5) =
      mean (map pm_ndcg_at_5 ms)"
    "mean_success_at_k (map (\<lambda>q. map JBool (qr_relevance q)) rs) (JInt 1) = mean (map pm_success_at_1 ms)"
    "mean_success_at_k (map (\<lambda>q. map JBool (qr_relevance q)) rs) (JInt 5) = mean (map pm_success_at_5 ms)"
    using parts [THEN traverse_related [where a = "\<lambda>r. r"]]
    by (simp_all add: mean_reciprocal_rank_at_k_def mean_ndcg_at_k_def mean_success_at_k_def validate_k_def pairs single)
  then show "m = averages ms" "ms \<noteq> []"
    using assms(1) by (auto simp: aggregate_metrics_def Let_def mean averages_def)
qed

lemma of_rat_sum_list: "of_rat (sum_list xs) = (sum_list (map of_rat xs) :: real)"
  by (induction xs) (simp_all add: of_rat_add)

lemma average_unit:
  assumes "xs \<noteq> []" "\<forall>x \<in> set xs. 0 \<le> x \<and> x \<le> 1"
  shows "0 \<le> average xs \<and> average xs \<le> 1"
  using mean_range [of xs "average xs" 0 1] assms by (simp add: mean_def)

lemma rounded_average:
  assumes fr: "faithful_rounding env" and xs: "xs \<noteq> []" "\<forall>x \<in> set xs. 0 \<le> x \<and> x \<le> 1"
  shows "isclose_abs float_1e_12 (value_of env (average xs)) (sum_list (map (value_of env) xs) / of_nat (length xs))"
proof -
  let ?v = "\<lambda>x. of_rat (value_of env x) :: real" and ?n = "real (length xs)"
  have n: "0 < ?n" using xs(1) by simp
  have "\<bar>?v (average xs) - average xs\<bar> \<le> 1 / 10 ^ 13"
    using value_of_unit(4) [OF fr] average_unit [OF xs] by blast
  moreover have "\<bar>sum_list (map ?v ys) - sum_list ys\<bar> \<le> real (length ys) * (1 / 10 ^ 13)" if "set ys \<subseteq> set xs" for ys
    using that
  proof (induction ys)
    case (Cons y ys)
    then have "\<bar>?v y - y\<bar> \<le> 1 / 10 ^ 13" using value_of_unit(4) [OF fr] xs(2) by simp
    moreover have "\<bar>sum_list (map ?v ys) - sum_list ys\<bar> \<le> real (length ys) * (1 / 10 ^ 13)" using Cons by simp
    ultimately have "\<bar>(?v y - y) + (sum_list (map ?v ys) - sum_list ys)\<bar> \<le> 1 / 10 ^ 13 + real (length ys) * (1 / 10 ^ 13)"
      by (rule order_trans [OF abs_triangle_ineq add_mono])
    then show ?case by (simp add: algebra_simps)
  qed simp
  from this [OF subset_refl] have "\<bar>sum_list (map ?v xs) / ?n - average xs\<bar> \<le> 1 / 10 ^ 13"
    using n by (simp add: diff_divide_distrib [symmetric] pos_divide_le_eq mult.commute)
  ultimately have "\<bar>?v (average xs) - sum_list (map ?v xs) / ?n\<bar> \<le> 2 / 10 ^ 13" by linarith
  also have "sum_list (map ?v xs) / ?n = of_rat (sum_list (map (value_of env) xs) / of_nat (length xs))"
    by (simp add: of_rat_divide of_rat_sum_list comp_def)
  also have "?v (average xs) - of_rat (sum_list (map (value_of env) xs) / of_nat (length xs)) =
      of_rat (value_of env (average xs) - sum_list (map (value_of env) xs) / of_nat (length xs))"
    by (simp only: of_rat_diff)
  also have "(2 / 10 ^ 13 :: real) = of_rat (2 / 10 ^ 13)" by (simp add: of_rat_divide)
  finally have "\<bar>value_of env (average xs) - sum_list (map (value_of env) xs) / of_nat (length xs)\<bar> \<le> 2 / 10 ^ 13"
    by (simp add: abs_le_iff of_rat_less_eq flip: of_rat_minus)
  then show ?thesis unfolding isclose_abs_def float_1e_12_def by (rule order_trans) simp
qed

lemma averages_close:
  assumes "faithful_rounding env" "ms \<noteq> []" "list_all unit_metrics_of ms" "map rq_metrics qs = map (rounded env) ms"
  shows "unit_metrics_of (averages ms)"
    "list_all2 (isclose_abs float_1e_12) (metric_values (rounded env (averages ms))) (metric_values (metric_means qs))"
proof -
  have u: "\<forall>x \<in> set (map f ms). 0 \<le> x \<and> x \<le> 1" if "f \<in> {pm_ndcg_at_5, pm_ndcg_at_10, pm_mrr_at_10, pm_success_at_1, pm_success_at_5}" for f
    using assms(3) that by (auto simp: list_all_iff metric_values_def)
  have ne: "map f ms \<noteq> []" for f :: "real per_metric \<Rightarrow> real" using assms(2) by simp
  show "unit_metrics_of (averages ms)"
    using average_unit [OF ne u] by (simp add: averages_def metric_values_def del: length_map)
  have len: "length qs = length ms" using arg_cong [OF assms(4), of length] by simp
  have sums: "map (\<lambda>q. f (rq_metrics q)) qs = map (\<lambda>m. f (rounded env m)) ms" for f :: "rat per_metric \<Rightarrow> rat"
    using arg_cong [OF assms(4), of "map f"] by (simp add: comp_def)
  show "list_all2 (isclose_abs float_1e_12) (metric_values (rounded env (averages ms))) (metric_values (metric_means qs))"
    using rounded_average [OF assms(1) ne u]
    by (simp add: metric_values_def metric_means_def Let_def sums len rounded_def averages_def comp_def)
qed


subsection \<open>The whole Run\<close>

lemma frame_judgments:
  assumes "validate_evaluation_frame f = Inr u"
  shows "judgments_ok (map judgment_of (fm_rows f))"
proof -
  let ?js = "map judgment_of (fm_rows f)"
  have v: "fm_rows f \<noteq> []" "set (map jd_eval_split ?js) = {dev_split}" "set (map jd_origin_split ?js) = {train_split}"
    "set (map jd_locale ?js) = {us_locale}" "list_all (\<lambda>j. jd_label j \<in> set ESCI_LABELS) ?js"
    "distinct (map (\<lambda>j. (judgment_query j, jd_product_id j)) ?js)"
    using assms unfolding validate_evaluation_frame_def Let_def ebind_Inr_iff require_Inr_iff by blast+
  have "jd_eval_split j = dev_split \<and> jd_origin_split j = train_split \<and> jd_locale j = us_locale" if "j \<in> set ?js" for j
    using that v(2-4) by (metis image_eqI list.set_map singletonD)
  then show ?thesis using v(1,5,6) unfolding judgments_ok_def list_all_iff by (metis map_is_Nil_conv)
qed

lemma sorted_texts_constant:
  assumes "ts \<noteq> []" "\<forall>t \<in> set ts. t = u" "utf8 u = Inr b"
  shows "sorted_texts ts = Inr (JList [JStr b])"
proof -
  obtain rest where ts: "ts = u # rest" using assms(1,2) by (cases ts) auto
  have "set (removeAll u (nub rest)) = {}" using assms(2) ts by auto
  then have "nub ts = [u]" unfolding set_empty by (simp add: ts)
  then show ?thesis using assms(3) by (simp add: sorted_texts_def)
qed

lemma split_bytes: "utf8 dev_split = Inr ''dev''" "utf8 train_split = Inr ''train''"
  by (simp_all add: utf8_def dev_split_def train_split_def utf8_char_def char_of_def bit_0)

definition profile_formats :: "evaluation_profile \<Rightarrow> bool" where
  "profile_formats p =
     (list_all (hex_exact 64) [ep_file_sha256 p, ep_canonical_sha256 p, ep_stage1_manifest_sha256 p] \<and>
      hex_exact 40 (ep_source_commit p) \<and> \<not> blank (ep_file_name p) \<and> plain_file_name (ep_file_name p))"

definition run_dataset :: "evaluation_profile \<Rightarrow> int \<Rightarrow> int \<Rightarrow> int \<Rightarrow> dict" where
  "run_dataset p judgments products queries =
     to_manifest_dict p @
       [(''eval_splits'', JList [JStr ''dev'']), (''judgments'', JInt judgments), (''locales'', JList [JStr ''us'']),
        (''origin_splits'', JList [JStr ''train'']), (''products'', JInt products), (''queries'', JInt queries)]"

lemma run_dataset_valid:
  assumes "profile_init p = Inr p'" "ep_profile_id p = ''smoke''" "profile_formats p"
  shows "validate_dataset (run_dataset p a b c) = Inr ()" "json_ok (JObj (run_dataset p a b c))"
proof -
  have "set (dict_keys (run_dataset p a b c)) = set DATASET_KEYS"
    by (auto simp: dict_keys_def run_dataset_def to_manifest_dict_def DATASET_KEYS_def)
  moreover have "\<not> blank (ep_stage1_schema_version p)" using assms(1) by (auto simp: profile_init_def)
  ultimately show "validate_dataset (run_dataset p a b c) = Inr ()"
    using assms(2,3)
    by (simp add: validate_dataset_def run_dataset_def to_manifest_dict_def dget_def in_str_set_def string_that_def
        profile_formats_def)
  show "json_ok (JObj (run_dataset p a b c))" by (simp add: run_dataset_def to_manifest_dict_def)
qed

lemma run_id_format:
  assumes "map_of RUN_ID_PREFIXES n = Some prefix" "hex_exact 12 h"
  shows "RUN_ID_PATTERN (prefix @ ''-'' @ h)" "length (prefix @ ''-'' @ h) = length prefix + 13"
proof -
  show len: "length (prefix @ ''-'' @ h) = length prefix + 13" using assms(2) by (simp add: hex_exact_def)
  have "prefix \<in> {''overlap'', ''random'', ''exact-boost'', ''bm25''}"
    using map_of_SomeD [OF assms(1)] by (auto simp: RUN_ID_PREFIXES_def)
  then have "prefix \<noteq> []" "head_tail lower (\<lambda>c. lower c \<or> digit c \<or> c = CHR ''-'') 31 prefix"
    by (auto simp: head_tail_def lower_def digit_def)
  then show "RUN_ID_PATTERN (prefix @ ''-'' @ h)"
    using len assms(2) by (simp add: RUN_ID_PATTERN_def Let_def prefixed_hex_def)
qed

lemma policy_json_ok: "json_ok (JObj (relevance_to_dict p))"
  by (simp add: relevance_to_dict_def list_all_iff)

definition run_parts :: "string \<Rightarrow> dict \<Rightarrow> dict \<Rightarrow> json list \<Rightarrow> dict \<Rightarrow> relevance_policy \<Rightarrow> dict" where
  "run_parts revision dataset metrics entries config policy =
     [(''code_revision'', JStr revision), (''dataset'', JObj dataset), (''evaluation_boundary'', BOUNDARY), (''metrics'', JObj metrics),
      (''per_query'', JList entries), (''ranker'', JObj config), (''relevance_policy'', JObj (relevance_to_dict policy)),
      (''schema_version'', JStr RUN_SCHEMA_VERSION)]"

text \<open>Parts that pass their own checks make a Run that passes all of them.\<close>

lemma assembled_run_valid:
  assumes "hex_exact 40 revision" "validate_dataset dataset = Inr ()" "json_ok (JObj dataset)"
    and "read_metrics metrics = Inr m" "json_ok (JObj metrics)" "list_all json_ok entries" "entries \<noteq> []"
    and "validate_queries pt (canonical_policy policy) [] entries = Inr qs"
    and "list_all2 (isclose_abs float_1e_12) (metric_values m) (metric_values (metric_means qs))"
    and "validate_counts dataset qs = Inr ()" and "policy_wf policy" "labels_upper pt" and "json_ok (JObj config)"
    and "dget config ''ranker_id'' = JStr ranker_id" "\<not> blank ranker_id" "map_of RUN_PREFIX_BY_RANKER_ID ranker_id = Some prefix"
    and "map_of RUN_ID_PREFIXES ranker_name = Some prefix" and "hex_digests c"
    and "with_run_id c ranker_name (run_parts revision dataset metrics entries config policy) = Inr run"
  shows "\<exists>r. validate_run c pt (JObj run) = Inr r \<and> er_queries r = qs \<and> er_dataset r = dataset \<and> er_code_revision r = revision \<and>
    dget run ''run_id'' = JStr (er_run_id r)"
proof -
  let ?parts = "run_parts revision dataset metrics entries config policy"
  define h where "h = take 12 (cd_sha c (cd_ser c (sort_keys (JObj ?parts))))"
  let ?id = "prefix @ ''-'' @ h"
  have h: "hex_exact 12 h"
    using assms(18) by (auto simp: h_def hex_digests_def hex_exact_def list_all_iff dest: in_set_takeD)
  note id = run_id_format [OF assms(17) h]
  have run: "run = ?parts @ [(''run_id'', JStr ?id)]" using assms(17,19) by (simp add: with_run_id_def h_def del: sort_keys.simps)
  have keys: "set (dict_keys run) = set RUN_KEYS" by (auto simp: run run_parts_def dict_keys_def RUN_KEYS_def)
  have get: "dget run ''schema_version'' = JStr RUN_SCHEMA_VERSION" "dget run ''run_id'' = JStr ?id"
    "dget run ''code_revision'' = JStr revision" "dget run ''dataset'' = JObj dataset" "dget run ''evaluation_boundary'' = BOUNDARY"
    "dget run ''relevance_policy'' = JObj (relevance_to_dict policy)" "dget run ''ranker'' = JObj config"
    "dget run ''metrics'' = JObj metrics" "dget run ''per_query'' = JList entries"
    by (simp_all add: run run_parts_def dget_def)
  have boundary: "ebind (require_dict BOUNDARY) (\<lambda>b. require (py_eq (JObj b) BOUNDARY) ValueError) = Inr ()" "json_ok BOUNDARY"
    by (simp_all add: BOUNDARY_def require_dict_def)
  have "filter (\<lambda>p. fst p \<noteq> ''run_id'') run = ?parts" by (simp add: run run_parts_def)
  moreover have "json_ok (JObj ?parts)"
    using assms(3,5,6,13) boundary(2) policy_json_ok [of policy] by (simp add: run_parts_def)
  ultimately have digest: "validate_digest c ?id run = Inr ()"
    using id(2) by (simp add: validate_digest_def canonical_json_bytes_def ensure_json_value_def h_def del: json_ok.simps sort_keys.simps)
  have prefix: "take (length ?id - 13) ?id = prefix" using id(2) by simp
  show ?thesis
    using assms(1,2,4,7,8,9,10,14,15,16) keys id(1) digest policy_round_trip [OF assms(11,12)] prefix
    by (simp add: validate_run_def get boundary(1) require_dict_def [of "JObj d" for d] require_list_def dec_pattern_def
        relevance_to_dict_canonical del: validate_queries.simps length_append append_assoc)
qed


end
