(* ===== verification/RunTools.thy ===== *)
theory RunTools
  imports RunComparison
begin

text \<open>
  \<^verbatim>\<open>TrustedRunRegistry\<close> and the handlers of \<^verbatim>\<open>SearchEvaluationTools\<close> of \<^verbatim>\<open>src/search_quality/agent/tools.py\<close>.
  The registry's state is the map from admitted Run IDs to the pinned digest of their file. A file is read three
  times while it is loaded; \<open>run_file\<close> holds the three contents, which need not agree when somebody writes in
  between, and None is a missing file. The JSON parser with its hooks, the serialiser of artifacts, the trusted
  profile and the clean code revision are the fields of \<open>tool_env\<close>. Symbolic links, I/O errors and the lock are not
  modelled. The handler \<open>run_ranker\<close> is split: what it stores is an argument of \<open>register_generated\<close>.
\<close>

record tool_env =
  tv_codec :: codec
  tv_text :: pytext
  tv_parse :: "string \<Rightarrow> exn + json"
  tv_pretty :: "json \<Rightarrow> string"
  tv_profile :: "exn + evaluation_profile"
  tv_revision :: "exn + string"

record run_file =
  rf_first :: string
  rf_parsed :: string
  rf_last :: string

type_synonym allowed_runs = "string \<Rightarrow> string option"

abbreviation tool_error :: "string \<Rightarrow> exn" where
  "tool_error code \<equiv> AgentToolError code False"

text \<open>\<^verbatim>\<open>except (TypeError, ValueError, RuntimeError)\<close>\<close>

definition recast_invalid :: "string \<Rightarrow> exn + 'a \<Rightarrow> exn + 'a" where
  "recast_invalid code m =
     (case m of Inl e \<Rightarrow> Inl (if e \<in> {TypeError, ValueError, RuntimeError} then tool_error code else e) | Inr x \<Rightarrow> Inr x)"

definition ALLOWED_RANKER_IDS :: "string list" where
  "ALLOWED_RANKER_IDS =
     [''candidate-random-v1'', ''candidate-title-bm25-exact-boost-v1'', ''candidate-title-keyword-overlap-v1'',
      ''candidate-title-bm25-v1'']"

subsection \<open>The trusted registry\<close>

record validated_run =
  vr_payload :: json
  vr_run :: evaluated_run
  vr_artifact_sha256 :: string

definition load_run_from_store :: "tool_env \<Rightarrow> string \<Rightarrow> string \<Rightarrow> exn + json" where
  "load_run_from_store env run_id bytes =
     ebind (tv_parse env bytes) (\<lambda>v.
     ebind (require (is_dict v) TypeError) (\<lambda>_.
     ebind (require (jget v ''run_id'' = JStr run_id) ValueError) (\<lambda>_. Inr v)))"

definition load_and_validate :: "tool_env \<Rightarrow> allowed_runs \<Rightarrow> bool \<Rightarrow> run_file option \<Rightarrow> string \<Rightarrow> exn + validated_run" where
  "load_and_validate env allowed require_admitted file run_id =
     ebind (require (RUN_ID_PATTERN run_id) (tool_error ''invalid_argument'')) (\<lambda>_.
     let pinned = allowed run_id in
     ebind (require (require_admitted \<longrightarrow> pinned \<noteq> None) (tool_error ''run_not_trusted'')) (\<lambda>_.
     ebind (of_option (tool_error ''run_not_found'') file) (\<lambda>f.
     let digest = cd_sha (tv_codec env) (rf_first f) in
     ebind (require (pinned = None \<or> pinned = Some digest) (tool_error ''run_integrity_failed'')) (\<lambda>_.
     ebind (recast_invalid ''run_integrity_failed''
              (ebind (load_run_from_store env run_id (rf_parsed f)) (\<lambda>payload.
               ebind (validate_trusted_run (tv_codec env) (tv_text env) ''smoke'' (tv_profile env) payload) (\<lambda>run.
               Inr (payload, run))))) (\<lambda>loaded.
     ebind (require (cd_sha (tv_codec env) (rf_last f) = digest) (tool_error ''run_integrity_failed'')) (\<lambda>_.
     ebind (require (er_ranker_id (snd loaded) \<in> set ALLOWED_RANKER_IDS) (tool_error ''ranker_not_allowed'')) (\<lambda>_.
     Inr \<lparr>vr_payload = fst loaded, vr_run = snd loaded, vr_artifact_sha256 = digest\<rparr>)))))))"

definition admit_existing :: "tool_env \<Rightarrow> run_file option \<Rightarrow> string \<Rightarrow> allowed_runs \<Rightarrow> exn + validated_run \<times> allowed_runs" where
  "admit_existing env file run_id allowed =
     ebind (load_and_validate env allowed False file run_id) (\<lambda>v.
     ebind (require (allowed run_id = None \<or> allowed run_id = Some (vr_artifact_sha256 v)) (tool_error ''run_integrity_failed'')) (\<lambda>_.
     Inr (v, allowed(run_id \<mapsto> vr_artifact_sha256 v))))"

definition resolve_run :: "tool_env \<Rightarrow> allowed_runs \<Rightarrow> run_file option \<Rightarrow> string \<Rightarrow> exn + validated_run" where
  "resolve_run env allowed file run_id = load_and_validate env allowed True file run_id"

text \<open>
  Publishing a generated Run: \<open>stored\<close> is what the file held before, \<open>file\<close> what it gives when it is read back.
\<close>

definition register_generated ::
    "tool_env \<Rightarrow> string option \<Rightarrow> run_file option \<Rightarrow> dict \<Rightarrow> allowed_runs \<Rightarrow> exn + (validated_run \<times> bool) \<times> allowed_runs" where
  "register_generated env stored file run allowed =
     ebind (of_option (tool_error ''run_integrity_failed'') (dec_pattern RUN_ID_PATTERN (dget run ''run_id''))) (\<lambda>run_id.
     ebind (ensure_json_value (JObj run)) (\<lambda>_.
     ebind (require (stored = None \<or> stored = Some (tv_pretty env (sort_keys (JObj run)))) (tool_error ''artifact_collision'')) (\<lambda>_.
     ebind (admit_existing env file run_id allowed) (\<lambda>(v, allowed').
     Inr ((v, stored = None), allowed')))))"

subsection \<open>Reading a Run\<close>

definition query_of :: "validated_run \<Rightarrow> int \<Rightarrow> exn + run_query" where
  "query_of v query_id =
     (case filter (\<lambda>q. rq_query_id q = query_id) (er_queries (vr_run v)) of
        [q] \<Rightarrow> Inr q | _ \<Rightarrow> Inl (tool_error ''query_not_found''))"

record run_summary =
  su_evaluation_boundary :: json
  su_metrics :: "rat per_metric"
  su_profile :: json
  su_query_count :: json
  su_ranker_id :: string
  su_run_id :: string

definition run_summary_of :: "evaluated_run \<Rightarrow> run_summary" where
  "run_summary_of r =
     \<lparr>su_evaluation_boundary = er_boundary r, su_metrics = er_metrics r, su_profile = dget (er_dataset r) ''profile'',
      su_query_count = dget (er_dataset r) ''queries'', su_ranker_id = er_ranker_id r, su_run_id = er_run_id r\<rparr>"

record query_evaluation =
  qe_candidate_count :: int
  qe_locale :: string
  qe_metrics :: "rat per_metric"
  qe_query_id :: int
  qe_ranker_id :: string
  qe_run_id :: string

datatype evaluate_payload = Run_summary run_summary | Query_evaluation query_evaluation

definition query_ref :: "(int \<Rightarrow> string) \<Rightarrow> string \<Rightarrow> int \<Rightarrow> string" where
  "query_ref show_int run_id query_id = ''query:'' @ run_id @ '':'' @ show_int query_id"

definition evaluate_run ::
    "tool_env \<Rightarrow> (int \<Rightarrow> string) \<Rightarrow> allowed_runs \<Rightarrow> run_file option \<Rightarrow> string \<Rightarrow> int option \<Rightarrow> exn + string \<times> evaluate_payload" where
  "evaluate_run env show_int allowed file run_id query_id =
     ebind (resolve_run env allowed file run_id) (\<lambda>v.
     case query_id of
       None \<Rightarrow> Inr (''run:'' @ run_id, Run_summary (run_summary_of (vr_run v)))
     | Some i \<Rightarrow>
         ebind (query_of v i) (\<lambda>q.
         Inr (query_ref show_int run_id i, Query_evaluation
           \<lparr>qe_candidate_count = int (length (rq_ranking q)), qe_locale = rq_locale q, qe_metrics = rq_metrics q,
            qe_query_id = rq_query_id q, qe_ranker_id = er_ranker_id (vr_run v), qe_run_id = run_id\<rparr>)))"

text \<open>The judged products of the profile's file: Query, locale, product and title of every row.\<close>

type_synonym title_row = "int \<times> string \<times> string \<times> string"

record inspected_query =
  iq_candidates :: "(ranked_item \<times> string) list"
  iq_label_counts :: "(string \<times> nat) list"
  iq_query :: run_query
  iq_ranker_id :: string
  iq_run_id :: string

definition titles_of :: "title_row list \<Rightarrow> run_query \<Rightarrow> (string \<times> string) list" where
  "titles_of rows q =
     map (\<lambda>(_, _, product_id, title). (product_id, title))
       (filter (\<lambda>(i, locale, _, _). i = rq_query_id q \<and> locale = rq_locale q) rows)"

definition label_counts_of :: "ranked_item list \<Rightarrow> (string \<times> nat) list" where
  "label_counts_of items = map (\<lambda>l. (l, length (filter (\<lambda>x. it_label x = l) items))) [''E'', ''S'', ''C'', ''I'']"

definition inspect_query ::
    "tool_env \<Rightarrow> (int \<Rightarrow> string) \<Rightarrow> string \<Rightarrow> title_row list \<Rightarrow> allowed_runs \<Rightarrow> run_file option \<Rightarrow> string \<Rightarrow> int
      \<Rightarrow> exn + string \<times> inspected_query" where
  "inspect_query env show_int data_sha256 rows allowed file run_id query_id =
     ebind (resolve_run env allowed file run_id) (\<lambda>v.
     ebind (query_of v query_id) (\<lambda>q.
     ebind (tv_profile env) (\<lambda>profile.
     ebind (require (data_sha256 = ep_file_sha256 profile) (tool_error ''data_integrity_failed'')) (\<lambda>_.
     let titles = titles_of rows q in
     ebind (require (titles \<noteq> []) (tool_error ''query_not_found'')) (\<lambda>_.
     ebind (require (it_product_id ` set (rq_ranking q) = fst ` set titles) (tool_error ''data_integrity_failed'')) (\<lambda>_.
     Inr (query_ref show_int run_id query_id,
       \<lparr>iq_candidates = map (\<lambda>x. (x, the (map_of (rev titles) (it_product_id x)))) (rq_ranking q),
        iq_label_counts = label_counts_of (rq_ranking q), iq_query = q, iq_ranker_id = er_ranker_id (vr_run v),
        iq_run_id = run_id\<rparr>)))))))"

subsection \<open>Comparing two Runs\<close>

definition ndcg_delta :: "query_comparison \<Rightarrow> rat" where
  "ndcg_delta q = md_delta (pm_ndcg_at_10 (qc_metrics q))"

definition query_delta_of :: "query_comparison \<Rightarrow> query_delta" where
  "query_delta_of q =
     \<lparr>qd_changed_rank_count = qc_changed_rank_count q, qd_ndcg_at_10_delta = ndcg_delta q, qd_query_id = snd (qc_key q),
      qd_top_10_changed = qc_top_10_changed q\<rparr>"

definition worst_regressions :: "query_comparison list \<Rightarrow> query_comparison list" where
  "worst_regressions qs =
     take 5 (sort_key (\<lambda>q. (ndcg_delta q, snd (qc_key q))) (filter (\<lambda>q. ndcg_delta q < - float_1e_12) qs))"

definition best_improvements :: "query_comparison list \<Rightarrow> query_comparison list" where
  "best_improvements qs =
     take 5 (sort_key (\<lambda>q. (- ndcg_delta q, snd (qc_key q))) (filter (\<lambda>q. float_1e_12 < ndcg_delta q) qs))"

definition compare_payload_of :: "string \<Rightarrow> string \<Rightarrow> run_comparison \<Rightarrow> compare_payload" where
  "compare_payload_of baseline_run_id candidate_run_id x =
     \<lparr>co_aggregate_metrics = rc_aggregate x, co_baseline_run_id = baseline_run_id, co_candidate_run_id = candidate_run_id,
      co_comparison_id = rc_comparison_id x, co_comparison_epsilon = float_1e_12,
      co_improvements = map query_delta_of (best_improvements (rc_per_query x)), co_outcome_counts = rc_outcome_counts x,
      co_query_count = int (length (rc_per_query x)),
      co_regressions = map query_delta_of (worst_regressions (rc_per_query x))\<rparr>"

type_synonym comparison_files = "string \<Rightarrow> run_comparison option"

definition compare_runs_tool ::
    "tool_env \<Rightarrow> allowed_runs \<Rightarrow> run_file option \<Rightarrow> run_file option \<Rightarrow> string \<Rightarrow> string \<Rightarrow> comparison_files
      \<Rightarrow> exn + (string \<times> compare_payload) \<times> comparison_files" where
  "compare_runs_tool env allowed baseline_file candidate_file baseline_run_id candidate_run_id files =
     ebind (resolve_run env allowed baseline_file baseline_run_id) (\<lambda>b.
     ebind (resolve_run env allowed candidate_file candidate_run_id) (\<lambda>d.
     ebind (case tv_revision env of Inl RuntimeError \<Rightarrow> Inl (tool_error ''worktree_dirty'') | r \<Rightarrow> r) (\<lambda>revision.
     ebind (recast_invalid ''runs_incompatible''
              (ebind (compare_runs (tv_codec env) (tv_text env) revision ''smoke'' (tv_profile env) (vr_payload b) (vr_payload d)) (\<lambda>x.
               ebind (require (files (rc_comparison_id x) = None \<or> files (rc_comparison_id x) = Some x) RuntimeError) (\<lambda>_.
               Inr x)))) (\<lambda>x.
     Inr ((''comparison:'' @ rc_comparison_id x, compare_payload_of baseline_run_id candidate_run_id x),
          files(rc_comparison_id x \<mapsto> x))))))"

end
