(* ===== verification/RunToolsLemmas.thy ===== *)
theory RunToolsLemmas
  imports RunTools RunComparisonLemmas
begin

text \<open>
  The summary that the comparison tool returns passes the validators of its output model, provided that the Runs
  report the exact means of their Queries and no two Queries share a number; and what the registry guarantees of the
  Runs it resolves.
\<close>

subsection \<open>Counts and means\<close>

lemma count_outcomes_total:
  "oc_improved (count_outcomes ds) + oc_regressed (count_outcomes ds) + oc_tied (count_outcomes ds) = int (length ds)"
  "outcome_counts_ok (count_outcomes ds)"
proof -
  have "length (filter (\<lambda>d. outcome_of_delta d = Improved) ds) + length (filter (\<lambda>d. outcome_of_delta d = Regressed) ds)
      + length (filter (\<lambda>d. outcome_of_delta d = Tied) ds) = length ds"
  proof (induction ds)
    case (Cons d ds)
    then show ?case by (cases "outcome_of_delta d") simp_all
  qed simp
  then show "oc_improved (count_outcomes ds) + oc_regressed (count_outcomes ds) + oc_tied (count_outcomes ds) = int (length ds)"
    by (simp add: count_outcomes_def Let_def flip: of_nat_add)
  show "outcome_counts_ok (count_outcomes ds)" by (simp add: outcome_counts_ok_def count_outcomes_def Let_def)
qed

lemma outcome_cases:
  "outcome_of_delta x = Improved \<longleftrightarrow> float_1e_12 < x" "outcome_of_delta x = Regressed \<longleftrightarrow> x < - float_1e_12"
  by (auto simp: outcome_of_delta_def float_1e_12_def)

lemma sum_upper: "(\<forall>x \<in> set ds. x \<le> (e :: rat)) \<Longrightarrow> sum_list ds \<le> of_nat (length ds) * e"
  by (induction ds) (auto simp: algebra_simps intro: add_mono)

lemma mean_upper:
  assumes "ds \<noteq> []" and "\<forall>x \<in> set ds. x \<le> (e :: rat)"
  shows "sum_list ds / of_nat (length ds) \<le> e"
  using sum_upper [OF assms(2)] assms(1) by (simp add: divide_le_eq mult.commute)

lemma mean_lower:
  assumes "ds \<noteq> []" and "\<forall>x \<in> set ds. (e :: rat) \<le> x"
  shows "e \<le> sum_list ds / of_nat (length ds)"
proof -
  have "sum_list (map uminus ds) = - sum_list ds" by (induction ds) simp_all
  then show ?thesis using mean_upper [of "map uminus ds" "- e"] assms by simp
qed

lemma mean_supported:
  assumes "ds \<noteq> []" and "md_delta m = sum_list ds / of_nat (length ds)"
  shows "aggregate_supported (m, count_outcomes ds)"
proof -
  have up: "md_delta m \<le> float_1e_12" if "oc_improved (count_outcomes ds) = 0"
    using that mean_upper [OF assms(1), of float_1e_12] assms(2)
    by (auto simp: count_outcomes_def Let_def filter_empty_conv outcome_cases not_less)
  have down: "- float_1e_12 \<le> md_delta m" if "oc_regressed (count_outcomes ds) = 0"
    using that mean_lower [OF assms(1), of "- float_1e_12"] assms(2)
    by (auto simp: count_outcomes_def Let_def filter_empty_conv outcome_cases not_less)
  show ?thesis using up down by (auto simp: aggregate_supported_def abs_le_iff)
qed

subsection \<open>The aggregate of a comparison\<close>

lemma query_comparisons_fields:
  "length (query_comparisons b d) = length (er_queries b)"
  "map qc_key (query_comparisons b d) = map query_key (sort_key query_key (er_queries b))"
  "map qc_metrics (query_comparisons b d) =
     map (\<lambda>q. per_metric_of metric_delta_of (rq_metrics q) (rq_metrics (counterpart (er_queries d) q)))
       (sort_key query_key (er_queries b))"
  by (simp_all add: query_comparisons_def matched_comparison_def Let_def comp_def)

lemma sum_list_sorted: "sum_list (map f (sort_key k xs)) = (sum_list (map f xs) :: rat)"
  by (metis mset_map mset_sort sum_mset_sum_list)

lemma aggregate_is_mean:
  assumes m: "matched_runs b d" and f: "\<And>x y. md_delta (f (per_metric_of metric_delta_of x y)) = f' y - f' x"
    and b: "sel_b = sum_list (map (\<lambda>q. f' (rq_metrics q)) (er_queries b)) / of_nat (length (er_queries b))"
    and d: "sel_d = sum_list (map (\<lambda>q. f' (rq_metrics q)) (er_queries d)) / of_nat (length (er_queries d))"
  shows "sel_d - sel_b = sum_list (map (\<lambda>q. md_delta (f (qc_metrics q))) (query_comparisons b d)) / of_nat (length (query_comparisons b d))"
proof -
  let ?bs = "sort_key query_key (er_queries b)"
  have "map (\<lambda>q. md_delta (f (qc_metrics q))) (query_comparisons b d) = map (\<lambda>x. md_delta (f x)) (map qc_metrics (query_comparisons b d))"
    by simp
  also have "\<dots> = map (\<lambda>q. f' (rq_metrics (counterpart (er_queries d) q)) - f' (rq_metrics q)) ?bs"
    unfolding query_comparisons_fields(3) by (simp add: f)
  finally have "sum_list (map (\<lambda>q. md_delta (f (qc_metrics q))) (query_comparisons b d)) =
      sum_list (map (\<lambda>q. f' (rq_metrics q)) (map (counterpart (er_queries d)) ?bs)) - sum_list (map (\<lambda>q. f' (rq_metrics q)) ?bs)"
    by (simp add: sum_list_subtractf comp_def)
  also have "\<dots> = sum_list (map (\<lambda>q. f' (rq_metrics q)) (er_queries d)) - sum_list (map (\<lambda>q. f' (rq_metrics q)) (er_queries b))"
    unfolding sorted_counterparts [OF m] sum_list_sorted ..
  moreover have "length (er_queries d) = length (er_queries b)"
    using arg_cong [OF sorted_counterparts [OF m], of length] by simp
  ultimately show ?thesis by (simp add: b d query_comparisons_fields(1) diff_divide_distrib)
qed

definition exact_means :: "evaluated_run \<Rightarrow> bool" where
  "exact_means r = (er_metrics r = metric_means (er_queries r))"

lemma aggregates_supported:
  assumes m: "matched_runs b d" and e: "exact_means b" "exact_means d"
  shows "list_all aggregate_supported
    (zip (metric_values (per_metric_of metric_delta_of (er_metrics b) (er_metrics d)))
         (metric_values (outcome_counts_of (query_comparisons b d))))"
proof -
  have ne: "query_comparisons b d \<noteq> []"
    using m query_comparisons_fields(1) [of b d] by (auto simp: matched_runs_def run_wf_def)
  have one: "aggregate_supported (metric_delta_of (f' (er_metrics b)) (f' (er_metrics d)),
      count_outcomes (map (\<lambda>q. md_delta (f (qc_metrics q))) (query_comparisons b d)))"
    if f: "\<And>x y. md_delta (f (per_metric_of metric_delta_of x y)) = f' y - f' x"
      and mean: "\<And>qs. f' (metric_means qs) = sum_list (map (\<lambda>q. f' (rq_metrics q)) qs) / of_nat (length qs)"
    for f :: "metric_delta per_metric \<Rightarrow> metric_delta" and f' :: "rat per_metric \<Rightarrow> rat"
  proof (rule mean_supported)
    have "f' (er_metrics b) = sum_list (map (\<lambda>q. f' (rq_metrics q)) (er_queries b)) / of_nat (length (er_queries b))"
      "f' (er_metrics d) = sum_list (map (\<lambda>q. f' (rq_metrics q)) (er_queries d)) / of_nat (length (er_queries d))"
      using e mean by (simp_all add: exact_means_def)
    from aggregate_is_mean [OF m f this]
    show "md_delta (metric_delta_of (f' (er_metrics b)) (f' (er_metrics d))) =
        sum_list (map (\<lambda>q. md_delta (f (qc_metrics q))) (query_comparisons b d)) /
        of_nat (length (map (\<lambda>q. md_delta (f (qc_metrics q))) (query_comparisons b d)))"
      by (simp add: metric_delta_of_def)
  qed (simp add: ne)
  note select = per_metric_of_def metric_delta_of_def metric_means_def Let_def
  have "aggregate_supported (metric_delta_of (f (er_metrics b)) (f (er_metrics d)),
      count_outcomes (map (\<lambda>q. md_delta (f' (qc_metrics q))) (query_comparisons b d)))"
    if "(f, f') \<in> {(pm_ndcg_at_5, pm_ndcg_at_5), (pm_ndcg_at_10, pm_ndcg_at_10), (pm_mrr_at_10, pm_mrr_at_10),
      (pm_success_at_1, pm_success_at_1), (pm_success_at_5, pm_success_at_5)}" for f f'
    using that one [of f' f] by (auto simp: select)
  then show ?thesis
    by (simp add: metric_values_def per_metric_of_def outcome_counts_of_def Let_def)
qed

subsection \<open>The shortened lists\<close>

lemma sorted_take_key: "sorted (map k (take n (sort_key k xs)))"
  by (simp add: take_map [symmetric])

lemma shortlist_props:
  fixes k :: "query_comparison \<Rightarrow> 'k :: linorder"
  assumes "distinct (map (\<lambda>q. snd (qc_key q)) qs)"
  shows "length (take 5 (sort_key k (filter P qs))) = min (length (filter P qs)) 5"
    "set (take 5 (sort_key k (filter P qs))) \<subseteq> {q \<in> set qs. P q}"
    "distinct (map (\<lambda>q. snd (qc_key q)) (take 5 (sort_key k (filter P qs))))"
proof -
  show "length (take 5 (sort_key k (filter P qs))) = min (length (filter P qs)) 5" by (simp add: min.commute)
  show "set (take 5 (sort_key k (filter P qs))) \<subseteq> {q \<in> set qs. P q}" using set_take_subset by fastforce
  have "distinct (map (\<lambda>q. snd (qc_key q)) (filter P qs))" using assms by (rule distinct_map_filter)
  then have "distinct (map (\<lambda>q. snd (qc_key q)) (sort_key k (filter P qs)))"
    by (metis mset_map mset_sort mset_eq_imp_distinct_iff)
  then show "distinct (map (\<lambda>q. snd (qc_key q)) (take 5 (sort_key k (filter P qs))))"
    by (simp add: distinct_take flip: take_map)
qed

subsection \<open>The summary is valid\<close>

lemma metric_values_of: "metric_values (per_metric_of f x y) = map2 f (metric_values x) (metric_values y)"
  by (simp add: metric_values_def per_metric_of_def)

lemma metric_deltas_ok:
  assumes "list_all unit_float (metric_values x)" and "list_all unit_float (metric_values y)"
  shows "list_all metric_delta_ok (metric_values (per_metric_of metric_delta_of x y))"
  using assms by (simp add: metric_values_def per_metric_of_def metric_delta_of_def metric_delta_ok_def isclose_abs_def float_1e_12_def)

lemma query_comparison_deltas:
  assumes m: "matched_runs b d" and q: "q \<in> set (query_comparisons b d)"
  shows "delta_float (ndcg_delta q)" "1 \<le> snd (qc_key q)" "0 \<le> qc_changed_rank_count q"
proof -
  obtain p where p: "p \<in> set (er_queries b)" "q = matched_comparison p (counterpart (er_queries d) p)"
    using q by (auto simp: query_comparisons_def)
  note mq = matched_counterpart(4) [OF m p(1)]
  have wf: "query_wf p" "query_wf (counterpart (er_queries d) p)" using mq by (simp_all add: matched_queries_def)
  then show "delta_float (ndcg_delta q)" "1 \<le> snd (qc_key q)" "0 \<le> qc_changed_rank_count q"
    by (simp_all add: p(2) ndcg_delta_def matched_comparison_def Let_def per_metric_of_def metric_delta_of_def query_wf_def
        metric_values_def query_key_def)
qed

lemma outcome_counts_ok_all:
  "list_all outcome_counts_ok (metric_values (outcome_counts_of qs))"
  "list_all (\<lambda>k. oc_improved k + oc_regressed k + oc_tied k = int (length qs)) (metric_values (outcome_counts_of qs))"
  by (simp_all add: metric_values_def outcome_counts_of_def Let_def count_outcomes_total)

lemma ndcg_counts:
  "oc_regressed (pm_ndcg_at_10 (outcome_counts_of qs)) = int (length (filter (\<lambda>q. ndcg_delta q < - float_1e_12) qs))"
  "oc_improved (pm_ndcg_at_10 (outcome_counts_of qs)) = int (length (filter (\<lambda>q. float_1e_12 < ndcg_delta q) qs))"
  by (simp_all add: outcome_counts_of_def count_outcomes_def Let_def filter_map comp_def outcome_cases ndcg_delta_def)

lemma sort_key_shortlist:
  assumes "\<And>q. k' (query_delta_of q) = k q"
  shows "sort_key k' (map query_delta_of (take n (sort_key k xs))) = map query_delta_of (take n (sort_key k xs))"
  using sorted_take_key [of k n xs] by (intro sort_key_id_if_sorted) (simp add: comp_def assms)

lemma distinct_query_ids:
  assumes "matched_runs b d" and "distinct (map rq_query_id (er_queries b))"
  shows "distinct (map (\<lambda>q. snd (qc_key q)) (query_comparisons b d))"
proof -
  have "map (\<lambda>q. snd (qc_key q)) (query_comparisons b d) = map snd (map qc_key (query_comparisons b d))" by simp
  also have "\<dots> = map rq_query_id (sort_key query_key (er_queries b))"
    unfolding query_comparisons_fields(2) by (simp add: query_key_def)
  finally show ?thesis using assms(2) by (metis mset_map mset_sort mset_eq_imp_distinct_iff)
qed

lemma shortlists_disjoint:
  assumes "distinct (map (\<lambda>q. snd (qc_key q)) qs)"
  shows "(\<lambda>q. snd (qc_key q)) ` set (worst_regressions qs) \<inter> (\<lambda>q. snd (qc_key q)) ` set (best_improvements qs) = {}"
proof -
  have "p = q" if "p \<in> set qs" "q \<in> set qs" "snd (qc_key p) = snd (qc_key q)" for p q
    using assms that by (auto simp: distinct_map inj_on_def)
  then show ?thesis
    using shortlist_props(2) [OF assms, of "\<lambda>q. (ndcg_delta q, snd (qc_key q))" "\<lambda>q. ndcg_delta q < - float_1e_12"]
      shortlist_props(2) [OF assms, of "\<lambda>q. (- ndcg_delta q, snd (qc_key q))" "\<lambda>q. float_1e_12 < ndcg_delta q"]
    unfolding worst_regressions_def best_improvements_def
    by (fastforce simp: float_1e_12_def)
qed

lemma compare_payload_valid:
  assumes m: "matched_runs b d" and e: "exact_means b" "exact_means d" and ids: "distinct (map rq_query_id (er_queries b))"
    and run_ids: "RUN_ID_PATTERN bid" "RUN_ID_PATTERN did" "bid \<noteq> did" and i: "prefixed_hex ''comparison-'' 12 i"
  shows "compare_payload_ok (compare_payload_of bid did ((comparison_content revision b d)\<lparr>rc_comparison_id := i\<rparr>))"
proof -
  let ?qs = "query_comparisons b d"
  let ?w = "map query_delta_of (worst_regressions ?qs)" and ?i = "map query_delta_of (best_improvements ?qs)"
  note dist = distinct_query_ids [OF m ids]
  note short = shortlist_props [OF dist, of "\<lambda>q. (ndcg_delta q, snd (qc_key q))" "\<lambda>q. ndcg_delta q < - float_1e_12",
      folded worst_regressions_def]
    shortlist_props [OF dist, of "\<lambda>q. (- ndcg_delta q, snd (qc_key q))" "\<lambda>q. float_1e_12 < ndcg_delta q",
      folded best_improvements_def]
  have fields: "query_delta_ok (query_delta_of q)" if "q \<in> set ?qs" for q
    using query_comparison_deltas [OF m that] by (simp add: query_delta_ok_def query_delta_of_def)
  have 1: "list_all query_delta_ok ?w" "list_all query_delta_ok ?i" using fields short(2,5) by (auto simp: list_all_iff)
  have 2: "length ?w \<le> 5" "length ?i \<le> 5" using short(1,4) by simp_all
  have 3: "int (length ?w) = min (oc_regressed (pm_ndcg_at_10 (outcome_counts_of ?qs))) 5"
    "int (length ?i) = min (oc_improved (pm_ndcg_at_10 (outcome_counts_of ?qs))) 5"
    using short(1,4) by (simp_all add: ndcg_counts of_nat_min)
  have 4: "distinct (map qd_query_id ?w)" "distinct (map qd_query_id ?i)"
    using short(3,6) by (simp_all add: query_delta_of_def comp_def)
  have 5: "set (map qd_query_id ?w) \<inter> set (map qd_query_id ?i) = {}"
    using shortlists_disjoint [OF dist] by (simp add: query_delta_of_def image_image)
  have 6: "list_all (\<lambda>q. qd_ndcg_at_10_delta q < - float_1e_12) ?w" "list_all (\<lambda>q. float_1e_12 < qd_ndcg_at_10_delta q) ?i"
    using short(2,5) by (auto simp: list_all_iff query_delta_of_def)
  have 7: "?w = sort_key (\<lambda>q. (qd_ndcg_at_10_delta q, qd_query_id q)) ?w"
    "?i = sort_key (\<lambda>q. (- qd_ndcg_at_10_delta q, qd_query_id q)) ?i"
    unfolding worst_regressions_def best_improvements_def
    by (rule sort_key_shortlist [symmetric], simp add: query_delta_of_def)+
  have wf: "list_all unit_float (metric_values (er_metrics b))" "list_all unit_float (metric_values (er_metrics d))" "er_queries b \<noteq> []"
    using m by (simp_all add: matched_runs_def run_wf_def)
  have 8: "1 \<le> int (length ?qs)" using wf(3) query_comparisons_fields(1) [of b d] by (simp add: Suc_le_eq)
  show ?thesis
    unfolding compare_payload_ok_def compare_payload_of_def compare_payload.simps comparison_content_def run_comparison.simps
    using 1 2 3 4 5 6 7 8 run_ids i outcome_counts_ok_all [of ?qs] aggregates_supported [OF m e] metric_deltas_ok [OF wf(1,2)]
    by (intro conjI) (assumption | rule refl)+
qed

subsection \<open>What the registry resolves\<close>

lemma recast_invalid_Inr [simp]: "recast_invalid code m = Inr x \<longleftrightarrow> m = Inr x"
  by (auto simp: recast_invalid_def split: sum.splits)

lemma load_and_validate_Inr:
  assumes "load_and_validate env allowed require_admitted file run_id = Inr v"
  shows "\<exists>f. file = Some f \<and> vr_artifact_sha256 v = cd_sha (tv_codec env) (rf_first f) \<and>
      cd_sha (tv_codec env) (rf_last f) = vr_artifact_sha256 v \<and> tv_parse env (rf_parsed f) = Inr (vr_payload v)"
    "jget (vr_payload v) ''run_id'' = JStr run_id"
    "validate_run (tv_codec env) (tv_text env) (vr_payload v) = Inr (vr_run v)"
    "allowed run_id = None \<or> allowed run_id = Some (vr_artifact_sha256 v)" "require_admitted \<Longrightarrow> allowed run_id \<noteq> None"
  using assms
  by (auto simp: load_and_validate_def load_run_from_store_def validate_trusted_run_def Let_def)

text \<open>Every operation of the registry, as the pins it leaves behind.\<close>

inductive registry_step :: "tool_env \<Rightarrow> allowed_runs \<Rightarrow> allowed_runs \<Rightarrow> bool" for env where
  admit: "admit_existing env file run_id allowed = Inr (v, allowed') \<Longrightarrow> registry_step env allowed allowed'"
| register: "register_generated env stored file run allowed = Inr (r, allowed') \<Longrightarrow> registry_step env allowed allowed'"
| fail: "registry_step env allowed allowed"

inductive_cases registry_stepE: "registry_step env allowed allowed'"

lemma admit_existing_Inr:
  "admit_existing env file run_id allowed = Inr (v, allowed') \<Longrightarrow>
   allowed' = allowed(run_id \<mapsto> vr_artifact_sha256 v) \<and> (allowed run_id = None \<or> allowed run_id = Some (vr_artifact_sha256 v))"
  by (auto simp: admit_existing_def dest: load_and_validate_Inr(4))

lemma registry_step_pins:
  assumes "registry_step env allowed allowed'"
  shows "allowed \<subseteq>\<^sub>m allowed'"
proof -
  have "allowed \<subseteq>\<^sub>m allowed'" if "admit_existing env f run_id allowed = Inr (v, allowed')" for f run_id v
    using admit_existing_Inr [OF that] by (auto simp: map_le_def)
  then show ?thesis using assms by (auto elim!: registry_stepE simp: register_generated_def)
qed

lemma registry_steps_pins: "(registry_step env)\<^sup>*\<^sup>* allowed allowed' \<Longrightarrow> allowed \<subseteq>\<^sub>m allowed'"
  by (induction rule: rtranclp_induct) (auto intro: map_le_trans registry_step_pins)

end
