(* ===== verification/RunSamples.thy ===== *)
theory RunSamples
  imports RunTools Samples StrategyLemmas
begin

text \<open>
  Two concrete Runs of one Query with two exact products, ranked in opposite orders by two rankers, and a tool
  environment whose parser returns them. The lemmas evaluate the validation of both.
\<close>

definition sample_text :: pytext where
  "sample_text = \<lparr>pt_upper = map (\<lambda>n. if 97 \<le> n \<and> n \<le> 122 then n - 32 else n), pt_str = (\<lambda>_. ''x'')\<rparr>"

definition sample_policy_json :: dict where
  "sample_policy_json =
     [(''description'', JStr ''sample''),
      (''label_gains'', JObj [(''E'', fin_json 1), (''S'', fin_json 0), (''C'', fin_json 0), (''I'', fin_json 0)]),
      (''policy_id'', JStr ''sample''), (''relevant_labels'', JList [JStr ''E'']),
      (''schema_version'', JStr ''relevance-policy-v1'')]"

definition sample_policy :: relevance_policy where
  "sample_policy =
     \<lparr>rp_policy_id = ''sample'', rp_gains = [([69], 1), ([83], 0), ([67], 0), ([73], 0)], rp_relevant = [[69]],
      rp_description = ''sample''\<rparr>"

definition sample_item_json :: "string \<Rightarrow> int \<Rightarrow> json" where
  "sample_item_json product rank = JObj
     [(''example_id'', JInt 1), (''gain'', fin_json 1), (''label'', JStr ''E''), (''locale'', JStr ''us''),
      (''product_id'', JStr product), (''rank'', JInt rank), (''score'', fin_json (of_int (- rank)))]"

definition sample_item :: "string \<Rightarrow> int \<Rightarrow> ranked_item" where
  "sample_item product rank =
     \<lparr>it_locale = ''us'', it_product_id = product, it_rank = rank, it_example_id = 1, it_score = of_int (- rank),
      it_label = ''E'', it_gain = 1\<rparr>"

definition sample_ones :: json where
  "sample_ones = JObj (map (\<lambda>m. (m, fin_json 1)) METRIC_NAMES)"

definition unit_metrics :: "rat per_metric" where
  "unit_metrics = \<lparr>pm_ndcg_at_5 = 1, pm_ndcg_at_10 = 1, pm_mrr_at_10 = 1, pm_success_at_1 = 1, pm_success_at_5 = 1\<rparr>"

definition sample_dataset :: dict where
  "sample_dataset =
     [(''canonical_sha256'', JStr sample_hash), (''eval_splits'', JList [JStr ''dev'']), (''file'', JStr ''smoke.parquet''),
      (''file_sha256'', JStr sample_hash), (''judgments'', JInt 2), (''locales'', JList [JStr ''us'']),
      (''origin_splits'', JList [JStr ''train'']), (''products'', JInt 2), (''profile'', JStr ''smoke''),
      (''queries'', JInt 1), (''source_commit'', JStr (hex_text 40 CHR ''a'')), (''stage1_manifest_sha256'', JStr sample_hash),
      (''stage1_schema_version'', JStr ''v1'')]"

definition sample_products :: "bool \<Rightarrow> string \<times> string" where
  "sample_products flipped = (if flipped then (''q'', ''p'') else (''p'', ''q''))"

definition sample_query_json :: "bool \<Rightarrow> json" where
  "sample_query_json flipped = JObj
     [(''candidate_count'', JInt 2), (''locale'', JStr ''us''), (''metrics'', sample_ones), (''query_id'', JInt 7),
      (''query_text'', JStr ''shoe''),
      (''ranking'', JList [sample_item_json (fst (sample_products flipped)) 1, sample_item_json (snd (sample_products flipped)) 2])]"

definition sample_run_query :: "bool \<Rightarrow> run_query" where
  "sample_run_query flipped =
     \<lparr>rq_locale = ''us'', rq_query_id = 7, rq_query_text = ''shoe'', rq_metrics = unit_metrics,
      rq_ranking = [sample_item (fst (sample_products flipped)) 1, sample_item (snd (sample_products flipped)) 2]\<rparr>"

definition sample_ranker_id :: "bool \<Rightarrow> string" where
  "sample_ranker_id flipped = (if flipped then ''candidate-title-bm25-v1'' else ''candidate-random-v1'')"

definition sample_run_id :: "bool \<Rightarrow> string" where
  "sample_run_id flipped = (if flipped then ''bm25-'' else ''random-'') @ hex_text 12 CHR ''a''"

definition sample_run :: "bool \<Rightarrow> dict" where
  "sample_run flipped =
     [(''code_revision'', JStr (hex_text 40 CHR ''a'')), (''dataset'', JObj sample_dataset), (''evaluation_boundary'', BOUNDARY),
      (''metrics'', sample_ones), (''per_query'', JList [sample_query_json flipped]),
      (''ranker'', JObj [(''ranker_id'', JStr (sample_ranker_id flipped))]), (''relevance_policy'', JObj sample_policy_json),
      (''run_id'', JStr (sample_run_id flipped)), (''schema_version'', JStr RUN_SCHEMA_VERSION)]"

definition sample_evaluated :: "bool \<Rightarrow> evaluated_run" where
  "sample_evaluated flipped =
     \<lparr>er_run_id = sample_run_id flipped, er_code_revision = hex_text 40 CHR ''a'', er_dataset = sample_dataset,
      er_boundary = BOUNDARY, er_policy = JObj sample_policy_json,
      er_ranker = [(''ranker_id'', JStr (sample_ranker_id flipped))], er_ranker_id = sample_ranker_id flipped,
      er_metrics = unit_metrics, er_queries = [sample_run_query flipped]\<rparr>"

subsection \<open>Their validation\<close>

lemma not_blank: "33 \<le> (of_char a :: nat) \<Longrightarrow> (of_char a :: nat) < 128 \<Longrightarrow> \<not> blank (a # s)"
  by (auto simp: blank_def strip_empty_iff whitespace_def Let_def)

lemma sample_not_blank [simp]:
  "\<not> blank ''us''" "\<not> blank ''p''" "\<not> blank ''q''" "\<not> blank ''E''" "\<not> blank ''shoe''" "\<not> blank ''v1''" "\<not> blank ''smoke.parquet''"
  "\<not> blank ''sample''" "\<not> blank (sample_ranker_id flipped)"
  by (simp_all add: not_blank sample_ranker_id_def)

lemma sample_ascii [simp]:
  "decode_utf8 ''E'' = [69]" "decode_utf8 ''S'' = [83]" "decode_utf8 ''C'' = [67]" "decode_utf8 ''I'' = [73]"
  "decode_utf8 ''sample'' = [115, 97, 109, 112, 108, 101]"
  by simp_all

lemma sample_strip_bytes [simp]: "strip_bytes ''sample'' = ''sample''"
proof -
  have "strip [115, 97, 109, 112, 108, 101] = [115, 97, 109, 112, 108, 101]" by (simp add: strip_def whitespace_def)
  moreover have "utf8 [115, 97, 109, 112, 108, 101] = Inr ''sample''"
    by (simp add: utf8_def utf8_char_def char_of_def bit_0)
  ultimately show ?thesis by (simp add: strip_bytes_def)
qed

lemma sample_labels [simp]:
  "normalized_label sample_text ''E'' = [69]" "normalized_label sample_text ''S'' = [83]"
  "normalized_label sample_text ''C'' = [67]" "normalized_label sample_text ''I'' = [73]"
  by (simp_all add: normalized_label_def sample_text_def strip_def whitespace_def)

lemma sample_policy_read: "policy_from_dict sample_text sample_policy_json = Inr sample_policy"
proof -
  have gains: "normalize_gains sample_text [] [(''E'', fin_json 1), (''S'', fin_json 0), (''C'', fin_json 0), (''I'', fin_json 0)] =
      Inr (rp_gains sample_policy)"
    by (simp add: validate_gain_def sample_policy_def del: decode_utf8.simps)
  show ?thesis
    using gains by (simp add: policy_from_dict_def policy_init_def sample_policy_json_def dget_def text_field_def text_of_def
      POLICY_SCHEMA_VERSION_def IRRELEVANT_def ESCI_LABELS_def sample_policy_def insert_commute del: normalize_gains.simps)
qed

lemma sample_policy_canonical: "py_eq (JObj sample_policy_json) (JObj (relevance_to_dict sample_policy))"
  by (simp add: relevance_to_dict_def sample_policy_def sample_policy_json_def ESCI_LABELS_def POLICY_SCHEMA_VERSION_def
      label_text_def char_of_def bit_0 py_eq_def)

lemma sample_item_valid:
  assumes "(''us'', product) \<notin> set seen" and "\<not> blank product" and "1 \<le> rank"
  shows "validate_item sample_text sample_policy ''us'' seen rank (sample_item_json product rank) = Inr (sample_item product rank)"
proof -
  have gain: "policy_gain sample_text sample_policy ''E'' = Inr 1"
    by (simp add: policy_gain_def known_label_def ESCI_LABELS_def sample_policy_def del: decode_utf8.simps)
  have label: "pt_upper sample_text (decode_utf8 ''E'') = decode_utf8 ''E''" by (simp add: sample_text_def del: decode_utf8.simps)
  have keys: "set (dict_keys [(''example_id'', JInt 1), (''gain'', fin_json 1), (''label'', JStr ''E''), (''locale'', JStr ''us''),
      (''product_id'', JStr product), (''rank'', JInt rank), (''score'', fin_json (of_int (- rank)))]) = set RANKING_KEYS"
    by (simp add: dict_keys_def RANKING_KEYS_def)
  show ?thesis
    using assms gain label keys
    by (simp add: validate_item_def sample_item_json_def sample_item_def require_dict_def non_empty_string_def positive_int_def
        finite_value_def dget_def isclose_abs_refl del: decode_utf8.simps set_map)
qed

lemma sample_products_distinct:
  "fst (sample_products flipped) \<noteq> snd (sample_products flipped)"
  "\<not> blank (fst (sample_products flipped))" "\<not> blank (snd (sample_products flipped))"
  by (simp_all add: sample_products_def)

lemma sample_ones_read: "require_dict sample_ones = Inr (map (\<lambda>m. (m, fin_json 1)) METRIC_NAMES)"
  "read_metrics (map (\<lambda>m. (m, fin_json 1)) METRIC_NAMES) = Inr unit_metrics"
proof -
  have "metric_value (map (\<lambda>m. (m, fin_json 1)) METRIC_NAMES) name = Inr 1" if "name \<in> set METRIC_NAMES" for name
    using that by (simp add: metric_value_def finite_value_def dget_def map_of_map_restrict)
  then have "traverse (metric_value (map (\<lambda>m. (m, fin_json 1)) METRIC_NAMES)) METRIC_NAMES = Inr (map (\<lambda>_. 1) METRIC_NAMES)"
    by (intro traverse_Inr_map) simp
  moreover have "set (dict_keys (map (\<lambda>m. (m, fin_json 1)) METRIC_NAMES)) = set METRIC_NAMES"
    by (simp add: dict_keys_def comp_def)
  ultimately show "read_metrics (map (\<lambda>m. (m, fin_json 1)) METRIC_NAMES) = Inr unit_metrics"
    by (simp add: read_metrics_def METRIC_NAMES_def unit_metrics_def)
  show "require_dict sample_ones = Inr (map (\<lambda>m. (m, fin_json 1)) METRIC_NAMES)"
    by (simp add: require_dict_def sample_ones_def)
qed

lemma sample_ndcg: "1 \<le> k \<Longrightarrow> ndcg_at_k [fin_json 1, fin_json 1] [fin_json 1, fin_json 1] (JInt k) = Inr 1"
proof -
  assume "1 \<le> k"
  have gains: "validate_gains [fin_json 1, fin_json 1] = Inr [1, 1]" by (simp add: validate_gains_def validate_gain_def)
  have "descending [1, 1 :: rat] = [1, 1]" by (simp add: descending_def)
  moreover obtain n where "nat k = Suc n" using \<open>1 \<le> k\<close> by (cases "nat k") auto
  then have "0 < dcg [1, 1] (nat k)"
    by (cases n) (simp_all add: dcg_def add_pos_nonneg add_nonneg_pos enumerate_eq_zip)
  ultimately show ?thesis using gains \<open>1 \<le> k\<close> by (simp add: ndcg_at_k_def Let_def)
qed

lemma sample_relevant: "policy_relevant sample_text sample_policy ''E'' = Inr True"
  by (simp add: policy_relevant_def known_label_def ESCI_LABELS_def sample_policy_def del: decode_utf8.simps)

lemma sample_expected:
  "expected_metrics (rq_ranking (sample_run_query flipped)) [JBool True, JBool True] =
     Inr \<lparr>pm_ndcg_at_5 = 1, pm_ndcg_at_10 = 1, pm_mrr_at_10 = 1, pm_success_at_1 = 1, pm_success_at_5 = 1\<rparr>"
  by (simp add: expected_metrics_def json_gains_def sample_run_query_def sample_item_def sample_ndcg reciprocal_rank_at_k_def
      success_at_k_def validate_relevance_def validate_k_def)

lemma sample_query_valid:
  "validate_query sample_text sample_policy [] (sample_query_json flipped) = Inr (sample_run_query flipped)"
proof -
  note p = sample_products_distinct [of flipped]
  have items: "validate_items sample_text sample_policy ''us'' [] 1
      [sample_item_json (fst (sample_products flipped)) 1, sample_item_json (snd (sample_products flipped)) 2] =
      Inr (rq_ranking (sample_run_query flipped))"
    using p by (simp add: sample_item_valid sample_run_query_def item_key_def sample_item_def del: set_map)
  have keys: "set (dict_keys [(''candidate_count'', JInt 2), (''locale'', JStr ''us''), (''metrics'', sample_ones), (''query_id'', JInt 7),
      (''query_text'', JStr ''shoe''),
      (''ranking'', JList [sample_item_json (fst (sample_products flipped)) 1, sample_item_json (snd (sample_products flipped)) 2])]) =
      set QUERY_KEYS"
    by (simp add: dict_keys_def QUERY_KEYS_def)
  have relevance: "traverse (\<lambda>x. policy_relevant sample_text sample_policy (it_label x)) (rq_ranking (sample_run_query flipped)) =
      Inr [True, True]"
    by (simp add: sample_run_query_def sample_item_def sample_relevant)
  have match: "metrics_match unit_metrics
      \<lparr>pm_ndcg_at_5 = 1, pm_ndcg_at_10 = 1, pm_mrr_at_10 = 1, pm_success_at_1 = 1, pm_success_at_5 = 1\<rparr>"
    by (simp add: metrics_match_def metric_values_def unit_metrics_def within_epsilon_def float_1e_12_def)
  have "sample_run_query flipped = \<lparr>rq_locale = ''us'', rq_query_id = 7, rq_query_text = ''shoe'', rq_metrics = unit_metrics,
      rq_ranking = rq_ranking (sample_run_query flipped)\<rparr>"
    by (simp add: sample_run_query_def)
  then show ?thesis
    using items keys relevance match sample_expected [of flipped] sample_ones_read
    by (simp add: validate_query_def sample_query_json_def require_dict_def [of "JObj d" for d] require_list_def non_empty_string_def positive_int_def
        dget_def del: validate_items.simps decode_utf8.simps set_map)
qed


lemma sample_dataset_valid: "validate_dataset sample_dataset = Inr ()"
proof -
  have keys: "set (dict_keys sample_dataset) = set DATASET_KEYS"
    by (simp add: dict_keys_def sample_dataset_def DATASET_KEYS_def del: set_map)
  have hex: "hex_exact 64 sample_hash" "hex_exact 40 (hex_text 40 CHR ''a'')" by code_simp+
  have plain: "plain_file_name ''smoke.parquet''" by (simp add: plain_file_name_def)
  show ?thesis
    unfolding validate_dataset_def keys
    using hex plain by (simp add: sample_dataset_def dget_def in_str_set_def string_that_def)
qed

lemma sample_counts_valid: "validate_counts sample_dataset [sample_run_query flipped] = Inr ()"
proof -
  have "card (run_products [sample_run_query flipped]) = 2"
    by (simp add: run_products_def sample_run_query_def sample_item_def item_key_def sample_products_def)
  then show ?thesis
    by (simp add: validate_counts_def sample_dataset_def dget_def sample_run_query_def sorted_ids_def)
qed

lemma sample_digest_valid: "validate_digest sample_codec (sample_run_id flipped) (sample_run flipped) = Inr ()"
proof -
  have "json_ok (JObj (filter (\<lambda>p. fst p \<noteq> ''run_id'') (sample_run flipped)))"
    by (simp add: sample_run_def sample_dataset_def BOUNDARY_def sample_ones_def sample_query_json_def sample_item_json_def
        sample_policy_json_def list_all_iff)
  then show ?thesis
    by (simp add: validate_digest_def canonical_json_bytes_def ensure_json_value_def sample_codec_def sample_hash_def
        sample_run_id_def hex_text_def del: json_ok.simps)
qed

lemma sample_run_valid: "validate_run sample_codec sample_text (JObj (sample_run flipped)) = Inr (sample_evaluated flipped)"
proof -
  have keys: "set (dict_keys (sample_run flipped)) = set RUN_KEYS"
    by (simp add: dict_keys_def sample_run_def RUN_KEYS_def del: set_map)
  have "RUN_ID_PATTERN (sample_run_id True)" "RUN_ID_PATTERN (sample_run_id False)" by code_simp+
  then have id: "RUN_ID_PATTERN (sample_run_id flipped)" by (cases flipped) simp_all
  have hex: "hex_exact 40 (hex_text 40 CHR ''a'')" by code_simp
  have prefix: "case map_of RUN_PREFIX_BY_RANKER_ID (sample_ranker_id flipped) of None \<Rightarrow> True
      | Some prefix \<Rightarrow> take (length (sample_run_id flipped) - 13) (sample_run_id flipped) = prefix"
    by (cases flipped) (simp_all add: RUN_PREFIX_BY_RANKER_ID_def sample_ranker_id_def sample_run_id_def hex_text_def)
  have means: "metric_means [sample_run_query flipped] = unit_metrics"
    by (simp add: metric_means_def sample_run_query_def unit_metrics_def)
  have close: "list_all2 (isclose_abs float_1e_12) (metric_values unit_metrics) (metric_values unit_metrics)"
    by (simp add: metric_values_def isclose_abs_refl)
  have queries: "validate_queries sample_text sample_policy [] [sample_query_json flipped] = Inr [sample_run_query flipped]"
    by (simp add: sample_query_valid)
  have get: "dget (sample_run flipped) ''schema_version'' = JStr RUN_SCHEMA_VERSION"
    "dget (sample_run flipped) ''run_id'' = JStr (sample_run_id flipped)"
    "dget (sample_run flipped) ''code_revision'' = JStr (hex_text 40 CHR ''a'')"
    "dget (sample_run flipped) ''dataset'' = JObj sample_dataset"
    "dget (sample_run flipped) ''evaluation_boundary'' = BOUNDARY"
    "dget (sample_run flipped) ''relevance_policy'' = JObj sample_policy_json"
    "dget (sample_run flipped) ''ranker'' = JObj [(''ranker_id'', JStr (sample_ranker_id flipped))]"
    "dget (sample_run flipped) ''metrics'' = sample_ones"
    "dget (sample_run flipped) ''per_query'' = JList [sample_query_json flipped]"
    "dget [(''ranker_id'', v)] ''ranker_id'' = v" for v
    by (simp_all add: sample_run_def dget_def)
  have boundary: "ebind (require_dict BOUNDARY) (\<lambda>b. require (py_eq (JObj b) BOUNDARY) ValueError) = Inr ()"
    by (simp add: BOUNDARY_def require_dict_def)
  show ?thesis
    using keys id hex prefix means close queries sample_dataset_valid sample_policy_read sample_policy_canonical sample_ones_read
      sample_counts_valid [of flipped] sample_digest_valid [of flipped]
    by (simp add: validate_run_def get boundary require_dict_def [of "JObj d" for d] require_list_def dec_pattern_def
        sample_evaluated_def del: validate_queries.simps)
qed

end
