(* ===== verification/ComparisonProperties.thy ===== *)
theory ComparisonProperties
  imports RunToolsLemmas RunSamples
begin

text \<open>
  The properties of Run comparison: a comparison is consistent and mirrored when the Runs are swapped, the summary
  that the tool returns is valid and can be scored, and the registry binds an admitted Run ID to its content.
\<close>

lemma compare_runs_Inr:
  assumes "compare_runs c pt revision profile trusted braw draw = Inr x"
  obtains b d p where "validate_run c pt braw = Inr b" "validate_run c pt draw = Inr d" "trusted = Inr p"
    "validate_trusted_provenance p b = Inr ()" "validate_trusted_provenance p d = Inr ()" "matched_runs b d"
    "\<exists>i. x = (comparison_content (strip_bytes revision) b d)\<lparr>rc_comparison_id := i\<rparr>"
    "hex_exact 40 (strip_bytes revision)" "ensure_profile_authorized profile = Inr ()"
proof -
  obtain b d p where v: "validate_run c pt braw = Inr b" "validate_run c pt draw = Inr d" "trusted = Inr p"
    "validate_trusted_provenance p b = Inr ()" "validate_trusted_provenance p d = Inr ()"
    "hex_exact 40 (strip_bytes revision)" "ensure_profile_authorized profile = Inr ()"
    "compare_validated c (strip_bytes revision) b d = Inr x"
    using assms by (auto simp: compare_runs_def Let_def)
  have "matched_runs b d" "\<exists>i. x = (comparison_content (strip_bytes revision) b d)\<lparr>rc_comparison_id := i\<rparr>"
    using compare_validated_Inr [OF validate_run_wf [OF v(1)] validate_run_wf [OF v(2)] v(8)] by blast+
  then show ?thesis using that v by blast
qed

lemma comparison_content_fields [simp]:
  "rc_aggregate ((comparison_content revision b d)\<lparr>rc_comparison_id := i\<rparr>) = per_metric_of metric_delta_of (er_metrics b) (er_metrics d)"
  "rc_outcome_counts ((comparison_content revision b d)\<lparr>rc_comparison_id := i\<rparr>) = outcome_counts_of (query_comparisons b d)"
  "rc_per_query ((comparison_content revision b d)\<lparr>rc_comparison_id := i\<rparr>) = query_comparisons b d"
  by (simp_all add: comparison_content_def)

lemma mirrored_deltas:
  fixes f :: "metric_delta per_metric \<Rightarrow> metric_delta"
  assumes "list_all2 mirrored_queries ps qs" and f: "\<And>x y. metric_values y = map mirror_delta (metric_values x) \<Longrightarrow> md_delta (f y) = - md_delta (f x)"
  shows "map (\<lambda>q. md_delta (f (qc_metrics q))) qs = map uminus (map (\<lambda>q. md_delta (f (qc_metrics q))) ps)"
  using assms(1) by (induction rule: list_all2_induct) (auto simp: mirrored_queries_def f)

lemma mirrored_counts:
  assumes "list_all2 mirrored_queries ps qs"
  shows "metric_values (outcome_counts_of qs) = map mirror_counts (metric_values (outcome_counts_of ps))"
proof -
  have "count_outcomes (map (\<lambda>q. md_delta (f (qc_metrics q))) qs) = mirror_counts (count_outcomes (map (\<lambda>q. md_delta (f (qc_metrics q))) ps))"
    if "\<And>x y. metric_values y = map mirror_delta (metric_values x) \<Longrightarrow> md_delta (f y) = - md_delta (f x)"
    for f :: "metric_delta per_metric \<Rightarrow> metric_delta"
    using mirrored_deltas [OF assms, of f] that count_outcomes_negated by metis
  then show ?thesis by (simp add: metric_values_def outcome_counts_of_def Let_def mirror_delta_def)
qed

text \<open>
  C18. Comparing is antisymmetric: whenever the comparator accepts two Runs it accepts them in the other order, and
  the second comparison is the mirror image of the first. Aggregate differences are negated, improved and regressed
  Queries change places, and for every Query each product moves back by as many ranks as it had moved.
\<close>

theorem comparison_mirrored:
  assumes "compare_runs c pt revision profile trusted braw draw = Inr x"
  shows "\<exists>y. compare_runs c pt revision profile trusted draw braw = Inr y \<and>
    metric_values (rc_aggregate y) = map mirror_delta (metric_values (rc_aggregate x)) \<and>
    metric_values (rc_outcome_counts y) = map mirror_counts (metric_values (rc_outcome_counts x)) \<and>
    list_all2 mirrored_queries (rc_per_query x) (rc_per_query y)"
proof -
  obtain b d p where v: "validate_run c pt braw = Inr b" "validate_run c pt draw = Inr d" "trusted = Inr p"
    "validate_trusted_provenance p b = Inr ()" "validate_trusted_provenance p d = Inr ()"
    and m: "matched_runs b d" and x: "\<exists>i. x = (comparison_content (strip_bytes revision) b d)\<lparr>rc_comparison_id := i\<rparr>"
    and r: "hex_exact 40 (strip_bytes revision)" "ensure_profile_authorized profile = Inr ()"
    by (rule compare_runs_Inr [OF assms])
  note q = query_comparisons_mirrored [OF m]
  obtain j where "compare_validated c (strip_bytes revision) d b = Inr ((comparison_content (strip_bytes revision) d b)\<lparr>rc_comparison_id := j\<rparr>)"
    using compare_validated_eq [OF matched_runs_sym [OF m]] by blast
  then have "compare_runs c pt revision profile trusted draw braw = Inr ((comparison_content (strip_bytes revision) d b)\<lparr>rc_comparison_id := j\<rparr>)"
    using v r by (simp add: compare_runs_def Let_def)
  then show ?thesis using x q mirrored_counts [OF q] mirror_metrics [of "er_metrics d" "er_metrics b"] by auto
qed

definition mean_deltas :: "query_comparison list \<Rightarrow> rat per_metric" where
  "mean_deltas qs =
     (let average = \<lambda>f. sum_list (map (\<lambda>q. md_delta (f (qc_metrics q))) qs) / of_nat (length qs) in
      \<lparr>pm_ndcg_at_5 = average pm_ndcg_at_5, pm_ndcg_at_10 = average pm_ndcg_at_10, pm_mrr_at_10 = average pm_mrr_at_10,
       pm_success_at_1 = average pm_success_at_1, pm_success_at_5 = average pm_success_at_5\<rparr>)"

lemma means_subtract:
  assumes m: "matched_runs b d"
  shows "mean_deltas (query_comparisons b d) = per_metric_of (\<lambda>u v. v - u) (metric_means (er_queries b)) (metric_means (er_queries d))"
proof -
  note select = per_metric_of_def metric_delta_of_def
  show ?thesis
    unfolding mean_deltas_def Let_def
    by (simp add: select metric_means_def Let_def
      aggregate_is_mean [OF m, of pm_ndcg_at_5 pm_ndcg_at_5, OF _ refl refl, unfolded select, simplified]
      aggregate_is_mean [OF m, of pm_ndcg_at_10 pm_ndcg_at_10, OF _ refl refl, unfolded select, simplified]
      aggregate_is_mean [OF m, of pm_mrr_at_10 pm_mrr_at_10, OF _ refl refl, unfolded select, simplified]
      aggregate_is_mean [OF m, of pm_success_at_1 pm_success_at_1, OF _ refl refl, unfolded select, simplified]
      aggregate_is_mean [OF m, of pm_success_at_5 pm_success_at_5, OF _ refl refl, unfolded select, simplified])
qed

text \<open>
  C21. What a comparison reports is consistent. In every Query the movements add up to zero, a single product never
  moves alone, and a changed top ten shows at least two moves; the outcome counts of each metric add up to the number of
  Queries; and every aggregate difference is the mean of the Query differences up to twice the tolerance.
\<close>

theorem comparison_consistent:
  assumes "compare_runs c pt revision profile trusted braw draw = Inr x"
  shows "list_all query_comparison_sound (rc_per_query x) \<and>
    list_all (\<lambda>k. oc_improved k + oc_regressed k + oc_tied k = int (length (rc_per_query x))) (metric_values (rc_outcome_counts x)) \<and>
    list_all2 (\<lambda>m mean. \<bar>md_delta m - mean\<bar> \<le> 2 * float_1e_12) (metric_values (rc_aggregate x))
      (metric_values (mean_deltas (rc_per_query x)))"
proof -
  obtain b d where m: "matched_runs b d" and "\<exists>i. x = (comparison_content (strip_bytes revision) b d)\<lparr>rc_comparison_id := i\<rparr>"
    by (rule compare_runs_Inr [OF assms])
  then obtain i where x: "x = (comparison_content (strip_bytes revision) b d)\<lparr>rc_comparison_id := i\<rparr>" by blast
  have "query_comparison_sound q" if "q \<in> set (query_comparisons b d)" for q
    using that matched_counterpart(4) [OF m] matched_comparison_sound by (auto simp: query_comparisons_def)
  moreover have "list_all2 (isclose_abs float_1e_12) (metric_values (er_metrics r)) (metric_values (metric_means (er_queries r)))"
    if "r \<in> {b, d}" for r
    using m that by (auto simp: matched_runs_def run_wf_def)
  from this [of b] this [of d] have "list_all2 (\<lambda>m mean. \<bar>md_delta m - mean\<bar> \<le> 2 * float_1e_12)
      (metric_values (per_metric_of metric_delta_of (er_metrics b) (er_metrics d)))
      (metric_values (mean_deltas (query_comparisons b d)))"
    unfolding means_subtract [OF m]
    by (auto simp: metric_values_def per_metric_of_def metric_delta_of_def isclose_abs_def abs_le_iff)
  ultimately show ?thesis using outcome_counts_ok_all(2) [of "query_comparisons b d"] by (simp add: x list_all_iff)
qed

text \<open>The two sample Runs, their environment and their comparison.\<close>

definition sample_profile :: evaluation_profile where
  "sample_profile =
     \<lparr>ep_profile_id = ''smoke'', ep_file_name = ''smoke.parquet'', ep_file_sha256 = sample_hash, ep_canonical_sha256 = sample_hash,
      ep_stage1_manifest_sha256 = sample_hash, ep_stage1_schema_version = ''v1'', ep_source_commit = hex_text 40 CHR ''a'',
      ep_expected_rows = 2, ep_expected_queries = 1, ep_expected_products = 2\<rparr>"

definition sample_tool_env :: tool_env where
  "sample_tool_env =
     \<lparr>tv_codec = sample_codec, tv_text = sample_text, tv_parse = (\<lambda>bytes. Inr (JObj (sample_run (bytes = ''1'')))),
      tv_pretty = (\<lambda>_. ''{}''), tv_profile = Inr sample_profile, tv_revision = Inr (hex_text 40 CHR ''a'')\<rparr>"

definition sample_file :: "bool \<Rightarrow> run_file" where
  "sample_file flipped = (let bytes = (if flipped then ''1'' else ''0'') in \<lparr>rf_first = bytes, rf_parsed = bytes, rf_last = bytes\<rparr>)"

lemma sample_provenance: "validate_trusted_provenance sample_profile (sample_evaluated flipped) = Inr ()"
  by (simp add: validate_trusted_provenance_def to_manifest_dict_def expected_counts_def sample_profile_def sample_evaluated_def
      sample_dataset_def dget_def)

lemma sample_matched: "matched_runs (sample_evaluated False) (sample_evaluated True)"
proof -
  have "candidate_evidence (sample_run_query False) = candidate_evidence (sample_run_query True)"
    by (auto simp: candidate_evidence_def sample_run_query_def sample_products_def sample_item_def item_key_def)
  then have "compatible_query (sample_run_query False) (sample_run_query True)"
    by (simp add: compatible_query_def) (simp add: sample_run_query_def)
  moreover have "find_query [sample_run_query True] (query_key (sample_run_query False)) = Inr (sample_run_query True)"
    by (simp add: find_query_def query_key_def sample_run_query_def)
  moreover have "query_key (sample_run_query False) = query_key (sample_run_query True)"
    by (simp add: query_key_def sample_run_query_def)
  ultimately have "validate_compatibility (sample_evaluated False) (sample_evaluated True) = Inr ()"
    by (simp add: validate_compatibility_def sample_evaluated_def)
  then show ?thesis using validate_run_wf [OF sample_run_valid] by (simp add: matched_runs_def)
qed

lemma sample_revision: "strip_bytes (hex_text 40 CHR ''a'') = hex_text 40 CHR ''a''" "hex_exact 40 (hex_text 40 CHR ''a'')"
proof -
  have d: "decode_utf8 (replicate n CHR ''a'') = replicate n 97" for n by (induction n) (simp_all add: Let_def)
  have "traverse utf8_char (replicate n 97) = Inr (replicate n ''a'')" for n
    by (induction n) (simp_all add: utf8_char_def char_of_def bit_0)
  moreover have "concat (replicate n ''a'') = replicate n CHR ''a''" for n by (induction n) simp_all
  moreover have "strip (replicate n 97) = replicate n 97" for n
    by (simp add: strip_def dropWhile_eq_self_iff whitespace_def)
  ultimately show "strip_bytes (hex_text 40 CHR ''a'') = hex_text 40 CHR ''a''"
    by (simp add: strip_bytes_def hex_text_def d utf8_def del: replicate.simps)
  show "hex_exact 40 (hex_text 40 CHR ''a'')" by code_simp
qed

lemma sample_comparison:
  "\<exists>x. compare_runs sample_codec sample_text (hex_text 40 CHR ''a'') ''smoke'' (Inr sample_profile)
     (JObj (sample_run False)) (JObj (sample_run True)) = Inr x"
  using compare_validated_eq [OF sample_matched, of sample_codec "hex_text 40 CHR ''a''"]
  by (auto simp: compare_runs_def Let_def sample_revision ensure_profile_authorized_def sample_run_valid sample_provenance)

theorem comparison_mirrored_witness:
  "\<exists>y. compare_runs sample_codec sample_text (hex_text 40 CHR ''a'') ''smoke'' (Inr sample_profile)
     (JObj (sample_run True)) (JObj (sample_run False)) = Inr y"
  using sample_comparison comparison_mirrored by blast

theorem comparison_consistent_witness:
  "\<exists>x. compare_runs sample_codec sample_text (hex_text 40 CHR ''a'') ''smoke'' (Inr sample_profile)
     (JObj (sample_run False)) (JObj (sample_run True)) = Inr x \<and> list_all query_comparison_sound (rc_per_query x)"
  using sample_comparison comparison_consistent by blast




lemma sample_loaded:
  "load_and_validate sample_tool_env allowed required (Some (sample_file flipped)) (sample_run_id flipped) =
     (if required \<and> allowed (sample_run_id flipped) = None then Inl (tool_error ''run_not_trusted'')
      else if allowed (sample_run_id flipped) \<in> {None, Some sample_hash}
      then Inr \<lparr>vr_payload = JObj (sample_run flipped), vr_run = sample_evaluated flipped, vr_artifact_sha256 = sample_hash\<rparr>
      else Inl (tool_error ''run_integrity_failed''))"
proof -
  have id: "RUN_ID_PATTERN (sample_run_id flipped)"
    using validate_run_wf [OF sample_run_valid, of flipped] by (simp add: run_wf_def sample_evaluated_def)
  have parse: "tv_parse sample_tool_env (rf_parsed (sample_file flipped)) = Inr (JObj (sample_run flipped))"
    by (cases flipped) (simp_all add: sample_tool_env_def sample_file_def Let_def)
  have "jget (JObj (sample_run flipped)) ''run_id'' = JStr (sample_run_id flipped)" by (simp add: jget_def dget_def sample_run_def)
  then have load: "load_run_from_store sample_tool_env (sample_run_id flipped) (rf_parsed (sample_file flipped)) = Inr (JObj (sample_run flipped))"
    by (simp add: load_run_from_store_def parse)
  have "validate_trusted_run (tv_codec sample_tool_env) (tv_text sample_tool_env) ''smoke'' (tv_profile sample_tool_env) (JObj (sample_run flipped)) =
      Inr (sample_evaluated flipped)"
    by (simp add: validate_trusted_run_def ensure_profile_authorized_def sample_tool_env_def sample_run_valid sample_provenance)
  moreover have "cd_sha (tv_codec sample_tool_env) t = sample_hash" for t by (simp add: sample_tool_env_def sample_codec_def)
  moreover have "er_ranker_id (sample_evaluated flipped) \<in> set ALLOWED_RANKER_IDS"
    by (simp add: sample_evaluated_def sample_ranker_id_def ALLOWED_RANKER_IDS_def)
  ultimately show ?thesis using id load by (auto simp: load_and_validate_def recast_invalid_def Let_def)
qed


definition content_text :: "codec \<Rightarrow> json \<Rightarrow> string" where
  "content_text c v = (case v of JObj d \<Rightarrow> cd_ser c (sort_keys (JObj (filter (\<lambda>p. fst p \<noteq> ''run_id'') d))) | _ \<Rightarrow> [])"

lemma loaded_digest:
  assumes "load_and_validate env allowed required file run_id = Inr v"
  shows "drop (length run_id - 13) run_id = ''-'' @ take 12 (cd_sha (tv_codec env) (content_text (tv_codec env) (vr_payload v)))"
proof -
  note l = load_and_validate_Inr(2,3) [OF assms]
  obtain run where run: "vr_payload v = JObj run" using l(1) by (cases "vr_payload v") (auto simp: jget_def)
  then have "validate_digest (tv_codec env) run_id run = Inr ()"
    using l by (auto simp: validate_run_def dec_pattern_def jget_def split: if_splits)
  then show ?thesis by (auto simp: validate_digest_def canonical_json_bytes_def content_text_def run simp del: sort_keys.simps)
qed

text \<open>
  C24. An admitted Run is pinned. After any operations of the registry, resolving an admitted ID either meets a file
  with the bytes that were admitted, or a different file with the same digest; and its content has the canonical text
  of the admitted Run, or a different one whose digest has the same first 12 digits, even if the file changes between
  the reads.
\<close>

theorem registry_pins_runs:
  assumes "admit_existing env (Some f) run_id allowed = Inr (v, allowed1)"
    and "(registry_step env)\<^sup>*\<^sup>* allowed1 allowed2"
    and "resolve_run env allowed2 (Some g) run_id = Inr w"
  shows "(rf_first g = rf_first f \<or> rf_first g \<noteq> rf_first f \<and> cd_sha (tv_codec env) (rf_first g) = cd_sha (tv_codec env) (rf_first f)) \<and>
    (let text = content_text (tv_codec env) (vr_payload v); text' = content_text (tv_codec env) (vr_payload w) in
     text' = text \<or> text' \<noteq> text \<and> take 12 (cd_sha (tv_codec env) text') = take 12 (cd_sha (tv_codec env) text))"
proof -
  have "load_and_validate env allowed False (Some f) run_id = Inr v" using assms(1) by (auto simp: admit_existing_def)
  note l = load_and_validate_Inr [OF this] and d = loaded_digest [OF this]
  note l' = load_and_validate_Inr [OF assms(3) [unfolded resolve_run_def]] and d' = loaded_digest [OF assms(3) [unfolded resolve_run_def]]
  have "allowed1 run_id = Some (vr_artifact_sha256 v)" using admit_existing_Inr [OF assms(1)] by simp
  then have "allowed2 run_id = Some (vr_artifact_sha256 v)"
    using registry_steps_pins [OF assms(2)] by (auto simp: map_le_def dom_def)
  then have "vr_artifact_sha256 w = vr_artifact_sha256 v" using l'(4) by simp
  moreover have "vr_artifact_sha256 v = cd_sha (tv_codec env) (rf_first f)" "vr_artifact_sha256 w = cd_sha (tv_codec env) (rf_first g)"
    using l(1) l'(1) by auto
  ultimately show ?thesis using d d' by (simp add: Let_def)
qed

theorem registry_pins_runs_witness:
  "\<exists>v allowed1 w. admit_existing sample_tool_env (Some (sample_file True)) (sample_run_id True) (\<lambda>_. None) = Inr (v, allowed1) \<and>
     resolve_run sample_tool_env allowed1 (Some (sample_file True)) (sample_run_id True) = Inr w \<and>
     content_text sample_codec (vr_payload w) = content_text sample_codec (vr_payload v)"
proof -
  have a: "admit_existing sample_tool_env (Some (sample_file True)) (sample_run_id True) (\<lambda>_. None) =
      Inr (\<lparr>vr_payload = JObj (sample_run True), vr_run = sample_evaluated True, vr_artifact_sha256 = sample_hash\<rparr>,
           [sample_run_id True \<mapsto> sample_hash])"
    by (simp add: admit_existing_def sample_loaded)
  have r: "resolve_run sample_tool_env [sample_run_id True \<mapsto> sample_hash] (Some (sample_file True)) (sample_run_id True) =
      Inr \<lparr>vr_payload = JObj (sample_run True), vr_run = sample_evaluated True, vr_artifact_sha256 = sample_hash\<rparr>"
    by (simp add: resolve_run_def sample_loaded)
  have "rf_first (sample_file True) = rf_first (sample_file True)"
    using registry_pins_runs [OF a rtranclp.rtrancl_refl r] by blast
  then show ?thesis using a r by auto
qed


end
