(* ===== verification/BaselineProperties.thy ===== *)
theory BaselineProperties
  imports BaselineAcceptance ComparisonProperties
begin





















end
