(* ===== verification/Spec2Isabelle.thy ===== *)
theory Spec2Isabelle
  imports RunProperties EvidenceProperties RankingProperties RetrievalProperties ReleaseProperties SplitProperties StrategyProperties BaselineProperties
begin

text \<open>
  Verification library of the search-quality agent (\<^verbatim>\<open>src/search_quality\<close>).

  \<^bold>\<open>The program.\<close> An agent improves a product search. A Planner, fixed or an LLM, proposes one decision at a
  time; the Runtime (\<^verbatim>\<open>agent/runtime.py\<close>) checks it against the policy and the evidence so far, executes tools
  through a registry, and records every step in a hash-chained Trace that is stored once and for ever. A replay
  (\<^verbatim>\<open>agent/replay.py\<close>) re-checks a stored Trace without the tools. The tools measure search pipelines
  (\<^verbatim>\<open>retrieval/\<close>, \<^verbatim>\<open>ranking/\<close>) with ranking metrics (\<^verbatim>\<open>evaluation/metrics.py\<close>). A pipeline whose experiment passed
  every gate becomes a release proposal; the Owner decides on it, serving activates it, and a rollback takes it
  back (\<^verbatim>\<open>agent/retrieval_release_control.py\<close>).

  \<^bold>\<open>Conventions.\<close> A function that can raise returns a sum: \<open>Inl\<close> the exception, \<open>Inr\<close> the value (\<open>ebind\<close>,
  \<open>require\<close> of \<open>Prelude\<close>). Python values that come from JSON are the datatype \<open>json\<close> of \<open>PyValue\<close>, with
  Python's equality across \<^verbatim>\<open>bool\<close>, \<^verbatim>\<open>int\<close> and \<^verbatim>\<open>float\<close>. A pydantic model is a record with three functions:
  its validity, its dump and its strict decoder. Floats are exact: finite floats are rationals (literals such as
  0.1 are the rationals of their doubles), infinities and NaN are constructors, scores of the rankers are reals;
  rounding errors of float arithmetic are not modelled. SHA-256 and the text that \<^verbatim>\<open>json.dumps\<close> prints are the
  two fields of a \<open>codec\<close>; nothing is assumed of them except where a property says "or the payloads collide".
  The clock, the Planner and the tools act on an abstract world that is passed along.

  \<^bold>\<open>Theories and code.\<close>
  \<^item> \<open>Prelude\<close>, \<open>PyValue\<close>, \<open>Codec\<close>: errors, Python values, canonical JSON.
  \<^item> \<open>AgentContracts\<close>: \<^verbatim>\<open>agent/contracts.py\<close>, \<^verbatim>\<open>agent/errors.py\<close>: tasks, decisions, observations, audits.
  \<^item> \<open>RetrievalEvidence\<close>: the validated summaries of \<^verbatim>\<open>agent/retrieval_tools.py\<close> (gates, risks, deltas).
  \<^item> \<open>RetrievalPlanner\<close>, \<open>RetrievalPolicy\<close>, \<open>BranchingPlanner\<close>: \<^verbatim>\<open>agent/retrieval_planner.py\<close>,
    \<^verbatim>\<open>agent/retrieval_policy.py\<close>, the branching planner of \<^verbatim>\<open>agent/planner.py\<close>.
  \<^item> \<open>Grounding\<close>, \<open>ToolRegistry\<close>, \<open>Reporting\<close>: \<^verbatim>\<open>agent/grounding.py\<close>, \<^verbatim>\<open>registry.py\<close>, \<^verbatim>\<open>reporting.py\<close>.
  \<^item> \<open>TraceLog\<close>, \<open>TraceReplay\<close>: \<^verbatim>\<open>agent/trace.py\<close>, \<^verbatim>\<open>agent/replay.py\<close>. \<open>TraceChain\<close> states the hash chain as the
    locale \<open>hash_chain\<close> and interprets it on Trace events.
  \<^item> \<open>AgentRuntime\<close>: \<open>AgentRuntime.run\<close>, one definition per phase of a turn. \<open>RunInvariants\<close> and
    \<open>ReplayFidelity\<close> carry the invariant of the loop and its simulation by the replay.
  \<^item> \<open>TextTokens\<close>, \<open>Ranking\<close>, \<open>Metrics\<close>: \<^verbatim>\<open>text.py\<close>, \<^verbatim>\<open>ranking/\<close>, \<^verbatim>\<open>evaluation/metrics.py\<close>. The contract of a
    ranker is the locale \<open>candidate_ranker\<close>, interpreted on the four rankers.
  \<^item> \<open>RetrievalContracts\<close>, \<open>Rrf\<close>, \<open>TitleChannels\<close>, \<open>SearchPipeline\<close>: \<^verbatim>\<open>retrieval/\<close>. The contract of a channel is
    the locale \<open>retriever\<close>, interpreted on the BM25, exact-title and multi-field channels; the pipeline uses
    only its facts.
  \<^item> \<open>ReleaseContracts\<close>, \<open>ReleaseStore\<close>, \<open>ReleaseControl\<close>: \<^verbatim>\<open>agent/retrieval_release_control.py\<close>. An artifact
    directory is a map; an operation is a plan, its result and the files it publishes in order; \<open>perform\<close>
    publishes them. \<open>ReleaseInvariants\<close> is the transition system of all operations, including those that die
    half way, and of serving, which moves the active pointer on its own; its invariant relates every pointer
    file to the records of the earlier stages.
  \<^item> \<open>DataSplits\<close>: \<^verbatim>\<open>data/splits.py\<close>, the split of the imported queries into train, dev and test. The Unicode
    tables of NFKC and case folding are an argument.
  \<^item> \<open>StrategyContracts\<close>, \<open>StrategySearch\<close>: \<^verbatim>\<open>agent/strategy_search.py\<close> with the comparison summary of \<^verbatim>\<open>agent/tools.py\<close> that
    it scores: diagnosis of bad cases, choice of exact-boost candidates, score and gates, winner. \<open>StrategyLemmas\<close>
    shows that every result passes the validators of its model.
  \<^item> \<open>EvalRelevance\<close>, \<open>RunValidation\<close>, \<open>RunComparison\<close>, \<open>RunTools\<close>: \<^verbatim>\<open>evaluation/relevance.py\<close>,
    \<^verbatim>\<open>evaluation/comparison.py\<close> and the Run registry and handlers of \<^verbatim>\<open>agent/tools.py\<close>. A Run is untyped JSON until
    \<open>validate_run\<close> has read it into records; a file is read three times, so its three contents are arguments.
    \<open>RunComparisonLemmas\<close> matches the products of compatible Queries, \<open>RunToolsLemmas\<close> shows that the summary is
    valid and what the pins of the registry keep.
  \<^item> \<open>EvaluationBaseline\<close>: \<^verbatim>\<open>evaluation/baseline.py\<close>, which produces the Runs: frame validation, the rankers over every Query,
    metrics and the content-addressed document. \<open>BaselineLemmas\<close> follows one Query, \<open>BaselineAcceptance\<close> the whole Run
    through the checks of the validator.
  \<^item> \<open>Samples\<close>, \<open>RetrievalSamples\<close>, \<open>ReleaseSamples\<close>, \<open>RunSamples\<close>: concrete runs, evidence and stores for the witnesses.

  \<^bold>\<open>Properties.\<close>
  \<^item> \<open>RunProperties\<close> (C1-C6): every stored Trace of a run replays to the same result, is well formed, respects the
    budgets, and its verdict is grounded; an accepted Trace cannot be altered without a hash collision; one
    Trace that the Runtime stores but the replay refuses.
  \<^item> \<open>EvidenceProperties\<close> (C7-C17): the planners' finishes pass the grounding they are checked by and follow from
    the gates of the observed experiments; tools run only when authorised; the Trace store is immutable; the
    contracts decode what they dump.
  \<^item> \<open>RankingProperties\<close> (C19, C23): the BM25 ranking is an ordered permutation, nDCG lies in the unit interval;
    tokenisation round trip, bounds of the boosts, input order and hit metrics as further lemmas.
  \<^item> \<open>BaselineProperties\<close> (C20): what the baseline produces is accepted by the validator.
  \<^item> \<open>ComparisonProperties\<close> (C18, C21, C22, C24): comparisons are mirrored and consistent, the summary of the tool is
    valid and can be scored, an admitted Run stays pinned.
  \<^item> \<open>RetrievalProperties\<close> (C26-C29, C31, C32): reciprocal-rank fusion returns the best products with their provenance and
    respects dominance; the channels return exactly what they promise; a valid pipeline answers every query,
    and with sufficient limits loses no document that shares a title token.
  \<^item> \<open>ReleaseProperties\<close> (C33-C38): published records never change, each stage rests on the one before, the shown
    lifecycle is the supported one, decisions are idempotent for ever and survive a crash after any file; one
    interruption that blocks a proposal.
  \<^item> \<open>SplitProperties\<close> (C25, C30): the split leaks nothing, has the configured sizes and does not depend on the
    order of the queries.
  \<^item> \<open>StrategyProperties\<close> (C39, C40): a diagnosis names exactly the causes that its evidence shows and what the boosted
    ranker gains from them; the winner keeps the release bounds and is the best candidate that does.
  \<^bold>\<open>Termination.\<close> \<open>run_loop\<close> recurses on the remaining steps of the policy (\<open>rp_max_steps\<close> minus the Planner steps
  taken), so no fuel is needed; every other loop of the code is a structural recursion.

  \<^bold>\<open>Not modelled.\<close> Logging, command lines, the file system beneath the stores (symbolic links, locks, partial
  writes of one file), HTTP and subprocesses (\<^verbatim>\<open>agent/llm_*.py\<close>, \<^verbatim>\<open>bad_cases/\<close>, \<^verbatim>\<open>backends/\<close>, \<^verbatim>\<open>apps/api\<close>), the
  SQLite and memory-mapped catalog (\<^verbatim>\<open>catalog/\<close>), Parquet import (\<^verbatim>\<open>data/esci.py\<close>). The handlers that run
  experiments and the re-validation of the evidence of a release read whole Run files; they enter the model as
  arguments. Still open: the retrieval evaluation (\<^verbatim>\<open>evaluation/retrieval*.py\<close>), stage diagnosis
  and the optimisation service, the human oracle, the query constructor and the diagnostic router.
\<close>

end
